(* ===== verification/Prelude.thy ===== *)
theory Prelude
  imports Main "HOL-Library.AList" "HOL-Library.Sublist"
begin

text \<open>
  Shared vocabulary of the development: the Go value types the server uses (byte strings,
  instants, durations), the functions of Go's \<^verbatim>\<open>strings\<close> package that the sources call, and
  the generic lemmas on association lists and searches that the component theories share.

  A Go string is a sequence of bytes, so it is a \<^typ>\<open>string\<close> (a list of 8-bit characters).
  A \<^verbatim>\<open>time.Time\<close> is the number of nanoseconds since 0001-01-01T00:00:00Z: the zero
  value of the Go type is \<open>0\<close> and \<^verbatim>\<open>IsZero\<close> is equality with it, and \<^verbatim>\<open>Truncate\<close>
  rounds down to a multiple of the window counted from that same instant.
  A Go map that the code ranges over is an association list: the order of the list is the
  order in which one range statement visits the map.
\<close>

type_synonym time = int
type_synonym duration = int
type_synonym 'v gomap = "(string \<times> 'v) list"

named_theorems go_simps "functions of the Go standard library, as rewrite rules"
named_theorems wf_intros "preservation of the components' invariants"

section \<open>Times\<close>

definition zeroTime :: time where
  "zeroTime = 0"

definition IsZero :: "time \<Rightarrow> bool" where
  "IsZero t \<longleftrightarrow> t = zeroTime"

definition Before :: "time \<Rightarrow> time \<Rightarrow> bool" where
  "Before t u \<longleftrightarrow> t < u"

definition Second :: duration where
  "Second = 1000000000"

definition Minute :: duration where
  "Minute = 60 * Second"

lemmas time_defs = zeroTime_def IsZero_def Before_def Second_def Minute_def

section \<open>Strings\<close>

definition HasPrefix :: "string \<Rightarrow> string \<Rightarrow> bool" where
  "HasPrefix s p \<longleftrightarrow> prefix p s"

definition HasSuffix :: "string \<Rightarrow> string \<Rightarrow> bool" where
  "HasSuffix s q \<longleftrightarrow> suffix q s"

definition Contains :: "string \<Rightarrow> string \<Rightarrow> bool" where
  "Contains s sub \<longleftrightarrow> sublist sub s"

definition TrimPrefix :: "string \<Rightarrow> string \<Rightarrow> string" where
  "TrimPrefix s p = (if HasPrefix s p then drop (length p) s else s)"

definition TrimSuffix :: "string \<Rightarrow> string \<Rightarrow> string" where
  "TrimSuffix s q = (if HasSuffix s q then take (length s - length q) s else s)"

text \<open>
  \<^verbatim>\<open>strings.ToLower\<close>: an ASCII string is lowered byte by byte; a string with a byte of 128
  or more is lowered through the Unicode tables, which are the argument \<open>ul\<close>.
\<close>

definition asciiLower :: "char \<Rightarrow> char" where
  "asciiLower c = (if 65 \<le> (of_char c :: nat) \<and> of_char c \<le> (90 :: nat)
                   then char_of ((of_char c :: nat) + 32) else c)"

definition isASCII :: "string \<Rightarrow> bool" where
  "isASCII s = list_all (\<lambda>c. (of_char c :: nat) < 128) s"

definition ToLower :: "(string \<Rightarrow> string) \<Rightarrow> string \<Rightarrow> string" where
  "ToLower ul s = (if isASCII s then map asciiLower s else ul s)"

text \<open>
  \<^verbatim>\<open>strings.TrimSpace\<close> removes, at both ends, the code points with the Unicode property
  White\_Space; \<open>go_spaces\<close> lists their UTF-8 encodings.
\<close>

definition go_spaces :: "string list" where
  "go_spaces =
     map (\<lambda>n. [char_of (n :: nat)]) [9, 10, 11, 12, 13, 32] @
     map (map char_of)
       [[0xC2, 0x85 :: nat], [0xC2, 0xA0], [0xE1, 0x9A, 0x80],
        [0xE2, 0x80, 0x80], [0xE2, 0x80, 0x81], [0xE2, 0x80, 0x82], [0xE2, 0x80, 0x83],
        [0xE2, 0x80, 0x84], [0xE2, 0x80, 0x85], [0xE2, 0x80, 0x86], [0xE2, 0x80, 0x87],
        [0xE2, 0x80, 0x88], [0xE2, 0x80, 0x89], [0xE2, 0x80, 0x8A], [0xE2, 0x80, 0xA8],
        [0xE2, 0x80, 0xA9], [0xE2, 0x80, 0xAF], [0xE2, 0x81, 0x9F], [0xE3, 0x80, 0x80]]"

lemma go_spaces_nonempty: "w \<in> set go_spaces \<Longrightarrow> w \<noteq> []"
  by (auto simp: go_spaces_def)

lemma find_space_length:
  "find Q go_spaces = Some w \<Longrightarrow> 0 < length w \<and> Q w"
  by (auto simp: find_Some_iff dest: nth_mem go_spaces_nonempty)

function trimLeftSpace :: "string \<Rightarrow> string" where
  "trimLeftSpace s =
     (case find (\<lambda>w. prefix w s) go_spaces of
        None \<Rightarrow> s
      | Some w \<Rightarrow> trimLeftSpace (drop (length w) s))"
  by pat_completeness auto
termination
  by (relation "measure length") (auto simp flip: length_greater_0_conv dest!: find_space_length prefix_length_le)

function trimRightSpace :: "string \<Rightarrow> string" where
  "trimRightSpace s =
     (case find (\<lambda>w. suffix w s) go_spaces of
        None \<Rightarrow> s
      | Some w \<Rightarrow> trimRightSpace (take (length s - length w) s))"
  by pat_completeness auto
termination
  by (relation "measure length") (auto simp flip: length_greater_0_conv dest!: find_space_length suffix_length_le)

declare trimLeftSpace.simps [simp del] trimRightSpace.simps [simp del]

definition TrimSpace :: "string \<Rightarrow> string" where
  "TrimSpace s = trimRightSpace (trimLeftSpace s)"

text \<open>\<^verbatim>\<open>strings.Join\<close>.\<close>

fun Join :: "string \<Rightarrow> string list \<Rightarrow> string" where
  "Join sep [] = []"
| "Join sep [x] = x"
| "Join sep (x # y # ys) = x @ sep @ Join sep (y # ys)"

section \<open>Searches in slices\<close>

text \<open>\<open>index_of\<close> is the loop \<^verbatim>\<open>for i := range xs { if P(xs[i]) { idx = i; break } }\<close>.\<close>

fun index_of :: "('a \<Rightarrow> bool) \<Rightarrow> 'a list \<Rightarrow> nat option" where
  "index_of P [] = None"
| "index_of P (x # xs) = (if P x then Some 0 else map_option Suc (index_of P xs))"

lemma index_of_None: "index_of P xs = None \<longleftrightarrow> (\<forall>x \<in> set xs. \<not> P x)"
  by (induction xs) auto

lemma index_of_SomeD:
  "index_of P xs = Some i \<Longrightarrow> i < length xs \<and> P (xs ! i) \<and> (\<forall>j < i. \<not> P (xs ! j))"
proof (induction xs arbitrary: i)
  case (Cons x xs)
  then show ?case
    by (auto simp: less_Suc_eq_0_disj split: if_splits)
qed simp

lemma index_of_Some_iff:
  "index_of P xs = Some i \<longleftrightarrow> i < length xs \<and> P (xs ! i) \<and> (\<forall>j < i. \<not> P (xs ! j))"
proof
  assume r: "i < length xs \<and> P (xs ! i) \<and> (\<forall>j < i. \<not> P (xs ! j))"
  then obtain k where k: "index_of P xs = Some k"
    by (cases "index_of P xs") (auto simp: index_of_None all_set_conv_all_nth)
  with r index_of_SomeD [OF k] have "k = i"
    by (metis nat_neq_iff)
  with k show "index_of P xs = Some i" by simp
qed (rule index_of_SomeD)

lemma find_SomeD: "find P xs = Some x \<Longrightarrow> x \<in> set xs \<and> P x"
  by (induction xs) (auto split: if_splits)

lemma find_append_case:
  "find P (xs @ ys) = (case find P xs of Some x \<Rightarrow> Some x | None \<Rightarrow> find P ys)"
  by (induction xs) auto

section \<open>Association lists\<close>

lemma length_update:
  "length (AList.update k v al) = (if k \<in> fst ` set al then length al else Suc (length al))"
  by (induction al) auto

lemma distinct_update' [wf_intros]:
  "distinct (map fst al) \<Longrightarrow> distinct (map fst (AList.update k v al))"
  by (rule AList.distinct_update)

lemma length_delete:
  "distinct (map fst al) \<Longrightarrow> k \<in> fst ` set al \<Longrightarrow> Suc (length (AList.delete k al)) = length al"
proof (induction al)
  case (Cons p al)
  obtain a b where p: "p = (a, b)" by (cases p)
  show ?case
  proof (cases "a = k")
    case True
    with Cons.prems p have "k \<notin> fst ` set al" by auto
    with True p show ?thesis by (simp add: AList.delete_id)
  next
    case False
    with Cons p show ?thesis by auto
  qed
qed simp

lemma map_of_filter_key:
  "distinct (map fst al) \<Longrightarrow>
   map_of (filter (\<lambda>(k, v). P v) al) k =
     (case map_of al k of None \<Rightarrow> None | Some v \<Rightarrow> if P v then Some v else None)"
  by (induction al) (auto split: option.splits simp: map_of_eq_None_iff image_iff)

lemma distinct_map_filter_fst [wf_intros]:
  "distinct (map fst al) \<Longrightarrow> distinct (map fst (filter P al))"
  by (induction al) auto

end
