(* ===== verification/Errors.thy ===== *)
theory Errors
  imports Prelude
begin

text \<open>
  Error values and the boundary that decides what a client may read of them
  (\<^verbatim>\<open>internal/errors/errors.go\<close>, with \<^verbatim>\<open>sanitizeToolErr\<close> of
  \<^verbatim>\<open>internal/mcp/addtool.go\<close>).

  A Go error is a tree. Its leaves are the package's sentinels, the sentinels of other
  packages (\<open>PkgErr\<close>, identified by the variable's name) and the errors of libraries and of
  the node (\<open>Ext\<close>, with the part of their type the program tests); its inner nodes are
  \<^verbatim>\<open>fmt.Errorf\<close> values with \<^verbatim>\<open>%w\<close> verbs (\<open>Errorf\<close>, which stores the formatted text
  and the wrapped errors, as the Go value does) and \<open>CuratedError\<close>. A nil error is \<open>None\<close>.
\<close>

section \<open>Sentinels\<close>

definition dq :: string where
  "dq = [CHR 0x22]"

datatype (plugins only: code) sentinel =
    ErrInvalidAddress | ErrInvalidBlockRef | ErrInvalidTxHash
  | ErrInvalidTopics | ErrInvalidABI | ErrInvalidSignature
  | ErrInvalidHash | ErrMissingRequired | ErrInvalidRegistryID
  | ErrInvalidRecordID | ErrInvalidChecksum | ErrInputTooLarge
  | ErrTxDecode | ErrRelayScopeRejected | ErrPrecompileValidation
  | ErrLogRangeTooWide | ErrLogRangeInvalid | ErrEmptyMetadataObject
  | ErrInvalidMatchMode | ErrInvalidFilterCombination | ErrMatchWithoutName
  | ErrInvalidCursor | ErrInvalidHexData | ErrInvalidRole
  | ErrBlockBeyondHead | ErrCallReverted | ErrRelayValueRejected
  | ErrTxNonceConflict | ErrTxAlreadyKnown | ErrTxChainIDMismatch
  | ErrInsufficientFunds | ErrBlockNotFound | ErrTxNotFound
  | ErrRegistryNotFound | ErrRecordNotFound | ErrAnchorABIMissing
  | ErrAnchorABIMethodMissing | ErrAnchorABIEmpty | ErrInvalidChainID
  | ErrEmptyTxHash | ErrWriteDisabled | ErrPermissionDenied
  | ErrAuthRequired | ErrUpstreamRPC | ErrContractCallFailed
  | ErrPrecompileCall | ErrCircuitOpen | ErrRateLimited
  | ErrUnexpectedType | ErrNodeResponseDecode | ErrNodeResponseTooLarge
  | errSafeCircuitOpen | errSafeRateLimited | errSafeUpstreamFail

primrec sentinel_text :: "sentinel \<Rightarrow> string" where
  "sentinel_text ErrInvalidAddress = ''invalid Ethereum address''"
| "sentinel_text ErrInvalidBlockRef = ''invalid block reference''"
| "sentinel_text ErrInvalidTxHash = ''invalid transaction hash''"
| "sentinel_text ErrInvalidTopics = ''invalid log topics''"
| "sentinel_text ErrInvalidABI = ''invalid ABI fragment''"
| "sentinel_text ErrInvalidSignature = ''invalid signature''"
| "sentinel_text ErrInvalidHash = ''invalid hash''"
| "sentinel_text ErrMissingRequired = ''missing required parameter''"
| "sentinel_text ErrInvalidRegistryID = ''invalid registry ID''"
| "sentinel_text ErrInvalidRecordID = ''invalid record ID''"
| "sentinel_text ErrInvalidChecksum = ''invalid checksum''"
| "sentinel_text ErrInputTooLarge = ''input exceeds maximum allowed size''"
| "sentinel_text ErrTxDecode = ''decode signed transaction''"
| "sentinel_text ErrRelayScopeRejected =
     ''transaction not relayed: this connector only broadcasts writes to the '' @
     ''NVNM anchoring registry (reads of any data are unrestricted); other '' @
     ''transaction destinations are rejected''"
| "sentinel_text ErrPrecompileValidation = ''precompile rejected input''"
| "sentinel_text ErrLogRangeTooWide =
     ''block range too wide: the upstream node caps the from_block-to_block '' @
     ''distance for log queries; narrow the range and retry''"
| "sentinel_text ErrLogRangeInvalid =
     ''invalid block range: to_block must not exceed the current chain head '' @
     ''and from_block must not exceed to_block; use to_block='' @ dq @ ''latest'' @ dq @ '' '' @
     ''or a block number at or below the head''"
| "sentinel_text ErrEmptyMetadataObject =
     ''metadata must not be the empty JSON object '' @ dq @ ''{}'' @ dq @ '' (the anchoring '' @
     ''precompile rejects it); pass a non-empty value such as a short '' @
     ''label or a JSON object with at least one field''"
| "sentinel_text ErrInvalidMatchMode = ''invalid match mode: must be exact, prefix, suffix, or contains''"
| "sentinel_text ErrInvalidFilterCombination =
     ''registry_id cannot be combined with name, match, offset, limit, or key: '' @
     ''registry_id fetches a single registry by ID, which is a '' @
     ''different query shape from a registry listing; drop the other '' @
     ''parameters, or omit registry_id to list registries''"
| "sentinel_text ErrMatchWithoutName =
     ''match requires name: the match mode only applies to a name lookup; '' @
     ''supply name, or omit match for a paged listing''"
| "sentinel_text ErrInvalidCursor =
     ''key must be the next_key from a previous unfiltered listing and '' @
     ''cannot be combined with a non-zero offset, name, match, or '' @
     ''registry_id: page with either key or offset, not both''"
| "sentinel_text ErrInvalidHexData = ''invalid hex data: must be 0x-prefixed hex with an even number of digits''"
| "sentinel_text ErrInvalidRole = ''invalid role: must be '' @ dq @ ''admin'' @ dq @ '' or '' @ dq @ ''editor'' @ dq"
| "sentinel_text ErrBlockBeyondHead =
     ''block number is beyond the current chain head: use '' @ dq @ ''latest'' @ dq @ '' or a '' @
     ''block number at or below the head (evm_get_chain_id reports it)''"
| "sentinel_text ErrCallReverted =
     ''contract call reverted: the target rejected the call (unknown function '' @
     ''selector, malformed calldata, or a failed require/permission check); '' @
     ''check `to` and `data`, and pass `from` if the function checks msg.sender''"
| "sentinel_text ErrRelayValueRejected =
     ''transaction not relayed: this connector only broadcasts zero-value calls '' @
     ''to the NVNM anchoring registry and the signed transaction carries a '' @
     ''non-zero value; re-prepare with the anchor_prepare_* tools (value is '' @
     ''always 0) and re-sign''"
| "sentinel_text ErrTxNonceConflict =
     ''transaction rejected: nonce conflict -- the signed nonce is already used '' @
     ''by a mined or pending transaction from this address; call the '' @
     ''anchor_prepare_* tool again for a fresh nonce, re-sign, and re-broadcast''"
| "sentinel_text ErrTxAlreadyKnown =
     ''transaction already known to the network: this exact signed transaction '' @
     ''is already pending or mined; do not re-broadcast -- poll '' @
     ''evm_get_transaction_receipt with its hash instead''"
| "sentinel_text ErrTxChainIDMismatch =
     ''transaction signed for a different chain: sign with the chain_id '' @
     ''returned by the anchor_prepare_* tool for this deployment''"
| "sentinel_text ErrInsufficientFunds =
     ''insufficient funds: the signer's balance does not cover gas for this '' @
     ''transaction; fund the address (nvnm_setup_wizard explains how) and '' @
     ''re-broadcast''"
| "sentinel_text ErrBlockNotFound = ''block not found''"
| "sentinel_text ErrTxNotFound = ''transaction not found''"
| "sentinel_text ErrRegistryNotFound = ''registry not found''"
| "sentinel_text ErrRecordNotFound = ''record not found''"
| "sentinel_text ErrAnchorABIMissing = ''anchor precompile ABI not loaded''"
| "sentinel_text ErrAnchorABIMethodMissing = ''anchor ABI method not found''"
| "sentinel_text ErrAnchorABIEmpty = ''anchor ABI has no methods''"
| "sentinel_text ErrInvalidChainID = ''invalid chain ID''"
| "sentinel_text ErrEmptyTxHash = ''empty transaction hash returned from broadcast''"
| "sentinel_text ErrWriteDisabled = ''write tools are not enabled''"
| "sentinel_text ErrPermissionDenied = ''permission denied''"
| "sentinel_text ErrAuthRequired = ''authentication required''"
| "sentinel_text ErrUpstreamRPC = ''upstream RPC error''"
| "sentinel_text ErrContractCallFailed = ''contract call failed''"
| "sentinel_text ErrPrecompileCall = ''precompile call failed''"
| "sentinel_text ErrCircuitOpen = ''circuit breaker is open''"
| "sentinel_text ErrRateLimited = ''upstream rate limit exceeded''"
| "sentinel_text ErrUnexpectedType = ''unexpected result type''"
| "sentinel_text ErrNodeResponseDecode = ''decode of node response failed''"
| "sentinel_text ErrNodeResponseTooLarge = ''node response exceeds maximum allowed size''"
| "sentinel_text errSafeCircuitOpen = ''service temporarily unavailable (circuit open)''"
| "sentinel_text errSafeRateLimited = ''service temporarily unavailable (rate limited)''"
| "sentinel_text errSafeUpstreamFail = ''upstream operation failed''"

declare sentinel_text.simps [simp del]

definition inputErrors :: "sentinel list" where
  "inputErrors =
     [ErrInvalidAddress, ErrInvalidBlockRef, ErrInvalidTxHash,
      ErrInvalidTopics, ErrInvalidABI, ErrInvalidSignature,
      ErrInvalidHash, ErrMissingRequired, ErrInvalidRegistryID,
      ErrInvalidRecordID, ErrInvalidChecksum, ErrInputTooLarge,
      ErrTxDecode, ErrRelayScopeRejected, ErrPrecompileValidation,
      ErrLogRangeTooWide, ErrLogRangeInvalid, ErrEmptyMetadataObject,
      ErrInvalidMatchMode, ErrInvalidFilterCombination, ErrMatchWithoutName,
      ErrInvalidCursor, ErrInvalidHexData, ErrInvalidRole,
      ErrBlockBeyondHead, ErrCallReverted, ErrRelayValueRejected,
      ErrTxNonceConflict, ErrTxAlreadyKnown, ErrTxChainIDMismatch,
      ErrInsufficientFunds]"

section \<open>Error values\<close>

datatype extkind =
    DeadlineExceeded | Canceled | EOF | UnexpectedEOF | NetError | RPCError
  | OpenState | TooManyRequests | OtherExt

datatype goerr =
    Sentinel sentinel
  | PkgErr string string
  | Ext extkind string
  | Errorf string "goerr list"
  | CuratedError goerr goerr

fun Error :: "goerr \<Rightarrow> string" where
  "Error (Sentinel s) = sentinel_text s"
| "Error (PkgErr n t) = t"
| "Error (Ext k t) = t"
| "Error (Errorf t es) = t"
| "Error (CuratedError safe raw) = Error safe"

fun Unwrap :: "goerr \<Rightarrow> goerr list" where
  "Unwrap (Errorf t es) = es"
| "Unwrap (CuratedError safe raw) = [safe, raw]"
| "Unwrap e = []"

text \<open>\<open>has P\<close> is the depth-first walk that \<^verbatim>\<open>errors.Is\<close> and \<^verbatim>\<open>errors.As\<close> share.\<close>

fun has :: "(goerr \<Rightarrow> bool) \<Rightarrow> goerr \<Rightarrow> bool" where
  "has P (Sentinel s) = P (Sentinel s)"
| "has P (PkgErr n t) = P (PkgErr n t)"
| "has P (Ext k t) = P (Ext k t)"
| "has P (Errorf t es) = (P (Errorf t es) \<or> list_ex (has P) es)"
| "has P (CuratedError safe raw) = (P (CuratedError safe raw) \<or> has P safe \<or> has P raw)"

definition Is :: "goerr \<Rightarrow> goerr \<Rightarrow> bool" where
  "Is err target = has (\<lambda>e. e = target) err"

definition IsS :: "goerr \<Rightarrow> sentinel \<Rightarrow> bool" where
  "IsS err s = Is err (Sentinel s)"

fun isExt :: "extkind \<Rightarrow> goerr \<Rightarrow> bool" where
  "isExt k (Ext k' t) = (k = k')"
| "isExt k e = False"

definition Curate :: "goerr \<Rightarrow> goerr option \<Rightarrow> goerr" where
  "Curate safe raw = (case raw of None \<Rightarrow> safe | Some r \<Rightarrow> CuratedError safe r)"

text \<open>\<open>first_curated\<close> is \<^verbatim>\<open>errors.As(err, &ce)\<close>: the first curated error of the walk.\<close>

fun first_curated :: "goerr \<Rightarrow> goerr option"
  and first_curated_list :: "goerr list \<Rightarrow> goerr option" where
  "first_curated (CuratedError safe raw) = Some raw"
| "first_curated (Errorf t es) = first_curated_list es"
| "first_curated e = None"
| "first_curated_list [] = None"
| "first_curated_list (e # es) =
     (case first_curated e of Some r \<Rightarrow> Some r | None \<Rightarrow> first_curated_list es)"

definition RawCause :: "goerr \<Rightarrow> goerr" where
  "RawCause err = (case first_curated err of Some r \<Rightarrow> r | None \<Rightarrow> err)"

definition IsInputError :: "goerr \<Rightarrow> bool" where
  "IsInputError err = list_ex (IsS err) inputErrors"

definition IsTransientError :: "goerr \<Rightarrow> bool" where
  "IsTransientError err \<longleftrightarrow> IsS err ErrUpstreamRPC \<or> IsS err ErrContractCallFailed"

definition IsNotFound :: "goerr \<Rightarrow> bool" where
  "IsNotFound err \<longleftrightarrow>
     IsS err ErrBlockNotFound \<or> IsS err ErrTxNotFound
     \<or> IsS err ErrRegistryNotFound \<or> IsS err ErrRecordNotFound"

definition SafeForClient :: "goerr option \<Rightarrow> goerr option" where
  "SafeForClient e =
     (case e of
        None \<Rightarrow> None
      | Some err \<Rightarrow>
          if IsInputError err \<or> IsNotFound err then Some err
          else if IsS err ErrAnchorABIMissing \<or> IsS err ErrWriteDisabled then Some err
          else if IsS err ErrPermissionDenied then Some err
          else if IsS err ErrAuthRequired then Some err
          else if IsS err ErrCircuitOpen then Some (Sentinel errSafeCircuitOpen)
          else if IsS err ErrRateLimited then Some (Sentinel errSafeRateLimited)
          else Some (Sentinel errSafeUpstreamFail))"

text \<open>\<open>wrapf op err\<close> is \<^verbatim>\<open>fmt.Errorf("op: %w", err)\<close>.\<close>

definition wrapf :: "string \<Rightarrow> goerr \<Rightarrow> goerr" where
  "wrapf op err = Errorf (op @ '': '' @ Error err) [err]"

text \<open>
  A tool handler returns a result, an output value and an error; \<open>sanitizeToolErr\<close> wraps it.
\<close>

definition sanitizeToolErr ::
  "('req \<Rightarrow> 'in \<Rightarrow> 'res \<times> 'out \<times> goerr option) \<Rightarrow> 'req \<Rightarrow> 'in \<Rightarrow> 'res \<times> 'out \<times> goerr option" where
  "sanitizeToolErr h req inp =
     (case h req inp of
        (res, out, Some err) \<Rightarrow> (res, out, SafeForClient (Some err))
      | (res, out, None) \<Rightarrow> (res, out, None))"

section \<open>Errors through the client boundary\<close>

lemma IsS_simps [go_simps]:
  "IsS (Sentinel t) s = (t = s)"
  "IsS (Errorf x [e]) s = IsS e s"
  "IsS (Errorf x [e, e']) s = (IsS e s \<or> IsS e' s)"
  "IsS (CuratedError e r) s = (IsS e s \<or> IsS r s)"
  "IsS (Ext k x) s = False"
  "IsS (PkgErr n x) s = False"
  by (auto simp: IsS_def Is_def)

lemma IsInputError_iff [go_simps]: "IsInputError e \<longleftrightarrow> (\<exists>s \<in> set inputErrors. IsS e s)"
  by (simp add: IsInputError_def list_ex_iff)

lemma inputError_of: "IsS e k \<Longrightarrow> k \<in> set inputErrors \<Longrightarrow> IsInputError e"
  by (auto simp: IsInputError_def list_ex_iff)

lemma inputError_wrapf: "IsInputError e \<Longrightarrow> IsInputError (wrapf op e)"
  by (auto simp: IsInputError_def list_ex_iff wrapf_def IsS_def Is_def)

lemma input_wrapf: "s \<in> set inputErrors \<Longrightarrow> IsInputError (wrapf op (Sentinel s))"
  by (auto simp: wrapf_def go_simps)

lemma input_Sentinel: "s \<in> set inputErrors \<Longrightarrow> IsInputError (Sentinel s)"
  by (auto simp: go_simps)

text \<open>
  The sentinels whose carriers \<^verbatim>\<open>SafeForClient\<close> returns unchanged, and the errors of
  libraries and of the node, which carry none of the program's sentinels.
\<close>

definition disclosed :: "sentinel list" where
  "disclosed = inputErrors @
     [ErrBlockNotFound, ErrTxNotFound, ErrRegistryNotFound, ErrRecordNotFound,
      ErrAnchorABIMissing, ErrWriteDisabled, ErrPermissionDenied, ErrAuthRequired]"

fun isSentinel :: "goerr \<Rightarrow> bool" where
  "isSentinel (Sentinel s) = True"
| "isSentinel e = False"

definition external :: "goerr \<Rightarrow> bool" where
  "external e \<longleftrightarrow> \<not> has isSentinel e"

definition client_text :: "goerr \<Rightarrow> string" where
  "client_text e = (case SafeForClient (Some e) of None \<Rightarrow> '''' | Some c \<Rightarrow> Error c)"

definition generic_texts :: "string set" where
  "generic_texts = sentinel_text ` {errSafeCircuitOpen, errSafeRateLimited, errSafeUpstreamFail}"

lemma has_mono: "(\<And>x. P x \<Longrightarrow> Q x) \<Longrightarrow> has P e \<Longrightarrow> has Q e"
  by (induction P e rule: has.induct) (auto simp: list_ex_iff)

lemma external_not_IsS: "external e \<Longrightarrow> \<not> IsS e s"
  unfolding external_def IsS_def Is_def using has_mono [of "\<lambda>x. x = Sentinel s" isSentinel e] by auto

lemma client_text_cases:
  "client_text e =
     (if \<exists>s \<in> set disclosed. IsS e s then Error e
      else if IsS e ErrCircuitOpen then sentinel_text errSafeCircuitOpen
      else if IsS e ErrRateLimited then sentinel_text errSafeRateLimited
      else sentinel_text errSafeUpstreamFail)"
  by (auto simp: client_text_def SafeForClient_def disclosed_def IsNotFound_def IsInputError_iff)

lemma client_text_collapse:
  "(\<And>s. s \<in> set disclosed \<Longrightarrow> \<not> IsS e s) \<Longrightarrow> client_text e \<in> generic_texts"
  by (auto simp: client_text_cases generic_texts_def)

lemma client_text_external: "external e \<Longrightarrow> client_text e = sentinel_text errSafeUpstreamFail"
  by (simp add: client_text_cases external_not_IsS)

lemma client_text_wrapf_external:
  "external e \<Longrightarrow> client_text (wrapf op e) = sentinel_text errSafeUpstreamFail"
  by (simp add: client_text_cases external_not_IsS wrapf_def go_simps)

end
