(* ===== verification/Go_Codec.thy ===== *)
theory Go_Codec
  imports Prelude "HOL-Library.Word"
begin

text \<open>
  The textual encodings of Go's standard library that the server uses: decimal numerals
  (\<^verbatim>\<open>strconv\<close>, \<^verbatim>\<open>%d\<close>, \<^verbatim>\<open>big.Int.String\<close>), \<^verbatim>\<open>encoding/hex\<close> and
  \<^verbatim>\<open>encoding/base64\<close>, with the round trips that the components rely on. A byte slice
  is a list of characters, like a Go string.
\<close>

type_synonym bytes = "char list"
type_synonym uint64 = "64 word"

section \<open>Decimal numerals\<close>

definition digitChar :: "nat \<Rightarrow> char" where
  "digitChar d = char_of (48 + d)"

fun dec_nat :: "nat \<Rightarrow> string" where
  "dec_nat n = (if n < 10 then [digitChar n] else dec_nat (n div 10) @ [digitChar (n mod 10)])"

declare dec_nat.simps [simp del]

definition dec_int :: "int \<Rightarrow> string" where
  "dec_int i = (if i < 0 then CHR ''-'' # dec_nat (nat (- i)) else dec_nat (nat i))"

definition digitVal :: "char \<Rightarrow> nat option" where
  "digitVal c = (let n = (of_char c :: nat) in if 48 \<le> n \<and> n \<le> 57 then Some (n - 48) else None)"

fun parse_digits :: "nat \<Rightarrow> string \<Rightarrow> nat option" where
  "parse_digits acc [] = Some acc"
| "parse_digits acc (c # cs) =
     (case digitVal c of None \<Rightarrow> None | Some d \<Rightarrow> parse_digits (10 * acc + d) cs)"

text \<open>\<^verbatim>\<open>strconv.Atoi\<close>: an optional sign and decimal digits, within 64 bits.\<close>

definition Atoi :: "string \<Rightarrow> int option" where
  "Atoi s =
     (let neg = HasPrefix s ''-'';
          d = (if neg \<or> HasPrefix s ''+'' then drop 1 s else s)
      in if d = '''' then None
         else case parse_digits 0 d of
                None \<Rightarrow> None
              | Some n \<Rightarrow>
                  if neg then (if n \<le> 2 ^ 63 then Some (- int n) else None)
                  else if n < 2 ^ 63 then Some (int n) else None)"

text \<open>\<^verbatim>\<open>big.Int.Uint64\<close>: the low 64 bits of the absolute value.\<close>

definition bigUint64 :: "int \<Rightarrow> uint64" where
  "bigUint64 x = word_of_int \<bar>x\<bar>"

lemma bigUint64_exact: "0 \<le> x \<Longrightarrow> x < 2 ^ 64 \<Longrightarrow> uint (bigUint64 x) = x"
  by (simp add: bigUint64_def uint_word_of_int take_bit_int_eq_self)

text \<open>A conversion to \<^verbatim>\<open>int64\<close>, and \<^verbatim>\<open>big.Int.Int64\<close>: the low 64 bits as a signed number.\<close>

definition int64 :: "int \<Rightarrow> int" where
  "int64 x = sint (word_of_int x :: 64 word)"

lemma int64_exact: "- (2 ^ 63) \<le> x \<Longrightarrow> x < 2 ^ 63 \<Longrightarrow> int64 x = x"
  by (simp add: int64_def sint_sbintrunc' signed_take_bit_int_eq_self)

section \<open>Hexadecimal\<close>

definition hexDigit :: "nat \<Rightarrow> char" where
  "hexDigit n = (if n < 10 then char_of (48 + n) else char_of (87 + n))"

fun EncodeToString :: "bytes \<Rightarrow> string" where
  "EncodeToString [] = []"
| "EncodeToString (b # bs) =
     hexDigit (of_char b div 16) # hexDigit (of_char b mod 16) # EncodeToString bs"

definition fromHexChar :: "char \<Rightarrow> nat option" where
  "fromHexChar c =
     (let n = (of_char c :: nat)
      in if 48 \<le> n \<and> n \<le> 57 then Some (n - 48)
         else if 97 \<le> n \<and> n \<le> 102 then Some (n - 87)
         else if 65 \<le> n \<and> n \<le> 70 then Some (n - 55)
         else None)"

datatype hex_error = InvalidByteError char | ErrLength

fun DecodeString :: "string \<Rightarrow> hex_error + bytes" where
  "DecodeString [] = Inr []"
| "DecodeString [c] = Inl (case fromHexChar c of None \<Rightarrow> InvalidByteError c | Some _ \<Rightarrow> ErrLength)"
| "DecodeString (p # q # s) =
     (case fromHexChar p of
        None \<Rightarrow> Inl (InvalidByteError p)
      | Some a \<Rightarrow>
          (case fromHexChar q of
             None \<Rightarrow> Inl (InvalidByteError q)
           | Some b \<Rightarrow>
               (case DecodeString s of
                  Inl e \<Rightarrow> Inl e
                | Inr bs \<Rightarrow> Inr (char_of (16 * a + b) # bs))))"

text \<open>
  The text of \<^verbatim>\<open>hex.InvalidByteError\<close> formats the byte with \<^verbatim>\<open>%#U\<close>: the code point in
  upper-case hexadecimal, and the character itself in quotes when it is printable.
\<close>

definition upHexDigit :: "nat \<Rightarrow> char" where
  "upHexDigit n = (if n < 10 then char_of (48 + n) else char_of (55 + n))"

definition runeBytes :: "nat \<Rightarrow> string" where
  "runeBytes n = (if n < 128 then [char_of n] else [char_of (192 + n div 64), char_of (128 + n mod 64)])"

fun hexErrText :: "hex_error \<Rightarrow> string" where
  "hexErrText (InvalidByteError c) =
     (let n = (of_char c :: nat);
          printable = 32 \<le> n \<and> n \<le> 126 \<or> 161 \<le> n \<and> n \<noteq> 173
      in ''encoding/hex: invalid byte: U+00'' @ [upHexDigit (n div 16), upHexDigit (n mod 16)] @
         (if printable then '' '' @ [CHR 0x27] @ runeBytes n @ [CHR 0x27] else ''''))"
| "hexErrText ErrLength = ''encoding/hex: odd length hex string''"

lemma of_char_less [simp]: "(of_char c :: nat) < 256"
proof -
  have "(of_char c :: nat) = of_char c mod 256" by simp
  then show ?thesis by (metis mod_less_divisor zero_less_numeral)
qed

lemma of_char_hexDigit:
  "n < 16 \<Longrightarrow> (of_char (hexDigit n) :: nat) = (if n < 10 then 48 + n else 87 + n)"
  by (simp add: hexDigit_def)

lemma fromHexChar_hexDigit: "n < 16 \<Longrightarrow> fromHexChar (hexDigit n) = Some n"
  by (simp add: fromHexChar_def of_char_hexDigit)

lemma DecodeString_Encode [go_simps]: "DecodeString (EncodeToString bs) = Inr bs"
proof (induction bs)
  case (Cons b bs)
  have "(of_char b :: nat) div 16 < 16"
    using of_char_less [of b] by (simp add: less_mult_imp_div_less)
  with Cons show ?case
    by (simp add: fromHexChar_hexDigit)
qed simp

lemma length_EncodeToString: "length (EncodeToString bs) = 2 * length bs"
  by (induction bs) simp_all

lemma DecodeString_length: "DecodeString s = Inr bs \<Longrightarrow> length s = 2 * length bs"
  by (induction s arbitrary: bs rule: DecodeString.induct) (auto split: option.splits sum.splits)


section \<open>Case and quoting\<close>

text \<open>
  The Unicode tables of Go's runtime, consulted only for strings that are not ASCII.
\<close>

record unicode_tables =
  uLower :: "string \<Rightarrow> string"
  uUpper :: "string \<Rightarrow> string"
  uQuote :: "string \<Rightarrow> string"

definition asciiUpper :: "char \<Rightarrow> char" where
  "asciiUpper c = (if 97 \<le> (of_char c :: nat) \<and> of_char c \<le> (122 :: nat)
                   then char_of ((of_char c :: nat) - 32) else c)"

definition ToUpper :: "(string \<Rightarrow> string) \<Rightarrow> string \<Rightarrow> string" where
  "ToUpper uu s = (if isASCII s then map asciiUpper s else uu s)"

text \<open>\<open>quoteByte\<close> and \<open>Quote\<close>: the \<^verbatim>\<open>%q\<close> verb (\<^verbatim>\<open>strconv.Quote\<close>).\<close>

definition quoteByte :: "char \<Rightarrow> string" where
  "quoteByte c =
     (let n = (of_char c :: nat); bs = CHR 0x5C
      in if n = 34 \<or> n = 92 then [bs, c]
         else if 32 \<le> n \<and> n \<le> 126 then [c]
         else if n = 7 then [bs, CHR ''a''] else if n = 8 then [bs, CHR ''b'']
         else if n = 12 then [bs, CHR ''f''] else if n = 10 then [bs, CHR ''n'']
         else if n = 13 then [bs, CHR ''r''] else if n = 9 then [bs, CHR ''t'']
         else if n = 11 then [bs, CHR ''v'']
         else [bs, CHR ''x'', hexDigit (n div 16), hexDigit (n mod 16)])"

definition Quote :: "(string \<Rightarrow> string) \<Rightarrow> string \<Rightarrow> string" where
  "Quote uq s =
     [CHR 0x22] @ (if isASCII s then concat (map quoteByte s) else uq s) @ [CHR 0x22]"

lemma DecodeString_ASCII: "DecodeString s = Inr bs \<Longrightarrow> isASCII s"
  by (induction s arbitrary: bs rule: DecodeString.induct)
     (auto simp: isASCII_def fromHexChar_def Let_def split: option.splits sum.splits if_splits)


section \<open>Base64\<close>

text \<open>
  \<^verbatim>\<open>encoding/base64\<close>: \<open>b64enc al pad\<close> encodes with the digit table \<open>al\<close>, padded with
  \<^verbatim>\<open>=\<close> when \<open>pad\<close> holds (\<^verbatim>\<open>StdEncoding\<close>) and unpadded otherwise (\<^verbatim>\<open>RawURLEncoding\<close>).
\<close>

definition urlDigit :: "nat \<Rightarrow> char" where
  "urlDigit n = (if n < 26 then char_of (65 + n) else if n < 52 then char_of (71 + n)
                 else if n < 62 then char_of (n - 4) else if n = 62 then CHR ''-'' else CHR ''_'')"

definition stdDigit :: "nat \<Rightarrow> char" where
  "stdDigit n = (if n < 26 then char_of (65 + n) else if n < 52 then char_of (71 + n)
                 else if n < 62 then char_of (n - 4) else if n = 62 then CHR ''+'' else CHR ''/'')"

fun b64enc :: "(nat \<Rightarrow> char) \<Rightarrow> bool \<Rightarrow> bytes \<Rightarrow> string" where
  "b64enc al pad [] = []"
| "b64enc al pad [a] =
     [al (of_char a div 4), al (of_char a mod 4 * 16)] @ (if pad then ''=='' else '''')"
| "b64enc al pad [a, b] =
     [al (of_char a div 4), al (of_char a mod 4 * 16 + of_char b div 16), al (of_char b mod 16 * 4)]
       @ (if pad then ''='' else '''')"
| "b64enc al pad (a # b # c # r) =
     [al (of_char a div 4), al (of_char a mod 4 * 16 + of_char b div 16),
      al (of_char b mod 16 * 4 + of_char c div 64), al (of_char c mod 64)] @ b64enc al pad r"

end
