(* ===== verification/Evm_Types.thy ===== *)
theory Evm_Types
  imports Errors Go_Codec
begin

text \<open>
  Chain data as the node's client library hands it over, and the response shapes the server
  derives from it: addresses and hashes (\<^verbatim>\<open>internal/evm/addrhex.go\<close>), the normalized
  types (\<^verbatim>\<open>internal/evm/types.go\<close>) and the functions that fill them
  (\<^verbatim>\<open>internal/evm/normalize.go\<close>).

  Pointers of the Go structs are options. A 20-byte address and a 32-byte hash are byte
  lists. A computation that may panic is an \<open>outcome\<close>: it panics, fails or returns.
\<close>

type_synonym address = bytes
type_synonym hash = bytes

datatype 'a outcome = Panics | Fails goerr | Returns 'a

fun bindO :: "'a outcome \<Rightarrow> ('a \<Rightarrow> 'b outcome) \<Rightarrow> 'b outcome" where
  "bindO Panics f = Panics"
| "bindO (Fails e) f = Fails e"
| "bindO (Returns a) f = f a"

definition deref :: "'a option \<Rightarrow> 'a outcome" where
  "deref p = (case p of None \<Rightarrow> Panics | Some a \<Rightarrow> Returns a)"

section \<open>Addresses and hashes\<close>

definition zeroHash :: hash where
  "zeroHash = replicate 32 (char_of (0 :: nat))"

definition BytesToHex :: "bytes \<Rightarrow> string" where
  "BytesToHex bs = ''0x'' @ EncodeToString bs"

definition HashHex :: "hash \<Rightarrow> string" where
  "HashHex h = BytesToHex h"

text \<open>
  \<^verbatim>\<open>Address.Checksum\<close>: hex digit \<open>i\<close> is raised to upper case when it is a letter and
  nibble \<open>i\<close> of the hash of the lower-case digits is at least 8. The hash function \<open>kec\<close> is a
  parameter.
\<close>

definition nibble :: "bytes \<Rightarrow> nat \<Rightarrow> nat" where
  "nibble h i = (let b = (of_char (h ! (i div 2)) :: nat) in if even i then b div 16 else b mod 16)"

definition checksumDigits :: "(bytes \<Rightarrow> hash) \<Rightarrow> string \<Rightarrow> string" where
  "checksumDigits kec hex =
     (let h = kec hex
      in map (\<lambda>i. if digitVal (hex ! i) = None \<and> 8 \<le> nibble h i then asciiUpper (hex ! i) else hex ! i)
             [0..<length hex])"

definition AddressHex :: "(bytes \<Rightarrow> hash) \<Rightarrow> address \<Rightarrow> string" where
  "AddressHex kec a = ''0x'' @ checksumDigits kec (EncodeToString a)"

definition Has0xPrefix :: "string \<Rightarrow> bool" where
  "Has0xPrefix h \<longleftrightarrow> HasPrefix h ''0x'' \<or> HasPrefix h ''0X''"

definition HexToBytes :: "string \<Rightarrow> bytes option" where
  "HexToBytes h =
     (if h = '''' then Some []
      else
        let d = (if Has0xPrefix h then drop 2 h else h)
        in if d = ''0'' then Some [char_of (0 :: nat)]
           else if d = '''' then Some []
           else if odd (length d) then None
           else case DecodeString d of Inl _ \<Rightarrow> None | Inr bs \<Rightarrow> Some bs)"

definition AddressFromHex :: "string \<Rightarrow> address option" where
  "AddressFromHex s =
     (case HexToBytes s of
        None \<Rightarrow> None
      | Some d \<Rightarrow> if length d \<noteq> 20 then None else Some d)"

definition ParseAddress :: "unicode_tables \<Rightarrow> (bytes \<Rightarrow> hash) \<Rightarrow> string \<Rightarrow> goerr + address" where
  "ParseAddress ut kec s =
     (case AddressFromHex s of
        None \<Rightarrow>
          Inl (Errorf (Quote (uQuote ut) s @ '': '' @ sentinel_text ErrInvalidAddress)
                      [Sentinel ErrInvalidAddress])
      | Some addr \<Rightarrow>
          let hexPart = TrimPrefix (TrimPrefix s ''0x'') ''0X'' in
          if hexPart = ToLower (uLower ut) hexPart \<or> hexPart = ToUpper (uUpper ut) hexPart
          then Inr addr
          else
            let want = AddressHex kec addr in
            if s \<noteq> want \<and> ''0x'' @ hexPart \<noteq> want then
              Inl (Errorf (Quote (uQuote ut) s
                            @ '': mixed-case address fails the EIP-55 checksum (expected '' @ want
                            @ ''; use that spelling or all-lowercase hex): ''
                            @ sentinel_text ErrInvalidAddress)
                          [Sentinel ErrInvalidAddress])
            else Inr addr)"

lemma ParseAddress_input: "ParseAddress ut kec s = Inl e \<Longrightarrow> IsS e ErrInvalidAddress"
  by (auto simp: ParseAddress_def Let_def go_simps split: option.splits if_splits)

lemma ParseAddress_20: "ParseAddress ut kec s = Inr a \<Longrightarrow> length a = 20"
  by (auto simp: ParseAddress_def AddressFromHex_def Let_def split: option.splits if_splits)

section \<open>Parsing what was printed\<close>

definition sameHex :: "char \<Rightarrow> char \<Rightarrow> bool" where
  "sameHex c d \<longleftrightarrow> (\<exists>n. fromHexChar c = Some n \<and> fromHexChar d = Some n)"

lemma DecodeString_sameHex:
  "list_all2 sameHex s t \<Longrightarrow> DecodeString s = DecodeString t"
proof (induction s arbitrary: t rule: DecodeString.induct)
  case (2 c)
  then show ?case by (auto simp: list_all2_Cons1 sameHex_def)
next
  case (3 p q s)
  then obtain p' q' t' where "t = p' # q' # t'" "sameHex p p'" "sameHex q q'" "list_all2 sameHex s t'"
    by (auto simp: list_all2_Cons1)
  with 3 show ?case by (auto simp: sameHex_def split: option.split)
qed simp

lemma fromHexChar_upper:
  "fromHexChar c = Some n \<Longrightarrow> digitVal c = None \<Longrightarrow> fromHexChar (asciiUpper c) = Some n"
  by (auto simp: fromHexChar_def digitVal_def asciiUpper_def Let_def split: if_splits)

lemma EncodeToString_digits: "c \<in> set (EncodeToString a) \<Longrightarrow> \<exists>n. fromHexChar c = Some n"
proof (induction a)
  case (Cons b a)
  have "(of_char b :: nat) div 16 < 16"
    using of_char_less [of b] by (simp add: less_mult_imp_div_less)
  then have "\<exists>n. fromHexChar (hexDigit (of_char b div 16)) = Some n"
    "\<exists>n. fromHexChar (hexDigit (of_char b mod 16)) = Some n"
    by (simp_all add: fromHexChar_hexDigit)
  with Cons show ?case by auto
qed simp

lemma checksumDigits_sameHex:
  "list_all2 sameHex (checksumDigits kec (EncodeToString a)) (EncodeToString a)"
proof (rule list_all2_all_nthI)
  fix i assume "i < length (checksumDigits kec (EncodeToString a))"
  then have i: "i < length (EncodeToString a)" by (simp add: checksumDigits_def Let_def)
  then obtain n where "fromHexChar (EncodeToString a ! i) = Some n"
    using EncodeToString_digits nth_mem by blast
  with i show "sameHex (checksumDigits kec (EncodeToString a) ! i) (EncodeToString a ! i)"
    by (auto simp: sameHex_def fromHexChar_upper checksumDigits_def Let_def)
qed (simp add: checksumDigits_def Let_def)

lemma DecodeString_checksum: "DecodeString (checksumDigits kec (EncodeToString a)) = Inr a"
  using DecodeString_sameHex [OF checksumDigits_sameHex [of kec a]] by (simp add: go_simps)

lemma length_checksumDigits [simp]: "length (checksumDigits kec s) = length s"
  by (simp add: checksumDigits_def Let_def)

lemma AddressFromHex_AddressHex: "length a = 20 \<Longrightarrow> AddressFromHex (AddressHex kec a) = Some a"
proof -
  assume a: "length a = 20"
  let ?d = "checksumDigits kec (EncodeToString a)"
  have l: "length ?d = 40" using a by (simp add: length_EncodeToString)
  then have "?d \<noteq> ''0''" "?d \<noteq> ''''" by (metis list.size(3,4) One_nat_def Suc_eq_plus1 add_0 numeral_eq_one_iff semiring_norm(83) zero_neq_numeral, metis list.size(3) zero_neq_numeral)
  then have "HexToBytes (AddressHex kec a) = Some a"
    using l by (simp add: HexToBytes_def AddressHex_def Has0xPrefix_def HasPrefix_def
        DecodeString_checksum)
  with a show ?thesis by (simp add: AddressFromHex_def)
qed

text \<open>
  Address spelling. Every 20-byte address is accepted in the spelling the server
  prints it in, and parses to itself. Conversely a spelling that is accepted denotes 20
  bytes and is either of one case throughout or exactly the checksummed spelling of the
  address it denotes, so a mixed-case typing error is never accepted; every rejection is an
  input error, which clients get to read.
\<close>

theorem ParseAddress_roundtrip:
  "(length a = 20 \<longrightarrow> ParseAddress ut kec (AddressHex kec a) = Inr a)
   \<and> (case ParseAddress ut kec s of
        Inl e \<Rightarrow> IsInputError e
      | Inr b \<Rightarrow>
          length b = 20 \<and> AddressFromHex s = Some b \<and>
          (let p = TrimPrefix (TrimPrefix s ''0x'') ''0X''
           in p = ToLower (uLower ut) p \<or> p = ToUpper (uUpper ut) p
              \<or> s = AddressHex kec b \<or> ''0x'' @ p = AddressHex kec b))"
proof
  show "length a = 20 \<longrightarrow> ParseAddress ut kec (AddressHex kec a) = Inr a"
    by (auto simp: ParseAddress_def AddressFromHex_AddressHex Let_def)
  have "IsInputError (Errorf t [Sentinel ErrInvalidAddress])" for t
    by (simp add: IsInputError_def inputErrors_def IsS_def Is_def)
  then show "(case ParseAddress ut kec s of
        Inl e \<Rightarrow> IsInputError e
      | Inr b \<Rightarrow>
          length b = 20 \<and> AddressFromHex s = Some b \<and>
          (let p = TrimPrefix (TrimPrefix s ''0x'') ''0X''
           in p = ToLower (uLower ut) p \<or> p = ToUpper (uUpper ut) p
              \<or> s = AddressHex kec b \<or> ''0x'' @ p = AddressHex kec b))"
    by (auto simp: ParseAddress_def Let_def AddressFromHex_def split: option.split if_splits)
qed

definition plain_tables :: unicode_tables where
  "plain_tables = \<lparr>uLower = id, uUpper = id, uQuote = id\<rparr>"

definition flat_hash :: "bytes \<Rightarrow> hash" where
  "flat_hash bs = replicate 32 (char_of (128 + length bs))"

theorem ParseAddress_roundtrip_witness:
  "ParseAddress plain_tables flat_hash (AddressHex flat_hash (replicate 20 (CHR 0xAB)))
     = Inr (replicate 20 (CHR 0xAB))"
  using ParseAddress_roundtrip [of "replicate 20 (CHR 0xAB)" plain_tables flat_hash] by simp

section \<open>Chain data and response shapes\<close>

text \<open>The fields of the client library's structs that the server reads.\<close>

record OnChainTransaction =
  tx_From :: "address option"
  tx_To :: "address option"
  tx_GasLimit :: "uint64 option"
  tx_GasPrice :: "int option"
  tx_Value :: "int option"
  tx_Input :: bytes
  tx_MaxFeePerGas :: "int option"
  tx_Nonce :: "uint64 option"
  tx_Hash :: "hash option"
  tx_BlockHash :: "hash option"
  tx_BlockNumber :: "int option"
  tx_TransactionIndex :: "uint64 option"

record Block =
  bl_Number :: "int option"
  bl_Hash :: hash
  bl_ParentHash :: hash
  bl_Miner :: address
  bl_GasLimit :: uint64
  bl_GasUsed :: uint64
  bl_Timestamp :: int
  bl_Transactions :: "OnChainTransaction list"
  bl_TransactionHashes :: "hash list"

record Log =
  lg_Address :: address
  lg_Topics :: "hash list"
  lg_Data :: bytes
  lg_BlockNumber :: "int option"
  lg_TransactionHash :: "hash option"
  lg_TransactionIndex :: "uint64 option"
  lg_LogIndex :: "uint64 option"
  lg_Removed :: bool

record defiReceipt =
  rc_TransactionHash :: hash
  rc_TransactionIndex :: uint64
  rc_BlockHash :: hash
  rc_BlockNumber :: "int option"
  rc_CumulativeGasUsed :: uint64
  rc_GasUsed :: uint64
  rc_ContractAddress :: "address option"
  rc_Logs :: "Log list"
  rc_Status :: "uint64 option"

record NormalizedTxSummary =
  ns_Hash :: string
  ns_Index :: uint64
  ns_From :: string
  ns_To :: string
  ns_Value :: string

record NormalizedBlock =
  nb_Number :: uint64
  nb_Hash :: string
  nb_ParentHash :: string
  nb_TimestampUnix :: uint64
  nb_GasLimit :: uint64
  nb_GasUsed :: uint64
  nb_Miner :: string
  nb_TransactionCount :: nat
  nb_Transactions :: "NormalizedTxSummary list"

record NormalizedTransaction =
  nt_Hash :: string
  nt_BlockNumber :: "uint64 option"
  nt_BlockHash :: "string option"
  nt_Index :: "uint64 option"
  nt_From :: string
  nt_To :: "string option"
  nt_Value :: string
  nt_Gas :: uint64
  nt_GasPrice :: string
  nt_Nonce :: uint64
  nt_Data :: string
  nt_IsPending :: bool

record NormalizedLog =
  nl_Address :: string
  nl_Topics :: "string list"
  nl_Data :: string
  nl_BlockNumber :: uint64
  nl_TxHash :: string
  nl_TxIndex :: uint64
  nl_LogIndex :: uint64
  nl_Removed :: bool

record NormalizedReceipt =
  nr_TxHash :: string
  nr_BlockNumber :: uint64
  nr_BlockHash :: string
  nr_TransactionIdx :: uint64
  nr_Status :: string
  nr_GasUsed :: uint64
  nr_CumulativeGas :: uint64
  nr_ContractAddress :: "string option"
  nr_Logs :: "NormalizedLog list"

section \<open>Normalization\<close>

text \<open>\<open>bl_Timestamp\<close> is \<^verbatim>\<open>block.Timestamp.Unix()\<close>.\<close>

definition safeUnix :: "int \<Rightarrow> uint64" where
  "safeUnix t = (if t < 0 then 0 else word_of_int t)"

definition optStr :: "('a \<Rightarrow> string) \<Rightarrow> 'a option \<Rightarrow> string" where
  "optStr f p = (case p of None \<Rightarrow> '''' | Some a \<Rightarrow> f a)"

definition valueStr :: "int option \<Rightarrow> string" where
  "valueStr v = (case v of Some n \<Rightarrow> dec_int n | None \<Rightarrow> ''0'')"

definition txSummary :: "(bytes \<Rightarrow> hash) \<Rightarrow> nat \<Rightarrow> OnChainTransaction \<Rightarrow> NormalizedTxSummary" where
  "txSummary kec i tx =
     \<lparr>ns_Hash = optStr HashHex (tx_Hash tx), ns_Index = of_nat i,
      ns_From = optStr (AddressHex kec) (tx_From tx),
      ns_To = optStr (AddressHex kec) (tx_To tx),
      ns_Value = valueStr (tx_Value tx)\<rparr>"

definition hashSummary :: "nat \<Rightarrow> hash \<Rightarrow> NormalizedTxSummary" where
  "hashSummary i h =
     \<lparr>ns_Hash = HashHex h, ns_Index = of_nat i, ns_From = '''', ns_To = '''', ns_Value = ''''\<rparr>"

definition normalizeBlock :: "(bytes \<Rightarrow> hash) \<Rightarrow> Block \<Rightarrow> bool \<Rightarrow> NormalizedBlock outcome" where
  "normalizeBlock kec block fullTx =
     bindO (deref (bl_Number block)) (\<lambda>number.
       let txs = (if fullTx \<and> 0 < length (bl_Transactions block)
                  then map (\<lambda>(i, tx). txSummary kec i tx)
                           (List.enumerate 0 (bl_Transactions block))
                  else []);
           txs' = (if fullTx \<and> 0 < length (bl_TransactionHashes block) \<and> length txs = 0
                   then map (\<lambda>(i, h). hashSummary i h)
                            (List.enumerate 0 (bl_TransactionHashes block))
                   else txs)
       in Returns
            \<lparr>nb_Number = bigUint64 number, nb_Hash = HashHex (bl_Hash block),
             nb_ParentHash = HashHex (bl_ParentHash block),
             nb_TimestampUnix = safeUnix (bl_Timestamp block),
             nb_GasLimit = bl_GasLimit block, nb_GasUsed = bl_GasUsed block,
             nb_Miner = AddressHex kec (bl_Miner block),
             nb_TransactionCount =
               length (bl_Transactions block) + length (bl_TransactionHashes block),
             nb_Transactions = txs'\<rparr>)"

definition normalizeOnChainTransaction ::
  "(bytes \<Rightarrow> hash) \<Rightarrow> OnChainTransaction \<Rightarrow> bool \<Rightarrow> NormalizedTransaction" where
  "normalizeOnChainTransaction kec tx isPending =
     \<lparr>nt_Hash = optStr HashHex (tx_Hash tx),
      nt_BlockNumber = (if isPending then None else map_option bigUint64 (tx_BlockNumber tx)),
      nt_BlockHash = (if isPending then None else map_option HashHex (tx_BlockHash tx)),
      nt_Index = (if isPending then None else tx_TransactionIndex tx),
      nt_From = optStr (AddressHex kec) (tx_From tx),
      nt_To = map_option (AddressHex kec) (tx_To tx),
      nt_Value = valueStr (tx_Value tx),
      nt_Gas = (case tx_GasLimit tx of Some g \<Rightarrow> g | None \<Rightarrow> 0),
      nt_GasPrice =
        (case tx_GasPrice tx of
           Some p \<Rightarrow> dec_int p
         | None \<Rightarrow> optStr dec_int (tx_MaxFeePerGas tx)),
      nt_Nonce = (case tx_Nonce tx of Some n \<Rightarrow> n | None \<Rightarrow> 0),
      nt_Data = (if 0 < length (tx_Input tx) then ''0x'' @ EncodeToString (tx_Input tx) else ''0x''),
      nt_IsPending = isPending\<rparr>"

definition normalizeLog :: "(bytes \<Rightarrow> hash) \<Rightarrow> Log \<Rightarrow> NormalizedLog" where
  "normalizeLog kec l =
     \<lparr>nl_Address = AddressHex kec (lg_Address l), nl_Topics = map HashHex (lg_Topics l),
      nl_Data = ''0x'' @ EncodeToString (lg_Data l),
      nl_BlockNumber = (case lg_BlockNumber l of Some n \<Rightarrow> bigUint64 n | None \<Rightarrow> 0),
      nl_TxHash = optStr HashHex (lg_TransactionHash l),
      nl_TxIndex = (case lg_TransactionIndex l of Some i \<Rightarrow> i | None \<Rightarrow> 0),
      nl_LogIndex = (case lg_LogIndex l of Some i \<Rightarrow> i | None \<Rightarrow> 0),
      nl_Removed = lg_Removed l\<rparr>"

definition receiptStatus :: "uint64 option \<Rightarrow> string" where
  "receiptStatus st =
     (case st of
        None \<Rightarrow> ''unknown''
      | Some w \<Rightarrow>
          if w = 1 then ''success''
          else if w = 0 then ''reverted''
          else ''unknown('' @ dec_nat (unat w) @ '')'')"

definition normalizeReceipt :: "(bytes \<Rightarrow> hash) \<Rightarrow> defiReceipt \<Rightarrow> NormalizedReceipt" where
  "normalizeReceipt kec r =
     \<lparr>nr_TxHash = HashHex (rc_TransactionHash r),
      nr_BlockNumber = (case rc_BlockNumber r of Some n \<Rightarrow> bigUint64 n | None \<Rightarrow> 0),
      nr_BlockHash = HashHex (rc_BlockHash r), nr_TransactionIdx = rc_TransactionIndex r,
      nr_Status = receiptStatus (rc_Status r),
      nr_GasUsed = rc_GasUsed r, nr_CumulativeGas = rc_CumulativeGasUsed r,
      nr_ContractAddress = map_option (AddressHex kec) (rc_ContractAddress r),
      nr_Logs = map (normalizeLog kec) (rc_Logs r)\<rparr>"

text \<open>
  Normalized blocks: normalizing a block panics exactly when the node left out
  its number. Otherwise the block's 64-bit number is exact, and with full transactions
  requested the list of summaries carries one entry per transaction, in order and indexed by
  position, also when the node answered with bare hashes; the reported count agrees with the
  list whenever the node used one of the two encodings.
\<close>

theorem normalizeBlock_correct:
  "(normalizeBlock kec b fullTx = Panics \<longleftrightarrow> bl_Number b = None)
   \<and> (\<forall>n nb. bl_Number b = Some n \<and> 0 \<le> n \<and> n < 2 ^ 64 \<and> normalizeBlock kec b True = Returns nb \<longrightarrow>
        uint (nb_Number nb) = n
        \<and> map ns_Hash (nb_Transactions nb) =
            (if bl_Transactions b = [] then map HashHex (bl_TransactionHashes b)
             else map (\<lambda>tx. optStr HashHex (tx_Hash tx)) (bl_Transactions b))
        \<and> map ns_Index (nb_Transactions nb) = map of_nat [0..<length (nb_Transactions nb)]
        \<and> (bl_Transactions b = [] \<or> bl_TransactionHashes b = [] \<longrightarrow>
             length (nb_Transactions nb) = nb_TransactionCount nb))"
proof -
  have h: "map ns_Hash (map (\<lambda>(i, h). hashSummary i h) (List.enumerate k hs)) = map HashHex hs" for k hs
    by (induction hs arbitrary: k) (simp_all add: hashSummary_def)
  have t: "map ns_Hash (map (\<lambda>(i, x). txSummary kec i x) (List.enumerate k ts))
      = map (\<lambda>x. optStr HashHex (tx_Hash x)) ts" for k ts
    by (induction ts arbitrary: k) (simp_all add: txSummary_def)
  have hi: "map ns_Index (map (\<lambda>(i, h). hashSummary i h) (List.enumerate k hs))
      = map of_nat [k..<k + length hs]" for k hs
    by (induction hs arbitrary: k) (simp_all add: hashSummary_def upt_rec)
  have ti: "map ns_Index (map (\<lambda>(i, x). txSummary kec i x) (List.enumerate k ts))
      = map of_nat [k..<k + length ts]" for k ts
    by (induction ts arbitrary: k) (simp_all add: txSummary_def upt_rec)
  show ?thesis
    using h [of 0 "bl_TransactionHashes b"] t [of 0 "bl_Transactions b"]
      hi [of 0 "bl_TransactionHashes b"] ti [of 0 "bl_Transactions b"]
    by (auto simp: normalizeBlock_def deref_def Let_def bigUint64_exact split: option.splits)
qed

theorem normalizeBlock_correct_witness:
  "\<exists>nb. normalizeBlock flat_hash
          \<lparr>bl_Number = Some 7, bl_Hash = [CHR 0x01], bl_ParentHash = [], bl_Miner = [], bl_GasLimit = 0,
           bl_GasUsed = 0, bl_Timestamp = -5, bl_Transactions = [],
           bl_TransactionHashes = [[CHR 0x0A], [CHR 0x0B]]\<rparr> True = Returns nb
        \<and> map ns_Hash (nb_Transactions nb) = [''0x0a'', ''0x0b'']"
proof -
  let ?b = "\<lparr>bl_Number = Some 7, bl_Hash = [CHR 0x01], bl_ParentHash = [], bl_Miner = [], bl_GasLimit = 0,
           bl_GasUsed = 0, bl_Timestamp = -5, bl_Transactions = [],
           bl_TransactionHashes = [[CHR 0x0A], [CHR 0x0B]]\<rparr>"
  obtain nb where nb: "normalizeBlock flat_hash ?b True = Returns nb"
    by (simp add: normalizeBlock_def deref_def Let_def)
  then have "map ns_Hash (nb_Transactions nb) = map HashHex [[CHR 0x0A], [CHR 0x0B]]"
    using normalizeBlock_correct [of flat_hash ?b True] by simp
  with nb show ?thesis by (auto simp: HashHex_def BytesToHex_def hexDigit_def char_of_def bit_0)
qed

end
