(* ===== verification/Evm_Client.thy ===== *)
theory Evm_Client
  imports Evm_Types
begin

text \<open>
  The JSON-RPC client of the chain node: the curated classification of node errors
  (\<^verbatim>\<open>internal/evm/rpcerrors.go\<close>), the client's methods (\<^verbatim>\<open>internal/evm/client.go\<close>) and
  the body cap of its transport (\<^verbatim>\<open>internal/evm/transport.go\<close>).

  The node is untrusted. Each method takes the outcome of the library call it makes: the
  library may panic while decoding, fail with an error, or return a value. Deadlines are
  the library's concern and appear as its errors.
\<close>

section \<open>Curated node errors\<close>

definition safeNodeRPCErrors :: "(string \<times> sentinel) list" where
  "safeNodeRPCErrors =
     [(''maximum [from, to] blocks distance'', ErrLogRangeTooWide),
      (''invalid block range params'', ErrLogRangeInvalid),
      (''must be less than or equal to the current blockchain height'', ErrBlockBeyondHead),
      (''cannot query with height in the future'', ErrBlockBeyondHead),
      (''block not found'', ErrBlockNotFound),
      (''already in mempool'', ErrTxAlreadyKnown),
      (''already known'', ErrTxAlreadyKnown),
      (''nonce is lower than account nonce'', ErrTxNonceConflict),
      (''invalid nonce'', ErrTxNonceConflict),
      (''nonce too low'', ErrTxNonceConflict),
      (''nonce too high'', ErrTxNonceConflict),
      (''invalid chain id for signer'', ErrTxChainIDMismatch),
      (''insufficient funds'', ErrInsufficientFunds)]"

definition safeCallReverts :: "string list" where
  "safeCallReverts = [''execution reverted'', ''unknown method id'', ''invalid input length'']"

definition ClassifyCallRevert :: "(string \<Rightarrow> string) \<Rightarrow> goerr option \<Rightarrow> goerr option" where
  "ClassifyCallRevert ul e =
     (case e of
        None \<Rightarrow> None
      | Some err \<Rightarrow>
          let msg = ToLower ul (Error err)
          in if list_ex (\<lambda>m. Contains msg m) safeCallReverts
             then Some (Sentinel ErrCallReverted) else None)"

definition classifyNodeRPCError :: "(string \<Rightarrow> string) \<Rightarrow> goerr option \<Rightarrow> goerr option" where
  "classifyNodeRPCError ul e =
     (case e of
        None \<Rightarrow> None
      | Some err \<Rightarrow>
          let msg = ToLower ul (Error err)
          in map_option (\<lambda>x. Sentinel (snd x))
               (find (\<lambda>(m, s). Contains msg m) safeNodeRPCErrors))"

section \<open>Client methods\<close>

definition guardNodeDecode :: "string \<Rightarrow> 'a outcome \<Rightarrow> 'a outcome" where
  "guardNodeDecode op r =
     (case r of Panics \<Rightarrow> Fails (wrapf op (Sentinel ErrNodeResponseDecode)) | _ \<Rightarrow> r)"

text \<open>The error branch that most methods share: the curated sentinel, else the wrapped error.\<close>

definition curatedOr :: "(string \<Rightarrow> string) \<Rightarrow> string \<Rightarrow> goerr \<Rightarrow> 'a outcome" where
  "curatedOr ul op err =
     Fails (case classifyNodeRPCError ul (Some err) of Some c \<Rightarrow> c | None \<Rightarrow> wrapf op err)"

definition withRpc :: "'a outcome \<Rightarrow> (goerr \<Rightarrow> 'b outcome) \<Rightarrow> ('a \<Rightarrow> 'b outcome) \<Rightarrow> 'b outcome" where
  "withRpc r onErr onOk = (case r of Panics \<Rightarrow> Panics | Fails e \<Rightarrow> onErr e | Returns a \<Rightarrow> onOk a)"

definition ChainID :: "uint64 outcome \<Rightarrow> int outcome" where
  "ChainID r = withRpc r Fails (\<lambda>i. Returns (uint i))"

definition LatestBlockNumber :: "int option outcome \<Rightarrow> uint64 outcome" where
  "LatestBlockNumber r =
     guardNodeDecode ''get latest block number''
       (withRpc r Fails (\<lambda>n. bindO (deref n) (\<lambda>b. Returns (bigUint64 b))))"

record ChainInfo =
  ci_ChainID :: "64 word"
  ci_LatestBlockNumber :: uint64

definition GetChainInfo :: "uint64 outcome \<Rightarrow> int option outcome \<Rightarrow> ChainInfo outcome" where
  "GetChainInfo r1 r2 =
     withRpc (ChainID r1) (\<lambda>e. Fails (wrapf ''failed to get chain ID'' e)) (\<lambda>chainID.
     withRpc (LatestBlockNumber r2) (\<lambda>e. Fails (wrapf ''failed to get latest block number'' e))
       (\<lambda>blockNum. Returns \<lparr>ci_ChainID = word_of_int chainID, ci_LatestBlockNumber = blockNum\<rparr>))"

definition isMissingBlock :: "Block option \<Rightarrow> bool" where
  "isMissingBlock b = (case b of None \<Rightarrow> True | Some bl \<Rightarrow> bl_Hash bl = zeroHash)"

definition blockResult :: "(bytes \<Rightarrow> hash) \<Rightarrow> bool \<Rightarrow> Block option \<Rightarrow> NormalizedBlock outcome" where
  "blockResult kec fullTx b =
     (if isMissingBlock b then Fails (Sentinel ErrBlockNotFound)
      else bindO (deref b) (\<lambda>bl. normalizeBlock kec bl fullTx))"

definition BlockByNumber ::
  "(string \<Rightarrow> string) \<Rightarrow> (bytes \<Rightarrow> hash) \<Rightarrow> bool \<Rightarrow> Block option outcome \<Rightarrow> NormalizedBlock outcome" where
  "BlockByNumber ul kec fullTx r =
     guardNodeDecode ''get block by number''
       (withRpc r (curatedOr ul ''failed to get block by number'') (blockResult kec fullTx))"

definition BlockByHash ::
  "(string \<Rightarrow> string) \<Rightarrow> (bytes \<Rightarrow> hash) \<Rightarrow> bool \<Rightarrow> Block option outcome \<Rightarrow> NormalizedBlock outcome" where
  "BlockByHash ul kec fullTx r =
     guardNodeDecode ''get block by hash''
       (withRpc r (curatedOr ul ''failed to get block by hash'') (blockResult kec fullTx))"

definition TransactionByHash ::
  "(bytes \<Rightarrow> hash) \<Rightarrow> OnChainTransaction option outcome \<Rightarrow> NormalizedTransaction outcome" where
  "TransactionByHash kec r =
     guardNodeDecode ''get transaction by hash''
       (withRpc r (\<lambda>e. Fails (wrapf ''failed to get transaction'' e))
         (\<lambda>t. case t of
            None \<Rightarrow> Fails (Sentinel ErrTxNotFound)
          | Some tx \<Rightarrow>
              if tx_Hash tx = None then Fails (Sentinel ErrTxNotFound)
              else let isPending = (tx_BlockNumber tx = None)
                   in Returns (normalizeOnChainTransaction kec tx isPending)))"

definition ReceiptLookupTimeout :: duration where
  "ReceiptLookupTimeout = 5 * Second"

definition receiptLookupDuration :: "duration \<Rightarrow> duration" where
  "receiptLookupDuration clientTimeout =
     (if clientTimeout > 0 \<and> clientTimeout < ReceiptLookupTimeout
      then clientTimeout else ReceiptLookupTimeout)"

definition isReceiptLookupAborted :: "goerr \<Rightarrow> bool" where
  "isReceiptLookupAborted err \<longleftrightarrow> has (isExt DeadlineExceeded) err \<or> has (isExt Canceled) err"

definition TransactionReceipt ::
  "(bytes \<Rightarrow> hash) \<Rightarrow> defiReceipt option outcome \<Rightarrow> NormalizedReceipt outcome" where
  "TransactionReceipt kec r =
     guardNodeDecode ''get transaction receipt''
       (withRpc r
         (\<lambda>e. if isReceiptLookupAborted e then Fails (Sentinel ErrTxNotFound)
              else Fails (wrapf ''failed to get transaction receipt'' e))
         (\<lambda>t. case t of
            None \<Rightarrow> Fails (Sentinel ErrTxNotFound)
          | Some receipt \<Rightarrow> Returns (normalizeReceipt kec receipt)))"

record CodeResult =
  cr_Address :: string
  cr_Bytecode :: string
  cr_IsContract :: bool

definition CodeAt ::
  "(string \<Rightarrow> string) \<Rightarrow> (bytes \<Rightarrow> hash) \<Rightarrow> address \<Rightarrow> bytes outcome \<Rightarrow> CodeResult outcome" where
  "CodeAt ul kec addr r =
     withRpc r (curatedOr ul ''failed to get code'')
       (\<lambda>code. Returns \<lparr>cr_Address = AddressHex kec addr, cr_Bytecode = ''0x'' @ EncodeToString code,
                        cr_IsContract = (length code > 0)\<rparr>)"

definition CallContract :: "bytes outcome \<Rightarrow> bytes outcome" where
  "CallContract r = withRpc r Fails Returns"

definition FilterLogs ::
  "(string \<Rightarrow> string) \<Rightarrow> (bytes \<Rightarrow> hash) \<Rightarrow> Log list outcome \<Rightarrow> NormalizedLog list outcome" where
  "FilterLogs ul kec r =
     guardNodeDecode ''filter logs''
       (withRpc r (curatedOr ul ''failed to filter logs'') (\<lambda>logs. Returns (map (normalizeLog kec) logs)))"

definition maxSignedTxHexLen :: nat where
  "maxSignedTxHexLen = 2 * 1024 * 1024"

text \<open>
  \<open>SendRawTransaction ul node hex\<close> returns its outcome and the transaction it handed to the
  node, if any. \<open>node\<close> is the library's broadcast call.
\<close>

definition SendRawTransaction ::
  "(string \<Rightarrow> string) \<Rightarrow> (bytes \<Rightarrow> hash option outcome) \<Rightarrow> string \<Rightarrow> string outcome \<times> bytes option" where
  "SendRawTransaction ul node signedTxHex =
     (let raw = (if length signedTxHex \<ge> 2 \<and> take 2 signedTxHex = ''0x'' then drop 2 signedTxHex
                 else signedTxHex) in
      if length raw > maxSignedTxHexLen then
        (Fails (Errorf (''signed tx hex too large ('' @ dec_nat (length raw) @ '' chars, max ''
                         @ dec_nat maxSignedTxHexLen @ ''): '' @ sentinel_text ErrInputTooLarge)
                       [Sentinel ErrInputTooLarge]), None)
      else
        case DecodeString raw of
          Inl e \<Rightarrow> (Fails (wrapf ''decode signed tx hex'' (Ext OtherExt (hexErrText e))), None)
        | Inr txBytes \<Rightarrow>
            (case node txBytes of
               Panics \<Rightarrow> Panics
             | Fails err \<Rightarrow>
                 (case classifyNodeRPCError ul (Some err) of
                    Some curated \<Rightarrow> Fails (wrapf ''send transaction'' (Curate curated (Some err)))
                  | None \<Rightarrow> Fails (wrapf ''send transaction'' err))
             | Returns None \<Rightarrow> Fails (wrapf ''send transaction'' (Sentinel ErrEmptyTxHash))
             | Returns (Some h) \<Rightarrow> Returns (HashHex h),
             Some txBytes))"

section \<open>The capped response body\<close>

text \<open>
  \<open>limitedRead limit n chunks\<close> reads from a body that yields the sizes \<open>chunks\<close>, one per
  call, after \<open>n\<close> bytes: it returns how many bytes were yielded in total and the error that
  stopped the reading (\<open>None\<close>: the body ended).
\<close>

definition maxNodeResponseBytes :: int where
  "maxNodeResponseBytes = 33554432"

definition limitedReadCloser_Read :: "int \<Rightarrow> int \<Rightarrow> int \<Rightarrow> goerr option \<Rightarrow> int \<times> int \<times> goerr option" where
  "limitedReadCloser_Read limit ln n err =
     (let ln' = ln + n
      in if ln' > limit
         then (ln', n, Some (Errorf (''node response exceeded '' @ dec_int limit @ '' bytes: ''
                                      @ sentinel_text ErrNodeResponseTooLarge)
                                    [Sentinel ErrNodeResponseTooLarge]))
         else (ln', n, err))"

fun readAll :: "int \<Rightarrow> int \<Rightarrow> int list \<Rightarrow> int \<times> goerr option" where
  "readAll limit ln [] = (ln, None)"
| "readAll limit ln (n # ns) =
     (case limitedReadCloser_Read limit ln n None of
        (ln', _, Some e) \<Rightarrow> (ln', Some e)
      | (ln', _, None) \<Rightarrow> readAll limit ln' ns)"

section \<open>What the client may read of a node error\<close>

lemma classifyNodeRPCError_Some:
  "classifyNodeRPCError ul (Some e) = Some c \<Longrightarrow> \<exists>s \<in> snd ` set safeNodeRPCErrors. c = Sentinel s"
  by (force simp: classifyNodeRPCError_def Let_def dest: find_SomeD)

lemma safeNode_disclosed: "snd ` set safeNodeRPCErrors \<subseteq> set disclosed"
  by (simp add: safeNodeRPCErrors_def disclosed_def inputErrors_def)

definition node_texts :: "string set" where
  "node_texts = generic_texts \<union> sentinel_text ` (insert ErrTxNotFound (snd ` set safeNodeRPCErrors))"

lemma client_text_disclosed: "s \<in> set disclosed \<Longrightarrow> IsS e s \<Longrightarrow> client_text e = Error e"
  by (auto simp: client_text_cases)

lemma node_text_wrapf: "external e \<Longrightarrow> client_text (wrapf op e) \<in> node_texts"
  by (simp add: node_texts_def generic_texts_def client_text_wrapf_external)

lemma node_text_TxNotFound: "client_text (Sentinel ErrTxNotFound) \<in> node_texts"
  by (simp add: node_texts_def client_text_cases disclosed_def go_simps)

lemma node_text_curated:
  assumes "classifyNodeRPCError ul (Some e) = Some c"
  shows "client_text c \<in> node_texts"
    and "client_text (wrapf op (Curate c (Some e))) = op @ '': '' @ client_text c"
proof -
  obtain s where s: "s \<in> snd ` set safeNodeRPCErrors" "c = Sentinel s"
    using classifyNodeRPCError_Some [OF assms] by blast
  then have d: "s \<in> set disclosed" using safeNode_disclosed by blast
  then have c: "client_text c = sentinel_text s"
    using client_text_disclosed [of s c] s(2) by (simp add: go_simps)
  with s show "client_text c \<in> node_texts" by (simp add: node_texts_def)
  show "client_text (wrapf op (Curate c (Some e))) = op @ '': '' @ client_text c"
    using client_text_disclosed [of s "wrapf op (Curate c (Some e))"] d s(2) c
    by (simp add: go_simps wrapf_def Curate_def)
qed

lemma curatedOr_text:
  "external e \<Longrightarrow> curatedOr ul op e = Fails c \<Longrightarrow> client_text c \<in> node_texts"
  by (auto simp: curatedOr_def node_text_curated node_text_wrapf split: option.splits)

lemma curatedOr_not_Panics [simp]: "curatedOr ul op e \<noteq> Panics"
  by (simp add: curatedOr_def)

lemma SendRawTransaction_text:
  assumes "external e" "SendRawTransaction ul (\<lambda>_. Fails e) hex = (Fails c, Some tx)"
  shows "client_text c \<in> node_texts \<union> (\<lambda>t. ''send transaction: '' @ t) ` node_texts"
proof (cases "classifyNodeRPCError ul (Some e)")
  case None
  with assms have "c = wrapf ''send transaction'' e"
    by (auto simp: SendRawTransaction_def Let_def split: if_splits sum.splits)
  with assms(1) show ?thesis by (simp add: node_text_wrapf)
next
  case (Some s)
  with assms have "c = wrapf ''send transaction'' (Curate s (Some e))"
    by (auto simp: SendRawTransaction_def Let_def split: if_splits sum.splits)
  with node_text_curated [OF Some] show ?thesis by auto
qed




lemma guardNodeDecode_safe: "guardNodeDecode op r \<noteq> Panics"
  by (simp add: guardNodeDecode_def split: outcome.split)

text \<open>
  A malformed reply cannot crash a read: whatever the library does with the
  node's bytes, including a panic while it decodes them or a reply whose pointers are nil
  where the normalizers dereference them, the guarded methods return a value or an error,
  never a panic.
\<close>

theorem guarded_reads_never_panic:
  "LatestBlockNumber r1 \<noteq> Panics \<and> BlockByNumber ul kec full r2 \<noteq> Panics
   \<and> BlockByHash ul kec full r2 \<noteq> Panics \<and> TransactionByHash kec r3 \<noteq> Panics
   \<and> TransactionReceipt kec r4 \<noteq> Panics \<and> FilterLogs ul kec r5 \<noteq> Panics"
  by (simp add: LatestBlockNumber_def BlockByNumber_def BlockByHash_def TransactionByHash_def
      TransactionReceipt_def FilterLogs_def guardNodeDecode_safe)

lemma block_missing:
  assumes "r = Returns None \<or> (\<exists>b. r = Returns (Some b) \<and> bl_Hash b = zeroHash)"
  shows "BlockByNumber ul kec full r = Fails (Sentinel ErrBlockNotFound)"
    and "BlockByHash ul kec full r = Fails (Sentinel ErrBlockNotFound)"
  using assms
  by (auto simp: BlockByNumber_def BlockByHash_def withRpc_def guardNodeDecode_def blockResult_def
      isMissingBlock_def)

lemma block_returned:
  "BlockByNumber ul kec full r = Returns nb \<Longrightarrow>
   \<exists>b. r = Returns (Some b) \<and> bl_Hash b \<noteq> zeroHash \<and> normalizeBlock kec b full = Returns nb"
  by (auto simp: BlockByNumber_def withRpc_def guardNodeDecode_def blockResult_def
      isMissingBlock_def deref_def curatedOr_def split: outcome.splits option.splits if_splits)

lemma tx_missing:
  "t = Returns None \<or> (\<exists>x. t = Returns (Some x) \<and> tx_Hash x = None) \<Longrightarrow>
   TransactionByHash kec t = Fails (Sentinel ErrTxNotFound)"
  by (auto simp: TransactionByHash_def withRpc_def guardNodeDecode_def)

lemma tx_returned:
  "TransactionByHash kec t = Returns nt \<Longrightarrow>
   \<exists>x h. t = Returns (Some x) \<and> tx_Hash x = Some h \<and> nt_Hash nt = HashHex h
     \<and> (nt_IsPending nt \<longleftrightarrow> tx_BlockNumber x = None)"
  by (auto simp: TransactionByHash_def withRpc_def guardNodeDecode_def optStr_def
      normalizeOnChainTransaction_def Let_def split: outcome.splits option.splits if_splits)

lemma receipt_missing:
  "q = Returns None \<or> (\<exists>e. q = Fails e \<and> isReceiptLookupAborted e) \<Longrightarrow>
   TransactionReceipt kec q = Fails (Sentinel ErrTxNotFound)"
  by (auto simp: TransactionReceipt_def withRpc_def guardNodeDecode_def)

text \<open>
  Never a fabricated object. A block, transaction or receipt the node does not
  have (a nil reply, a zero block hash, a transaction without hash, an aborted receipt
  lookup) is reported as not found, and a value that is returned comes from a reply that has
  the identifying hash.
\<close>

theorem missing_objects_are_not_found:
  "(r = Returns None \<or> (\<exists>b. r = Returns (Some b) \<and> bl_Hash b = zeroHash) \<longrightarrow>
      BlockByNumber ul kec full r = Fails (Sentinel ErrBlockNotFound)
      \<and> BlockByHash ul kec full r = Fails (Sentinel ErrBlockNotFound))
   \<and> (\<forall>nb. BlockByNumber ul kec full r = Returns nb \<longrightarrow>
        (\<exists>b. r = Returns (Some b) \<and> bl_Hash b \<noteq> zeroHash \<and> normalizeBlock kec b full = Returns nb))
   \<and> (t = Returns None \<or> (\<exists>x. t = Returns (Some x) \<and> tx_Hash x = None) \<longrightarrow>
        TransactionByHash kec t = Fails (Sentinel ErrTxNotFound))
   \<and> (\<forall>nt. TransactionByHash kec t = Returns nt \<longrightarrow>
        (\<exists>x h. t = Returns (Some x) \<and> tx_Hash x = Some h \<and> nt_Hash nt = HashHex h
            \<and> (nt_IsPending nt \<longleftrightarrow> tx_BlockNumber x = None)))
   \<and> (q = Returns None \<or> (\<exists>e. q = Fails e \<and> isReceiptLookupAborted e) \<longrightarrow>
        TransactionReceipt kec q = Fails (Sentinel ErrTxNotFound))"
  using block_missing [of r ul kec full] block_returned [of ul kec full r]
    tx_missing [of t kec] tx_returned [of kec t] receipt_missing [of q kec]
  by blast

theorem missing_objects_are_not_found_witness:
  "TransactionReceipt flat_hash (Fails (wrapf ''post'' (Ext DeadlineExceeded ''context deadline exceeded'')))
     = Fails (Sentinel ErrTxNotFound)"
proof -
  have "isReceiptLookupAborted (wrapf ''post'' (Ext DeadlineExceeded ''context deadline exceeded''))"
    by (simp add: isReceiptLookupAborted_def wrapf_def)
  then show ?thesis
    using missing_objects_are_not_found
      [of Panics id flat_hash False Panics
        "Fails (wrapf ''post'' (Ext DeadlineExceeded ''context deadline exceeded''))"] by blast
qed

lemma readAll_total:
  "\<forall>n \<in> set ns. 0 \<le> n \<and> n \<le> m \<Longrightarrow> ln \<le> limit \<Longrightarrow>
     fst (readAll limit ln ns) \<le> limit + m
     \<and> (snd (readAll limit ln ns) = None \<longleftrightarrow> ln + sum_list ns \<le> limit)" if "0 \<le> m"
proof (induction ns arbitrary: ln)
  case Nil
  with that show ?case by simp
next
  case (Cons n ns)
  have pos: "0 \<le> sum_list ns" using Cons.prems(1) by (auto intro: sum_list_nonneg)
  show ?case
  proof (cases "ln + n > limit")
    case True
    with Cons.prems pos show ?thesis by (simp add: limitedReadCloser_Read_def)
  next
    case False
    with Cons show ?thesis by (simp add: limitedReadCloser_Read_def add.assoc)
  qed
qed

text \<open>
  Bounded node replies: reading a reply of any length through the capped body
  yields at most the cap plus one read buffer, and it fails exactly when the reply is longer
  than the cap.
\<close>

theorem node_reply_bounded:
  assumes "\<forall>n \<in> set ns. 0 \<le> n \<and> n \<le> m" and "0 \<le> m"
  shows "fst (readAll maxNodeResponseBytes 0 ns) \<le> maxNodeResponseBytes + m
       \<and> (snd (readAll maxNodeResponseBytes 0 ns) = None \<longleftrightarrow> sum_list ns \<le> maxNodeResponseBytes)"
  using readAll_total [OF assms(2,1), of 0 maxNodeResponseBytes]
  by (simp add: maxNodeResponseBytes_def)

theorem node_reply_bounded_witness:
  "fst (readAll maxNodeResponseBytes 0 (replicate 5 10000000)) \<le> maxNodeResponseBytes + 10000000
   \<and> snd (readAll maxNodeResponseBytes 0 (replicate 5 10000000)) \<noteq> None"
proof -
  have "sum_list (replicate 5 10000000) > maxNodeResponseBytes"
    by (simp add: maxNodeResponseBytes_def sum_list_replicate)
  then show ?thesis using node_reply_bounded [of "replicate 5 10000000" 10000000] by auto
qed

end
