(* ===== verification/Evm_Resilient.thy ===== *)
theory Evm_Resilient
  imports Evm_Client
begin

text \<open>
  The resilience wrapper of the node client (\<^verbatim>\<open>internal/evm/resilient.go\<close>): rate limit,
  circuit breaker and retry around every call. The breaker is the vendored
  \<^verbatim>\<open>sony/gobreaker\<close> in the configuration the wrapper gives it (no interval, one bucket, one
  probe in half-open state), with the counters the configuration reads; the retry loop is the
  vendored \<^verbatim>\<open>cenkalti/backoff\<close>. Clock readings, the outcome of each attempt and the
  cancellation of the caller's context are arguments.
\<close>

section \<open>Circuit breaker\<close>

datatype cbState = StateClosed | StateHalfOpen | StateOpen

record breaker =
  cb_state :: cbState
  cb_generation :: uint64
  cb_Requests :: "32 word"
  cb_ConsecutiveSuccesses :: "32 word"
  cb_ConsecutiveFailures :: "32 word"
  cb_expiry :: time

record ResilientConfig =
  MaxRetries :: int
  BreakerThreshold :: "32 word"
  BreakerTimeout :: duration

definition breakerTimeout :: "ResilientConfig \<Rightarrow> duration" where
  "breakerTimeout cfg = (if BreakerTimeout cfg \<le> 0 then 60 * Second else BreakerTimeout cfg)"

definition ReadyToTrip :: "ResilientConfig \<Rightarrow> breaker \<Rightarrow> bool" where
  "ReadyToTrip cfg cb \<longleftrightarrow> BreakerThreshold cfg \<le> cb_ConsecutiveFailures cb"

definition toNewGeneration :: "ResilientConfig \<Rightarrow> time \<Rightarrow> breaker \<Rightarrow> breaker" where
  "toNewGeneration cfg now cb =
     cb\<lparr>cb_generation := cb_generation cb + 1, cb_Requests := 0, cb_ConsecutiveSuccesses := 0,
        cb_ConsecutiveFailures := 0,
        cb_expiry := (case cb_state cb of StateOpen \<Rightarrow> now + breakerTimeout cfg | _ \<Rightarrow> zeroTime)\<rparr>"

definition setState :: "ResilientConfig \<Rightarrow> cbState \<Rightarrow> time \<Rightarrow> breaker \<Rightarrow> breaker" where
  "setState cfg st now cb =
     (if cb_state cb = st then cb else toNewGeneration cfg now (cb\<lparr>cb_state := st\<rparr>))"

definition currentState :: "ResilientConfig \<Rightarrow> time \<Rightarrow> breaker \<Rightarrow> breaker" where
  "currentState cfg now cb =
     (case cb_state cb of
        StateClosed \<Rightarrow>
          if \<not> IsZero (cb_expiry cb) \<and> Before (cb_expiry cb) now then toNewGeneration cfg now cb else cb
      | StateOpen \<Rightarrow>
          if Before (cb_expiry cb) now then setState cfg StateHalfOpen now cb else cb
      | StateHalfOpen \<Rightarrow> cb)"

definition newBreaker :: "ResilientConfig \<Rightarrow> time \<Rightarrow> breaker" where
  "newBreaker cfg now =
     toNewGeneration cfg now
       \<lparr>cb_state = StateClosed, cb_generation = 0, cb_Requests = 0, cb_ConsecutiveSuccesses = 0,
        cb_ConsecutiveFailures = 0, cb_expiry = zeroTime\<rparr>"

definition ErrOpenState :: goerr where
  "ErrOpenState = Ext OpenState ''circuit breaker is open''"

definition ErrTooManyRequests :: goerr where
  "ErrTooManyRequests = Ext TooManyRequests ''too many requests''"

text \<open>\<open>beforeRequest\<close> returns the rejection, if any, and the generation of the request.\<close>

definition beforeRequest ::
  "ResilientConfig \<Rightarrow> time \<Rightarrow> breaker \<Rightarrow> (goerr option \<times> uint64) \<times> breaker" where
  "beforeRequest cfg now cb0 =
     (let cb = currentState cfg now cb0 in
      if cb_state cb = StateOpen then ((Some ErrOpenState, cb_generation cb), cb)
      else if cb_state cb = StateHalfOpen \<and> cb_Requests cb \<ge> 1
      then ((Some ErrTooManyRequests, cb_generation cb), cb)
      else ((None, cb_generation cb), cb\<lparr>cb_Requests := cb_Requests cb + 1\<rparr>))"

definition onSuccess :: "ResilientConfig \<Rightarrow> time \<Rightarrow> breaker \<Rightarrow> breaker" where
  "onSuccess cfg now cb =
     (let cb1 = cb\<lparr>cb_ConsecutiveSuccesses := cb_ConsecutiveSuccesses cb + 1,
                   cb_ConsecutiveFailures := 0\<rparr>
      in case cb_state cb of
           StateClosed \<Rightarrow> cb1
         | StateHalfOpen \<Rightarrow>
             if cb_ConsecutiveSuccesses cb1 \<ge> 1 then setState cfg StateClosed now cb1 else cb1
         | StateOpen \<Rightarrow> cb)"

definition onFailure :: "ResilientConfig \<Rightarrow> time \<Rightarrow> breaker \<Rightarrow> breaker" where
  "onFailure cfg now cb =
     (case cb_state cb of
        StateClosed \<Rightarrow>
          let cb1 = cb\<lparr>cb_ConsecutiveFailures := cb_ConsecutiveFailures cb + 1,
                       cb_ConsecutiveSuccesses := 0\<rparr>
          in if ReadyToTrip cfg cb1 then setState cfg StateOpen now cb1 else cb1
      | StateHalfOpen \<Rightarrow> setState cfg StateOpen now cb
      | StateOpen \<Rightarrow> cb)"

definition breakerCountsAsSuccess :: "goerr option \<Rightarrow> bool" where
  "breakerCountsAsSuccess e =
     (case e of
        None \<Rightarrow> True
      | Some err \<Rightarrow> has (isExt RPCError) err \<or> IsInputError err \<or> IsNotFound err)"

definition afterRequest ::
  "ResilientConfig \<Rightarrow> time \<Rightarrow> uint64 \<Rightarrow> goerr option \<Rightarrow> breaker \<Rightarrow> breaker" where
  "afterRequest cfg now previous err cb0 =
     (let cb = currentState cfg now cb0 in
      if cb_generation cb \<noteq> previous then cb
      else if breakerCountsAsSuccess err then onSuccess cfg now cb
      else onFailure cfg now cb)"

section \<open>Retry\<close>

definition cometReceiptsRaceMarker :: string where
  "cometReceiptsRaceMarker = ''failed to get receipts from comet block''"

definition isTransientRPCError :: "goerr \<Rightarrow> bool" where
  "isTransientRPCError err \<longleftrightarrow>
     IsTransientError err \<or> has (isExt DeadlineExceeded) err \<or> has (isExt NetError) err
     \<or> has (isExt EOF) err \<or> has (isExt UnexpectedEOF) err
     \<or> Contains (Error err) cometReceiptsRaceMarker"

definition Permanent :: "goerr \<Rightarrow> goerr" where
  "Permanent err = Errorf (Error err) [err]"

text \<open>
  \<open>retry n k fn cause\<close> is the loop of \<^verbatim>\<open>backoff.Retry\<close> with \<open>n\<close> tries left, at attempt
  \<open>k\<close>: \<open>fn k\<close> is the outcome of the attempt, \<open>cause k\<close> the cancellation of the context
  seen after it. It returns the result and the number of attempts made so far.
\<close>

fun retry ::
  "nat \<Rightarrow> nat \<Rightarrow> (nat \<Rightarrow> goerr + 'a) \<Rightarrow> (nat \<Rightarrow> goerr option) \<Rightarrow> (goerr + 'a) \<times> nat" where
  "retry n k fn cause =
     (case fn k of
        Inr res \<Rightarrow> (Inr res, Suc k)
      | Inl callErr \<Rightarrow>
          let transient = isTransientRPCError callErr in
          if n \<le> 1 then (Inl (if transient then callErr else Permanent callErr), Suc k)
          else if \<not> transient then (Inl callErr, Suc k)
          else case cause k of
                 Some cerr \<Rightarrow> (Inl cerr, Suc k)
               | None \<Rightarrow> retry (n - 1) (Suc k) fn cause)"

declare retry.simps [simp del]

text \<open>
  One call through the wrapper. \<open>waitErr\<close> is the rate limiter's verdict, \<open>t1\<close> and \<open>t2\<close> the
  clock before and after the request; the last component counts the attempts that reached the
  node. A nil result and a result of the wrong dynamic type do not occur in the typed model.
\<close>

definition maxTries :: "ResilientConfig \<Rightarrow> nat" where
  "maxTries cfg = nat (if MaxRetries cfg < 0 then 0 else MaxRetries cfg) + 1"

definition openOr :: "goerr \<Rightarrow> goerr" where
  "openOr err =
     (if has (isExt OpenState) err \<or> has (isExt TooManyRequests) err
      then Errorf (sentinel_text ErrCircuitOpen @ '': '' @ Error err) [Sentinel ErrCircuitOpen, err]
      else err)"

definition rateLimitedErr :: "goerr \<Rightarrow> goerr" where
  "rateLimitedErr err =
     Errorf (sentinel_text ErrRateLimited @ '': '' @ Error err) [Sentinel ErrRateLimited, err]"

definition Execute ::
  "ResilientConfig \<Rightarrow> time \<Rightarrow> time \<Rightarrow> (goerr + 'a) \<times> nat \<Rightarrow> breaker \<Rightarrow> (goerr + 'a) \<times> nat \<times> breaker" where
  "Execute cfg t1 t2 req cb =
     (case beforeRequest cfg t1 cb of
        ((Some err, _), cb1) \<Rightarrow> (Inl err, 0, cb1)
      | ((None, gen), cb1) \<Rightarrow>
          (case req of (res, calls) \<Rightarrow>
             (res, calls,
              afterRequest cfg t2 gen (case res of Inl e \<Rightarrow> Some e | Inr _ \<Rightarrow> None) cb1)))"

definition resilientCall ::
  "ResilientConfig \<Rightarrow> goerr option \<Rightarrow> time \<Rightarrow> time \<Rightarrow> (nat \<Rightarrow> goerr + 'a) \<Rightarrow> (nat \<Rightarrow> goerr option)
     \<Rightarrow> breaker \<Rightarrow> (goerr + 'a) \<times> nat \<times> breaker" where
  "resilientCall cfg waitErr t1 t2 fn cause cb =
     (case waitErr of
        Some err \<Rightarrow> (Inl (rateLimitedErr err), 0, cb)
      | None \<Rightarrow>
          (case Execute cfg t1 t2 (retry (maxTries cfg) 0 fn cause) cb of
             (Inl err, calls, cb1) \<Rightarrow> (Inl (openOr err), calls, cb1)
           | (Inr v, calls, cb1) \<Rightarrow> (Inr v, calls, cb1)))"

definition resilient_SendRawTransaction ::
  "ResilientConfig \<Rightarrow> goerr option \<Rightarrow> time \<Rightarrow> time \<Rightarrow> goerr + string
     \<Rightarrow> breaker \<Rightarrow> (goerr + string) \<times> nat \<times> breaker" where
  "resilient_SendRawTransaction cfg waitErr t1 t2 inner cb =
     (case waitErr of
        Some err \<Rightarrow> (Inl (rateLimitedErr err), 0, cb)
      | None \<Rightarrow>
          (case Execute cfg t1 t2 (inner, 1) cb of
             (Inl err, calls, cb1) \<Rightarrow> (Inl (openOr err), calls, cb1)
           | (Inr v, calls, cb1) \<Rightarrow> (Inr v, calls, cb1)))"

section \<open>Attempts\<close>

lemma retry_spec:
  "retry n k fn cause = (r, m) \<Longrightarrow>
     k < m \<and> m \<le> k + max n 1
     \<and> (\<forall>j. k \<le> j \<and> j < m - 1 \<longrightarrow> (\<exists>e. fn j = Inl e \<and> isTransientRPCError e \<and> cause j = None))
     \<and> (case r of
          Inr v \<Rightarrow> fn (m - 1) = Inr v
        | Inl e \<Rightarrow> \<exists>e'. fn (m - 1) = Inl e' \<and> (e = e' \<or> e = Permanent e' \<or> cause (m - 1) = Some e))"
proof (induction n k fn cause arbitrary: r m rule: retry.induct)
  case (1 n k fn cause)
  show ?case
  proof (cases "\<exists>e. fn k = Inl e \<and> isTransientRPCError e \<and> \<not> n \<le> 1 \<and> cause k = None")
    case False
    with "1.prems" show ?thesis
      by (subst (asm) retry.simps) (auto simp: Let_def split: sum.splits if_splits option.splits)
  next
    case True
    then obtain e where e: "fn k = Inl e" "isTransientRPCError e" "\<not> n \<le> 1" "cause k = None" by blast
    then have rec: "retry (n - 1) (Suc k) fn cause = (r, m)"
      using "1.prems" by (subst (asm) retry.simps) (simp add: Let_def)
    have "\<forall>j. k \<le> j \<and> j < m - 1 \<longrightarrow> (\<exists>e. fn j = Inl e \<and> isTransientRPCError e \<and> cause j = None)"
      if "\<forall>j. Suc k \<le> j \<and> j < m - 1 \<longrightarrow> (\<exists>e. fn j = Inl e \<and> isTransientRPCError e \<and> cause j = None)"
      using that e by (metis Suc_leI le_neq_implies_less)
    with "1.IH" [OF e(1) refl _ _ e(4) rec] e show ?thesis by auto
  qed
qed

lemma int_maxTries: "int (maxTries cfg) = max 0 (MaxRetries cfg) + 1"
  by (simp add: maxTries_def)

text \<open>
  retries. A call through the wrapper makes at most \<open>MaxRetries + 1\<close> attempts; each
  attempt but the last failed with a transient error while the caller still waited; a value
  that is returned is what the last attempt returned.
\<close>

theorem resilientCall_attempts:
  "resilientCall cfg waitErr t1 t2 fn cause cb = (r, calls, cb') \<longrightarrow>
     int calls \<le> max 0 (MaxRetries cfg) + 1
     \<and> (\<forall>j < calls - 1. \<exists>e. fn j = Inl e \<and> isTransientRPCError e \<and> cause j = None)
     \<and> (\<forall>v. r = Inr v \<longrightarrow> 0 < calls \<and> fn (calls - 1) = Inr v)"
proof
  assume a: "resilientCall cfg waitErr t1 t2 fn cause cb = (r, calls, cb')"
  obtain q m where q: "retry (maxTries cfg) 0 fn cause = (q, m)" by fastforce
  have "calls = 0 \<and> (\<exists>e. r = Inl e) \<or> calls = m \<and> (\<forall>v. r = Inr v \<longrightarrow> q = Inr v)"
    using a q by (auto simp: resilientCall_def Execute_def split: option.splits sum.splits prod.splits)
  with retry_spec [OF q] int_maxTries [of cfg] show "int calls \<le> max 0 (MaxRetries cfg) + 1
     \<and> (\<forall>j < calls - 1. \<exists>e. fn j = Inl e \<and> isTransientRPCError e \<and> cause j = None)
     \<and> (\<forall>v. r = Inr v \<longrightarrow> 0 < calls \<and> fn (calls - 1) = Inr v)"
    by auto
qed

theorem resilientCall_attempts_witness:
  "\<exists>cb'. resilientCall \<lparr>MaxRetries = 3, BreakerThreshold = 5, BreakerTimeout = 1\<rparr> None 1 2
       (\<lambda>k. if k = 0 then Inl (Ext EOF ''EOF'') else Inr k) (\<lambda>_. None)
       (newBreaker \<lparr>MaxRetries = 3, BreakerThreshold = 5, BreakerTimeout = 1\<rparr> 0) = (Inr 1, 2, cb')
     \<and> int (2 :: nat) \<le> max 0 3 + 1"
proof -
  let ?cfg = "\<lparr>MaxRetries = 3, BreakerThreshold = 5, BreakerTimeout = 1\<rparr>"
  let ?fn = "\<lambda>k::nat. if k = 0 then Inl (Ext EOF ''EOF'') else Inr k"
  obtain cb' where c: "resilientCall ?cfg None 1 2 ?fn (\<lambda>_. None) (newBreaker ?cfg 0) = (Inr 1, 2, cb')"
    by (simp add: resilientCall_def Execute_def beforeRequest_def currentState_def newBreaker_def
        toNewGeneration_def time_defs maxTries_def retry.simps isTransientRPCError_def Let_def)
  with resilientCall_attempts [of ?cfg None 1 2 ?fn "\<lambda>_. None" "newBreaker ?cfg 0" "Inr 1" 2 cb']
  show ?thesis by auto
qed

text \<open>
  A broadcast is never repeated. Whatever the limiter, the breaker and the node do,
  the wrapper hands a signed transaction to the node at most once per request, it does not
  hand it over while the breaker rejects, and success is reported only if it was handed over.
\<close>

theorem broadcast_at_most_once:
  "resilient_SendRawTransaction cfg waitErr t1 t2 inner cb = (r, calls, cb') \<longrightarrow>
     calls \<le> 1
     \<and> (waitErr \<noteq> None \<or> fst (fst (beforeRequest cfg t1 cb)) \<noteq> None \<longrightarrow>
          calls = 0 \<and> (\<exists>e. r = Inl e \<and> (IsS e ErrRateLimited \<or> IsS e ErrCircuitOpen)))
     \<and> (\<forall>h. r = Inr h \<longrightarrow> calls = 1 \<and> inner = Inr h)"
proof -
  have "IsS (openOr e) ErrCircuitOpen" if "fst (fst (beforeRequest cfg t1 cb)) = Some e" for e
    using that by (auto simp: beforeRequest_def openOr_def ErrOpenState_def ErrTooManyRequests_def
        go_simps Let_def split: if_splits)
  then show ?thesis
    by (auto simp: resilient_SendRawTransaction_def Execute_def rateLimitedErr_def go_simps
        split: option.splits sum.splits prod.splits)
qed

theorem broadcast_at_most_once_witness:
  "resilient_SendRawTransaction \<lparr>MaxRetries = 3, BreakerThreshold = 5, BreakerTimeout = 1\<rparr>
       (Some (Ext DeadlineExceeded ''d'')) 1 2 (Inr ''0x1'')
       (newBreaker \<lparr>MaxRetries = 3, BreakerThreshold = 5, BreakerTimeout = 1\<rparr> 0)
     = (Inl (rateLimitedErr (Ext DeadlineExceeded ''d'')), 0,
        newBreaker \<lparr>MaxRetries = 3, BreakerThreshold = 5, BreakerTimeout = 1\<rparr> 0)
   \<and> (0 :: nat) \<le> 1"
proof -
  let ?cfg = "\<lparr>MaxRetries = 3, BreakerThreshold = 5, BreakerTimeout = 1\<rparr>"
  let ?w = "Ext DeadlineExceeded ''d''"
  have c: "resilient_SendRawTransaction ?cfg (Some ?w) 1 2 (Inr ''0x1'') (newBreaker ?cfg 0)
      = (Inl (rateLimitedErr ?w), 0, newBreaker ?cfg 0)"
    by (simp add: resilient_SendRawTransaction_def)
  with broadcast_at_most_once [of ?cfg "Some ?w" 1 2 "Inr ''0x1''" "newBreaker ?cfg 0"
      "Inl (rateLimitedErr ?w)" 0 "newBreaker ?cfg 0"]
  show ?thesis by blast
qed

section \<open>Breaker runs\<close>

text \<open>
  Requests of concurrent callers interleave: each contributes a \<open>beforeRequest\<close> and, later, an
  \<open>afterRequest\<close> with the generation it got. The breaker's mutex makes the two atomic.
\<close>

datatype cb_event = BeforeReq time | AfterReq time uint64 "goerr option"

fun cb_step :: "ResilientConfig \<Rightarrow> cb_event \<Rightarrow> breaker \<Rightarrow> breaker" where
  "cb_step cfg (BeforeReq t) cb = snd (beforeRequest cfg t cb)"
| "cb_step cfg (AfterReq t gen err) cb = afterRequest cfg t gen err cb"

fun cb_ok :: "cb_event \<Rightarrow> bool" where
  "cb_ok (BeforeReq t) = True"
| "cb_ok (AfterReq t gen err) = breakerCountsAsSuccess err"

lemma currentState_closed: "cb_state cb = StateClosed \<Longrightarrow> cb_state (currentState cfg t cb) = StateClosed"
  by (simp add: currentState_def toNewGeneration_def)

lemma cb_step_closed:
  "cb_ok e \<Longrightarrow> cb_state cb = StateClosed \<Longrightarrow> cb_state (cb_step cfg e cb) = StateClosed"
  using currentState_closed [of cb cfg]
  by (cases e) (auto simp: beforeRequest_def afterRequest_def onSuccess_def Let_def)

lemma cb_run_closed:
  "\<forall>e \<in> set evs. cb_ok e \<Longrightarrow> cb_state cb = StateClosed \<Longrightarrow>
   cb_state (fold (cb_step cfg) evs cb) = StateClosed"
  by (induction evs arbitrary: cb) (simp_all add: cb_step_closed)



section \<open>Load shedding\<close>

text \<open>Consecutive requests that fail, each given by its two clock readings and its error.\<close>

definition fail_call ::
  "ResilientConfig \<Rightarrow> time \<times> time \<times> goerr \<Rightarrow> breaker \<Rightarrow> breaker" where
  "fail_call cfg x cb =
     (case x of (t1, t2, e) \<Rightarrow> snd (snd (Execute cfg t1 t2 ((Inl e :: goerr + unit), 1) cb)))"

lemma fail_call_closed:
  assumes "cb_state cb = StateClosed" "cb_expiry cb = zeroTime" "\<not> breakerCountsAsSuccess (Some e)"
  shows "fail_call cfg (t1, t2, e) cb =
     (let cb1 = cb\<lparr>cb_Requests := cb_Requests cb + 1, cb_ConsecutiveFailures := cb_ConsecutiveFailures cb + 1,
                   cb_ConsecutiveSuccesses := 0\<rparr>
      in if BreakerThreshold cfg \<le> cb_ConsecutiveFailures cb + 1 then setState cfg StateOpen t2 cb1 else cb1)"
  using assms
  by (simp add: fail_call_def Execute_def beforeRequest_def currentState_def IsZero_def afterRequest_def
      onFailure_def ReadyToTrip_def Let_def)

lemma unat32_less: "unat (w :: 32 word) < 4294967296"
  using unsigned_less [of w] by (simp add: unsigned_less)

lemma fail_calls_closed:
  assumes "\<forall>(t1, t2, e) \<in> set xs. \<not> breakerCountsAsSuccess (Some e)"
    and "length xs < unat (BreakerThreshold cfg)"
  shows "let cb = fold (fail_call cfg) xs (newBreaker cfg t0)
         in cb_state cb = StateClosed \<and> cb_expiry cb = zeroTime
            \<and> unat (cb_ConsecutiveFailures cb) = length xs"
  using assms
proof (induction xs rule: rev_induct)
  case Nil
  then show ?case by (simp add: newBreaker_def toNewGeneration_def)
next
  case (snoc x xs)
  obtain t1 t2 e where x: "x = (t1, t2, e)" by (cases x)
  let ?cb = "fold (fail_call cfg) xs (newBreaker cfg t0)"
  have IH: "cb_state ?cb = StateClosed" "cb_expiry ?cb = zeroTime"
      "unat (cb_ConsecutiveFailures ?cb) = length xs"
    using snoc by (auto simp: Let_def)
  have suc: "unat (cb_ConsecutiveFailures ?cb + 1) = Suc (length xs)"
    using snoc.prems(2) unat32_less [of "BreakerThreshold cfg"] IH(3)
    by (simp add: unat_word_ariths)
  then have "\<not> BreakerThreshold cfg \<le> cb_ConsecutiveFailures ?cb + 1"
    using snoc.prems(2) by (simp add: word_le_nat_alt)
  moreover have "\<not> breakerCountsAsSuccess (Some e)" using snoc.prems(1) x by auto
  ultimately show ?case
    using IH suc by (simp add: x fail_call_closed Let_def)
qed


lemma fail_calls_open:
  assumes "\<forall>(t1, t2, e) \<in> set (xs @ [(t1, t2, e)]). \<not> breakerCountsAsSuccess (Some e)"
    and "Suc (length xs) = unat (BreakerThreshold cfg)"
  shows "let cb = fold (fail_call cfg) (xs @ [(t1, t2, e)]) (newBreaker cfg t0)
         in cb_state cb = StateOpen \<and> cb_expiry cb = t2 + breakerTimeout cfg \<and> cb_Requests cb = 0"
proof -
  let ?cb = "fold (fail_call cfg) xs (newBreaker cfg t0)"
  have c: "cb_state ?cb = StateClosed" "cb_expiry ?cb = zeroTime"
      "unat (cb_ConsecutiveFailures ?cb) = length xs"
    using fail_calls_closed [of xs cfg t0] assms by (auto simp: Let_def)
  have "unat (cb_ConsecutiveFailures ?cb + 1) = Suc (length xs)"
    using assms(2) unat32_less [of "BreakerThreshold cfg"] c(3)
    by (simp add: unat_word_ariths)
  then have "BreakerThreshold cfg \<le> cb_ConsecutiveFailures ?cb + 1"
    using assms(2) by (simp add: word_le_nat_alt)
  moreover have "\<not> breakerCountsAsSuccess (Some e)" using assms(1) by simp
  ultimately show ?thesis
    using c by (simp add: fail_call_closed Let_def setState_def toNewGeneration_def)
qed

text \<open>
  Load shedding. After exactly \<open>BreakerThreshold\<close> consecutive failures the breaker
  opens, no earlier; until its timeout has passed every call is rejected with the
  circuit-open error without a single attempt at the node, and after it the next request is
  admitted as a probe.
\<close>

theorem breaker_sheds_load:
  assumes "\<forall>(t1, t2, e) \<in> set (xs @ [(t1, t2, e)]). \<not> breakerCountsAsSuccess (Some e)"
    and "Suc (length xs) = unat (BreakerThreshold cfg)"
  shows "cb_state (fold (fail_call cfg) xs (newBreaker cfg t0)) = StateClosed
       \<and> (\<forall>t u fn cause. t \<le> t2 + breakerTimeout cfg \<longrightarrow>
            (\<exists>err cb'. resilientCall cfg None t u fn cause
                 (fold (fail_call cfg) (xs @ [(t1, t2, e)]) (newBreaker cfg t0)) = (Inl err, 0, cb')
               \<and> IsS err ErrCircuitOpen))
       \<and> (\<forall>t. t2 + breakerTimeout cfg < t \<longrightarrow>
            fst (fst (beforeRequest cfg t
              (fold (fail_call cfg) (xs @ [(t1, t2, e)]) (newBreaker cfg t0)))) = None)"
proof -
  let ?cb = "fold (fail_call cfg) (xs @ [(t1, t2, e)]) (newBreaker cfg t0)"
  have o: "cb_state ?cb = StateOpen" "cb_expiry ?cb = t2 + breakerTimeout cfg" "cb_Requests ?cb = 0"
    using fail_calls_open [OF assms] by (simp_all add: Let_def)
  have "cb_state (fold (fail_call cfg) xs (newBreaker cfg t0)) = StateClosed"
    using fail_calls_closed [of xs cfg t0] assms by (auto simp: Let_def)
  moreover have "\<exists>err cb'. resilientCall cfg None t u fn cause ?cb = (Inl err, 0, cb') \<and> IsS err ErrCircuitOpen"
    if "t \<le> t2 + breakerTimeout cfg" for t u fn and cause :: "nat \<Rightarrow> goerr option"
  proof -
    have "beforeRequest cfg t ?cb = ((Some ErrOpenState, cb_generation ?cb), ?cb)"
      using o that unfolding beforeRequest_def currentState_def Before_def by (simp add: Let_def)
    then have "resilientCall cfg None t u fn cause ?cb = (Inl (openOr ErrOpenState), 0, ?cb)"
      unfolding resilientCall_def Execute_def by simp
    then show ?thesis by (auto simp: openOr_def ErrOpenState_def go_simps)
  qed
  moreover have "fst (fst (beforeRequest cfg t ?cb)) = None" if "t2 + breakerTimeout cfg < t" for t
  proof -
    have "currentState cfg t ?cb = setState cfg StateHalfOpen t ?cb"
      using o that unfolding currentState_def Before_def by simp
    moreover have "cb_state (setState cfg StateHalfOpen t ?cb) = StateHalfOpen"
        "cb_Requests (setState cfg StateHalfOpen t ?cb) = 0"
      using o unfolding setState_def by (simp_all add: toNewGeneration_def)
    ultimately show ?thesis unfolding beforeRequest_def Let_def by simp
  qed
  ultimately show ?thesis by blast
qed

theorem breaker_sheds_load_witness:
  "\<exists>err cb'. resilientCall \<lparr>MaxRetries = 2, BreakerThreshold = 2, BreakerTimeout = 50\<rparr> None 30 31
       (\<lambda>_. Inr ()) (\<lambda>_. None)
       (fold (fail_call \<lparr>MaxRetries = 2, BreakerThreshold = 2, BreakerTimeout = 50\<rparr>)
          [(1, 2, Ext EOF ''EOF''), (3, 4, Ext EOF ''EOF'')]
          (newBreaker \<lparr>MaxRetries = 2, BreakerThreshold = 2, BreakerTimeout = 50\<rparr> 0)) = (Inl err, 0, cb')
     \<and> IsS err ErrCircuitOpen"
proof -
  let ?cfg = "\<lparr>MaxRetries = 2, BreakerThreshold = 2, BreakerTimeout = 50\<rparr>"
  have h: "\<forall>(t1, t2, e) \<in> set ([(1, 2, Ext EOF ''EOF'')] @ [(3, 4, Ext EOF ''EOF'')]).
       \<not> breakerCountsAsSuccess (Some e)"
    by (simp add: breakerCountsAsSuccess_def go_simps IsNotFound_def)
  have "(30 :: int) \<le> 4 + breakerTimeout ?cfg" by (simp add: breakerTimeout_def)
  moreover have "Suc (length [(1 :: int, 2 :: int, Ext EOF ''EOF'')]) = unat (BreakerThreshold ?cfg)"
    by simp
  ultimately show ?thesis
    using breaker_sheds_load [OF h, of ?cfg 0, THEN conjunct2, THEN conjunct1, rule_format,
        of 30 31 "\<lambda>_. Inr ()" "\<lambda>_. None"] by simp
qed

end
