(* ===== verification/Anchor_Cursor.thy ===== *)
theory Anchor_Cursor
  imports Evm_Types
begin

text \<open>
  The pagination cursor of the registry listing (\<^verbatim>\<open>EncodeCursor\<close> and \<^verbatim>\<open>CursorBytes\<close> of
  \<^verbatim>\<open>internal/anchor/types.go\<close>, \<^verbatim>\<open>listingCursor\<close> of \<^verbatim>\<open>internal/mcp/tools_anchor.go\<close>), with the
  decoder of Go's \<^verbatim>\<open>base64.StdEncoding\<close>: quanta of four digits, padding, line breaks skipped
  and the offset that its error reports.
\<close>

section \<open>The decoder of encoding/base64\<close>

definition stdVal :: "char \<Rightarrow> nat option" where
  "stdVal c =
     (let n = (of_char c :: nat)
      in if 65 \<le> n \<and> n \<le> 90 then Some (n - 65)
         else if 97 \<le> n \<and> n \<le> 122 then Some (n - 71)
         else if 48 \<le> n \<and> n \<le> 57 then Some (n + 4)
         else if n = 43 then Some 62
         else if n = 47 then Some 63
         else None)"

definition padChar :: char where
  "padChar = CHR ''=''"

definition byte1 :: "nat \<Rightarrow> nat \<Rightarrow> char" where
  "byte1 x y = char_of (x * 4 + y div 16)"

definition byte2 :: "nat \<Rightarrow> nat \<Rightarrow> char" where
  "byte2 y z = char_of (y mod 16 * 16 + z div 4)"

definition byte3 :: "nat \<Rightarrow> nat \<Rightarrow> char" where
  "byte3 z w = char_of (z mod 4 * 64 + w)"

text \<open>
  \<open>decodeQuanta n cs\<close> decodes the characters \<open>cs\<close> that are not line breaks, each with its
  offset in the text of \<open>n\<close> characters; \<open>Inl k\<close> is \<^verbatim>\<open>CorruptInputError(k)\<close>.
\<close>

fun decodeQuanta :: "nat \<Rightarrow> (nat \<times> char) list \<Rightarrow> nat + bytes" where
  "decodeQuanta n [] = Inr []"
| "decodeQuanta n [(i, a)] = Inl (if stdVal a = None then i else n - 1)"
| "decodeQuanta n [(i, a), (j, b)] =
     Inl (if stdVal a = None then i else if stdVal b = None then j else n - 2)"
| "decodeQuanta n [(i, a), (j, b), (k, c)] =
     Inl (if stdVal a = None then i else if stdVal b = None then j
          else if stdVal c \<noteq> None then n - 3 else if c = padChar then n else k)"
| "decodeQuanta n ((i, a) # (j, b) # (k, c) # (l, d) # r) =
     (case stdVal a of
        None \<Rightarrow> Inl i
      | Some x \<Rightarrow>
          (case stdVal b of
             None \<Rightarrow> Inl j
           | Some y \<Rightarrow>
               (case stdVal c of
                  None \<Rightarrow>
                    if c \<noteq> padChar then Inl k
                    else if d \<noteq> padChar then Inl (l - 1)
                    else (case r of [] \<Rightarrow> Inr [byte1 x y] | (m, _) # _ \<Rightarrow> Inl m)
                | Some z \<Rightarrow>
                    (case stdVal d of
                       None \<Rightarrow>
                         if d \<noteq> padChar then Inl l
                         else (case r of [] \<Rightarrow> Inr [byte1 x y, byte2 y z] | (m, _) # _ \<Rightarrow> Inl m)
                     | Some w \<Rightarrow>
                         (case decodeQuanta n r of
                            Inl e \<Rightarrow> Inl e
                          | Inr bs \<Rightarrow> Inr (byte1 x y # byte2 y z # byte3 z w # bs))))))"

definition lineBreak :: "char \<Rightarrow> bool" where
  "lineBreak c \<longleftrightarrow> (of_char c :: nat) = 10 \<or> (of_char c :: nat) = 13"

definition Base64Decode :: "string \<Rightarrow> nat + bytes" where
  "Base64Decode s =
     decodeQuanta (length s) (filter (\<lambda>p. \<not> lineBreak (snd p)) (zip [0..<length s] s))"

definition CorruptInputError :: "nat \<Rightarrow> goerr" where
  "CorruptInputError n = Ext OtherExt (''illegal base64 data at input byte '' @ dec_int (int n))"

section \<open>Cursors\<close>

record PageResponse =
  pr_Total :: uint64
  pr_NextKey :: string

text \<open>A nil \<^verbatim>\<open>*PageResponse\<close> is \<open>None\<close>; the nil slice and the empty one are not told apart.\<close>

definition CursorBytes :: "PageResponse option \<Rightarrow> goerr + bytes" where
  "CursorBytes p =
     (case p of
        None \<Rightarrow> Inr []
      | Some p \<Rightarrow>
          if pr_NextKey p = '''' then Inr []
          else (case Base64Decode (pr_NextKey p) of
                  Inl n \<Rightarrow> Inl (wrapf ''decode pagination cursor'' (CorruptInputError n))
                | Inr b \<Rightarrow> Inr b))"

definition EncodeCursor :: "bytes \<Rightarrow> string" where
  "EncodeCursor b = (if length b = 0 then '''' else b64enc stdDigit True b)"

definition registryCursorLen :: nat where
  "registryCursorLen = 8"

text \<open>
  \<open>wrap2\<close> is \<^verbatim>\<open>fmt.Errorf("%w: %w", a, b)\<close>.
\<close>

definition wrap2 :: "goerr \<Rightarrow> goerr \<Rightarrow> goerr" where
  "wrap2 a b = Errorf (Error a @ '': '' @ Error b) [a, b]"

definition listingCursor :: "string \<Rightarrow> uint64 \<Rightarrow> goerr + bytes" where
  "listingCursor key offset =
     (if key = '''' then Inr []
      else if offset \<noteq> 0 then Inl (Sentinel ErrInvalidCursor)
      else (case CursorBytes (Some \<lparr>pr_Total = 0, pr_NextKey = key\<rparr>) of
              Inl err \<Rightarrow> Inl (wrap2 (Sentinel ErrInvalidCursor) err)
            | Inr cursor \<Rightarrow>
                if length cursor \<noteq> registryCursorLen
                then Inl (Errorf (sentinel_text ErrInvalidCursor @ '': key decodes to '' @
                       dec_int (int (length cursor)) @ '' bytes, a registry cursor is '' @
                       dec_int (int registryCursorLen)) [Sentinel ErrInvalidCursor])
                else Inr cursor))"

section \<open>Round trips\<close>

lemma of_char_stdDigit:
  "n < 64 \<Longrightarrow> (of_char (stdDigit n) :: nat) =
     (if n < 26 then 65 + n else if n < 52 then 71 + n else if n < 62 then n - 4
      else if n = 62 then 43 else 47)"
  by (auto simp: stdDigit_def)

lemma stdVal_stdDigit [simp]: "n < 64 \<Longrightarrow> stdVal (stdDigit n) = Some n"
  by (auto simp: stdVal_def of_char_stdDigit Let_def)

lemma stdVal_pad [simp]: "stdVal padChar = None"
  by (simp add: stdVal_def padChar_def)

lemma digit_bounds [simp]:
  "(of_char a :: nat) div 4 < 64"
  "(of_char a :: nat) mod 4 * 16 < 64"
  "(of_char b :: nat) mod 16 * 4 < 64"
  "(of_char a :: nat) mod 4 * 16 + of_char b div 16 < 64"
  "(of_char b :: nat) mod 16 * 4 + of_char c div 64 < 64"
  using of_char_less [of a] of_char_less [of b] of_char_less [of c] by linarith+

lemma bytes_of_digits:
  "byte1 (of_char a div 4) (of_char a mod 4 * 16) = a"
  "byte1 (of_char a div 4) (of_char a mod 4 * 16 + of_char b div 16) = a"
  "byte2 (of_char a mod 4 * 16 + of_char b div 16) (of_char b mod 16 * 4) = b"
  "byte2 (of_char a mod 4 * 16 + of_char b div 16) (of_char b mod 16 * 4 + of_char c div 64) = b"
  "byte3 (of_char b mod 16 * 4 + of_char c div 64) (of_char c mod 64) = c"
proof -
  have b: "(of_char b :: nat) div 16 < 16" and c: "(of_char c :: nat) div 64 < 4"
    using of_char_less [of b] of_char_less [of c] by linarith+
  have a1: "(of_char a div 4) * 4 + (of_char a mod 4 * 16 + of_char b div 16) div 16 = (of_char a :: nat)"
    using b by simp
  have b1: "(of_char a mod 4 * 16 + of_char b div 16) mod 16 * 16 + (of_char b mod 16 * 4 + of_char c div 64) div 4
      = (of_char b :: nat)"
    using b c by simp
  have c1: "(of_char b mod 16 * 4 + of_char c div 64) mod 4 * 64 + of_char c mod 64 = (of_char c :: nat)"
    using c by simp
  show "byte1 (of_char a div 4) (of_char a mod 4 * 16 + of_char b div 16) = a"
    by (simp only: byte1_def a1 char_of_char)
  show "byte2 (of_char a mod 4 * 16 + of_char b div 16) (of_char b mod 16 * 4 + of_char c div 64) = b"
    by (simp only: byte2_def b1 char_of_char)
  show "byte3 (of_char b mod 16 * 4 + of_char c div 64) (of_char c mod 64) = c"
    by (simp only: byte3_def c1 char_of_char)
  show "byte1 (of_char a div 4) (of_char a mod 4 * 16) = a"
    by (simp add: byte1_def)
  have "(of_char a mod 4 * 16 + of_char b div 16) mod 16 * 16 + (of_char b mod 16 * 4) div 4 = (of_char b :: nat)"
    using b by simp
  then show "byte2 (of_char a mod 4 * 16 + of_char b div 16) (of_char b mod 16 * 4) = b"
    by (simp only: byte2_def char_of_char)
qed

lemma decode_encoded:
  "map snd cs = b64enc stdDigit True b \<Longrightarrow> decodeQuanta n cs = Inr b"
proof (induction stdDigit True b arbitrary: cs rule: b64enc.induct)
  case 1
  then show ?case by simp
next
  case (2 a)
  then show ?case
    by (auto simp: map_eq_Cons_conv bytes_of_digits padChar_def [symmetric])
next
  case (3 a b)
  then show ?case
    by (auto simp: map_eq_Cons_conv bytes_of_digits padChar_def [symmetric])
next
  case (4 a b c r)
  then obtain i j k l cs' where cs: "cs = (i, stdDigit (of_char a div 4)) #
      (j, stdDigit (of_char a mod 4 * 16 + of_char b div 16)) #
      (k, stdDigit (of_char b mod 16 * 4 + of_char c div 64)) # (l, stdDigit (of_char c mod 64)) # cs'"
    and r: "map snd cs' = b64enc stdDigit True r"
    by (auto simp: map_eq_Cons_conv)
  from 4(1) [OF r] show ?case by (simp add: cs bytes_of_digits)
qed

lemma stdDigit_no_break [simp]: "n < 64 \<Longrightarrow> \<not> lineBreak (stdDigit n)"
  by (auto simp: lineBreak_def of_char_stdDigit)

lemma encoded_no_break: "x \<in> set (b64enc stdDigit True b) \<Longrightarrow> \<not> lineBreak x"
  by (induction stdDigit True b rule: b64enc.induct) (auto simp: lineBreak_def [of "CHR ''=''"])

lemma Base64Decode_encode: "Base64Decode (b64enc stdDigit True b) = Inr b"
proof -
  let ?s = "b64enc stdDigit True b"
  have "filter (\<lambda>p. \<not> lineBreak (snd p)) (zip [0..<length ?s] ?s) = zip [0..<length ?s] ?s"
    using encoded_no_break by (auto simp: filter_id_conv dest: set_zip_rightD)
  then show ?thesis by (simp add: Base64Decode_def decode_encoded)
qed

lemma b64enc_eq_Nil [simp]: "b64enc al pad b = [] \<longleftrightarrow> b = []"
  by (cases "(al, pad, b)" rule: b64enc.cases) simp_all

lemma CursorBytes_EncodeCursor [simp]:
  "CursorBytes (Some \<lparr>pr_Total = t, pr_NextKey = EncodeCursor b\<rparr>) = Inr b"
  by (simp add: CursorBytes_def EncodeCursor_def Base64Decode_encode)

text \<open>
  cursors travel unchanged. A cursor that the chain returns is what the server feeds
  back to the chain when the client presents the \<^verbatim>\<open>next_key\<close> it was given: for every cursor of
  the chain's length with offset zero, and the decoder accepts nothing that does not decode to
  that length. A key together with an offset is refused, and every refusal is an input error,
  so the client reads the reason.
\<close>

theorem listing_cursor_roundtrip:
  "listingCursor (EncodeCursor b) 0 =
     (if length b = registryCursorLen \<or> length b = 0 then Inr b
      else Inl (Errorf (sentinel_text ErrInvalidCursor @ '': key decodes to '' @
             dec_int (int (length b)) @ '' bytes, a registry cursor is '' @ dec_int 8)
             [Sentinel ErrInvalidCursor]))
   \<and> (case listingCursor key off of
        Inr c \<Rightarrow> (key = '''' \<and> c = []) \<or> (key \<noteq> '''' \<and> off = 0 \<and> Base64Decode key = Inr c \<and> length c = 8)
      | Inl e \<Rightarrow> IsInputError e)"
proof
  have "EncodeCursor b = '''' \<longleftrightarrow> b = []" by (simp add: EncodeCursor_def)
  then show "listingCursor (EncodeCursor b) 0 =
     (if length b = registryCursorLen \<or> length b = 0 then Inr b
      else Inl (Errorf (sentinel_text ErrInvalidCursor @ '': key decodes to '' @
             dec_int (int (length b)) @ '' bytes, a registry cursor is '' @ dec_int 8)
             [Sentinel ErrInvalidCursor]))"
    by (simp add: listingCursor_def registryCursorLen_def)
  have "ErrInvalidCursor \<in> set inputErrors" by (simp add: inputErrors_def)
  then show "case listingCursor key off of
        Inr c \<Rightarrow> (key = '''' \<and> c = []) \<or> (key \<noteq> '''' \<and> off = 0 \<and> Base64Decode key = Inr c \<and> length c = 8)
      | Inl e \<Rightarrow> IsInputError e"
    by (auto simp: listingCursor_def CursorBytes_def registryCursorLen_def wrap2_def go_simps
        split: sum.splits)
qed

end
