(* ===== verification/Go_Time.thy ===== *)
theory Go_Time
  imports Go_Codec "HOL-Library.Monad_Syntax"
begin

text \<open>
  The part of Go's \<^verbatim>\<open>time\<close> package that the program renders and reads times with: the
  calendar, \<^verbatim>\<open>time.Parse\<close> on the layout of the chain's timestamps
  (\<^verbatim>\<open>internal/anchor/client.go\<close>) and the two RFC 3339 formats in UTC. A time is the number of
  nanoseconds since 0001-01-01T00:00:00Z, so a date is a number of days since that day.
\<close>

section \<open>The calendar\<close>

definition isLeap :: "int \<Rightarrow> bool" where
  "isLeap y \<longleftrightarrow> 4 dvd y \<and> (\<not> 100 dvd y \<or> 400 dvd y)"

definition monthLengths :: "int \<Rightarrow> int list" where
  "monthLengths y = [31, if isLeap y then 29 else 28, 31, 30, 31, 30, 31, 31, 30, 31, 30, 31]"

definition daysIn :: "int \<Rightarrow> int \<Rightarrow> int" where
  "daysIn m y = monthLengths y ! nat (m - 1)"

definition dayNumber :: "int \<Rightarrow> int \<Rightarrow> int \<Rightarrow> int" where
  "dayNumber y m d =
     365 * (y - 1) + (y - 1) div 4 - (y - 1) div 100 + (y - 1) div 400 +
     sum_list (take (nat (m - 1)) (monthLengths y)) + d - 1"

text \<open>
  \<open>civil n\<close> is the year, month and day of day \<open>n\<close>: cycles of 400, 100, 4 and 1 years are
  cut off in turn, the last century and the last year of a cycle being a day longer.
\<close>

fun splitMonth :: "int list \<Rightarrow> int \<Rightarrow> int \<Rightarrow> int \<times> int" where
  "splitMonth [] m d = (m, d + 1)"
| "splitMonth (l # ls) m d = (if d < l then (m, d + 1) else splitMonth ls (m + 1) (d - l))"

definition yearDay :: "int \<Rightarrow> int \<times> int" where
  "yearDay n =
     (let r = n mod 146097;
          n100 = min 3 (r div 36524);
          r100 = r - 36524 * n100;
          r4 = r100 mod 1461;
          n1 = min 3 (r4 div 365)
      in (400 * (n div 146097) + 100 * n100 + 4 * (r100 div 1461) + n1 + 1, r4 - 365 * n1))"

definition civil :: "int \<Rightarrow> int \<times> int \<times> int" where
  "civil n = (case yearDay n of (y, yd) \<Rightarrow> (y, splitMonth (monthLengths y) 1 yd))"

section \<open>Reading the layout of the chain\<close>

text \<open>
  Each function reads one element of the layout and returns its value with the text after it.
  A space of the layout stands for any run of spaces, the empty one only at the end of the text.
\<close>

definition digitc :: "char \<Rightarrow> bool" where
  "digitc c \<longleftrightarrow> digitVal c \<noteq> None"

definition skipByte :: "char \<Rightarrow> string \<Rightarrow> string option" where
  "skipByte c v = (case v of [] \<Rightarrow> None | x # v' \<Rightarrow> if x = c then Some v' else None)"

definition skipSpace :: "string \<Rightarrow> string option" where
  "skipSpace v = (if v \<noteq> [] \<and> hd v \<noteq> CHR '' '' then None else Some (dropWhile (\<lambda>c. c = CHR '' '') v))"

definition within :: "int \<Rightarrow> int \<Rightarrow> (int \<times> string) option \<Rightarrow> (int \<times> string) option" where
  "within lo hi r = do { (n, v) \<leftarrow> r; if lo \<le> n \<and> n \<le> hi then Some (n, v) else None }"

definition longYear :: "string \<Rightarrow> (int \<times> string) option" where
  "longYear v =
     (if length v < 4 then None
      else do { n \<leftarrow> parse_digits 0 (take 4 v); Some (int n, drop 4 v) })"

fun getnum :: "bool \<Rightarrow> string \<Rightarrow> (int \<times> string) option" where
  "getnum fixed [] = None"
| "getnum fixed [a] =
     (if fixed then None else do { n \<leftarrow> digitVal a; Some (int n, []) })"
| "getnum fixed (a # b # v) =
     do { x \<leftarrow> digitVal a;
          case digitVal b of
            None \<Rightarrow> if fixed then None else Some (int x, b # v)
          | Some y \<Rightarrow> Some (int x * 10 + int y, v) }"

text \<open>A fraction may be missing, may follow a comma, and digits after the ninth are dropped.\<close>

definition fracSecond :: "string \<Rightarrow> (int \<times> string) option" where
  "fracSecond v =
     (case v of
        p # d # _ \<Rightarrow>
          if (p = CHR ''.'' \<or> p = CHR '','') \<and> digitc d then
            (let ds = takeWhile digitc (tl v);
                 ks = take 9 ds
             in do { n \<leftarrow> parse_digits 0 ks; Some (int n * 10 ^ (9 - length ks), drop (length ds) (tl v)) })
          else Some (0, v)
      | _ \<Rightarrow> Some (0, v))"

definition numTZ :: "string \<Rightarrow> (int \<times> string) option" where
  "numTZ v =
     (case v of
        sg # a # b # c # d # v' \<Rightarrow>
          do { (hr, _) \<leftarrow> within 0 24 (getnum True [a, b]);
               (mm, _) \<leftarrow> within 0 60 (getnum True [c, d]);
               if sg = CHR ''+'' then Some ((hr * 60 + mm) * 60, v')
               else if sg = CHR ''-'' then Some (- ((hr * 60 + mm) * 60), v')
               else None }
      | _ \<Rightarrow> None)"

definition signedOffset :: "string \<Rightarrow> nat" where
  "signedOffset v =
     (case v of
        [] \<Rightarrow> 0
      | sg # r \<Rightarrow>
          (let ds = takeWhile digitc r
           in if (sg \<noteq> CHR ''-'' \<and> sg \<noteq> CHR ''+'') \<or> ds = [] then 0
              else case parse_digits 0 ds of
                     Some x \<Rightarrow> if 23 < x then 0 else Suc (length ds)
                   | None \<Rightarrow> 0))"

definition upperc :: "char \<Rightarrow> bool" where
  "upperc c \<longleftrightarrow> 65 \<le> (of_char c :: nat) \<and> (of_char c :: nat) \<le> 90"

definition parseTimeZone :: "string \<Rightarrow> nat option" where
  "parseTimeZone v =
     (if length v < 3 then None
      else if HasPrefix v ''ChST'' \<or> HasPrefix v ''MeST'' then Some 4
      else if HasPrefix v ''GMT'' then Some (3 + signedOffset (drop 3 v))
      else if hd v = CHR ''+'' \<or> hd v = CHR ''-'' then
        (if 0 < signedOffset v then Some (signedOffset v) else None)
      else let n = length (takeWhile upperc (take 6 v))
           in if n = 3 then Some 3
              else if n = 4 \<and> (v ! 3 = CHR ''T'' \<or> HasPrefix v ''WITA'') then Some 4
              else if n = 5 \<and> v ! 4 = CHR ''T'' then Some 5
              else None)"

text \<open>With the zone \<^verbatim>\<open>UTC\<close> the numeric offset read before it has no effect.\<close>

definition zoneName :: "string \<Rightarrow> (bool \<times> string) option" where
  "zoneName v =
     (if HasPrefix v ''UTC'' then Some (True, drop 3 v)
      else do { n \<leftarrow> parseTimeZone v; Some (False, drop n v) })"

definition civilTime :: "int \<Rightarrow> int \<Rightarrow> int \<Rightarrow> int \<Rightarrow> int \<Rightarrow> int \<Rightarrow> int \<Rightarrow> time" where
  "civilTime y mo d h mi s ns = (((dayNumber y mo d * 24 + h) * 60 + mi) * 60 + s) * Second + ns"

definition parseChainTime :: "string \<Rightarrow> time option" where
  "parseChainTime v0 =
     do { (y, v) \<leftarrow> longYear v0;
          v \<leftarrow> skipByte CHR ''-'' v;
          (mo, v) \<leftarrow> within 1 12 (getnum True v);
          v \<leftarrow> skipByte CHR ''-'' v;
          (d, v) \<leftarrow> getnum True v;
          v \<leftarrow> skipSpace v;
          (h, v) \<leftarrow> within 0 23 (getnum False v);
          v \<leftarrow> skipByte CHR '':'' v;
          (mi, v) \<leftarrow> within 0 59 (getnum True v);
          v \<leftarrow> skipByte CHR '':'' v;
          (s, v) \<leftarrow> within 0 59 (getnum True v);
          (ns, v) \<leftarrow> fracSecond v;
          v \<leftarrow> skipSpace v;
          (off, v) \<leftarrow> numTZ v;
          v \<leftarrow> skipSpace v;
          (utc, v) \<leftarrow> zoneName v;
          if v \<noteq> [] \<or> d < 1 \<or> daysIn mo y < d then None
          else Some (civilTime y mo d h mi s ns - (if utc then 0 else off * Second)) }"

section \<open>Writing\<close>

definition appendInt :: "int \<Rightarrow> nat \<Rightarrow> string" where
  "appendInt x width =
     (let ds = dec_nat (nat \<bar>x\<bar>)
      in (if x < 0 then ''-'' else '''') @ replicate (width - length ds) (CHR ''0'') @ ds)"

definition dateText :: "time \<Rightarrow> string" where
  "dateText t =
     (case civil (t div (86400 * Second)) of
        (y, m, d) \<Rightarrow> appendInt y 4 @ ''-'' @ appendInt m 2 @ ''-'' @ appendInt d 2)"

definition clockText :: "time \<Rightarrow> string" where
  "clockText t =
     (let s = t div Second mod 86400
      in appendInt (s div 3600) 2 @ '':'' @ appendInt (s div 60 mod 60) 2 @ '':'' @ appendInt (s mod 60) 2)"

definition fracText :: "time \<Rightarrow> string" where
  "fracText t =
     (let ns = t mod Second
      in if ns = 0 then '''' else ''.'' @ rev (dropWhile (\<lambda>c. c = CHR ''0'') (rev (appendInt ns 9))))"

definition FormatRFC3339 :: "time \<Rightarrow> string" where
  "FormatRFC3339 t = dateText t @ ''T'' @ clockText t @ ''Z''"

definition FormatRFC3339Nano :: "time \<Rightarrow> string" where
  "FormatRFC3339Nano t = dateText t @ ''T'' @ clockText t @ fracText t @ ''Z''"

text \<open>What \<^verbatim>\<open>time.Time.String\<close> of a UTC time without a monotonic clock reading is, the form in
  which the chain renders its times.\<close>

definition chainString :: "time \<Rightarrow> string" where
  "chainString t = dateText t @ '' '' @ clockText t @ fracText t @ '' +0000 UTC''"

text \<open>\<^verbatim>\<open>normalizeChainTime\<close>: RFC 3339 for the layout of the chain, anything else unchanged.\<close>

definition normalizeChainTime :: "string \<Rightarrow> string" where
  "normalizeChainTime s = (case parseChainTime s of None \<Rightarrow> s | Some t \<Rightarrow> FormatRFC3339Nano t)"


section \<open>The calendar is exact\<close>

lemma monthLengths_sum: "sum_list (monthLengths y) = (if isLeap y then 366 else 365)"
  by (simp add: monthLengths_def)

lemma length_monthLengths [simp]: "length (monthLengths y) = 12"
  by (simp add: monthLengths_def)

lemma splitMonth_spec:
  "0 \<le> d \<Longrightarrow> d < sum_list ls \<Longrightarrow>
   \<exists>k e. splitMonth ls m d = (m + int k, e) \<and> k < length ls \<and> 1 \<le> e \<and> e \<le> ls ! k \<and>
         sum_list (take k ls) + e = d + 1"
proof (induction ls arbitrary: m d)
  case Nil
  then show ?case by simp
next
  case (Cons l ls)
  show ?case
  proof (cases "d < l")
    case True
    with Cons.prems show ?thesis by (intro exI [of _ 0] exI [of _ "d + 1"]) simp
  next
    case False
    with Cons.prems Cons.IH [of "d - l" "m + 1"] obtain k e where
      "splitMonth ls (m + 1) (d - l) = (m + 1 + int k, e)" "k < length ls" "1 \<le> e" "e \<le> ls ! k"
      "sum_list (take k ls) + e = d - l + 1"
      by auto
    with False show ?thesis by (intro exI [of _ "Suc k"] exI [of _ e]) simp
  qed
qed

lemma dvd_small: "0 < j \<Longrightarrow> j \<le> k \<Longrightarrow> (k :: int) dvd k * q + j \<longleftrightarrow> j = k"
  by (auto simp: dvd_add_right_iff dest: zdvd_imp_le)

lemma cut_cycle:
  fixes r l :: int
  assumes "0 \<le> r" "r \<le> 4 * l" "0 < l"
  defines "q \<equiv> min 3 (r div l)"
  shows "0 \<le> q" "q \<le> 3" "0 \<le> r - l * q" "r - l * q \<le> l" "q < 3 \<Longrightarrow> r - l * q < l"
proof -
  have d: "0 \<le> r div l" "l * (r div l) \<le> r" "r < l * (r div l) + l"
    using assms(1,3) pos_mod_bound [of l r] by (simp_all add: pos_imp_zdiv_nonneg_iff minus_mod_eq_mult_div [symmetric])
  show "0 \<le> q" "q \<le> 3" using d(1) by (simp_all add: q_def)
  have "3 * l \<le> r" if "3 \<le> r div l"
    using mult_left_mono [OF that, of l] d(2) assms(3) by linarith
  then show "0 \<le> r - l * q" "r - l * q \<le> l" "q < 3 \<Longrightarrow> r - l * q < l"
    using d assms(2) unfolding q_def by (cases "3 \<le> r div l"; simp add: min_def)+
qed

lemma year_cycles:
  fixes a b c e :: int
  assumes "0 \<le> b" "b \<le> 3" "0 \<le> c" "c \<le> 24" "0 \<le> e" "e \<le> 3"
  defines "y \<equiv> 400 * a + 100 * b + 4 * c + e"
  shows "y div 4 = 100 * a + 25 * b + c" "y div 100 = 4 * a + b" "y div 400 = a"
    "isLeap (y + 1) \<longleftrightarrow> e = 3 \<and> (c = 24 \<longrightarrow> b = 3)"
proof -
  show "y div 4 = 100 * a + 25 * b + c" "y div 100 = 4 * a + b" "y div 400 = a"
    using assms by simp_all
  have 4: "4 dvd y + 1 \<longleftrightarrow> e = 3"
    using dvd_small [of "e + 1" 4 "100 * a + 25 * b + c"] assms by (simp add: algebra_simps)
  have 100: "100 dvd y + 1 \<longleftrightarrow> 4 * c + e = 99"
    using dvd_small [of "4 * c + e + 1" 100 "4 * a + b"] assms by (simp add: algebra_simps)
  have 400: "400 dvd y + 1 \<longleftrightarrow> 100 * b + 4 * c + e = 399"
    using dvd_small [of "100 * b + 4 * c + e + 1" 400 a] assms by (simp add: algebra_simps)
  show "isLeap (y + 1) \<longleftrightarrow> e = 3 \<and> (c = 24 \<longrightarrow> b = 3)"
    unfolding isLeap_def 4 100 400 using assms(1-6) by arith
qed

lemma yearDay_spec:
  assumes "yearDay n = (y, yd)"
  shows "365 * (y - 1) + (y - 1) div 4 - (y - 1) div 100 + (y - 1) div 400 + yd = n"
    "0 \<le> yd" "yd < (if isLeap y then 366 else 365)"
proof -
  define a where "a = n div 146097"
  define r where "r = n mod 146097"
  define b where "b = min 3 (r div 36524)"
  define r' where "r' = r - 36524 * b"
  define c where "c = r' div 1461"
  define r'' where "r'' = r' mod 1461"
  define e where "e = min 3 (r'' div 365)"
  have "(400 * a + 100 * b + 4 * c + e + 1, r'' - 365 * e) = (y, yd)"
    using assms unfolding yearDay_def Let_def a_def r_def b_def r'_def c_def r''_def e_def .
  then have y: "y = 400 * a + 100 * b + 4 * c + e + 1" and yd: "yd = r'' - 365 * e" by blast+
  have r: "0 \<le> r" "r < 146097" and n: "n = 146097 * a + r"
    by (simp_all add: r_def a_def)
  have b: "0 \<le> b" "b \<le> 3" and r': "0 \<le> r'" "r' \<le> 36524" "b < 3 \<Longrightarrow> r' < 36524"
    using cut_cycle [of r 36524] r unfolding b_def r'_def by simp_all
  have c: "0 \<le> c" "c \<le> 24" and r'': "0 \<le> r''" "r'' \<le> 1460" and rc: "r' = 1461 * c + r''"
    using r' unfolding c_def r''_def by simp_all
  have e: "0 \<le> e" "e \<le> 3" and yd': "0 \<le> yd" "yd \<le> 365" "e < 3 \<Longrightarrow> yd < 365"
    using cut_cycle [of r'' 365] r'' unfolding e_def yd by simp_all
  note cyc = year_cycles [OF b c e, of a]
  have rn: "n = 146097 * a + 36524 * b + 1461 * c + 365 * e + yd"
    using n rc yd unfolding r'_def by simp
  have "y - 1 = 400 * a + 100 * b + 4 * c + e"
    using y by simp
  then show "365 * (y - 1) + (y - 1) div 4 - (y - 1) div 100 + (y - 1) div 400 + yd = n"
    using rn cyc(1-3) by simp
  show "0 \<le> yd" by (rule yd')
  have "yd = 365 \<Longrightarrow> e = 3" using yd'(3) e(2) by (cases "e < 3") auto
  moreover have "yd = 365 \<Longrightarrow> c = 24 \<Longrightarrow> b = 3"
    using calculation r'(3) b(2) rc yd by (cases "b < 3") auto
  ultimately have "yd = 365 \<Longrightarrow> e = 3 \<and> (c = 24 \<longrightarrow> b = 3)" by blast
  then have "yd = 365 \<Longrightarrow> isLeap y"
    using cyc(4) y by simp
  then show "yd < (if isLeap y then 366 else 365)"
    using yd'(2) by (cases "yd = 365") auto
qed

lemma civil_spec:
  assumes "civil n = (y, m, d)"
  shows "dayNumber y m d = n" "1 \<le> m" "m \<le> 12" "1 \<le> d" "d \<le> daysIn m y"
proof -
  obtain yd where yd: "yearDay n = (y, yd)" "splitMonth (monthLengths y) 1 yd = (m, d)"
    using assms unfolding civil_def by (auto split: prod.splits)
  note Y = yearDay_spec [OF yd(1)]
  obtain k where k: "m = 1 + int k" "k < 12" "1 \<le> d" "d \<le> monthLengths y ! k"
      "sum_list (take k (monthLengths y)) + d = yd + 1"
    using splitMonth_spec [of yd "monthLengths y" 1] Y yd(2) by (auto simp: monthLengths_sum)
  then show "dayNumber y m d = n" "1 \<le> m" "m \<le> 12" "1 \<le> d" "d \<le> daysIn m y"
    using Y(1) unfolding dayNumber_def daysIn_def by simp_all
qed

lemma daysIn_le: "1 \<le> m \<Longrightarrow> m \<le> 12 \<Longrightarrow> daysIn m y \<le> 31"
proof -
  assume "1 \<le> m" "m \<le> 12"
  then have "monthLengths y ! nat (m - 1) \<in> set (monthLengths y)" by (intro nth_mem) simp
  then show ?thesis unfolding daysIn_def by (auto simp: monthLengths_def split: if_splits)
qed


section \<open>Numerals of fixed width\<close>

lemma parse_digits_append: "parse_digits acc (xs @ ys) = Option.bind (parse_digits acc xs) (\<lambda>a. parse_digits a ys)"
  by (induction xs arbitrary: acc) (auto split: option.splits)

lemma digitVal_digitChar: "d < 10 \<Longrightarrow> digitVal (digitChar d) = Some d"
  by (simp add: digitVal_def digitChar_def of_char_of)

lemma parse_digits_dec_nat: "parse_digits 0 (dec_nat n) = Some n"
proof (induction n rule: dec_nat.induct)
  case (1 n)
  show ?case
  proof (cases "n < 10")
    case True
    then show ?thesis by (subst dec_nat.simps) (simp add: digitVal_digitChar)
  next
    case False
    with 1 show ?thesis by (subst dec_nat.simps) (simp add: parse_digits_append digitVal_digitChar)
  qed
qed

lemma dec_nat_digits: "list_all digitc (dec_nat n)"
proof (induction n rule: dec_nat.induct)
  case (1 n)
  have "d < 10 \<Longrightarrow> digitc (digitChar d)" for d by (simp add: digitc_def digitVal_digitChar)
  with 1 show ?case by (subst dec_nat.simps) simp
qed

lemma length_dec_nat: "n < 10 ^ k \<Longrightarrow> 0 < k \<Longrightarrow> length (dec_nat n) \<le> k"
proof (induction n arbitrary: k rule: dec_nat.induct)
  case (1 n)
  show ?case
  proof (cases "n < 10")
    case True
    with 1 show ?thesis by (subst dec_nat.simps) simp
  next
    case False
    from 1(2,3) False obtain j where k: "k = Suc j" "0 < j"
      by (cases k; cases "k - 1") auto
    with 1(2) have "n div 10 < 10 ^ j" by simp
    with 1(1) [OF False, of j] False k show ?thesis by (subst dec_nat.simps) simp
  qed
qed

lemma parse_digits_zeros: "parse_digits 0 (replicate k (CHR ''0'') @ ds) = parse_digits 0 ds"
  by (induction k) (simp_all add: digitVal_def)

lemma digitc_zero: "digitc CHR ''0''"
  by (simp add: digitc_def digitVal_def)

lemma appendInt_spec:
  assumes "0 \<le> x" "x < 10 ^ k" "0 < k"
  shows "length (appendInt x k) = k" "list_all digitc (appendInt x k)"
    "parse_digits 0 (appendInt x k) = Some (nat x)"
proof -
  have l: "length (dec_nat (nat x)) \<le> k"
    using assms by (intro length_dec_nat) (simp_all add: nat_less_iff)
  have e: "appendInt x k = replicate (k - length (dec_nat (nat x))) (CHR ''0'') @ dec_nat (nat x)"
    using assms(1) by (simp add: appendInt_def Let_def)
  show "length (appendInt x k) = k" using l by (simp add: e)
  show "list_all digitc (appendInt x k)"
    unfolding e using dec_nat_digits [of "nat x"] digitc_zero by (auto simp: list_all_iff)
  show "parse_digits 0 (appendInt x k) = Some (nat x)"
    by (simp add: e parse_digits_zeros parse_digits_dec_nat)
qed

lemma two_digits:
  assumes "0 \<le> x" "x < 100"
  obtains a b m n where "appendInt x 2 = [a, b]" "digitVal a = Some m" "digitVal b = Some n" "x = int m * 10 + int n"
proof -
  from appendInt_spec [of x 2] assms obtain a b where ab: "appendInt x 2 = [a, b]"
    "digitc a" "digitc b" "parse_digits 0 [a, b] = Some (nat x)"
    by (auto simp: numeral_2_eq_2 length_Suc_conv)
  then obtain m n where mn: "digitVal a = Some m" "digitVal b = Some n" by (auto simp: digitc_def)
  with ab(4) assms(1) have "x = int m * 10 + int n" by (simp add: nat_eq_iff2)
  with ab(1) mn show ?thesis by (rule that)
qed

lemma getnum_appendInt: "0 \<le> x \<Longrightarrow> x < 100 \<Longrightarrow> getnum fixed (appendInt x 2 @ v) = Some (x, v)"
  by (rule two_digits [of x]) simp_all

lemma longYear_appendInt: "0 \<le> y \<Longrightarrow> y < 10000 \<Longrightarrow> longYear (appendInt y 4 @ v) = Some (y, v)"
  using appendInt_spec [of y 4] by (simp add: longYear_def)

lemma hd_appendInt: "0 \<le> x \<Longrightarrow> x < 100 \<Longrightarrow> appendInt x 2 \<noteq> [] \<and> hd (appendInt x 2) \<noteq> CHR '' ''"
  by (rule two_digits [of x]) (auto simp: digitVal_def Let_def split: if_splits)

section \<open>The fraction of a second\<close>

lemma parse_digits_shift: "list_all digitc ds \<Longrightarrow> parse_digits acc ds = Some n \<Longrightarrow> parse_digits acc (ds @ replicate k (CHR ''0'')) = Some (n * 10 ^ k)"
proof (induction k arbitrary: n)
  case (Suc k)
  then have "parse_digits acc (ds @ replicate k (CHR ''0'')) = Some (n * 10 ^ k)" by blast
  then show ?case
    by (simp add: replicate_append_same [symmetric] parse_digits_append digitVal_def del: append_assoc add: append_assoc [symmetric])
qed simp

lemma fracSecond_fracText:
  "fracSecond (fracText t @ CHR '' '' # v) = Some (t mod Second, CHR '' '' # v)"
proof (cases "t mod Second = 0")
  case True
  then show ?thesis by (cases v) (simp_all add: fracText_def fracSecond_def)
next
  case False
  define ns where "ns = t mod Second"
  have ns: "0 < ns" "ns < 10 ^ 9"
    using False pos_mod_bound [of Second t] pos_mod_sign [of Second t] unfolding ns_def Second_def by simp_all
  define ds where "ds = rev (dropWhile (\<lambda>c. c = CHR ''0'') (rev (appendInt ns 9)))"
  define k where "k = length (takeWhile (\<lambda>c. c = CHR ''0'') (rev (appendInt ns 9)))"
  have "appendInt ns 9 = rev (takeWhile (\<lambda>c. c = CHR ''0'') (rev (appendInt ns 9)) @ dropWhile (\<lambda>c. c = CHR ''0'') (rev (appendInt ns 9)))"
    by simp
  moreover have "takeWhile (\<lambda>c. c = CHR ''0'') (rev (appendInt ns 9)) = replicate k (CHR ''0'')"
    unfolding k_def by (rule replicate_eqI) (auto dest: set_takeWhileD)
  ultimately have split: "appendInt ns 9 = ds @ replicate k (CHR ''0'')"
    unfolding ds_def by (metis rev_append rev_replicate)
  note A = appendInt_spec [of ns 9]
  have dg: "list_all digitc ds" and len: "length ds + k = 9"
    using A ns split by (auto simp: split)
  obtain n where n: "parse_digits 0 ds = Some n"
    using A(3) ns unfolding split parse_digits_append by (auto split: Option.bind_splits)
  have val: "nat ns = n * 10 ^ k"
    using parse_digits_shift [OF dg n, of k] A(3) ns split by simp
  have ne: "ds \<noteq> []"
    using n val ns by auto
  have tw: "takeWhile digitc (ds @ CHR '' '' # v) = ds"
    using dg by (simp add: takeWhile_append1 takeWhile_append2 list_all_iff digitc_def digitVal_def)
  have "fracText t = CHR ''.'' # ds"
    using False by (simp add: fracText_def ds_def ns_def Let_def)
  moreover have "int n * 10 ^ (9 - length ds) = ns"
    using val len ns by (simp add: nat_eq_iff flip: len)
  moreover have "take 9 ds = ds" using len by simp
  moreover have "digitc (hd ds)" using dg ne by (cases ds) auto
  ultimately show ?thesis
    using ne n tw by (cases ds) (simp_all add: fracSecond_def Let_def ns_def [symmetric])
qed


section \<open>The layout round trip\<close>

lemma skipSpace_one: "v \<noteq> [] \<and> hd v \<noteq> CHR '' '' \<Longrightarrow> skipSpace (CHR '' '' # v) = Some v"
  by (cases v) (simp_all add: skipSpace_def)

lemma skipByte_same: "skipByte c (c # v) = Some v"
  by (simp add: skipByte_def)

lemma zone_suffix: "skipSpace ''+0000 UTC'' = None" "numTZ ''+0000 UTC'' = Some (0, '' UTC'')" "zoneName ''UTC'' = Some (True, '''')"
  by (simp_all add: skipSpace_def numTZ_def digitVal_def within_def zoneName_def HasPrefix_def)

text \<open>The years that four digits write; the chain is not expected outside them.\<close>

definition fourDigitYear :: "time \<Rightarrow> bool" where
  "fourDigitYear t \<longleftrightarrow> (let y = fst (civil (t div (86400 * Second))) in 0 \<le> y \<and> y \<le> 9999)"

lemma clock_split:
  fixes s :: int
  assumes "0 \<le> s" "s < 86400"
  shows "0 \<le> s div 3600" "s div 3600 \<le> 23" "0 \<le> s div 60 mod 60" "s div 60 mod 60 \<le> 59" "0 \<le> s mod 60" "s mod 60 \<le> 59"
    "(s div 3600 * 60 + s div 60 mod 60) * 60 + s mod 60 = s"
proof -
  show "0 \<le> s div 3600" "s div 3600 \<le> 23" "0 \<le> s div 60 mod 60" "s div 60 mod 60 \<le> 59" "0 \<le> s mod 60" "s mod 60 \<le> 59"
    using assms by simp_all
  have "s div 3600 = s div 60 div 60" by (simp add: zdiv_zmult2_eq [symmetric])
  then show "(s div 3600 * 60 + s div 60 mod 60) * 60 + s mod 60 = s" by simp
qed

lemma parse_chainString:
  assumes "fourDigitYear t"
  shows "parseChainTime (chainString t) = Some t"
proof -
  define n where "n = t div (86400 * Second)"
  define s where "s = t div Second mod 86400"
  define hr mi se where hms: "hr = s div 3600" "mi = s div 60 mod 60" "se = s mod 60"
  obtain y m d where c: "civil n = (y, m, d)" by (cases "civil n")
  note C = civil_spec [OF c] 
  have y: "0 \<le> y" "y < 10000" using assms c by (simp_all add: fourDigitYear_def n_def)
  have d: "d < 100" using C(5) daysIn_le [OF C(2,3), of y] by simp
  have s: "0 \<le> s" "s < 86400" by (simp_all add: s_def)
  note S = clock_split [OF s, folded hms]
  have n: "n = t div Second div 86400"
    unfolding n_def by (simp add: zdiv_zmult2_eq [symmetric] mult.commute Second_def)
  have t: "civilTime y m d hr mi se (t mod Second) = t"
  proof -
    have "((n * 24 + hr) * 60 + mi) * 60 + se = n * 86400 + s"
      using S(7) by (simp add: algebra_simps)
    also have "\<dots> = t div Second" unfolding n s_def by simp
    finally show ?thesis by (simp add: civilTime_def C(1))
  qed
  have str: "chainString t = appendInt y 4 @ CHR ''-'' # appendInt m 2 @ CHR ''-'' # appendInt d 2 @ CHR '' '' #
      appendInt hr 2 @ CHR '':'' # appendInt mi 2 @ CHR '':'' # appendInt se 2 @
      fracText t @ CHR '' '' # ''+0000 UTC''"
    using c by (simp add: chainString_def dateText_def clockText_def Let_def n_def s_def hms)
  have h: "skipSpace (CHR '' '' # appendInt hr 2 @ v) = Some (appendInt hr 2 @ v)" for v
    using hd_appendInt [of "hr"] S(1,2) by (intro skipSpace_one) simp
  have z: "skipSpace (CHR '' '' # ''+0000 UTC'') = Some ''+0000 UTC''" "skipSpace '' UTC'' = Some ''UTC''"
    by (rule skipSpace_one, simp)+
  have gs: "within 1 12 (getnum True (appendInt m 2 @ v)) = Some (m, v)"
      "getnum True (appendInt d 2 @ v) = Some (d, v)"
      "within 0 23 (getnum False (appendInt hr 2 @ v)) = Some (hr, v)"
      "within 0 59 (getnum True (appendInt mi 2 @ v)) = Some (mi, v)"
      "within 0 59 (getnum True (appendInt se 2 @ v)) = Some (se, v)" for v
    using C(2-4) d S(1-6) by (simp_all add: within_def getnum_appendInt)
  have valid: "\<not> (([] :: string) \<noteq> [] \<or> d < 1 \<or> daysIn m y < d)" using C(4,5) by simp
  show ?thesis
    unfolding str parseChainTime_def
    by (simp only: longYear_appendInt [OF y] gs skipByte_same h z fracSecond_fracText zone_suffix(2,3)
        Option.bind.simps prod.case if_True valid if_False diff_zero t)
qed

lemma dateText_parts:
  obtains y m d where "civil (t div (86400 * Second)) = (y, m, d)" "1 \<le> m" "m \<le> 12" "1 \<le> d" "d < 100"
    "dateText t = appendInt y 4 @ CHR ''-'' # appendInt m 2 @ CHR ''-'' # appendInt d 2"
proof -
  obtain y m d where c: "civil (t div (86400 * Second)) = (y, m, d)" by (cases "civil (t div (86400 * Second))")
  note C = civil_spec [OF c]
  have "d < 100" using C(5) daysIn_le [OF C(2,3), of y] by simp
  with c C(2,3,4) that show ?thesis by (simp add: dateText_def)
qed

lemma dec_nat_long: "length (dec_nat n) \<le> k \<Longrightarrow> n < 10 ^ k"
proof (induction n arbitrary: k rule: dec_nat.induct)
  case (1 n)
  then obtain j where k: "k = Suc j" by (cases k) (simp_all add: dec_nat.simps [of n] split: if_splits)
  show ?case
  proof (cases "n < 10")
    case True
    then show ?thesis using k by (simp add: order_less_le_trans [OF True])
  next
    case False
    with 1(2) k have "length (dec_nat (n div 10)) \<le> j" by (subst (asm) dec_nat.simps) simp
    from 1(1) [OF False this] k show ?thesis by simp
  qed
qed

text \<open>What has been rendered is not in the layout, whatever its year.\<close>

lemma parse_rendered: "parseChainTime (FormatRFC3339Nano t) = None"
proof -
  obtain y m d where D: "1 \<le> m" "m \<le> 12" "1 \<le> d" "d < 100"
      "dateText t = appendInt y 4 @ CHR ''-'' # appendInt m 2 @ CHR ''-'' # appendInt d 2"
    by (rule dateText_parts [of t])
  obtain v where str: "FormatRFC3339Nano t = appendInt y 4 @ CHR ''-'' # appendInt m 2 @ CHR ''-'' # appendInt d 2 @ CHR ''T'' # v"
    using D(5) by (simp add: FormatRFC3339Nano_def)
  consider "y < 0" | "0 \<le> y" "y < 10000" | "10000 \<le> y" by linarith
  then show ?thesis
  proof cases
    case 1
    then have "longYear (FormatRFC3339Nano t) = None"
      by (simp add: str appendInt_def longYear_def digitVal_def Let_def numeral_eq_Suc)
    then show ?thesis by (simp add: parseChainTime_def)
  next
    case 2
    with D show ?thesis
      by (simp add: str parseChainTime_def longYear_appendInt skipByte_same getnum_appendInt within_def skipSpace_def)
  next
    case 3
    define ds where "ds = dec_nat (nat y)"
    have l: "4 < length ds"
      using dec_nat_long [of "nat y" 4] 3 unfolding ds_def by (cases "length (dec_nat (nat y)) \<le> 4") auto
    have dg: "list_all digitc ds" unfolding ds_def by (rule dec_nat_digits)
    have "appendInt y 4 = ds" using 3 l by (simp add: appendInt_def ds_def [symmetric] Let_def)
    moreover have "list_all digitc (drop 4 ds)" using dg by (metis append_take_drop_id list_all_append)
    then obtain c r where "drop 4 ds = c # r" "digitc c" using l by (cases "drop 4 ds") auto
    moreover have "c \<noteq> CHR ''-''" if "digitc c" for c using that by (auto simp: digitc_def digitVal_def)
    ultimately show ?thesis using l
      by (auto simp: str parseChainTime_def longYear_def skipByte_def split: Option.bind_splits)
  qed
qed

text \<open>Different instants are rendered differently: the re-rendering loses nothing.\<close>

lemma rendering_injective:
  assumes "fourDigitYear t" "fourDigitYear u" "FormatRFC3339Nano t = FormatRFC3339Nano u"
  shows "t = u"
proof -
  have date: "length (dateText x) = 10" if x: "fourDigitYear x" for x
  proof -
    obtain y m d where c: "civil (x div (86400 * Second)) = (y, m, d)" and D: "1 \<le> m" "m \<le> 12" "1 \<le> d" "d < 100"
        "dateText x = appendInt y 4 @ CHR ''-'' # appendInt m 2 @ CHR ''-'' # appendInt d 2"
      by (rule dateText_parts [of x])
    have "0 \<le> y" "y \<le> 9999" using x unfolding fourDigitYear_def c Let_def by simp_all
    with D have "length (appendInt y 4) = 4" "length (appendInt m 2) = 2" "length (appendInt d 2) = 2"
      by (intro appendInt_spec(1); simp)+
    with D(5) show ?thesis by simp
  qed
  have clock: "length (clockText x) = 8" for x
  proof -
    define r where "r = x div Second mod 86400"
    have "0 \<le> r" "r < 86400" by (simp_all add: r_def)
    note S = clock_split [OF this]
    have "length (appendInt (r div 3600) 2) = 2" "length (appendInt (r div 60 mod 60) 2) = 2" "length (appendInt (r mod 60) 2) = 2"
      using S(1-6) by (intro appendInt_spec(1); simp)+
    then show ?thesis unfolding clockText_def Let_def r_def [symmetric] by simp
  qed
  have str: "FormatRFC3339Nano x = dateText x @ (CHR ''T'' # (clockText x @ (fracText x @ ''Z'')))" for x
    by (simp add: FormatRFC3339Nano_def)
  have ld: "length (dateText t) = length (dateText u)" and lc: "length (clockText t) = length (clockText u)"
    by (simp_all only: date [OF assms(1)] date [OF assms(2)] clock)
  note D = append_eq_append_conv [THEN iffD1, OF disjI1, OF ld assms(3) [unfolded str]]
  note C = append_eq_append_conv [THEN iffD1, OF disjI1, OF lc D [THEN conjunct2, THEN list.inject [THEN iffD1], THEN conjunct2]]
  have "dateText t = dateText u \<and> clockText t = clockText u \<and> fracText t = fracText u"
    using D [THEN conjunct1] C [THEN conjunct1] C [THEN conjunct2, THEN append_same_eq [THEN iffD1]] by (intro conjI)
  then have "parseChainTime (chainString t) = parseChainTime (chainString u)" by (simp add: chainString_def)
  then show ?thesis by (simp only: parse_chainString [OF assms(1)] parse_chainString [OF assms(2)] option.inject)
qed

theorem chain_time_normalized:
  "normalizeChainTime (normalizeChainTime s) = normalizeChainTime s"
  "fourDigitYear t \<Longrightarrow> normalizeChainTime (chainString t) = FormatRFC3339Nano t"
  "fourDigitYear t \<Longrightarrow> fourDigitYear u \<Longrightarrow> normalizeChainTime (chainString t) = normalizeChainTime (chainString u) \<Longrightarrow> t = u"
proof -
  show "normalizeChainTime (normalizeChainTime s) = normalizeChainTime s"
    by (simp add: normalizeChainTime_def parse_rendered split: option.split)
  show 1: "normalizeChainTime (chainString t) = FormatRFC3339Nano t" if "fourDigitYear t" for t
    by (simp add: normalizeChainTime_def parse_chainString that)
  show "t = u" if "fourDigitYear t" "fourDigitYear u" "normalizeChainTime (chainString t) = normalizeChainTime (chainString u)"
    using that by (simp add: 1 rendering_injective)
qed

text \<open>The cases that the program's own test pins.\<close>

lemmas chain_time_defs =
  parseChainTime_def longYear_def skipByte_def skipSpace_def within_def fracSecond_def numTZ_def
  zoneName_def parseTimeZone_def upperc_def signedOffset_def digitc_def digitVal_def civilTime_def dayNumber_def
  daysIn_def monthLengths_def isLeap_def HasPrefix_def Second_def

lemma parse_example: "parseChainTime ''2026-02-27 20:28:54.5 +0200 EET'' = Some (civilTime 2026 2 27 18 28 54 500000000)"
  by (simp add: chain_time_defs Let_def)

lemma format_example: "FormatRFC3339Nano (civilTime 2026 2 27 18 28 54 500000000) = ''2026-02-27T18:28:54.5Z''"
  by (simp add: chain_time_defs FormatRFC3339Nano_def dateText_def clockText_def fracText_def civil_def yearDay_def appendInt_def dec_nat.simps digitChar_def char_of_def bit_0 Let_def)

end
