(* ===== verification/Anchor.thy ===== *)
theory Anchor
  imports Anchor_Cursor Go_Time
begin

text \<open>
  The client of the anchoring precompile: the curated reading of a revert
  (\<^verbatim>\<open>internal/anchor/revert.go\<close>), the three queries (\<^verbatim>\<open>client.go\<close>) and the creator address
  (\<^verbatim>\<open>creator_evm.go\<close>).

  The ABI codec (\<^verbatim>\<open>abi\<close>), the bech32 decoder and the RLP encoder of an unsigned transaction are
  parameters, and so is the node: an operation of \<^verbatim>\<open>evm_api\<close> takes the state of the outside
  world, of any type, and returns its outcome with the next state. The times of the chain are re-rendered by
  theory \<open>Go_Time\<close>.
\<close>

section \<open>Computations on the outside world\<close>

type_synonym ('w, 'a) call = "'w \<Rightarrow> 'a outcome \<times> 'w"

definition retW :: "'a \<Rightarrow> ('w, 'a) call" where
  "retW a w = (Returns a, w)"

definition failW :: "goerr \<Rightarrow> ('w, 'a) call" where
  "failW e w = (Fails e, w)"

definition liftW :: "'a outcome \<Rightarrow> ('w, 'a) call" where
  "liftW r w = (r, w)"

definition bindW :: "('w, 'a) call \<Rightarrow> ('a \<Rightarrow> ('w, 'b) call) \<Rightarrow> ('w, 'b) call" where
  "bindW m f w =
     (case m w of
        (Panics, w') \<Rightarrow> (Panics, w')
      | (Fails e, w') \<Rightarrow> (Fails e, w')
      | (Returns a, w') \<Rightarrow> f a w')"

text \<open>\<open>wrapW g m\<close> is \<^verbatim>\<open>if err != nil { return g(err) }\<close> after \<open>m\<close>.\<close>

definition wrapW :: "(goerr \<Rightarrow> goerr) \<Rightarrow> ('w, 'a) call \<Rightarrow> ('w, 'a) call" where
  "wrapW g m w = (case m w of (Fails e, w') \<Rightarrow> (Fails (g e), w') | r \<Rightarrow> r)"

definition orElseW :: "goerr option \<Rightarrow> ('w, 'a) call \<Rightarrow> ('w, 'a) call" where
  "orElseW e m = (case e of Some err \<Rightarrow> failW err | None \<Rightarrow> m)"

lemma bindW_simps [simp]:
  "bindW (retW a) f = f a"
  "bindW (failW e) f = failW e"
  "bindW (liftW (Returns a)) f = f a"
  "bindW (liftW (Fails e)) f = failW e"
  "bindW (liftW Panics) f = liftW Panics"
  by (auto simp: bindW_def retW_def failW_def liftW_def)

lemma bindW_ReturnsE:
  assumes "bindW m f w = (Returns b, w')"
  obtains a w1 where "m w = (Returns a, w1)" "f a w1 = (Returns b, w')"
  using assms by (auto simp: bindW_def split: prod.splits outcome.splits)

lemma bindW_FailsE:
  assumes "bindW m f w = (Fails e, w')"
  obtains "m w = (Fails e, w')" | a w1 where "m w = (Returns a, w1)" "f a w1 = (Fails e, w')"
  using assms by (auto simp: bindW_def split: prod.splits outcome.splits)

lemma wrapW_Returns [simp]: "wrapW g m w = (Returns b, w') \<longleftrightarrow> m w = (Returns b, w')"
  by (auto simp: wrapW_def split: prod.splits outcome.splits)

lemma wrapW_FailsE:
  assumes "wrapW g m w = (Fails e, w')"
  obtains e0 where "m w = (Fails e0, w')" "e = g e0"
  using assms by (auto simp: wrapW_def split: prod.splits outcome.splits)

lemma orElseW_simps [simp]: "orElseW None m = m" "orElseW (Some e) m = failW e"
  by (simp_all add: orElseW_def)

lemma retW_apply [simp]: "retW a w = (Returns b, w') \<longleftrightarrow> b = a \<and> w' = w" "retW a w \<noteq> (Fails e, w')"
  by (auto simp: retW_def)

lemma failW_apply [simp]: "failW e w = (Fails e', w') \<longleftrightarrow> e' = e \<and> w' = w" "failW e w \<noteq> (Returns b, w')"
  by (auto simp: failW_def)

section \<open>Reverts\<close>

definition onChainRoleDenial :: string where
  "onChainRoleDenial =
     ''on-chain authorization failed: the `from` address does not hold the '' @
     ''role this write requires on the target registry (creating a '' @
     ''registry makes you its admin; an admin grants editor with '' @
     ''anchor_prepare_grant_role). This is a chain-side permission '' @
     ''check, not this server''  @ [CHR 0x27] @ ''s API-key authorization''"

definition safePrecompileReverts :: "(string \<times> string \<times> sentinel) list" where
  "safePrecompileReverts =
     [(''metadata cannot be empty'',
       ''metadata cannot be empty'',
       ErrPrecompileValidation),
      (''checksum exceeds max length'',
       ''checksum exceeds the maximum length allowed by the registry'',
       ErrPrecompileValidation),
      (''name exceeds max length'',
       ''name exceeds the maximum length the anchoring precompile allows '' @
       ''(128 characters); shorten the registry name'',
       ErrPrecompileValidation),
      (''requires registry_id'',
       ''record_id requires registry_id: a record ID is only unique within '' @
       ''its registry, so pass registry_id together with record_id'',
       ErrPrecompileValidation),
      (''does not have the specified role'',
       ''the account does not hold the specified role on this registry (or '' @
       ''record), so there is nothing to revoke; check the role name and '' @
       ''whether the grant was registry-wide or scoped to a record checksum'',
       ErrPrecompileValidation),
      (''missing required role'', onChainRoleDenial, ErrPermissionDenied),
      (''index cannot be zero'',
       ''index must be 1 or greater -- record version indexes start at 1; '' @
       ''anchor_get_records reports the index of each version'',
       ErrPrecompileValidation),
      (''unauthorized'', onChainRoleDenial, ErrPermissionDenied)]"

definition collectionsNotFound :: string where
  "collectionsNotFound = ''collections: not found''"

definition curatePrecompileErr :: "string \<Rightarrow> sentinel \<Rightarrow> goerr" where
  "curatePrecompileErr reason kind =
     (if reason = sentinel_text kind then Sentinel kind else wrapf reason (Sentinel kind))"

definition classifyPrecompileRevert ::
  "(string \<Rightarrow> string) \<Rightarrow> goerr option \<Rightarrow> (string \<times> sentinel) option" where
  "classifyPrecompileRevert ul e =
     (case e of
        None \<Rightarrow> None
      | Some err \<Rightarrow>
          let msg = ToLower ul (Error err) in
          if Contains msg collectionsNotFound then
            (if Contains msg ''registry'' then Some (sentinel_text ErrRegistryNotFound, ErrRegistryNotFound)
             else Some (sentinel_text ErrRecordNotFound, ErrRecordNotFound))
          else map_option snd (find (\<lambda>(m, _). Contains msg m) safePrecompileReverts))"

text \<open>The error branch that reads and gas estimation share.\<close>

definition precompileErr :: "(string \<Rightarrow> string) \<Rightarrow> string \<Rightarrow> goerr \<Rightarrow> goerr" where
  "precompileErr ul op err =
     (case classifyPrecompileRevert ul (Some err) of
        Some (reason, kind) \<Rightarrow> curatePrecompileErr reason kind
      | None \<Rightarrow> wrapf op err)"

section \<open>The precompile's interface\<close>

record abiPaginationInput =
  pi_Key :: bytes
  pi_Offset :: uint64
  pi_Limit :: uint64
  pi_CountTotal :: bool
  pi_Reverse :: bool

record abiRegistryRow =
  rr_ID :: uint64
  rr_Name :: string
  rr_Description :: string
  rr_Creator :: string
  rr_CreatedAt :: string
  rr_Metadata :: string

record abiRecordRow =
  rw_URI :: string
  rw_Checksum :: string
  rw_ChecksumAlgo :: string
  rw_Metadata :: string
  rw_Timestamp :: string
  rw_Status :: string
  rw_RecordID :: uint64
  rw_Index :: uint64
  rw_IsLatest :: bool
  rw_RegistryID :: uint64

record abiPaginationOutput =
  po_NextKey :: bytes
  po_Total :: uint64

datatype abi_args =
    RegistriesArgs uint64 abiPaginationInput
  | RecordsArgs uint64 string uint64 uint64 abiPaginationInput
  | AddRegistryArgs string string string
  | AddRecordArgs abiRecordRow
  | UpdateRecordStatusArgs uint64 uint64 uint64 string
  | RoleArgs uint64 string address string

record abi =
  ab_Methods :: "(string \<times> bytes) list"
  ab_Encode :: "string \<Rightarrow> abi_args \<Rightarrow> goerr + bytes"
  ab_Registries :: "bytes \<Rightarrow> (abiRegistryRow list \<times> abiPaginationOutput) outcome"
  ab_Records :: "bytes \<Rightarrow> (abiRecordRow list \<times> abiPaginationOutput) outcome"

record Call =
  ca_From :: "address option"
  ca_To :: "address option"
  ca_Input :: bytes

record 'w evm_api =
  ea_PendingNonceAt :: "address \<Rightarrow> ('w, uint64) call"
  ea_SuggestGasPrice :: "('w, int) call"
  ea_SuggestGasTipCap :: "('w, int option) call"
  ea_EstimateGas :: "Call \<Rightarrow> ('w, uint64) call"
  ea_CallContract :: "Call \<Rightarrow> ('w, bytes) call"

record TxFields =
  tf_Type :: nat
  tf_ChainID :: "uint64 option"
  tf_To :: address
  tf_Value :: int
  tf_GasLimit :: uint64
  tf_GasPrice :: "int option"
  tf_MaxPriorityFeePerGas :: "int option"
  tf_MaxFeePerGas :: "int option"
  tf_Input :: bytes
  tf_Nonce :: uint64

record 'w anchor_client =
  an_evm :: "'w evm_api"
  an_address :: address
  an_chainID :: int
  an_abi :: "abi option"
  an_ut :: unicode_tables
  an_kec :: "bytes \<Rightarrow> hash"
  an_bech32 :: "string \<Rightarrow> bytes option"
  an_rawTx :: "TxFields \<Rightarrow> goerr + bytes"

record PrecompileInfo =
  pf_Address :: string
  pf_ChainID :: int
  pf_ABILoaded :: bool
  pf_MethodCount :: nat

definition PrecompileAddress :: string where
  "PrecompileAddress = ''0x0000000000000000000000000000000000000A00''"

text \<open>
  \<open>NewClient\<close>: \<^verbatim>\<open>MustAddressFromHex\<close> panics on a malformed address; an ABI that cannot be
  loaded leaves the client without one. The file and the parser of the ABI library are the
  parameters \<open>abi_lib\<close>; \<open>al_wrapped\<close> is the field \<^verbatim>\<open>abi\<close> of a JSON object, empty if it has none
  and \<open>None\<close> if the text is not an object that decodes.
\<close>

record abi_lib =
  al_ReadFile :: "string \<Rightarrow> goerr + string"
  al_wrapped :: "string \<Rightarrow> string option"
  al_ParseJSON :: "string \<Rightarrow> goerr + abi"

definition abiSource :: "abi_lib \<Rightarrow> string \<Rightarrow> string" where
  "abiSource al data =
     (let raw = TrimSpace data
      in if HasPrefix raw ''{'' then
           (case al_wrapped al raw of Some inner \<Rightarrow> if inner \<noteq> '''' then inner else raw | None \<Rightarrow> raw)
         else raw)"

definition loadABI :: "abi_lib \<Rightarrow> string \<Rightarrow> goerr + abi" where
  "loadABI al path =
     (case al_ReadFile al path of
        Inl err \<Rightarrow> Inl (wrapf (''read ABI file '' @ path) err)
      | Inr data \<Rightarrow>
          (case al_ParseJSON al (abiSource al data) of
             Inl err \<Rightarrow> Inl (wrapf (''parse ABI from '' @ path) err)
           | Inr parsed \<Rightarrow>
               if ab_Methods parsed = [] then Inl (wrapf (''ABI from '' @ path) (Sentinel ErrAnchorABIEmpty))
               else Inr parsed))"

definition NewClient ::
  "'w anchor_client \<Rightarrow> string \<Rightarrow> int \<Rightarrow> string \<Rightarrow> abi_lib \<Rightarrow> 'w anchor_client outcome" where
  "NewClient c addr chainID abiPath al =
     (case AddressFromHex addr of
        None \<Rightarrow> Panics
      | Some a \<Rightarrow>
          let c' = c\<lparr>an_address := a, an_chainID := chainID, an_abi := None\<rparr> in
          Returns (if abiPath \<noteq> '''' then
                     (case loadABI al abiPath of Inl _ \<Rightarrow> c' | Inr ab \<Rightarrow> c'\<lparr>an_abi := Some ab\<rparr>)
                   else c'))"

definition Info :: "'w anchor_client \<Rightarrow> PrecompileInfo" where
  "Info c = \<lparr>pf_Address = AddressHex (an_kec c) (an_address c), pf_ChainID = an_chainID c,
             pf_ABILoaded = (an_abi c \<noteq> None),
             pf_MethodCount = (case an_abi c of None \<Rightarrow> 0 | Some ab \<Rightarrow> length (ab_Methods ab))\<rparr>"

definition Available :: "'w anchor_client \<Rightarrow> bool" where
  "Available c \<longleftrightarrow> an_abi c \<noteq> None"

definition MethodSelector :: "'w anchor_client \<Rightarrow> string \<Rightarrow> string \<times> bool" where
  "MethodSelector c name =
     (case an_abi c of
        None \<Rightarrow> ('''', False)
      | Some ab \<Rightarrow>
          (case map_of (ab_Methods ab) name of
             None \<Rightarrow> ('''', False)
           | Some fb \<Rightarrow> (''0x'' @ EncodeToString fb, True)))"

definition requireABI :: "'w anchor_client \<Rightarrow> (abi \<Rightarrow> ('w, 'a) call) \<Rightarrow> ('w, 'a) call" where
  "requireABI c k =
     (case an_abi c of
        None \<Rightarrow>
          failW (Errorf (''set ANCHOR_ABI_PATH to a valid ABI JSON file (precompile address: '' @
                    AddressHex (an_kec c) (an_address c) @ ''): '' @ sentinel_text ErrAnchorABIMissing)
                  [Sentinel ErrAnchorABIMissing])
      | Some ab \<Rightarrow> k ab)"

definition callPrecompile :: "'w anchor_client \<Rightarrow> abi \<Rightarrow> string \<Rightarrow> abi_args \<Rightarrow> ('w, bytes) call" where
  "callPrecompile c ab method args =
     (if map_of (ab_Methods ab) method = None then
        failW (wrapf (''method '' @ Quote (uQuote (an_ut c)) method) (Sentinel ErrAnchorABIMethodMissing))
      else case ab_Encode ab method args of
        Inl err \<Rightarrow> failW (wrapf (''failed to pack '' @ method @ '' call'') err)
      | Inr input \<Rightarrow>
          wrapW (precompileErr (uLower (an_ut c)) (method @ '' call failed''))
            (ea_CallContract (an_evm c)
              \<lparr>ca_From = None, ca_To = Some (an_address c), ca_Input = input\<rparr>))"

definition guardABIDecode :: "'a outcome \<Rightarrow> 'a outcome" where
  "guardABIDecode r =
     (case r of
        Panics \<Rightarrow> Fails (wrapf ''decode precompile response panicked'' (Sentinel ErrNodeResponseDecode))
      | _ \<Rightarrow> r)"

section \<open>Rows\<close>

record Registry =
  rg_ID :: uint64
  rg_Name :: string
  rg_Description :: string
  rg_Creator :: string
  rg_CreatorEVM :: string
  rg_CreatedAt :: string
  rg_Metadata :: string

record Record =
  rc_RegistryID :: uint64
  rc_RecordID :: uint64
  rc_Index :: uint64
  rc_Checksum :: string
  rc_ChecksumAlgo :: string
  rc_URI :: string
  rc_Status :: string
  rc_IsLatest :: bool
  rc_Timestamp :: string
  rc_Metadata :: string

definition evmAddressLen :: nat where
  "evmAddressLen = 20"

definition creatorEVM :: "(string \<Rightarrow> bytes option) \<Rightarrow> string \<Rightarrow> string" where
  "creatorEVM bech32 creator =
     (if HasPrefix creator ''0x'' then
        (let raw = drop 2 creator in
         if length raw = evmAddressLen * 2
         then (case DecodeString raw of Inl _ \<Rightarrow> '''' | Inr _ \<Rightarrow> ToLower (\<lambda>s. s) creator)
         else '''')
      else
        (case bech32 creator of
           None \<Rightarrow> ''''
         | Some data \<Rightarrow> if length data \<noteq> evmAddressLen then '''' else ''0x'' @ EncodeToString data))"

definition toRegistry :: "'w anchor_client \<Rightarrow> abiRegistryRow \<Rightarrow> Registry" where
  "toRegistry c r =
     \<lparr>rg_ID = rr_ID r, rg_Name = rr_Name r, rg_Description = rr_Description r,
      rg_Creator = rr_Creator r, rg_CreatorEVM = creatorEVM (an_bech32 c) (rr_Creator r),
      rg_CreatedAt = normalizeChainTime (rr_CreatedAt r), rg_Metadata = rr_Metadata r\<rparr>"

definition toRegistries :: "'w anchor_client \<Rightarrow> abiRegistryRow list \<Rightarrow> Registry list" where
  "toRegistries c rows = map (toRegistry c) rows"

definition toRecord :: "'w anchor_client \<Rightarrow> abiRecordRow \<Rightarrow> Record" where
  "toRecord c r =
     \<lparr>rc_RegistryID = rw_RegistryID r, rc_RecordID = rw_RecordID r, rc_Index = rw_Index r,
      rc_Checksum = rw_Checksum r, rc_ChecksumAlgo = rw_ChecksumAlgo r, rc_URI = rw_URI r,
      rc_Status = rw_Status r, rc_IsLatest = rw_IsLatest r,
      rc_Timestamp = normalizeChainTime (rw_Timestamp r), rc_Metadata = rw_Metadata r\<rparr>"

definition toRecords :: "'w anchor_client \<Rightarrow> abiRecordRow list \<Rightarrow> Record list" where
  "toRecords c rows = map (toRecord c) rows"

section \<open>Queries\<close>

record PageRequest =
  pq_Offset :: uint64
  pq_Limit :: uint64
  pq_Reverse :: bool
  pq_Key :: bytes

record GetRegistriesRequest =
  gq_RegistryID :: "uint64 option"
  gq_Pagination :: "PageRequest option"

record GetRegistriesResponse =
  gr_Registries :: "Registry list"
  gr_Pagination :: "PageResponse option"

record GetRecordsRequest =
  rq_RegistryID :: "uint64 option"
  rq_RecordID :: "uint64 option"
  rq_Index :: "uint64 option"
  rq_Checksum :: "string option"
  rq_Pagination :: "PageRequest option"

record GetRecordsResponse =
  re_Records :: "Record list"
  re_Pagination :: "PageResponse option"

definition noPage :: PageRequest where
  "noPage = \<lparr>pq_Offset = 0, pq_Limit = 0, pq_Reverse = False, pq_Key = []\<rparr>"

definition optU64 :: "uint64 option \<Rightarrow> uint64" where
  "optU64 p = (case p of None \<Rightarrow> 0 | Some v \<Rightarrow> v)"

text \<open>A node that does not hold the key says so only in its error text.\<close>

definition registryErr :: "goerr \<Rightarrow> goerr" where
  "registryErr err =
     (if Contains (Error err) ''not found''
      then wrapf ''registry lookup failed'' (Sentinel ErrRegistryNotFound) else err)"

definition GetRegistry :: "'w anchor_client \<Rightarrow> uint64 \<Rightarrow> ('w, Registry) call" where
  "GetRegistry c rid = requireABI c (\<lambda>ab.
     if rid = 0 then failW (wrapf ''registry id must be > 0'' (Sentinel ErrInvalidRegistryID))
     else
       bindW (wrapW registryErr (callPrecompile c ab ''registries''
                (RegistriesArgs rid \<lparr>pi_Key = [], pi_Offset = 0, pi_Limit = 1, pi_CountTotal = False,
                                     pi_Reverse = False\<rparr>))) (\<lambda>output.
       bindW (wrapW (wrapf ''unpack registries response'') (liftW (guardABIDecode (ab_Registries ab output))))
       (\<lambda>(rows, page).
         case toRegistries c rows of
           [] \<Rightarrow> failW (wrapf ''registry lookup returned no results'' (Sentinel ErrRegistryNotFound))
         | r # _ \<Rightarrow> retW r)))"

definition registriesPage :: "PageRequest option \<Rightarrow> abiPaginationInput" where
  "registriesPage p =
     (case p of
        None \<Rightarrow> \<lparr>pi_Key = [], pi_Offset = 0, pi_Limit = 100, pi_CountTotal = True, pi_Reverse = False\<rparr>
      | Some q \<Rightarrow>
          \<lparr>pi_Key = pq_Key q, pi_Offset = pq_Offset q,
           pi_Limit = (if pq_Limit q > 0 then pq_Limit q else 100), pi_CountTotal = True,
           pi_Reverse = pq_Reverse q\<rparr>)"

definition GetRegistries ::
  "'w anchor_client \<Rightarrow> GetRegistriesRequest \<Rightarrow> ('w, GetRegistriesResponse) call" where
  "GetRegistries c req = requireABI c (\<lambda>ab.
     bindW (wrapW registryErr (callPrecompile c ab ''registries''
              (RegistriesArgs (optU64 (gq_RegistryID req)) (registriesPage (gq_Pagination req))))) (\<lambda>output.
     bindW (wrapW (wrapf ''unpack registries response'') (liftW (guardABIDecode (ab_Registries ab output))))
     (\<lambda>(rows, page).
       retW \<lparr>gr_Registries = toRegistries c rows,
             gr_Pagination = Some \<lparr>pr_Total = po_Total page, pr_NextKey = EncodeCursor (po_NextKey page)\<rparr>\<rparr>)))"

definition normalizeChecksum :: "string \<Rightarrow> string" where
  "normalizeChecksum s =
     (if length s \<ge> 2 \<and> s ! 0 = CHR ''0'' \<and> (s ! 1 = CHR ''x'' \<or> s ! 1 = CHR ''X'') then drop 2 s else s)"

definition recordsPage :: "PageRequest option \<Rightarrow> abiPaginationInput" where
  "recordsPage p =
     (case p of
        None \<Rightarrow> \<lparr>pi_Key = [], pi_Offset = 0, pi_Limit = 100, pi_CountTotal = True, pi_Reverse = False\<rparr>
      | Some q \<Rightarrow>
          \<lparr>pi_Key = [], pi_Offset = pq_Offset q,
           pi_Limit = (if pq_Limit q > 0 then pq_Limit q else 100), pi_CountTotal = True,
           pi_Reverse = False\<rparr>)"

definition GetRecords ::
  "'w anchor_client \<Rightarrow> GetRecordsRequest \<Rightarrow> ('w, GetRecordsResponse) call" where
  "GetRecords c req = requireABI c (\<lambda>ab.
     bindW (callPrecompile c ab ''records''
              (RecordsArgs (optU64 (rq_RegistryID req))
                 (case rq_Checksum req of None \<Rightarrow> '''' | Some s \<Rightarrow> normalizeChecksum s)
                 (optU64 (rq_RecordID req)) (optU64 (rq_Index req)) (recordsPage (rq_Pagination req))))
     (\<lambda>output.
     bindW (wrapW (wrapf ''unpack records response'') (liftW (guardABIDecode (ab_Records ab output))))
     (\<lambda>(rows, page).
       retW \<lparr>re_Records = toRecords c rows,
             re_Pagination = Some \<lparr>pr_Total = po_Total page, pr_NextKey = ''''\<rparr>\<rparr>)))"

section \<open>The two modes of the client\<close>

lemma loadABI_methods: "loadABI al path = Inr ab \<Longrightarrow> ab_Methods ab \<noteq> []"
  by (auto simp: loadABI_def split: sum.splits if_splits)

text \<open>
  A client is available exactly if a file was named and it held an ABI with a method, and it
  reports so consistently. Without one every query fails the same way, asking the node nothing.
\<close>

theorem client_modes:
  assumes "NewClient base addr chainID path al = Returns c"
  shows "Available c \<longleftrightarrow> path \<noteq> '''' \<and> (\<exists>ab. loadABI al path = Inr ab)"
    "pf_ABILoaded (Info c) = Available c" "0 < pf_MethodCount (Info c) \<longleftrightarrow> Available c"
    "\<not> Available c \<Longrightarrow> \<exists>e. Is e (Sentinel ErrAnchorABIMissing) \<and>
       GetRegistry c rid w = (Fails e, w) \<and> GetRegistries c req w = (Fails e, w) \<and> GetRecords c req' w = (Fails e, w)"
proof -
  show "Available c \<longleftrightarrow> path \<noteq> '''' \<and> (\<exists>ab. loadABI al path = Inr ab)"
    using assms by (auto simp: NewClient_def Available_def Let_def split: option.splits if_splits sum.splits)
  show "pf_ABILoaded (Info c) = Available c"
    by (simp add: Info_def Available_def)
  show "0 < pf_MethodCount (Info c) \<longleftrightarrow> Available c"
    using assms loadABI_methods [of al path]
    by (auto simp: NewClient_def Info_def Available_def Let_def split: option.splits if_splits sum.splits)
  show "\<exists>e. Is e (Sentinel ErrAnchorABIMissing) \<and>
       GetRegistry c rid w = (Fails e, w) \<and> GetRegistries c req w = (Fails e, w) \<and> GetRecords c req' w = (Fails e, w)"
    if "\<not> Available c"
  proof -
    have none: "an_abi c = None" using that by (simp add: Available_def)
    show ?thesis unfolding GetRegistry_def GetRegistries_def GetRecords_def requireABI_def none
      by (simp add: failW_def Is_def)
  qed
qed

end
