(* ===== verification/Evm_Balance.thy ===== *)
theory Evm_Balance
  imports Evm_Client
begin

text \<open>
  Balances (\<^verbatim>\<open>normalizeBalance\<close> of \<^verbatim>\<open>internal/evm/normalize.go\<close> and \<^verbatim>\<open>BalanceAt\<close> of
  \<^verbatim>\<open>internal/evm/client.go\<close>): the amount in whole tokens is computed with \<^verbatim>\<open>big.Float\<close>, whose
  arithmetic is modelled on its mantissas: the precision is the bit length of the integer, at
  least 64, and the quotient and the decimal text are each rounded to nearest, ties to even.
\<close>

section \<open>Arithmetic of \<open>big.Float\<close>\<close>

fun bitLen :: "nat \<Rightarrow> nat" where
  "bitLen n = (if n = 0 then 0 else Suc (bitLen (n div 2)))"

declare bitLen.simps [simp del]

definition roundHalfEven :: "nat \<Rightarrow> nat \<Rightarrow> nat" where
  "roundHalfEven num den =
     (let q = num div den; r = num mod den
      in if den < 2 * r \<or> 2 * r = den \<and> odd q then Suc q else q)"

text \<open>
  \<open>FloatQuo n d\<close> is \<open>(m, s)\<close> with value \<open>m / 2 ^ s\<close>: the quotient of two integers taken by
  \<^verbatim>\<open>SetInt\<close>, with as many mantissa bits as the longer of them has, at least 64.
\<close>

definition floatPrec :: "nat \<Rightarrow> nat \<Rightarrow> nat" where
  "floatPrec n d = max (max (bitLen n) 64) (max (bitLen d) 64)"

definition quoShift :: "nat \<Rightarrow> nat \<Rightarrow> nat" where
  "quoShift n d =
     (let p = floatPrec n d; s = p + bitLen d - bitLen n
      in if d * 2 ^ p \<le> n * 2 ^ s then s - 1 else s)"

definition FloatQuo :: "nat \<Rightarrow> nat \<Rightarrow> nat \<times> nat" where
  "FloatQuo n d = (if n = 0 then (0, 0) else (let s = quoShift n d in (roundHalfEven (n * 2 ^ s) d, s)))"

definition padded :: "nat \<Rightarrow> nat \<Rightarrow> string" where
  "padded w n = (let ds = dec_nat n in replicate (w - length ds) (CHR ''0'') @ ds)"

text \<open>\<open>fixed18 k\<close> writes \<open>k\<close> units of the eighteenth decimal place.\<close>

definition fixed18 :: "nat \<Rightarrow> string" where
  "fixed18 k = dec_nat (k div 10 ^ 18) @ ''.'' @ padded 18 (k mod 10 ^ 18)"

definition FloatText18 :: "nat \<times> nat \<Rightarrow> string" where
  "FloatText18 f = (case f of (m, s) \<Rightarrow> fixed18 (roundHalfEven (m * 10 ^ 18) (2 ^ s)))"

section \<open>The balance\<close>

record NormalizedBalance =
  nb_Address :: string
  nb_Wei :: string
  nb_Ether :: string

definition normalizeBalance :: "(bytes \<Rightarrow> hash) \<Rightarrow> address \<Rightarrow> int \<Rightarrow> NormalizedBalance" where
  "normalizeBalance kec addr balance =
     \<lparr>nb_Address = AddressHex kec addr, nb_Wei = dec_int balance,
      nb_Ether = (if balance < 0 then ''-'' else '''') @ FloatText18 (FloatQuo (nat \<bar>balance\<bar>) (10 ^ 18))\<rparr>"

definition BalanceAt ::
  "(string \<Rightarrow> string) \<Rightarrow> (bytes \<Rightarrow> hash) \<Rightarrow> address \<Rightarrow> int option outcome \<Rightarrow> NormalizedBalance outcome" where
  "BalanceAt ul kec addr r =
     guardNodeDecode ''get balance''
       (withRpc r (curatedOr ul ''failed to get balance'')
         (\<lambda>balance. bindO (deref balance) (\<lambda>b. Returns (normalizeBalance kec addr b))))"

section \<open>How exact the rendering is\<close>

lemma roundHalfEven_error:
  assumes "0 < den"
  shows "2 * \<bar>int (roundHalfEven num den) * int den - int num\<bar> \<le> int den"
proof -
  define q r where "q = num div den" and "r = num mod den"
  have n: "int num = int q * int den + int r" unfolding q_def r_def by (metis div_mult_mod_eq of_nat_add of_nat_mult)
  have "r < den" using assms by (simp add: r_def)
  then show ?thesis
    by (auto simp: roundHalfEven_def Let_def n algebra_simps simp flip: q_def r_def)
qed

lemma bitLen_bounds: "0 < n \<Longrightarrow> 2 ^ (bitLen n - 1) \<le> n \<and> n < 2 ^ bitLen n \<and> 0 < bitLen n"
proof (induction n rule: bitLen.induct)
  case (1 n)
  show ?case
  proof (cases "n div 2 = 0")
    case True
    with 1 have "n = 1" by auto
    then show ?thesis by (simp add: bitLen.simps)
  next
    case False
    with 1 have IH: "2 ^ (bitLen (n div 2) - 1) \<le> n div 2" "n div 2 < 2 ^ bitLen (n div 2)" "0 < bitLen (n div 2)" by auto
    have b: "bitLen n = Suc (bitLen (n div 2))" using 1 by (subst bitLen.simps) simp
    have "2 ^ bitLen (n div 2) = 2 * (2::nat) ^ (bitLen (n div 2) - 1)" using IH(3) by (simp flip: power_Suc)
    moreover have "n = 2 * (n div 2) + n mod 2" "n mod 2 < 2" by simp_all
    ultimately have "2 ^ bitLen (n div 2) \<le> n" "n < 2 * 2 ^ bitLen (n div 2)" using IH(1,2) by linarith+
    then show ?thesis unfolding b by simp
  qed
qed

lemma bitLen_unique:
  assumes "2 ^ k \<le> n" "n < 2 ^ Suc k"
  shows "bitLen n = Suc k"
proof -
  have "0 < n" using assms(1) by (rule order.strict_trans2 [rotated]) simp
  note b = bitLen_bounds [OF this]
  have "bitLen n - 1 < Suc k" "k < bitLen n"
    using b assms by (metis order.strict_trans1 power_less_imp_less_exp one_less_numeral_iff semiring_norm(76))+
  then show ?thesis by simp
qed

lemma bitLen_le: "n < 2 ^ k \<Longrightarrow> bitLen n \<le> k"
proof (cases "n = 0")
  case False
  assume "n < 2 ^ k"
  with False bitLen_bounds [of n] have "(2::nat) ^ (bitLen n - 1) < 2 ^ k" by linarith
  then have "bitLen n - 1 < k" by (rule power_less_imp_less_exp [rotated]) simp
  then show ?thesis by simp
qed (simp add: bitLen.simps)

lemma bitLen_token: "bitLen 1000000000000000000 = 60"
proof -
  have "bitLen 1000000000000000000 = Suc 59" by (rule bitLen_unique) simp_all
  then show ?thesis by simp
qed

lemma quoShift_ge: "0 < n \<Longrightarrow> 59 \<le> quoShift n (10 ^ 18)"
  by (auto simp: quoShift_def floatPrec_def bitLen_token Let_def)

lemma quoShift_small:
  assumes "0 < n" "n < 16 * 10 ^ 18"
  shows "60 \<le> quoShift n (10 ^ 18)"
proof (cases "n < 2 ^ 63")
  case True
  then have "bitLen n \<le> 63" by (rule bitLen_le)
  then show ?thesis by (auto simp: quoShift_def floatPrec_def bitLen_token Let_def)
next
  case False
  with assms(2) have "bitLen n = Suc 63" by (intro bitLen_unique) simp_all
  with assms(2) show ?thesis by (simp add: quoShift_def floatPrec_def bitLen_token Let_def)
qed

lemma abs_chain: "2 * \<bar>b - c\<bar> \<le> (x :: int) \<Longrightarrow> 2 * \<bar>a - b\<bar> \<le> y \<Longrightarrow> 2 * \<bar>a - c\<bar> \<le> y + x"
  by arith

lemma rendered_error:
  assumes "0 < n"
  obtains k where "FloatText18 (FloatQuo n (10 ^ 18)) = fixed18 k"
    "2 * \<bar>int k - int n\<bar> * 2 ^ quoShift n (10 ^ 18) \<le> 2 ^ quoShift n (10 ^ 18) + 10 ^ 18"
proof -
  define s d m k where "s = quoShift n (10 ^ 18)" and "d = (10 ^ 18 :: nat)" and "m = roundHalfEven (n * 2 ^ s) d"
    and "k = roundHalfEven (m * d) (2 ^ s)"
  have "2 * \<bar>int m * int d - int n * 2 ^ s\<bar> \<le> int d"
    using roundHalfEven_error [of d "n * 2 ^ s"] by (simp add: d_def m_def)
  moreover have "2 * \<bar>int k * 2 ^ s - int m * int d\<bar> \<le> 2 ^ s"
    using roundHalfEven_error [of "2 ^ s" "m * d"] by (simp add: k_def)
  ultimately have "2 * \<bar>int k * 2 ^ s - int n * 2 ^ s\<bar> \<le> 2 ^ s + int d" by (rule abs_chain)
  moreover have "\<bar>int k - int n\<bar> * 2 ^ s = \<bar>int k * 2 ^ s - int n * 2 ^ s\<bar>"
    by (simp add: abs_mult flip: left_diff_distrib)
  ultimately have "2 * (\<bar>int k - int n\<bar> * 2 ^ s) \<le> 2 ^ s + int d" by simp
  moreover have "FloatText18 (FloatQuo n (10 ^ 18)) = fixed18 k"
    using assms by (simp add: FloatText18_def FloatQuo_def Let_def k_def m_def s_def d_def)
  ultimately show thesis using that [of k] by (simp add: s_def d_def mult.assoc)
qed


text \<open>
  Claim C32 (how exact a balance is shown). For every balance the node reports, the amount in wei
  is exact, and the amount in tokens is a decimal with eighteen places that differs from it by at
  most one wei; below sixteen tokens it is exact.
\<close>

theorem balance_rendering:
  "\<exists>b k. BalanceAt ul kec addr (Returns (Some (int n))) = Returns b
     \<and> nb_Address b = AddressHex kec addr \<and> nb_Wei b = dec_nat n \<and> nb_Ether b = fixed18 k
     \<and> \<bar>int k - int n\<bar> \<le> 1 \<and> (n < 16 * 10 ^ 18 \<longrightarrow> k = n)"
proof -
  obtain k where k: "FloatText18 (FloatQuo n (10 ^ 18)) = fixed18 k" "\<bar>int k - int n\<bar> \<le> 1" "n < 16 * 10 ^ 18 \<longrightarrow> k = n"
  proof (cases "n = 0")
    case True
    with that [of 0] show thesis by (simp add: FloatQuo_def FloatText18_def roundHalfEven_def)
  next
    case False
    then have n: "0 < n" by simp
    from rendered_error [OF n] obtain k where k: "FloatText18 (FloatQuo n (10 ^ 18)) = fixed18 k"
      and e: "2 * \<bar>int k - int n\<bar> * 2 ^ quoShift n (10 ^ 18) \<le> 2 ^ quoShift n (10 ^ 18) + 10 ^ 18" by blast
    define p where "p = (2 :: int) ^ quoShift n (10 ^ 18)"
    have "(2 :: int) ^ 59 \<le> p" unfolding p_def by (rule power_increasing [OF quoShift_ge [OF n]]) simp
    have "\<bar>int k - int n\<bar> < 2"
    proof (rule ccontr)
      assume "\<not> \<bar>int k - int n\<bar> < 2"
      then have "2 * 2 * p \<le> 2 * \<bar>int k - int n\<bar> * p" by (intro mult_right_mono) (simp_all add: p_def)
      also note e [folded p_def]
      finally show False using \<open>2 ^ 59 \<le> p\<close> by simp
    qed
    moreover have "k = n" if "n < 16 * 10 ^ 18"
    proof (rule ccontr)
      assume "k \<noteq> n"
      then have "1 \<le> \<bar>int k - int n\<bar>" by linarith
      then have "2 * 1 * p \<le> 2 * \<bar>int k - int n\<bar> * p" by (intro mult_right_mono) (simp_all add: p_def)
      also note e [folded p_def]
      finally have "p \<le> 10 ^ 18" by simp
      moreover have "(2 :: int) ^ 60 \<le> p" unfolding p_def by (rule power_increasing [OF quoShift_small [OF n that]]) simp
      ultimately show False by simp
    qed
    ultimately show thesis using that k by auto
  qed
  then show ?thesis
    by (intro exI [of _ "normalizeBalance kec addr (int n)"] exI [of _ k])
       (simp add: BalanceAt_def guardNodeDecode_def withRpc_def deref_def normalizeBalance_def dec_int_def)
qed

theorem balance_rendering_witness:
  "\<exists>b. BalanceAt id (\<lambda>_. replicate 32 (CHR 0x00)) (replicate 20 (CHR 0x00)) (Returns (Some (int (15 * 10 ^ 18 + 1)))) = Returns b
     \<and> nb_Ether b = fixed18 (15 * 10 ^ 18 + 1)"
  using balance_rendering [of id "\<lambda>_. replicate 32 (CHR 0x00)" "replicate 20 (CHR 0x00)" "15 * 10 ^ 18 + 1"] by auto

text \<open>From sixteen tokens on, the last place can be wrong.\<close>

lemma large_balance_inexact:
  "FloatText18 (FloatQuo 16000000000000000001 (10 ^ 18)) = fixed18 16000000000000000002"
proof -
  have "bitLen 16000000000000000001 = Suc 63" by (rule bitLen_unique) simp_all
  then have "quoShift 16000000000000000001 (10 ^ 18) = 59"
    by (simp add: quoShift_def floatPrec_def bitLen_token Let_def)
  then show ?thesis by (simp add: FloatQuo_def FloatText18_def roundHalfEven_def Let_def)
qed

end
