(* ===== verification/Auth_Keys.thy ===== *)
theory Auth_Keys
  imports Errors Go_Codec
begin

text \<open>
  API-key digests, key entries, the in-memory key index and the bearer-token validator
  (\<^verbatim>\<open>internal/auth/keyhash.go\<close>, \<^verbatim>\<open>keyhasher.go\<close>, \<^verbatim>\<open>reject.go\<close>, \<^verbatim>\<open>claims.go\<close>,
  \<^verbatim>\<open>apikey_validator.go\<close> and the first half of \<^verbatim>\<open>internal/mcp/keys.go\<close>).

  SHA-256 and HMAC-SHA-256 are the parameter \<open>digests\<close>. The places where security rests on
  the absence of collisions state exactly which digests must differ.
\<close>

section \<open>Digests\<close>

record digests =
  sha256 :: "bytes \<Rightarrow> bytes"
  hmac256 :: "bytes \<Rightarrow> bytes \<Rightarrow> bytes"

record HashCandidate =
  hc_Hash :: string
  hc_Version :: int

record KeyHasher =
  active :: "bytes option"
  previous :: "bytes option"

definition NewKeyHasher :: "bytes \<Rightarrow> bytes \<Rightarrow> KeyHasher" where
  "NewKeyHasher act prev =
     \<lparr>active = (if length act > 0 then Some act else None),
      previous = (if length prev > 0 then Some prev else None)\<rparr>"

definition HashKey :: "digests \<Rightarrow> string \<Rightarrow> string" where
  "HashKey dg rawKey = EncodeToString (sha256 dg rawKey)"

definition hashKeyHMAC :: "digests \<Rightarrow> bytes \<Rightarrow> string \<Rightarrow> string" where
  "hashKeyHMAC dg pepper rawKey = EncodeToString (hmac256 dg pepper rawKey)"

text \<open>A nil \<^verbatim>\<open>*KeyHasher\<close> is \<open>None\<close>.\<close>

definition HashForStore :: "digests \<Rightarrow> KeyHasher option \<Rightarrow> string \<Rightarrow> string \<times> int" where
  "HashForStore dg h rawKey =
     (case h of
        None \<Rightarrow> (HashKey dg rawKey, 0)
      | Some kh \<Rightarrow>
          (case active kh of
             None \<Rightarrow> (HashKey dg rawKey, 0)
           | Some p \<Rightarrow> (hashKeyHMAC dg p rawKey, 1)))"

definition Candidates :: "digests \<Rightarrow> KeyHasher option \<Rightarrow> string \<Rightarrow> HashCandidate list" where
  "Candidates dg h rawKey =
     (let cands = [\<lparr>hc_Hash = HashKey dg rawKey, hc_Version = 0\<rparr>] in
      case h of
        None \<Rightarrow> cands
      | Some kh \<Rightarrow>
          let cands1 = (case active kh of
                          None \<Rightarrow> cands
                        | Some p \<Rightarrow> cands @ [\<lparr>hc_Hash = hashKeyHMAC dg p rawKey, hc_Version = 1\<rparr>])
          in (case previous kh of
                None \<Rightarrow> cands1
              | Some p \<Rightarrow> cands1 @ [\<lparr>hc_Hash = hashKeyHMAC dg p rawKey, hc_Version = 1\<rparr>]))"

definition candidate_hashes :: "digests \<Rightarrow> KeyHasher option \<Rightarrow> string \<Rightarrow> string list" where
  "candidate_hashes dg h rawKey = map hc_Hash (Candidates dg h rawKey)"

lemma HashForStore_candidate: "fst (HashForStore dg h k) \<in> set (candidate_hashes dg h k)"
  by (auto simp: HashForStore_def candidate_hashes_def Candidates_def Let_def split: option.split)

section \<open>Claims and roles\<close>

record Claims =
  cl_ClientID :: string
  cl_Roles :: "string list"

definition HasRole :: "Claims \<Rightarrow> string \<Rightarrow> bool" where
  "HasRole c role = list_ex (\<lambda>r. r = role) (cl_Roles c)"

definition HasAnyRole :: "Claims \<Rightarrow> string list \<Rightarrow> bool" where
  "HasAnyRole c roles = list_ex (HasRole c) roles"

definition validRoles :: "string list" where
  "validRoles = [''reader'', ''writer'', ''admin'', ''automation'']"

definition IsValidRole :: "string \<Rightarrow> bool" where
  "IsValidRole role = (role \<in> set validRoles)"

section \<open>Key entries\<close>

record KeyEntry =
  ke_ID :: string
  ke_Key :: string
  ke_KeyHash :: string
  ke_KeyPrefix :: string
  ke_Enabled :: bool
  ke_CreatedAt :: time
  ke_HashVersion :: int
  ke_WriteApproval :: string
  ke_Roles :: "string list"
  ke_ExpiresAt :: time

datatype RejectReason = RejectNone | RejectNotFound | RejectExpired | RejectRevoked

definition classifyEntry :: "KeyEntry option \<Rightarrow> time \<Rightarrow> RejectReason" where
  "classifyEntry e now =
     (case e of
        None \<Rightarrow> RejectNotFound
      | Some k \<Rightarrow>
          if \<not> ke_Enabled k then RejectRevoked
          else if \<not> IsZero (ke_ExpiresAt k) \<and> \<not> Before now (ke_ExpiresAt k) then RejectExpired
          else RejectNone)"

definition keyPrefixLen :: nat where
  "keyPrefixLen = 8"

definition keyPrefixOf :: "string \<Rightarrow> string" where
  "keyPrefixOf rawKey =
     (if length rawKey \<le> keyPrefixLen then rawKey else take keyPrefixLen rawKey @ ''...'')"

definition NewKeyEntryWithHasher ::
  "digests \<Rightarrow> time \<Rightarrow> string \<Rightarrow> string \<Rightarrow> string list \<Rightarrow> KeyHasher option \<Rightarrow> KeyEntry" where
  "NewKeyEntryWithHasher dg now i rawKey roles hasher =
     (case HashForStore dg hasher rawKey of
        (h, version) \<Rightarrow>
          \<lparr>ke_ID = i, ke_Key = '''', ke_KeyHash = h, ke_KeyPrefix = keyPrefixOf rawKey,
           ke_Enabled = True, ke_CreatedAt = now, ke_HashVersion = version,
           ke_WriteApproval = '''', ke_Roles = roles, ke_ExpiresAt = zeroTime\<rparr>)"

section \<open>The index\<close>

definition migrateEntry :: "digests \<Rightarrow> KeyEntry \<Rightarrow> KeyEntry" where
  "migrateEntry dg e =
     (if ke_KeyHash e \<noteq> '''' then e
      else if ke_Key e = '''' then e
      else e\<lparr>ke_KeyHash := HashKey dg (ke_Key e),
             ke_KeyPrefix := (if ke_KeyPrefix e = '''' then keyPrefixOf (ke_Key e) else ke_KeyPrefix e),
             ke_Key := ''''\<rparr>)"

definition needsMigration :: "KeyEntry \<Rightarrow> bool" where
  "needsMigration e \<longleftrightarrow> ke_KeyHash e = '''' \<and> ke_Key e \<noteq> ''''"

text \<open>\<open>migrateLegacyEntries\<close> returns the rewritten slice and the number of rewritten entries.\<close>

definition migrateLegacyEntries :: "digests \<Rightarrow> KeyEntry list \<Rightarrow> KeyEntry list \<times> nat" where
  "migrateLegacyEntries dg es = (map (migrateEntry dg) es, length (filter needsMigration es))"

record KeyStore =
  byHash :: "string \<rightharpoonup> KeyEntry"
  ks_hasher :: "KeyHasher option"
  enabledCount :: nat

definition index_entry :: "KeyEntry \<Rightarrow> KeyStore \<Rightarrow> KeyStore" where
  "index_entry e ks =
     (if ke_KeyHash e \<noteq> ''''
      then ks\<lparr>byHash := (byHash ks)(ke_KeyHash e \<mapsto> e),
              enabledCount := (if ke_Enabled e then Suc (enabledCount ks) else enabledCount ks)\<rparr>
      else ks)"

definition NewKeyStoreWithHasher :: "digests \<Rightarrow> KeyEntry list \<Rightarrow> KeyHasher option \<Rightarrow> KeyStore" where
  "NewKeyStoreWithHasher dg es hasher =
     fold index_entry (fst (migrateLegacyEntries dg es))
       \<lparr>byHash = Map.empty, ks_hasher = hasher, enabledCount = 0\<rparr>"

fun probe :: "(string \<rightharpoonup> KeyEntry) \<Rightarrow> HashCandidate list \<Rightarrow> KeyEntry option" where
  "probe m [] = None"
| "probe m (c # cs) = (case m (hc_Hash c) of Some e \<Rightarrow> Some e | None \<Rightarrow> probe m cs)"

definition KeyStore_Lookup :: "digests \<Rightarrow> KeyStore \<Rightarrow> string \<Rightarrow> KeyEntry option" where
  "KeyStore_Lookup dg ks rawKey = probe (byHash ks) (Candidates dg (ks_hasher ks) rawKey)"

definition KeyStore_Empty :: "KeyStore \<Rightarrow> bool" where
  "KeyStore_Empty ks \<longleftrightarrow> enabledCount ks = 0"

section \<open>The validator\<close>

definition ErrInvalidAPIKey :: goerr where
  "ErrInvalidAPIKey = PkgErr ''auth.ErrInvalidAPIKey'' ''invalid API key''"

definition ErrKeyExpired :: goerr where
  "ErrKeyExpired = PkgErr ''auth.ErrKeyExpired'' ''api key expired''"

definition ErrKeyRevoked :: goerr where
  "ErrKeyRevoked = PkgErr ''auth.ErrKeyRevoked'' ''api key revoked''"

record KeyResult =
  kr_ID :: string
  kr_KeyHash :: string
  kr_Roles :: "string list"

text \<open>
  \<open>Validate dg hasher lookup token\<close>: \<open>lookup\<close> is the \<^verbatim>\<open>KeyLookup\<close> the validator holds; its
  first component is nil exactly when Go's pointer is. The constant-time comparison of the
  miss path has no functional effect. Dereferencing a nil entry (\<open>None\<close> with \<open>RejectNone\<close>)
  is the outcome \<open>None\<close> of the whole function.
\<close>

definition Validate ::
  "digests \<Rightarrow> KeyHasher option \<Rightarrow> (string \<Rightarrow> KeyResult option \<times> RejectReason) \<Rightarrow> string
     \<Rightarrow> (goerr + Claims) option" where
  "Validate dg hasher lookup token =
     (case lookup token of
        (entry, RejectNotFound) \<Rightarrow> Some (Inl ErrInvalidAPIKey)
      | (entry, RejectExpired) \<Rightarrow> Some (Inl ErrKeyExpired)
      | (entry, RejectRevoked) \<Rightarrow> Some (Inl ErrKeyRevoked)
      | (entry, RejectNone) \<Rightarrow>
          (case entry of
             None \<Rightarrow> None
           | Some kr \<Rightarrow>
               if list_ex (\<lambda>c. hc_Hash c = kr_KeyHash kr) (Candidates dg hasher token)
               then Some (Inr \<lparr>cl_ClientID = kr_ID kr, cl_Roles = kr_Roles kr\<rparr>)
               else Some (Inl ErrInvalidAPIKey)))"

text \<open>\<^verbatim>\<open>KeyLookupAdapter\<close> over a store's own lookup.\<close>

definition KeyLookupAdapter_Lookup ::
  "(string \<Rightarrow> KeyEntry option \<times> RejectReason) \<Rightarrow> string \<Rightarrow> KeyResult option \<times> RejectReason" where
  "KeyLookupAdapter_Lookup lookup rawKey =
     (case lookup rawKey of
        (e, reason) \<Rightarrow>
          if reason \<noteq> RejectNone then (None, reason)
          else (map_option (\<lambda>k. \<lparr>kr_ID = ke_ID k, kr_KeyHash = ke_KeyHash k, kr_Roles = ke_Roles k\<rparr>) e,
                RejectNone))"

section \<open>Lookups in the index\<close>

lemma fold_index_hasher [simp]:
  "ks_hasher (fold index_entry es ks) = ks_hasher ks"
  by (induction es arbitrary: ks) (simp_all add: index_entry_def)

lemma index_hasher [simp]: "ks_hasher (NewKeyStoreWithHasher dg es h) = h"
  by (simp add: NewKeyStoreWithHasher_def)

lemma fold_index_byHash:
  "byHash (fold index_entry es ks) k =
     (case find (\<lambda>e. ke_KeyHash e = k \<and> k \<noteq> '''') (rev es) of Some e \<Rightarrow> Some e | None \<Rightarrow> byHash ks k)"
proof (induction es arbitrary: ks)
  case (Cons e es)
  then show ?case
    by (auto simp: index_entry_def find_append_case split: option.split)
qed simp

lemma byHash_SomeD:
  assumes "byHash (NewKeyStoreWithHasher dg es h) k = Some e"
  shows "e \<in> set (map (migrateEntry dg) es) \<and> ke_KeyHash e = k \<and> k \<noteq> ''''"
  using assms find_SomeD [of "\<lambda>e. ke_KeyHash e = k \<and> k \<noteq> ''''" "rev (map (migrateEntry dg) es)" e]
  by (auto simp: NewKeyStoreWithHasher_def migrateLegacyEntries_def fold_index_byHash
      split: option.splits)

lemma byHash_None_iff:
  "byHash (NewKeyStoreWithHasher dg es h) k = None \<longleftrightarrow>
     k = '''' \<or> k \<notin> ke_KeyHash ` set (map (migrateEntry dg) es)"
  by (auto simp: NewKeyStoreWithHasher_def migrateLegacyEntries_def fold_index_byHash find_None_iff
      split: option.splits dest: find_SomeD)

lemma byHash_unique:
  assumes "e \<in> set (map (migrateEntry dg) es)" "ke_KeyHash e = k" "k \<noteq> ''''"
    and "\<forall>e' \<in> set (map (migrateEntry dg) es). ke_KeyHash e' = k \<longrightarrow> e' = e"
  shows "byHash (NewKeyStoreWithHasher dg es h) k = Some e"
proof -
  have "byHash (NewKeyStoreWithHasher dg es h) k \<noteq> None"
    using assms by (auto simp: byHash_None_iff)
  then obtain e' where "byHash (NewKeyStoreWithHasher dg es h) k = Some e'" by blast
  with byHash_SomeD [OF this] assms(4) show ?thesis by blast
qed

lemma probe_SomeD: "probe m cs = Some e \<Longrightarrow> \<exists>c \<in> set cs. m (hc_Hash c) = Some e"
  by (induction cs) (auto split: option.splits)

lemma probe_None_iff: "probe m cs = None \<longleftrightarrow> (\<forall>c \<in> set cs. m (hc_Hash c) = None)"
  by (induction cs) (auto split: option.splits)

lemma probe_unique:
  "c \<in> set cs \<Longrightarrow> m (hc_Hash c) = Some e \<Longrightarrow>
   (\<And>d e'. d \<in> set cs \<Longrightarrow> m (hc_Hash d) = Some e' \<Longrightarrow> e' = e) \<Longrightarrow> probe m cs = Some e"
  by (metis not_None_eq probe_None_iff probe_SomeD)

lemma Lookup_SomeD:
  assumes "KeyStore_Lookup dg (NewKeyStoreWithHasher dg es h) k = Some e"
  shows "e \<in> set (map (migrateEntry dg) es) \<and> ke_KeyHash e \<in> set (candidate_hashes dg h k)"
  using assms by (force simp: KeyStore_Lookup_def candidate_hashes_def dest: probe_SomeD byHash_SomeD)

text \<open>No digest of a key is the empty string (a digest has at least one byte).\<close>

definition proper_digests :: "digests \<Rightarrow> bool" where
  "proper_digests dg \<longleftrightarrow> (\<forall>k. sha256 dg k \<noteq> []) \<and> (\<forall>p k. hmac256 dg p k \<noteq> [])"

lemma EncodeToString_Nil [simp]:
  "EncodeToString bs = [] \<longleftrightarrow> bs = []" "[] = EncodeToString bs \<longleftrightarrow> bs = []"
  by (cases bs; simp)+

lemma EncodeToString_inject: "EncodeToString a = EncodeToString b \<longleftrightarrow> a = b"
  by (metis DecodeString_Encode sum.inject(2))

lemma proper_candidate: "proper_digests dg \<Longrightarrow> '''' \<notin> set (candidate_hashes dg h k)"
  by (auto simp: candidate_hashes_def Candidates_def proper_digests_def HashKey_def hashKeyHMAC_def
      Let_def split: option.splits)

lemma Lookup_None_iff:
  assumes "proper_digests dg"
  shows "KeyStore_Lookup dg (NewKeyStoreWithHasher dg es h) k = None \<longleftrightarrow>
     (\<forall>e \<in> set (map (migrateEntry dg) es). ke_KeyHash e \<notin> set (candidate_hashes dg h k))"
  using proper_candidate [OF assms, of h k]
  by (force simp: KeyStore_Lookup_def probe_None_iff byHash_None_iff candidate_hashes_def)

lemma Lookup_unique:
  assumes "proper_digests dg" "e \<in> set (map (migrateEntry dg) es)"
    and "ke_KeyHash e \<in> set (candidate_hashes dg h k)"
    and "\<forall>e' \<in> set (map (migrateEntry dg) es). ke_KeyHash e' \<in> set (candidate_hashes dg h k) \<longrightarrow> e' = e"
  shows "KeyStore_Lookup dg (NewKeyStoreWithHasher dg es h) k = Some e"
proof -
  have "KeyStore_Lookup dg (NewKeyStoreWithHasher dg es h) k \<noteq> None"
    using assms by (auto simp: Lookup_None_iff)
  then obtain e' where e': "KeyStore_Lookup dg (NewKeyStoreWithHasher dg es h) k = Some e'" by blast
  from Lookup_SomeD [OF e'] assms(4) e' show ?thesis by blast
qed

section \<open>What the validator relies on\<close>

text \<open>
  The interface of a key backend, as the validator uses it. \<open>entries\<close> is the content of a
  store that satisfies the invariant \<open>inv\<close>, \<open>lookup\<close> its lookup in an environment (clock, failing I/O), which may also change
  the store; \<open>up\<close> says that the environment lets the lookup reach its data. A lookup
  answers with an entry that is stored under one of the presented key's digests and
  classifies it by the stored entry's own fields.
\<close>

definition same_grant :: "KeyEntry \<Rightarrow> KeyEntry \<Rightarrow> bool" where
  "same_grant e e0 \<longleftrightarrow> ke_ID e = ke_ID e0 \<and> ke_Roles e = ke_Roles e0"

locale key_backend =
  fixes dg :: digests
    and h :: "KeyHasher option"
    and entries :: "'s \<Rightarrow> KeyEntry list"
    and lookup :: "'env \<Rightarrow> 's \<Rightarrow> string \<Rightarrow> (KeyEntry option \<times> RejectReason) \<times> 's"
    and clock :: "'env \<Rightarrow> time"
    and up :: "'env \<Rightarrow> bool"
    and inv :: "'s \<Rightarrow> bool"
  assumes hit: "inv s \<Longrightarrow> lookup env s k = ((Some e, r), s') \<Longrightarrow>
      ke_KeyHash e \<in> set (candidate_hashes dg h k)
      \<and> (\<exists>e0 \<in> set (entries s). ke_KeyHash e0 \<in> set (candidate_hashes dg h k)
            \<and> same_grant e e0 \<and> r = classifyEntry (Some e0) (clock env))"
    and miss: "inv s \<Longrightarrow> lookup env s k = ((None, r), s') \<Longrightarrow>
      r = RejectNotFound
      \<and> (up env \<longrightarrow> (\<forall>e \<in> set (entries s). ke_KeyHash e \<notin> set (candidate_hashes dg h k)))"
    and keeps: "inv s \<Longrightarrow> lookup env s k = (res, s') \<Longrightarrow> inv s' \<and>
      map (\<lambda>e. (ke_ID e, ke_Roles e, ke_Enabled e, ke_ExpiresAt e)) (entries s')
        = map (\<lambda>e. (ke_ID e, ke_Roles e, ke_Enabled e, ke_ExpiresAt e)) (entries s)"
begin

definition validate :: "'env \<Rightarrow> 's \<Rightarrow> string \<Rightarrow> (goerr + Claims) option" where
  "validate env s token =
     Validate dg h (KeyLookupAdapter_Lookup (\<lambda>k. fst (lookup env s k))) token"

definition usable :: "'env \<Rightarrow> KeyEntry \<Rightarrow> bool" where
  "usable env e \<longleftrightarrow> classifyEntry (Some e) (clock env) = RejectNone"

lemma validate_total: "inv s \<Longrightarrow> validate env s k \<noteq> None"
proof -
  assume i: "inv s"
  obtain e r s' where l: "lookup env s k = ((e, r), s')" by (metis surj_pair)
  show ?thesis
  proof (cases e)
    case None
    with l i have "r = RejectNotFound" using miss by blast
    with l None show ?thesis by (simp add: validate_def Validate_def KeyLookupAdapter_Lookup_def)
  next
    case (Some x)
    with l show ?thesis
      by (cases r) (simp_all add: validate_def Validate_def KeyLookupAdapter_Lookup_def)
  qed
qed

lemma validate_sound:
  assumes i: "inv s" and v: "validate env s k = Some (Inr c)"
  shows "\<exists>e \<in> set (entries s). usable env e \<and> ke_KeyHash e \<in> set (candidate_hashes dg h k)
           \<and> c = \<lparr>cl_ClientID = ke_ID e, cl_Roles = ke_Roles e\<rparr>"
proof -
  obtain e r s' where l: "lookup env s k = ((e, r), s')" by (metis surj_pair)
  have "r = RejectNone"
    using v l by (cases r)
      (auto simp: validate_def Validate_def KeyLookupAdapter_Lookup_def split: if_splits)
  moreover from this obtain x where x: "e = Some x"
    using miss [OF i, of env k r s'] l by (cases e) auto
  ultimately have "c = \<lparr>cl_ClientID = ke_ID x, cl_Roles = ke_Roles x\<rparr>"
    using v l by (auto simp: validate_def Validate_def KeyLookupAdapter_Lookup_def split: if_splits)
  moreover from hit [OF i, of env k x r s'] l x \<open>r = RejectNone\<close> obtain e0 where
    "e0 \<in> set (entries s)" "ke_KeyHash e0 \<in> set (candidate_hashes dg h k)" "same_grant x e0"
    "classifyEntry (Some e0) (clock env) = RejectNone" by metis
  ultimately show ?thesis unfolding usable_def same_grant_def by auto
qed

lemma validate_complete:
  assumes i: "inv s" and "up env" "e \<in> set (entries s)" "ke_KeyHash e \<in> set (candidate_hashes dg h k)"
    and uniq: "\<forall>e' \<in> set (entries s). ke_KeyHash e' \<in> set (candidate_hashes dg h k) \<longrightarrow> e' = e"
  shows "validate env s k =
     Some (case classifyEntry (Some e) (clock env) of
             RejectNone \<Rightarrow> Inr \<lparr>cl_ClientID = ke_ID e, cl_Roles = ke_Roles e\<rparr>
           | RejectRevoked \<Rightarrow> Inl ErrKeyRevoked
           | RejectExpired \<Rightarrow> Inl ErrKeyExpired
           | RejectNotFound \<Rightarrow> Inl ErrInvalidAPIKey)"
proof -
  obtain x r s' where l: "lookup env s k = ((x, r), s')" by (metis surj_pair)
  have "x \<noteq> None" using miss [OF i, of env k r s'] l assms by auto
  then obtain y where y: "x = Some y" by blast
  from hit [OF i, of env k y r s'] l y uniq have
    "ke_KeyHash y \<in> set (candidate_hashes dg h k)" "same_grant y e" "r = classifyEntry (Some e) (clock env)"
    by auto
  with l y show ?thesis
    by (cases r) (auto simp: validate_def Validate_def KeyLookupAdapter_Lookup_def same_grant_def
        candidate_hashes_def list_ex_iff)
qed

lemma validate_unknown:
  assumes i: "inv s" and "\<forall>e \<in> set (entries s). ke_KeyHash e \<notin> set (candidate_hashes dg h k)"
  shows "validate env s k = Some (Inl ErrInvalidAPIKey)"
proof -
  obtain x r s' where l: "lookup env s k = ((x, r), s')" by (metis surj_pair)
  have "x = None" using hit [OF i, of env k _ r s'] l assms by (cases x) auto
  moreover from this have "r = RejectNotFound" using miss [OF i, of env k r s'] l by simp
  ultimately show ?thesis
    using l by (simp add: validate_def Validate_def KeyLookupAdapter_Lookup_def)
qed

end

end
