(* ===== verification/Auth_Policy.thy ===== *)
theory Auth_Policy
  imports Auth_Keys
begin

text \<open>
  Which tool calls need an identity: the per-tool policy and its middleware
  (\<^verbatim>\<open>internal/mcp/authpolicy.go\<close>) and the role check of the tool handlers
  (\<^verbatim>\<open>internal/mcp/rbac.go\<close>). The context of a request is reduced to the claims it carries.
\<close>

definition authExemptTools :: "string list" where
  "authExemptTools =
     [''evm_get_balance'', ''evm_get_block'', ''evm_get_chain_id'', ''evm_get_code'',
      ''evm_get_logs'', ''evm_get_transaction'', ''evm_get_transaction_receipt'',
      ''evm_call_contract'', ''anchor_get_records'', ''anchor_get_registries'',
      ''anchor_get_registry'', ''anchor_info'', ''anchor_prepare_add_record'',
      ''anchor_prepare_add_registry'', ''anchor_prepare_grant_role'',
      ''anchor_prepare_revoke_role'', ''anchor_prepare_update_record_status'',
      ''nvnm_overview'', ''nvnm_setup_wizard'', ''nvnm_setup_verify_hash'',
      ''nvnm_setup_verify_signature'', ''wallet_status'']"

definition writeToolName :: string where
  "writeToolName = ''evm_send_raw_transaction''"

definition RequiresAuth :: "string \<Rightarrow> bool \<Rightarrow> bool" where
  "RequiresAuth tool keylessWrites =
     (if tool = writeToolName then \<not> keylessWrites else tool \<notin> set authExemptTools)"

text \<open>
  The parameters of a request as \<^verbatim>\<open>ToolNameFromRequest\<close> sees them: they implement
  \<^verbatim>\<open>GetName\<close>, or they are the raw tool-call parameters, or neither.
\<close>

datatype req_params = NamedParams string | RawToolCall string | OtherParams

definition ToolNameFromRequest :: "req_params \<Rightarrow> string" where
  "ToolNameFromRequest p =
     (case p of NamedParams n \<Rightarrow> n | RawToolCall n \<Rightarrow> n | OtherParams \<Rightarrow> ''unknown'')"

definition NewAuthEnforcementMiddleware ::
  "(string \<Rightarrow> string) \<Rightarrow> bool \<Rightarrow> bool
     \<Rightarrow> (Claims option \<Rightarrow> string \<Rightarrow> req_params \<Rightarrow> 's \<Rightarrow> (goerr + 'r) \<times> 's)
     \<Rightarrow> Claims option \<Rightarrow> string \<Rightarrow> req_params \<Rightarrow> 's \<Rightarrow> (goerr + 'r) \<times> 's" where
  "NewAuthEnforcementMiddleware uq keylessReads keylessWrites next ctx method req s =
     (if \<not> keylessReads \<or> method \<noteq> ''tools/call'' then next ctx method req s
      else
        let tool = ToolNameFromRequest req in
        if RequiresAuth tool keylessWrites \<and> ctx = None then
          (Inl (Errorf (sentinel_text ErrAuthRequired @ '': tool '' @ Quote uq tool)
                       [Sentinel ErrAuthRequired]), s)
        else next ctx method req s)"

definition requireRole :: "Claims option \<Rightarrow> string list \<Rightarrow> goerr option" where
  "requireRole ctx roles =
     (case ctx of
        None \<Rightarrow> None
      | Some c \<Rightarrow>
          if HasAnyRole c roles then None
          else Some (Errorf
                 (''your API key does not hold the role this tool requires (needs ''
                   @ Join '' or '' roles @ ''): '' @ sentinel_text ErrPermissionDenied)
                 [Sentinel ErrPermissionDenied]))"

section \<open>Properties\<close>

text \<open>
  the tool policy fails closed. Under keyless reads an anonymous tool call reaches
  the next handler only for a tool on the fixed read list, or for the write tool when keyless
  writes are enabled; any other name, a tool added later and forgotten in the list included,
  is answered with the authentication error, which the client gets to read, and has no effect.
\<close>

theorem auth_policy_fails_closed:
  "NewAuthEnforcementMiddleware uq True kw next None ''tools/call'' req s =
     (if ToolNameFromRequest req \<in> set authExemptTools
         \<or> ToolNameFromRequest req = writeToolName \<and> kw
      then next None ''tools/call'' req s
      else (Inl (Errorf (sentinel_text ErrAuthRequired @ '': tool '' @ Quote uq (ToolNameFromRequest req))
                        [Sentinel ErrAuthRequired]), s))
   \<and> client_text (Errorf (sentinel_text ErrAuthRequired @ '': tool '' @ Quote uq (ToolNameFromRequest req))
                        [Sentinel ErrAuthRequired])
       = sentinel_text ErrAuthRequired @ '': tool '' @ Quote uq (ToolNameFromRequest req)"
proof -
  have "writeToolName \<notin> set authExemptTools"
    by (simp add: writeToolName_def authExemptTools_def)
  then show ?thesis
    by (auto simp: NewAuthEnforcementMiddleware_def RequiresAuth_def Let_def client_text_cases
        disclosed_def go_simps)
qed

text \<open>
  Roles: an authenticated caller passes a role check exactly when one of its roles
  is among the required ones, and a denial is a permission error whose text names the required
  roles; a caller without claims is left to the authentication layers.
\<close>

theorem requireRole_correct:
  "(requireRole ctx roles = None \<longleftrightarrow>
      (case ctx of None \<Rightarrow> True | Some c \<Rightarrow> set (cl_Roles c) \<inter> set roles \<noteq> {}))
   \<and> (\<forall>e. requireRole ctx roles = Some e \<longrightarrow> IsS e ErrPermissionDenied \<and> client_text e = Error e)"
  by (auto simp: requireRole_def HasAnyRole_def HasRole_def list_ex_iff client_text_cases disclosed_def
      go_simps split: option.splits)

theorem requireRole_correct_witness:
  "\<exists>e. requireRole (Some \<lparr>cl_ClientID = ''a'', cl_Roles = [''reader'']\<rparr>) [''writer'', ''admin''] = Some e
     \<and> IsS e ErrPermissionDenied"
  using requireRole_correct [of "Some \<lparr>cl_ClientID = ''a'', cl_Roles = [''reader'']\<rparr>" "[''writer'', ''admin'']"]
  by (auto simp: not_None_eq)

end
