(* ===== verification/Next_Actions.thy ===== *)
theory Next_Actions
  imports Errors
begin

text \<open>
  The follow-up hints that a tool result carries (\<^verbatim>\<open>internal/mcp/next_actions.go\<close> and
  \<^verbatim>\<open>types.go\<close>): one builder per tool, some of them dependent on the result.
\<close>

record NextAction =
  na_Tool :: string
  na_Hint :: string
  na_When :: string

definition na :: "string \<Rightarrow> string \<Rightarrow> NextAction" where
  "na tool hint = \<lparr>na_Tool = tool, na_Hint = hint, na_When = ''''\<rparr>"

definition evmChainIDNext :: "NextAction list" where
  "evmChainIDNext =
     [na ''evm_get_block''
         (''Inspect the latest block (or any other) by number or hash.'')]"

definition evmGetBlockNext :: "NextAction list" where
  "evmGetBlockNext =
     [na ''evm_get_transaction''
         (''Look up any transaction listed in this block by its hash.''),
      na ''evm_get_logs''
         (''Filter logs in a block range to surface specific events.'')]"

definition evmGetTransactionNext :: "NextAction list" where
  "evmGetTransactionNext =
     [na ''evm_get_transaction_receipt''
         (''Fetch the receipt to confirm status, gas used, and logs.'')]"

definition evmGetReceiptNext :: "string \<Rightarrow> NextAction list" where
  "evmGetReceiptNext status =
     (if status = ''reverted'' then
      [na ''evm_get_transaction''
         (''Re-inspect the original transaction'' @
          [CHR 0x27] @
          ''s calldata to diagnose the revert.'')]
      else
      [na ''anchor_get_records''
         (''If this receipt is for an anchor write, query records to verify '' @
          ''it landed on chain.'')])"

definition evmGetBalanceNext :: "NextAction list" where
  "evmGetBalanceNext =
     []"

definition evmGetCodeNext :: "bool \<Rightarrow> bool \<Rightarrow> NextAction list" where
  "evmGetCodeNext isContract isPrecompile =
     (if \<not> isContract then
        (if isPrecompile then
      [na ''anchor_info''
         (''This is the anchoring precompile: it is implemented in the node, '' @
          ''not as deployed bytecode, so empty code and is_contract=false are '' @
          ''expected. Use anchor_info for its status, or the anchor_* tools '' @
          ''to query it.'')]
         else
      [na ''evm_get_balance''
         (''No contract bytecode at this address, so it is an externally '' @
          ''owned account (or nothing has been deployed yet); inspect its '' @
          ''balance instead.'')])
      else
      [na ''evm_call_contract''
         (''Use the contract'' @
          [CHR 0x27] @
          ''s ABI to make a read-only call against this bytecode.'')])"

definition evmGetLogsNext :: "NextAction list" where
  "evmGetLogsNext =
     [na ''evm_get_transaction_receipt''
         (''Fetch the receipt for a specific log'' @
          [CHR 0x27] @
          ''s tx_hash to see all events from that tx.'')]"

definition evmCallContractNext :: "NextAction list" where
  "evmCallContractNext =
     []"

definition anchorInfoNext :: "NextAction list" where
  "anchorInfoNext =
     [na ''anchor_get_registries''
         (''List the registries on chain (logical containers for records).'')]"

definition anchorGetRegistryNext :: "NextAction list" where
  "anchorGetRegistryNext =
     [na ''anchor_get_records''
         (''Browse records inside this registry.''),
      na ''anchor_prepare_add_record''
         (''Anchor a new record into this registry (caller must hold editor '' @
          ''role).''),
      na ''wallet_status''
         (''Inspect the creator'' @
          [CHR 0x27] @
          ''s wallet via the creator_evm field (creator itself is a bech32 '' @
          ''chain identity, not an EVM address).'')]"

definition anchorGetRegistriesNext :: "bool \<Rightarrow> NextAction list" where
  "anchorGetRegistriesNext emptyResult =
     (if emptyResult then
      [na ''anchor_prepare_add_registry''
         (''No registries match. Create your own; you become its admin '' @
          ''automatically.'')]
      else
      [na ''anchor_get_registry''
         (''Drill into a specific registry by id.''),
      na ''anchor_get_registries''
         (''Look up a registry by name instead of id (name=..., '' @
          ''match=exact|prefix|suffix|contains), or page further with '' @
          ''offset/limit.''),
      na ''anchor_prepare_add_record''
         (''Anchor a new record (requires the editor role on the target '' @
          ''registry).'')])"

definition anchorGetRecordsNext :: "NextAction list" where
  "anchorGetRecordsNext =
     [na ''anchor_prepare_add_record''
         (''Anchor an updated version of a record (same registry + '' @
          ''record_id), or a brand-new record.'')]"

definition anchorPrepareWriteNext :: "NextAction list" where
  "anchorPrepareWriteNext =
     [na ''evm_send_raw_transaction''
         (''Sign the raw_tx with your private key locally, then broadcast the '' @
          ''signed bytes here.'')]"

definition evmSendRawTxNext :: "string \<Rightarrow> NextAction list" where
  "evmSendRawTxNext txHash =
     [na ''evm_get_transaction_receipt''
         (''Wait ~one block, then call this tool with tx_hash='' @
          txHash @
          '' to confirm inclusion and inspect the decoded events.'')]"

end
