(* ===== verification/Config_Types.thy ===== *)
theory Config_Types
  imports Auth_Keys Evm_Types
begin

text \<open>
  The vocabulary of the configuration package: the sentinel errors and the \<^verbatim>\<open>Config\<close> record
  of \<^verbatim>\<open>internal/config/config.go\<close>, the chain environments of
  \<^verbatim>\<open>internal/config/environment.go\<close>, and the helpers that read one variable
  of the process environment. The environment is a partial map from names to values; the
  parsers of the standard library for durations and floating-point numbers are arguments.
\<close>

section \<open>Sentinel errors\<close>

definition ErrMissingRPCURL :: goerr where
  "ErrMissingRPCURL = PkgErr ''config.ErrMissingRPCURL''
     ''NVNM_EVM_RPC_URL is required''"

definition ErrInvalidRPCURL :: goerr where
  "ErrInvalidRPCURL = PkgErr ''config.ErrInvalidRPCURL''
     ''NVNM_EVM_RPC_URL must start with http:// or https://''"

definition cfgErrInvalidChainID :: goerr where
  "cfgErrInvalidChainID = PkgErr ''config.ErrInvalidChainID''
     ''NVNM_CHAIN_ID must be a positive integer''"

definition ErrLegacyEnvVars :: goerr where
  "ErrLegacyEnvVars = PkgErr ''config.ErrLegacyEnvVars''
     (''legacy INVENIAM_* env vars detected; rename to NVNM_* per '' @
      ''docs/RUNBOOK.md#env-var-migration'')"

definition ErrLegacyWriteApproval :: goerr where
  "ErrLegacyWriteApproval = PkgErr ''config.ErrLegacyWriteApproval''
     (''legacy WRITE_APPROVAL_DEFAULT env var detected; server-side write approval '' @
      ''was removed in Option 0 (writes gate on RBAC + ENABLE_WRITE_TOOLS). Remove '' @
      ''it per docs/RUNBOOK.md#write-approval-removal'')"

definition ErrInvalidTimeout :: goerr where
  "ErrInvalidTimeout = PkgErr ''config.ErrInvalidTimeout''
     ''REQUEST_TIMEOUT must be a positive duration''"

definition ErrInvalidTransport :: goerr where
  "ErrInvalidTransport = PkgErr ''config.ErrInvalidTransport''
     ''MCP_TRANSPORT must be \"stdio\" or \"http\"''"

definition ErrInvalidRetries :: goerr where
  "ErrInvalidRetries = PkgErr ''config.ErrInvalidRetries''
     ''RPC_MAX_RETRIES must be non-negative''"

definition ErrInvalidBackoff :: goerr where
  "ErrInvalidBackoff = PkgErr ''config.ErrInvalidBackoff''
     ''RPC_INITIAL_BACKOFF and RPC_MAX_BACKOFF must be positive durations''"

definition ErrInvalidRateLimit :: goerr where
  "ErrInvalidRateLimit = PkgErr ''config.ErrInvalidRateLimit''
     ''RPC_RATE_LIMIT must be positive''"

definition ErrInvalidRateBurst :: goerr where
  "ErrInvalidRateBurst = PkgErr ''config.ErrInvalidRateBurst''
     ''RPC_RATE_BURST must be positive''"

definition ErrInvalidBreakerSettings :: goerr where
  "ErrInvalidBreakerSettings = PkgErr ''config.ErrInvalidBreakerSettings''
     ''CIRCUIT_BREAKER_THRESHOLD and CIRCUIT_BREAKER_TIMEOUT must be positive''"

definition ErrInvalidSampleRatio :: goerr where
  "ErrInvalidSampleRatio = PkgErr ''config.ErrInvalidSampleRatio''
     ''OTEL_TRACE_SAMPLE_RATIO must be between 0.0 and 1.0 inclusive''"

definition ErrInvalidReadinessMaxBlockAge :: goerr where
  "ErrInvalidReadinessMaxBlockAge = PkgErr ''config.ErrInvalidReadinessMaxBlockAge''
     (''NVNM_READINESS_MAX_BLOCK_AGE must be a non-negative duration (0 disables '' @
      ''the check)'')"

definition ErrInvalidMCPRateLimit :: goerr where
  "ErrInvalidMCPRateLimit = PkgErr ''config.ErrInvalidMCPRateLimit''
     ''MCP_RATE_LIMIT must be positive''"

definition ErrInvalidMCPRateBurst :: goerr where
  "ErrInvalidMCPRateBurst = PkgErr ''config.ErrInvalidMCPRateBurst''
     ''MCP_RATE_BURST must be positive''"

definition ErrInvalidAnonRateLimit :: goerr where
  "ErrInvalidAnonRateLimit = PkgErr ''config.ErrInvalidAnonRateLimit''
     ''MCP_ANON_RATE_LIMIT must be positive''"

definition ErrInvalidAnonRateBurst :: goerr where
  "ErrInvalidAnonRateBurst = PkgErr ''config.ErrInvalidAnonRateBurst''
     ''MCP_ANON_RATE_BURST must be positive''"

definition ErrMissingKeyPendingFile :: goerr where
  "ErrMissingKeyPendingFile = PkgErr ''config.ErrMissingKeyPendingFile''
     (''NVNM_KEY_PENDING_FILE is required when NVNM_KEY_REQUEST_ENABLED is true'')"

definition ErrInvalidKeyRequestRateLimit :: goerr where
  "ErrInvalidKeyRequestRateLimit = PkgErr ''config.ErrInvalidKeyRequestRateLimit''
     ''NVNM_KEY_REQUEST_RATE_LIMIT must be positive''"

definition ErrInvalidKeyRequestRateBurst :: goerr where
  "ErrInvalidKeyRequestRateBurst = PkgErr ''config.ErrInvalidKeyRequestRateBurst''
     ''NVNM_KEY_REQUEST_RATE_BURST must be positive''"

definition ErrInvalidKeyRequestMaxBody :: goerr where
  "ErrInvalidKeyRequestMaxBody = PkgErr ''config.ErrInvalidKeyRequestMaxBody''
     ''NVNM_KEY_REQUEST_MAX_BODY_BYTES must be positive''"

definition ErrMissingSMTPPort :: goerr where
  "ErrMissingSMTPPort = PkgErr ''config.ErrMissingSMTPPort''
     ''NVNM_SMTP_PORT is required when NVNM_SMTP_HOST is set''"

definition ErrMissingSMTPFrom :: goerr where
  "ErrMissingSMTPFrom = PkgErr ''config.ErrMissingSMTPFrom''
     ''NVNM_SMTP_FROM is required when NVNM_SMTP_HOST is set''"

definition ErrKeyInLogsNotAllowed :: goerr where
  "ErrKeyInLogsNotAllowed = PkgErr ''config.ErrKeyInLogsNotAllowed''
     (''NVNM_KEY_REQUEST_ENABLED without NVNM_SMTP_HOST would log minted API keys '' @
      ''via the log-only email sender; configure SMTP or set '' @
      ''NVNM_ALLOW_KEY_IN_LOGS=true to accept logging keys'')"

definition ErrAdminKeyWithoutFile :: goerr where
  "ErrAdminKeyWithoutFile = PkgErr ''config.ErrAdminKeyWithoutFile''
     ''ADMIN_API_KEY requires MCP_API_KEYS_FILE''"

definition ErrHTTPAuthRequired :: goerr where
  "ErrHTTPAuthRequired = PkgErr ''config.ErrHTTPAuthRequired''
     (''HTTP transport requires an authentication provider; set MCP_API_KEYS_FILE, '' @
      ''MCP_API_KEY, or AUTH_PROVIDER=fusionauth'')"

definition ErrInvalidAuthProvider :: goerr where
  "ErrInvalidAuthProvider = PkgErr ''config.ErrInvalidAuthProvider''
     ''AUTH_PROVIDER must be \"apikey\" or \"fusionauth\"''"

definition ErrMissingFusionAuthURL :: goerr where
  "ErrMissingFusionAuthURL = PkgErr ''config.ErrMissingFusionAuthURL''
     ''FUSIONAUTH_URL is required when AUTH_PROVIDER is \"fusionauth\"''"

definition ErrMissingFusionAuthAppID :: goerr where
  "ErrMissingFusionAuthAppID = PkgErr ''config.ErrMissingFusionAuthAppID''
     (''FUSIONAUTH_APPLICATION_ID is required when AUTH_PROVIDER is \"fusionauth\"'')"

definition ErrMissingClientIDHMACKey :: goerr where
  "ErrMissingClientIDHMACKey = PkgErr ''config.ErrMissingClientIDHMACKey''
     ''MCP_CLIENT_ID_HMAC_KEY is required when AUTH_PROVIDER is \"fusionauth\"''"

definition ErrInvalidFusionAuthURL :: goerr where
  "ErrInvalidFusionAuthURL = PkgErr ''config.ErrInvalidFusionAuthURL''
     ''FUSIONAUTH_URL must start with http:// or https://''"

definition ErrInvalidChainEnvironment :: goerr where
  "ErrInvalidChainEnvironment = PkgErr ''config.ErrInvalidChainEnvironment''
     ''NVNM_CHAIN_ENVIRONMENT must be \"testnet\" or \"mainnet\" when set''"

definition ErrStaticKeyRolesRequired :: goerr where
  "ErrStaticKeyRolesRequired = PkgErr ''config.ErrStaticKeyRolesRequired''
     (''MCP_API_KEY_ROLES is required when MCP_API_KEY is set (set it to a comma '' @
      ''list of reader, writer, admin, automation)'')"

definition cfgErrInvalidRole :: goerr where
  "cfgErrInvalidRole = PkgErr ''config.ErrInvalidRole''
     (''MCP_API_KEY_ROLES contains an unknown role; valid roles are reader, writer, '' @
      ''admin, automation'')"

definition ErrPepperPreviousWithoutActive :: goerr where
  "ErrPepperPreviousWithoutActive = PkgErr ''config.ErrPepperPreviousWithoutActive''
     (''KEY_HMAC_PEPPER_PREVIOUS is set without KEY_HMAC_PEPPER; set the active '' @
      ''pepper or unset the previous one'')"

definition ErrInvalidKeyStoreBackend :: goerr where
  "ErrInvalidKeyStoreBackend = PkgErr ''config.ErrInvalidKeyStoreBackend''
     ''KEY_STORE_BACKEND must be \"file\" or \"postgres\"''"

definition ErrKeyStoreDSNRequired :: goerr where
  "ErrKeyStoreDSNRequired = PkgErr ''config.ErrKeyStoreDSNRequired''
     ''KEY_STORE_DSN is required when KEY_STORE_BACKEND is \"postgres\"''"

definition ErrPepperRequired :: goerr where
  "ErrPepperRequired = PkgErr ''config.ErrPepperRequired''
     (''KEY_HMAC_PEPPER is required when KEY_STORE_BACKEND is \"postgres\" and '' @
      ''AUTH_PROVIDER is \"apikey\" (a peppered Postgres store must not run '' @
      ''unpeppered)'')"

definition ErrPepperTooShort :: goerr where
  "ErrPepperTooShort = PkgErr ''config.ErrPepperTooShort''
     ''KEY_HMAC_PEPPER must be at least 32 characters of high-entropy secret''"

definition ErrKeylessWritesRequiresDSN :: goerr where
  "ErrKeylessWritesRequiresDSN = PkgErr ''config.ErrKeylessWritesRequiresDSN''
     (''MCP_KEYLESS_PG_DSN is required when MCP_KEYLESS_WRITES is true (keyless '' @
      ''writes without a shared-state audit backend is not a supported mode; the '' @
      ''persisted write-audit is a security control, not optional)'')"

definition ErrKeylessWritesRequiresReads :: goerr where
  "ErrKeylessWritesRequiresReads = PkgErr ''config.ErrKeylessWritesRequiresReads''
     (''MCP_KEYLESS_WRITES=true requires MCP_KEYLESS_READS=true (anonymous writes '' @
      ''need the anonymous HTTP path enabled)'')"

definition ErrAnchorAddressInvalid :: goerr where
  "ErrAnchorAddressInvalid = PkgErr ''config.ErrAnchorAddressInvalid''
     (''ANCHOR_ADDRESS is not a valid address (required when '' @
      ''MCP_KEYLESS_WRITES=true)'')"

definition ErrSignerWriteRateInvalid :: goerr where
  "ErrSignerWriteRateInvalid = PkgErr ''config.ErrSignerWriteRateInvalid''
     ''MCP_SIGNER_WRITE_RATE must be >= 1''"

definition ErrSignerWriteWindowInvalid :: goerr where
  "ErrSignerWriteWindowInvalid = PkgErr ''config.ErrSignerWriteWindowInvalid''
     ''MCP_SIGNER_WRITE_WINDOW must be > 0''"

definition ErrRelayAllowAnyWithKeyless :: goerr where
  "ErrRelayAllowAnyWithKeyless = PkgErr ''config.ErrRelayAllowAnyWithKeyless''
     (''MCP_RELAY_ALLOW_ANY=true is incompatible with MCP_KEYLESS_WRITES=true (the '' @
      ''relay-scope escape hatch applies only to authenticated writes; anonymous '' @
      ''keyless writes are always pinned to the anchor precompile)'')"

definition ErrInvalidTrustedProxyHops :: goerr where
  "ErrInvalidTrustedProxyHops = PkgErr ''config.ErrInvalidTrustedProxyHops''
     ''NVNM_TRUSTED_PROXY_HOPS must be >= 1''"

definition ErrRetentionNegative :: goerr where
  "ErrRetentionNegative = PkgErr ''config.ErrRetentionNegative''
     ''retention windows must be >= 0 (0 = retain indefinitely)''"

definition ErrRetentionIntervalInvalid :: goerr where
  "ErrRetentionIntervalInvalid = PkgErr ''config.ErrRetentionIntervalInvalid''
     (''MCP_RETENTION_PURGE_INTERVAL must be > 0 when any retention window is set'')"

definition ErrRetentionGrantRoleShorter :: goerr where
  "ErrRetentionGrantRoleShorter = PkgErr ''config.ErrRetentionGrantRoleShorter''
     (''MCP_WRITE_AUDIT_GRANT_ROLE_RETENTION must be >= MCP_WRITE_AUDIT_RETENTION'')"


section \<open>Numbers\<close>

text \<open>
  A \<^verbatim>\<open>float64\<close> as far as the package compares it: the finite value \<open>Fin m e\<close> is
  \<open>m * 2 ^ e\<close>. Every comparison with a NaN is false.
\<close>

datatype gofloat = NaN | Inf bool | Fin int int

fun fleZero :: "gofloat \<Rightarrow> bool" where
  "fleZero NaN = False"
| "fleZero (Inf neg) = neg"
| "fleZero (Fin m e) = (m \<le> 0)"

fun fltZero :: "gofloat \<Rightarrow> bool" where
  "fltZero NaN = False"
| "fltZero (Inf neg) = neg"
| "fltZero (Fin m e) = (m < 0)"

fun fgtOne :: "gofloat \<Rightarrow> bool" where
  "fgtOne NaN = False"
| "fgtOne (Inf neg) = (\<not> neg)"
| "fgtOne (Fin m e) = (if 0 \<le> e then 1 < m * 2 ^ nat e else 2 ^ nat (- e) < m)"

text \<open>
  The error of \<^verbatim>\<open>strconv\<close>: the digits are fine and the value is out of range, or the
  syntax is wrong.
\<close>

definition numError :: "(string \<Rightarrow> string) \<Rightarrow> string \<Rightarrow> bool \<Rightarrow> string \<Rightarrow> goerr" where
  "numError uq fn digits s =
     Ext OtherExt (''strconv.'' @ fn @ '': parsing '' @ Quote uq s @ '': '' @
       (if digits then ''value out of range'' else ''invalid syntax''))"

definition unsignedPart :: "string \<Rightarrow> string" where
  "unsignedPart s = (if HasPrefix s ''-'' \<or> HasPrefix s ''+'' then drop 1 s else s)"

definition allDigits :: "string \<Rightarrow> bool" where
  "allDigits d \<longleftrightarrow> d \<noteq> '''' \<and> list_all (\<lambda>c. digitVal c \<noteq> None) d"

definition parseSigned :: "(string \<Rightarrow> string) \<Rightarrow> string \<Rightarrow> string \<Rightarrow> goerr + int" where
  "parseSigned uq fn s =
     (case Atoi s of
        Some n \<Rightarrow> Inr n
      | None \<Rightarrow> Inl (numError uq fn (allDigits (unsignedPart s)) s))"

definition parseUint32 :: "(string \<Rightarrow> string) \<Rightarrow> string \<Rightarrow> goerr + nat" where
  "parseUint32 uq s =
     (if s = '''' then Inl (numError uq ''ParseUint'' False s)
      else case parse_digits 0 s of
             None \<Rightarrow> Inl (numError uq ''ParseUint'' False s)
           | Some n \<Rightarrow> if n < 2 ^ 32 then Inr n else Inl (numError uq ''ParseUint'' True s))"

definition ParseBool :: "(string \<Rightarrow> string) \<Rightarrow> string \<Rightarrow> goerr + bool" where
  "ParseBool uq s =
     (if s \<in> {''1'', ''t'', ''T'', ''TRUE'', ''true'', ''True''} then Inr True
      else if s \<in> {''0'', ''f'', ''F'', ''FALSE'', ''false'', ''False''} then Inr False
      else Inl (numError uq ''ParseBool'' False s))"

section \<open>The environment\<close>

type_synonym environ = "string \<Rightarrow> string option"

record cfg_lib =
  lb_quote :: "string \<Rightarrow> string"
  lb_ParseDuration :: "string \<Rightarrow> goerr + duration"
  lb_ParseFloat :: "string \<Rightarrow> goerr + gofloat"

definition Getenv :: "environ \<Rightarrow> string \<Rightarrow> string" where
  "Getenv env key = (case env key of None \<Rightarrow> '''' | Some v \<Rightarrow> v)"

definition envOrDefault :: "environ \<Rightarrow> string \<Rightarrow> string \<Rightarrow> string" where
  "envOrDefault env key fallback = (let v = Getenv env key in if v \<noteq> '''' then v else fallback)"

text \<open>\<open>invalidEnv\<close> is \<^verbatim>\<open>fmt.Errorf("invalid KEY %q: %w", raw, err)\<close>.\<close>

definition invalidEnv :: "cfg_lib \<Rightarrow> string \<Rightarrow> string \<Rightarrow> goerr \<Rightarrow> goerr" where
  "invalidEnv lib key raw err =
     Errorf (''invalid '' @ key @ '' '' @ Quote (lb_quote lib) raw @ '': '' @ Error err) [err]"

definition gotErr :: "cfg_lib \<Rightarrow> goerr \<Rightarrow> string \<Rightarrow> goerr" where
  "gotErr lib err got = Errorf (Error err @ '': got '' @ Quote (lb_quote lib) got) [err]"

definition envBool :: "cfg_lib \<Rightarrow> environ \<Rightarrow> string \<Rightarrow> bool \<Rightarrow> goerr + bool" where
  "envBool lib env key fallback =
     (let v = TrimSpace (Getenv env key)
      in if v = '''' then Inr fallback
         else case ParseBool (lb_quote lib) v of
                Inl err \<Rightarrow>
                  Inl (Errorf (''invalid '' @ key @ '' '' @ Quote (lb_quote lib) v @
                         '': want a boolean (true/false): '' @ Error err) [err])
              | Inr b \<Rightarrow> Inr b)"

text \<open>\<^verbatim>\<open>strings.Split\<close> with a one-byte separator.\<close>

fun Split :: "char \<Rightarrow> string \<Rightarrow> string list" where
  "Split c [] = [[]]"
| "Split c (x # xs) =
     (if x = c then [] # Split c xs
      else (case Split c xs of [] \<Rightarrow> [[x]] | p # ps \<Rightarrow> (x # p) # ps))"

definition parseRoleList :: "string \<Rightarrow> string list" where
  "parseRoleList s = filter (\<lambda>p. p \<noteq> '''') (map TrimSpace (Split CHR '','' s))"

definition parseCommaSeparated :: "string \<Rightarrow> string list" where
  "parseCommaSeparated raw =
     (if raw = '''' then []
      else filter (\<lambda>p. p \<noteq> '''') (map TrimSpace (Split CHR '','' raw)))"

section \<open>Chain environments\<close>

definition EnvTestnet :: string where "EnvTestnet = ''testnet''"
definition EnvMainnet :: string where "EnvMainnet = ''mainnet''"

definition ChainEnvironment_IsValid :: "string \<Rightarrow> bool" where
  "ChainEnvironment_IsValid e \<longleftrightarrow> e = EnvTestnet \<or> e = EnvMainnet"

record TokenNaming =
  tn_Native :: string
  tn_Wrapped :: string

definition NamingFor :: "string \<Rightarrow> TokenNaming" where
  "NamingFor env =
     (if env = EnvMainnet then \<lparr>tn_Native = ''mmUSD'', tn_Wrapped = ''wmmUSD''\<rparr>
      else \<lparr>tn_Native = ''mantraUSD'', tn_Wrapped = ''wmantraUSD''\<rparr>)"

definition testnetChainID :: int where "testnetChainID = 787111"
definition mainnetChainID :: int where "mainnetChainID = 1611"

definition InferEnvironmentFromChainID :: "int \<Rightarrow> string" where
  "InferEnvironmentFromChainID chainID =
     (if chainID = testnetChainID then EnvTestnet
      else if chainID = mainnetChainID then EnvMainnet
      else '''')"

section \<open>The configuration\<close>

record RetentionConfig =
  rt_WriteAudit :: duration
  rt_WriteAuditGrantRole :: duration
  rt_SignerQuota :: duration
  rt_SignerBlacklist :: duration
  rt_AdminAudit :: duration
  rt_PurgeInterval :: duration

record Config =
  c_EVMRPCURL :: string
  c_EVMArchiveRPCURL :: string
  c_ChainID :: int
  c_AnchorAddress :: string
  c_AnchorABIPath :: string
  c_RequestTimeout :: duration
  c_LogLevel :: string
  c_EnableWriteTools :: bool
  c_Transport :: string
  c_HTTPAddr :: string
  c_APIKey :: string
  c_APIKeyRoles :: "string list"
  c_KeyHMACPepper :: string
  c_KeyHMACPepperPrevious :: string
  c_KeyStoreBackend :: string
  c_KeyStoreDSN :: string
  c_KeyDefaultTTL :: duration
  c_KeyRenewalURL :: string
  c_APIKeysFile :: string
  c_AdminAPIKey :: string
  c_AdminAPIKeysFile :: string
  c_AdminAPIAddr :: string
  c_OTELEndpoint :: string
  c_OTELServiceName :: string
  c_EnablePrometheus :: bool
  c_EnableStdoutTel :: bool
  c_OTLPInsecure :: bool
  c_MetricsAddr :: string
  c_ReadinessMaxBlockAge :: duration
  c_RPCMaxRetries :: int
  c_RPCInitialBackoff :: duration
  c_RPCMaxBackoff :: duration
  c_RPCRateLimit :: gofloat
  c_RPCRateBurst :: int
  c_CircuitBreakerThreshold :: nat
  c_CircuitBreakerTimeout :: duration
  c_OTELTraceSampleRatio :: gofloat
  c_MCPRateLimit :: gofloat
  c_MCPRateBurst :: int
  c_KeylessReads :: bool
  c_KeylessWrites :: bool
  c_RelayAllowAny :: bool
  c_KeylessPGDSN :: string
  c_Retention :: RetentionConfig
  c_SignerWriteRate :: int
  c_SignerWriteWindow :: duration
  c_SignerQuotaFailOpen :: bool
  c_SignerBlacklistFailOpen :: bool
  c_AnonRateLimit :: gofloat
  c_AnonRateBurst :: int
  c_AuthProvider :: string
  c_FusionAuthURL :: string
  c_FusionAuthAppID :: string
  c_FusionAuthIssuer :: string
  c_FusionAuthJWKSURL :: string
  c_FusionAuthClientIDHMACKey :: string
  c_JWTClockSkew :: duration
  c_JWTRolesClaim :: string
  c_ChainEnvironment :: string
  c_DocsURL :: string
  c_ExplorerURL :: string
  c_BridgeURL :: string
  c_WalletGeneratorURL :: string
  c_AllowedOrigins :: "string list"
  c_TrustProxyHeaders :: bool
  c_TrustedProxyHops :: int
  c_KeyRequestEnabled :: bool
  c_KeyPendingFile :: string
  c_KeyRequestRateLimit :: gofloat
  c_KeyRequestRateBurst :: int
  c_KeyRequestMaxBodyBytes :: int
  c_SMTPHost :: string
  c_SMTPPort :: int
  c_SMTPUsername :: string
  c_SMTPPassword :: string
  c_SMTPFrom :: string
  c_SMTPFromName :: string
  c_AllowKeyInLogs :: bool

end
