(* ===== verification/Evm_Read.thy ===== *)
theory Evm_Read
  imports Evm_Balance Auth_Policy Next_Actions Config_Types
begin

text \<open>
  The read tools (\<^verbatim>\<open>internal/mcp/tools_evm.go\<close>) and their block argument
  (\<^verbatim>\<open>internal/mcp/block_number.go\<close>). A handler gets the caller's claims and input and yields its
  outcome and the calls it made of the interface \<^verbatim>\<open>evm.Client\<close>, here the record \<open>evm_client\<close>;
  \<open>plainClient\<close> is the implementation of theory \<open>Evm_Client\<close>. Tool descriptions and schemas are
  left out.
\<close>

section \<open>Block arguments\<close>

record blockNumberArg =
  bn_tag :: string
  bn_num :: "int option"

definition unsetBlock :: blockNumberArg where
  "unsetBlock = \<lparr>bn_tag = '''', bn_num = None\<rparr>"

text \<open>A JSON value as far as the argument tells values apart; \<open>JInt\<close> is a number without fraction and exponent.\<close>

datatype json_value = JNull | JStr string | JInt int | JOther

definition dquote :: string where
  "dquote = [CHR 0x22]"

definition UnmarshalBlock :: "(string \<Rightarrow> string) \<Rightarrow> json_value \<Rightarrow> goerr + blockNumberArg" where
  "UnmarshalBlock uq data =
     (let notInt = Inl (Errorf (''block number must be an integer or '' @ dquote @ ''latest'' @ dquote @ ''/'' @ dquote @
                          ''earliest'' @ dquote @ '': '' @ sentinel_text ErrInvalidBlockRef) [Sentinel ErrInvalidBlockRef])
      in case data of
           JNull \<Rightarrow> Inr unsetBlock
         | JStr tag \<Rightarrow>
             if tag \<noteq> ''latest'' \<and> tag \<noteq> ''earliest'' then
               Inl (Errorf (''unsupported block tag '' @ Quote uq tag @ '' (use '' @ dquote @ ''latest'' @ dquote @ '', '' @
                      dquote @ ''earliest'' @ dquote @ '', or an integer block number): '' @
                      sentinel_text ErrInvalidBlockRef) [Sentinel ErrInvalidBlockRef])
             else Inr \<lparr>bn_tag = tag, bn_num = None\<rparr>
         | JInt n \<Rightarrow>
             if n < - (2 ^ 63) \<or> 2 ^ 63 \<le> n then notInt
             else if n < 0 then
               Inl (Errorf (''block number must be 0 or greater (got '' @ dec_int n @ ''): '' @
                      sentinel_text ErrInvalidBlockRef) [Sentinel ErrInvalidBlockRef])
             else Inr \<lparr>bn_tag = '''', bn_num = Some n\<rparr>
         | JOther \<Rightarrow> notInt)"

definition MarshalBlock :: "blockNumberArg \<Rightarrow> json_value" where
  "MarshalBlock b =
     (if bn_tag b \<noteq> '''' then JStr (bn_tag b)
      else case bn_num b of Some n \<Rightarrow> JInt n | None \<Rightarrow> JNull)"

definition isSet :: "blockNumberArg \<Rightarrow> bool" where
  "isSet b \<longleftrightarrow> bn_tag b \<noteq> '''' \<or> bn_num b \<noteq> None"

definition bigInt :: "blockNumberArg \<Rightarrow> int option" where
  "bigInt b = (if bn_tag b = ''earliest'' then Some 0 else bn_num b)"

text \<open>
  The library's \<^verbatim>\<open>types.BlockNumber\<close>: a number, negative ones standing for tags, and the text
  it is sent to the node as.
\<close>

type_synonym BlockNumber = int

definition EarliestBlockTag :: BlockNumber where "EarliestBlockTag = - 1"
definition LatestBlockTag :: BlockNumber where "LatestBlockTag = - 2"
definition PendingBlockTag :: BlockNumber where "PendingBlockTag = - 3"
definition SafeBlockTag :: BlockNumber where "SafeBlockTag = - 4"
definition FinalizedBlockTag :: BlockNumber where "FinalizedBlockTag = - 5"

fun hex_nat :: "nat \<Rightarrow> string" where
  "hex_nat n = (if n < 16 then [hexDigit n] else hex_nat (n div 16) @ [hexDigit (n mod 16)])"

declare hex_nat.simps [simp del]

definition BigIntToHex :: "int \<Rightarrow> string" where
  "BigIntToHex x =
     (if x = 0 then ''0x0'' else if 0 < x then ''0x'' @ hex_nat (nat x) else ''-0x'' @ hex_nat (nat (- x)))"

definition blockWireText :: "BlockNumber \<Rightarrow> string" where
  "blockWireText t =
     (if int64 t = EarliestBlockTag then ''earliest''
      else if int64 t = LatestBlockTag then ''latest''
      else if int64 t = PendingBlockTag then ''pending''
      else if int64 t = SafeBlockTag then ''safe''
      else if int64 t = FinalizedBlockTag then ''finalized''
      else BigIntToHex t)"

definition blockNumber :: "blockNumberArg \<Rightarrow> BlockNumber option" where
  "blockNumber b =
     (if bn_tag b = ''latest'' then Some LatestBlockTag
      else if bn_tag b = ''earliest'' then Some EarliestBlockTag
      else bn_num b)"

definition blockNumOrLatest :: "int option \<Rightarrow> BlockNumber" where
  "blockNumOrLatest b = (case b of None \<Rightarrow> LatestBlockTag | Some n \<Rightarrow> n)"

section \<open>The client the tools call\<close>

record FilterLogsQuery =
  fq_Address :: "address list"
  fq_FromBlock :: "BlockNumber option"
  fq_ToBlock :: "BlockNumber option"
  fq_Topics :: "hash list list"

record eth_call =
  et_To :: address
  et_Input :: bytes
  et_From :: "address option"

record evm_client =
  ec_GetChainInfo :: "ChainInfo outcome"
  ec_BlockByNumber :: "int option \<Rightarrow> bool \<Rightarrow> NormalizedBlock outcome"
  ec_BlockByHash :: "hash \<Rightarrow> bool \<Rightarrow> NormalizedBlock outcome"
  ec_TransactionByHash :: "hash \<Rightarrow> NormalizedTransaction outcome"
  ec_TransactionReceipt :: "hash \<Rightarrow> NormalizedReceipt outcome"
  ec_BalanceAt :: "address \<Rightarrow> int option \<Rightarrow> NormalizedBalance outcome"
  ec_CodeAt :: "address \<Rightarrow> int option \<Rightarrow> CodeResult outcome"
  ec_FilterLogs :: "FilterLogsQuery \<Rightarrow> NormalizedLog list outcome"
  ec_CallContract :: "eth_call \<Rightarrow> int option \<Rightarrow> bytes outcome"

text \<open>The node behind the client, one answer per request.\<close>

record read_node =
  rn_ChainID :: "uint64 outcome"
  rn_BlockNumber :: "int option outcome"
  rn_BlockByNumber :: "BlockNumber \<Rightarrow> bool \<Rightarrow> Block option outcome"
  rn_BlockByHash :: "hash \<Rightarrow> bool \<Rightarrow> Block option outcome"
  rn_Transaction :: "hash \<Rightarrow> OnChainTransaction option outcome"
  rn_Receipt :: "hash \<Rightarrow> defiReceipt option outcome"
  rn_Balance :: "address \<Rightarrow> BlockNumber \<Rightarrow> int option outcome"
  rn_Code :: "address \<Rightarrow> BlockNumber \<Rightarrow> bytes outcome"
  rn_Logs :: "FilterLogsQuery \<Rightarrow> Log list outcome"
  rn_Call :: "eth_call \<Rightarrow> BlockNumber \<Rightarrow> bytes outcome"

definition plainClient :: "(string \<Rightarrow> string) \<Rightarrow> (bytes \<Rightarrow> hash) \<Rightarrow> read_node \<Rightarrow> evm_client" where
  "plainClient ul kec n =
     \<lparr>ec_GetChainInfo = GetChainInfo (rn_ChainID n) (rn_BlockNumber n),
      ec_BlockByNumber = (\<lambda>b full. BlockByNumber ul kec full (rn_BlockByNumber n (blockNumOrLatest b) full)),
      ec_BlockByHash = (\<lambda>h full. BlockByHash ul kec full (rn_BlockByHash n h full)),
      ec_TransactionByHash = (\<lambda>h. TransactionByHash kec (rn_Transaction n h)),
      ec_TransactionReceipt = (\<lambda>h. TransactionReceipt kec (rn_Receipt n h)),
      ec_BalanceAt = (\<lambda>a b. BalanceAt ul kec a (rn_Balance n a (blockNumOrLatest b))),
      ec_CodeAt = (\<lambda>a b. CodeAt ul kec a (rn_Code n a (blockNumOrLatest b))),
      ec_FilterLogs = (\<lambda>q. FilterLogs ul kec (rn_Logs n q)),
      ec_CallContract = (\<lambda>msg b. CallContract (rn_Call n msg (blockNumOrLatest b)))\<rparr>"

datatype client_call =
    CallChainInfo
  | CallBlockByNumber "int option" bool
  | CallBlockByHash hash bool
  | CallTransaction hash
  | CallReceipt hash
  | CallBalance address "int option"
  | CallCode address "int option"
  | CallLogs FilterLogsQuery
  | CallContract_call eth_call "int option"

section \<open>Parsing of inputs\<close>

definition parseHash32 :: "unicode_tables \<Rightarrow> string \<Rightarrow> sentinel \<Rightarrow> goerr + hash" where
  "parseHash32 ut s kind =
     (let raw = TrimPrefix s ''0x''
      in if length raw \<noteq> 64 then
           Inl (Errorf (Quote (uQuote ut) s @ '': want 32 bytes (64 hex digits), got '' @ dec_nat (length raw) @ '': '' @
                  sentinel_text kind) [Sentinel kind])
         else case DecodeString raw of
                Inl err \<Rightarrow> Inl (Errorf (Quote (uQuote ut) s @ '': not valid hex: '' @ sentinel_text kind) [Sentinel kind])
              | Inr b \<Rightarrow>
                  if length b \<noteq> 32 then Inl (Errorf (Quote (uQuote ut) s @ '': '' @ sentinel_text kind) [Sentinel kind])
                  else Inr b)"

definition parseHash :: "unicode_tables \<Rightarrow> string \<Rightarrow> goerr + hash" where
  "parseHash ut s = parseHash32 ut s ErrInvalidTxHash"

definition maxHexDataLen :: nat where
  "maxHexDataLen = 2 * 1024 * 1024"

definition parseHexData :: "string \<Rightarrow> goerr + bytes" where
  "parseHexData s0 =
     (let s = TrimPrefix s0 ''0x''
      in if maxHexDataLen < length s then
           Inl (Errorf (''hex data too large ('' @ dec_nat (length s) @ '' chars, max '' @ dec_nat maxHexDataLen @ ''): '' @
                  sentinel_text ErrInvalidABI) [Sentinel ErrInvalidABI])
         else case DecodeString s of
                Inl err \<Rightarrow> Inl (Errorf (sentinel_text ErrInvalidHexData) [Sentinel ErrInvalidHexData])
              | Inr b \<Rightarrow> Inr b)"

fun parseTopics :: "unicode_tables \<Rightarrow> nat \<Rightarrow> string list \<Rightarrow> goerr + hash list" where
  "parseTopics ut i [] = Inr []"
| "parseTopics ut i (t # ts) =
     (case parseHash32 ut t ErrInvalidTopics of
        Inl err \<Rightarrow> Inl (wrapf (''invalid topic at index '' @ dec_nat i) err)
      | Inr h \<Rightarrow> (case parseTopics ut (Suc i) ts of Inl err \<Rightarrow> Inl err | Inr hs \<Rightarrow> Inr (h # hs)))"

section \<open>Handlers\<close>

record getBlockInput =
  gb_BlockNumber :: blockNumberArg
  gb_BlockHash :: "string option"
  gb_FullTx :: bool

record getLogsInput =
  gl_Address :: "string option"
  gl_FromBlock :: blockNumberArg
  gl_ToBlock :: blockNumberArg
  gl_Topics :: "string list"

record callContractInput =
  cc_To :: string
  cc_Data :: string
  cc_From :: string
  cc_BlockNum :: blockNumberArg

record balanceOutput =
  bo_Balance :: NormalizedBalance
  bo_BalanceHuman :: string
  bo_TokenWrapped :: string
  bo_NextActions :: "NextAction list"

record getLogsOutput =
  lo_Logs :: "NormalizedLog list"
  lo_Count :: int
  lo_NextActions :: "NextAction list"

definition readRoleSet :: "string list" where
  "readRoleSet = [''reader'', ''writer'', ''admin'', ''automation'']"

type_synonym 'o tool_result = "'o outcome \<times> client_call list"

text \<open>Every handler starts with the role check; what follows runs only if it passes.\<close>

definition withReadRole :: "Claims option \<Rightarrow> 'o tool_result \<Rightarrow> 'o tool_result" where
  "withReadRole ctx rest = (case requireRole ctx readRoleSet of Some err \<Rightarrow> (Fails err, []) | None \<Rightarrow> rest)"

definition makeChainIDHandler :: "evm_client \<Rightarrow> Claims option \<Rightarrow> (ChainInfo \<times> NextAction list) tool_result" where
  "makeChainIDHandler c ctx =
     withReadRole ctx
       (withRpc (ec_GetChainInfo c) (\<lambda>err. Fails (wrapf ''failed to get chain info'' err))
          (\<lambda>info. Returns (info, evmChainIDNext)), [CallChainInfo])"

definition makeGetBlockHandler ::
  "unicode_tables \<Rightarrow> evm_client \<Rightarrow> Claims option \<Rightarrow> getBlockInput \<Rightarrow> (NormalizedBlock \<times> NextAction list) tool_result" where
  "makeGetBlockHandler ut c ctx inp =
     withReadRole ctx
       (case gb_BlockHash inp of
          Some bh \<Rightarrow>
            if isSet (gb_BlockNumber inp) then
              (Fails (wrapf ''provide block_number or block_hash, not both'' (Sentinel ErrInvalidBlockRef)), [])
            else (case parseHash32 ut bh ErrInvalidHash of
                    Inl err \<Rightarrow> (Fails (wrapf ''invalid block_hash'' err), [])
                  | Inr h \<Rightarrow>
                      (bindO (ec_BlockByHash c h (gb_FullTx inp)) (\<lambda>block. Returns (block, evmGetBlockNext)),
                       [CallBlockByHash h (gb_FullTx inp)]))
        | None \<Rightarrow>
            (bindO (ec_BlockByNumber c (bigInt (gb_BlockNumber inp)) (gb_FullTx inp)) (\<lambda>block. Returns (block, evmGetBlockNext)),
             [CallBlockByNumber (bigInt (gb_BlockNumber inp)) (gb_FullTx inp)]))"

definition makeGetTransactionHandler ::
  "unicode_tables \<Rightarrow> evm_client \<Rightarrow> Claims option \<Rightarrow> string \<Rightarrow> (NormalizedTransaction \<times> NextAction list) tool_result" where
  "makeGetTransactionHandler ut c ctx txHash =
     withReadRole ctx
       (case parseHash ut txHash of
          Inl err \<Rightarrow> (Fails (wrapf ''invalid tx_hash'' err), [])
        | Inr h \<Rightarrow>
            (bindO (ec_TransactionByHash c h) (\<lambda>tx. Returns (tx, evmGetTransactionNext)), [CallTransaction h]))"

definition makeGetReceiptHandler ::
  "unicode_tables \<Rightarrow> evm_client \<Rightarrow> Claims option \<Rightarrow> string \<Rightarrow> (NormalizedReceipt \<times> NextAction list) tool_result" where
  "makeGetReceiptHandler ut c ctx txHash =
     withReadRole ctx
       (case parseHash ut txHash of
          Inl err \<Rightarrow> (Fails (wrapf ''invalid tx_hash'' err), [])
        | Inr h \<Rightarrow>
            (withRpc (ec_TransactionReceipt c h)
               (\<lambda>err. Fails (if isReceiptLookupAborted err then Sentinel ErrTxNotFound else err))
               (\<lambda>receipt. Returns (receipt, evmGetReceiptNext (nr_Status receipt))), [CallReceipt h]))"

definition makeGetBalanceHandler ::
  "unicode_tables \<Rightarrow> (bytes \<Rightarrow> hash) \<Rightarrow> Config \<Rightarrow> evm_client \<Rightarrow> Claims option \<Rightarrow> string \<Rightarrow> blockNumberArg
     \<Rightarrow> balanceOutput tool_result" where
  "makeGetBalanceHandler ut kec cfg c ctx addrText blockNum =
     withReadRole ctx
       (case ParseAddress ut kec addrText of
          Inl err \<Rightarrow> (Fails err, [])
        | Inr addr \<Rightarrow>
            (withRpc (ec_BalanceAt c addr (bigInt blockNum)) (\<lambda>err. Fails (wrapf ''failed to get balance'' err))
               (\<lambda>balance.
                  let naming = NamingFor (c_ChainEnvironment cfg)
                  in Returns \<lparr>bo_Balance = balance, bo_BalanceHuman = nb_Ether balance @ '' '' @ tn_Wrapped naming,
                              bo_TokenWrapped = tn_Wrapped naming, bo_NextActions = evmGetBalanceNext\<rparr>),
             [CallBalance addr (bigInt blockNum)]))"

text \<open>
  \<^verbatim>\<open>strings.EqualFold\<close> with a printed address: none of its letters folds to a character outside
  ASCII.
\<close>

definition EqualFoldHex :: "string \<Rightarrow> string \<Rightarrow> bool" where
  "EqualFoldHex a b \<longleftrightarrow> map asciiLower a = map asciiLower b"

definition makeGetCodeHandler ::
  "unicode_tables \<Rightarrow> (bytes \<Rightarrow> hash) \<Rightarrow> Config \<Rightarrow> evm_client \<Rightarrow> Claims option \<Rightarrow> string \<Rightarrow> blockNumberArg
     \<Rightarrow> (CodeResult \<times> NextAction list) tool_result" where
  "makeGetCodeHandler ut kec cfg c ctx addrText blockNum =
     withReadRole ctx
       (case ParseAddress ut kec addrText of
          Inl err \<Rightarrow> (Fails err, [])
        | Inr addr \<Rightarrow>
            (withRpc (ec_CodeAt c addr (bigInt blockNum)) (\<lambda>err. Fails (wrapf ''failed to get code'' err))
               (\<lambda>code. Returns (code, evmGetCodeNext (cr_IsContract code)
                                  (EqualFoldHex (cr_Address code) (c_AnchorAddress cfg)))),
             [CallCode addr (bigInt blockNum)]))"

definition logsQuery :: "unicode_tables \<Rightarrow> (bytes \<Rightarrow> hash) \<Rightarrow> getLogsInput \<Rightarrow> goerr + FilterLogsQuery" where
  "logsQuery ut kec inp =
     (case (case gl_Address inp of None \<Rightarrow> Inr [] | Some a \<Rightarrow> (case ParseAddress ut kec a of Inl err \<Rightarrow> Inl err | Inr addr \<Rightarrow> Inr [addr])) of
        Inl err \<Rightarrow> Inl err
      | Inr addrs \<Rightarrow>
          (case parseTopics ut 0 (gl_Topics inp) of
             Inl err \<Rightarrow> Inl err
           | Inr topicSet \<Rightarrow>
               Inr \<lparr>fq_Address = addrs, fq_FromBlock = blockNumber (gl_FromBlock inp), fq_ToBlock = blockNumber (gl_ToBlock inp),
                    fq_Topics = (if 0 < length (gl_Topics inp) then [topicSet] else [])\<rparr>))"

definition makeGetLogsHandler ::
  "unicode_tables \<Rightarrow> (bytes \<Rightarrow> hash) \<Rightarrow> evm_client \<Rightarrow> Claims option \<Rightarrow> getLogsInput \<Rightarrow> getLogsOutput tool_result" where
  "makeGetLogsHandler ut kec c ctx inp =
     withReadRole ctx
       (case logsQuery ut kec inp of
          Inl err \<Rightarrow> (Fails err, [])
        | Inr q \<Rightarrow>
            (bindO (ec_FilterLogs c q)
               (\<lambda>logs. Returns \<lparr>lo_Logs = logs, lo_Count = int (length logs), lo_NextActions = evmGetLogsNext\<rparr>),
             [CallLogs q]))"

definition callMessage :: "unicode_tables \<Rightarrow> (bytes \<Rightarrow> hash) \<Rightarrow> callContractInput \<Rightarrow> goerr + eth_call" where
  "callMessage ut kec inp =
     (case ParseAddress ut kec (cc_To inp) of
        Inl err \<Rightarrow> Inl err
      | Inr toAddr \<Rightarrow>
          (case parseHexData (cc_Data inp) of
             Inl err \<Rightarrow> Inl (wrapf ''invalid calldata'' err)
           | Inr data \<Rightarrow>
               if cc_From inp \<noteq> '''' then
                 (case ParseAddress ut kec (cc_From inp) of
                    Inl err \<Rightarrow> Inl err
                  | Inr fromAddr \<Rightarrow> Inr \<lparr>et_To = toAddr, et_Input = data, et_From = Some fromAddr\<rparr>)
               else Inr \<lparr>et_To = toAddr, et_Input = data, et_From = None\<rparr>))"

definition makeCallContractHandler ::
  "unicode_tables \<Rightarrow> (bytes \<Rightarrow> hash) \<Rightarrow> evm_client \<Rightarrow> Claims option \<Rightarrow> callContractInput
     \<Rightarrow> (string \<times> NextAction list) tool_result" where
  "makeCallContractHandler ut kec c ctx inp =
     withReadRole ctx
       (case callMessage ut kec inp of
          Inl err \<Rightarrow> (Fails err, [])
        | Inr msg \<Rightarrow>
            (withRpc (ec_CallContract c msg (bigInt (cc_BlockNum inp)))
               (\<lambda>err. Fails (case ClassifyCallRevert (uLower ut) (Some err) of
                                Some curated \<Rightarrow> curated | None \<Rightarrow> wrapf ''contract call failed'' err))
               (\<lambda>result. Returns (''0x'' @ EncodeToString result, evmCallContractNext)),
             [CallContract_call msg (bigInt (cc_BlockNum inp))]))"

section \<open>The registered tools\<close>

text \<open>A request names its tool by its constructor and carries the decoded input.\<close>

datatype evm_request =
    EvmGetChainID
  | EvmGetBlock getBlockInput
  | EvmGetTransaction string
  | EvmGetTransactionReceipt string
  | EvmGetBalance string blockNumberArg
  | EvmGetCode string blockNumberArg
  | EvmGetLogs getLogsInput
  | EvmCallContract callContractInput

datatype evm_output =
    ChainIDOutput "ChainInfo \<times> NextAction list"
  | BlockOutput "NormalizedBlock \<times> NextAction list"
  | TransactionOutput "NormalizedTransaction \<times> NextAction list"
  | ReceiptOutput "NormalizedReceipt \<times> NextAction list"
  | BalanceOutput balanceOutput
  | CodeOutput "CodeResult \<times> NextAction list"
  | LogsOutput getLogsOutput
  | CallContractOutput "string \<times> NextAction list"

definition outputAs :: "('o \<Rightarrow> evm_output) \<Rightarrow> 'o tool_result \<Rightarrow> evm_output tool_result" where
  "outputAs f r = (map_outcome f (fst r), snd r)"

definition registerEVMTools ::
  "unicode_tables \<Rightarrow> (bytes \<Rightarrow> hash) \<Rightarrow> Config \<Rightarrow> evm_client \<Rightarrow> Claims option \<Rightarrow> evm_request \<Rightarrow> evm_output tool_result" where
  "registerEVMTools ut kec cfg c ctx req =
     (case req of
        EvmGetChainID \<Rightarrow> outputAs ChainIDOutput (makeChainIDHandler c ctx)
      | EvmGetBlock inp \<Rightarrow> outputAs BlockOutput (makeGetBlockHandler ut c ctx inp)
      | EvmGetTransaction h \<Rightarrow> outputAs TransactionOutput (makeGetTransactionHandler ut c ctx h)
      | EvmGetTransactionReceipt h \<Rightarrow> outputAs ReceiptOutput (makeGetReceiptHandler ut c ctx h)
      | EvmGetBalance a b \<Rightarrow> outputAs BalanceOutput (makeGetBalanceHandler ut kec cfg c ctx a b)
      | EvmGetCode a b \<Rightarrow> outputAs CodeOutput (makeGetCodeHandler ut kec cfg c ctx a b)
      | EvmGetLogs inp \<Rightarrow> outputAs LogsOutput (makeGetLogsHandler ut kec c ctx inp)
      | EvmCallContract inp \<Rightarrow> outputAs CallContractOutput (makeCallContractHandler ut kec c ctx inp))"

section \<open>Properties\<close>

subsection \<open>Block arguments\<close>

definition blockText :: "json_value set" where
  "blockText = {JNull, JStr ''latest'', JStr ''earliest''} \<union> JInt ` {0 ..< 2 ^ 63}"

definition validBlock :: "blockNumberArg \<Rightarrow> bool" where
  "validBlock b \<longleftrightarrow>
     bn_tag b \<in> {'''', ''latest'', ''earliest''} \<and> (bn_tag b \<noteq> '''' \<longrightarrow> bn_num b = None)
     \<and> (case bn_num b of None \<Rightarrow> True | Some n \<Rightarrow> 0 \<le> n \<and> n < 2 ^ 63)"

lemma UnmarshalBlock_valid: "UnmarshalBlock uq v = Inr b \<Longrightarrow> validBlock b"
  by (auto simp: UnmarshalBlock_def Let_def validBlock_def unsetBlock_def split: json_value.splits if_splits)

lemma UnmarshalBlock_Marshal: "validBlock b \<Longrightarrow> UnmarshalBlock uq (MarshalBlock b) = Inr b"
  by (cases b) (auto simp: UnmarshalBlock_def Let_def validBlock_def unsetBlock_def MarshalBlock_def split: option.splits)

lemma UnmarshalBlock_accepts: "v \<in> blockText \<longleftrightarrow> (\<exists>b. UnmarshalBlock uq v = Inr b \<and> MarshalBlock b = v)"
  by (cases v) (auto simp: UnmarshalBlock_def Let_def blockText_def unsetBlock_def MarshalBlock_def)

lemma UnmarshalBlock_refuses: "v \<notin> blockText \<Longrightarrow> \<exists>e. UnmarshalBlock uq v = Inl e \<and> IsS e ErrInvalidBlockRef"
  by (cases v) (auto simp: UnmarshalBlock_def Let_def blockText_def go_simps)

lemma validBlock_bigInt: "validBlock b \<Longrightarrow> bigInt b = Some n \<Longrightarrow> 0 \<le> n \<and> n < 2 ^ 63"
  by (auto simp: validBlock_def bigInt_def split: if_splits)

lemma wire_number: "0 \<le> n \<Longrightarrow> n < 2 ^ 63 \<Longrightarrow> blockWireText n = BigIntToHex n"
  by (simp add: blockWireText_def int64_exact EarliestBlockTag_def LatestBlockTag_def PendingBlockTag_def
      SafeBlockTag_def FinalizedBlockTag_def)

lemma wire_tags [simp]:
  "blockWireText LatestBlockTag = ''latest''" "blockWireText EarliestBlockTag = ''earliest''"
  by (simp_all add: blockWireText_def int64_def EarliestBlockTag_def LatestBlockTag_def)

lemma hex_nat_prefix: "0 \<le> n \<Longrightarrow> take 2 (BigIntToHex n) = ''0x''"
  by (simp add: BigIntToHex_def)

text \<open>
  Claim C39 (Block references). The argument accepts null, the two tags and the integers from 0
  below \<open>2 ^ 63\<close>, and nothing else: any other value is refused as an invalid block reference. An
  accepted argument prints to the value it came from. What the node is then asked for, through
  either client interface, is the number in hexadecimal for a number, \<open>latest\<close> for \<open>latest\<close>, the
  first block for \<open>earliest\<close>, and \<open>latest\<close> or no bound when the argument is absent: no number is ever
  taken for one of the library's tags.
\<close>

theorem block_references:
  "(if v \<in> blockText
    then \<exists>b. UnmarshalBlock uq v = Inr b \<and> MarshalBlock b = v \<and> UnmarshalBlock uq (MarshalBlock b) = Inr b
           \<and> (isSet b \<longleftrightarrow> v \<noteq> JNull)
           \<and> (let at = blockWireText (blockNumOrLatest (bigInt b)); bound = map_option blockWireText (blockNumber b)
              in case v of
                JInt n \<Rightarrow> 0 \<le> n \<and> at = BigIntToHex n \<and> bound = Some (BigIntToHex n) \<and> take 2 at = ''0x''
              | JStr t \<Rightarrow> if t = ''latest'' then at = ''latest'' \<and> bound = Some ''latest''
                          else at = ''0x0'' \<and> bound = Some ''earliest''
              | _ \<Rightarrow> at = ''latest'' \<and> bound = None)
    else \<exists>e. UnmarshalBlock uq v = Inl e \<and> IsS e ErrInvalidBlockRef)"
proof (cases "v \<in> blockText")
  case True
  have "blockWireText 0 = ''0x0''"
    by (simp add: wire_number) (simp add: BigIntToHex_def)
  with True show ?thesis
    by (cases v)
      (auto simp: UnmarshalBlock_def Let_def blockText_def unsetBlock_def MarshalBlock_def isSet_def bigInt_def
        blockNumber_def blockNumOrLatest_def wire_number hex_nat_prefix)
qed (simp add: UnmarshalBlock_refuses)

subsection \<open>Inputs are checked before the node is asked\<close>

fun callChecked :: "client_call \<Rightarrow> bool" where
  "callChecked CallChainInfo = True"
| "callChecked (CallBlockByNumber b full) = pred_option (\<lambda>n. 0 \<le> n) b"
| "callChecked (CallBlockByHash h full) = (length h = 32)"
| "callChecked (CallTransaction h) = (length h = 32)"
| "callChecked (CallReceipt h) = (length h = 32)"
| "callChecked (CallBalance a b) = (length a = 20 \<and> pred_option (\<lambda>n. 0 \<le> n) b)"
| "callChecked (CallCode a b) = (length a = 20 \<and> pred_option (\<lambda>n. 0 \<le> n) b)"
| "callChecked (CallLogs q) =
     (length (fq_Address q) \<le> 1 \<and> (\<forall>a \<in> set (fq_Address q). length a = 20)
      \<and> (\<forall>ts \<in> set (fq_Topics q). ts \<noteq> [] \<and> (\<forall>t \<in> set ts. length t = 32))
      \<and> (\<forall>n. fq_FromBlock q = Some n \<or> fq_ToBlock q = Some n \<longrightarrow> 0 \<le> n \<or> n \<in> {LatestBlockTag, EarliestBlockTag}))"
| "callChecked (CallContract_call m b) =
     (length (et_To m) = 20 \<and> 2 * length (et_Input m) \<le> maxHexDataLen
      \<and> pred_option (\<lambda>a. length a = 20) (et_From m) \<and> pred_option (\<lambda>n. 0 \<le> n) b)"

fun requestBlocks :: "evm_request \<Rightarrow> blockNumberArg list" where
  "requestBlocks (EvmGetBlock inp) = [gb_BlockNumber inp]"
| "requestBlocks (EvmGetBalance a b) = [b]"
| "requestBlocks (EvmGetCode a b) = [b]"
| "requestBlocks (EvmGetLogs inp) = [gl_FromBlock inp, gl_ToBlock inp]"
| "requestBlocks (EvmCallContract inp) = [cc_BlockNum inp]"
| "requestBlocks _ = []"

lemma parseHash32_32: "parseHash32 ut s k = Inr h \<Longrightarrow> length h = 32"
  by (auto simp: parseHash32_def Let_def split: sum.splits if_splits)

lemma parseHash32_error: "parseHash32 ut s k = Inl e \<Longrightarrow> IsS e k"
  by (auto simp: parseHash32_def Let_def go_simps split: sum.splits if_splits)

lemma parseHexData_bound: "parseHexData s = Inr bs \<Longrightarrow> 2 * length bs \<le> maxHexDataLen"
  by (auto simp: parseHexData_def Let_def split: sum.splits if_splits dest: DecodeString_length)

lemma parseHexData_error: "parseHexData s = Inl e \<Longrightarrow> IsS e ErrInvalidABI \<or> IsS e ErrInvalidHexData"
  by (auto simp: parseHexData_def Let_def go_simps split: sum.splits if_splits)

lemma parseTopics_32: "parseTopics ut i ts = Inr hs \<Longrightarrow> length hs = length ts \<and> (\<forall>h \<in> set hs. length h = 32)"
  by (induction ts arbitrary: i hs) (auto split: sum.splits dest: parseHash32_32)

lemma parseTopics_error: "parseTopics ut i ts = Inl e \<Longrightarrow> IsS e ErrInvalidTopics"
  by (induction ts arbitrary: i) (auto split: sum.splits simp: wrapf_def go_simps dest!: parseHash32_error)


text \<open>A handler's result is proper: one checked call by a permitted caller, or an error the caller may read and no call.\<close>

definition properResult :: "Claims option \<Rightarrow> 'o tool_result \<Rightarrow> bool" where
  "properResult ctx r \<longleftrightarrow>
     (case snd r of
        [] \<Rightarrow> (case fst r of Fails e \<Rightarrow> SafeForClient (Some e) = Some e
                                \<and> (if requireRole ctx readRoleSet = None then IsInputError e else IsS e ErrPermissionDenied)
               | _ \<Rightarrow> False)
      | c # cs \<Rightarrow> cs = [] \<and> callChecked c \<and> requireRole ctx readRoleSet = None)"

lemma requireRole_error: "requireRole ctx roles = Some e \<Longrightarrow> IsS e ErrPermissionDenied"
  by (auto simp: requireRole_def go_simps split: option.splits if_splits)

lemma safe_role_error: "IsS e ErrPermissionDenied \<Longrightarrow> SafeForClient (Some e) = Some e"
  by (simp add: SafeForClient_def)

lemma withReadRole_proper:
  assumes "requireRole ctx readRoleSet = None \<Longrightarrow> properResult ctx r"
  shows "properResult ctx (withReadRole ctx r)"
proof (cases "requireRole ctx readRoleSet")
  case None
  with assms show ?thesis by (simp add: withReadRole_def)
next
  case (Some e)
  then show ?thesis
    by (simp add: withReadRole_def properResult_def safe_role_error requireRole_error [OF Some])
qed

lemma properResult_refusal:
  "requireRole ctx readRoleSet = None \<Longrightarrow> IsInputError e \<Longrightarrow> properResult ctx (Fails e, [])"
  by (simp add: properResult_def SafeForClient_def)

lemma properResult_call:
  "requireRole ctx readRoleSet = None \<Longrightarrow> callChecked c \<Longrightarrow> properResult ctx (r, [c])"
  by (simp add: properResult_def)

lemma properResult_outputAs [simp]: "properResult ctx (outputAs f r) = properResult ctx r"
  by (cases "fst r") (simp_all add: properResult_def outputAs_def split: list.splits)

lemma hash_inputError:
  "parseHash32 ut s k = Inl e \<Longrightarrow> k \<in> set inputErrors \<Longrightarrow> IsInputError e"
  using parseHash32_error inputError_of by blast

lemma address_inputError: "ParseAddress ut kec s = Inl e \<Longrightarrow> IsInputError e"
  by (rule inputError_of [OF ParseAddress_input]) (simp_all add: inputErrors_def)

lemma hexData_inputError: "parseHexData s = Inl e \<Longrightarrow> IsInputError e"
  using parseHexData_error [of s e] by (auto intro: inputError_of simp: inputErrors_def)

lemma topics_inputError: "parseTopics ut i ts = Inl e \<Longrightarrow> IsInputError e"
  by (rule inputError_of [OF parseTopics_error]) (simp_all add: inputErrors_def)

lemma logsQuery_error: "logsQuery ut kec inp = Inl e \<Longrightarrow> IsInputError e"
  by (auto simp: logsQuery_def split: sum.splits option.splits dest: address_inputError topics_inputError)

lemma callMessage_error: "callMessage ut kec inp = Inl e \<Longrightarrow> IsInputError e"
  by (auto simp: callMessage_def split: sum.splits if_splits
      intro: inputError_wrapf dest: address_inputError hexData_inputError)

lemma blockNumber_checked: "validBlock b \<Longrightarrow> blockNumber b = Some n \<Longrightarrow> 0 \<le> n \<or> n \<in> {LatestBlockTag, EarliestBlockTag}"
  by (auto simp: validBlock_def blockNumber_def split: if_splits)

lemma logsQuery_checked:
  "validBlock (gl_FromBlock inp) \<Longrightarrow> validBlock (gl_ToBlock inp) \<Longrightarrow> logsQuery ut kec inp = Inr q \<Longrightarrow>
     callChecked (CallLogs q)"
  by (auto simp: logsQuery_def split: sum.splits option.splits if_splits
      dest: ParseAddress_20 parseTopics_32 blockNumber_checked)

lemma callMessage_checked:
  "callMessage ut kec inp = Inr m \<Longrightarrow> validBlock b \<Longrightarrow> callChecked (CallContract_call m (bigInt b))"
  by (auto simp: callMessage_def pred_option_def split: sum.splits if_splits
      dest: ParseAddress_20 parseHexData_bound validBlock_bigInt elim: option.set_cases)

lemma bigInt_checked: "validBlock b \<Longrightarrow> pred_option (\<lambda>n. 0 \<le> n) (bigInt b)"
  by (auto simp: pred_option_def dest: validBlock_bigInt elim: option.set_cases)


lemma input_sentinels:
  "{ErrInvalidBlockRef, ErrInvalidHash, ErrInvalidTxHash} \<subseteq> set inputErrors"
  by (simp add: inputErrors_def)

lemmas proper_rules = withReadRole_proper properResult_refusal properResult_call inputError_wrapf

lemma getBlock_proper:
  assumes "validBlock (gb_BlockNumber inp)"
  shows "properResult ctx (makeGetBlockHandler ut c ctx inp)"
  unfolding makeGetBlockHandler_def using assms input_sentinels
  by (intro withReadRole_proper)
    (auto split: option.splits sum.splits intro!: proper_rules input_Sentinel
      simp: bigInt_checked dest: hash_inputError parseHash32_32)

lemma getTransaction_proper: "properResult ctx (makeGetTransactionHandler ut c ctx h)"
  unfolding makeGetTransactionHandler_def parseHash_def using input_sentinels
  by (intro withReadRole_proper)
    (auto split: sum.splits intro!: proper_rules dest: hash_inputError parseHash32_32)

lemma getReceipt_proper: "properResult ctx (makeGetReceiptHandler ut c ctx h)"
  unfolding makeGetReceiptHandler_def parseHash_def using input_sentinels
  by (intro withReadRole_proper)
    (auto split: sum.splits intro!: proper_rules dest: hash_inputError parseHash32_32)

lemma getBalance_proper:
  "validBlock b \<Longrightarrow> properResult ctx (makeGetBalanceHandler ut kec cfg c ctx a b)"
  unfolding makeGetBalanceHandler_def
  by (intro withReadRole_proper)
    (auto split: sum.splits intro!: proper_rules simp: bigInt_checked dest: address_inputError ParseAddress_20)

lemma getCode_proper:
  "validBlock b \<Longrightarrow> properResult ctx (makeGetCodeHandler ut kec cfg c ctx a b)"
  unfolding makeGetCodeHandler_def
  by (intro withReadRole_proper)
    (auto split: sum.splits intro!: proper_rules simp: bigInt_checked dest: address_inputError ParseAddress_20)

lemma getLogs_proper:
  "validBlock (gl_FromBlock inp) \<Longrightarrow> validBlock (gl_ToBlock inp) \<Longrightarrow>
     properResult ctx (makeGetLogsHandler ut kec c ctx inp)"
  unfolding makeGetLogsHandler_def
  by (intro withReadRole_proper)
    (auto split: sum.splits intro!: proper_rules logsQuery_checked dest: logsQuery_error simp del: callChecked.simps)

lemma callContract_proper:
  "validBlock (cc_BlockNum inp) \<Longrightarrow> properResult ctx (makeCallContractHandler ut kec c ctx inp)"
  unfolding makeCallContractHandler_def
  by (intro withReadRole_proper)
    (auto split: sum.splits intro!: proper_rules callMessage_checked dest: callMessage_error simp del: callChecked.simps)

lemma chainID_proper: "properResult ctx (makeChainIDHandler c ctx)"
  unfolding makeChainIDHandler_def by (intro proper_rules) (simp_all add: properResult_def)

lemma read_proper:
  "list_all validBlock (requestBlocks req) \<Longrightarrow> properResult ctx (registerEVMTools ut kec cfg c ctx req)"
  by (cases req)
    (simp_all add: registerEVMTools_def chainID_proper getBlock_proper getTransaction_proper getReceipt_proper
      getBalance_proper getCode_proper getLogs_proper callContract_proper)


text \<open>
  Claim C15 (Read tools check before they ask). Whatever the caller sends, a read tool either
  asks the node exactly one question, and then the caller holds a read role and every argument of
  the question is well formed (32-byte hashes and topics, 20-byte addresses, at most 1 MiB of call
  data, no negative block number), or it asks nothing and fails with an error shown to the caller
  as it stands: the missing role, or the malformed input.
\<close>

theorem read_tools_checked:
  assumes "\<forall>b \<in> set (requestBlocks req). \<exists>v. UnmarshalBlock uq v = Inr b"
    and "registerEVMTools ut kec cfg c ctx req = (out, calls)"
  shows "(\<exists>q. calls = [q] \<and> callChecked q \<and> requireRole ctx readRoleSet = None)
    \<or> (\<exists>e. calls = [] \<and> out = Fails e \<and> SafeForClient (Some e) = Some e
         \<and> (if requireRole ctx readRoleSet = None then IsInputError e else IsS e ErrPermissionDenied))"
proof -
  have "properResult ctx (out, calls)"
    using read_proper [of req ctx ut kec cfg c] assms UnmarshalBlock_valid by (auto simp: list_all_iff)
  then show ?thesis
    by (cases out; cases calls) (simp_all add: properResult_def)
qed

theorem read_tools_checked_witness:
  "\<forall>cfg c.
     (let req = EvmGetBlock \<lparr>gb_BlockNumber = \<lparr>bn_tag = '''', bn_num = Some 7\<rparr>, gb_BlockHash = None, gb_FullTx = False\<rparr>
      in (\<forall>b \<in> set (requestBlocks req). UnmarshalBlock id (JInt 7) = Inr b)
         \<and> (\<exists>q. snd (registerEVMTools plain_tables flat_hash cfg c None req) = [q] \<and> callChecked q))"
  (is "\<forall>cfg c. let req = ?q in _")
proof (intro allI)
  fix cfg c
  let ?r = "registerEVMTools plain_tables flat_hash cfg c None ?q"
  have b: "\<forall>b \<in> set (requestBlocks ?q). UnmarshalBlock id (JInt 7) = Inr b"
    by (simp add: UnmarshalBlock_def)
  have "snd ?r \<noteq> []"
    by (simp add: registerEVMTools_def outputAs_def makeGetBlockHandler_def withReadRole_def requireRole_def)
  with read_tools_checked [of ?q id plain_tables flat_hash cfg c None "fst ?r" "snd ?r"] b
  have "\<exists>q. snd ?r = [q] \<and> callChecked q" by fastforce
  with b show "let req = ?q
      in (\<forall>b \<in> set (requestBlocks req). UnmarshalBlock id (JInt 7) = Inr b)
         \<and> (\<exists>q. snd (registerEVMTools plain_tables flat_hash cfg c None req) = [q] \<and> callChecked q)"
    unfolding Let_def by blast
qed

end
