(* ===== verification/Evm_Stack.thy ===== *)
theory Evm_Stack
  imports Evm_Resilient Anchor Evm_Read
begin

text \<open>
  The client of the node as the process assembles it (\<^verbatim>\<open>run\<close> of \<^verbatim>\<open>cmd/nvnm-mcp-server/main.go\<close>): the plain
  client of theory \<open>Evm_Client\<close> inside the tracing wrapper (\<^verbatim>\<open>internal/evm/tracing.go\<close>) inside the
  resilience wrapper of theory \<open>Evm_Resilient\<close>, here with every method of the interface and with the
  state of the node threaded through the attempts. The locale \<open>rpc_wrapper\<close> is what a wrapper promises:
  what it returns is what some attempt returned, and it makes a bounded number of attempts. It is
  interpreted on each wrapper; \<open>wrapper_stack\<close> composes two of them.
\<close>

section \<open>The interface of the client\<close>

record ('c, 'w) node_client =
  cl_ChainID :: "('w, int) call"
  cl_LatestBlockNumber :: "('w, uint64) call"
  cl_GetChainInfo :: "('w, ChainInfo) call"
  cl_BlockByNumber :: "int option \<Rightarrow> bool \<Rightarrow> ('w, NormalizedBlock) call"
  cl_BlockByHash :: "hash \<Rightarrow> bool \<Rightarrow> ('w, NormalizedBlock) call"
  cl_TransactionByHash :: "hash \<Rightarrow> ('w, NormalizedTransaction) call"
  cl_TransactionReceipt :: "hash \<Rightarrow> ('w, NormalizedReceipt) call"
  cl_BalanceAt :: "address \<Rightarrow> int option \<Rightarrow> ('w, NormalizedBalance) call"
  cl_CodeAt :: "address \<Rightarrow> int option \<Rightarrow> ('w, CodeResult) call"
  cl_CallContract :: "'c \<Rightarrow> int option \<Rightarrow> ('w, bytes) call"
  cl_FilterLogs :: "FilterLogsQuery \<Rightarrow> ('w, NormalizedLog list) call"
  cl_PendingNonceAt :: "address \<Rightarrow> ('w, uint64) call"
  cl_SuggestGasPrice :: "('w, int option) call"
  cl_SuggestGasTipCap :: "('w, int option) call"
  cl_EstimateGas :: "'c \<Rightarrow> ('w, uint64) call"
  cl_SendRawTransaction :: "string \<Rightarrow> ('w, string) call"
  cl_Ping :: "('w, unit) call"
  cl_Close :: "'w \<Rightarrow> 'w"

section \<open>The plain client\<close>

text \<open>The methods of the library that the plain client calls.\<close>

record ('c, 'w) defiRPCClient =
  rpc_ChainID :: "('w, uint64) call"
  rpc_BlockNumber :: "('w, int option) call"
  rpc_BlockByNumber :: "BlockNumber \<Rightarrow> bool \<Rightarrow> ('w, Block option) call"
  rpc_BlockByHash :: "hash \<Rightarrow> bool \<Rightarrow> ('w, Block option) call"
  rpc_GetTransactionByHash :: "hash \<Rightarrow> ('w, OnChainTransaction option) call"
  rpc_GetTransactionReceipt :: "hash \<Rightarrow> ('w, defiReceipt option) call"
  rpc_GetBalance :: "address \<Rightarrow> BlockNumber \<Rightarrow> ('w, int option) call"
  rpc_GetCode :: "address \<Rightarrow> BlockNumber \<Rightarrow> ('w, bytes) call"
  rpc_GetTransactionCount :: "address \<Rightarrow> BlockNumber \<Rightarrow> ('w, uint64) call"
  rpc_GetLogs :: "FilterLogsQuery \<Rightarrow> ('w, Log list) call"
  rpc_GasPrice :: "('w, int option) call"
  rpc_MaxPriorityFeePerGas :: "('w, int option) call"
  rpc_Call :: "'c \<Rightarrow> BlockNumber \<Rightarrow> ('w, bytes) call"
  rpc_EstimateGas :: "'c \<Rightarrow> BlockNumber \<Rightarrow> ('w, uint64) call"
  rpc_SendRawTransaction :: "bytes \<Rightarrow> ('w, hash option) call"

text \<open>One request to the library whose answer the function of theory \<open>Evm_Client\<close> digests.\<close>

definition digested :: "('a outcome \<Rightarrow> 'b outcome) \<Rightarrow> ('w, 'a) call \<Rightarrow> ('w, 'b) call" where
  "digested f m w = (case m w of (r, w') \<Rightarrow> (f r, w'))"

definition client_GetChainInfo :: "('c, 'w) defiRPCClient \<Rightarrow> ('w, ChainInfo) call" where
  "client_GetChainInfo n w =
     (case rpc_ChainID n w of
        (Returns i, w1) \<Rightarrow> (case rpc_BlockNumber n w1 of (r, w2) \<Rightarrow> (GetChainInfo (Returns i) r, w2))
      | (r, w1) \<Rightarrow> (GetChainInfo r Panics, w1))"

definition client_SendRawTransaction ::
  "(string \<Rightarrow> string) \<Rightarrow> ('c, 'w) defiRPCClient \<Rightarrow> string \<Rightarrow> ('w, string) call" where
  "client_SendRawTransaction ul n signedTxHex w =
     (case SendRawTransaction ul (\<lambda>b. fst (rpc_SendRawTransaction n b w)) signedTxHex of
        (r, None) \<Rightarrow> (r, w)
      | (r, Some b) \<Rightarrow> (r, snd (rpc_SendRawTransaction n b w)))"

definition client_SuggestGasPrice :: "('c, 'w) defiRPCClient \<Rightarrow> ('w, int option) call" where
  "client_SuggestGasPrice n = rpc_GasPrice n"

definition client_SuggestGasTipCap :: "('c, 'w) defiRPCClient \<Rightarrow> ('w, int option) call" where
  "client_SuggestGasTipCap n = rpc_MaxPriorityFeePerGas n"

definition client_EstimateGas :: "('c, 'w) defiRPCClient \<Rightarrow> 'c \<Rightarrow> ('w, uint64) call" where
  "client_EstimateGas n msg = rpc_EstimateGas n msg LatestBlockTag"

definition client_Ping :: "('c, 'w) defiRPCClient \<Rightarrow> ('w, unit) call" where
  "client_Ping n = digested (\<lambda>r. withRpc r Fails (\<lambda>_. Returns ())) (rpc_ChainID n)"

definition plain_client ::
  "(string \<Rightarrow> string) \<Rightarrow> (bytes \<Rightarrow> hash) \<Rightarrow> ('c, 'w) defiRPCClient \<Rightarrow> ('c, 'w) node_client" where
  "plain_client ul kec n =
     \<lparr>cl_ChainID = digested ChainID (rpc_ChainID n),
      cl_LatestBlockNumber = digested LatestBlockNumber (rpc_BlockNumber n),
      cl_GetChainInfo = client_GetChainInfo n,
      cl_BlockByNumber = (\<lambda>b full. digested (BlockByNumber ul kec full) (rpc_BlockByNumber n (blockNumOrLatest b) full)),
      cl_BlockByHash = (\<lambda>h full. digested (BlockByHash ul kec full) (rpc_BlockByHash n h full)),
      cl_TransactionByHash = (\<lambda>h. digested (TransactionByHash kec) (rpc_GetTransactionByHash n h)),
      cl_TransactionReceipt = (\<lambda>h. digested (TransactionReceipt kec) (rpc_GetTransactionReceipt n h)),
      cl_BalanceAt = (\<lambda>a b. digested (BalanceAt ul kec a) (rpc_GetBalance n a (blockNumOrLatest b))),
      cl_CodeAt = (\<lambda>a b. digested (CodeAt ul kec a) (rpc_GetCode n a (blockNumOrLatest b))),
      cl_CallContract = (\<lambda>msg b. digested CallContract (rpc_Call n msg (blockNumOrLatest b))),
      cl_FilterLogs = (\<lambda>q. digested (FilterLogs ul kec) (rpc_GetLogs n q)),
      cl_PendingNonceAt = (\<lambda>a. rpc_GetTransactionCount n a PendingBlockTag),
      cl_SuggestGasPrice = client_SuggestGasPrice n,
      cl_SuggestGasTipCap = client_SuggestGasTipCap n,
      cl_EstimateGas = client_EstimateGas n,
      cl_SendRawTransaction = client_SendRawTransaction ul n,
      cl_Ping = client_Ping n,
      cl_Close = (\<lambda>w. w)\<rparr>"

section \<open>Tracing\<close>

text \<open>
  A span of the wrapper with the error it recorded, and the two instruments as counters per method:
  the number of durations recorded and the number of errors. A panic of the wrapped call ends the
  span (the deferred call) and skips the instruments.
\<close>

record rpc_span =
  sp_method :: string
  sp_target :: string
  sp_error :: "goerr option"
  sp_status :: string

record TracingMetrics =
  tm_RPCDuration :: "string \<Rightarrow> nat"
  tm_RPCErrors :: "string \<Rightarrow> nat"
  tm_spans :: "rpc_span list"

definition rpcCall :: "string \<Rightarrow> string \<Rightarrow> ('w, 'a) call \<Rightarrow> (TracingMetrics \<times> 'w, 'a) call" where
  "rpcCall rpcHost method fn s =
     (case s of (m, w) \<Rightarrow>
        case fn w of
          (Panics, w') \<Rightarrow>
            (Panics, (m\<lparr>tm_spans := tm_spans m @ [\<lparr>sp_method = method, sp_target = rpcHost, sp_error = None, sp_status = ''''\<rparr>]\<rparr>, w'))
        | (Returns a, w') \<Rightarrow>
            (Returns a, (m\<lparr>tm_RPCDuration := (tm_RPCDuration m)(method := tm_RPCDuration m method + 1),
                           tm_spans := tm_spans m @ [\<lparr>sp_method = method, sp_target = rpcHost, sp_error = None, sp_status = ''''\<rparr>]\<rparr>, w'))
        | (Fails err, w') \<Rightarrow>
            (Fails err, (m\<lparr>tm_RPCDuration := (tm_RPCDuration m)(method := tm_RPCDuration m method + 1),
                           tm_RPCErrors := (tm_RPCErrors m)(method := tm_RPCErrors m method + 1),
                           tm_spans := tm_spans m @ [\<lparr>sp_method = method, sp_target = rpcHost, sp_error = Some err,
                                                      sp_status = method @ '' failed''\<rparr>]\<rparr>, w')))"

definition tracingClient :: "('c, 'w) node_client \<Rightarrow> string \<Rightarrow> ('c, TracingMetrics \<times> 'w) node_client" where
  "tracingClient inner host =
     \<lparr>cl_ChainID = rpcCall host ''eth_chainId'' (cl_ChainID inner),
      cl_LatestBlockNumber = rpcCall host ''eth_blockNumber'' (cl_LatestBlockNumber inner),
      cl_GetChainInfo = rpcCall host ''eth_chainInfo'' (cl_GetChainInfo inner),
      cl_BlockByNumber = (\<lambda>b full. rpcCall host ''eth_getBlockByNumber'' (cl_BlockByNumber inner b full)),
      cl_BlockByHash = (\<lambda>h full. rpcCall host ''eth_getBlockByHash'' (cl_BlockByHash inner h full)),
      cl_TransactionByHash = (\<lambda>h. rpcCall host ''eth_getTransactionByHash'' (cl_TransactionByHash inner h)),
      cl_TransactionReceipt = (\<lambda>h. rpcCall host ''eth_getTransactionReceipt'' (cl_TransactionReceipt inner h)),
      cl_BalanceAt = (\<lambda>a b. rpcCall host ''eth_getBalance'' (cl_BalanceAt inner a b)),
      cl_CodeAt = (\<lambda>a b. rpcCall host ''eth_getCode'' (cl_CodeAt inner a b)),
      cl_CallContract = (\<lambda>msg b. rpcCall host ''eth_call'' (cl_CallContract inner msg b)),
      cl_FilterLogs = (\<lambda>q. rpcCall host ''eth_getLogs'' (cl_FilterLogs inner q)),
      cl_PendingNonceAt = (\<lambda>a. rpcCall host ''eth_getTransactionCount'' (cl_PendingNonceAt inner a)),
      cl_SuggestGasPrice = rpcCall host ''eth_gasPrice'' (cl_SuggestGasPrice inner),
      cl_SuggestGasTipCap = rpcCall host ''eth_maxPriorityFeePerGas'' (cl_SuggestGasTipCap inner),
      cl_EstimateGas = (\<lambda>msg. rpcCall host ''eth_estimateGas'' (cl_EstimateGas inner msg)),
      cl_SendRawTransaction = (\<lambda>h. rpcCall host ''eth_sendRawTransaction'' (cl_SendRawTransaction inner h)),
      cl_Ping = rpcCall host ''ping'' (cl_Ping inner),
      cl_Close = (\<lambda>(m, w). (m, cl_Close inner w))\<rparr>"

section \<open>Resilience\<close>

text \<open>
  What the environment decides about one call: the verdict of the rate limiter, the clock before and
  after the request, and the cancellation of the caller's context, seen at attempt \<open>k\<close> before the retry
  is announced (\<open>ce_cancelled\<close>) or while waiting for it (\<open>ce_interrupted\<close>).
\<close>

record call_env =
  ce_wait :: "goerr option"
  ce_t1 :: time
  ce_t2 :: time
  ce_cancelled :: "nat \<Rightarrow> goerr option"
  ce_interrupted :: "nat \<Rightarrow> goerr option"

text \<open>
  The state of the wrapper: the breaker, the calls made so far (which number the environments), the
  two counters, the gauge of the breaker's state, once recorded, and the wrapped client's state.
\<close>

record 'w resilient =
  rs_breaker :: breaker
  rs_calls :: nat
  rs_RPCRateLimited :: nat
  rs_RPCRetryCount :: nat
  rs_CircuitBreakerState :: "int option"
  rs_inner :: 'w

fun stateVal :: "cbState \<Rightarrow> int" where
  "stateVal StateClosed = 0"
| "stateVal StateHalfOpen = 1"
| "stateVal StateOpen = 2"

text \<open>The library numbers the states by how much they hold back; the gauge shows that number.\<close>

lemma stateVal_inj: "stateVal s = stateVal t \<Longrightarrow> s = t"
  by (cases s; cases t) simp_all

instantiation cbState :: linorder
begin

definition less_eq_cbState :: "cbState \<Rightarrow> cbState \<Rightarrow> bool" where
  "less_eq_cbState s t \<longleftrightarrow> stateVal s \<le> stateVal t"

definition less_cbState :: "cbState \<Rightarrow> cbState \<Rightarrow> bool" where
  "less_cbState s t \<longleftrightarrow> stateVal s < stateVal t"

instance
  by standard (auto simp: less_eq_cbState_def less_cbState_def dest: stateVal_inj)

end

lemma cbState_order [simp]: "StateClosed \<le> s" "s \<le> StateOpen" "StateClosed < s \<longleftrightarrow> s \<noteq> StateClosed"
  by (cases s; simp add: less_eq_cbState_def less_cbState_def)+

definition OnStateChange :: "breaker \<Rightarrow> breaker \<Rightarrow> int option \<Rightarrow> int option" where
  "OnStateChange old new g = (if cb_state old = cb_state new then g else Some (stateVal (cb_state new)))"

text \<open>
  The retry loop on a stateful call: the result, the index after the last attempt, the number of
  announced retries and the state after the last attempt. A panic is not caught by the loop.
\<close>

fun retryW ::
  "nat \<Rightarrow> nat \<Rightarrow> ('w, 'a) call \<Rightarrow> call_env \<Rightarrow> 'w \<Rightarrow> 'a outcome \<times> nat \<times> nat \<times> 'w" where
  "retryW n k fn e w =
     (case fn w of
        (Panics, w') \<Rightarrow> (Panics, Suc k, 0, w')
      | (Returns res, w') \<Rightarrow> (Returns res, Suc k, 0, w')
      | (Fails callErr, w') \<Rightarrow>
          let transient = isTransientRPCError callErr in
          if n \<le> 1 then (Fails (if transient then callErr else Permanent callErr), Suc k, 0, w')
          else if \<not> transient then (Fails callErr, Suc k, 0, w')
          else case ce_cancelled e k of
                 Some cerr \<Rightarrow> (Fails cerr, Suc k, 0, w')
               | None \<Rightarrow>
                   (case ce_interrupted e k of
                      Some cerr \<Rightarrow> (Fails cerr, Suc k, 1, w')
                    | None \<Rightarrow> (case retryW (n - 1) (Suc k) fn e w' of (r, m, q, w2) \<Rightarrow> (r, m, Suc q, w2))))"

declare retryW.simps [simp del]

text \<open>A single attempt, as \<^verbatim>\<open>SendRawTransaction\<close> makes it.\<close>

definition onceW :: "('w, 'a) call \<Rightarrow> 'w \<Rightarrow> 'a outcome \<times> nat \<times> nat \<times> 'w" where
  "onceW fn w = (case fn w of (r, w') \<Rightarrow> (r, 1, 0, w'))"

text \<open>
  Limiter, breaker and body. The breaker catches a panic, counts it as an error with no cause, and
  lets it go on.
\<close>

definition panicErr :: goerr where
  "panicErr = Errorf ''panic'' []"

definition verdict :: "'a outcome \<Rightarrow> goerr option" where
  "verdict r = (case r of Panics \<Rightarrow> Some panicErr | Fails e \<Rightarrow> Some e | Returns _ \<Rightarrow> None)"

definition openOrO :: "'a outcome \<Rightarrow> 'a outcome" where
  "openOrO r = (case r of Fails e \<Rightarrow> Fails (openOr e) | _ \<Rightarrow> r)"

definition protected ::
  "ResilientConfig \<Rightarrow> call_env \<Rightarrow> ('w \<Rightarrow> 'a outcome \<times> nat \<times> nat \<times> 'w) \<Rightarrow> ('w resilient, 'a) call" where
  "protected cfg e body s0 =
     (let s = s0\<lparr>rs_calls := Suc (rs_calls s0)\<rparr> in
      case ce_wait e of
        Some err \<Rightarrow> (Fails (rateLimitedErr err), s\<lparr>rs_RPCRateLimited := Suc (rs_RPCRateLimited s)\<rparr>)
      | None \<Rightarrow>
          (case beforeRequest cfg (ce_t1 e) (rs_breaker s) of
             ((Some err, _), cb1) \<Rightarrow>
               (Fails (openOr err),
                s\<lparr>rs_breaker := cb1,
                  rs_CircuitBreakerState := OnStateChange (rs_breaker s) cb1 (rs_CircuitBreakerState s)\<rparr>)
           | ((None, gen), cb1) \<Rightarrow>
               (case body (rs_inner s) of (r, m, q, w') \<Rightarrow>
                  let cb2 = afterRequest cfg (ce_t2 e) gen (verdict r) cb1
                  in (openOrO r,
                      s\<lparr>rs_breaker := cb2, rs_RPCRetryCount := rs_RPCRetryCount s + q,
                        rs_CircuitBreakerState :=
                          OnStateChange cb1 cb2 (OnStateChange (rs_breaker s) cb1 (rs_CircuitBreakerState s)),
                        rs_inner := w'\<rparr>))))"

definition resilientCallW ::
  "ResilientConfig \<Rightarrow> (nat \<Rightarrow> call_env) \<Rightarrow> ('w, 'a) call \<Rightarrow> ('w resilient, 'a) call" where
  "resilientCallW cfg env fn s =
     protected cfg (env (rs_calls s)) (retryW (maxTries cfg) 0 fn (env (rs_calls s))) s"

definition sendOnceW ::
  "ResilientConfig \<Rightarrow> (nat \<Rightarrow> call_env) \<Rightarrow> ('w, 'a) call \<Rightarrow> ('w resilient, 'a) call" where
  "sendOnceW cfg env fn s = protected cfg (env (rs_calls s)) (onceW fn) s"

text \<open>\<^verbatim>\<open>Ping\<close> and \<^verbatim>\<open>Close\<close> go to the wrapped client directly.\<close>

definition directW :: "('w, 'a) call \<Rightarrow> ('w resilient, 'a) call" where
  "directW fn s = (case fn (rs_inner s) of (r, w') \<Rightarrow> (r, s\<lparr>rs_inner := w'\<rparr>))"

definition resilientClient ::
  "ResilientConfig \<Rightarrow> (nat \<Rightarrow> call_env) \<Rightarrow> ('c, 'w) node_client \<Rightarrow> ('c, 'w resilient) node_client" where
  "resilientClient cfg env inner =
     \<lparr>cl_ChainID = resilientCallW cfg env (cl_ChainID inner),
      cl_LatestBlockNumber = resilientCallW cfg env (cl_LatestBlockNumber inner),
      cl_GetChainInfo = resilientCallW cfg env (cl_GetChainInfo inner),
      cl_BlockByNumber = (\<lambda>b full. resilientCallW cfg env (cl_BlockByNumber inner b full)),
      cl_BlockByHash = (\<lambda>h full. resilientCallW cfg env (cl_BlockByHash inner h full)),
      cl_TransactionByHash = (\<lambda>h. resilientCallW cfg env (cl_TransactionByHash inner h)),
      cl_TransactionReceipt = (\<lambda>h. resilientCallW cfg env (cl_TransactionReceipt inner h)),
      cl_BalanceAt = (\<lambda>a b. resilientCallW cfg env (cl_BalanceAt inner a b)),
      cl_CodeAt = (\<lambda>a b. resilientCallW cfg env (cl_CodeAt inner a b)),
      cl_CallContract = (\<lambda>msg b. resilientCallW cfg env (cl_CallContract inner msg b)),
      cl_FilterLogs = (\<lambda>q. resilientCallW cfg env (cl_FilterLogs inner q)),
      cl_PendingNonceAt = (\<lambda>a. resilientCallW cfg env (cl_PendingNonceAt inner a)),
      cl_SuggestGasPrice = resilientCallW cfg env (cl_SuggestGasPrice inner),
      cl_SuggestGasTipCap = resilientCallW cfg env (cl_SuggestGasTipCap inner),
      cl_EstimateGas = (\<lambda>msg. resilientCallW cfg env (cl_EstimateGas inner msg)),
      cl_SendRawTransaction = (\<lambda>h. sendOnceW cfg env (cl_SendRawTransaction inner h)),
      cl_Ping = directW (cl_Ping inner),
      cl_Close = (\<lambda>s. s\<lparr>rs_inner := cl_Close inner (rs_inner s)\<rparr>)\<rparr>"

definition NewResilientState :: "ResilientConfig \<Rightarrow> time \<Rightarrow> 'w \<Rightarrow> 'w resilient" where
  "NewResilientState cfg now w =
     \<lparr>rs_breaker = newBreaker cfg now, rs_calls = 0, rs_RPCRateLimited = 0, rs_RPCRetryCount = 0,
      rs_CircuitBreakerState = None, rs_inner = w\<rparr>"

section \<open>The process's client\<close>

definition resilientConfigOf :: "Config \<Rightarrow> ResilientConfig" where
  "resilientConfigOf c =
     \<lparr>MaxRetries = c_RPCMaxRetries c, BreakerThreshold = word_of_nat (c_CircuitBreakerThreshold c),
      BreakerTimeout = c_CircuitBreakerTimeout c\<rparr>"

definition extractHost :: "(string \<Rightarrow> string option) \<Rightarrow> string \<Rightarrow> string" where
  "extractHost urlHost rawURL = (case urlHost rawURL of None \<Rightarrow> ''unknown'' | Some h \<Rightarrow> h)"

definition processClient ::
  "Config \<Rightarrow> (string \<Rightarrow> string option) \<Rightarrow> (nat \<Rightarrow> call_env) \<Rightarrow> ('c, 'w) node_client
     \<Rightarrow> ('c, (TracingMetrics \<times> 'w) resilient) node_client" where
  "processClient c urlHost env raw =
     resilientClient (resilientConfigOf c) env (tracingClient raw (extractHost urlHost (c_EVMRPCURL c)))"

section \<open>What a wrapper promises\<close>

text \<open>The state after \<open>n\<close> attempts.\<close>

definition runs :: "('w, 'a) call \<Rightarrow> nat \<Rightarrow> 'w \<Rightarrow> 'w" where
  "runs f n = (snd \<circ> f) ^^ n"

lemma runs_simps [simp]:
  "runs f 0 w = w" "runs f (Suc n) w = runs f n (snd (f w))" "runs f 1 w = snd (f w)"
  by (simp_all add: runs_def funpow_swap1)

lemma runs_add: "runs f (m + n) w = runs f m (runs f n w)"
  by (simp add: runs_def funpow_add)

text \<open>
  A call \<open>g\<close> on states \<open>'v\<close>, which contain a state of another call \<open>f\<close> (\<open>base\<close>), relays \<open>f\<close> if it makes
  at most \<open>limit\<close> attempts at \<open>f\<close> and returns, or panics, only as the last of them did.
\<close>

definition relays :: "('v \<Rightarrow> 'w) \<Rightarrow> nat \<Rightarrow> ('w, 'a) call \<Rightarrow> ('v, 'a) call \<Rightarrow> bool" where
  "relays base limit f g \<longleftrightarrow> (\<forall>v r v'. g v = (r, v') \<longrightarrow> (\<exists>n \<le> limit. base v' = runs f n (base v)
     \<and> (\<forall>x. r = Returns x \<longrightarrow> 0 < n \<and> fst (f (runs f (n - 1) (base v))) = Returns x)
     \<and> (r = Panics \<longrightarrow> 0 < n \<and> fst (f (runs f (n - 1) (base v))) = Panics)))"

lemma relaysD:
  assumes "relays base limit f g" "g v = (r, v')"
  obtains n where "n \<le> limit" "base v' = runs f n (base v)"
    "\<And>x. r = Returns x \<or> r = Panics \<Longrightarrow> 0 < n \<and> fst (f (runs f (n - 1) (base v))) = r"
proof -
  from assms have "\<exists>n \<le> limit. base v' = runs f n (base v)
    \<and> (\<forall>x. r = Returns x \<longrightarrow> 0 < n \<and> fst (f (runs f (n - 1) (base v))) = Returns x)
    \<and> (r = Panics \<longrightarrow> 0 < n \<and> fst (f (runs f (n - 1) (base v))) = Panics)"
    unfolding relays_def by (drule_tac spec, drule_tac spec, drule_tac spec, drule_tac mp)
  then show thesis using that by auto
qed

lemma relaysI:
  assumes "\<And>v r v'. g v = (r, v') \<Longrightarrow> \<exists>n \<le> limit. base v' = runs f n (base v)
    \<and> (\<forall>x. r = Returns x \<or> r = Panics \<longrightarrow> 0 < n \<and> fst (f (runs f (n - 1) (base v))) = r)"
  shows "relays base limit f g"
  unfolding relays_def using assms by fast

text \<open>A wrapper turns every call into one that relays it.\<close>

locale rpc_wrapper =
  fixes wrap :: "('w, 'a) call \<Rightarrow> ('v, 'a) call" and base :: "'v \<Rightarrow> 'w" and limit :: nat
  assumes relays: "relays base limit f (wrap f)"
begin

lemma keeps:
  assumes "wrap f v = (r, v')" and "\<And>w. I w \<Longrightarrow> I (snd (f w))" and "I (base v)"
  shows "I (base v')"
proof -
  have "I (runs f n w)" if "I w" for n w
    using that assms(2) by (induction n arbitrary: w) simp_all
  with assms(3) show ?thesis by (rule_tac relaysD [OF relays assms(1)]) simp
qed

lemma reads:
  assumes "wrap f v = (r, v')" and "\<And>w. snd (f w) = w"
  shows "base v' = base v \<and> (\<forall>x. r = Returns x \<or> r = Panics \<longrightarrow> f (base v) = (r, base v))"
proof -
  have "runs f n w = w" for n w using assms(2) by (induction n) simp_all
  with assms(2) [of "base v"] show ?thesis
    by (rule_tac relaysD [OF relays assms(1)]) (auto simp: prod_eq_iff)
qed

end

text \<open>Two wrappers around each other are a wrapper.\<close>

locale wrapper_stack =
  outer: rpc_wrapper wrap1 base1 n1 + inner: rpc_wrapper wrap2 base2 n2
  for wrap1 :: "('v, 'a) call \<Rightarrow> ('u, 'a) call" and base1 :: "'u \<Rightarrow> 'v" and n1 :: nat
    and wrap2 :: "('w, 'a) call \<Rightarrow> ('v, 'a) call" and base2 :: "'v \<Rightarrow> 'w" and n2 :: nat
begin

lemma inner_runs:
  "\<exists>m \<le> n * n2. base2 (runs (wrap2 f) n v) = runs f m (base2 v)"
proof (induction n)
  case (Suc n)
  then obtain m where m: "m \<le> n * n2" "base2 (runs (wrap2 f) n v) = runs f m (base2 v)" by blast
  let ?v = "runs (wrap2 f) n v"
  obtain k where k: "k \<le> n2" "base2 (snd (wrap2 f ?v)) = runs f k (base2 ?v)"
    by (rule relaysD [OF inner.relays prod.collapse [symmetric]])
  have "runs (wrap2 f) (Suc n) v = snd (wrap2 f ?v)"
    using runs_add [of "wrap2 f" 1 n v] by (simp add: add.commute)
  then have "base2 (runs (wrap2 f) (Suc n) v) = runs f (k + m) (base2 v)"
    using k(2) m(2) by (simp add: runs_add)
  moreover have "k + m \<le> Suc n * n2" using k(1) m(1) by simp
  ultimately show ?case by blast
qed (auto intro: exI [of _ 0])

lemma last_attempt:
  assumes "0 < n" "n \<le> n1" "fst (wrap2 f (runs (wrap2 f) (n - 1) v)) = r" "r = Returns x \<or> r = Panics"
  shows "\<exists>m. 0 < m \<and> m \<le> n1 * n2 \<and> base2 (runs (wrap2 f) n v) = runs f m (base2 v)
    \<and> fst (f (runs f (m - 1) (base2 v))) = r"
proof -
  let ?v = "runs (wrap2 f) (n - 1) v"
  obtain m where m: "m \<le> (n - 1) * n2" "base2 ?v = runs f m (base2 v)" using inner_runs by blast
  obtain v' where v': "wrap2 f ?v = (r, v')" using assms(3) by (metis prod.collapse)
  obtain k where k: "k \<le> n2" "base2 v' = runs f k (base2 ?v)" "0 < k" "fst (f (runs f (k - 1) (base2 ?v))) = r"
    using relaysD [OF inner.relays v'] assms(4) by metis
  have "runs (wrap2 f) n v = v'"
    using runs_add [of "wrap2 f" 1 "n - 1" v] assms(1) v' by simp
  then have "base2 (runs (wrap2 f) n v) = runs f (k + m) (base2 v)" using k(2) m(2) by (simp add: runs_add)
  moreover have "runs f (k + m - 1) (base2 v) = runs f (k - 1) (base2 ?v)"
    using k(3) m(2) runs_add [of f "k - 1" m "base2 v"] by simp
  moreover have "k + m \<le> n * n2" using k(1) m(1) assms(1) by (cases n) simp_all
  then have "k + m \<le> n1 * n2" using mult_le_mono1 [OF assms(2)] by (rule le_trans)
  ultimately show ?thesis using k(3,4) by (intro exI [of _ "k + m"]) simp
qed

end

sublocale wrapper_stack \<subseteq> both: rpc_wrapper "\<lambda>f. wrap1 (wrap2 f)" "\<lambda>u. base2 (base1 u)" "n1 * n2"
proof (unfold_locales, rule relaysI)
  fix f v r v' assume w: "wrap1 (wrap2 f) v = (r, v')"
  obtain n where n: "n \<le> n1" "base1 v' = runs (wrap2 f) n (base1 v)"
      "\<And>x. r = Returns x \<or> r = Panics \<Longrightarrow> 0 < n \<and> fst (wrap2 f (runs (wrap2 f) (n - 1) (base1 v))) = r"
    by (rule relaysD [OF outer.relays w]) (rule that)
  show "\<exists>m \<le> n1 * n2. base2 (base1 v') = runs f m (base2 (base1 v))
    \<and> (\<forall>x. r = Returns x \<or> r = Panics \<longrightarrow> 0 < m \<and> fst (f (runs f (m - 1) (base2 (base1 v)))) = r)"
  proof (cases "\<exists>x. r = Returns x \<or> r = Panics")
    case False
    have "n * n2 \<le> n1 * n2" using n(1) by simp
    with False inner_runs [of n f "base1 v"] n(2) show ?thesis by (metis le_trans)
  next
    case True
    then obtain x where x: "r = Returns x \<or> r = Panics" by blast
    from n(3) [OF this] last_attempt [OF _ n(1) _ x, of f "base1 v"] n(2) show ?thesis by auto
  qed
qed

section \<open>The wrappers of the process\<close>

lemma rpcCall_simp:
  "fst (rpcCall host meth fn v) = fst (fn (snd v))" "snd (snd (rpcCall host meth fn v)) = snd (fn (snd v))"
  by (auto simp: rpcCall_def split: prod.splits outcome.splits)

lemma rpcCall_relays: "relays snd 1 f (rpcCall host meth f)"
proof (rule relaysI)
  fix v r v' assume "rpcCall host meth f v = (r, v')"
  then show "\<exists>n \<le> 1. snd v' = runs f n (snd v)
    \<and> (\<forall>x. r = Returns x \<or> r = Panics \<longrightarrow> 0 < n \<and> fst (f (runs f (n - 1) (snd v))) = r)"
    using rpcCall_simp [of host meth f v] by (intro exI [of _ 1]) auto
qed

interpretation tracing: rpc_wrapper "rpcCall host meth" snd 1 for host meth
  by unfold_locales (rule rpcCall_relays)

lemma retryW_spec:
  "retryW n k fn e w = (r, m, q, w') \<Longrightarrow>
     k < m \<and> m \<le> k + max n 1 \<and> w' = runs fn (m - k) w \<and> m - k \<le> Suc q \<and> q \<le> m - k
     \<and> (\<forall>x. r = Returns x \<or> r = Panics \<longrightarrow> fst (fn (runs fn (m - k - 1) w)) = r)"
proof (induction n k fn e w arbitrary: r m q w' rule: retryW.induct)
  case (1 n k fn e w)
  obtain o1 w1 where f: "fn w = (o1, w1)" by fastforce
  show ?case
  proof (cases "\<exists>c. o1 = Fails c \<and> \<not> n \<le> 1 \<and> isTransientRPCError c \<and> ce_cancelled e k = None \<and> ce_interrupted e k = None")
    case False
    with "1.prems" f show ?thesis
      by (subst (asm) retryW.simps) (auto simp: Let_def split: outcome.splits if_splits option.splits)
  next
    case True
    then obtain c where c: "o1 = Fails c" "\<not> n \<le> 1" "isTransientRPCError c" "ce_cancelled e k = None" "ce_interrupted e k = None"
      by blast
    obtain r2 m2 q2 w2 where rec: "retryW (n - 1) (Suc k) fn e w1 = (r2, m2, q2, w2)" by (cases "retryW (n - 1) (Suc k) fn e w1")
    with "1.prems" f c have eq: "r = r2" "m = m2" "q = Suc q2" "w' = w2"
      by (subst (asm) retryW.simps, simp add: Let_def)+
    note IH = "1.IH" [OF f [symmetric] c(1) refl c(2) _ c(4,5) rec]
    have d: "m - k = Suc (m2 - Suc k)" "m - k - 1 = Suc (m2 - Suc k - 1) \<or> m2 - Suc k = 0" using IH c(3) eq by auto
    show ?thesis using IH c(2,3) eq d f by auto
  qed
qed

text \<open>What a protected call does: nothing at the wrapped client if it is shed, else its body once.\<close>

lemma protected_cases:
  assumes "protected cfg e body s = (r, s')"
  obtains (shed) err where "r = Fails err" "rs_inner s' = rs_inner s" "rs_RPCRetryCount s' = rs_RPCRetryCount s"
      "IsS err ErrRateLimited \<or> IsS err ErrCircuitOpen"
  | (ran) r0 m q where "body (rs_inner s) = (r0, m, q, rs_inner s')" "r = openOrO r0"
      "rs_RPCRetryCount s' = rs_RPCRetryCount s + q" "ce_wait e = None"
      "fst (fst (beforeRequest cfg (ce_t1 e) (rs_breaker s))) = None"
proof (cases "ce_wait e")
  case (Some err)
  then show thesis using assms by (intro shed [of "rateLimitedErr err"]) (auto simp: protected_def rateLimitedErr_def go_simps Let_def)
next
  case wait: None
  obtain b gen cb1 where bef: "beforeRequest cfg (ce_t1 e) (rs_breaker s) = ((b, gen), cb1)" by (metis prod.exhaust)
  show thesis
  proof (cases b)
    case (Some err)
    have "IsS (openOr err) ErrCircuitOpen"
      using bef Some by (auto simp: beforeRequest_def openOr_def ErrOpenState_def ErrTooManyRequests_def
          go_simps Let_def split: if_splits)
    with assms wait bef Some show thesis by (intro shed [of "openOr err"]) (auto simp: protected_def Let_def)
  next
    case None
    obtain r0 m q w' where "body (rs_inner s) = (r0, m, q, w')" by (metis prod.exhaust)
    with assms wait bef None show thesis by (intro ran) (auto simp: protected_def Let_def)
  qed
qed

lemma openOrO_iff [simp]:
  "openOrO (Returns x) = Returns x" "openOrO Panics = Panics"
  "openOrO r = Returns x \<longleftrightarrow> r = Returns x" "openOrO r = Panics \<longleftrightarrow> r = Panics"
  by (simp_all add: openOrO_def split: outcome.splits)

lemma resilientCallW_relays: "relays rs_inner (maxTries cfg) f (resilientCallW cfg env f)"
proof (rule relaysI)
  fix s r s' assume "resilientCallW cfg env f s = (r, s')"
  then show "\<exists>n \<le> maxTries cfg. rs_inner s' = runs f n (rs_inner s)
    \<and> (\<forall>x. r = Returns x \<or> r = Panics \<longrightarrow> 0 < n \<and> fst (f (runs f (n - 1) (rs_inner s))) = r)"
    unfolding resilientCallW_def
  proof (cases rule: protected_cases)
    case shed
    then show ?thesis by (intro exI [of _ 0]) simp
  next
    case (ran r0 m q)
    have "max (maxTries cfg) 1 = maxTries cfg" by (simp add: maxTries_def)
    with retryW_spec [OF ran(1)] ran(2) show ?thesis by (intro exI [of _ m]) auto
  qed
qed

lemma sendOnceW_relays: "relays rs_inner 1 f (sendOnceW cfg env f)"
proof (rule relaysI)
  fix s r s' assume "sendOnceW cfg env f s = (r, s')"
  then show "\<exists>n \<le> 1. rs_inner s' = runs f n (rs_inner s)
    \<and> (\<forall>x. r = Returns x \<or> r = Panics \<longrightarrow> 0 < n \<and> fst (f (runs f (n - 1) (rs_inner s))) = r)"
    unfolding sendOnceW_def
  proof (cases rule: protected_cases)
    case shed
    then show ?thesis by (intro exI [of _ 0]) simp
  next
    case (ran r0 m q)
    then show ?thesis by (intro exI [of _ 1]) (auto simp: onceW_def split: prod.splits)
  qed
qed

lemma directW_relays: "relays rs_inner 1 f (directW f)"
  by (rule relaysI) (auto simp: directW_def split: prod.splits intro!: exI [of _ 1])

interpretation retrying: rpc_wrapper "resilientCallW cfg env" rs_inner "maxTries cfg" for cfg env
  by unfold_locales (rule resilientCallW_relays)

interpretation sending: rpc_wrapper "sendOnceW cfg env" rs_inner 1 for cfg env
  by unfold_locales (rule sendOnceW_relays)

interpretation probing: rpc_wrapper directW rs_inner 1
  by unfold_locales (rule directW_relays)

interpretation traced_retrying: wrapper_stack "resilientCallW cfg env" rs_inner "maxTries cfg" "rpcCall host meth" snd 1
  for cfg env host meth
  by unfold_locales

interpretation traced_sending: wrapper_stack "sendOnceW cfg env" rs_inner 1 "rpcCall host meth" snd 1
  for cfg env host meth
  by unfold_locales

interpretation traced_probing: wrapper_stack directW rs_inner 1 "rpcCall host meth" snd 1
  for host meth
  by unfold_locales

section \<open>Properties\<close>

definition node_state :: "(TracingMetrics \<times> 'w) resilient \<Rightarrow> 'w" where
  "node_state s = snd (rs_inner s)"

lemmas traced_relays =
  traced_retrying.both.relays [folded node_state_def, unfolded mult_1_right]
  traced_sending.both.relays [folded node_state_def, unfolded mult_1_right]
  traced_probing.both.relays [folded node_state_def, unfolded mult_1_right]

lemma directW_ping:
  "rs_breaker (snd (directW (rpcCall host meth f) s)) = rs_breaker s"
  "fst (directW (rpcCall host meth f) s) = fst (f (node_state s))"
  by (auto simp: directW_def node_state_def rpcCall_def split: prod.splits outcome.splits)

text \<open>
  Claim C8 (the client of the process is the plain client, up to bounded repetition). Every method of
  the assembled client relays the method of the plain client: whatever the limiter, the breaker and
  the cancellations do, it makes at most \<open>RPCMaxRetries + 1\<close> attempts at it, at most one for a
  broadcast, and a value or a panic that comes out is that of the last attempt, made on the node as
  the attempts before left it. A probe goes to the node whatever state the breaker is in, and leaves
  it as it is.
\<close>

theorem process_client_relays:
  fixes c :: Config and raw :: "('c, 'w) node_client"
  shows "let cl = processClient c urlHost env raw; tries = maxTries (resilientConfigOf c) in
    int tries = max 0 (c_RPCMaxRetries c) + 1
    \<and> relays node_state tries (cl_ChainID raw) (cl_ChainID cl)
    \<and> relays node_state tries (cl_LatestBlockNumber raw) (cl_LatestBlockNumber cl)
    \<and> relays node_state tries (cl_GetChainInfo raw) (cl_GetChainInfo cl)
    \<and> relays node_state tries (cl_BlockByNumber raw b full) (cl_BlockByNumber cl b full)
    \<and> relays node_state tries (cl_BlockByHash raw h full) (cl_BlockByHash cl h full)
    \<and> relays node_state tries (cl_TransactionByHash raw h) (cl_TransactionByHash cl h)
    \<and> relays node_state tries (cl_TransactionReceipt raw h) (cl_TransactionReceipt cl h)
    \<and> relays node_state tries (cl_BalanceAt raw a b) (cl_BalanceAt cl a b)
    \<and> relays node_state tries (cl_CodeAt raw a b) (cl_CodeAt cl a b)
    \<and> relays node_state tries (cl_CallContract raw msg b) (cl_CallContract cl msg b)
    \<and> relays node_state tries (cl_FilterLogs raw q) (cl_FilterLogs cl q)
    \<and> relays node_state tries (cl_PendingNonceAt raw a) (cl_PendingNonceAt cl a)
    \<and> relays node_state tries (cl_SuggestGasPrice raw) (cl_SuggestGasPrice cl)
    \<and> relays node_state tries (cl_SuggestGasTipCap raw) (cl_SuggestGasTipCap cl)
    \<and> relays node_state tries (cl_EstimateGas raw msg) (cl_EstimateGas cl msg)
    \<and> relays node_state 1 (cl_SendRawTransaction raw tx) (cl_SendRawTransaction cl tx)
    \<and> relays node_state 1 (cl_Ping raw) (cl_Ping cl)
    \<and> fst (cl_Ping cl s) = fst (cl_Ping raw (node_state s))
    \<and> rs_breaker (snd (cl_Ping cl s)) = rs_breaker s"
  unfolding Let_def processClient_def resilientClient_def tracingClient_def node_client.simps
  by (intro conjI traced_relays directW_ping) (simp add: int_maxTries resilientConfigOf_def)

subsection \<open>What is recorded of a call\<close>

definition span_of :: "string \<Rightarrow> string \<Rightarrow> 'a outcome \<Rightarrow> rpc_span" where
  "span_of host meth r =
     \<lparr>sp_method = meth, sp_target = host, sp_error = (case r of Fails e \<Rightarrow> Some e | _ \<Rightarrow> None),
      sp_status = (case r of Fails e \<Rightarrow> meth @ '' failed'' | _ \<Rightarrow> '''')\<rparr>"

lemma rpcCall_records:
  "tm_spans (fst (snd (rpcCall host meth f v))) = tm_spans (fst v) @ [span_of host meth (fst (f (snd v)))]"
  "tm_RPCDuration (fst (snd (rpcCall host meth f v))) =
     (tm_RPCDuration (fst v))(meth := tm_RPCDuration (fst v) meth + (if fst (f (snd v)) = Panics then 0 else 1))"
  "tm_RPCErrors (fst (snd (rpcCall host meth f v))) =
     (tm_RPCErrors (fst v))(meth := tm_RPCErrors (fst v) meth + (case fst (f (snd v)) of Fails _ \<Rightarrow> 1 | _ \<Rightarrow> 0))"
  by (auto simp: rpcCall_def span_of_def fun_upd_idem split: prod.splits outcome.splits)

text \<open>The outcomes of \<open>n\<close> attempts in a row.\<close>

fun outcomes :: "('w, 'a) call \<Rightarrow> nat \<Rightarrow> 'w \<Rightarrow> 'a outcome list" where
  "outcomes f 0 w = []"
| "outcomes f (Suc n) w = fst (f w) # outcomes f n (snd (f w))"

definition failed :: "'a outcome \<Rightarrow> bool" where
  "failed r \<longleftrightarrow> (case r of Fails _ \<Rightarrow> True | _ \<Rightarrow> False)"

lemma runs_records:
  "tm_spans (fst (runs (rpcCall host meth f) n v)) = tm_spans (fst v) @ map (span_of host meth) (outcomes f n (snd v))
   \<and> tm_RPCErrors (fst (runs (rpcCall host meth f) n v)) =
       (tm_RPCErrors (fst v))(meth := tm_RPCErrors (fst v) meth + length (filter failed (outcomes f n (snd v))))"
  by (induction n arbitrary: v) (auto simp: rpcCall_records rpcCall_simp failed_def fun_upd_idem split: outcome.splits)

text \<open>The stateful loop refines the loop of theory \<open>Evm_Resilient\<close>, which sees only the outcome of each attempt.\<close>

definition toSum :: "'a outcome \<Rightarrow> goerr + 'a" where
  "toSum r = (case r of Returns x \<Rightarrow> Inr x | Fails e \<Rightarrow> Inl e | Panics \<Rightarrow> Inl panicErr)"

definition attempt :: "('w, 'a) call \<Rightarrow> 'w \<Rightarrow> nat \<Rightarrow> goerr + 'a" where
  "attempt f w j = toSum (fst (f (runs f j w)))"

definition giveUp :: "call_env \<Rightarrow> nat \<Rightarrow> goerr option" where
  "giveUp e j = (case ce_cancelled e j of Some c \<Rightarrow> Some c | None \<Rightarrow> ce_interrupted e j)"

lemma retry_cong:
  "(\<And>j. k \<le> j \<Longrightarrow> fn j = fn' j) \<Longrightarrow> retry n k fn cause = retry n k fn' cause"
proof (induction n k fn cause rule: retry.induct)
  case (1 n k fn cause)
  have k: "fn k = fn' k" by (rule "1.prems") simp
  show ?case
  proof (cases "\<exists>e. fn k = Inl e \<and> isTransientRPCError e \<and> \<not> n \<le> 1 \<and> cause k = None")
    case False
    with k show ?thesis
      by (subst (1 2) retry.simps) (auto simp: Let_def split: sum.splits option.splits)
  next
    case True
    then obtain e where e: "fn k = Inl e" "isTransientRPCError e" "\<not> n \<le> 1" "cause k = None" by blast
    then have "retry (n - 1) (Suc k) fn cause = retry (n - 1) (Suc k) fn' cause"
      using "1.IH" [OF e(1) refl _ _ e(4)] "1.prems" by simp
    with e k show ?thesis by (subst (1 2) retry.simps) (simp add: Let_def)
  qed
qed

lemma retryW_refines:
  "retryW n k fn e w = (r, m, q, w') \<Longrightarrow> r \<noteq> Panics \<Longrightarrow>
     retry n k (\<lambda>j. attempt fn w (j - k)) (giveUp e) = (toSum r, m)"
proof (induction n k fn e w arbitrary: r m q w' rule: retryW.induct)
  case (1 n k fn e w)
  obtain o1 w1 where f: "fn w = (o1, w1)" by fastforce
  show ?case
  proof (cases "\<exists>c. o1 = Fails c \<and> \<not> n \<le> 1 \<and> isTransientRPCError c \<and> ce_cancelled e k = None \<and> ce_interrupted e k = None")
    case False
    with "1.prems" f show ?thesis
      by (subst (asm) retryW.simps, subst retry.simps)
        (auto simp: Let_def attempt_def toSum_def giveUp_def split: outcome.splits if_splits option.splits)
  next
    case True
    then obtain c where c: "o1 = Fails c" "\<not> n \<le> 1" "isTransientRPCError c" "ce_cancelled e k = None" "ce_interrupted e k = None"
      by blast
    obtain r2 m2 q2 w2 where rec: "retryW (n - 1) (Suc k) fn e w1 = (r2, m2, q2, w2)" by (cases "retryW (n - 1) (Suc k) fn e w1")
    with "1.prems" f c have eq: "r = r2" "m = m2"
      by (subst (asm) retryW.simps, simp add: Let_def)+
    have "retry (n - 1) (Suc k) (\<lambda>j. attempt fn w1 (j - Suc k)) (giveUp e) = (toSum r2, m2)"
      using "1.IH" [OF f [symmetric] c(1) refl c(2) _ c(4,5) rec] c(3) "1.prems"(2) eq by simp
    moreover have "retry (n - 1) (Suc k) (\<lambda>j. attempt fn w1 (j - Suc k)) (giveUp e)
        = retry (n - 1) (Suc k) (\<lambda>j. attempt fn w (j - k)) (giveUp e)"
    proof (rule retry_cong)
      fix j assume "Suc k \<le> j"
      then have "j - k = Suc (j - Suc k)" by simp
      then show "attempt fn w1 (j - Suc k) = attempt fn w (j - k)" using f by (simp add: attempt_def)
    qed
    ultimately show ?thesis
      using c f eq by (subst retry.simps) (simp add: Let_def attempt_def toSum_def giveUp_def)
  qed
qed

lemma resilientCallW_refines:
  assumes "resilientCallW cfg env f s = (r, s')" "r \<noteq> Panics"
  defines "e \<equiv> env (rs_calls s)"
  shows "\<exists>n. resilientCall cfg (ce_wait e) (ce_t1 e) (ce_t2 e) (attempt f (rs_inner s)) (giveUp e) (rs_breaker s)
      = (toSum r, n, rs_breaker s') \<and> rs_inner s' = runs f n (rs_inner s)"
proof (cases "ce_wait e")
  case (Some err)
  then show ?thesis using assms(1)
    by (auto simp: resilientCallW_def protected_def resilientCall_def toSum_def e_def Let_def)
next
  case wait: None
  obtain b gen cb1 where bef: "beforeRequest cfg (ce_t1 e) (rs_breaker s) = ((b, gen), cb1)" by (metis prod.exhaust)
  show ?thesis
  proof (cases b)
    case (Some err)
    with bef wait assms(1) show ?thesis
      by (auto simp: resilientCallW_def protected_def resilientCall_def Execute_def toSum_def e_def Let_def)
  next
    case None
    obtain r0 m q w' where b: "retryW (maxTries cfg) 0 f e (rs_inner s) = (r0, m, q, w')" by (metis prod.exhaust)
    then have r: "r = openOrO r0" "rs_inner s' = w'" "rs_breaker s' = afterRequest cfg (ce_t2 e) gen (verdict r0) cb1"
      using assms(1) wait bef None by (auto simp: resilientCallW_def protected_def e_def Let_def)
    have "retry (maxTries cfg) 0 (attempt f (rs_inner s)) (giveUp e) = (toSum r0, m)"
      using retryW_refines [OF b] assms(2) r(1) by simp
    with wait bef None r assms(2) retryW_spec [OF b] show ?thesis
      by (cases r0) (auto simp: resilientCall_def Execute_def toSum_def openOrO_def verdict_def)
  qed
qed

lemma retryW_transient:
  "retryW n k fn e w = (r, m, q, w') \<Longrightarrow> j < m - k - 1 \<Longrightarrow>
     \<exists>c. fst (fn (runs fn j w)) = Fails c \<and> isTransientRPCError c"
proof (induction n k fn e w arbitrary: r m q w' j rule: retryW.induct)
  case (1 n k fn e w)
  obtain o1 w1 where f: "fn w = (o1, w1)" by fastforce
  show ?case
  proof (cases "\<exists>c. o1 = Fails c \<and> \<not> n \<le> 1 \<and> isTransientRPCError c \<and> ce_cancelled e k = None \<and> ce_interrupted e k = None")
    case False
    with "1.prems" f show ?thesis
      by (subst (asm) retryW.simps) (auto simp: Let_def split: outcome.splits if_splits option.splits)
  next
    case True
    then obtain c where c: "o1 = Fails c" "\<not> n \<le> 1" "isTransientRPCError c" "ce_cancelled e k = None" "ce_interrupted e k = None"
      by blast
    obtain r2 m2 q2 w2 where rec: "retryW (n - 1) (Suc k) fn e w1 = (r2, m2, q2, w2)" by (cases "retryW (n - 1) (Suc k) fn e w1")
    with "1.prems"(1) f c have eq: "m = m2" by (subst (asm) retryW.simps) (simp add: Let_def)
    show ?thesis
    proof (cases j)
      case 0
      with f c show ?thesis by simp
    next
      case (Suc i)
      then show ?thesis
        using "1.IH" [OF f [symmetric] c(1) refl c(2) _ c(4,5) rec, of i] c(3) "1.prems"(2) eq f by simp
    qed
  qed
qed

lemma outcomes_nth: "j < n \<Longrightarrow> outcomes f n w ! j = fst (f (runs f j w))"
  by (induction n arbitrary: j w) (auto simp: nth_Cons' less_Suc_eq_0_disj)

lemma length_outcomes [simp]: "length (outcomes f n w) = n"
  by (induction n arbitrary: w) simp_all

lemma runs_traced: "snd (runs (rpcCall host meth f) n v) = runs f n (snd v)"
  by (induction n arbitrary: v) (simp_all add: rpcCall_simp)

text \<open>
  Claim C26 (what is recorded of a call). Take any method call of the assembled client, and let \<open>os\<close> be
  the outcomes of the attempts it made at the plain client, in order. There are at most
  \<open>RPCMaxRetries + 1\<close>; all but the last failed with a transient error; if there is none, the call was
  shed and says so (rate limited or circuit open). Exactly one span per attempt is recorded, with the
  method, the host and the error of the attempt; the error counter of the method grows by the number of
  failed attempts and no other counter changes; the retry counter grows by the number of repetitions,
  or by one more if the caller gave up while waiting for the next. A result that comes out is the
  outcome of the last attempt.
\<close>

theorem rpc_accounting:
  assumes "resilientCallW cfg env (rpcCall host meth f) s = (r, s')"
  shows "\<exists>os. os = outcomes f (length os) (node_state s) \<and> length os \<le> maxTries cfg
     \<and> node_state s' = runs f (length os) (node_state s)
     \<and> (\<forall>o' \<in> set (butlast os). \<exists>e. o' = Fails e \<and> isTransientRPCError e)
     \<and> (os = [] \<longrightarrow> (\<exists>e. r = Fails e \<and> (IsS e ErrRateLimited \<or> IsS e ErrCircuitOpen)))
     \<and> (os \<noteq> [] \<and> \<not> failed r \<longrightarrow> r = last os)
     \<and> tm_spans (fst (rs_inner s')) = tm_spans (fst (rs_inner s)) @ map (span_of host meth) os
     \<and> tm_RPCErrors (fst (rs_inner s')) =
         (tm_RPCErrors (fst (rs_inner s)))(meth := tm_RPCErrors (fst (rs_inner s)) meth + length (filter failed os))
     \<and> rs_RPCRetryCount s' \<in> {rs_RPCRetryCount s + (length os - 1), rs_RPCRetryCount s + length os}"
  using assms unfolding resilientCallW_def
proof (cases rule: protected_cases)
  case (shed err)
  then show ?thesis by (intro exI [of _ "[]"]) (auto simp: node_state_def)
next
  case (ran r0 m q)
  let ?v = "rs_inner s" and ?g = "rpcCall host meth f"
  let ?os = "outcomes f m (snd ?v)"
  have spec: "0 < m" "m \<le> maxTries cfg" "rs_inner s' = runs ?g m ?v" "m \<le> Suc q" "q \<le> m"
      "\<And>x. r0 = Returns x \<or> r0 = Panics \<Longrightarrow> fst (?g (runs ?g (m - 1) ?v)) = r0"
    using retryW_spec [OF ran(1)] by (auto simp: maxTries_def)
  have nth: "?os ! j = fst (?g (runs ?g j ?v))" if "j < m" for j
    using that by (simp add: outcomes_nth rpcCall_simp runs_traced)
  have ne: "?os \<noteq> []" using spec(1) by (simp flip: length_greater_0_conv)
  have early: "\<exists>e. o' = Fails e \<and> isTransientRPCError e" if "o' \<in> set (butlast ?os)" for o'
  proof -
    from that obtain j where j: "j < m - 1" "o' = ?os ! j" by (auto simp: in_set_conv_nth nth_butlast)
    with retryW_transient [OF ran(1), of j] nth [of j] show ?thesis by auto
  qed
  have "r = last ?os" if "\<not> failed r"
  proof -
    from that obtain x where "r0 = Returns x \<or> r0 = Panics" "r = r0"
      using ran(2) by (cases r0) (auto simp: failed_def openOrO_def)
    then show ?thesis using spec(1,6) nth [of "m - 1"] ne by (simp add: last_conv_nth)
  qed
  with spec early ran(3) ne runs_records [of host meth f m ?v] show ?thesis
    by (intro exI [of _ ?os]) (auto simp: node_state_def runs_traced)
qed

text \<open>A node that drops the first connection.\<close>

definition flaky :: "(nat, string) call" where
  "flaky w = (if w = 0 then (Fails (Ext EOF ''EOF''), 1) else (Returns ''0x1'', w))"

definition patient :: "nat \<Rightarrow> call_env" where
  "patient _ = \<lparr>ce_wait = None, ce_t1 = 1, ce_t2 = 2, ce_cancelled = \<lambda>_. None, ce_interrupted = \<lambda>_. None\<rparr>"

definition patient_cfg :: ResilientConfig where
  "patient_cfg = \<lparr>MaxRetries = 3, BreakerThreshold = 5, BreakerTimeout = 1\<rparr>"

definition unrecorded :: TracingMetrics where
  "unrecorded = \<lparr>tm_RPCDuration = \<lambda>_. 0, tm_RPCErrors = \<lambda>_. 0, tm_spans = []\<rparr>"

lemma patient_wait: "ce_wait (patient k) = None"
  by (simp add: patient_def)

lemma flaky_twice:
  "retryW (maxTries patient_cfg) 0 (rpcCall ''node'' ''eth_call'' flaky) (patient 0) (unrecorded, 0)
     = (Returns ''0x1'', 2, 1, runs (rpcCall ''node'' ''eth_call'' flaky) 2 (unrecorded, 0))"
  by (simp add: retryW.simps maxTries_def patient_cfg_def flaky_def rpcCall_def patient_def numeral_2_eq_2
      isTransientRPCError_def Let_def)

theorem rpc_accounting_witness:
  "\<exists>s'. resilientCallW patient_cfg patient (rpcCall ''node'' ''eth_call'' flaky)
      (NewResilientState patient_cfg 0 (unrecorded, 0)) = (Returns ''0x1'', s')
    \<and> tm_spans (fst (rs_inner s')) = [span_of ''node'' ''eth_call'' (Fails (Ext EOF ''EOF'') :: string outcome),
        span_of ''node'' ''eth_call'' (Returns ''0x1'')]"
proof -
  let ?s = "NewResilientState patient_cfg 0 (unrecorded, 0 :: nat)"
  let ?g = "rpcCall ''node'' ''eth_call'' flaky"
  obtain s' where s': "resilientCallW patient_cfg patient ?g ?s = (Returns ''0x1'', s')" "rs_inner s' = runs ?g 2 (unrecorded, 0)"
    by (simp add: resilientCallW_def protected_def NewResilientState_def flaky_twice beforeRequest_def currentState_def
        newBreaker_def toNewGeneration_def IsZero_def patient_wait Let_def)
  from rpc_accounting [OF s'(1)] obtain os where
    os: "os = outcomes flaky (length os) 0" "node_state s' = runs flaky (length os) 0"
        "tm_spans (fst (rs_inner s')) = map (span_of ''node'' ''eth_call'') os"
    by (auto simp: NewResilientState_def node_state_def unrecorded_def)
  have "length (tm_spans (fst (rs_inner s'))) = 2"
    using runs_records [of "''node''" "''eth_call''" flaky 2 "(unrecorded, 0)"] s'(2) by (simp add: unrecorded_def)
  then have "length os = Suc (Suc 0)" using os(3) by simp
  with os(1) have "os = [Fails (Ext EOF ''EOF''), Returns ''0x1'']" by (simp add: flaky_def)
  with s'(1) os(3) show ?thesis by auto
qed

section \<open>The gauge of the breaker\<close>

text \<open>The gauge shows the state of the breaker; it is not recorded before the first change.\<close>

definition shows_state :: "int option \<Rightarrow> breaker \<Rightarrow> bool" where
  "shows_state g cb \<longleftrightarrow> (case g of None \<Rightarrow> cb_state cb = StateClosed | Some v \<Rightarrow> v = stateVal (cb_state cb))"

definition gauge_ok :: "'w resilient \<Rightarrow> bool" where
  "gauge_ok s \<longleftrightarrow> shows_state (rs_CircuitBreakerState s) (rs_breaker s)"

lemma OnStateChange_shows: "shows_state g old \<Longrightarrow> shows_state (OnStateChange old new g) new"
  by (auto simp: OnStateChange_def shows_state_def split: option.splits)

lemma protected_gauge [wf_intros]:
  assumes "gauge_ok s" shows "gauge_ok (snd (protected cfg e body s))"
  using assms unfolding protected_def gauge_ok_def Let_def
  by (auto split: option.splits prod.splits intro!: OnStateChange_shows)

lemma gauge_tracks [wf_intros]:
  "gauge_ok (NewResilientState cfg now w)"
  "gauge_ok s \<Longrightarrow> gauge_ok (snd (resilientCallW cfg env f s))"
  "gauge_ok s \<Longrightarrow> gauge_ok (snd (sendOnceW cfg env f s))"
  "gauge_ok s \<Longrightarrow> gauge_ok (snd (directW f s))"
proof -
  show "gauge_ok (NewResilientState cfg now w)"
    by (simp add: gauge_ok_def NewResilientState_def shows_state_def newBreaker_def toNewGeneration_def)
  show "gauge_ok (snd (directW f s))" if "gauge_ok s"
    using that by (simp add: gauge_ok_def directW_def split: prod.splits)
qed (simp_all add: resilientCallW_def sendOnceW_def protected_gauge)

text \<open>A breaker that turns a call away is past the closed state, and the gauge shows it.\<close>

lemma rejection_visible:
  assumes "gauge_ok s" "ce_wait e = None" "fst (fst (beforeRequest cfg (ce_t1 e) (rs_breaker s))) \<noteq> None"
    and s': "protected cfg e body s = (r, s')"
  shows "StateClosed < cb_state (rs_breaker s') \<and> (\<exists>g. rs_CircuitBreakerState s' = Some g \<and> 0 < g)"
proof -
  obtain err gen cb1 where b: "beforeRequest cfg (ce_t1 e) (rs_breaker s) = ((Some err, gen), cb1)"
    using assms(3) by (metis fst_conv not_None_eq prod.exhaust)
  then have "cb_state cb1 \<noteq> StateClosed" by (auto simp: beforeRequest_def Let_def split: if_splits)
  moreover have "rs_breaker s' = cb1" using b assms(2) s' by (auto simp: protected_def Let_def)
  moreover have "gauge_ok s'" using protected_gauge [OF assms(1), of cfg e body] s' by simp
  ultimately show ?thesis
    by (cases "cb_state cb1") (auto simp: gauge_ok_def shows_state_def split: option.splits)
qed

end
