(* ===== verification/Write_Relay.thy ===== *)
theory Write_Relay
  imports Evm_Client Auth_Policy Next_Actions
begin

text \<open>
  The write path: one tool call that broadcasts a signed transaction
  (\<^verbatim>\<open>internal/mcp/tools_evm_write.go\<close>), with the decoder of the untrusted bytes
  (\<^verbatim>\<open>internal/evm/decode.go\<close>), the relay scope (\<^verbatim>\<open>relayscope.go\<close>), the ban list
  (\<^verbatim>\<open>signer_blacklist.go\<close>), the volume quota (\<^verbatim>\<open>signer_quota.go\<close>) and the audit
  table (\<^verbatim>\<open>write_audit.go\<close>).

  The RLP codec and the public-key recovery of the transaction library are parameters
  (\<open>tx_lib\<close>); they may panic. The transaction is an extensible record: its extension stands
  for the fields the decoder does not look at. The tables are the rows they hold; the world
  also records, in order, what was handed to the node and what was counted in the metrics.
\<close>

section \<open>Decoding a signed transaction\<close>

datatype tx_type = LegacyTxType | TypedTx nat

record Signature =
  sg_V :: "int option"
  sg_R :: "int option"
  sg_S :: "int option"

record Transaction =
  tx_Type :: tx_type
  tx_ChainID :: "uint64 option"
  tx_To :: "address option"
  tx_Input :: bytes
  tx_Value :: "int option"
  tx_Signature :: "Signature option"

record 'm tx_lib =
  tx_DecodeRLP :: "bytes \<Rightarrow> 'm Transaction_scheme outcome"
  tx_EncodeRLP :: "'m Transaction_scheme \<Rightarrow> bytes outcome"
  tx_Recover :: "'m Transaction_scheme \<Rightarrow> address option outcome"

record DecodedTx =
  dx_Signer :: address
  dx_To :: "address option"
  dx_Input :: bytes
  dx_Value :: int
  dx_CanonicalRaw :: bytes

definition decodeErr :: "string \<Rightarrow> goerr" where
  "decodeErr op = wrapf op (Sentinel ErrTxDecode)"

text \<open>\<open>orFail e c\<close>: the error of \<open>c\<close>, if any, is replaced by \<open>e\<close>; a panic stays one.\<close>

definition orFail :: "goerr \<Rightarrow> 'a outcome \<Rightarrow> 'a outcome" where
  "orFail e c = (case c of Fails _ \<Rightarrow> Fails e | _ \<Rightarrow> c)"

text \<open>The chain ID of an EIP-155 legacy transaction, derived from \<open>V\<close>.\<close>

definition fixChainID :: "'m Transaction_scheme \<Rightarrow> 'm Transaction_scheme outcome" where
  "fixChainID tx =
     (case (tx_Type tx, tx_Signature tx) of
        (LegacyTxType, Some sg) \<Rightarrow>
          bindO (deref (sg_V sg)) (\<lambda>v.
            if 35 \<le> v then Returns (tx\<lparr>tx_ChainID := Some (bigUint64 ((v - 35) div 2))\<rparr>)
            else Returns tx)
      | _ \<Rightarrow> Returns tx)"

definition decodeBody :: "'m tx_lib \<Rightarrow> string \<Rightarrow> DecodedTx outcome" where
  "decodeBody lib signedTxHex =
     (let raw = (if HasPrefix signedTxHex ''0x'' then drop 2 signedTxHex else signedTxHex) in
      if raw = '''' then Fails (decodeErr ''empty signed tx'')
      else if length raw > maxSignedTxHexLen then
        Fails (wrapf (''signed tx hex too large ('' @ dec_nat (length raw) @ '' chars, max ''
                 @ dec_nat maxSignedTxHexLen @ '')'') (Sentinel ErrInputTooLarge))
      else case DecodeString raw of
        Inl _ \<Rightarrow> Fails (decodeErr ''decode signed tx hex'')
      | Inr b \<Rightarrow>
          bindO (orFail (decodeErr ''rlp-decode signed tx'') (tx_DecodeRLP lib b)) (\<lambda>tx0.
          bindO (fixChainID tx0) (\<lambda>tx.
          bindO (orFail (decodeErr ''recover signer'') (tx_Recover lib tx)) (\<lambda>signer.
            case signer of
              None \<Rightarrow> Fails (decodeErr ''recover signer: nil address'')
            | Some a \<Rightarrow>
                bindO (orFail (decodeErr ''re-encode signed tx'') (tx_EncodeRLP lib tx)) (\<lambda>canonical.
                  Returns \<lparr>dx_Signer = a, dx_To = tx_To tx, dx_Input = tx_Input tx,
                           dx_Value = (case tx_Value tx of None \<Rightarrow> 0 | Some v \<Rightarrow> v),
                           dx_CanonicalRaw = canonical\<rparr>)))))"

text \<open>The deferred \<^verbatim>\<open>recover\<close>: a panic of the library becomes an input error.\<close>

definition DecodeSignedTx :: "'m tx_lib \<Rightarrow> string \<Rightarrow> goerr + DecodedTx" where
  "DecodeSignedTx lib signedTxHex =
     (case decodeBody lib signedTxHex of
        Panics \<Rightarrow> Inl (decodeErr ''decode signed tx panicked'')
      | Fails e \<Rightarrow> Inl e
      | Returns d \<Rightarrow> Inr d)"

section \<open>Relay scope\<close>

definition checkRelayScope :: "address option \<Rightarrow> int option \<Rightarrow> address \<Rightarrow> goerr option" where
  "checkRelayScope dest val anchor =
     (if dest \<noteq> Some anchor then Some (Sentinel ErrRelayScopeRejected)
      else case val of
             None \<Rightarrow> None
           | Some v \<Rightarrow> if v \<noteq> 0 then Some (Sentinel ErrRelayValueRejected) else None)"

definition addrString :: "address option \<Rightarrow> string" where
  "addrString dest = (case dest of None \<Rightarrow> [] | Some a \<Rightarrow> BytesToHex a)"

section \<open>The tables\<close>

record BlacklistEntry =
  bl_Signer :: string
  bl_Reason :: string
  bl_CreatedAt :: time

record WriteAuditEntry =
  wa_Signer :: string
  wa_ToAddr :: string
  wa_ValueWei :: string
  wa_CalldataLen :: int
  wa_MethodSelector :: string
  wa_TxHash :: string
  wa_Outcome :: string
  wa_Error :: string
  wa_CreatedAt :: time

record write_db =
  db_blacklist :: "BlacklistEntry list"
  db_quota :: "((string \<times> time) \<times> nat) list"
  db_audit :: "WriteAuditEntry list"

text \<open>
  Each operation takes the fault of its statement, \<open>None\<close> when the statement succeeds;
  \<open>ul\<close> is \<^verbatim>\<open>strings.ToLower\<close> beyond ASCII.
\<close>

definition IsBlacklisted ::
  "(string \<Rightarrow> string) \<Rightarrow> goerr option \<Rightarrow> string \<Rightarrow> write_db \<Rightarrow> goerr + bool" where
  "IsBlacklisted ul fault signer db =
     (case fault of
        Some e \<Rightarrow> Inl (wrapf ''query signer_blacklist'' e)
      | None \<Rightarrow> Inr (list_ex (\<lambda>b. bl_Signer b = ToLower ul signer) (db_blacklist db)))"

definition Blacklist_Add ::
  "(string \<Rightarrow> string) \<Rightarrow> goerr option \<Rightarrow> time \<Rightarrow> string \<Rightarrow> string \<Rightarrow> write_db \<Rightarrow> goerr option \<times> write_db" where
  "Blacklist_Add ul fault dbnow signer reason db =
     (case fault of
        Some e \<Rightarrow> (Some (wrapf ''add signer_blacklist'' e), db)
      | None \<Rightarrow>
          let k = ToLower ul signer; rows = db_blacklist db in
          (None, db\<lparr>db_blacklist :=
             (if list_ex (\<lambda>b. bl_Signer b = k) rows
              then map (\<lambda>b. if bl_Signer b = k then b\<lparr>bl_Reason := reason\<rparr> else b) rows
              else rows @ [\<lparr>bl_Signer = k, bl_Reason = reason, bl_CreatedAt = dbnow\<rparr>])\<rparr>))"

definition Blacklist_Remove ::
  "(string \<Rightarrow> string) \<Rightarrow> goerr option \<Rightarrow> string \<Rightarrow> write_db \<Rightarrow> goerr option \<times> write_db" where
  "Blacklist_Remove ul fault signer db =
     (case fault of
        Some e \<Rightarrow> (Some (wrapf ''remove signer_blacklist'' e), db)
      | None \<Rightarrow> (None, db\<lparr>db_blacklist := filter (\<lambda>b. bl_Signer b \<noteq> ToLower ul signer) (db_blacklist db)\<rparr>))"

definition Blacklist_List :: "goerr option \<Rightarrow> write_db \<Rightarrow> goerr + BlacklistEntry list" where
  "Blacklist_List fault db =
     (case fault of
        Some e \<Rightarrow> Inl (wrapf ''list signer_blacklist'' e)
      | None \<Rightarrow> Inr (sort_key (\<lambda>b. - bl_CreatedAt b) (db_blacklist db)))"

text \<open>\<^verbatim>\<open>time.Truncate\<close>: down to a multiple of the window since the zero time.\<close>

definition WindowStart :: "time \<Rightarrow> duration \<Rightarrow> time" where
  "WindowStart now window = (if window \<le> 0 then now else now - (now - zeroTime) mod window)"

definition quota_count :: "string \<Rightarrow> time \<Rightarrow> write_db \<Rightarrow> nat" where
  "quota_count k ws db = (case map_of (db_quota db) (k, ws) of None \<Rightarrow> 0 | Some n \<Rightarrow> n)"

definition Quota_Count ::
  "(string \<Rightarrow> string) \<Rightarrow> goerr option \<Rightarrow> string \<Rightarrow> time \<Rightarrow> write_db \<Rightarrow> goerr + int" where
  "Quota_Count ul fault signer ws db =
     (case fault of
        Some e \<Rightarrow> Inl (wrapf ''count signer_quota'' e)
      | None \<Rightarrow> Inr (int (quota_count (ToLower ul signer) ws db)))"

definition Quota_Increment ::
  "(string \<Rightarrow> string) \<Rightarrow> goerr option \<Rightarrow> string \<Rightarrow> time \<Rightarrow> write_db \<Rightarrow> goerr option \<times> write_db" where
  "Quota_Increment ul fault signer ws db =
     (case fault of
        Some e \<Rightarrow> (Some (wrapf ''increment signer_quota'' e), db)
      | None \<Rightarrow>
          let k = ToLower ul signer in
          (None, db\<lparr>db_quota := AList.update (k, ws) (quota_count k ws db + 1) (db_quota db)\<rparr>))"

definition MethodSelectorOf :: "bytes \<Rightarrow> string" where
  "MethodSelectorOf calldata =
     (if length calldata < 4 then '''' else ''0x'' @ EncodeToString (take 4 calldata))"

definition WriteAudit_Record ::
  "(string \<Rightarrow> string) \<Rightarrow> goerr option \<Rightarrow> time \<Rightarrow> WriteAuditEntry \<Rightarrow> write_db \<Rightarrow> goerr option \<times> write_db" where
  "WriteAudit_Record ul fault dbnow e db =
     (case fault of
        Some err \<Rightarrow> (Some (wrapf ''record write_audit'' err), db)
      | None \<Rightarrow>
          (None, db\<lparr>db_audit := db_audit db @
             [e\<lparr>wa_Signer := ToLower ul (wa_Signer e),
                wa_MethodSelector := ToLower ul (wa_MethodSelector e),
                wa_CreatedAt := dbnow\<rparr>]\<rparr>))"

record WriteAuditFilter =
  wf_Signer :: string
  wf_From :: "time option"
  wf_To :: "time option"
  wf_Limit :: int

definition defaultWriteAuditQueryLimit :: int where
  "defaultWriteAuditQueryLimit = 100"

definition maxWriteAuditQueryLimit :: int where
  "maxWriteAuditQueryLimit = 1000"

definition queryLimit :: "int \<Rightarrow> int" where
  "queryLimit l =
     (let limit = (if l \<le> 0 then defaultWriteAuditQueryLimit else l)
      in if limit > maxWriteAuditQueryLimit then maxWriteAuditQueryLimit else limit)"

definition audit_match :: "(string \<Rightarrow> string) \<Rightarrow> WriteAuditFilter \<Rightarrow> WriteAuditEntry \<Rightarrow> bool" where
  "audit_match ul f e \<longleftrightarrow>
     (ToLower ul (wf_Signer f) = '''' \<or> wa_Signer e = ToLower ul (wf_Signer f))
     \<and> (case wf_From f of None \<Rightarrow> True | Some t \<Rightarrow> t \<le> wa_CreatedAt e)
     \<and> (case wf_To f of None \<Rightarrow> True | Some t \<Rightarrow> wa_CreatedAt e \<le> t)"

definition WriteAudit_Query ::
  "(string \<Rightarrow> string) \<Rightarrow> goerr option \<Rightarrow> WriteAuditFilter \<Rightarrow> write_db \<Rightarrow> goerr + WriteAuditEntry list" where
  "WriteAudit_Query ul fault f db =
     (case fault of
        Some e \<Rightarrow> Inl (wrapf ''query write_audit'' e)
      | None \<Rightarrow>
          Inr (take (nat (queryLimit (wf_Limit f)))
                 (sort_key (\<lambda>e. - wa_CreatedAt e) (filter (audit_match ul f) (db_audit db)))))"


section \<open>The handler\<close>

datatype RelayRejectCause =
    CauseDecode | CauseAnchorMisconfig | CauseRelayScope | CauseSignerBlacklist
  | CauseSignerQuota | CauseQuotaStoreErr | CauseBlacklistStoreErr

definition ErrSignerBlacklisted :: goerr where
  "ErrSignerBlacklisted = PkgErr ''ErrSignerBlacklisted'' ''signer is blacklisted''"

definition ErrSignerQuotaExceeded :: goerr where
  "ErrSignerQuotaExceeded = PkgErr ''ErrSignerQuotaExceeded'' ''per-signer write quota exceeded''"

record signerGates =
  sg_blacklist :: bool
  sg_quota :: bool
  sg_rate :: int
  sg_window :: duration
  sg_quotaFailOpen :: bool
  sg_blacklistFailOpen :: bool

record write_cfg =
  wc_anchorAddr :: string
  wc_keyless :: bool
  wc_relayAllowAny :: bool
  wc_audit :: bool
  wc_metrics :: bool
  wc_gates :: signerGates

text \<open>
  What one call meets outside the program: the clocks of the process and of the database,
  the fault of each statement, and the node's answer to the bytes it is sent.
\<close>

record write_env =
  we_now :: time
  we_dbnow :: time
  we_blErr :: "goerr option"
  we_qErr :: "goerr option"
  we_incErr :: "goerr option"
  we_audErr :: "goerr option"
  we_send :: "string \<Rightarrow> goerr + string"

record world =
  w_db :: write_db
  w_sent :: "string list"
  w_rejects :: "RelayRejectCause list"
  w_broadcasts :: "string list"

definition recordReject :: "write_cfg \<Rightarrow> RelayRejectCause \<Rightarrow> world \<Rightarrow> world" where
  "recordReject wc c w = (if wc_metrics wc then w\<lparr>w_rejects := w_rejects w @ [c]\<rparr> else w)"

definition recordBroadcast :: "write_cfg \<Rightarrow> string \<Rightarrow> world \<Rightarrow> world" where
  "recordBroadcast wc c w = (if wc_metrics wc then w\<lparr>w_broadcasts := w_broadcasts w @ [c]\<rparr> else w)"

definition decodeAndScope ::
  "write_cfg \<Rightarrow> 'm tx_lib \<Rightarrow> string \<Rightarrow> world \<Rightarrow> (goerr + DecodedTx) \<times> world" where
  "decodeAndScope wc lib signedTxHex w =
     (case DecodeSignedTx lib signedTxHex of
        Inl derr \<Rightarrow> (Inl derr, recordReject wc CauseDecode w)
      | Inr dtx \<Rightarrow>
          (case AddressFromHex (wc_anchorAddr wc) of
             None \<Rightarrow> (Inl (wrapf ''anchor address misconfigured'' (Sentinel ErrInvalidAddress)),
                      recordReject wc CauseAnchorMisconfig w)
           | Some anchor \<Rightarrow>
               (case checkRelayScope (dx_To dtx) (Some (dx_Value dtx)) anchor of
                  Some serr \<Rightarrow> (Inl serr, recordReject wc CauseRelayScope w)
                | None \<Rightarrow> (Inr dtx, w))))"

text \<open>
  \<open>checkSignerGates\<close> returns the start of the window and the refusal, if any; \<open>quotaGate\<close> is
  its second half.
\<close>

definition quotaGate ::
  "(string \<Rightarrow> string) \<Rightarrow> write_cfg \<Rightarrow> write_env \<Rightarrow> string \<Rightarrow> time \<Rightarrow> world \<Rightarrow> goerr option \<times> world" where
  "quotaGate ul wc env signer ws w =
     (let g = wc_gates wc in
      if \<not> sg_quota g then (None, w)
      else case Quota_Count ul (we_qErr env) signer ws (w_db w) of
             Inl qerr \<Rightarrow>
               if \<not> sg_quotaFailOpen g
               then (Some (wrapf ''quota store unavailable'' qerr), recordReject wc CauseQuotaStoreErr w)
               else (None, w)
           | Inr n \<Rightarrow>
               if n \<ge> sg_rate g
               then (Some ErrSignerQuotaExceeded, recordReject wc CauseSignerQuota w)
               else (None, w))"

definition checkSignerGates ::
  "(string \<Rightarrow> string) \<Rightarrow> write_cfg \<Rightarrow> write_env \<Rightarrow> string \<Rightarrow> world \<Rightarrow> time \<times> goerr option \<times> world" where
  "checkSignerGates ul wc env signer w =
     (let g = wc_gates wc; ws = WindowStart (we_now env) (sg_window g) in
      if \<not> sg_blacklist g then (ws, quotaGate ul wc env signer ws w)
      else case IsBlacklisted ul (we_blErr env) signer (w_db w) of
             Inl berr \<Rightarrow>
               if \<not> sg_blacklistFailOpen g
               then (ws, Some (wrapf ''blacklist store unavailable'' berr),
                     recordReject wc CauseBlacklistStoreErr w)
               else (ws, quotaGate ul wc env signer ws w)
           | Inr banned \<Rightarrow>
               if banned then (ws, Some ErrSignerBlacklisted, recordReject wc CauseSignerBlacklist w)
               else (ws, quotaGate ul wc env signer ws w))"

definition prepareKeylessBroadcast ::
  "(string \<Rightarrow> string) \<Rightarrow> write_cfg \<Rightarrow> 'm tx_lib \<Rightarrow> write_env \<Rightarrow> string \<Rightarrow> world
     \<Rightarrow> (goerr + DecodedTx option \<times> time \<times> string) \<times> world" where
  "prepareKeylessBroadcast ul wc lib env signedTxHex w =
     (case decodeAndScope wc lib signedTxHex w of
        (Inl err, w1) \<Rightarrow> (Inl err, w1)
      | (Inr dtx, w1) \<Rightarrow>
          (case checkSignerGates ul wc env (BytesToHex (dx_Signer dtx)) w1 of
             (ws, Some gerr, w2) \<Rightarrow> (Inl gerr, w2)
           | (ws, None, w2) \<Rightarrow>
               (Inr (Some dtx, ws, ''0x'' @ EncodeToString (dx_CanonicalRaw dtx)), w2)))"

definition resolveBroadcast ::
  "(string \<Rightarrow> string) \<Rightarrow> write_cfg \<Rightarrow> 'm tx_lib \<Rightarrow> write_env \<Rightarrow> string \<Rightarrow> world
     \<Rightarrow> (goerr + DecodedTx option \<times> time \<times> string) \<times> world" where
  "resolveBroadcast ul wc lib env signedTxHex w =
     (if wc_keyless wc then prepareKeylessBroadcast ul wc lib env signedTxHex w
      else if wc_relayAllowAny wc then
        (case DecodeSignedTx lib signedTxHex of
           Inr dtx \<Rightarrow> (Inr (Some dtx, zeroTime, signedTxHex), w)
         | Inl _ \<Rightarrow> (Inr (None, zeroTime, signedTxHex), w))
      else
        (case decodeAndScope wc lib signedTxHex w of
           (Inl err, w1) \<Rightarrow> (Inl err, w1)
         | (Inr dtx, w1) \<Rightarrow> (Inr (Some dtx, zeroTime, signedTxHex), w1)))"

definition maxAuditErrLen :: nat where
  "maxAuditErrLen = 512"

definition boundAuditErr :: "goerr option \<Rightarrow> string" where
  "boundAuditErr e =
     (case e of
        None \<Rightarrow> ''''
      | Some err \<Rightarrow>
          let s = Error err in
          if length s > maxAuditErrLen then take maxAuditErrLen s @ ''...[truncated]'' else s)"

definition auditEntryOf :: "DecodedTx \<Rightarrow> string \<Rightarrow> string \<Rightarrow> string \<Rightarrow> WriteAuditEntry" where
  "auditEntryOf decoded outcome txHash errMsg =
     \<lparr>wa_Signer = BytesToHex (dx_Signer decoded), wa_ToAddr = addrString (dx_To decoded),
      wa_ValueWei = dec_int (dx_Value decoded), wa_CalldataLen = int (length (dx_Input decoded)),
      wa_MethodSelector = MethodSelectorOf (dx_Input decoded), wa_TxHash = txHash,
      wa_Outcome = outcome, wa_Error = errMsg, wa_CreatedAt = zeroTime\<rparr>"

definition recordAudit ::
  "(string \<Rightarrow> string) \<Rightarrow> write_cfg \<Rightarrow> write_env \<Rightarrow> DecodedTx option \<Rightarrow> string \<Rightarrow> string \<Rightarrow> string
     \<Rightarrow> world \<Rightarrow> world" where
  "recordAudit ul wc env decoded outcome txHash errMsg w =
     (case decoded of
        None \<Rightarrow> w
      | Some d \<Rightarrow>
          if \<not> wc_audit wc then w
          else w\<lparr>w_db := snd (WriteAudit_Record ul (we_audErr env) (we_dbnow env)
                                 (auditEntryOf d outcome txHash errMsg) (w_db w))\<rparr>)"

record sendRawTxOutput =
  so_TxHash :: string
  so_NextActions :: "NextAction list"

definition writeRoles :: "string list" where
  "writeRoles = [''writer'', ''admin'', ''automation'']"

definition quotaIncrement ::
  "(string \<Rightarrow> string) \<Rightarrow> write_cfg \<Rightarrow> write_env \<Rightarrow> DecodedTx option \<Rightarrow> time \<Rightarrow> world \<Rightarrow> world" where
  "quotaIncrement ul wc env decoded ws w =
     (case decoded of
        None \<Rightarrow> w
      | Some d \<Rightarrow>
          if \<not> sg_quota (wc_gates wc) then w
          else w\<lparr>w_db := snd (Quota_Increment ul (we_incErr env) (BytesToHex (dx_Signer d)) ws (w_db w))\<rparr>)"

definition broadcast ::
  "(string \<Rightarrow> string) \<Rightarrow> write_cfg \<Rightarrow> write_env \<Rightarrow> DecodedTx option \<Rightarrow> time \<Rightarrow> string \<Rightarrow> world
     \<Rightarrow> (goerr + sendRawTxOutput) \<times> world" where
  "broadcast ul wc env decoded ws broadcastHex w0 =
     (let w = w0\<lparr>w_sent := w_sent w0 @ [broadcastHex]\<rparr> in
      case we_send env broadcastHex of
        Inl err \<Rightarrow>
          (Inl err,
           recordBroadcast wc ''failed''
             (recordAudit ul wc env decoded ''broadcast_failed'' ''''
                (boundAuditErr (Some (RawCause err))) w))
      | Inr txHash \<Rightarrow>
          (Inr \<lparr>so_TxHash = txHash, so_NextActions = evmSendRawTxNext txHash\<rparr>,
           quotaIncrement ul wc env decoded ws
             (recordBroadcast wc ''ok''
                (recordAudit ul wc env decoded ''broadcast_ok'' txHash '''' w))))"

definition makeSendRawTxHandler ::
  "(string \<Rightarrow> string) \<Rightarrow> write_cfg \<Rightarrow> 'm tx_lib \<Rightarrow> write_env \<Rightarrow> Claims option \<Rightarrow> string \<Rightarrow> world
     \<Rightarrow> (goerr + sendRawTxOutput) \<times> world" where
  "makeSendRawTxHandler ul wc lib env ctx signedTxHex w =
     (case requireRole ctx writeRoles of
        Some err \<Rightarrow> (Inl err, w)
      | None \<Rightarrow>
          if signedTxHex = '''' then
            (Inl (wrapf ''signed_tx is required'' (Sentinel ErrMissingRequired)), w)
          else
            (case resolveBroadcast ul wc lib env signedTxHex w of
               (Inl perr, w1) \<Rightarrow> (Inl perr, w1)
             | (Inr (decoded, ws, broadcastHex), w1) \<Rightarrow>
                 broadcast ul wc env decoded ws broadcastHex w1))"

section \<open>What a call does to the world\<close>

lemma recordReject_frame [simp]:
  "w_sent (recordReject wc c w) = w_sent w" "w_db (recordReject wc c w) = w_db w"
  by (simp_all add: recordReject_def)

lemma recordBroadcast_frame [simp]:
  "w_sent (recordBroadcast wc c w) = w_sent w" "w_db (recordBroadcast wc c w) = w_db w"
  by (simp_all add: recordBroadcast_def)

lemma recordAudit_frame [simp]:
  "w_sent (recordAudit ul wc env d o' h m w) = w_sent w"
  "db_quota (w_db (recordAudit ul wc env d o' h m w)) = db_quota (w_db w)"
  "db_blacklist (w_db (recordAudit ul wc env d o' h m w)) = db_blacklist (w_db w)"
  by (simp_all add: recordAudit_def WriteAudit_Record_def Let_def split: option.split)

lemma quotaIncrement_frame [simp]:
  "w_sent (quotaIncrement ul wc env d ws w) = w_sent w"
  "db_audit (w_db (quotaIncrement ul wc env d ws w)) = db_audit (w_db w)"
  "db_blacklist (w_db (quotaIncrement ul wc env d ws w)) = db_blacklist (w_db w)"
  by (simp_all add: quotaIncrement_def Quota_Increment_def Let_def split: option.split)

lemma quotaGate_frame [simp]:
  "w_sent (snd (quotaGate ul wc env s ws w)) = w_sent w"
  "w_db (snd (quotaGate ul wc env s ws w)) = w_db w"
  by (simp_all add: quotaGate_def Let_def split: sum.split)

lemma checkSignerGates_frame:
  "checkSignerGates ul wc env s w = (ws, r, w') \<Longrightarrow> w_sent w' = w_sent w \<and> w_db w' = w_db w"
  using quotaGate_frame [of ul wc env s "WindowStart (we_now env) (sg_window (wc_gates wc))" w]
  by (auto simp: checkSignerGates_def Let_def simp del: quotaGate_frame split: if_splits sum.splits)

lemma decodeAndScope_frame:
  "decodeAndScope wc lib s w = (r, w') \<Longrightarrow> w_sent w' = w_sent w \<and> w_db w' = w_db w"
  by (auto simp: decodeAndScope_def split: sum.splits option.splits)

lemma resolveBroadcast_frame:
  "resolveBroadcast ul wc lib env s w = (r, w') \<Longrightarrow> w_sent w' = w_sent w \<and> w_db w' = w_db w"
  by (auto simp: resolveBroadcast_def prepareKeylessBroadcast_def dest!: decodeAndScope_frame
      checkSignerGates_frame split: if_splits prod.splits sum.splits option.splits)


lemma decodeAndScope_ok:
  "decodeAndScope wc lib s w = (Inr dtx, w') \<Longrightarrow>
     DecodeSignedTx lib s = Inr dtx \<and> dx_To dtx \<noteq> None \<and> dx_To dtx = AddressFromHex (wc_anchorAddr wc)
     \<and> dx_Value dtx = 0 \<and> w' = w"
  by (auto simp: decodeAndScope_def checkRelayScope_def split: sum.splits option.splits if_splits)

lemma prepareKeyless_ok:
  "prepareKeylessBroadcast ul wc lib env s w = (Inr (d, ws, h), w') \<Longrightarrow>
     \<exists>dtx. d = Some dtx \<and> decodeAndScope wc lib s w = (Inr dtx, w)
         \<and> checkSignerGates ul wc env (BytesToHex (dx_Signer dtx)) w = (ws, None, w')
         \<and> h = ''0x'' @ EncodeToString (dx_CanonicalRaw dtx)"
  by (auto simp: prepareKeylessBroadcast_def dest: decodeAndScope_ok split: prod.splits sum.splits option.splits)

lemma handler_refused:
  "makeSendRawTxHandler ul wc lib env ctx s w = (res, w') \<Longrightarrow> w_sent w' = w_sent w \<Longrightarrow>
     (\<exists>e. res = Inl e) \<and> w_db w' = w_db w"
  by (auto simp: makeSendRawTxHandler_def broadcast_def Let_def dest: resolveBroadcast_frame
      split: option.splits if_splits prod.splits sum.splits)

lemma broadcast_frame:
  "broadcast ul wc env d ws h w = (res, w') \<Longrightarrow>
     w_sent w' = w_sent w @ [h] \<and> db_blacklist (w_db w') = db_blacklist (w_db w)"
  by (auto simp: broadcast_def Let_def split: sum.splits)

lemma handler_sent:
  assumes "makeSendRawTxHandler ul wc lib env ctx s w = (res, w')" "w_sent w' \<noteq> w_sent w"
  obtains d ws h w1 where "requireRole ctx writeRoles = None" "s \<noteq> ''''"
    "resolveBroadcast ul wc lib env s w = (Inr (d, ws, h), w1)" "w_db w1 = w_db w"
    "broadcast ul wc env d ws h w1 = (res, w')" "w_sent w' = w_sent w @ [h]"
proof -
  from assms obtain d ws h w1 where
    r: "requireRole ctx writeRoles = None" "s \<noteq> []"
      "resolveBroadcast ul wc lib env s w = (Inr (d, ws, h), w1)"
      "broadcast ul wc env d ws h w1 = (res, w')"
    by (auto simp: makeSendRawTxHandler_def dest: resolveBroadcast_frame
        split: option.splits if_splits prod.splits sum.splits)
  with resolveBroadcast_frame [OF r(3)] broadcast_frame [OF r(4)] show thesis
    by (intro that [of d ws h w1]) simp_all
qed

lemma quotaGate_None:
  "fst (quotaGate ul wc env k ws w) = None \<longleftrightarrow>
     \<not> sg_quota (wc_gates wc)
     \<or> (if we_qErr env = None then int (quota_count (ToLower ul k) ws (w_db w)) < sg_rate (wc_gates wc)
        else sg_quotaFailOpen (wc_gates wc))"
  by (cases "we_qErr env") (simp_all add: quotaGate_def Quota_Count_def Let_def not_less)

section \<open>Properties\<close>

lemma relay_scoped:
  assumes "makeSendRawTxHandler ul wc lib env ctx s w = (res, w')" "w_sent w' \<noteq> w_sent w"
    and "wc_keyless wc \<or> \<not> wc_relayAllowAny wc"
  shows "\<exists>dtx h. w_sent w' = w_sent w @ [h] \<and> DecodeSignedTx lib s = Inr dtx
           \<and> dx_To dtx \<noteq> None \<and> dx_To dtx = AddressFromHex (wc_anchorAddr wc) \<and> dx_Value dtx = 0
           \<and> h = (if wc_keyless wc then ''0x'' @ EncodeToString (dx_CanonicalRaw dtx) else s)
           \<and> (\<forall>c. ctx = Some c \<longrightarrow> HasAnyRole c [''writer'', ''admin'', ''automation''])"
proof -
  obtain d ws h w1 where
    r: "requireRole ctx writeRoles = None" and b: "resolveBroadcast ul wc lib env s w = (Inr (d, ws, h), w1)"
    and w': "w_sent w' = w_sent w @ [h]" by (rule handler_sent [OF assms(1,2)]) (rule that)
  have roles: "\<forall>c. ctx = Some c \<longrightarrow> HasAnyRole c [''writer'', ''admin'', ''automation'']"
    using r by (auto simp: requireRole_def writeRoles_def split: if_splits)
  show ?thesis
  proof (cases "wc_keyless wc")
    case True
    with b obtain dtx where "decodeAndScope wc lib s w = (Inr dtx, w)"
      "h = ''0x'' @ EncodeToString (dx_CanonicalRaw dtx)"
      by (auto simp: resolveBroadcast_def dest: prepareKeyless_ok)
    with decodeAndScope_ok [OF this(1)] True w' roles show ?thesis by auto
  next
    case False
    with b assms(3) obtain dtx w2 where "decodeAndScope wc lib s w = (Inr dtx, w2)" "h = s"
      by (auto simp: resolveBroadcast_def split: prod.splits sum.splits)
    with decodeAndScope_ok [OF this(1)] False w' roles show ?thesis by auto
  qed
qed

text \<open>
  Claim C4 (the relay is scoped). Whatever bytes a caller submits, a transaction reaches the
  node only if it decodes with a recovered signer, is addressed to the configured anchor
  precompile and carries no value, and the caller's key, if any, has a writing role; under
  keyless writes the bytes sent are the re-encoding of the decoded transaction. The one
  exception is the operator's opt-in, which keyless writes override.
\<close>

theorem relay_scope_enforced:
  assumes "makeSendRawTxHandler ul wc lib env ctx s w = (res, w')" "w_sent w' \<noteq> w_sent w"
    and "wc_keyless wc \<or> \<not> wc_relayAllowAny wc"
  shows "\<exists>dtx h. w_sent w' = w_sent w @ [h] \<and> DecodeSignedTx lib s = Inr dtx
           \<and> dx_To dtx \<noteq> None \<and> dx_To dtx = AddressFromHex (wc_anchorAddr wc) \<and> dx_Value dtx = 0
           \<and> h = (if wc_keyless wc then ''0x'' @ EncodeToString (dx_CanonicalRaw dtx) else s)
           \<and> (\<forall>c. ctx = Some c \<longrightarrow> HasAnyRole c [''writer'', ''admin'', ''automation''])"
  by (rule relay_scoped [OF assms])

text \<open>
  The signer gates: the gate of a keyless write opens exactly when the ban list, if
  configured, was read and does not hold the signer, or could not be read and the operator
  chose to fail open, and the quota, if configured, was read below the limit, or could not be
  read under the same choice.
\<close>

theorem gates_correct:
  "fst (snd (checkSignerGates ul wc env signer w)) = None \<longleftrightarrow>
     (if sg_blacklist (wc_gates wc)
      then (if we_blErr env = None
            then \<not> list_ex (\<lambda>b. bl_Signer b = ToLower ul signer) (db_blacklist (w_db w))
            else sg_blacklistFailOpen (wc_gates wc))
      else True)
     \<and> (if sg_quota (wc_gates wc)
        then (if we_qErr env = None
              then int (quota_count (ToLower ul signer) (WindowStart (we_now env) (sg_window (wc_gates wc))) (w_db w))
                     < sg_rate (wc_gates wc)
              else sg_quotaFailOpen (wc_gates wc))
        else True)"
proof -
  let ?g = "fst (quotaGate ul wc env signer (WindowStart (we_now env) (sg_window (wc_gates wc))) w) = None"
  have "fst (snd (checkSignerGates ul wc env signer w)) = None \<longleftrightarrow>
     (\<not> sg_blacklist (wc_gates wc)
      \<or> (if we_blErr env = None
         then \<not> list_ex (\<lambda>b. bl_Signer b = ToLower ul signer) (db_blacklist (w_db w))
         else sg_blacklistFailOpen (wc_gates wc))) \<and> ?g"
    by (cases "we_blErr env") (simp_all add: checkSignerGates_def IsBlacklisted_def Let_def)
  then show ?thesis by (simp add: quotaGate_None)
qed

lemma gates_quota:
  "checkSignerGates ul wc env k w = (ws, None, w') \<Longrightarrow> fst (quotaGate ul wc env k ws w) = None"
  by (auto simp: checkSignerGates_def Let_def split: if_splits sum.splits)

lemma keyless_banned:
  assumes "wc_keyless wc" "sg_blacklist (wc_gates wc)" "we_blErr env = None"
    and "DecodeSignedTx lib s = Inr dtx"
    and "\<exists>b \<in> set (db_blacklist (w_db w)). bl_Signer b = ToLower ul (BytesToHex (dx_Signer dtx))"
    and "makeSendRawTxHandler ul wc lib env ctx s w = (res, w')"
  shows "w_sent w' = w_sent w \<and> w_db w' = w_db w \<and> (\<exists>e. res = Inl e)"
proof -
  have "fst (snd (checkSignerGates ul wc env (BytesToHex (dx_Signer dtx)) w)) \<noteq> None"
    using assms(2,3,5) by (auto simp: checkSignerGates_def IsBlacklisted_def list_ex_iff Let_def)
  then have nb: "resolveBroadcast ul wc lib env s w \<noteq> (Inr x, w1)" for x w1
    using assms(1,4) by (cases x) (auto simp: resolveBroadcast_def dest!: prepareKeyless_ok decodeAndScope_ok)
  have "w_sent w' = w_sent w"
  proof (rule ccontr)
    assume n: "w_sent w' \<noteq> w_sent w"
    show False by (rule handler_sent [OF assms(6) n]) (use nb in blast)
  qed
  with handler_refused [OF assms(6)] show ?thesis by blast
qed

section \<open>The quota over a run\<close>

text \<open>
  \<open>succeeded\<close> counts, in a sequence of calls served one after another, the successful
  broadcasts of the signer \<open>k\<close> (as the table spells it) in the window \<open>ws\<close>.
\<close>

type_synonym write_call = "write_env \<times> Claims option \<times> string"

definition counts_for ::
  "(string \<Rightarrow> string) \<Rightarrow> write_cfg \<Rightarrow> 'm tx_lib \<Rightarrow> string \<Rightarrow> time \<Rightarrow> write_env \<Rightarrow> string \<Rightarrow> bool" where
  "counts_for ul wc lib k ws env s =
     (case DecodeSignedTx lib s of
        Inl _ \<Rightarrow> False
      | Inr dtx \<Rightarrow> ToLower ul (BytesToHex (dx_Signer dtx)) = k
                   \<and> WindowStart (we_now env) (sg_window (wc_gates wc)) = ws)"

fun succeeded ::
  "(string \<Rightarrow> string) \<Rightarrow> write_cfg \<Rightarrow> 'm tx_lib \<Rightarrow> string \<Rightarrow> time \<Rightarrow> write_call list \<Rightarrow> world \<Rightarrow> nat" where
  "succeeded ul wc lib k ws [] w = 0"
| "succeeded ul wc lib k ws ((env, ctx, s) # calls) w =
     (case makeSendRawTxHandler ul wc lib env ctx s w of (res, w') \<Rightarrow>
        (if \<not> isl res \<and> counts_for ul wc lib k ws env s then 1 else 0)
        + succeeded ul wc lib k ws calls w')"

text \<open>One call: it passes the gate below the limit, and adds one exactly when it succeeds.\<close>

lemma quota_step:
  assumes "wc_keyless wc" "sg_quota (wc_gates wc)" "we_qErr env = None" "we_incErr env = None"
    and run: "makeSendRawTxHandler ul wc lib env ctx s w = (res, w')"
  shows "quota_count k ws (w_db w')
           = quota_count k ws (w_db w) + (if \<not> isl res \<and> counts_for ul wc lib k ws env s then 1 else 0)"
    and "\<not> isl res \<and> counts_for ul wc lib k ws env s \<Longrightarrow>
           int (quota_count k ws (w_db w)) < sg_rate (wc_gates wc)"
proof -
  let ?A = "quota_count k ws (w_db w')
           = quota_count k ws (w_db w) + (if \<not> isl res \<and> counts_for ul wc lib k ws env s then 1 else 0)"
  let ?B = "\<not> isl res \<and> counts_for ul wc lib k ws env s \<longrightarrow>
           int (quota_count k ws (w_db w)) < sg_rate (wc_gates wc)"
  have "?A \<and> ?B"
  proof (cases "w_sent w' = w_sent w")
    case True
    with handler_refused [OF run] show ?thesis by auto
  next
    case False
    show ?thesis
    proof (rule handler_sent [OF run False])
      fix d ws0 h w1
      assume r: "resolveBroadcast ul wc lib env s w = (Inr (d, ws0, h), w1)" "w_db w1 = w_db w"
        and b: "broadcast ul wc env d ws0 h w1 = (res, w')"
      from r(1) assms(1) obtain dtx where d: "d = Some dtx" "DecodeSignedTx lib s = Inr dtx"
        and g: "checkSignerGates ul wc env (BytesToHex (dx_Signer dtx)) w = (ws0, None, w1)"
        by (auto simp: resolveBroadcast_def dest!: prepareKeyless_ok decodeAndScope_ok)
      have ws0: "ws0 = WindowStart (we_now env) (sg_window (wc_gates wc))"
        using g by (auto simp: checkSignerGates_def Let_def split: if_splits sum.splits)
      have c: "counts_for ul wc lib k ws env s \<longleftrightarrow> ToLower ul (BytesToHex (dx_Signer dtx)) = k \<and> ws0 = ws"
        by (simp add: counts_for_def d ws0)
      have lim: "int (quota_count (ToLower ul (BytesToHex (dx_Signer dtx))) ws0 (w_db w)) < sg_rate (wc_gates wc)"
        using gates_quota [OF g] assms(2,3) by (simp add: quotaGate_None)
      show ?thesis
      proof (cases "we_send env h")
        case (Inl e)
        with b r(2) show ?thesis by (auto simp: broadcast_def Let_def quota_count_def)
      next
        case (Inr t)
        with b r(2) c lim assms(2,4) d(1) show ?thesis
          by (auto simp: broadcast_def Let_def quotaIncrement_def Quota_Increment_def quota_count_def
              AList.update_conv')
      qed
    qed
  qed
  then show ?A and "\<not> isl res \<and> counts_for ul wc lib k ws env s \<Longrightarrow>
           int (quota_count k ws (w_db w)) < sg_rate (wc_gates wc)" by blast+
qed


lemma AddressFromHex_BytesToHex:
  assumes "length a = 20"
  shows "AddressFromHex (BytesToHex a) = Some a"
proof -
  have "length (EncodeToString a) = 40" using assms by (simp add: length_EncodeToString)
  then have "EncodeToString a \<noteq> ''0''" "EncodeToString a \<noteq> []" by auto
  then show ?thesis
    using assms by (simp add: AddressFromHex_def HexToBytes_def BytesToHex_def Has0xPrefix_def HasPrefix_def
        length_EncodeToString go_simps)
qed


definition anchor_addr :: address where
  "anchor_addr = replicate 20 (char_of (10 :: nat))"

definition anchor_hex :: string where
  "anchor_hex = BytesToHex anchor_addr"

definition signer_addr :: address where
  "signer_addr = replicate 20 (char_of (171 :: nat))"

definition anchor_tx :: Transaction where
  "anchor_tx =
     \<lparr>tx_Type = TypedTx 2, tx_ChainID = Some 1, tx_To = Some anchor_addr, tx_Input = ''abcdef'',
      tx_Value = None, tx_Signature = None\<rparr>"

definition one_tx :: "unit tx_lib" where
  "one_tx = \<lparr>tx_DecodeRLP = (\<lambda>_. Returns anchor_tx), tx_EncodeRLP = (\<lambda>_. Returns ''raw''),
             tx_Recover = (\<lambda>_. Returns (Some signer_addr))\<rparr>"

definition demo_gates :: signerGates where
  "demo_gates = \<lparr>sg_blacklist = True, sg_quota = True, sg_rate = 2, sg_window = 100,
                 sg_quotaFailOpen = False, sg_blacklistFailOpen = False\<rparr>"

definition demo_cfg :: write_cfg where
  "demo_cfg = \<lparr>wc_anchorAddr = anchor_hex, wc_keyless = True, wc_relayAllowAny = False,
               wc_audit = True, wc_metrics = True, wc_gates = demo_gates\<rparr>"

definition demo_env :: write_env where
  "demo_env = \<lparr>we_now = 1234, we_dbnow = 1234, we_blErr = None, we_qErr = None, we_incErr = None,
               we_audErr = None, we_send = (\<lambda>_. Inr ''0xhash'')\<rparr>"

definition empty_world :: world where
  "empty_world = \<lparr>w_db = \<lparr>db_blacklist = [], db_quota = [], db_audit = []\<rparr>, w_sent = [],
                  w_rejects = [], w_broadcasts = []\<rparr>"

lemma demo_decode:
  "DecodeSignedTx one_tx ''0x00'' =
     Inr \<lparr>dx_Signer = signer_addr, dx_To = Some anchor_addr, dx_Input = ''abcdef'', dx_Value = 0,
          dx_CanonicalRaw = ''raw''\<rparr>"
  by (simp add: DecodeSignedTx_def decodeBody_def one_tx_def HasPrefix_def maxSignedTxHexLen_def
      fromHexChar_def orFail_def fixChainID_def anchor_tx_def Let_def)

lemma anchor_hex_parses: "AddressFromHex anchor_hex = Some anchor_addr"
  by (simp add: anchor_hex_def AddressFromHex_BytesToHex anchor_addr_def)

lemma demo_run:
  "makeSendRawTxHandler id demo_cfg one_tx demo_env None ''0x00'' empty_world = (res, w') \<Longrightarrow>
     w_sent w' = [''0x'' @ EncodeToString ''raw''] \<and> \<not> isl res"
  by (simp add: makeSendRawTxHandler_def requireRole_def resolveBroadcast_def prepareKeylessBroadcast_def
      decodeAndScope_def demo_decode demo_cfg_def anchor_hex_parses checkRelayScope_def checkSignerGates_def
      demo_gates_def IsBlacklisted_def quotaGate_def Quota_Count_def quota_count_def demo_env_def
      empty_world_def broadcast_def Let_def)
     (auto simp: isl_def)

theorem relay_scope_enforced_witness:
  "\<exists>h. w_sent (snd (makeSendRawTxHandler id demo_cfg one_tx demo_env None ''0x00'' empty_world)) = [h]
     \<and> h = ''0x'' @ EncodeToString ''raw''"
proof -
  obtain res w' where r: "makeSendRawTxHandler id demo_cfg one_tx demo_env None ''0x00'' empty_world = (res, w')"
    by fastforce
  have "w_sent w' \<noteq> w_sent empty_world" using demo_run [OF r] by (simp add: empty_world_def)
  moreover have "wc_keyless demo_cfg" by (simp add: demo_cfg_def)
  ultimately obtain h where "w_sent w' = w_sent empty_world @ [h]" "h = ''0x'' @ EncodeToString ''raw''"
    using relay_scope_enforced [OF r] by (auto simp: demo_decode)
  then show ?thesis unfolding r by (simp add: empty_world_def)
qed


section \<open>The audit trail\<close>

lemma resolve_decoded:
  "resolveBroadcast ul wc lib env s w = (Inr (d, ws, h), w1) \<Longrightarrow> DecodeSignedTx lib s = Inr dtx \<Longrightarrow>
     d = Some dtx"
  by (auto simp: resolveBroadcast_def dest!: prepareKeyless_ok decodeAndScope_ok
      split: if_splits prod.splits sum.splits)

lemma length_boundAuditErr: "length (boundAuditErr e) \<le> maxAuditErrLen + 14"
  by (auto simp: boundAuditErr_def Let_def split: option.split)



text \<open>
  Queries of the audit table: a query returns rows of the table that match its
  filter, newest first, and never more than a thousand of them, whatever limit the caller asks
  for.
\<close>

theorem audit_query_bounded:
  assumes "WriteAudit_Query ul None f db = Inr rows"
  shows "length rows \<le> 1000 \<and> set rows \<subseteq> {e \<in> set (db_audit db). audit_match ul f e}
       \<and> sorted_wrt (\<lambda>a b. wa_CreatedAt b \<le> wa_CreatedAt a) rows"
proof -
  have rows: "rows = take (nat (queryLimit (wf_Limit f)))
      (sort_key (\<lambda>e. - wa_CreatedAt e) (filter (audit_match ul f) (db_audit db)))"
    using assms by (simp add: WriteAudit_Query_def)
  have "nat (queryLimit (wf_Limit f)) \<le> 1000"
    by (auto simp: queryLimit_def defaultWriteAuditQueryLimit_def maxWriteAuditQueryLimit_def Let_def)
  then have "length rows \<le> 1000" by (simp add: rows)
  moreover have "set rows \<subseteq> {e \<in> set (db_audit db). audit_match ul f e}"
    using set_take_subset by (fastforce simp: rows)
  moreover have "sorted (map (\<lambda>e. - wa_CreatedAt e) rows)"
    unfolding rows take_map [symmetric] by (simp add: sorted_wrt_take)
  then have "sorted_wrt (\<lambda>a b. wa_CreatedAt b \<le> wa_CreatedAt a) rows"
    by (simp add: sorted_wrt_map)
  ultimately show ?thesis by blast
qed

theorem audit_query_bounded_witness:
  "\<exists>rows. WriteAudit_Query id None \<lparr>wf_Signer = '''', wf_From = None, wf_To = None, wf_Limit = 5000\<rparr>
           \<lparr>db_blacklist = [], db_quota = [], db_audit = replicate 3000 (auditEntryOf
              \<lparr>dx_Signer = signer_addr, dx_To = None, dx_Input = [], dx_Value = 0, dx_CanonicalRaw = []\<rparr> [] [] [])\<rparr>
        = Inr rows \<and> length rows \<le> 1000"
  using audit_query_bounded [of id "\<lparr>wf_Signer = '''', wf_From = None, wf_To = None, wf_Limit = 5000\<rparr>"
      "\<lparr>db_blacklist = [], db_quota = [], db_audit = replicate 3000 (auditEntryOf
              \<lparr>dx_Signer = signer_addr, dx_To = None, dx_Input = [], dx_Value = 0, dx_CanonicalRaw = []\<rparr> [] [] [])\<rparr>"]
  by (simp add: WriteAudit_Query_def)

end
