(* ===== verification/Anchor_Prepare.thy ===== *)
theory Anchor_Prepare
  imports Anchor Write_Relay
begin

text \<open>
  The preparation of unsigned transactions (\<^verbatim>\<open>internal/anchor/prepare.go\<close>): the checks of the
  five requests, the resolution of the latest record version, the gas limit with its margin and
  the two transaction forms. An indexing of the ABI by a method it does not declare yields a nil
  method, on which \<^verbatim>\<open>EncodeArgs\<close> panics.
\<close>

section \<open>Requests and responses\<close>

record WalletTransactionRequest =
  wq_From :: string
  wq_To :: string
  wq_Data :: string
  wq_Value :: string
  wq_ChainID :: string
  wq_Gas :: string
  wq_Nonce :: string
  wq_GasPrice :: string
  wq_MaxFeePerGas :: string
  wq_MaxPriorityFeePerGas :: string

record UnsignedTransaction =
  un_RawTx :: string
  un_Type :: nat
  un_To :: string
  un_Data :: string
  un_Nonce :: uint64
  un_Gas :: uint64
  un_GasPrice :: string
  un_MaxFeePerGas :: string
  un_MaxPriorityFeePerGas :: string
  un_Value :: string
  un_ChainID :: int
  un_WalletTxRequest :: WalletTransactionRequest

record PrepareAddRegistryRequest =
  pg_From :: string
  pg_Name :: string
  pg_Description :: string
  pg_Metadata :: string
  pg_PreferLegacy :: bool

record PrepareAddRecordRequest =
  pa_From :: string
  pa_RegistryID :: uint64
  pa_URI :: string
  pa_Checksum :: string
  pa_ChecksumAlgo :: string
  pa_Status :: string
  pa_Metadata :: string
  pa_PreferLegacy :: bool

record PrepareUpdateRecordStatusRequest =
  pu_From :: string
  pu_RegistryID :: uint64
  pu_RecordID :: uint64
  pu_Index :: "uint64 option"
  pu_Status :: string
  pu_PreferLegacy :: bool

record PrepareRoleRequest =
  pl_From :: string
  pl_RegistryID :: uint64
  pl_Checksum :: string
  pl_Account :: string
  pl_Role :: string
  pl_PreferLegacy :: bool

section \<open>Numbers\<close>

definition gasEstimateBufferPercent :: uint64 where
  "gasEstimateBufferPercent = 20"

definition defaultPriorityFeeWei :: int where
  "defaultPriorityFeeWei = 1000000000"

definition maxRegistryNameLen :: nat where
  "maxRegistryNameLen = 128"

definition applyGasBuffer :: "uint64 \<Rightarrow> uint64" where
  "applyGasBuffer estimate =
     (let buffer = estimate * gasEstimateBufferPercent div 100 in estimate + buffer)"

text \<open>\<^verbatim>\<open>big.Int.Text(16)\<close>.\<close>

fun hex_nat :: "nat \<Rightarrow> string" where
  "hex_nat n = (if n < 16 then [hexDigit n] else hex_nat (n div 16) @ [hexDigit (n mod 16)])"

declare hex_nat.simps [simp del]

definition hexText :: "int \<Rightarrow> string" where
  "hexText i = (if i < 0 then CHR ''-'' # hex_nat (nat (- i)) else hex_nat (nat i))"

definition hexQuantity :: "int \<Rightarrow> string" where
  "hexQuantity i = ''0x'' @ hexText i"

section \<open>The transaction\<close>

definition buildLegacyUnsignedTx ::
  "'w anchor_client \<Rightarrow> uint64 \<Rightarrow> uint64 \<Rightarrow> int \<Rightarrow> string \<Rightarrow> string \<Rightarrow> string
     \<Rightarrow> goerr + UnsignedTransaction" where
  "buildLegacyUnsignedTx c nonce gasLimit gasPrice dataHex toHex fromChecksummed =
     (case DecodeString (TrimPrefix dataHex ''0x'') of
        Inl e \<Rightarrow> Inl (wrapf ''decode calldata hex'' (Ext OtherExt (hexErrText e)))
      | Inr calldata \<Rightarrow>
          (case an_rawTx c \<lparr>tf_Type = 0, tf_ChainID = None, tf_To = an_address c, tf_Value = 0,
                            tf_GasLimit = gasLimit, tf_GasPrice = Some gasPrice,
                            tf_MaxPriorityFeePerGas = None, tf_MaxFeePerGas = None,
                            tf_Input = calldata, tf_Nonce = nonce\<rparr> of
             Inl err \<Rightarrow> Inl (wrapf ''serialize unsigned transaction'' err)
           | Inr txBytes \<Rightarrow>
               Inr \<lparr>un_RawTx = ''0x'' @ EncodeToString txBytes, un_Type = 0, un_To = toHex,
                    un_Data = dataHex, un_Nonce = nonce, un_Gas = gasLimit,
                    un_GasPrice = dec_int gasPrice, un_MaxFeePerGas = '''',
                    un_MaxPriorityFeePerGas = '''', un_Value = ''0'', un_ChainID = an_chainID c,
                    un_WalletTxRequest =
                      \<lparr>wq_From = fromChecksummed, wq_To = toHex, wq_Data = dataHex, wq_Value = ''0x0'',
                       wq_ChainID = hexQuantity (an_chainID c), wq_Gas = hexQuantity (uint gasLimit),
                       wq_Nonce = hexQuantity (uint nonce), wq_GasPrice = hexQuantity gasPrice,
                       wq_MaxFeePerGas = '''', wq_MaxPriorityFeePerGas = ''''\<rparr>\<rparr>))"

text \<open>The tip: the node's suggestion when it gives a positive one, the default otherwise.\<close>

definition tipOf :: "int option outcome \<Rightarrow> int" where
  "tipOf r =
     (case r of Returns (Some t) \<Rightarrow> if t \<le> 0 then defaultPriorityFeeWei else t
      | _ \<Rightarrow> defaultPriorityFeeWei)"

definition maxFeeOf :: "int \<Rightarrow> int \<Rightarrow> int" where
  "maxFeeOf gasPrice tipCap = (let maxFee = gasPrice * 2 in if maxFee < tipCap then tipCap else maxFee)"

definition dynamicFeeTx ::
  "'w anchor_client \<Rightarrow> uint64 \<Rightarrow> uint64 \<Rightarrow> int \<Rightarrow> int \<Rightarrow> bytes \<Rightarrow> string \<Rightarrow> string \<Rightarrow> string
     \<Rightarrow> goerr + UnsignedTransaction" where
  "dynamicFeeTx c nonce gasLimit tipCap maxFee calldata dataHex toHex fromChecksummed =
     (if an_chainID c < 0 then
        Inl (wrapf (''chain ID '' @ dec_int (an_chainID c)) (Sentinel ErrInvalidChainID))
      else
        (case an_rawTx c \<lparr>tf_Type = 2, tf_ChainID = Some (word_of_int (an_chainID c)),
                          tf_To = an_address c, tf_Value = 0, tf_GasLimit = gasLimit,
                          tf_GasPrice = None, tf_MaxPriorityFeePerGas = Some tipCap,
                          tf_MaxFeePerGas = Some maxFee, tf_Input = calldata, tf_Nonce = nonce\<rparr> of
           Inl err \<Rightarrow> Inl (wrapf ''serialize unsigned transaction'' err)
         | Inr txBytes \<Rightarrow>
             Inr \<lparr>un_RawTx = ''0x'' @ EncodeToString txBytes, un_Type = 2, un_To = toHex,
                  un_Data = dataHex, un_Nonce = nonce, un_Gas = gasLimit,
                  un_GasPrice = dec_int maxFee, un_MaxFeePerGas = dec_int maxFee,
                  un_MaxPriorityFeePerGas = dec_int tipCap, un_Value = ''0'',
                  un_ChainID = an_chainID c,
                  un_WalletTxRequest =
                    \<lparr>wq_From = fromChecksummed, wq_To = toHex, wq_Data = dataHex, wq_Value = ''0x0'',
                     wq_ChainID = hexQuantity (an_chainID c), wq_Gas = hexQuantity (uint gasLimit),
                     wq_Nonce = hexQuantity (uint nonce), wq_GasPrice = '''',
                     wq_MaxFeePerGas = hexQuantity maxFee,
                     wq_MaxPriorityFeePerGas = hexQuantity tipCap\<rparr>\<rparr>))"

definition sumW :: "goerr + 'a \<Rightarrow> ('w, 'a) call" where
  "sumW r = (case r of Inl e \<Rightarrow> failW e | Inr a \<Rightarrow> retW a)"

text \<open>A panic of the node's client is not caught here; an error of the tip query is.\<close>

definition buildDynamicFeeUnsignedTx ::
  "'w anchor_client \<Rightarrow> uint64 \<Rightarrow> uint64 \<Rightarrow> int \<Rightarrow> bytes \<Rightarrow> string \<Rightarrow> string \<Rightarrow> string
     \<Rightarrow> ('w, UnsignedTransaction) call" where
  "buildDynamicFeeUnsignedTx c nonce gasLimit gasPrice calldata dataHex toHex fromChecksummed w =
     (case ea_SuggestGasTipCap (an_evm c) w of
        (Panics, w') \<Rightarrow> (Panics, w')
      | (r, w') \<Rightarrow>
          let tipCap = tipOf r in
          sumW (dynamicFeeTx c nonce gasLimit tipCap (maxFeeOf gasPrice tipCap) calldata dataHex toHex
                  fromChecksummed) w')"

definition buildUnsignedTx ::
  "'w anchor_client \<Rightarrow> string \<Rightarrow> bytes \<Rightarrow> bool \<Rightarrow> ('w, UnsignedTransaction) call" where
  "buildUnsignedTx c fromHex calldata preferLegacy =
     (case ParseAddress (an_ut c) (an_kec c) fromHex of
        Inl err \<Rightarrow> failW (Errorf (''from '' @ Error err) [err])
      | Inr from \<Rightarrow>
          bindW (wrapW (wrapf ''get pending nonce'') (ea_PendingNonceAt (an_evm c) from)) (\<lambda>nonce.
          bindW (wrapW (wrapf ''get gas price'') (ea_SuggestGasPrice (an_evm c))) (\<lambda>gasPrice.
          bindW (wrapW (precompileErr (uLower (an_ut c)) ''estimate gas'')
                   (ea_EstimateGas (an_evm c)
                      \<lparr>ca_From = Some from, ca_To = Some (an_address c), ca_Input = calldata\<rparr>)) (\<lambda>gasEstimate.
            let gasLimit = applyGasBuffer gasEstimate;
                dataHex = ''0x'' @ EncodeToString calldata;
                toHex = AddressHex (an_kec c) (an_address c);
                fromChecksummed = AddressHex (an_kec c) from
            in if preferLegacy
               then sumW (buildLegacyUnsignedTx c nonce gasLimit gasPrice dataHex toHex fromChecksummed)
               else buildDynamicFeeUnsignedTx c nonce gasLimit gasPrice calldata dataHex toHex
                      fromChecksummed))))"

section \<open>The five preparations\<close>

definition missing :: "string \<Rightarrow> ('w, 'a) call" where
  "missing what = failW (wrapf (what @ '' is required'') (Sentinel ErrMissingRequired))"

definition validateRole :: "(string \<Rightarrow> string) \<Rightarrow> string \<Rightarrow> goerr option" where
  "validateRole uq role =
     (if role = '''' then Some (wrapf ''role is required'' (Sentinel ErrMissingRequired))
      else if role \<noteq> ''admin'' \<and> role \<noteq> ''editor'' then
        Some (wrapf (''role '' @ Quote uq role) (Sentinel ErrInvalidRole))
      else None)"

text \<open>\<open>encodeCall\<close> is \<^verbatim>\<open>c.parsedABI.Methods[name].EncodeArgs(...)\<close>.\<close>

definition encodeCall :: "abi \<Rightarrow> string \<Rightarrow> abi_args \<Rightarrow> ('w, bytes) call" where
  "encodeCall ab name args =
     (if map_of (ab_Methods ab) name = None then liftW Panics
      else wrapW (wrapf (''pack '' @ name)) (sumW (ab_Encode ab name args)))"

definition PrepareAddRegistry ::
  "'w anchor_client \<Rightarrow> PrepareAddRegistryRequest \<Rightarrow> ('w, UnsignedTransaction) call" where
  "PrepareAddRegistry c req = requireABI c (\<lambda>ab.
     if pg_From req = '''' then missing ''from address''
     else if pg_Name req = '''' then missing ''name''
     else if length (pg_Name req) > maxRegistryNameLen then
       failW (wrapf (''name is '' @ dec_nat (length (pg_Name req)) @
                '' characters, the anchoring precompile allows at most '' @ dec_nat maxRegistryNameLen)
                (Sentinel ErrInputTooLarge))
     else
       bindW (encodeCall ab ''addRegistry''
                (AddRegistryArgs (pg_Name req) (pg_Description req) (pg_Metadata req))) (\<lambda>calldata.
       buildUnsignedTx c (pg_From req) calldata (pg_PreferLegacy req)))"

definition PrepareAddRecord ::
  "'w anchor_client \<Rightarrow> PrepareAddRecordRequest \<Rightarrow> ('w, UnsignedTransaction) call" where
  "PrepareAddRecord c req = requireABI c (\<lambda>ab.
     let checksum = normalizeChecksum (pa_Checksum req) in
     if pa_From req = '''' then missing ''from address''
     else if pa_RegistryID req = 0 then
       failW (wrapf ''registry_id must be > 0'' (Sentinel ErrInvalidRegistryID))
     else if checksum = '''' then missing ''checksum''
     else if pa_ChecksumAlgo req = '''' then missing ''checksum_algo''
     else if pa_Metadata req = '''' then missing ''metadata''
     else if TrimSpace (pa_Metadata req) = ''{}'' then failW (Sentinel ErrEmptyMetadataObject)
     else
       bindW (encodeCall ab ''addRecord''
                (AddRecordArgs
                   \<lparr>rw_URI = pa_URI req, rw_Checksum = checksum, rw_ChecksumAlgo = pa_ChecksumAlgo req,
                    rw_Metadata = pa_Metadata req, rw_Timestamp = '''',
                    rw_Status = (if pa_Status req = '''' then ''Active'' else pa_Status req),
                    rw_RecordID = 0, rw_Index = 0, rw_IsLatest = False,
                    rw_RegistryID = pa_RegistryID req\<rparr>)) (\<lambda>calldata.
       buildUnsignedTx c (pa_From req) calldata (pa_PreferLegacy req)))"

text \<open>The loop of \<^verbatim>\<open>latestRecordIndex\<close>: the flagged row, else the highest index of the record.\<close>

fun pickIndex :: "uint64 \<Rightarrow> uint64 \<Rightarrow> Record list \<Rightarrow> uint64" where
  "pickIndex recordID highest [] = highest"
| "pickIndex recordID highest (row # rows) =
     (if rc_RecordID row \<noteq> recordID \<or> rc_Index row = 0 then pickIndex recordID highest rows
      else if rc_IsLatest row then rc_Index row
      else pickIndex recordID (if rc_Index row > highest then rc_Index row else highest) rows)"

definition recordName :: "uint64 \<Rightarrow> uint64 \<Rightarrow> string" where
  "recordName registryID recordID =
     ''registry '' @ dec_int (uint registryID) @ '' record '' @ dec_int (uint recordID)"

definition recordErr :: "uint64 \<Rightarrow> uint64 \<Rightarrow> goerr \<Rightarrow> goerr" where
  "recordErr registryID recordID err =
     (if Contains (Error err) ''not found''
      then wrapf (recordName registryID recordID) (Sentinel ErrRecordNotFound)
      else wrapf ''resolve latest version index'' err)"

definition latestRecordIndex :: "'w anchor_client \<Rightarrow> uint64 \<Rightarrow> uint64 \<Rightarrow> ('w, uint64) call" where
  "latestRecordIndex c registryID recordID =
     bindW (wrapW (recordErr registryID recordID)
              (GetRecords c \<lparr>rq_RegistryID = Some registryID, rq_RecordID = Some recordID,
                             rq_Index = None, rq_Checksum = None, rq_Pagination = None\<rparr>)) (\<lambda>resp.
       let highest = pickIndex recordID 0 (re_Records resp) in
       if highest = 0 then
         failW (wrapf (recordName registryID recordID @ '' has no versions to update'')
                  (Sentinel ErrRecordNotFound))
       else retW highest)"

definition PrepareUpdateRecordStatus ::
  "'w anchor_client \<Rightarrow> PrepareUpdateRecordStatusRequest \<Rightarrow> ('w, UnsignedTransaction) call" where
  "PrepareUpdateRecordStatus c req = requireABI c (\<lambda>ab.
     if pu_From req = '''' then missing ''from address''
     else if pu_RegistryID req = 0 then
       failW (wrapf ''registry_id must be > 0'' (Sentinel ErrInvalidRegistryID))
     else if pu_RecordID req = 0 then
       failW (wrapf ''record_id must be > 0'' (Sentinel ErrInvalidRecordID))
     else if pu_Status req = '''' then missing ''status''
     else
       let index = optU64 (pu_Index req) in
       bindW (if index = 0 then latestRecordIndex c (pu_RegistryID req) (pu_RecordID req)
              else retW index) (\<lambda>index.
       bindW (encodeCall ab ''updateRecordStatus''
                (UpdateRecordStatusArgs (pu_RegistryID req) (pu_RecordID req) index (pu_Status req)))
       (\<lambda>calldata. buildUnsignedTx c (pu_From req) calldata (pu_PreferLegacy req))))"

text \<open>\<open>grantRole\<close> and \<open>revokeRole\<close> differ in the method only.\<close>

definition prepareRole ::
  "string \<Rightarrow> 'w anchor_client \<Rightarrow> PrepareRoleRequest \<Rightarrow> ('w, UnsignedTransaction) call" where
  "prepareRole method c req = requireABI c (\<lambda>ab.
     if pl_From req = '''' then missing ''from address''
     else if pl_Account req = '''' then missing ''account address''
     else orElseW (validateRole (uQuote (an_ut c)) (pl_Role req))
       (case ParseAddress (an_ut c) (an_kec c) (pl_Account req) of
          Inl err \<Rightarrow> failW (Errorf (''account '' @ Error err) [err])
        | Inr account \<Rightarrow>
            bindW (encodeCall ab method
                     (RoleArgs (pl_RegistryID req) (normalizeChecksum (pl_Checksum req)) account
                        (pl_Role req))) (\<lambda>calldata.
            buildUnsignedTx c (pl_From req) calldata (pl_PreferLegacy req))))"

definition PrepareGrantRole ::
  "'w anchor_client \<Rightarrow> PrepareRoleRequest \<Rightarrow> ('w, UnsignedTransaction) call" where
  "PrepareGrantRole = prepareRole ''grantRole''"

definition PrepareRevokeRole ::
  "'w anchor_client \<Rightarrow> PrepareRoleRequest \<Rightarrow> ('w, UnsignedTransaction) call" where
  "PrepareRevokeRole = prepareRole ''revokeRole''"

section \<open>What a preparation returns\<close>

text \<open>
  \<open>agrees c tx f\<close>: the response \<open>tx\<close> describes, in both of its forms, the transaction with the
  fields \<open>f\<close>: the wallet request repeats the recipient, the calldata, the nonce, the gas limit
  and the fees, and the recipient is the precompile with value zero.
\<close>

definition agrees :: "'w anchor_client \<Rightarrow> UnsignedTransaction \<Rightarrow> TxFields \<Rightarrow> bool" where
  "agrees c tx f \<longleftrightarrow>
     tf_To f = an_address c \<and> tf_Value f = 0 \<and> un_Value tx = ''0'' \<and> un_ChainID tx = an_chainID c
   \<and> un_To tx = AddressHex (an_kec c) (tf_To f) \<and> un_Data tx = BytesToHex (tf_Input f)
   \<and> un_Nonce tx = tf_Nonce f \<and> un_Gas tx = tf_GasLimit f \<and> un_Type tx = tf_Type f
   \<and> wq_To (un_WalletTxRequest tx) = un_To tx \<and> wq_Data (un_WalletTxRequest tx) = un_Data tx
   \<and> wq_Value (un_WalletTxRequest tx) = ''0x0''
   \<and> wq_ChainID (un_WalletTxRequest tx) = hexQuantity (an_chainID c)
   \<and> wq_Gas (un_WalletTxRequest tx) = hexQuantity (uint (tf_GasLimit f))
   \<and> wq_Nonce (un_WalletTxRequest tx) = hexQuantity (uint (tf_Nonce f))
   \<and> (case (tf_MaxPriorityFeePerGas f, tf_MaxFeePerGas f) of
        (Some tip, Some cap) \<Rightarrow>
          un_Type tx = 2 \<and> 0 < tip \<and> tip \<le> cap \<and> 0 \<le> an_chainID c
          \<and> tf_ChainID f = Some (word_of_int (an_chainID c))
          \<and> un_MaxFeePerGas tx = dec_int cap \<and> un_MaxPriorityFeePerGas tx = dec_int tip
          \<and> un_GasPrice tx = dec_int cap
          \<and> wq_MaxFeePerGas (un_WalletTxRequest tx) = hexQuantity cap
          \<and> wq_MaxPriorityFeePerGas (un_WalletTxRequest tx) = hexQuantity tip
      | (None, None) \<Rightarrow>
          un_Type tx = 0 \<and> (\<exists>p. tf_GasPrice f = Some p \<and> un_GasPrice tx = dec_int p
            \<and> wq_GasPrice (un_WalletTxRequest tx) = hexQuantity p)
      | _ \<Rightarrow> False)"

lemma sumW_apply [simp]:
  "sumW r w = (Returns a, w') \<longleftrightarrow> r = Inr a \<and> w' = w"
  "sumW r w = (Fails e, w') \<longleftrightarrow> r = Inl e \<and> w' = w"
  by (auto simp: sumW_def split: sum.splits)

lemma tipOf_pos: "0 < tipOf r"
  by (auto simp: tipOf_def defaultPriorityFeeWei_def split: outcome.splits option.splits)

lemma maxFeeOf_ge: "tip \<le> maxFeeOf p tip"
  by (simp add: maxFeeOf_def Let_def)

lemma TrimPrefix_0x: "TrimPrefix (''0x'' @ s) ''0x'' = s"
  by (simp add: TrimPrefix_def HasPrefix_def)

lemma legacy_agrees:
  assumes "buildLegacyUnsignedTx c nonce g p (''0x'' @ EncodeToString cd) (AddressHex (an_kec c) (an_address c)) from
             = Inr tx"
  shows "\<exists>f raw. an_rawTx c f = Inr raw \<and> un_RawTx tx = BytesToHex raw \<and> tf_Input f = cd
           \<and> tf_Nonce f = nonce \<and> tf_GasLimit f = g \<and> agrees c tx f"
proof -
  let ?f = "\<lparr>tf_Type = 0, tf_ChainID = None, tf_To = an_address c, tf_Value = 0, tf_GasLimit = g,
      tf_GasPrice = Some p, tf_MaxPriorityFeePerGas = None, tf_MaxFeePerGas = None, tf_Input = cd,
      tf_Nonce = nonce\<rparr>"
  from assms obtain raw where r: "an_rawTx c ?f = Inr raw"
    by (auto simp: buildLegacyUnsignedTx_def TrimPrefix_0x [simplified] DecodeString_Encode split: sum.splits)
  with assms have "un_RawTx tx = BytesToHex raw \<and> tf_Input ?f = cd \<and> tf_Nonce ?f = nonce
      \<and> tf_GasLimit ?f = g \<and> agrees c tx ?f"
    by (auto simp: buildLegacyUnsignedTx_def TrimPrefix_0x [simplified] DecodeString_Encode agrees_def
        BytesToHex_def)
  with r show ?thesis by blast
qed

lemma dynamic_agrees:
  assumes "dynamicFeeTx c nonce g tip cap cd (''0x'' @ EncodeToString cd)
             (AddressHex (an_kec c) (an_address c)) from = Inr tx" "0 < tip" "tip \<le> cap"
  shows "\<exists>f raw. an_rawTx c f = Inr raw \<and> un_RawTx tx = BytesToHex raw \<and> tf_Input f = cd
           \<and> tf_Nonce f = nonce \<and> tf_GasLimit f = g \<and> agrees c tx f"
proof -
  let ?f = "\<lparr>tf_Type = 2, tf_ChainID = Some (word_of_int (an_chainID c)), tf_To = an_address c,
      tf_Value = 0, tf_GasLimit = g, tf_GasPrice = None, tf_MaxPriorityFeePerGas = Some tip,
      tf_MaxFeePerGas = Some cap, tf_Input = cd, tf_Nonce = nonce\<rparr>"
  from assms(1) obtain raw where r: "an_rawTx c ?f = Inr raw"
    by (auto simp: dynamicFeeTx_def split: sum.splits if_splits)
  with assms have "un_RawTx tx = BytesToHex raw \<and> tf_Input ?f = cd \<and> tf_Nonce ?f = nonce
      \<and> tf_GasLimit ?f = g \<and> agrees c tx ?f"
    by (auto simp: dynamicFeeTx_def agrees_def BytesToHex_def split: if_splits)
  with r show ?thesis by blast
qed

lemma buildUnsignedTx_agrees:
  assumes "buildUnsignedTx c from cd legacy w = (Returns tx, w')"
  obtains f raw where "an_rawTx c f = Inr raw" "un_RawTx tx = BytesToHex raw" "tf_Input f = cd" "agrees c tx f"
proof -
  from assms obtain a where a: "ParseAddress (an_ut c) (an_kec c) from = Inr a"
    by (auto simp: buildUnsignedTx_def split: sum.splits)
  from assms [unfolded buildUnsignedTx_def a sum.case] obtain nonce w1 p w2 g w3 where
    r: "(let gasLimit = applyGasBuffer g;
             dataHex = ''0x'' @ EncodeToString cd;
             toHex = AddressHex (an_kec c) (an_address c);
             fromChecksummed = AddressHex (an_kec c) a
         in if legacy then sumW (buildLegacyUnsignedTx c nonce gasLimit p dataHex toHex fromChecksummed)
            else buildDynamicFeeUnsignedTx c nonce gasLimit p cd dataHex toHex fromChecksummed) w3
        = (Returns tx, w')"
    by (elim bindW_ReturnsE) (simp only: prod.inject outcome.inject)
  show ?thesis
  proof (cases legacy)
    case True
    with r have "buildLegacyUnsignedTx c nonce (applyGasBuffer g) p (''0x'' @ EncodeToString cd)
        (AddressHex (an_kec c) (an_address c)) (AddressHex (an_kec c) a) = Inr tx"
      by (simp add: Let_def)
    from legacy_agrees [OF this] that show ?thesis by blast
  next
    case False
    with r obtain res where "dynamicFeeTx c nonce (applyGasBuffer g) (tipOf res) (maxFeeOf p (tipOf res)) cd
        (''0x'' @ EncodeToString cd) (AddressHex (an_kec c) (an_address c)) (AddressHex (an_kec c) a) = Inr tx"
      by (auto simp: Let_def buildDynamicFeeUnsignedTx_def split: prod.splits outcome.splits)
    from dynamic_agrees [OF this tipOf_pos maxFeeOf_ge] that show ?thesis by blast
  qed
qed

text \<open>The call data of a preparation, as the ABI encodes it.\<close>

lemma encodeCall_Returns:
  "encodeCall ab name args w = (Returns cd, w') \<longleftrightarrow>
     map_of (ab_Methods ab) name \<noteq> None \<and> ab_Encode ab name args = Inr cd \<and> w' = w"
  by (auto simp: encodeCall_def liftW_def)

lemma requireABI_Returns:
  assumes "requireABI c k w = (Returns a, w')"
  obtains ab where "an_abi c = Some ab" "k ab w = (Returns a, w')"
  using assms by (auto simp: requireABI_def split: option.splits)

lemma missing_apply [simp]: "missing s w \<noteq> (Returns a, w')"
  by (simp add: missing_def)

definition encodes :: "'w anchor_client \<Rightarrow> string \<Rightarrow> abi_args \<Rightarrow> UnsignedTransaction \<Rightarrow> bool" where
  "encodes c name args tx \<longleftrightarrow>
     (\<exists>ab f raw. an_abi c = Some ab \<and> ab_Encode ab name args = Inr (tf_Input f)
        \<and> an_rawTx c f = Inr raw \<and> un_RawTx tx = BytesToHex raw \<and> agrees c tx f)"

lemma encode_then_build:
  assumes "bindW (encodeCall ab name args) (\<lambda>cd. buildUnsignedTx c from cd legacy) w = (Returns tx, w')"
    and "an_abi c = Some ab"
  shows "encodes c name args tx"
proof -
  from assms(1) obtain cd w1 where e: "encodeCall ab name args w = (Returns cd, w1)"
    and b: "buildUnsignedTx c from cd legacy w1 = (Returns tx, w')" by (rule bindW_ReturnsE)
  from b obtain f raw where "an_rawTx c f = Inr raw" "un_RawTx tx = BytesToHex raw" "tf_Input f = cd"
    "agrees c tx f" by (rule buildUnsignedTx_agrees)
  with e assms(2) show ?thesis by (auto simp: encodes_def encodeCall_Returns)
qed

lemma PrepareAddRegistry_Returns:
  "PrepareAddRegistry c req w = (Returns tx, w') \<Longrightarrow>
     encodes c ''addRegistry'' (AddRegistryArgs (pg_Name req) (pg_Description req) (pg_Metadata req)) tx
     \<and> 0 < length (pg_Name req) \<and> length (pg_Name req) \<le> 128"
  by (auto simp: PrepareAddRegistry_def maxRegistryNameLen_def elim!: requireABI_Returns
      dest: encode_then_build split: if_splits)

lemma PrepareAddRecord_Returns:
  "PrepareAddRecord c req w = (Returns tx, w') \<Longrightarrow>
     pa_RegistryID req \<noteq> 0 \<and> normalizeChecksum (pa_Checksum req) \<noteq> '''' \<and> pa_ChecksumAlgo req \<noteq> ''''
     \<and> pa_Metadata req \<noteq> '''' \<and> TrimSpace (pa_Metadata req) \<noteq> ''{}''
     \<and> encodes c ''addRecord''
         (AddRecordArgs
            \<lparr>rw_URI = pa_URI req, rw_Checksum = normalizeChecksum (pa_Checksum req),
             rw_ChecksumAlgo = pa_ChecksumAlgo req, rw_Metadata = pa_Metadata req, rw_Timestamp = '''',
             rw_Status = (if pa_Status req = '''' then ''Active'' else pa_Status req),
             rw_RecordID = 0, rw_Index = 0, rw_IsLatest = False, rw_RegistryID = pa_RegistryID req\<rparr>) tx"
  by (auto simp: PrepareAddRecord_def Let_def elim!: requireABI_Returns
      dest: encode_then_build split: if_splits)

lemma prepareRole_Returns:
  "prepareRole m c req w = (Returns tx, w') \<Longrightarrow>
     (\<exists>account. ParseAddress (an_ut c) (an_kec c) (pl_Account req) = Inr account
        \<and> (pl_Role req = ''admin'' \<or> pl_Role req = ''editor'')
        \<and> encodes c m (RoleArgs (pl_RegistryID req) (normalizeChecksum (pl_Checksum req)) account (pl_Role req)) tx)"
  by (auto simp: prepareRole_def validateRole_def elim!: requireABI_Returns
      dest: encode_then_build split: if_splits sum.splits)

text \<open>\<open>prepared c w tx\<close>: one of the five preparations, started in \<open>w\<close>, returns \<open>tx\<close>.\<close>

definition prepared :: "'w anchor_client \<Rightarrow> 'w \<Rightarrow> UnsignedTransaction \<Rightarrow> bool" where
  "prepared c w tx \<longleftrightarrow>
     (\<exists>req w'. PrepareAddRegistry c req w = (Returns tx, w'))
   \<or> (\<exists>req w'. PrepareAddRecord c req w = (Returns tx, w'))
   \<or> (\<exists>req w'. PrepareUpdateRecordStatus c req w = (Returns tx, w'))
   \<or> (\<exists>req w'. PrepareGrantRole c req w = (Returns tx, w'))
   \<or> (\<exists>req w'. PrepareRevokeRole c req w = (Returns tx, w'))"

section \<open>The version that a status update names\<close>

definition isVersion :: "uint64 \<Rightarrow> Record \<Rightarrow> bool" where
  "isVersion recordID r \<longleftrightarrow> rc_RecordID r = recordID \<and> rc_Index r \<noteq> 0"

text \<open>The reference: the first version flagged latest, else the highest version.\<close>

definition latestVersion :: "uint64 \<Rightarrow> Record list \<Rightarrow> uint64" where
  "latestVersion recordID rows =
     (case find rc_IsLatest (filter (isVersion recordID) rows) of
        Some r \<Rightarrow> rc_Index r
      | None \<Rightarrow> Max (insert 0 (rc_Index ` set (filter (isVersion recordID) rows))))"

lemma pickIndex_from:
  "pickIndex recordID h rows =
     (case find rc_IsLatest (filter (isVersion recordID) rows) of
        Some r \<Rightarrow> rc_Index r
      | None \<Rightarrow> Max (insert h (rc_Index ` set (filter (isVersion recordID) rows))))"
proof (induction recordID h rows rule: pickIndex.induct)
  case (2 recordID h row rows)
  have "Max (insert h (insert i A)) = Max (insert (if i > h then i else h) A)"
    if "finite A" for i :: uint64 and A
    using that by (cases "A = {}") (auto simp: max_def ac_simps)
  with 2 show ?case by (auto simp: isVersion_def split: option.splits)
qed simp

lemma latestRecordIndex_Returns:
  "latestRecordIndex c registryID recordID w = (Returns i, w') \<Longrightarrow>
     i \<noteq> 0 \<and> (\<exists>resp. GetRecords c \<lparr>rq_RegistryID = Some registryID, rq_RecordID = Some recordID,
                      rq_Index = None, rq_Checksum = None, rq_Pagination = None\<rparr> w = (Returns resp, w')
                \<and> i = latestVersion recordID (re_Records resp))"
  by (auto simp: latestRecordIndex_def Let_def pickIndex_from latestVersion_def elim!: bindW_ReturnsE
      split: if_splits)

lemma PrepareUpdateRecordStatus_Returns:
  assumes "PrepareUpdateRecordStatus c req w = (Returns tx, w')"
  obtains i w1 where "i \<noteq> 0"
    "encodes c ''updateRecordStatus''
       (UpdateRecordStatusArgs (pu_RegistryID req) (pu_RecordID req) i (pu_Status req)) tx"
    "if optU64 (pu_Index req) = 0
     then latestRecordIndex c (pu_RegistryID req) (pu_RecordID req) w = (Returns i, w1)
     else i = optU64 (pu_Index req)"
proof -
  from assms [unfolded PrepareUpdateRecordStatus_def] obtain ab where ab: "an_abi c = Some ab"
    and k: "bindW (if optU64 (pu_Index req) = 0
          then latestRecordIndex c (pu_RegistryID req) (pu_RecordID req) else retW (optU64 (pu_Index req)))
        (\<lambda>index. bindW (encodeCall ab ''updateRecordStatus''
            (UpdateRecordStatusArgs (pu_RegistryID req) (pu_RecordID req) index (pu_Status req)))
          (\<lambda>calldata. buildUnsignedTx c (pu_From req) calldata (pu_PreferLegacy req))) w = (Returns tx, w')"
    by (elim requireABI_Returns) (simp add: Let_def split: if_splits)
  from k obtain i w1 where i: "(if optU64 (pu_Index req) = 0
          then latestRecordIndex c (pu_RegistryID req) (pu_RecordID req) else retW (optU64 (pu_Index req))) w
        = (Returns i, w1)"
    and b: "bindW (encodeCall ab ''updateRecordStatus''
            (UpdateRecordStatusArgs (pu_RegistryID req) (pu_RecordID req) i (pu_Status req)))
          (\<lambda>calldata. buildUnsignedTx c (pu_From req) calldata (pu_PreferLegacy req)) w1 = (Returns tx, w')"
    by (rule bindW_ReturnsE)
  from i have "i \<noteq> 0" by (auto dest: latestRecordIndex_Returns split: if_splits)
  moreover from i have "if optU64 (pu_Index req) = 0
     then latestRecordIndex c (pu_RegistryID req) (pu_RecordID req) w = (Returns i, w1)
     else i = optU64 (pu_Index req)" by (auto split: if_splits)
  ultimately show ?thesis using that encode_then_build [OF b ab] by blast
qed

text \<open>
  Status updates. The transaction of a status update encodes a version that exists:
  the one the caller named, and when the caller named none (or zero) the one the chain's answer
  flags as latest, or else the highest one; zero, which the precompile rejects, is never encoded.
\<close>

theorem status_update_names_a_version:
  assumes "PrepareUpdateRecordStatus c req w = (Returns tx, w')"
  shows "\<exists>i. i \<noteq> 0
     \<and> encodes c ''updateRecordStatus''
         (UpdateRecordStatusArgs (pu_RegistryID req) (pu_RecordID req) i (pu_Status req)) tx
     \<and> (if optU64 (pu_Index req) = 0
        then \<exists>resp w1. GetRecords c \<lparr>rq_RegistryID = Some (pu_RegistryID req),
               rq_RecordID = Some (pu_RecordID req), rq_Index = None, rq_Checksum = None,
               rq_Pagination = None\<rparr> w = (Returns resp, w1)
             \<and> i = latestVersion (pu_RecordID req) (re_Records resp)
        else i = optU64 (pu_Index req))"
  using assms
proof (rule PrepareUpdateRecordStatus_Returns)
  fix i w1
  assume "i \<noteq> 0" "encodes c ''updateRecordStatus''
         (UpdateRecordStatusArgs (pu_RegistryID req) (pu_RecordID req) i (pu_Status req)) tx"
    "if optU64 (pu_Index req) = 0
     then latestRecordIndex c (pu_RegistryID req) (pu_RecordID req) w = (Returns i, w1)
     else i = optU64 (pu_Index req)"
  then show ?thesis
    using latestRecordIndex_Returns [of c "pu_RegistryID req" "pu_RecordID req" w i w1]
    by (intro exI [of _ i]) (auto split: if_splits)
qed

section \<open>A client to evaluate\<close>

definition toy_abi :: abi where
  "toy_abi =
     \<lparr>ab_Methods = map (\<lambda>m. (m, take 4 m)) [''registries'', ''records'', ''addRegistry'', ''addRecord'',
        ''updateRecordStatus'', ''grantRole'', ''revokeRole''],
      ab_Encode = (\<lambda>name args. Inr name),
      ab_Registries = (\<lambda>_. Returns ([], \<lparr>po_NextKey = [], po_Total = 0\<rparr>)),
      ab_Records = (\<lambda>_. Returns
        ([\<lparr>rw_URI = [], rw_Checksum = [], rw_ChecksumAlgo = [], rw_Metadata = [], rw_Timestamp = [],
           rw_Status = ''Active'', rw_RecordID = 4, rw_Index = 2, rw_IsLatest = False, rw_RegistryID = 1\<rparr>,
          \<lparr>rw_URI = [], rw_Checksum = [], rw_ChecksumAlgo = [], rw_Metadata = [], rw_Timestamp = [],
           rw_Status = ''Active'', rw_RecordID = 4, rw_Index = 3, rw_IsLatest = True, rw_RegistryID = 1\<rparr>],
         \<lparr>po_NextKey = [], po_Total = 0\<rparr>))\<rparr>"

definition toy_evm :: "unit evm_api" where
  "toy_evm =
     \<lparr>ea_PendingNonceAt = (\<lambda>_. retW 7), ea_SuggestGasPrice = retW 5,
      ea_SuggestGasTipCap = failW (Ext RPCError ''method not found''),
      ea_EstimateGas = (\<lambda>_. retW 1000), ea_CallContract = (\<lambda>_. retW ''row'')\<rparr>"

definition toy_addr :: address where
  "toy_addr = replicate 20 (CHR ''a'')"

definition toy_client :: "unit anchor_client" where
  "toy_client =
     \<lparr>an_evm = toy_evm, an_address = replicate 20 (CHR ''p''), an_chainID = 787, an_abi = Some toy_abi,
      an_ut = plain_tables, an_kec = flat_hash, an_bech32 = (\<lambda>_. None),
      an_rawTx = (\<lambda>f. Inr (tf_Input f))\<rparr>"

lemma ParseAddress_AddressHex:
  "length a = 20 \<Longrightarrow> ParseAddress ut kec (AddressHex kec a) = Inr a"
  by (simp add: ParseAddress_def AddressFromHex_AddressHex Let_def)

lemma toy_parse: "ParseAddress plain_tables flat_hash (AddressHex flat_hash toy_addr) = Inr toy_addr"
  by (simp add: ParseAddress_AddressHex toy_addr_def)

lemma toy_encode:
  "name \<in> fst ` set (ab_Methods toy_abi) \<Longrightarrow> encodeCall toy_abi name args = retW name"
  by (auto simp: encodeCall_def toy_abi_def wrapW_def sumW_def retW_def fun_eq_iff)

lemma toy_build:
  "\<exists>tx. buildUnsignedTx toy_client (AddressHex flat_hash toy_addr) cd False () = (Returns tx, ())"
  by (simp add: buildUnsignedTx_def toy_client_def toy_parse toy_evm_def wrapW_def bindW_def retW_def
      failW_def Let_def buildDynamicFeeUnsignedTx_def dynamicFeeTx_def sumW_def)

definition toy_update :: PrepareUpdateRecordStatusRequest where
  "toy_update = \<lparr>pu_From = AddressHex flat_hash toy_addr, pu_RegistryID = 1, pu_RecordID = 4,
     pu_Index = None, pu_Status = ''Revoked'', pu_PreferLegacy = False\<rparr>"

definition toy_records :: "Record list" where
  "toy_records = (case ab_Records toy_abi [] of Returns (rows, _) \<Rightarrow> toRecords toy_client rows | _ \<Rightarrow> [])"

lemma toy_rows:
  "GetRecords toy_client req () =
     (Returns \<lparr>re_Records = toy_records, re_Pagination = Some \<lparr>pr_Total = 0, pr_NextKey = ''''\<rparr>\<rparr>, ())"
  by (simp add: GetRecords_def requireABI_def toy_client_def callPrecompile_def toy_abi_def toy_evm_def
      bindW_def wrapW_def retW_def liftW_def guardABIDecode_def toy_records_def)

lemma toy_latest: "pickIndex 4 0 toy_records = 3"
  by (simp add: toy_records_def toy_abi_def toRecords_def toRecord_def)

lemma toy_update_returns:
  "\<exists>tx. PrepareUpdateRecordStatus toy_client toy_update () = (Returns tx, ())"
proof -
  obtain tx where tx: "buildUnsignedTx toy_client (AddressHex flat_hash toy_addr) ''updateRecordStatus'' False ()
      = (Returns tx, ())" using toy_build by blast
  have "latestRecordIndex toy_client 1 4 () = (Returns 3, ())"
    by (simp add: latestRecordIndex_def bindW_def wrapW_def toy_rows toy_latest Let_def retW_def)
  moreover have "encodeCall toy_abi ''updateRecordStatus'' args = (retW ''updateRecordStatus'' :: (unit, bytes) call)" for args
    by (rule toy_encode) (simp add: toy_abi_def)
  moreover have "an_abi toy_client = Some toy_abi" by (simp add: toy_client_def)
  ultimately have "PrepareUpdateRecordStatus toy_client toy_update () = (Returns tx, ())"
    using tx by (simp add: PrepareUpdateRecordStatus_def requireABI_def toy_update_def optU64_def bindW_def
        retW_def Let_def AddressHex_def)
  then show ?thesis by blast
qed

theorem status_update_names_a_version_witness:
  "\<exists>tx. PrepareUpdateRecordStatus toy_client toy_update () = (Returns tx, ())
     \<and> encodes toy_client ''updateRecordStatus'' (UpdateRecordStatusArgs 1 4 3 ''Revoked'') tx"
proof -
  obtain tx where tx: "PrepareUpdateRecordStatus toy_client toy_update () = (Returns tx, ())"
    using toy_update_returns by blast
  have "latestVersion 4 toy_records = 3"
    using toy_latest by (simp add: pickIndex_from latestVersion_def)
  with status_update_names_a_version [OF tx] tx show ?thesis
    by (auto simp: toy_update_def optU64_def toy_rows)
qed

section \<open>Properties of the prepared transactions\<close>

definition writeMethods :: "string list" where
  "writeMethods = [''addRegistry'', ''addRecord'', ''updateRecordStatus'', ''grantRole'', ''revokeRole'']"

lemma prepared_encodes:
  assumes "prepared c w tx"
  shows "\<exists>name args. encodes c name args tx \<and> name \<in> set writeMethods"
proof -
  have m: "encodes c name args tx \<Longrightarrow> name \<in> set writeMethods \<Longrightarrow> ?thesis" for name args by blast
  have ms: "''addRegistry'' \<in> set writeMethods" "''addRecord'' \<in> set writeMethods"
    "''updateRecordStatus'' \<in> set writeMethods" "''grantRole'' \<in> set writeMethods"
    "''revokeRole'' \<in> set writeMethods"
    by (simp_all add: writeMethods_def)
  from assms consider req w' where "PrepareAddRegistry c req w = (Returns tx, w')"
    | req w' where "PrepareAddRecord c req w = (Returns tx, w')"
    | req w' where "PrepareUpdateRecordStatus c req w = (Returns tx, w')"
    | req w' where "prepareRole ''grantRole'' c req w = (Returns tx, w')"
    | req w' where "prepareRole ''revokeRole'' c req w = (Returns tx, w')"
    unfolding prepared_def PrepareGrantRole_def PrepareRevokeRole_def by blast
  then show ?thesis
  proof cases
    case 1 from PrepareAddRegistry_Returns [OF 1] show ?thesis using m ms(1) by blast
  next
    case 2 from PrepareAddRecord_Returns [OF 2] show ?thesis using m ms(2) by blast
  next
    case 3 from PrepareUpdateRecordStatus_Returns [OF 3] show ?thesis using m ms(3) by metis
  next
    case 4 from prepareRole_Returns [OF 4] show ?thesis using m ms(4) by blast
  next
    case 5 from prepareRole_Returns [OF 5] show ?thesis using m ms(5) by blast
  qed
qed

text \<open>
  Claim C14 (prepared transactions). Every transaction that a preparation returns is a zero-value
  call of the precompile: the raw bytes are the encoding of fields that the response and its
  wallet form repeat faithfully, the tip is positive and at most the fee cap, the calldata is
  what the ABI encodes for one of the five write methods, and the relay scope accepts it.
\<close>

theorem prepared_tx_consistent:
  assumes "prepared c w tx"
  shows "\<exists>ab name args f raw. an_abi c = Some ab \<and> name \<in> set writeMethods
     \<and> ab_Encode ab name args = Inr (tf_Input f) \<and> an_rawTx c f = Inr raw
     \<and> un_RawTx tx = BytesToHex raw \<and> agrees c tx f
     \<and> checkRelayScope (Some (tf_To f)) (Some (tf_Value f)) (an_address c) = None"
proof -
  from prepared_encodes [OF assms] obtain name args where e: "encodes c name args tx"
    and n: "name \<in> set writeMethods" by blast
  from e obtain ab f raw where f: "an_abi c = Some ab" "ab_Encode ab name args = Inr (tf_Input f)"
    "an_rawTx c f = Inr raw" "un_RawTx tx = BytesToHex raw" "agrees c tx f"
    unfolding encodes_def by blast
  moreover have "checkRelayScope (Some (tf_To f)) (Some (tf_Value f)) (an_address c) = None"
    using f(5) by (simp add: agrees_def checkRelayScope_def)
  ultimately show ?thesis using n by blast
qed

theorem prepared_tx_consistent_witness:
  "\<exists>tx f. prepared toy_client () tx \<and> agrees toy_client tx f"
proof -
  obtain tx where "PrepareUpdateRecordStatus toy_client toy_update () = (Returns tx, ())"
    using toy_update_returns by blast
  then have "prepared toy_client () tx" by (auto simp: prepared_def)
  with prepared_tx_consistent [OF this] show ?thesis by blast
qed

section \<open>Refused requests\<close>

definition badAddRegistry :: "PrepareAddRegistryRequest \<Rightarrow> bool" where
  "badAddRegistry req \<longleftrightarrow> pg_From req = '''' \<or> pg_Name req = '''' \<or> length (pg_Name req) > 128"

definition badAddRecord :: "PrepareAddRecordRequest \<Rightarrow> bool" where
  "badAddRecord req \<longleftrightarrow>
     pa_From req = '''' \<or> pa_RegistryID req = 0 \<or> normalizeChecksum (pa_Checksum req) = ''''
     \<or> pa_ChecksumAlgo req = '''' \<or> pa_Metadata req = '''' \<or> TrimSpace (pa_Metadata req) = ''{}''"

definition badUpdate :: "PrepareUpdateRecordStatusRequest \<Rightarrow> bool" where
  "badUpdate req \<longleftrightarrow>
     pu_From req = '''' \<or> pu_RegistryID req = 0 \<or> pu_RecordID req = 0 \<or> pu_Status req = ''''"

definition badRole :: "'w anchor_client \<Rightarrow> PrepareRoleRequest \<Rightarrow> bool" where
  "badRole c req \<longleftrightarrow>
     pl_From req = '''' \<or> pl_Account req = '''' \<or> (pl_Role req \<noteq> ''admin'' \<and> pl_Role req \<noteq> ''editor'')
     \<or> (\<exists>e. ParseAddress (an_ut c) (an_kec c) (pl_Account req) = Inl e)"

text \<open>\<open>refused r w\<close>: an input error, with the outside world as it was.\<close>

definition refused :: "'a outcome \<times> 'w \<Rightarrow> 'w \<Rightarrow> bool" where
  "refused r w \<longleftrightarrow> snd r = w \<and> (case fst r of Fails e \<Rightarrow> IsInputError e \<and> client_text e = Error e | _ \<Rightarrow> False)"

lemma refused_failW [simp]:
  "IsInputError e \<Longrightarrow> refused (failW e w) w"
  by (auto simp: refused_def failW_def client_text_cases disclosed_def IsInputError_iff)

lemmas refusals = missing_def input_wrapf input_Sentinel inputErrors_def requireABI_def

text \<open>
  refusals before the node. A request that misses a required field, names registry or
  record zero, has an over-long name, an empty JSON object as metadata, an unknown role or a
  malformed account is refused with an input error whose text the client reads, and before any
  call to the node: the outside world is the one it started from.
\<close>

theorem bad_requests_never_reach_node:
  assumes "an_abi c = Some ab"
  shows "(badAddRegistry r1 \<longrightarrow> refused (PrepareAddRegistry c r1 w) w)
       \<and> (badAddRecord r2 \<longrightarrow> refused (PrepareAddRecord c r2 w) w)
       \<and> (badUpdate r3 \<longrightarrow> refused (PrepareUpdateRecordStatus c r3 w) w)
       \<and> (badRole c r4 \<longrightarrow> refused (PrepareGrantRole c r4 w) w \<and> refused (PrepareRevokeRole c r4 w) w)"
proof (intro conjI impI)
  show "refused (PrepareAddRegistry c r1 w) w" if "badAddRegistry r1"
    using that assms by (auto simp add: PrepareAddRegistry_def badAddRegistry_def maxRegistryNameLen_def refusals)
  show "refused (PrepareAddRecord c r2 w) w" if "badAddRecord r2"
    using that assms unfolding badAddRecord_def
    by (elim disjE) (simp_all add: PrepareAddRecord_def refusals Let_def)
  show "refused (PrepareUpdateRecordStatus c r3 w) w" if "badUpdate r3"
    using that assms by (auto simp add: PrepareUpdateRecordStatus_def badUpdate_def refusals)
  have "refused (prepareRole m c r4 w) w" if "badRole c r4" for m
  proof -
    have "IsInputError (Errorf t [e])" if "ParseAddress (an_ut c) (an_kec c) (pl_Account r4) = Inl e" for t e
      using ParseAddress_input [OF that] by (auto simp: go_simps inputErrors_def)
    then show ?thesis
      using that assms by (auto simp: prepareRole_def badRole_def validateRole_def refusals orElseW_def)
  qed
  then show "refused (PrepareGrantRole c r4 w) w" "refused (PrepareRevokeRole c r4 w) w" if "badRole c r4"
    using that by (simp_all add: PrepareGrantRole_def PrepareRevokeRole_def)
qed

theorem bad_requests_never_reach_node_witness:
  "refused (PrepareUpdateRecordStatus toy_client (toy_update\<lparr>pu_RecordID := 0\<rparr>) ()) ()
   \<and> PrepareUpdateRecordStatus toy_client (toy_update\<lparr>pu_RecordID := 0\<rparr>) () \<noteq> (Panics, ())"
proof -
  have "an_abi toy_client = Some toy_abi" by (simp add: toy_client_def)
  from bad_requests_never_reach_node [OF this] have "refused (PrepareUpdateRecordStatus toy_client
      (toy_update\<lparr>pu_RecordID := 0\<rparr>) ()) ()"
    by (simp add: badUpdate_def)
  then show ?thesis by (auto simp: refused_def)
qed

section \<open>The gas margin\<close>

lemma unat_gasBuffer:
  "unat (e * 20 div 100 :: uint64) = unat e * 20 mod 2 ^ 64 div 100"
  by (simp add: unat_div_distrib unat_word_ariths)

text \<open>
  The gas margin: the gas limit is the estimate plus twenty percent exactly when the
  estimate is at most 922,337,203,685,477,580 (a sixty-four bit maximum divided by twenty);
  above it the product wraps around and the margin is smaller than announced.
\<close>

theorem gas_margin_exact:
  "unat (applyGasBuffer e) = unat e + unat e * 20 div 100 \<longleftrightarrow> unat e \<le> 922337203685477580"
proof -
  have e: "unat e < 2 ^ 64" using unsigned_less [of e, where ?'a = nat] by simp
  let ?b = "unat e * 20 mod 2 ^ 64 div 100"
  have r: "unat (applyGasBuffer e) = (unat e + ?b) mod 2 ^ 64"
    by (simp add: applyGasBuffer_def gasEstimateBufferPercent_def Let_def unat_word_ariths unat_gasBuffer)
  show ?thesis
  proof
    assume "unat e \<le> 922337203685477580"
    then have "unat e * 20 < 2 ^ 64" "unat e + unat e * 20 div 100 < 2 ^ 64" by simp_all
    then show "unat (applyGasBuffer e) = unat e + unat e * 20 div 100" by (simp add: r)
  next
    assume l: "unat (applyGasBuffer e) = unat e + unat e * 20 div 100"
    show "unat e \<le> 922337203685477580"
    proof (rule ccontr)
      assume "\<not> unat e \<le> 922337203685477580"
      then have big: "2 ^ 64 \<le> unat e * 20" by simp
      have "unat e * 20 mod 2 ^ 64 \<le> unat e * 20 - 2 ^ 64"
        using big by (metis le_mod_geq mod_less_eq_dividend)
      then have "?b \<le> (unat e * 20 - 2 ^ 64) div 100" by (rule div_le_mono)
      also have "\<dots> < (unat e * 20 - 2 ^ 64 + 100) div 100" by simp
      also have "\<dots> \<le> unat e * 20 div 100" using big by (intro div_le_mono) simp
      finally have "?b < unat e * 20 div 100" .
      then have "unat (applyGasBuffer e) < unat e + unat e * 20 div 100"
        using mod_less_eq_dividend [of "unat e + ?b" "2 ^ 64"] by (simp only: r)
      with l show False by simp
    qed
  qed
qed

end
