(* ===== verification/Anchor_Errors.thy ===== *)
theory Anchor_Errors
  imports Anchor
begin

text \<open>
  What a client reads of a failed query of the precompile: a fixed set of texts, none of which
  is the node's.
\<close>

definition curated_texts :: "string set" where
  "curated_texts =
     (\<lambda>(m, r, k). Error (curatePrecompileErr r k)) ` set safePrecompileReverts
     \<union> sentinel_text ` {ErrRegistryNotFound, ErrRecordNotFound}"

definition lookup_texts :: "string set" where
  "lookup_texts =
     {Error (wrapf ''registry lookup failed'' (Sentinel ErrRegistryNotFound)),
      Error (wrapf ''registry lookup returned no results'' (Sentinel ErrRegistryNotFound)),
      Error (wrapf ''registry id must be > 0'' (Sentinel ErrInvalidRegistryID))}"

definition abiMissing_text :: "'w anchor_client \<Rightarrow> string" where
  "abiMissing_text c =
     ''set ANCHOR_ABI_PATH to a valid ABI JSON file (precompile address: '' @
       AddressHex (an_kec c) (an_address c) @ ''): '' @ sentinel_text ErrAnchorABIMissing"

definition read_texts :: "'w anchor_client \<Rightarrow> string set" where
  "read_texts c = insert (abiMissing_text c) (generic_texts \<union> curated_texts \<union> lookup_texts)"

text \<open>\<open>foreign c\<close>: the errors of the codec and of the node carry none of the program's sentinels.\<close>

definition foreign :: "'w anchor_client \<Rightarrow> bool" where
  "foreign c \<longleftrightarrow>
     (\<forall>call w e w'. ea_CallContract (an_evm c) call w = (Fails e, w') \<longrightarrow> external e)
     \<and> (\<forall>ab name args e. an_abi c = Some ab \<longrightarrow> ab_Encode ab name args = Inl e \<longrightarrow> external e)
     \<and> (\<forall>ab out e. an_abi c = Some ab \<longrightarrow>
          (ab_Registries ab out = Fails e \<longrightarrow> external e) \<and> (ab_Records ab out = Fails e \<longrightarrow> external e))"

lemma text_curated:
  assumes "k \<in> set disclosed"
  shows "client_text (curatePrecompileErr r k) = Error (curatePrecompileErr r k)"
  using assms by (auto simp: client_text_cases curatePrecompileErr_def wrapf_def go_simps)

lemma kinds_disclosed: "(m, r, k) \<in> set safePrecompileReverts \<Longrightarrow> k \<in> set disclosed"
  by (auto simp: safePrecompileReverts_def disclosed_def inputErrors_def)

lemma classify_Some:
  assumes "classifyPrecompileRevert ul (Some err) = Some (r, k)"
  shows "(\<exists>m. (m, r, k) \<in> set safePrecompileReverts)
     \<or> (k \<in> {ErrRegistryNotFound, ErrRecordNotFound} \<and> r = sentinel_text k)"
  using assms
  by (auto simp: classifyPrecompileRevert_def Let_def dest!: find_SomeD split: if_splits)

lemma text_precompileErr:
  assumes "external err"
  shows "client_text (precompileErr ul op err) \<in> generic_texts \<union> curated_texts"
proof (cases "classifyPrecompileRevert ul (Some err)")
  case None
  with assms show ?thesis
    by (simp add: precompileErr_def client_text_wrapf_external generic_texts_def)
next
  case (Some p)
  obtain r k where p: "p = (r, k)" by (cases p)
  have e: "precompileErr ul op err = curatePrecompileErr r k" by (simp add: precompileErr_def Some p)
  from classify_Some [OF Some [unfolded p]] show ?thesis
  proof
    assume "\<exists>m. (m, r, k) \<in> set safePrecompileReverts"
    then obtain m where m: "(m, r, k) \<in> set safePrecompileReverts" ..
    then have "Error (curatePrecompileErr r k) \<in> curated_texts"
      by (force simp: curated_texts_def)
    with text_curated [OF kinds_disclosed [OF m]] show ?thesis by (simp add: e)
  next
    assume k: "k \<in> {ErrRegistryNotFound, ErrRecordNotFound} \<and> r = sentinel_text k"
    then have "client_text (curatePrecompileErr r k) = sentinel_text k"
      by (subst text_curated) (auto simp: disclosed_def curatePrecompileErr_def)
    with k show ?thesis by (auto simp: e curated_texts_def)
  qed
qed

lemma text_generic [simp]:
  "s \<notin> set disclosed \<Longrightarrow> client_text (wrapf op (Sentinel s)) \<in> generic_texts"
  by (rule client_text_collapse) (auto simp: wrapf_def go_simps)

lemma callPrecompile_Fails:
  assumes "foreign c" "an_abi c = Some ab" "callPrecompile c ab m args w = (Fails e, w')"
  shows "client_text e \<in> generic_texts \<union> curated_texts"
proof (cases "map_of (ab_Methods ab) m")
  case None
  have "ErrAnchorABIMethodMissing \<notin> set disclosed" by (simp add: disclosed_def inputErrors_def)
  with None assms(3) show ?thesis by (simp add: callPrecompile_def)
next
  case (Some fb)
  show ?thesis
  proof (cases "ab_Encode ab m args")
    case (Inl err)
    with assms(1,2) have "external err" unfolding foreign_def by blast
    with Some Inl assms(3) show ?thesis
      by (simp add: callPrecompile_def client_text_wrapf_external generic_texts_def)
  next
    case (Inr input)
    with Some assms(3) have "wrapW (precompileErr (uLower (an_ut c)) (m @ '' call failed''))
        (ea_CallContract (an_evm c) \<lparr>ca_From = None, ca_To = Some (an_address c), ca_Input = input\<rparr>) w
        = (Fails e, w')" by (simp add: callPrecompile_def)
    then obtain err where "ea_CallContract (an_evm c) \<lparr>ca_From = None, ca_To = Some (an_address c),
        ca_Input = input\<rparr> w = (Fails err, w')"
      and e: "e = precompileErr (uLower (an_ut c)) (m @ '' call failed'') err" by (rule wrapW_FailsE)
    with assms(1) have "external err" unfolding foreign_def by blast
    then show ?thesis by (simp only: e text_precompileErr)
  qed
qed

lemma registryErr_text: "client_text (registryErr e) \<in> insert (client_text e) lookup_texts"
  by (auto simp: registryErr_def lookup_texts_def client_text_cases disclosed_def wrapf_def go_simps)

lemma guarded_Fails:
  assumes "guardABIDecode r = Fails e" "\<And>e. r = Fails e \<Longrightarrow> external e"
  shows "client_text (wrapf op e) \<in> generic_texts"
proof (cases r)
  case Panics
  have "\<forall>s \<in> set disclosed. \<not> IsS (wrapf op e) s"
    using assms(1) Panics by (auto simp: guardABIDecode_def wrapf_def go_simps disclosed_def inputErrors_def)
  then show ?thesis by (intro client_text_collapse) blast
next
  case (Fails err)
  with assms show ?thesis by (simp add: guardABIDecode_def client_text_wrapf_external generic_texts_def)
next
  case (Returns a)
  with assms(1) show ?thesis by (simp add: guardABIDecode_def)
qed

lemma requireABI_Fails:
  assumes "requireABI c k w = (Fails e, w')"
  obtains "client_text e = abiMissing_text c" | ab where "an_abi c = Some ab" "k ab w = (Fails e, w')"
  using assms
  by (auto simp: requireABI_def abiMissing_text_def client_text_cases disclosed_def go_simps failW_def
      split: option.splits)

lemma unpack_Fails:
  assumes "wrapW (wrapf op) (liftW (guardABIDecode r)) w = (Fails e, w')" "\<And>e. r = Fails e \<Longrightarrow> external e"
  shows "client_text e \<in> generic_texts"
  using assms(1)
proof (rule wrapW_FailsE)
  fix e0 assume "liftW (guardABIDecode r) w = (Fails e0, w')" "e = wrapf op e0"
  then show ?thesis using guarded_Fails [of r e0 op] assms(2) by (simp add: liftW_def)
qed

lemma registries_call_Fails:
  assumes "foreign c" "an_abi c = Some ab"
    and "wrapW registryErr (callPrecompile c ab m args) w = (Fails e, w')"
  shows "client_text e \<in> generic_texts \<union> curated_texts \<union> lookup_texts"
  using assms(3)
proof (rule wrapW_FailsE)
  fix e0 assume e0: "callPrecompile c ab m args w = (Fails e0, w')" "e = registryErr e0"
  have "client_text e0 \<in> generic_texts \<union> curated_texts"
    by (rule callPrecompile_Fails [OF assms(1,2) e0(1)])
  with registryErr_text [of e0] show ?thesis by (auto simp: e0(2))
qed

lemma registries_unpack:
  assumes "foreign c" "an_abi c = Some ab"
    and "wrapW (wrapf op) (liftW (guardABIDecode (ab_Registries ab out))) w = (Fails e, w')"
  shows "client_text e \<in> generic_texts"
  by (rule unpack_Fails [OF assms(3)]) (use assms(1,2) in \<open>unfold foreign_def, blast\<close>)

lemma records_unpack:
  assumes "foreign c" "an_abi c = Some ab"
    and "wrapW (wrapf op) (liftW (guardABIDecode (ab_Records ab out))) w = (Fails e, w')"
  shows "client_text e \<in> generic_texts"
  by (rule unpack_Fails [OF assms(3)]) (use assms(1,2) in \<open>unfold foreign_def, blast\<close>)

text \<open>
  what a failed query discloses. When a query of the precompile fails, for whatever
  reason the codec or the node give, the client reads one of finitely many texts fixed in the
  program: a curated reason, a not-found text, the configuration hint or a generic one.
\<close>

theorem query_errors_curated:
  assumes "foreign c"
  shows "(GetRegistry c rid w = (Fails e, w') \<longrightarrow> client_text e \<in> read_texts c)
       \<and> (GetRegistries c gq w = (Fails e, w') \<longrightarrow> client_text e \<in> read_texts c)
       \<and> (GetRecords c rq w = (Fails e, w') \<longrightarrow> client_text e \<in> read_texts c)
       \<and> finite (read_texts c)"
proof (intro conjI impI)
  assume "GetRegistry c rid w = (Fails e, w')"
  then show "client_text e \<in> read_texts c"
    unfolding GetRegistry_def
  proof (rule requireABI_Fails)
    fix ab assume ab: "an_abi c = Some ab"
      and k: "(if rid = 0 then failW (wrapf ''registry id must be > 0'' (Sentinel ErrInvalidRegistryID))
        else bindW (wrapW registryErr (callPrecompile c ab ''registries''
                (RegistriesArgs rid \<lparr>pi_Key = [], pi_Offset = 0, pi_Limit = 1, pi_CountTotal = False,
                                     pi_Reverse = False\<rparr>))) (\<lambda>output.
             bindW (wrapW (wrapf ''unpack registries response'') (liftW (guardABIDecode (ab_Registries ab output))))
             (\<lambda>(rows, page).
               case toRegistries c rows of
                 [] \<Rightarrow> failW (wrapf ''registry lookup returned no results'' (Sentinel ErrRegistryNotFound))
               | r # _ \<Rightarrow> retW r))) w = (Fails e, w')"
    show ?thesis
    proof (cases "rid = 0")
      case True
      with k show ?thesis
        by (auto simp: read_texts_def lookup_texts_def client_text_cases disclosed_def inputErrors_def
            wrapf_def go_simps)
    next
      case False
      note k [unfolded if_not_P [OF False]]
      then show ?thesis
      proof (rule bindW_FailsE)
        assume "wrapW registryErr (callPrecompile c ab ''registries''
                (RegistriesArgs rid \<lparr>pi_Key = [], pi_Offset = 0, pi_Limit = 1, pi_CountTotal = False,
                                     pi_Reverse = False\<rparr>)) w = (Fails e, w')"
        from registries_call_Fails [OF assms ab this] show ?thesis by (auto simp: read_texts_def)
      next
        fix out w1
        assume "bindW (wrapW (wrapf ''unpack registries response'') (liftW (guardABIDecode (ab_Registries ab out))))
             (\<lambda>(rows, page).
               case toRegistries c rows of
                 [] \<Rightarrow> failW (wrapf ''registry lookup returned no results'' (Sentinel ErrRegistryNotFound))
               | r # _ \<Rightarrow> retW r) w1 = (Fails e, w')"
        then show ?thesis
        proof (rule bindW_FailsE)
          assume "wrapW (wrapf ''unpack registries response'') (liftW (guardABIDecode (ab_Registries ab out))) w1
              = (Fails e, w')"
          from registries_unpack [OF assms ab this] show ?thesis by (simp add: read_texts_def)
        next
          fix p w2
          assume "(case p of (rows, page) \<Rightarrow>
               case toRegistries c rows of
                 [] \<Rightarrow> failW (wrapf ''registry lookup returned no results'' (Sentinel ErrRegistryNotFound))
               | r # _ \<Rightarrow> retW r) w2 = (Fails e, w')"
          then have "e = wrapf ''registry lookup returned no results'' (Sentinel ErrRegistryNotFound)"
            by (auto split: prod.splits list.splits)
          then show ?thesis
            by (simp add: read_texts_def lookup_texts_def client_text_cases disclosed_def wrapf_def go_simps)
        qed
      qed
    qed
  qed (simp add: read_texts_def)
next
  assume "GetRegistries c gq w = (Fails e, w')"
  then show "client_text e \<in> read_texts c"
    unfolding GetRegistries_def
  proof (rule requireABI_Fails)
    fix ab assume ab: "an_abi c = Some ab"
    assume "bindW (wrapW registryErr (callPrecompile c ab ''registries''
              (RegistriesArgs (optU64 (gq_RegistryID gq)) (registriesPage (gq_Pagination gq))))) (\<lambda>output.
     bindW (wrapW (wrapf ''unpack registries response'') (liftW (guardABIDecode (ab_Registries ab output))))
     (\<lambda>(rows, page).
       retW \<lparr>gr_Registries = toRegistries c rows,
             gr_Pagination = Some \<lparr>pr_Total = po_Total page, pr_NextKey = EncodeCursor (po_NextKey page)\<rparr>\<rparr>)) w
       = (Fails e, w')"
    then show ?thesis
      by (elim bindW_FailsE)
         (auto simp: read_texts_def dest!: registries_call_Fails [OF assms ab] registries_unpack [OF assms ab]
            split: prod.splits)
  qed (simp add: read_texts_def)
next
  assume "GetRecords c rq w = (Fails e, w')"
  then show "client_text e \<in> read_texts c"
    unfolding GetRecords_def
  proof (rule requireABI_Fails)
    fix ab assume ab: "an_abi c = Some ab"
    assume "bindW (callPrecompile c ab ''records''
              (RecordsArgs (optU64 (rq_RegistryID rq))
                 (case rq_Checksum rq of None \<Rightarrow> '''' | Some s \<Rightarrow> normalizeChecksum s)
                 (optU64 (rq_RecordID rq)) (optU64 (rq_Index rq)) (recordsPage (rq_Pagination rq))))
     (\<lambda>output.
     bindW (wrapW (wrapf ''unpack records response'') (liftW (guardABIDecode (ab_Records ab output))))
     (\<lambda>(rows, page).
       retW \<lparr>re_Records = toRecords c rows,
             re_Pagination = Some \<lparr>pr_Total = po_Total page, pr_NextKey = ''''\<rparr>\<rparr>)) w = (Fails e, w')"
    then show ?thesis
      by (elim bindW_FailsE)
         (auto simp: read_texts_def dest!: callPrecompile_Fails [OF assms ab] records_unpack [OF assms ab]
            split: prod.splits)
  qed (simp add: read_texts_def)
next
  show "finite (read_texts c)"
    by (simp add: read_texts_def generic_texts_def curated_texts_def lookup_texts_def)
qed

definition toy_failing :: "unit anchor_client" where
  "toy_failing = \<lparr>an_evm = \<lparr>ea_PendingNonceAt = (\<lambda>_. retW 0), ea_SuggestGasPrice = retW 0,
       ea_SuggestGasTipCap = retW None, ea_EstimateGas = (\<lambda>_. retW 0),
       ea_CallContract = (\<lambda>_. failW (Ext RPCError
         ''collections: not found: key 7 of type github.com/cosmos/gogoproto/nvnmchain.anchoring.v1.Record''))\<rparr>,
     an_address = [], an_chainID = 787,
     an_abi = Some \<lparr>ab_Methods = [(''records'', [])], ab_Encode = (\<lambda>_ _. Inr []),
       ab_Registries = (\<lambda>_. Panics), ab_Records = (\<lambda>_. Panics)\<rparr>,
     an_ut = plain_tables, an_kec = flat_hash, an_bech32 = (\<lambda>_. None),
     an_rawTx = (\<lambda>_. Inr [])\<rparr>"

theorem query_errors_curated_witness:
  "\<exists>e. GetRecords toy_failing \<lparr>rq_RegistryID = Some 1, rq_RecordID = Some 7, rq_Index = None,
        rq_Checksum = None, rq_Pagination = None\<rparr> () = (Fails e, ())
     \<and> client_text e \<in> read_texts toy_failing"
proof -
  have f: "foreign toy_failing"
    by (auto simp: foreign_def toy_failing_def failW_def external_def)
  let ?q = "\<lparr>rq_RegistryID = Some 1, rq_RecordID = Some 7, rq_Index = None, rq_Checksum = None,
      rq_Pagination = None\<rparr>"
  have "\<exists>e. GetRecords toy_failing ?q () = (Fails e, ())"
    by (simp add: GetRecords_def requireABI_def toy_failing_def callPrecompile_def bindW_def wrapW_def failW_def)
  then obtain e where "GetRecords toy_failing ?q () = (Fails e, ())" ..
  with query_errors_curated [OF f, of _ _ e "()"] show ?thesis by blast
qed

section \<open>An ABI without the method\<close>

text \<open>
  A node that does not hold a key is recognized by the words ``not found'' in the error text,
  and so is an ABI that does not declare the method: the configuration error is reported to the
  client as a registry that does not exist.
\<close>

lemma missing_method_reported_as_missing_registry:
  assumes "an_abi c = Some ab" "map_of (ab_Methods ab) ''registries'' = None"
  shows "GetRegistries c req w = (Fails (wrapf ''registry lookup failed'' (Sentinel ErrRegistryNotFound)), w)"
proof -
  have t: "Contains (p @ sentinel_text ErrAnchorABIMethodMissing) ''not found''" for p
    unfolding Contains_def sublist_def
    by (intro exI [of _ "p @ ''anchor ABI method ''"] exI [of _ "[]"]) (simp add: sentinel_text.simps)
  show ?thesis
    using assms t [of "''method '' @ Quote (uQuote (an_ut c)) ''registries'' @ '': ''"]
    by (simp add: GetRegistries_def requireABI_def callPrecompile_def wrapW_def failW_def bindW_def
        registryErr_def) (simp add: wrapf_def)
qed

end
