(* ===== verification/Go_Text.thy ===== *)
theory Go_Text
  imports Go_Codec
begin

text \<open>
  UTF-8 as Go reads it (\<^verbatim>\<open>unicode/utf8\<close> and \<^verbatim>\<open>range\<close> over a string): the decoder, which turns
  every invalid byte into U+FFFD of width one, and the facts about ASCII bytes that the
  filters of the program rely on.
\<close>

definition RuneError :: nat where
  "RuneError = 65533"

definition cont :: "nat \<Rightarrow> bool" where
  "cont b \<longleftrightarrow> 128 \<le> b \<and> b < 192"

text \<open>\<open>decodeRune s\<close> is the first rune of a non-empty string and its width.\<close>

fun decodeRune :: "nat list \<Rightarrow> nat \<times> nat" where
  "decodeRune [] = (RuneError, 0)"
| "decodeRune (a # bs) =
     (if a < 128 then (a, 1)
      else if 194 \<le> a \<and> a \<le> 223 then
        (case bs of
           b # _ \<Rightarrow> if cont b then ((a - 192) * 64 + (b - 128), 2) else (RuneError, 1)
         | _ \<Rightarrow> (RuneError, 1))
      else if 224 \<le> a \<and> a \<le> 239 then
        (case bs of
           b # c # _ \<Rightarrow>
             if cont b \<and> cont c \<and> (a = 224 \<longrightarrow> 160 \<le> b) \<and> (a = 237 \<longrightarrow> b < 160)
             then ((a - 224) * 4096 + (b - 128) * 64 + (c - 128), 3) else (RuneError, 1)
         | _ \<Rightarrow> (RuneError, 1))
      else if 240 \<le> a \<and> a \<le> 244 then
        (case bs of
           b # c # d # _ \<Rightarrow>
             if cont b \<and> cont c \<and> cont d \<and> (a = 240 \<longrightarrow> 144 \<le> b) \<and> (a = 244 \<longrightarrow> b < 144)
             then ((a - 240) * 262144 + (b - 128) * 4096 + (c - 128) * 64 + (d - 128), 4)
             else (RuneError, 1)
         | _ \<Rightarrow> (RuneError, 1))
      else (RuneError, 1))"

declare decodeRune.simps [simp del]

lemma decodeRune_width: "s \<noteq> [] \<Longrightarrow> 1 \<le> snd (decodeRune s) \<and> snd (decodeRune s) \<le> length s"
  by (cases s) (auto simp: decodeRune.simps split: list.splits)

lemma decodeRune_ASCII: "a < 128 \<Longrightarrow> decodeRune (a # bs) = (a, 1)"
  by (simp add: decodeRune.simps)

text \<open>An ASCII byte is never swallowed by the rune before it.\<close>

lemma decodeRune_tail:
  "decodeRune (a # bs) = (r, n) \<Longrightarrow> \<forall>x \<in> set (take (n - 1) bs). 128 \<le> x"
  by (auto simp: decodeRune.simps cont_def take_Cons' split: if_splits list.splits)

function runes :: "nat list \<Rightarrow> nat list" where
  "runes s = (if s = [] then [] else fst (decodeRune s) # runes (drop (snd (decodeRune s)) s))"
  by pat_completeness auto
termination
proof (relation "measure length")
  fix s :: "nat list" assume "s \<noteq> []"
  with decodeRune_width [OF this] show "(drop (snd (decodeRune s)) s, s) \<in> measure length" by simp
qed simp

declare runes.simps [simp del]

lemma ASCII_in_runes: "x \<in> set s \<Longrightarrow> x < 128 \<Longrightarrow> x \<in> set (runes s)"
proof (induction s rule: runes.induct)
  case (1 s)
  then obtain a bs where s: "s = a # bs" by (cases s) auto
  obtain r n where d: "decodeRune s = (r, n)" by fastforce
  have n: "1 \<le> n" using decodeRune_width [of s] d s by simp
  have split: "set s = insert a (set (take (n - 1) bs) \<union> set (drop (n - 1) bs))"
    by (metis append_take_drop_id list.simps(15) s set_append)
  have dr: "drop n s = drop (n - 1) bs" using n s by (cases n) auto
  show ?case
  proof (cases "x = a")
    case True
    with 1(3) have "r = a" using d s by (simp add: decodeRune_ASCII)
    moreover have "runes s = r # runes (drop n s)" using d s by (subst runes.simps) simp
    ultimately show ?thesis using True by simp
  next
    case False
    have "x \<notin> set (take (n - 1) bs)"
      using decodeRune_tail [of a bs r n] d s 1(3) by fastforce
    with False 1(2) split dr have "x \<in> set (drop n s)" by auto
    with 1 s d have "x \<in> set (runes (drop n s))" by simp
    moreover have "runes s = r # runes (drop n s)" using d s by (subst runes.simps) simp
    ultimately show ?thesis by simp
  qed
qed

text \<open>\<^verbatim>\<open>for _, r := range s\<close> visits \<open>range_runes s\<close>.\<close>

definition range_runes :: "string \<Rightarrow> nat list" where
  "range_runes s = runes (map of_char s)"

lemma ASCII_in_range: "c \<in> set s \<Longrightarrow> (of_char c :: nat) < 128 \<Longrightarrow> of_char c \<in> set (range_runes s)"
  unfolding range_runes_def by (rule ASCII_in_runes) auto

definition RuneStart :: "char \<Rightarrow> bool" where
  "RuneStart c \<longleftrightarrow> \<not> cont (of_char c)"


section \<open>Blanks\<close>

lemma go_space_ends:
  "w \<in> set go_spaces \<Longrightarrow> w \<noteq> [] \<and> ((of_char (hd w) :: nat) \<le> 32 \<or> 128 \<le> (of_char (hd w) :: nat))
     \<and> ((of_char (last w) :: nat) \<le> 32 \<or> 128 \<le> (of_char (last w) :: nat))"
  by (auto simp: go_spaces_def)

lemma trimLeft_visible:
  assumes "32 < (of_char (hd s) :: nat)" "(of_char (hd s) :: nat) < 128"
  shows "trimLeftSpace s = s"
proof -
  have "\<not> prefix w s" if "w \<in> set go_spaces" for w
    using go_space_ends [OF that] assms by (auto simp: prefix_def)
  then have "find (\<lambda>w. prefix w s) go_spaces = None" by (simp add: find_None_iff)
  then show ?thesis by (subst trimLeftSpace.simps) simp
qed

lemma trimRight_visible:
  assumes "32 < (of_char (last s) :: nat)" "(of_char (last s) :: nat) < 128"
  shows "trimRightSpace s = s"
proof -
  have "\<not> suffix w s" if "w \<in> set go_spaces" for w
    using go_space_ends [OF that] assms by (auto simp: suffix_def)
  then have "find (\<lambda>w. suffix w s) go_spaces = None" by (simp add: find_None_iff)
  then show ?thesis by (subst trimRightSpace.simps) simp
qed

lemma TrimSpace_visible:
  "32 < (of_char (hd s) :: nat) \<Longrightarrow> (of_char (hd s) :: nat) < 128 \<Longrightarrow>
   32 < (of_char (last s) :: nat) \<Longrightarrow> (of_char (last s) :: nat) < 128 \<Longrightarrow> TrimSpace s = s"
  by (simp add: TrimSpace_def trimLeft_visible trimRight_visible)

end
