(* ===== verification/Registry_Paging.thy ===== *)
theory Registry_Paging
  imports Registry_Tools
begin

text \<open>
  The paging of the registry table against a reference: a table whose rows have ascending IDs,
  and a chain that answers every query with a page of it. The interface between the tools and
  the client is the locale \<open>registry_source\<close>; its client lemmas state what the loops of the
  tools compute, and it is interpreted on \<open>GetRegistries\<close> over a node that serves the table.
\<close>

section \<open>The cursor of the chain\<close>

text \<open>A registry cursor is the big-endian ID of the row the next page starts at.\<close>

fun big_endian :: "nat \<Rightarrow> nat \<Rightarrow> bytes" where
  "big_endian 0 x = []"
| "big_endian (Suc k) x = big_endian k (x div 256) @ [char_of x]"

definition be_value :: "bytes \<Rightarrow> nat" where
  "be_value = foldl (\<lambda>acc b. 256 * acc + of_char b) 0"

definition id_cursor :: "uint64 \<Rightarrow> bytes" where
  "id_cursor i = big_endian 8 (unat i)"

lemma be_value_snoc [simp]: "be_value (xs @ [b]) = 256 * be_value xs + of_char b"
  by (simp add: be_value_def)

lemma be_value_big_endian: "x < 256 ^ k \<Longrightarrow> be_value (big_endian k x) = x"
proof (induction k arbitrary: x)
  case (Suc k)
  then have "x div 256 < 256 ^ k" by (simp add: less_mult_imp_div_less mult.commute)
  with Suc.IH [OF this] show ?case by simp
qed (simp add: be_value_def)

lemma length_big_endian [simp]: "length (big_endian k x) = k"
  by (induction k arbitrary: x) simp_all

lemma be_value_id_cursor [simp]: "be_value (id_cursor i) = unat i"
proof -
  have "unat i < 256 ^ 8" using unsigned_less [of i, where ?'a = nat] by simp
  then show ?thesis unfolding id_cursor_def by (rule be_value_big_endian)
qed

lemma length_id_cursor [simp]: "length (id_cursor i) = 8"
  by (simp add: id_cursor_def)

lemma id_cursor_nonempty [simp]: "id_cursor i \<noteq> []"
  using length_id_cursor [of i] by (metis length_0_conv zero_neq_numeral)

section \<open>Pages of a table\<close>

definition chainPageCap :: nat where
  "chainPageCap = 200"

text \<open>
  \<open>page_rest key_of rows q\<close>: the rows from the position that the request names; \<open>page_size\<close> is
  the number of rows the chain returns at most.
\<close>

definition page_rest :: "('r \<Rightarrow> uint64) \<Rightarrow> 'r list \<Rightarrow> bytes \<Rightarrow> uint64 \<Rightarrow> bool \<Rightarrow> 'r list" where
  "page_rest key_of rows key off rv =
     (let rs = (if rv then rev rows else rows) in
      if key \<noteq> [] then dropWhile (\<lambda>r. unat (key_of r) < be_value key) rs else drop (unat off) rs)"

definition page_next :: "('r \<Rightarrow> uint64) \<Rightarrow> 'r list \<Rightarrow> bytes" where
  "page_next key_of rest = (case rest of [] \<Rightarrow> [] | r # _ \<Rightarrow> id_cursor (key_of r))"

definition chain_page :: "abiRegistryRow list \<Rightarrow> abiPaginationInput \<Rightarrow> abiRegistryRow list \<times> abiPaginationOutput" where
  "chain_page tbl q =
     (let rest = page_rest rr_ID tbl (pi_Key q) (pi_Offset q) (pi_Reverse q);
          n = min (unat (pi_Limit q)) chainPageCap
      in (take n rest, \<lparr>po_NextKey = page_next rr_ID (drop n rest), po_Total = 0\<rparr>))"

definition ref_page :: "Registry list \<Rightarrow> PageRequest \<Rightarrow> GetRegistriesResponse" where
  "ref_page rows q =
     (let rest = page_rest rg_ID rows (pq_Key q) (pq_Offset q) (pq_Reverse q);
          n = min (unat (if pq_Limit q > 0 then pq_Limit q else 100)) chainPageCap
      in \<lparr>gr_Registries = take n rest,
          gr_Pagination = Some \<lparr>pr_Total = 0, pr_NextKey = EncodeCursor (page_next rg_ID (drop n rest))\<rparr>\<rparr>)"

text \<open>Rows have strictly ascending IDs.\<close>

definition ascending :: "('r \<Rightarrow> uint64) \<Rightarrow> 'r list \<Rightarrow> bool" where
  "ascending key_of rows \<longleftrightarrow> sorted_wrt (<) (map (\<lambda>r. unat (key_of r)) rows)"

lemma ascending_seek:
  assumes "ascending key_of rows" "k < length rows"
  shows "dropWhile (\<lambda>r. unat (key_of r) < unat (key_of (rows ! k))) rows = drop k rows"
proof -
  have lt: "unat (key_of (rows ! j)) < unat (key_of (rows ! k))" if "j < k" for j
    using assms that sorted_wrt_nth_less [of "(<)" "map (\<lambda>r. unat (key_of r)) rows" j k]
    by (simp add: ascending_def)
  have "dropWhile (\<lambda>r. unat (key_of r) < unat (key_of (rows ! k))) (take k rows @ drop k rows) = drop k rows"
    using lt assms(2)
    by (subst dropWhile_append2) (auto simp: in_set_conv_nth Cons_nth_drop_Suc [symmetric])
  then show ?thesis by simp
qed

lemma page_next_drop:
  "page_next key_of (drop k rows) = (if k < length rows then id_cursor (key_of (rows ! k)) else [])"
  by (simp add: page_next_def Cons_nth_drop_Suc [symmetric])

lemma page_next_pos: "0 < length (page_next key_of (drop k rows)) \<longleftrightarrow> k < length rows"
  by (simp add: page_next_drop)

lemma page_next_Nil [simp]: "page_next key_of [] = []"
  by (simp add: page_next_def)

text \<open>A request at row \<open>k\<close>: by cursor, or by offset with no cursor.\<close>

definition row_at :: "Registry list \<Rightarrow> bytes \<Rightarrow> uint64 \<Rightarrow> nat \<Rightarrow> bool" where
  "row_at rows key off k \<longleftrightarrow>
     (if key = [] then k = unat off else k < length rows \<and> key = id_cursor (rg_ID (rows ! k)))"

section \<open>The interface\<close>

text \<open>
  \<open>get\<close> answers with pages of \<open>rows\<close> as long as \<open>serving\<close> holds of the outside world, which a
  query preserves.
\<close>

locale registry_source =
  fixes get :: "'w registriesOp"
    and rows :: "Registry list"
    and serving :: "'w \<Rightarrow> bool"
  assumes page: "serving w \<Longrightarrow> \<exists>w'. get (registriesReq q) w = (Returns (ref_page rows q), w') \<and> serving w'"
    and ordered: "serving w \<Longrightarrow> ascending rg_ID rows"
begin

lemma get_page:
  assumes "serving w"
  obtains w' where "get (registriesReq q) w = (Returns (ref_page rows q), w')" "serving w'"
  using page [OF assms] by blast

lemma rest_at:
  assumes "serving w" "row_at rows key off k"
  shows "page_rest rg_ID rows key off False = drop k rows"
  using assms ascending_seek [OF ordered [OF assms(1)]]
  by (auto simp: row_at_def page_rest_def)

lemma page_at:
  assumes "serving w" "row_at rows key off k" "0 < lim"
  obtains w' where
    "get (registriesReq \<lparr>pq_Offset = off, pq_Limit = lim, pq_Reverse = False, pq_Key = key\<rparr>) w =
       (Returns \<lparr>gr_Registries = take (min (unat lim) chainPageCap) (drop k rows),
                 gr_Pagination = Some \<lparr>pr_Total = 0, pr_NextKey = EncodeCursor
                   (page_next rg_ID (drop (k + min (unat lim) chainPageCap) rows))\<rparr>\<rparr>, w')"
    "serving w'"
proof -
  obtain w' where w': "get (registriesReq \<lparr>pq_Offset = off, pq_Limit = lim, pq_Reverse = False, pq_Key = key\<rparr>) w =
       (Returns (ref_page rows \<lparr>pq_Offset = off, pq_Limit = lim, pq_Reverse = False, pq_Key = key\<rparr>), w')" "serving w'"
    using get_page [OF assms(1)] by blast
  have "ref_page rows \<lparr>pq_Offset = off, pq_Limit = lim, pq_Reverse = False, pq_Key = key\<rparr> =
      \<lparr>gr_Registries = take (min (unat lim) chainPageCap) (drop k rows),
       gr_Pagination = Some \<lparr>pr_Total = 0, pr_NextKey = EncodeCursor
         (page_next rg_ID (drop (k + min (unat lim) chainPageCap) rows))\<rparr>\<rparr>"
    using rest_at [OF assms(1,2)] assms(3)
    by (simp add: ref_page_def Let_def add.commute)
  with w' show ?thesis by (intro that) simp_all
qed

end

lemma listPages_done: "listPages get off lim n cursor acc tot False w = (Returns (acc, tot, cursor, False), w)"
  by (cases n) (simp_all add: retW_def)

lemma unat_small: "n < 2 ^ 64 \<Longrightarrow> unat (of_nat n :: uint64) = n"
  by (simp add: unat_of_nat take_bit_nat_eq_self)

lemma min_add_split: "min d (a + b) = min d a + min (d - min d a) b" for a b d :: nat
  by linarith

lemma uint64_less_of_nat: "n \<le> unat lim \<Longrightarrow> (of_nat n :: uint64) < lim \<longleftrightarrow> n < unat lim"
  using unsigned_less [of lim, where ?'a = nat] by (simp add: word_less_nat_alt unat_small)

lemma unat_remaining:
  fixes lim :: uint64
  shows "n \<le> unat lim \<Longrightarrow> unat (min (lim - of_nat n) nameScanPageSize) = min (unat lim - n) chainPageCap"
  using unsigned_less [of lim, where ?'a = nat]
  by (simp add: min_def word_le_nat_alt unat_sub unat_small nameScanPageSize_def chainPageCap_def)

context registry_source begin

lemma listPages_step:
  assumes s: "serving w" and at: "row_at rows cursor off k" and l: "length acc < unat lim"
  obtains w' where "serving w'"
    "listPages get off lim (Suc n) cursor acc 0 True w =
       listPages get off lim n (page_next rg_ID (drop (k + min (unat lim - length acc) chainPageCap) rows))
         (acc @ take (min (unat lim - length acc) chainPageCap) (drop k rows)) 0
         (k + min (unat lim - length acc) chainPageCap < length rows) w'"
proof -
  let ?m = "min (unat lim - length acc) chainPageCap"
  let ?l = "min (lim - of_nat (length acc)) nameScanPageSize :: uint64"
  have u: "unat ?l = ?m" using l by (intro unat_remaining) simp
  have u2: "min (unat ?l) chainPageCap = ?m" unfolding u by simp
  have pos: "0 < ?l"
  proof -
    have "0 < ?m" using l by (simp add: chainPageCap_def)
    then show ?thesis unfolding word_less_nat_alt u by simp
  qed
  have off: "row_at rows cursor (if length cursor > 0 then 0 else off) k"
    using at by (simp add: row_at_def)
  obtain w' where w': "get (registriesReq \<lparr>pq_Offset = (if length cursor > 0 then 0 else off), pq_Limit = ?l,
         pq_Reverse = False, pq_Key = cursor\<rparr>) w =
       (Returns \<lparr>gr_Registries = take ?m (drop k rows),
                 gr_Pagination = Some \<lparr>pr_Total = 0, pr_NextKey = EncodeCursor
                   (page_next rg_ID (drop (k + ?m) rows))\<rparr>\<rparr>, w')" "serving w'"
    by (rule page_at [OF s off pos, unfolded u2])
  have req: "(if length cursor > 0 then noPage\<lparr>pq_Limit := ?l, pq_Key := cursor\<rparr>
        else noPage\<lparr>pq_Limit := ?l, pq_Offset := off\<rparr>) =
      \<lparr>pq_Offset = (if length cursor > 0 then 0 else off), pq_Limit = ?l, pq_Reverse = False, pq_Key = cursor\<rparr>"
    by (simp add: noPage_def)
  have c: "True \<and> of_nat (length acc) < lim" using l by (simp add: uint64_less_of_nat)
  have "listPages get off lim (Suc n) cursor acc 0 True w =
       listPages get off lim n (page_next rg_ID (drop (k + ?m) rows)) (acc @ take ?m (drop k rows)) 0
         (k + ?m < length rows) w'"
    unfolding listPages.simps if_P [OF c] bindW_def req w'(1)
    by (simp only: prod.case outcome.case Let_def GetRegistriesResponse.select_convs option.case
        PageResponse.select_convs CursorBytes_EncodeCursor sum.case max.idem page_next_pos)
  with w'(2) that show ?thesis by blast
qed

lemma listPages_run:
  assumes "serving w" "row_at rows cursor off k" "length acc \<le> unat lim"
    and "cursor = [] \<Longrightarrow> acc = [] \<and> 0 < n \<and> 0 < unat lim"
  shows "\<exists>w'. serving w' \<and>
     listPages get off lim n cursor acc 0 True w =
       (Returns (acc @ take (min (unat lim - length acc) (chainPageCap * n)) (drop k rows), 0,
                 page_next rg_ID (drop (k + min (unat lim - length acc) (chainPageCap * n)) rows),
                 k + min (unat lim - length acc) (chainPageCap * n) < length rows), w')"
  using assms
proof (induction n arbitrary: w cursor k acc)
  case 0
  then have "cursor \<noteq> []" by auto
  with 0 show ?case by (auto simp: row_at_def page_next_drop retW_def)
next
  case (Suc n)
  show ?case
  proof (cases "length acc = unat lim")
    case True
    with Suc.prems(4) have "cursor \<noteq> []" by auto
    with True Suc.prems show ?thesis
      by (auto simp: row_at_def page_next_drop retW_def uint64_less_of_nat)
  next
    case False
    let ?m = "min (unat lim - length acc) chainPageCap"
    let ?t = "min (unat lim - length acc) (chainPageCap * Suc n)"
    let ?acc = "acc @ take ?m (drop k rows)"
    from False Suc.prems(3) have l: "length acc < unat lim" by simp
    obtain w1 where w1: "serving w1" "listPages get off lim (Suc n) cursor acc 0 True w =
       listPages get off lim n (page_next rg_ID (drop (k + ?m) rows)) ?acc 0 (k + ?m < length rows) w1"
      using listPages_step [OF Suc.prems(1,2) l] by blast
    show ?thesis
    proof (cases "k + ?m < length rows")
      case True
      have at: "row_at rows (page_next rg_ID (drop (k + ?m) rows)) off (k + ?m)"
        using True by (simp add: row_at_def page_next_drop)
      have len: "length ?acc = length acc + ?m" using True by simp
      have t: "?t = ?m + min (unat lim - length ?acc) (chainPageCap * n)"
        unfolding len mult_Suc_right min_add_split [of _ chainPageCap] by (simp add: diff_diff_left)
      have tk: "take ?t (drop k rows) =
          take ?m (drop k rows) @ take (min (unat lim - length ?acc) (chainPageCap * n)) (drop (k + ?m) rows)"
        unfolding t by (simp add: take_add add.commute)
      have "\<exists>w'. serving w' \<and> listPages get off lim n (page_next rg_ID (drop (k + ?m) rows)) ?acc 0 True w1 =
          (Returns (?acc @ take (min (unat lim - length ?acc) (chainPageCap * n)) (drop (k + ?m) rows), 0,
             page_next rg_ID (drop (k + ?m + min (unat lim - length ?acc) (chainPageCap * n)) rows),
             k + ?m + min (unat lim - length ?acc) (chainPageCap * n) < length rows), w')"
      proof (rule Suc.IH [OF w1(1) at])
        show "length ?acc \<le> unat lim" using l by (simp only: len)
        show "page_next rg_ID (drop (k + ?m) rows) = [] \<Longrightarrow> ?acc = [] \<and> 0 < n \<and> 0 < unat lim"
          using True by (simp add: page_next_drop)
      qed
      then obtain w2 where w2: "serving w2"
        "listPages get off lim n (page_next rg_ID (drop (k + ?m) rows)) ?acc 0 True w1 =
          (Returns (?acc @ take (min (unat lim - length ?acc) (chainPageCap * n)) (drop (k + ?m) rows), 0,
             page_next rg_ID (drop (k + ?m + min (unat lim - length ?acc) (chainPageCap * n)) rows),
             k + ?m + min (unat lim - length ?acc) (chainPageCap * n) < length rows), w2)"
        by blast
      have "listPages get off lim (Suc n) cursor acc 0 True w =
          (Returns (acc @ take ?t (drop k rows), 0, page_next rg_ID (drop (k + ?t) rows), k + ?t < length rows), w2)"
        unfolding w1(2) tk unfolding t using w2(2) True by (simp only: append_assoc add.assoc)
      with w2(1) show ?thesis by blast
    next
      case False
      have le: "?m \<le> ?t" by (simp add: min_def)
      have "length (drop k rows) \<le> ?m" using False unfolding length_drop by linarith
      with le have "length (drop k rows) \<le> ?m" "length (drop k rows) \<le> ?t" by (blast intro: le_trans)+
      then have "take ?t (drop k rows) = take ?m (drop k rows)" "\<not> k + ?t < length rows"
        by (simp_all only: take_all length_drop not_less le_diff_conv add.commute)
      moreover have "page_next rg_ID (drop (k + ?m) rows) = []" "page_next rg_ID (drop (k + ?t) rows) = []"
        using False calculation(2) by (simp_all add: page_next_drop)
      ultimately show ?thesis
        using False w1 by (simp add: listPages_done)
    qed
  qed
qed

end

section \<open>The listing and the scan over a source\<close>

definition highestID :: "Registry list \<Rightarrow> uint64" where
  "highestID rows = (if rows = [] then 0 else rg_ID (last rows))"

lemma of_nat_pos: "n < 2 ^ 64 \<Longrightarrow> (0 :: uint64) < of_nat n \<longleftrightarrow> 0 < n"
  by (simp add: word_less_nat_alt unat_small)

lemma off_plus_rest: "unat off \<le> n \<Longrightarrow> (off :: uint64) + of_nat (n - unat off) = of_nat n"
proof -
  assume "unat off \<le> n"
  then have "(of_nat n :: uint64) = of_nat (unat off + (n - unat off))" by simp
  then show ?thesis by simp
qed

text \<open>The size that the listing reports, given the rows it returned from row \<open>k\<close>.\<close>

definition reportedTotal :: "Registry list \<Rightarrow> bytes \<Rightarrow> nat \<Rightarrow> nat \<Rightarrow> uint64" where
  "reportedTotal rows cursor k t =
     (if cursor = [] \<and> length rows \<le> k + t \<and> (k < length rows \<or> k = 0) then of_nat (length rows)
      else highestID rows)"

context registry_source begin

lemma peek:
  assumes "serving w"
  obtains w' where "serving w'"
    "latestRegistryID get w = (Returns (if rows = [] then None else Some (highestID rows)), w')"
proof -
  obtain w' where w': "get (registriesReq (noPage\<lparr>pq_Limit := 1, pq_Reverse := True\<rparr>)) w =
      (Returns (ref_page rows (noPage\<lparr>pq_Limit := 1, pq_Reverse := True\<rparr>)), w')" "serving w'"
    using get_page [OF assms] by blast
  have "gr_Registries (ref_page rows (noPage\<lparr>pq_Limit := 1, pq_Reverse := True\<rparr>)) = take 1 (rev rows)"
    by (simp add: ref_page_def noPage_def page_rest_def chainPageCap_def Let_def)
  then have "latestRegistryID get w = (Returns (if rows = [] then None else Some (highestID rows)), w')"
    using w'(1) by (cases rows rule: rev_cases) (simp_all add: latestRegistryID_def bindW_def retW_def highestID_def)
  with w'(2) that show ?thesis by blast
qed

lemma total_of_page:
  assumes "serving w" "row_at rows cursor off k" "0 < t" "t < 2 ^ 64"
  obtains w' where "serving w'"
    "listingTotal get \<lparr>lt_chainTotal = 0, lt_offset = off, lt_rows = of_nat (length (take t (drop k rows))),
        lt_hasMore = (k + t < length rows), lt_fromCursor = (length cursor > 0)\<rparr> w
      = (Returns (reportedTotal rows cursor k t, True), w')"
proof -
  let ?n = "length (take t (drop k rows))"
  have n: "(0 :: uint64) < of_nat ?n \<longleftrightarrow> k < length rows"
    using assms(3,4) by (subst of_nat_pos) auto
  obtain w1 where w1: "serving w1"
    "latestRegistryID get w = (Returns (if rows = [] then None else Some (highestID rows)), w1)"
    using peek [OF assms(1)] by blast
  show ?thesis
  proof (cases "cursor = [] \<and> length rows \<le> k + t \<and> (k < length rows \<or> k = 0)")
    case True
    then have k: "k = unat off" "unat off \<le> length rows" using assms(2) by (auto simp: row_at_def)
    have "off + of_nat ?n = of_nat (length rows)"
    proof -
      have "length rows - unat off \<le> t" using True k by linarith
      then have "?n = length rows - unat off" by (simp add: k min_absorb1)
      then show ?thesis by (simp only: off_plus_rest [OF k(2)])
    qed
    moreover have "off = 0" if "k = 0" using that k(1) by (simp add: unat_eq_zero)
    ultimately have "listingTotal get \<lparr>lt_chainTotal = 0, lt_offset = off, lt_rows = of_nat ?n,
        lt_hasMore = (k + t < length rows), lt_fromCursor = (length cursor > 0)\<rparr> w
      = (Returns (reportedTotal rows cursor k t, True), w)"
      using True n by (auto simp: listingTotal_def reportedTotal_def)
    with assms(1) that show ?thesis by blast
  next
    case False
    have "\<not> (\<not> k + t < length rows \<and> \<not> length cursor > 0 \<and> ((0 :: uint64) < of_nat ?n \<or> off = 0))"
    proof
      assume a: "\<not> k + t < length rows \<and> \<not> length cursor > 0 \<and> ((0 :: uint64) < of_nat ?n \<or> off = 0)"
      moreover have "k = 0" if "off = 0" using that a assms(2) by (simp add: row_at_def)
      ultimately show False using False n by auto
    qed
    then have "listingTotal get \<lparr>lt_chainTotal = 0, lt_offset = off, lt_rows = of_nat ?n,
        lt_hasMore = (k + t < length rows), lt_fromCursor = (length cursor > 0)\<rparr> w
      = (Returns (reportedTotal rows cursor k t, True), w1)"
      unfolding listingTotal_def
      using w1(2) False by (simp add: reportedTotal_def highestID_def split del: if_split) (auto simp: highestID_def)
    with w1(1) that show ?thesis by blast
  qed
qed

text \<open>The unfiltered listing returns the slice of the table that starts at the request's position.\<close>

lemma listing_slice:
  assumes "serving w" "row_at rows cursor off k" "0 < lim"
  shows "\<exists>w'. serving w' \<and>
     handleRegistriesListing get cursor off lim w =
       (let t = min (unat lim) (chainPageCap * maxNameScanPages) in
        (Returns \<lparr>ro_Registries = map capRegistryFields (take t (drop k rows)),
                  ro_Pagination = Some \<lparr>pr_Total = reportedTotal rows cursor k t,
                    pr_NextKey = EncodeCursor (page_next rg_ID (drop (k + t) rows))\<rparr>,
                  ro_ContentTrust = contentTrustNotice, ro_NameMatchTruncated = False,
                  ro_TotalIsLowerBound = False,
                  ro_NextActions = anchorGetRegistriesNext (take t (drop k rows) = [])\<rparr>, w'))"
proof -
  let ?t = "min (unat lim) (chainPageCap * maxNameScanPages)"
  have lim: "0 < unat lim" using assms(3) by (simp add: word_less_nat_alt)
  then have t: "0 < ?t" "?t < 2 ^ 64" by (simp_all add: chainPageCap_def maxNameScanPages_def)
  have init: "cursor = [] \<Longrightarrow> ([] :: Registry list) = [] \<and> 0 < maxNameScanPages \<and> 0 < unat lim"
    using lim by (simp add: maxNameScanPages_def)
  obtain w1 where w1: "serving w1" "listPages get off lim maxNameScanPages cursor [] 0 True w =
      (Returns (take ?t (drop k rows), 0, page_next rg_ID (drop (k + ?t) rows), k + ?t < length rows), w1)"
    using listPages_run [OF assms(1,2) _ init] by auto
  obtain w2 where w2: "serving w2" "listingTotal get \<lparr>lt_chainTotal = 0, lt_offset = off,
        lt_rows = of_nat (length (take ?t (drop k rows))), lt_hasMore = (k + ?t < length rows),
        lt_fromCursor = (length cursor > 0)\<rparr> w1 = (Returns (reportedTotal rows cursor k ?t, True), w2)"
    using total_of_page [OF w1(1) assms(2) t] by blast
  have "handleRegistriesListing get cursor off lim w =
       (Returns \<lparr>ro_Registries = map capRegistryFields (take ?t (drop k rows)),
                  ro_Pagination = Some \<lparr>pr_Total = reportedTotal rows cursor k ?t,
                    pr_NextKey = EncodeCursor (page_next rg_ID (drop (k + ?t) rows))\<rparr>,
                  ro_ContentTrust = contentTrustNotice, ro_NameMatchTruncated = False,
                  ro_TotalIsLowerBound = False,
                  ro_NextActions = anchorGetRegistriesNext (take ?t (drop k rows) = [])\<rparr>, w2)"
    unfolding handleRegistriesListing_def bindW_def w1(2) prod.case outcome.case w2(2) retW_def
    by (simp only: not_True_eq_False length_0_conv)
  with w2(1) show ?thesis by (auto simp: Let_def)
qed

lemma scanPages_run:
  assumes "serving w" "row_at rows cursor 0 k" "cursor = [] \<Longrightarrow> 0 < n"
  shows "\<exists>w'. serving w' \<and>
     scanPages get m pk n cursor scanned ms w =
       (Returns (ms @ filter (\<lambda>r. m (rg_Name r)) (take (chainPageCap * n) (drop k rows)),
                 k + chainPageCap * n < length rows
                 \<or> (case pk of Some h \<Rightarrow> scanned + of_nat (length (drop k rows)) < h | None \<Rightarrow> False)
                    \<and> length rows \<le> k + chainPageCap * n), w')"
  using assms
proof (induction n arbitrary: w cursor k scanned ms)
  case 0
  then have "cursor \<noteq> []" by blast
  with 0(2) have "k < length rows" by (auto simp: row_at_def)
  with 0 show ?case by (auto simp: retW_def)
next
  case (Suc n)
  let ?c = chainPageCap
  have lim: "0 < nameScanPageSize" "min (unat nameScanPageSize) ?c = ?c"
    by (simp_all add: nameScanPageSize_def chainPageCap_def)
  obtain w1 where w1: "get (registriesReq \<lparr>pq_Offset = 0, pq_Limit = nameScanPageSize, pq_Reverse = False,
        pq_Key = cursor\<rparr>) w =
       (Returns \<lparr>gr_Registries = take ?c (drop k rows),
                 gr_Pagination = Some \<lparr>pr_Total = 0, pr_NextKey = EncodeCursor
                   (page_next rg_ID (drop (k + ?c) rows))\<rparr>\<rparr>, w1)" "serving w1"
    by (rule page_at [OF Suc.prems(1,2) lim(1), unfolded lim(2)])
  have req: "noPage\<lparr>pq_Key := cursor, pq_Limit := nameScanPageSize\<rparr> =
      \<lparr>pq_Offset = 0, pq_Limit = nameScanPageSize, pq_Reverse = False, pq_Key = cursor\<rparr>"
    by (simp add: noPage_def)
  let ?s = "scanned + of_nat (length (take ?c (drop k rows)))"
  let ?f = "filter (\<lambda>r. m (rg_Name r))"
  have step: "scanPages get m pk (Suc n) cursor scanned ms w =
      (if k + ?c < length rows
       then scanPages get m pk n (page_next rg_ID (drop (k + ?c) rows)) ?s (ms @ ?f (take ?c (drop k rows))) w1
       else (Returns (ms @ ?f (take ?c (drop k rows)),
               case pk of Some h \<Rightarrow> ?s < h | None \<Rightarrow> False), w1))"
    unfolding scanPages.simps bindW_def req w1(1)
    by (simp only: prod.case outcome.case Let_def GetRegistriesResponse.select_convs PageResponse.select_convs
        CursorBytes_EncodeCursor sum.case retW_def page_next_drop) simp
  show ?case
  proof (cases "k + ?c < length rows")
    case True
    have at: "row_at rows (page_next rg_ID (drop (k + ?c) rows)) 0 (k + ?c)"
      using True by (simp add: row_at_def page_next_drop)
    have ne: "page_next rg_ID (drop (k + ?c) rows) = [] \<Longrightarrow> 0 < n" using True by (simp add: page_next_drop)
    obtain w2 where w2: "serving w2"
      "scanPages get m pk n (page_next rg_ID (drop (k + ?c) rows)) ?s (ms @ ?f (take ?c (drop k rows))) w1 =
       (Returns ((ms @ ?f (take ?c (drop k rows))) @ ?f (take (?c * n) (drop (k + ?c) rows)),
                 k + ?c + ?c * n < length rows
                 \<or> (case pk of Some h \<Rightarrow> ?s + of_nat (length (drop (k + ?c) rows)) < h | None \<Rightarrow> False)
                    \<and> length rows \<le> k + ?c + ?c * n), w2)"
      using Suc.IH [OF w1(2) at ne] by blast
    have tk: "take (?c * Suc n) (drop k rows) = take ?c (drop k rows) @ take (?c * n) (drop (k + ?c) rows)"
      unfolding mult_Suc_right take_add by (simp add: add.commute)
    have len: "?s + of_nat (length (drop (k + ?c) rows)) = scanned + of_nat (length (drop k rows))"
    proof -
      have "length (drop k rows) = length (take ?c (drop k rows)) + length (drop (k + ?c) rows)"
        using True by simp
      then show ?thesis by (simp only: of_nat_add add.assoc)
    qed
    have "scanPages get m pk (Suc n) cursor scanned ms w =
       (Returns (ms @ ?f (take (?c * Suc n) (drop k rows)),
                 k + ?c * Suc n < length rows
                 \<or> (case pk of Some h \<Rightarrow> scanned + of_nat (length (drop k rows)) < h | None \<Rightarrow> False)
                    \<and> length rows \<le> k + ?c * Suc n), w2)"
      unfolding step if_P [OF True] w2(2) tk len
      by (simp only: append_assoc filter_append mult_Suc_right add.assoc)
    with w2(1) show ?thesis by blast
  next
    case False
    have l: "length (drop k rows) \<le> ?c" using False unfolding length_drop by linarith
    then have l2: "length (drop k rows) \<le> ?c * Suc n" by simp
    have "length rows \<le> k + ?c * Suc n" using False by simp
    with l l2 w1(2) show ?thesis
      unfolding step if_not_P [OF False] by (auto simp only: take_all not_less)
  qed
qed

text \<open>The scan by name, on a table that holds rows.\<close>

lemma scan_run:
  assumes "serving w" "registryNameMatcher ul eqf target mode = Inr m"
  shows "\<exists>w'. serving w' \<and>
     scanRegistriesByName get ul eqf target mode w =
       (Returns (filter (\<lambda>r. m (rg_Name r)) (take (chainPageCap * maxNameScanPages) rows),
                 chainPageCap * maxNameScanPages < length rows
                 \<or> of_nat (length rows) < highestID rows \<and> length rows \<le> chainPageCap * maxNameScanPages), w')"
proof -
  obtain w1 where w1: "serving w1"
    "latestRegistryID get w = (Returns (if rows = [] then None else Some (highestID rows)), w1)"
    using peek [OF assms(1)] by blast
  show ?thesis
  proof (cases "rows = []")
    case True
    with w1 assms(2) show ?thesis by (simp add: scanRegistriesByName_def highestID_def)
  next
    case False
    have "row_at rows [] 0 0" by (simp add: row_at_def)
    moreover have "0 < maxNameScanPages" by (simp add: maxNameScanPages_def)
    ultimately have "\<exists>w'. serving w' \<and> scanPages get m (Some (highestID rows)) maxNameScanPages [] 0 [] w1 =
       (Returns (filter (\<lambda>r. m (rg_Name r)) (take (chainPageCap * maxNameScanPages) rows),
                 chainPageCap * maxNameScanPages < length rows
                 \<or> of_nat (length rows) < highestID rows \<and> length rows \<le> chainPageCap * maxNameScanPages), w')"
      using scanPages_run [OF w1(1), of "[]" 0 maxNameScanPages m "Some (highestID rows)" 0 "[]"]
      by (simp only: append_Nil drop_0 add_0 option.case)
    with w1(2) False assms(2) show ?thesis by (simp add: scanRegistriesByName_def)
  qed
qed

end

section \<open>A node that serves the table\<close>

text \<open>
  \<open>serving c tbl w\<close>: from \<open>w\<close> on, every query of the registries is encoded, answered and decoded
  as the page of \<open>tbl\<close> that it asks for.
\<close>

definition served :: "'w anchor_client \<Rightarrow> abiRegistryRow list \<Rightarrow> 'w set \<Rightarrow> bool" where
  "served c tbl S \<longleftrightarrow>
     ascending rr_ID tbl \<and>
     (\<exists>ab. an_abi c = Some ab \<and> map_of (ab_Methods ab) ''registries'' \<noteq> None \<and>
        (\<forall>w \<in> S. \<forall>q. \<exists>input out w'. ab_Encode ab ''registries'' (RegistriesArgs 0 q) = Inr input
           \<and> ea_CallContract (an_evm c)
               \<lparr>ca_From = None, ca_To = Some (an_address c), ca_Input = input\<rparr> w = (Returns out, w')
           \<and> w' \<in> S \<and> ab_Registries ab out = Returns (chain_page tbl q)))"

definition serving :: "'w anchor_client \<Rightarrow> abiRegistryRow list \<Rightarrow> 'w \<Rightarrow> bool" where
  "serving c tbl w \<longleftrightarrow> (\<exists>S. w \<in> S \<and> served c tbl S)"

lemma rg_ID_toRegistry [simp]: "rg_ID (toRegistry c r) = rr_ID r"
  by (simp add: toRegistry_def)

lemma rest_map:
  "page_rest rg_ID (map (toRegistry c) tbl) key off rv = map (toRegistry c) (page_rest rr_ID tbl key off rv)"
  by (simp add: page_rest_def Let_def dropWhile_map drop_map rev_map comp_def)

lemma next_map: "page_next rg_ID (map (toRegistry c) rest) = page_next rr_ID rest"
  by (cases rest) (simp_all add: page_next_def)

lemma next_drop_map:
  "page_next rg_ID (drop n (map (toRegistry c) rest)) = page_next rr_ID (drop n rest)"
  by (simp add: drop_map next_map)

lemma ref_page_chain:
  "ref_page (toRegistries c tbl) q =
     \<lparr>gr_Registries = toRegistries c (fst (chain_page tbl (registriesPage (Some q)))),
      gr_Pagination = Some \<lparr>pr_Total = po_Total (snd (chain_page tbl (registriesPage (Some q)))),
        pr_NextKey = EncodeCursor (po_NextKey (snd (chain_page tbl (registriesPage (Some q)))))\<rparr>\<rparr>"
  by (simp add: ref_page_def chain_page_def Let_def toRegistries_def rest_map registriesPage_def
      take_map next_drop_map)

lemma GetRegistries_serving:
  assumes "serving c tbl w"
  shows "\<exists>w'. GetRegistries c (registriesReq q) w = (Returns (ref_page (toRegistries c tbl) q), w')
           \<and> serving c tbl w'"
proof -
  from assms obtain S where S: "w \<in> S" "served c tbl S" unfolding serving_def by blast
  then obtain ab where ab: "an_abi c = Some ab" "map_of (ab_Methods ab) ''registries'' \<noteq> None"
    and all: "\<forall>w \<in> S. \<forall>q. \<exists>input out w'. ab_Encode ab ''registries'' (RegistriesArgs 0 q) = Inr input
           \<and> ea_CallContract (an_evm c)
               \<lparr>ca_From = None, ca_To = Some (an_address c), ca_Input = input\<rparr> w = (Returns out, w')
           \<and> w' \<in> S \<and> ab_Registries ab out = Returns (chain_page tbl q)"
    unfolding served_def by blast
  from all S(1) obtain input out w' where
    a: "ab_Encode ab ''registries'' (RegistriesArgs 0 (registriesPage (Some q))) = Inr input"
    "ea_CallContract (an_evm c) \<lparr>ca_From = None, ca_To = Some (an_address c), ca_Input = input\<rparr> w = (Returns out, w')"
    "w' \<in> S" "ab_Registries ab out = Returns (chain_page tbl (registriesPage (Some q)))"
    by blast
  have "serving c tbl w'" using a(3) S(2) unfolding serving_def by blast
  moreover have "callPrecompile c ab ''registries'' (RegistriesArgs 0 (registriesPage (Some q))) w = (Returns out, w')"
    using ab(2) a by (simp add: callPrecompile_def wrapW_def)
  then have "GetRegistries c (registriesReq q) w = (Returns (ref_page (toRegistries c tbl) q), w')"
    using ab(1) a(4) unfolding ref_page_chain
    by (cases "chain_page tbl (registriesPage (Some q))")
       (simp add: GetRegistries_def requireABI_def registriesReq_def optU64_def bindW_def
         wrapW_def liftW_def guardABIDecode_def retW_def)
  ultimately show ?thesis by blast
qed

lemma serving_ascending: "serving c tbl w \<Longrightarrow> ascending rg_ID (toRegistries c tbl)"
  by (auto simp: serving_def served_def ascending_def toRegistries_def comp_def)

interpretation chain: registry_source "GetRegistries c" "toRegistries c tbl" "serving c tbl"
  for c :: "'w anchor_client" and tbl
proof
  show "\<exists>w'. GetRegistries c (registriesReq q) w = (Returns (ref_page (toRegistries c tbl) q), w')
         \<and> serving c tbl w'" if "serving c tbl w" for w q
    using that by (rule GetRegistries_serving)
  show "ascending rg_ID (toRegistries c tbl)" if "serving c tbl w" for w
    using that by (rule serving_ascending)
qed

text \<open>A node to evaluate: the ABI writes the request into the call and the node echoes it.\<close>

definition echo_encode :: "abiPaginationInput \<Rightarrow> bytes" where
  "echo_encode q =
     (if pi_Reverse q then CHR ''r'' else CHR ''f'') #
       replicate (unat (pi_Offset q)) (CHR ''o'') @ CHR '';'' #
       replicate (unat (pi_Limit q)) (CHR ''l'') @ CHR '';'' # pi_Key q"

definition echo_decode :: "bytes \<Rightarrow> abiPaginationInput" where
  "echo_decode b =
     (let offs = takeWhile (\<lambda>x. x \<noteq> CHR '';'') (tl b);
          rest = drop (Suc (length offs)) (tl b);
          lims = takeWhile (\<lambda>x. x \<noteq> CHR '';'') rest
      in \<lparr>pi_Key = drop (Suc (length lims)) rest, pi_Offset = of_nat (length offs),
          pi_Limit = of_nat (length lims), pi_CountTotal = True, pi_Reverse = (hd b = CHR ''r'')\<rparr>)"

lemma takeWhile_replicate_sep:
  "x \<noteq> s \<Longrightarrow> takeWhile (\<lambda>y. y \<noteq> s) (replicate n x @ s # ys) = replicate n x"
  by (induction n) simp_all

lemma echo: "echo_decode (echo_encode q) = q\<lparr>pi_CountTotal := True\<rparr>"
  by (simp add: echo_decode_def echo_encode_def takeWhile_replicate_sep Let_def)

definition toy_row :: "nat \<Rightarrow> abiRegistryRow" where
  "toy_row n = \<lparr>rr_ID = of_nat (Suc n), rr_Name = dec_nat n, rr_Description = [], rr_Creator = [],
     rr_CreatedAt = [], rr_Metadata = []\<rparr>"

definition table_client :: "abiRegistryRow list \<Rightarrow> unit anchor_client" where
  "table_client tbl = toy_client
     \<lparr>an_abi := Some \<lparr>ab_Methods = [(''registries'', ''regs'')],
        ab_Encode = (\<lambda>_ args. case args of RegistriesArgs _ q \<Rightarrow> Inr (echo_encode q) | _ \<Rightarrow> Inr []),
        ab_Registries = (\<lambda>out. Returns (chain_page tbl (echo_decode out))),
        ab_Records = (\<lambda>_. Panics)\<rparr>,
      an_evm := toy_evm\<lparr>ea_CallContract := (\<lambda>call. retW (ca_Input call))\<rparr>\<rparr>"

lemma table_client_serving:
  assumes "ascending rr_ID tbl"
  shows "serving (table_client tbl) tbl ()"
proof -
  have "chain_page tbl (q\<lparr>pi_CountTotal := True\<rparr>) = chain_page tbl q" for q
    by (simp add: chain_page_def)
  then have "served (table_client tbl) tbl {()}"
    using assms by (simp add: served_def table_client_def echo retW_def)
  then show ?thesis by (auto simp: serving_def)
qed

lemma unat_toy_row: "n < 1000 \<Longrightarrow> unat (rr_ID (toy_row n)) = Suc n"
  unfolding toy_row_def by (simp only: abiRegistryRow.select_convs) (rule unat_small, simp)

lemma toy_rows_ascending: "n < 1000 \<Longrightarrow> ascending rr_ID (map toy_row [0..<n])"
  by (auto simp: ascending_def sorted_wrt_iff_nth_less unat_toy_row)

end
