(* ===== verification/Registry_Listing.thy ===== *)
theory Registry_Listing
  imports Registry_Paging
begin

text \<open>
  The properties of the registry tools: the listing against the table the chain holds, the walk
  of a client that follows the cursor, the lookup by name, the number of queries one call may
  cost, and the size of the chain content in a response.
\<close>

section \<open>The listing refines the table\<close>

definition pageLimit :: "uint64 option \<Rightarrow> nat" where
  "pageLimit lim = min (unat (snd (resolveRegistriesPage None lim))) (chainPageCap * maxNameScanPages)"

definition unfiltered :: "uint64 option \<Rightarrow> uint64 option \<Rightarrow> string \<Rightarrow> getRegistriesInput" where
  "unfiltered off lim key =
     \<lparr>gi_RegistryID = None, gi_Name = None, gi_Match = '''', gi_Offset = off, gi_Limit = lim, gi_Key = key\<rparr>"

lemma limit_pos: "0 < snd (resolveRegistriesPage off lim)"
  by (auto simp: resolveRegistriesPage_def defaultRegistriesPageSize_def split: option.split)

lemma handler_unfiltered:
  assumes "requireRole ctx readRoles = None" "listingCursor key (optU64 off) = Inr cursor"
  shows "makeGetRegistriesHandler c eqf ctx (unfiltered off lim key) =
     handleRegistriesListing (GetRegistries c) cursor (optU64 off) (snd (resolveRegistriesPage None lim))"
  using assms
  by (simp add: makeGetRegistriesHandler_def unfiltered_def optU64_def resolveRegistriesPage_def)

text \<open>The page of the reference table at row \<open>k\<close>, as the listing answers it.\<close>

definition listing_page :: "Registry list \<Rightarrow> bytes \<Rightarrow> nat \<Rightarrow> nat \<Rightarrow> registriesOutput" where
  "listing_page rows cursor k t =
     \<lparr>ro_Registries = map capRegistryFields (take t (drop k rows)),
      ro_Pagination = Some \<lparr>pr_Total = reportedTotal rows cursor k t,
        pr_NextKey = EncodeCursor (page_next rg_ID (drop (k + t) rows))\<rparr>,
      ro_ContentTrust = contentTrustNotice, ro_NameMatchTruncated = False,
      ro_TotalIsLowerBound = False,
      ro_NextActions = anchorGetRegistriesNext (take t (drop k rows) = [])\<rparr>"

lemma listing_at:
  assumes "serving c tbl w" "row_at (toRegistries c tbl) cursor (optU64 off) k"
    and "requireRole ctx readRoles = None" "listingCursor key (optU64 off) = Inr cursor"
  obtains w' where "serving c tbl w'"
    "makeGetRegistriesHandler c eqf ctx (unfiltered off lim key) w =
       (Returns (listing_page (toRegistries c tbl) cursor k (pageLimit lim)), w')"
  using chain.listing_slice [OF assms(1,2) limit_pos [of None lim]]
  unfolding handler_unfiltered [OF assms(3,4)] listing_page_def pageLimit_def Let_def by blast

lemma at_offset: "row_at rows [] off (unat off)"
  by (simp add: row_at_def)

text \<open>IDs that are dense from one, as the chain assigns them.\<close>

definition dense :: "Registry list \<Rightarrow> bool" where
  "dense rows \<longleftrightarrow> (\<forall>i < length rows. rg_ID (rows ! i) = of_nat (Suc i))"

lemma dense_total:
  assumes "dense rows"
  shows "reportedTotal rows cursor k t = of_nat (length rows)"
proof (cases "rows = []")
  case False
  then have "rg_ID (last rows) = of_nat (length rows)"
    using assms by (simp add: dense_def last_conv_nth del: of_nat_Suc)
  with False show ?thesis by (simp add: reportedTotal_def highestID_def)
qed (simp add: reportedTotal_def highestID_def)


section \<open>Following the cursor\<close>

text \<open>
  A client that asks for page after page, each time with the cursor of the last one, until a
  page carries none: \<open>walk\<close> concatenates the pages, with at most \<open>n\<close> calls.
\<close>

fun walk ::
  "'w anchor_client \<Rightarrow> (string \<Rightarrow> string \<Rightarrow> bool) \<Rightarrow> Claims option \<Rightarrow> uint64 option \<Rightarrow> nat \<Rightarrow> string \<Rightarrow> 'w
     \<Rightarrow> Registry list option" where
  "walk c eqf ctx lim 0 key w = None"
| "walk c eqf ctx lim (Suc n) key w =
     (case makeGetRegistriesHandler c eqf ctx (unfiltered None lim key) w of
        (Returns p, w') \<Rightarrow>
          (case ro_Pagination p of
             None \<Rightarrow> Some (ro_Registries p)
           | Some pr \<Rightarrow>
               if pr_NextKey pr = '''' then Some (ro_Registries p)
               else map_option (\<lambda>rs. ro_Registries p @ rs) (walk c eqf ctx lim n (pr_NextKey pr) w'))
      | _ \<Rightarrow> None)"

lemma listingCursor_EncodeCursor: "length b = 8 \<Longrightarrow> listingCursor (EncodeCursor b) 0 = Inr b"
  using CursorBytes_EncodeCursor [of 0 b]
  by (simp add: listingCursor_def registryCursorLen_def EncodeCursor_def split: if_splits)

lemma EncodeCursor_eq_Nil [simp]: "EncodeCursor b = [] \<longleftrightarrow> b = []"
  by (simp add: EncodeCursor_def)

lemma pageLimit_pos: "0 < pageLimit lim"
proof -
  have "0 < unat (snd (resolveRegistriesPage None lim))"
    using limit_pos [of None lim] by (simp only: word_less_nat_alt unat_0)
  then show ?thesis by (simp add: pageLimit_def chainPageCap_def maxNameScanPages_def)
qed

lemma walk_from:
  assumes "serving c tbl w" "requireRole ctx readRoles = None" "0 < n"
    and "key = '''' \<and> k = 0 \<or> k < length tbl \<and> key = EncodeCursor (id_cursor (rr_ID (tbl ! k)))"
    and "length tbl \<le> k + n * pageLimit lim"
  shows "walk c eqf ctx lim n key w = Some (map capRegistryFields (drop k (toRegistries c tbl)))"
  using assms
proof (induction n arbitrary: w key k)
  case (Suc n)
  let ?rows = "toRegistries c tbl" and ?t = "pageLimit lim"
  have len: "length ?rows = length tbl" by (simp add: toRegistries_def)
  have ids: "i < length tbl \<Longrightarrow> rg_ID (?rows ! i) = rr_ID (tbl ! i)" for i by (simp add: toRegistries_def)
  define cursor where "cursor = (if key = '''' then [] else id_cursor (rr_ID (tbl ! k)))"
  have cur: "listingCursor key (optU64 None) = Inr cursor"
    using Suc.prems(4) by (auto simp: cursor_def optU64_def listingCursor_EncodeCursor listingCursor_def [of "[]"])
  have at: "row_at ?rows cursor (optU64 None) k"
    using Suc.prems(4) by (auto simp: row_at_def cursor_def optU64_def len ids)
  obtain w1 where w1: "serving c tbl w1"
    "makeGetRegistriesHandler c eqf ctx (unfiltered None lim key) w = (Returns (listing_page ?rows cursor k ?t), w1)"
    using listing_at [OF Suc.prems(1) at Suc.prems(2) cur] by blast
  show ?case
  proof (cases "k + ?t < length tbl")
    case True
    then have nk: "page_next rg_ID (drop (k + ?t) ?rows) = id_cursor (rr_ID (tbl ! (k + ?t)))"
      by (simp add: page_next_drop len ids)
    have n: "0 < n" using True Suc.prems(5) by (cases n) simp_all
    have "walk c eqf ctx lim n (EncodeCursor (id_cursor (rr_ID (tbl ! (k + ?t))))) w1
        = Some (map capRegistryFields (drop (k + ?t) ?rows))"
      using True Suc.prems(5) by (intro Suc.IH [OF w1(1) Suc.prems(2) n]) simp_all
    moreover have "take ?t (drop k ?rows) @ drop (k + ?t) ?rows = drop k ?rows"
      by (metis append_take_drop_id drop_drop add.commute)
    ultimately show ?thesis
      using w1(2) by (simp add: listing_page_def nk flip: map_append)
  next
    case False
    then have "page_next rg_ID (drop (k + ?t) ?rows) = []" "take ?t (drop k ?rows) = drop k ?rows"
      by (simp_all add: page_next_drop len)
    then show ?thesis using w1(2) by (simp add: listing_page_def)
  qed
qed simp

text \<open>
  Claim C20 (the walk ends and misses nothing). A client that follows the cursor reaches a page
  without one after at most as many calls as there are pages in the table, and the pages it
  received are the whole table, every row once and in order.
\<close>

theorem walk_enumerates_table:
  assumes "serving c tbl w" "requireRole ctx readRoles = None" "0 < n" "length tbl \<le> n * pageLimit lim"
  shows "walk c eqf ctx lim n '''' w = Some (map capRegistryFields (toRegistries c tbl))"
  using walk_from [OF assms(1,2,3), of "''''" 0 lim eqf] assms(4) by simp

lemma open_ctx: "requireRole None roles = None"
  by (simp add: requireRole_def)


theorem walk_enumerates_table_witness:
  "walk (table_client (map toy_row [0..<450])) (=) None (Some 100) 5 '''' ()
     = Some (map capRegistryFields (toRegistries (table_client (map toy_row [0..<450])) (map toy_row [0..<450])))"
proof (rule walk_enumerates_table)
  show "serving (table_client (map toy_row [0..<450])) (map toy_row [0..<450]) ()"
    by (intro table_client_serving toy_rows_ascending) simp
  show "length (map toy_row [0..<450]) \<le> 5 * pageLimit (Some 100)"
    by (simp add: pageLimit_def resolveRegistriesPage_def chainPageCap_def maxNameScanPages_def)
qed (simp_all add: open_ctx)

section \<open>The lookup by name\<close>

lemma pageRegistries_slice:
  assumes "length ms < 2 ^ 64"
  shows "pageRegistries ms off lim = take (unat lim) (drop (unat off) ms)"
proof -
  let ?n = "of_nat (length ms) :: uint64"
  have n: "unat ?n = length ms" using assms by (rule unat_small)
  have b: "unat off < 2 ^ 64" "unat lim < 2 ^ 64"
    using unsigned_less [of off, where ?'a = nat] unsigned_less [of lim, where ?'a = nat] by simp_all
  show ?thesis
  proof (cases "?n \<le> off")
    case True
    then have "length ms \<le> unat off" by (simp add: word_le_nat_alt n)
    with True show ?thesis by (simp add: pageRegistries_def)
  next
    case False
    let ?e = "off + lim"
    let ?e' = "if ?e < off \<or> ?n < ?e then ?n else ?e"
    have off: "unat off < length ms" using False by (simp add: word_le_nat_alt n not_le)
    have e: "unat ?e' = min (length ms) (unat off + unat lim)"
    proof (cases "unat off + unat lim < 2 ^ 64")
      case True
      then have "unat ?e = unat off + unat lim" by (simp add: unat_word_ariths)
      then show ?thesis by (simp add: word_less_nat_alt n min_def)
    next
      case wrap: False
      then have "unat ?e = unat off + unat lim - 2 ^ 64"
        using b by (simp add: unat_word_ariths mod_if)
      then have "unat ?e < unat off" using b wrap by linarith
      then have "?e < off" by (simp only: word_less_nat_alt)
      then show ?thesis using wrap assms by (simp add: n)
    qed
    have "pageRegistries ms off lim = drop (unat off) (take (unat ?e') ms)"
      using False by (simp add: pageRegistries_def Let_def)
    also have "\<dots> = take (unat lim) (drop (unat off) ms)"
      unfolding e by (simp add: drop_take min_def)
    finally show ?thesis .
  qed
qed

definition named :: "string \<Rightarrow> string \<Rightarrow> uint64 option \<Rightarrow> uint64 option \<Rightarrow> getRegistriesInput" where
  "named name mode off lim =
     \<lparr>gi_RegistryID = None, gi_Name = Some name, gi_Match = mode, gi_Offset = off, gi_Limit = lim, gi_Key = ''''\<rparr>"

definition scanned :: "Registry list \<Rightarrow> (string \<Rightarrow> bool) \<Rightarrow> Registry list" where
  "scanned rows m = filter (\<lambda>r. m (rg_Name r)) (take (chainPageCap * maxNameScanPages) rows)"



section \<open>The cost of one call\<close>

text \<open>\<open>counted get\<close> counts the queries; the source behind it is arbitrary.\<close>

definition counted :: "'w registriesOp \<Rightarrow> (nat \<times> 'w) registriesOp" where
  "counted get req = (\<lambda>(n, w). case get req w of (r, w') \<Rightarrow> (r, (Suc n, w')))"

lemma counted_apply: "counted get req (n, w) = (r, w') \<Longrightarrow> fst w' = Suc n"
  by (auto simp: counted_def split: prod.splits)

lemma counted_bind:
  assumes "bindW (counted get req) f (n, w) = (r, w')"
    and "\<And>a w1. f a (Suc n, w1) = (r, w') \<Longrightarrow> fst w' \<le> n + k" and "0 < k"
  shows "fst w' \<le> n + k"
proof -
  obtain r1 n1 w1 where c: "counted get req (n, w) = (r1, (n1, w1))" by (metis prod.exhaust)
  with counted_apply [OF c] have "n1 = Suc n" by simp
  with assms c show ?thesis by (cases r1) (auto simp: bindW_def)
qed

lemma counted_listPages:
  "listPages (counted get) off lim n cur acc tot hm (k, w) = (r, w') \<Longrightarrow> fst w' \<le> k + n"
proof (induction n arbitrary: cur acc tot hm k w)
  case 0
  then show ?case by (auto simp: retW_def)
next
  case (Suc n)
  show ?case
  proof (cases "hm \<and> of_nat (length acc) < lim")
    case True
    show ?thesis
      using Suc.prems unfolding listPages.simps if_P [OF True]
    proof (rule counted_bind)
      fix a w1
      assume "(let rows' = acc @ gr_Registries a;
              total' = (case gr_Pagination a of None \<Rightarrow> tot | Some p \<Rightarrow> max tot (pr_Total p))
          in case CursorBytes (gr_Pagination a) of
               Inl err \<Rightarrow> failW err
             | Inr cursor' \<Rightarrow> listPages (counted get) off lim n cursor' rows' total' (length cursor' > 0))
           (Suc k, w1) = (r, w')"
      then show "fst w' \<le> k + Suc n"
        using Suc.IH [of _ _ _ _ "Suc k" w1] by (auto simp: Let_def failW_def split: sum.splits)
    qed simp
  next
    case False
    with Suc.prems show ?thesis by (auto simp: retW_def)
  qed
qed

lemma counted_peek: "latestRegistryID (counted get) (k, w) = (r, w') \<Longrightarrow> fst w' \<le> k + 1"
  unfolding latestRegistryID_def by (erule counted_bind) (auto simp: retW_def)

lemma counted_listing:
  assumes "handleRegistriesListing (counted get) cur off lim (k, w) = (r, w')"
  shows "fst w' \<le> k + 51"
proof -
  obtain r1 k1 w1 where l: "listPages (counted get) off lim maxNameScanPages cur [] 0 True (k, w) = (r1, (k1, w1))"
    by (metis prod.exhaust)
  then have k1: "k1 \<le> k + 50" using counted_listPages [OF l] by (simp add: maxNameScanPages_def)
  have total: "fst w2 \<le> k1 + 1" if "listingTotal (counted get) i (k1, w1) = (r2, w2)" for i r2 w2
    using that counted_peek [of get k1 w1]
    by (auto simp: listingTotal_def split: if_splits prod.splits outcome.splits option.splits)
  from assms l k1 show ?thesis
    by (cases r1)
       (fastforce simp: handleRegistriesListing_def bindW_def retW_def dest: total
          split: prod.splits outcome.splits)+
qed

lemma counted_scanPages:
  "scanPages (counted get) m pk n cur s ms (k, w) = (r, w') \<Longrightarrow> fst w' \<le> k + n"
proof (induction n arbitrary: cur s ms k w)
  case 0
  then show ?case by (auto simp: retW_def)
next
  case (Suc n)
  show ?case
    using Suc.prems unfolding scanPages.simps
  proof (rule counted_bind)
    fix a w1
    assume "(let scanned = s + of_nat (length (gr_Registries a));
           ms' = ms @ filter (\<lambda>r. m (rg_Name r)) (gr_Registries a)
       in case CursorBytes (gr_Pagination a) of
            Inl err \<Rightarrow> failW err
          | Inr nextKey \<Rightarrow>
              if length nextKey = 0 then
                retW (ms', case pk of Some highest \<Rightarrow> scanned < highest | None \<Rightarrow> False)
              else scanPages (counted get) m pk n nextKey scanned ms') (Suc k, w1) = (r, w')"
    then show "fst w' \<le> k + Suc n"
      using Suc.IH [of _ _ _ "Suc k" w1] by (auto simp: Let_def failW_def retW_def split: sum.splits if_splits)
  qed simp
qed

lemma counted_scan:
  assumes "scanRegistriesByName (counted get) ul eqf target mode (k, w) = (r, w')"
  shows "fst w' \<le> k + 51"
proof -
  obtain r1 k1 w1 where p: "latestRegistryID (counted get) (k, w) = (r1, (k1, w1))" by (metis prod.exhaust)
  have k1: "k1 \<le> k + 1" using counted_peek [OF p] by simp
  have scan: "fst w' \<le> k1 + 50" if "scanPages (counted get) m pk maxNameScanPages [] 0 [] (k1, w1) = (r, w')" for m pk
    using counted_scanPages [OF that] by (simp add: maxNameScanPages_def)
  from assms p k1 show ?thesis
    by (auto simp: scanRegistriesByName_def split: sum.splits outcome.splits option.splits dest!: scan)
qed

text \<open>
  Claim C30 (the cost of a call). Whatever the chain answers, cursors that never end included,
  one listing or one lookup by name costs at most fifty-one queries of the precompile.
\<close>

theorem queries_per_call_bounded:
  assumes "handleRegistriesListing (counted get) cursor off lim (k, w) = (r, (k', w'))
         \<or> handleRegistriesNameLookup (counted get) ul eqf name mode off lim (k, w) = (r2, (k', w'))"
  shows "k' \<le> k + 51"
  using assms
proof
  assume "handleRegistriesListing (counted get) cursor off lim (k, w) = (r, (k', w'))"
  from counted_listing [OF this] show ?thesis by simp
next
  assume a: "handleRegistriesNameLookup (counted get) ul eqf name mode off lim (k, w) = (r2, (k', w'))"
  obtain r1 s1 where s: "scanRegistriesByName (counted get) ul eqf name mode (k, w) = (r1, s1)" by (rule prod.exhaust)
  with a have "s1 = (k', w')"
    by (cases r1) (auto simp: handleRegistriesNameLookup_def bindW_def retW_def split: prod.splits)
  with counted_scan [OF s] show ?thesis by simp
qed

text \<open>A chain whose cursor never ends.\<close>

definition endless :: "unit registriesOp" where
  "endless req = retW \<lparr>gr_Registries = [],
     gr_Pagination = Some \<lparr>pr_Total = 0, pr_NextKey = EncodeCursor (id_cursor 1)\<rparr>\<rparr>"

theorem queries_per_call_bounded_witness:
  "fst (snd (handleRegistriesListing (counted endless) [] 0 100 (0, ()))) \<le> 51"
proof -
  obtain r k' where "handleRegistriesListing (counted endless) [] 0 100 (0, ()) = (r, (k', ()))"
    by (metis prod.exhaust old.unit.exhaust)
  with queries_per_call_bounded [OF disjI1, OF this] show ?thesis by simp
qed

section \<open>The size of chain content in a response\<close>

text \<open>
  \<open>capped m s\<close>: the string is at most \<open>m\<close> bytes of chain content, or at most \<open>m\<close> bytes of it
  followed by the marker with the original length.
\<close>

definition capped :: "nat \<Rightarrow> string \<Rightarrow> bool" where
  "capped m s \<longleftrightarrow> length s \<le> m
     \<or> (\<exists>p n. s = p @ ellipsis @ ''[truncated, '' @ dec_nat n @ '' bytes]'' \<and> length p \<le> m \<and> m < n)"

lemma runeCut_le: "runeCut s n \<le> n"
  by (induction n) auto

lemma runeCut_start: "runeCut s n = 0 \<or> RuneStart (s ! runeCut s n)"
  by (induction n) auto

lemma capUntrusted_capped: "capped m (capUntrusted s m)"
proof (cases "length s \<le> m")
  case True
  then show ?thesis by (simp add: capped_def capUntrusted_def)
next
  case False
  have "capUntrusted s m = take (runeCut s m) s @ ellipsis @ ''[truncated, '' @ dec_nat (length s) @ '' bytes]''"
    using False by (simp add: capUntrusted_def)
  moreover have "length (take (runeCut s m) s) \<le> m"
    using runeCut_le [of s m] by simp
  ultimately show ?thesis unfolding capped_def using False by (intro disjI2) (metis not_le)
qed

definition cappedRegistry :: "Registry \<Rightarrow> bool" where
  "cappedRegistry r \<longleftrightarrow>
     capped 256 (rg_Name r) \<and> capped 1024 (rg_Description r) \<and> capped 4096 (rg_Metadata r)"

definition cappedRecord :: "Record \<Rightarrow> bool" where
  "cappedRecord r \<longleftrightarrow> capped 2048 (rc_URI r) \<and> capped 4096 (rc_Metadata r)"

lemma capRegistryFields_capped: "cappedRegistry (capRegistryFields r)"
  by (simp add: cappedRegistry_def capRegistryFields_def capUntrusted_capped maxUntrustedName_def
      maxUntrustedDescription_def maxUntrustedMetadata_def)

lemma capRecordFields_capped: "cappedRecord (capRecordFields r)"
  by (simp add: cappedRecord_def capRecordFields_def capUntrusted_capped maxUntrustedURI_def
      maxUntrustedMetadata_def)

lemma orElseW_Returns: "orElseW e m w = (Returns a, w') \<longleftrightarrow> e = None \<and> m w = (Returns a, w')"
  by (auto simp: orElseW_def split: option.splits)

definition fromCapped :: "registriesOutput \<Rightarrow> bool" where
  "fromCapped p \<longleftrightarrow> ro_ContentTrust p = contentTrustNotice \<and> (\<exists>rs. ro_Registries p = map capRegistryFields rs)"

lemma listing_capped: "handleRegistriesListing get cur off lim w = (Returns p, w') \<Longrightarrow> fromCapped p"
  unfolding handleRegistriesListing_def
  by (elim bindW_ReturnsE) (auto simp: fromCapped_def elim!: bindW_ReturnsE split: prod.splits)

lemma lookup_capped: "handleRegistriesNameLookup get ul eqf name mode off lim w = (Returns p, w') \<Longrightarrow> fromCapped p"
  unfolding handleRegistriesNameLookup_def
  by (elim bindW_ReturnsE) (auto simp: fromCapped_def split: prod.splits)

lemma byID_capped: "handleRegistriesByID get inp w = (Returns p, w') \<Longrightarrow> fromCapped p"
  unfolding handleRegistriesByID_def Let_def
  by (auto simp: fromCapped_def elim!: bindW_ReturnsE split: if_splits)

lemma registries_capped:
  assumes "makeGetRegistriesHandler c eqf ctx inp w = (Returns p, w')"
  shows "fromCapped p"
  using assms
  by (auto simp: makeGetRegistriesHandler_def orElseW_Returns Let_def
      dest: listing_capped lookup_capped byID_capped split: if_splits prod.splits sum.splits)



section \<open>A total that is no bound\<close>

text \<open>
  The listing flags its total as a lower bound when the peek for the highest ID fails. With an
  offset beyond the end of the table the flagged total is the offset itself, which no row
  confirms.
\<close>

lemma flagged_total_is_offset:
  assumes "latestRegistryID get w = (Fails e, w')" "off \<noteq> 0"
  shows "listingTotal get \<lparr>lt_chainTotal = 0, lt_offset = off, lt_rows = 0, lt_hasMore = False,
           lt_fromCursor = False\<rparr> w = (Returns (off, False), w')"
  using assms by (simp add: listingTotal_def)

section \<open>Who may prepare\<close>

text \<open>
  Roles of the preparation tools: an authenticated caller without a role that the tool
  requires gets no transaction, and the node is not asked: writer, admin or automation for the
  registry, record and status tools, admin alone for granting and revoking roles. With a role
  the tool returns exactly what the preparation returns.
\<close>

theorem preparation_roles:
  "makePrepareAddRecordHandler c (Some cl) r2 w =
     (if set (cl_Roles cl) \<inter> {''writer'', ''admin'', ''automation''} = {}
      then (Fails (the (requireRole (Some cl) prepareRoles)), w)
      else bindW (PrepareAddRecord c r2) (\<lambda>tx. retW (tx, anchorPrepareWriteNext)) w)
   \<and> makePrepareAddRegistryHandler c (Some cl) r1 w =
     (if set (cl_Roles cl) \<inter> {''writer'', ''admin'', ''automation''} = {}
      then (Fails (the (requireRole (Some cl) prepareRoles)), w)
      else bindW (PrepareAddRegistry c r1) (\<lambda>tx. retW (tx, anchorPrepareWriteNext)) w)
   \<and> makePrepareUpdateRecordStatusHandler c (Some cl) r3 w =
     (if set (cl_Roles cl) \<inter> {''writer'', ''admin'', ''automation''} = {}
      then (Fails (the (requireRole (Some cl) prepareRoles)), w)
      else bindW (PrepareUpdateRecordStatus c r3) (\<lambda>tx. retW (tx, anchorPrepareWriteNext)) w)
   \<and> makePrepareGrantRoleHandler c (Some cl) r4 w =
     (if ''admin'' \<notin> set (cl_Roles cl) then (Fails (the (requireRole (Some cl) [''admin''])), w)
      else bindW (PrepareGrantRole c r4) (\<lambda>tx. retW (tx, anchorPrepareWriteNext)) w)
   \<and> makePrepareRevokeRoleHandler c (Some cl) r4 w =
     (if ''admin'' \<notin> set (cl_Roles cl) then (Fails (the (requireRole (Some cl) [''admin''])), w)
      else bindW (PrepareRevokeRole c r4) (\<lambda>tx. retW (tx, anchorPrepareWriteNext)) w)
   \<and> IsS (the (requireRole (Some \<lparr>cl_ClientID = x, cl_Roles = []\<rparr>) [''admin''])) ErrPermissionDenied"
proof -
  have has: "HasAnyRole cl rs \<longleftrightarrow> set (cl_Roles cl) \<inter> set rs \<noteq> {}" for rs
    by (auto simp: HasAnyRole_def HasRole_def list_ex_iff)
  have tool: "prepareTool (Some cl) rs prep w =
      (if set (cl_Roles cl) \<inter> set rs = {} then (Fails (the (requireRole (Some cl) rs)), w)
       else bindW prep (\<lambda>tx. retW (tx, anchorPrepareWriteNext)) w)" for rs prep
    by (simp add: prepareTool_def requireRole_def has failW_def)
  show ?thesis
    by (simp add: makePrepareAddRecordHandler_def makePrepareAddRegistryHandler_def
        makePrepareUpdateRecordStatusHandler_def makePrepareGrantRoleHandler_def
        makePrepareRevokeRoleHandler_def tool prepareRoles_def)
       (simp add: requireRole_def HasAnyRole_def HasRole_def go_simps)
qed

end
