(* ===== verification/Seed_Data.thy ===== *)
theory Seed_Data
  imports Evm_Stack Registry_Listing Anchor_Prepare
begin

text \<open>
  The command that seeds a test chain (\<^verbatim>\<open>cmd/seed-test-data\<close>): it looks for its registry by name,
  creates it if it does not find it, adds three records and reads the result back. Every transaction
  is prepared by the anchor client, signed, submitted and waited for. The state is the clock, the
  lines printed so far and the outside world; decoding, signing and encoding of transactions and the
  private key are the library's. A call takes some time, given by the world it leads to; the
  deadline of the command's context shows as errors of the calls.
\<close>

section \<open>Constants\<close>

definition registryName :: string where "registryName = ''mcp-test-data''"

definition registryDesc :: string where
  "registryDesc = ''Test registry seeded by cmd/seed-test-data for MCP server validation''"

definition seedChainID :: int where "seedChainID = 787111"

definition errTxReverted :: goerr where "errTxReverted = PkgErr ''errTxReverted'' ''transaction reverted''"
definition errMissingCredField :: goerr where
  "errMissingCredField = PkgErr ''errMissingCredField'' ''file missing Address or PrivateKey fields''"
definition errReceiptTimeout :: goerr where
  "errReceiptTimeout = PkgErr ''errReceiptTimeout'' ''timed out waiting for transaction receipt''"
definition errNegativeChainID :: goerr where "errNegativeChainID = PkgErr ''errNegativeChainID'' ''negative chain ID''"
definition errRegistryNotFoundPost :: goerr where
  "errRegistryNotFoundPost = PkgErr ''errRegistryNotFoundPost'' ''registry not found after creation''"

record testRecord =
  tr_URI :: string
  tr_Checksum :: string
  tr_ChecksumAlgo :: string
  tr_Metadata :: string

definition records :: "testRecord list" where
  "records =
     [\<lparr>tr_URI = ''https://docs.example.com/reports/q1-2026.pdf'',
       tr_Checksum = ''a1b2c3d4e5f6a7b8c9d0e1f2a3b4c5d6e7f8a9b0c1d2e3f4a5b6c7d8e9f0a1b2'',
       tr_ChecksumAlgo = ''sha256'',
       tr_Metadata = ''{\"type\":\"quarterly_report\",\"quarter\":\"Q1-2026\"}''\<rparr>,
      \<lparr>tr_URI = ''ipfs://QmFakeHash123456789abcdef0123456789abcdef'',
       tr_Checksum = ''d4e5f6a7b8c9d0e1f2a3b4c5d6e7f8a9b0c1d2e3f4a5b6c7d8e9f0a1b2c3d4e5'',
       tr_ChecksumAlgo = ''sha256'',
       tr_Metadata = ''{\"type\":\"audit_certificate\",\"auditor\":\"TestAudit LLC\"}''\<rparr>,
      \<lparr>tr_URI = ''https://docs.example.com/contracts/nda-001.pdf'',
       tr_Checksum = ''789abcde0123456789abcdef0123456789abcdef0123456789abcdef01234567'',
       tr_ChecksumAlgo = ''sha256'',
       tr_Metadata = ''{\"type\":\"legal_contract\",\"classification\":\"confidential\"}''\<rparr>]"

section \<open>State\<close>

text \<open>The lines the command prints, with the values they show.\<close>

datatype seed_line =
    SenderLine string
  | ChainLine "64 word" uint64
  | CreatingLine string
  | ExistsLine uint64 string
  | AddingLine nat string
  | FeesLine uint64 uint64 string
  | TxLine string
  | WaitingLine
  | MinedLine uint64 uint64
  | RegistryLine uint64 string string
  | CountLine nat
  | RecordLine uint64 string string
  | DoneLine

record 'w seed_state =
  ss_now :: time
  ss_out :: "seed_line list"
  ss_world :: 'w

definition say :: "seed_line \<Rightarrow> ('w seed_state, unit) call" where
  "say l s = (Returns (), s\<lparr>ss_out := ss_out s @ [l]\<rparr>)"

definition onNode :: "('w \<Rightarrow> nat) \<Rightarrow> ('w, 'a) call \<Rightarrow> ('w seed_state, 'a) call" where
  "onNode cost m s =
     (case m (ss_world s) of (r, w') \<Rightarrow> (r, s\<lparr>ss_now := ss_now s + int (cost w'), ss_world := w'\<rparr>))"

section \<open>Credentials and signing\<close>

record ('k, 'tx) sign_lib =
  sg_NewKeyFromBytes :: "bytes \<Rightarrow> 'k"
  sg_DecodeRLP :: "bytes \<Rightarrow> goerr + 'tx"
  sg_SetChainID :: "uint64 \<Rightarrow> 'tx \<Rightarrow> 'tx"
  sg_SignTransaction :: "'k \<Rightarrow> 'tx \<Rightarrow> goerr + 'tx"
  sg_Raw :: "'tx \<Rightarrow> goerr + bytes"

record 'k credentials =
  cr_address :: string
  cr_privateKey :: 'k

definition CutPrefix :: "string \<Rightarrow> string \<Rightarrow> string option" where
  "CutPrefix s p = (if HasPrefix s p then Some (drop (length p) s) else None)"

definition credLine :: "string \<Rightarrow> string \<times> string \<Rightarrow> string \<times> string" where
  "credLine line0 acc =
     (let line = TrimSpace line0; (address, keyHex) = acc;
          address' = (case CutPrefix line ''Address:'' of Some after \<Rightarrow> TrimSpace after | None \<Rightarrow> address);
          keyHex' = (case CutPrefix line ''PrivateKey:'' of Some after \<Rightarrow> TrimSpace after | None \<Rightarrow> keyHex)
      in (address', keyHex'))"

definition loadCredentials ::
  "('k, 'tx) sign_lib \<Rightarrow> string \<Rightarrow> goerr + string \<Rightarrow> goerr + 'k credentials" where
  "loadCredentials lib path file =
     (case file of
        Inl err \<Rightarrow> Inl (wrapf (''read '' @ path) err)
      | Inr data \<Rightarrow>
          (case fold credLine (Split CHR 0x0A data) ('''', '''') of (address, keyHex) \<Rightarrow>
             if address = '''' \<or> keyHex = '''' then Inl errMissingCredField
             else (case DecodeString (TrimPrefix keyHex ''0x'') of
                     Inl e \<Rightarrow> Inl (wrapf ''invalid private key hex'' (Ext OtherExt (hexErrText e)))
                   | Inr keyBytes \<Rightarrow> Inr \<lparr>cr_address = address, cr_privateKey = sg_NewKeyFromBytes lib keyBytes\<rparr>)))"

definition signTx :: "('k, 'tx) sign_lib \<Rightarrow> UnsignedTransaction \<Rightarrow> 'k \<Rightarrow> goerr + string" where
  "signTx lib utx key =
     (case DecodeString (TrimPrefix (un_RawTx utx) ''0x'') of
        Inl e \<Rightarrow> Inl (wrapf ''decode raw tx hex'' (Ext OtherExt (hexErrText e)))
      | Inr txBytes \<Rightarrow>
          (case sg_DecodeRLP lib txBytes of
             Inl decErr \<Rightarrow> Inl (wrapf ''unmarshal unsigned tx'' decErr)
           | Inr tx \<Rightarrow>
               if un_ChainID utx < 0 then
                 Inl (Errorf (''chain ID '' @ dec_int (un_ChainID utx) @ '': '' @ Error errNegativeChainID) [errNegativeChainID])
               else (case sg_SignTransaction lib key (sg_SetChainID lib (word_of_int (un_ChainID utx)) tx) of
                       Inl signErr \<Rightarrow> Inl (wrapf ''sign tx'' signErr)
                     | Inr tx' \<Rightarrow> (case sg_Raw lib tx' of
                                    Inl err \<Rightarrow> Inl (wrapf ''marshal signed tx'' err)
                                  | Inr signedBytes \<Rightarrow> Inr (''0x'' @ EncodeToString signedBytes)))))"

section \<open>Looking up the registry\<close>

definition findRegistryByNameMaxPages :: nat where
  "findRegistryByNameMaxPages = 100"

fun findPages :: "'w registriesOp \<Rightarrow> string \<Rightarrow> nat \<Rightarrow> bytes \<Rightarrow> ('w, Registry option) call" where
  "findPages get name 0 cursorKey = retW None"
| "findPages get name (Suc n) cursorKey =
     bindW (get \<lparr>gq_RegistryID = None, gq_Pagination = Some (noPage\<lparr>pq_Key := cursorKey, pq_Limit := 200\<rparr>)\<rparr>) (\<lambda>resp.
       case find (\<lambda>r. rg_Name r = name) (gr_Registries resp) of
         Some r \<Rightarrow> retW (Some r)
       | None \<Rightarrow>
           (case CursorBytes (gr_Pagination resp) of
              Inl err \<Rightarrow> failW err
            | Inr nextKey \<Rightarrow> if length nextKey = 0 then retW None else findPages get name n nextKey))"

definition findRegistryByName :: "'w anchor_client \<Rightarrow> string \<Rightarrow> ('w, Registry option) call" where
  "findRegistryByName ac name = findPages (GetRegistries ac) name findRegistryByNameMaxPages []"

section \<open>Submitting a transaction\<close>

definition HashFromHex :: "string \<Rightarrow> hash option" where
  "HashFromHex h = (case HexToBytes h of None \<Rightarrow> None | Some b \<Rightarrow> if length b \<noteq> 32 then None else Some b)"

text \<open>
  The polling loop: the clock is read, two seconds are slept, and the receipt is asked for; an error
  is not told from a receipt that is not there yet. The sleep makes the loop end. The library's text
  for a malformed hash is left out.
\<close>

function receiptLoop ::
  "('w \<Rightarrow> nat) \<Rightarrow> ('w, NormalizedReceipt) call \<Rightarrow> goerr \<Rightarrow> time \<Rightarrow> ('w seed_state, NormalizedReceipt) call" where
  "receiptLoop cost lookup timedOut deadline s =
     (if Before (ss_now s) deadline then
        (case onNode cost lookup (s\<lparr>ss_now := ss_now s + 2 * Second\<rparr>) of
           (Fails rerr, s') \<Rightarrow> receiptLoop cost lookup timedOut deadline (s'\<lparr>ss_out := ss_out s' @ [WaitingLine]\<rparr>)
         | (r, s') \<Rightarrow> (r, s'))
      else (Fails timedOut, s))"
  by pat_completeness auto
termination
  by (relation "measure (\<lambda>(cost, lookup, e, deadline, s). nat (deadline - ss_now s))")
     (auto simp: Before_def onNode_def Second_def split: prod.splits)

declare receiptLoop.simps [simp del]

definition waitForReceipt ::
  "('w \<Rightarrow> nat) \<Rightarrow> ('c, 'w) node_client \<Rightarrow> string \<Rightarrow> duration \<Rightarrow> string \<Rightarrow> ('w seed_state, NormalizedReceipt) call" where
  "waitForReceipt cost ec txHash timeout timeoutText s =
     (case HashFromHex txHash of
        None \<Rightarrow> (Fails (wrapf (''invalid tx hash '' @ txHash) (Ext OtherExt ''invalid hash'')), s)
      | Some hash \<Rightarrow>
          receiptLoop cost (cl_TransactionReceipt ec hash)
            (Errorf (''after '' @ timeoutText @ '' for '' @ txHash @ '': '' @ Error errReceiptTimeout) [errReceiptTimeout])
            (ss_now s + timeout) s)"

definition submitPreparedTx ::
  "('k, 'tx) sign_lib \<Rightarrow> ('w \<Rightarrow> nat) \<Rightarrow> ('c, 'w) node_client \<Rightarrow> ('w, UnsignedTransaction) call
     \<Rightarrow> 'k credentials \<Rightarrow> string \<Rightarrow> ('w seed_state, unit) call" where
  "submitPreparedTx lib cost ec prepare creds label =
     bindW (wrapW (wrapf (''prepare '' @ label)) (onNode cost prepare)) (\<lambda>utx.
     bindW (say (FeesLine (un_Nonce utx) (un_Gas utx) (un_GasPrice utx))) (\<lambda>_.
     bindW (wrapW (wrapf (''sign '' @ label)) (sumW (signTx lib utx (cr_privateKey creds)))) (\<lambda>signed.
     bindW (wrapW (wrapf (''submit '' @ label)) (onNode cost (cl_SendRawTransaction ec signed))) (\<lambda>txHash.
     bindW (say (TxLine txHash)) (\<lambda>_.
     bindW (wrapW (wrapf (label @ '' receipt'')) (waitForReceipt cost ec txHash (30 * Second) ''30s'')) (\<lambda>receipt.
       if nr_Status receipt \<noteq> ''success'' then
         failW (Errorf (label @ '' status='' @ nr_Status receipt @ '': '' @ Error errTxReverted) [errTxReverted])
       else say (MinedLine (nr_BlockNumber receipt) (nr_GasUsed receipt))))))))"

section \<open>The command\<close>

definition createRegistry ::
  "('k, 'tx) sign_lib \<Rightarrow> ('w \<Rightarrow> nat) \<Rightarrow> 'w anchor_client \<Rightarrow> ('c, 'w) node_client \<Rightarrow> 'k credentials
     \<Rightarrow> ('w seed_state, uint64) call" where
  "createRegistry lib cost ac ec creds =
     bindW (submitPreparedTx lib cost ec
       (PrepareAddRegistry ac \<lparr>pg_From = cr_address creds, pg_Name = registryName, pg_Description = registryDesc,
          pg_Metadata = ''{\"seeded_by\":\"cmd/seed-test-data\"}'', pg_PreferLegacy = False\<rparr>)
       creds ''addRegistry'') (\<lambda>_.
     bindW (wrapW (wrapf ''resolve created registry'') (onNode cost (findRegistryByName ac registryName))) (\<lambda>reg.
       case reg of
         None \<Rightarrow> failW (wrapf (Quote (uQuote (an_ut ac)) registryName) errRegistryNotFoundPost)
       | Some reg \<Rightarrow> retW (rg_ID reg)))"

definition ensureRegistry ::
  "('k, 'tx) sign_lib \<Rightarrow> ('w \<Rightarrow> nat) \<Rightarrow> 'w anchor_client \<Rightarrow> ('c, 'w) node_client \<Rightarrow> 'k credentials
     \<Rightarrow> ('w seed_state, uint64) call" where
  "ensureRegistry lib cost ac ec creds =
     bindW (say (CreatingLine registryName)) (\<lambda>_ s.
       case onNode cost (findRegistryByName ac registryName) s of (existing, s1) \<Rightarrow>
         (case existing of
            Panics \<Rightarrow> liftW Panics
          | Fails lookupErr \<Rightarrow> createRegistry lib cost ac ec creds
          | Returns None \<Rightarrow> createRegistry lib cost ac ec creds
          | Returns (Some reg) \<Rightarrow>
              bindW (say (ExistsLine (rg_ID reg) (rg_Creator reg))) (\<lambda>_. retW (rg_ID reg))) s1)"

fun seedRecordsFrom ::
  "('k, 'tx) sign_lib \<Rightarrow> ('w \<Rightarrow> nat) \<Rightarrow> 'w anchor_client \<Rightarrow> ('c, 'w) node_client \<Rightarrow> 'k credentials
     \<Rightarrow> uint64 \<Rightarrow> nat \<Rightarrow> testRecord list \<Rightarrow> ('w seed_state, unit) call" where
  "seedRecordsFrom lib cost ac ec creds registryID i [] = retW ()"
| "seedRecordsFrom lib cost ac ec creds registryID i (rec # recs) =
     bindW (say (AddingLine (Suc i) (tr_URI rec))) (\<lambda>_.
     bindW (submitPreparedTx lib cost ec
              (PrepareAddRecord ac \<lparr>pa_From = cr_address creds, pa_RegistryID = registryID, pa_URI = tr_URI rec,
                 pa_Checksum = tr_Checksum rec, pa_ChecksumAlgo = tr_ChecksumAlgo rec, pa_Status = '''',
                 pa_Metadata = tr_Metadata rec, pa_PreferLegacy = False\<rparr>)
              creds (''addRecord['' @ dec_nat i @ '']'')) (\<lambda>_.
       seedRecordsFrom lib cost ac ec creds registryID (Suc i) recs))"

definition seedRecords ::
  "('k, 'tx) sign_lib \<Rightarrow> ('w \<Rightarrow> nat) \<Rightarrow> 'w anchor_client \<Rightarrow> ('c, 'w) node_client \<Rightarrow> 'k credentials
     \<Rightarrow> uint64 \<Rightarrow> ('w seed_state, unit) call" where
  "seedRecords lib cost ac ec creds registryID = seedRecordsFrom lib cost ac ec creds registryID 0 records"

fun sayAll :: "seed_line list \<Rightarrow> ('w seed_state, unit) call" where
  "sayAll [] = retW ()"
| "sayAll (l # ls) = bindW (say l) (\<lambda>_. sayAll ls)"

definition verifySeededData :: "('w \<Rightarrow> nat) \<Rightarrow> 'w anchor_client \<Rightarrow> uint64 \<Rightarrow> ('w seed_state, unit) call" where
  "verifySeededData cost ac registryID =
     bindW (wrapW (wrapf ''verify registry'') (onNode cost (GetRegistry ac registryID))) (\<lambda>reg.
     bindW (say (RegistryLine (rg_ID reg) (rg_Name reg) (rg_Creator reg))) (\<lambda>_.
     bindW (wrapW (wrapf ''verify records'') (onNode cost (GetRecords ac
              \<lparr>rq_RegistryID = Some registryID, rq_RecordID = None, rq_Index = None, rq_Checksum = None,
               rq_Pagination = Some (noPage\<lparr>pq_Limit := 10\<rparr>)\<rparr>))) (\<lambda>recs.
     bindW (say (CountLine (length (re_Records recs)))) (\<lambda>_.
     bindW (sayAll (map (\<lambda>r. RecordLine (rc_RecordID r) (rc_Checksum r) (rc_URI r)) (re_Records recs))) (\<lambda>_.
       say DoneLine)))))"

text \<open>
  \<open>run\<close>: \<open>file\<close> is the content of the credentials file, \<open>connect\<close> the client or the error of
  \<^verbatim>\<open>evm.NewClient\<close>, \<open>al\<close> the file system and parser of the ABI; \<^verbatim>\<open>anchor.NewClient\<close> is that of theory \<open>Anchor\<close>.
\<close>

definition seed_run ::
  "('k, 'tx) sign_lib \<Rightarrow> ('w \<Rightarrow> nat) \<Rightarrow> goerr + string \<Rightarrow> goerr + ('c, 'w) node_client \<Rightarrow> 'w anchor_client
     \<Rightarrow> abi_lib \<Rightarrow> ('w seed_state, unit) call" where
  "seed_run lib cost file connect base al =
     bindW (wrapW (wrapf ''load credentials'') (sumW (loadCredentials lib ''.chain_credentials.txt'' file))) (\<lambda>creds.
     bindW (say (SenderLine (cr_address creds))) (\<lambda>_.
     bindW (wrapW (wrapf ''connect to RPC'') (sumW connect)) (\<lambda>ec.
     bindW (wrapW (wrapf ''chain info'') (onNode cost (cl_GetChainInfo ec))) (\<lambda>info.
     bindW (say (ChainLine (ci_ChainID info) (ci_LatestBlockNumber info))) (\<lambda>_.
     bindW (liftW (NewClient base PrecompileAddress seedChainID ''abi/anchoring.json'' al)) (\<lambda>ac.
     bindW (ensureRegistry lib cost ac ec creds) (\<lambda>registryID.
     bindW (seedRecords lib cost ac ec creds registryID) (\<lambda>_.
       verifySeededData cost ac registryID))))))))"

section \<open>The lookup on a table\<close>

lemma find_append: "find P (xs @ ys) = (case find P xs of None \<Rightarrow> find P ys | Some x \<Rightarrow> Some x)"
  by (induction xs) simp_all

text \<open>The command leaves the registry ID out of its requests, where the tools send a zero.\<close>

locale named_source = registry_source get rows serving
  for get :: "'w registriesOp" and rows :: "Registry list" and serving :: "'w \<Rightarrow> bool" +
  assumes no_id: "get \<lparr>gq_RegistryID = None, gq_Pagination = Some q\<rparr> = get (registriesReq q)"
begin

lemma findPages_run:
  assumes "serving w" "row_at rows cursor 0 k" "cursor = [] \<Longrightarrow> 0 < n"
  shows "\<exists>w'. serving w' \<and>
     findPages get name n cursor w = (Returns (find (\<lambda>r. rg_Name r = name) (take (chainPageCap * n) (drop k rows))), w')"
  using assms
proof (induction n arbitrary: w cursor k)
  case 0
  then show ?case by (auto simp: retW_def)
next
  case (Suc n)
  let ?c = chainPageCap and ?p = "\<lambda>r. rg_Name r = name"
  have lim: "0 < (200 :: uint64)" "min (unat (200 :: uint64)) ?c = ?c" by (simp_all add: chainPageCap_def)
  obtain w1 where w1: "get (registriesReq \<lparr>pq_Offset = 0, pq_Limit = 200, pq_Reverse = False, pq_Key = cursor\<rparr>) w =
       (Returns \<lparr>gr_Registries = take ?c (drop k rows),
                 gr_Pagination = Some \<lparr>pr_Total = 0, pr_NextKey = EncodeCursor
                   (page_next rg_ID (drop (k + ?c) rows))\<rparr>\<rparr>, w1)" "serving w1"
    by (rule page_at [OF Suc.prems(1,2) lim(1), unfolded lim(2)])
  have req: "noPage\<lparr>pq_Key := cursor, pq_Limit := 200\<rparr> =
      \<lparr>pq_Offset = 0, pq_Limit = 200, pq_Reverse = False, pq_Key = cursor\<rparr>" by (simp add: noPage_def)
  have tk: "take (?c * Suc n) (drop k rows) = take ?c (drop k rows) @ take (?c * n) (drop (k + ?c) rows)"
    unfolding mult_Suc_right take_add by (simp add: add.commute)
  have step: "findPages get name (Suc n) cursor w =
      (case find ?p (take ?c (drop k rows)) of
         Some r \<Rightarrow> (Returns (Some r), w1)
       | None \<Rightarrow> if k + ?c < length rows then findPages get name n (page_next rg_ID (drop (k + ?c) rows)) w1
                 else (Returns None, w1))"
    unfolding findPages.simps bindW_def no_id req w1(1)
    by (simp add: retW_def page_next_drop split: option.splits)
  show ?case
  proof (cases "find ?p (take ?c (drop k rows))")
    case (Some r)
    with w1(2) show ?thesis unfolding step tk by (simp add: find_append)
  next
    case None
    show ?thesis
    proof (cases "k + ?c < length rows")
      case True
      have at: "row_at rows (page_next rg_ID (drop (k + ?c) rows)) 0 (k + ?c)"
        using True by (simp add: row_at_def page_next_drop)
      have ne: "page_next rg_ID (drop (k + ?c) rows) = [] \<Longrightarrow> 0 < n" using True by (simp add: page_next_drop)
      from Suc.IH [OF w1(2) at ne] show ?thesis unfolding step tk None if_P [OF True] by (simp add: find_append None)
    next
      case False
      then have e: "drop (k + ?c) rows = []" by simp
      show ?thesis unfolding step tk find_append None e using False w1(2) by simp
    qed
  qed
qed

end

interpretation seeding: named_source "GetRegistries c" "toRegistries c tbl" "serving c tbl"
  for c :: "'w anchor_client" and tbl
  by unfold_locales (simp add: GetRegistries_def registriesReq_def optU64_def)

text \<open>The number of rows the lookup can see.\<close>

definition findHorizon :: nat where
  "findHorizon = chainPageCap * findRegistryByNameMaxPages"

lemma findRegistryByName_run:
  assumes "serving ac tbl w"
  obtains w' where "serving ac tbl w'"
    "findRegistryByName ac name w =
       (Returns (find (\<lambda>r. rg_Name r = name) (take findHorizon (toRegistries ac tbl))), w')"
  using seeding.findPages_run [OF assms, of "[]" 0 findRegistryByNameMaxPages name] that
  by (auto simp: findRegistryByName_def findHorizon_def findRegistryByNameMaxPages_def row_at_def)

section \<open>Submissions\<close>

text \<open>
  \<open>settles lo hi m\<close>: when \<open>m\<close> succeeds it has submitted between \<open>lo\<close> and \<open>hi\<close> transactions and seen all
  of them mined; however it ends, it has submitted at most \<open>hi\<close>, and at most one of them is unsettled.
\<close>

definition txs :: "seed_line list \<Rightarrow> nat" where
  "txs ls = length (filter (\<lambda>l. case l of TxLine _ \<Rightarrow> True | _ \<Rightarrow> False) ls)"

definition mined :: "seed_line list \<Rightarrow> nat" where
  "mined ls = length (filter (\<lambda>l. case l of MinedLine _ _ \<Rightarrow> True | _ \<Rightarrow> False) ls)"

lemma txs_simps [simp]:
  "txs [] = 0" "txs (l # ls) = (case l of TxLine _ \<Rightarrow> 1 | _ \<Rightarrow> 0) + txs ls" "txs (ls @ ls') = txs ls + txs ls'"
  by (simp_all add: txs_def split: seed_line.split)

lemma mined_simps [simp]:
  "mined [] = 0" "mined (l # ls) = (case l of MinedLine _ _ \<Rightarrow> 1 | _ \<Rightarrow> 0) + mined ls"
  "mined (ls @ ls') = mined ls + mined ls'"
  by (simp_all add: mined_def split: seed_line.split)

definition settled :: "nat \<Rightarrow> nat \<Rightarrow> 'a outcome \<Rightarrow> seed_line list \<Rightarrow> bool" where
  "settled lo hi r ls \<longleftrightarrow>
     (case r of
        Returns _ \<Rightarrow> txs ls = mined ls \<and> lo \<le> txs ls \<and> txs ls \<le> hi
      | _ \<Rightarrow> mined ls \<le> txs ls \<and> txs ls \<le> Suc (mined ls) \<and> txs ls \<le> hi)"

definition settles :: "nat \<Rightarrow> nat \<Rightarrow> ('w seed_state, 'a) call \<Rightarrow> bool" where
  "settles lo hi m \<longleftrightarrow> (\<forall>s r s'. m s = (r, s') \<longrightarrow> (\<exists>ls. ss_out s' = ss_out s @ ls \<and> settled lo hi r ls))"

lemma settlesD:
  assumes "settles lo hi m" "m s = (r, s')"
  obtains ls where "ss_out s' = ss_out s @ ls" "settled lo hi r ls"
  using assms unfolding settles_def by blast

lemma settles_bind [intro]:
  assumes m: "settles lo hi m" and f: "\<And>a. settles lo' hi' (f a)"
  shows "settles (lo + lo') (hi + hi') (bindW m f)"
  unfolding settles_def
proof (intro allI impI)
  fix s r s' assume b: "bindW m f s = (r, s')"
  obtain r1 s1 where m1: "m s = (r1, s1)" by fastforce
  obtain ls where ls: "ss_out s1 = ss_out s @ ls" "settled lo hi r1 ls" by (rule settlesD [OF m m1])
  show "\<exists>ls. ss_out s' = ss_out s @ ls \<and> settled (lo + lo') (hi + hi') r ls"
  proof (cases r1)
    case (Returns a)
    then have "f a s1 = (r, s')" using b m1 by (simp add: bindW_def)
    then obtain ls' where "ss_out s' = ss_out s1 @ ls'" "settled lo' hi' r ls'" by (rule settlesD [OF f])
    with ls Returns show ?thesis by (cases r) (auto simp: settled_def)
  qed (use b m1 ls in \<open>auto simp: bindW_def settled_def\<close>)
qed

lemma settles_quiet:
  assumes "\<And>s r s'. m s = (r, s') \<Longrightarrow> ss_out s' = ss_out s"
  shows "settles 0 0 m"
  using assms by (auto simp: settles_def settled_def split: outcome.split)

lemma settles_wrapW [intro]: "settles lo hi m \<Longrightarrow> settles lo hi (wrapW g m)"
  by (fastforce simp: settles_def settled_def wrapW_def split: prod.splits outcome.splits)

lemma settles_weaken: "settles lo hi m \<Longrightarrow> lo' \<le> lo \<Longrightarrow> hi \<le> hi' \<Longrightarrow> settles lo' hi' m"
  unfolding settles_def settled_def by (fastforce split: outcome.splits)

lemma settles_basic [intro]:
  "settles 0 0 (onNode cost m)" "settles 0 0 (retW a)" "settles 0 0 (failW e)" "settles 0 0 (liftW r)" "settles 0 0 (sumW x)"
proof -
  show "settles 0 0 (onNode cost m)"
    by (rule settles_quiet) (auto simp: onNode_def split: prod.splits)
  show "settles 0 0 (sumW x)"
    by (rule settles_quiet) (auto simp: sumW_def failW_def retW_def split: sum.splits)
qed (auto intro!: settles_quiet simp: retW_def failW_def liftW_def)

lemma settles_say: "txs [l] = 0 \<Longrightarrow> mined [l] = 0 \<Longrightarrow> settles 0 0 (say l)"
  by (auto simp: settles_def settled_def say_def)

text \<open>
  The wait: it polls at most once per two seconds, prints a line per failed poll and returns what the
  last poll returned.
\<close>

lemma receiptLoop_spec:
  "receiptLoop cost lookup e deadline s = (r, s') \<Longrightarrow>
     \<exists>n. int n * (2 * Second) < max 0 (deadline - ss_now s) + 2 * Second
       \<and> ss_world s' = runs lookup n (ss_world s)
       \<and> (\<exists>k. ss_out s' = ss_out s @ replicate k WaitingLine)
       \<and> (\<forall>x. r = Returns x \<or> r = Panics \<longrightarrow> 0 < n \<and> fst (lookup (runs lookup (n - 1) (ss_world s))) = r)"
proof (induction cost lookup e deadline s rule: receiptLoop.induct)
  case (1 cost lookup e deadline s)
  show ?case
  proof (cases "Before (ss_now s) deadline")
    case False
    with "1.prems" have "r = Fails e" "s' = s" by (simp_all add: receiptLoop.simps)
    then show ?thesis by (intro exI [of _ 0]) (auto simp: Second_def intro: exI [of _ 0])
  next
    case True
    let ?s = "s\<lparr>ss_now := ss_now s + 2 * Second\<rparr>"
    obtain r1 s1 where p: "onNode cost lookup ?s = (r1, s1)" by fastforce
    then have s1: "ss_out s1 = ss_out s" "ss_now s + 2 * Second \<le> ss_now s1" "lookup (ss_world s) = (r1, ss_world s1)"
      by (auto simp: onNode_def split: prod.splits)
    show ?thesis
    proof (cases "\<exists>err. r1 = Fails err")
      case False
      with "1.prems" True p have "r = r1" "s' = s1"
        by (cases r1; simp add: receiptLoop.simps [of cost lookup e deadline s])+
      with True s1 show ?thesis by (intro exI [of _ 1]) (auto simp: Before_def Second_def intro: exI [of _ 0])
    next
      case wait: True
      then obtain err where err: "r1 = Fails err" by blast
      let ?w = "s1\<lparr>ss_out := ss_out s1 @ [WaitingLine]\<rparr>"
      have rec: "receiptLoop cost lookup e deadline ?w = (r, s')"
        using "1.prems" True p err by (simp add: receiptLoop.simps [of cost lookup e deadline s])
      obtain n k where n: "int n * (2 * Second) < max 0 (deadline - ss_now s1) + 2 * Second"
          "ss_world s' = runs lookup n (ss_world s1)" "ss_out s' = ss_out s1 @ WaitingLine # replicate k WaitingLine"
          "\<And>x. r = Returns x \<or> r = Panics \<Longrightarrow> 0 < n \<and> fst (lookup (runs lookup (n - 1) (ss_world s1))) = r"
        using "1.IH" [OF True p [symmetric] err rec] by auto
      have "int (Suc n) * (2 * Second) < max 0 (deadline - ss_now s) + 2 * Second"
        using n(1) s1(2) True by (cases "n = 0"; cases "ss_now s1 \<le> deadline") (auto simp: Before_def Second_def)
      moreover have "fst (lookup (runs lookup (Suc n - 1) (ss_world s))) = r" if "r = Returns x \<or> r = Panics" for x
        using n(4) [OF that] s1(3) by (cases n) auto
      moreover have "\<exists>k. ss_out s' = ss_out s @ replicate k WaitingLine"
        using n(3) s1(1) by (intro exI [of _ "Suc k"]) simp
      moreover have "ss_world s' = runs lookup (Suc n) (ss_world s)" using n(2) s1(3) by simp
      ultimately show ?thesis by (intro exI [of _ "Suc n"]) simp
    qed
  qed
qed

lemma waitForReceipt_spec:
  assumes "waitForReceipt cost ec txHash timeout txt s = (r, s')" "0 \<le> timeout"
  obtains k where "ss_out s' = ss_out s @ replicate k WaitingLine"
    "\<And>rc. r = Returns rc \<Longrightarrow> \<exists>hash n. HashFromHex txHash = Some hash \<and> int n * (2 * Second) < timeout
       \<and> fst (cl_TransactionReceipt ec hash (runs (cl_TransactionReceipt ec hash) n (ss_world s))) = Returns rc"
proof (cases "HashFromHex txHash")
  case None
  then show thesis using assms that [of 0] by (auto simp: waitForReceipt_def)
next
  case (Some hash)
  then have l: "receiptLoop cost (cl_TransactionReceipt ec hash)
      (Errorf (''after '' @ txt @ '' for '' @ txHash @ '': '' @ Error errReceiptTimeout) [errReceiptTimeout])
      (ss_now s + timeout) s = (r, s')" using assms(1) by (simp add: waitForReceipt_def)
  from receiptLoop_spec [OF this] obtain n k where
    n: "int n * (2 * Second) < timeout + 2 * Second" "ss_out s' = ss_out s @ replicate k WaitingLine"
       "\<And>x. r = Returns x \<or> r = Panics \<Longrightarrow> 0 < n \<and> fst (cl_TransactionReceipt ec hash
          (runs (cl_TransactionReceipt ec hash) (n - 1) (ss_world s))) = r"
    using assms(2) by auto
  show thesis
  proof (rule that [OF n(2)])
    fix rc assume "r = Returns rc"
    with n(3) [of rc] have "0 < n" "fst (cl_TransactionReceipt ec hash (runs (cl_TransactionReceipt ec hash) (n - 1) (ss_world s))) = Returns rc"
      by auto
    moreover from this(1) n(1) have "int (n - 1) * (2 * Second) < timeout" by (cases n) (auto simp: Second_def)
    ultimately show "\<exists>hash n. HashFromHex txHash = Some hash \<and> int n * (2 * Second) < timeout
       \<and> fst (cl_TransactionReceipt ec hash (runs (cl_TransactionReceipt ec hash) n (ss_world s))) = Returns rc"
      using Some by blast
  qed
qed

lemma replicate_Waiting [simp]: "txs (replicate k WaitingLine) = 0" "mined (replicate k WaitingLine) = 0"
  by (induction k) simp_all

lemma submitPreparedTx_settles: "settles 1 1 (submitPreparedTx lib cost ec prepare creds label)"
proof -
  let ?tail = "\<lambda>txHash. bindW (say (TxLine txHash)) (\<lambda>_.
     bindW (wrapW (wrapf (label @ '' receipt'')) (waitForReceipt cost ec txHash (30 * Second) ''30s'')) (\<lambda>receipt.
       if nr_Status receipt \<noteq> ''success'' then
         failW (Errorf (label @ '' status='' @ nr_Status receipt @ '': '' @ Error errTxReverted) [errTxReverted])
       else say (MinedLine (nr_BlockNumber receipt) (nr_GasUsed receipt))))"
  have tail: "settles 1 1 (?tail h)" for h
    unfolding settles_def
  proof (intro allI impI)
    fix s r s' assume t: "?tail h s = (r, s')"
    let ?s = "s\<lparr>ss_out := ss_out s @ [TxLine h]\<rparr>"
    obtain r1 s1 where w: "waitForReceipt cost ec h (30 * Second) ''30s'' ?s = (r1, s1)" by fastforce
    obtain k where k: "ss_out s1 = ss_out ?s @ replicate k WaitingLine"
      by (rule waitForReceipt_spec [OF w]) (simp_all add: Second_def)
    show "\<exists>ls. ss_out s' = ss_out s @ ls \<and> settled 1 1 r ls"
    proof (cases "\<exists>rc. r1 = Returns rc \<and> nr_Status rc = ''success''")
      case True
      then obtain rc where rc: "r1 = Returns rc" "nr_Status rc = ''success''" by blast
      with t w have "r = Returns ()" "ss_out s' = ss_out s1 @ [MinedLine (nr_BlockNumber rc) (nr_GasUsed rc)]"
        by (auto simp: bindW_def wrapW_def say_def)
      with k show ?thesis by (intro exI [of _ "TxLine h # replicate k WaitingLine @ [MinedLine (nr_BlockNumber rc) (nr_GasUsed rc)]"])
          (simp add: settled_def)
    next
      case False
      with t w have "ss_out s' = ss_out s1" "\<forall>u. r \<noteq> Returns u"
        by (auto simp: bindW_def wrapW_def say_def failW_def split: outcome.splits if_splits)
      with k show ?thesis by (intro exI [of _ "TxLine h # replicate k WaitingLine"]) (cases r; simp add: settled_def)
    qed
  qed
  have "settles (0 + (0 + (0 + (0 + 1)))) (0 + (0 + (0 + (0 + 1)))) (submitPreparedTx lib cost ec prepare creds label)"
    unfolding submitPreparedTx_def
    by (intro settles_bind settles_wrapW settles_basic settles_say tail) simp_all
  then show ?thesis by simp
qed

lemma settles_after:
  assumes "\<And>s. (case n s of (r, s1) \<Rightarrow> ss_out s1 = ss_out s)" "\<And>r. settles lo hi (k r)"
  shows "settles lo hi (\<lambda>s. case n s of (r, s1) \<Rightarrow> k r s1)"
  unfolding settles_def
proof (intro allI impI)
  fix s r s' assume b: "(case n s of (r, s1) \<Rightarrow> k r s1) = (r, s')"
  obtain r1 s1 where n: "n s = (r1, s1)" by fastforce
  with b have "k r1 s1 = (r, s')" by simp
  then obtain ls where "ss_out s' = ss_out s1 @ ls" "settled lo hi r ls" by (rule settlesD [OF assms(2)])
  moreover have "ss_out s1 = ss_out s" using assms(1) [of s] n by simp
  ultimately show "\<exists>ls. ss_out s' = ss_out s @ ls \<and> settled lo hi r ls" by auto
qed

lemma createRegistry_settles: "settles 1 1 (createRegistry lib cost ac ec creds)"
proof -
  have "settles (1 + (0 + 0)) (1 + (0 + 0)) (createRegistry lib cost ac ec creds)"
    unfolding createRegistry_def
    by (intro settles_bind settles_wrapW settles_basic submitPreparedTx_settles) (simp add: settles_basic split: option.split)
  then show ?thesis by simp
qed

lemma ensureRegistry_settles:
  fixes ac :: "'w anchor_client"
  shows "settles 0 1 (ensureRegistry lib cost ac ec creds)"
proof -
  have "settles (0 + 0) (0 + 0) (bindW (say (ExistsLine i c)) (\<lambda>_. retW i) :: ('w seed_state, uint64) call)" for i c
    by (intro settles_bind settles_say settles_basic) simp_all
  then have exists: "settles 0 1 (bindW (say (ExistsLine i c)) (\<lambda>_. retW i) :: ('w seed_state, uint64) call)" for i c
    by (rule settles_weaken) simp_all
  note create = settles_weaken [OF createRegistry_settles, of 0 1, simplified]
  have panics: "settles 0 1 (liftW Panics :: ('w seed_state, uint64) call)" by (rule settles_weaken [OF settles_basic(4)]) simp_all
  have k: "settles 0 1 (case r of Panics \<Rightarrow> liftW Panics | Fails e \<Rightarrow> createRegistry lib cost ac ec creds
          | Returns None \<Rightarrow> createRegistry lib cost ac ec creds
          | Returns (Some reg) \<Rightarrow> bindW (say (ExistsLine (rg_ID reg) (rg_Creator reg))) (\<lambda>_. retW (rg_ID reg)))" for r
    by (cases r) (simp_all add: create exists [simplified] panics [simplified] split: option.split)
  have "settles (0 + 0) (0 + 1) (ensureRegistry lib cost ac ec creds)"
    unfolding ensureRegistry_def
    by (intro settles_bind settles_say settles_after k) (simp_all add: onNode_def split: prod.split)
  then show ?thesis by simp
qed

lemma seedRecordsFrom_settles:
  "settles (length recs) (length recs) (seedRecordsFrom lib cost ac ec creds rid i recs)"
proof (induction recs arbitrary: i)
  case Nil
  show ?case by (simp add: settles_basic)
next
  case (Cons rec recs)
  have "settles (0 + (1 + length recs)) (0 + (1 + length recs)) (seedRecordsFrom lib cost ac ec creds rid i (rec # recs))"
    unfolding seedRecordsFrom.simps
    by (intro settles_bind settles_say submitPreparedTx_settles Cons.IH) simp_all
  then show ?case by simp
qed

lemma seedRecords_settles: "settles 3 3 (seedRecords lib cost ac ec creds rid)"
proof -
  have three: "length records = 3" by (simp add: records_def)
  show ?thesis using seedRecordsFrom_settles [of records lib cost ac ec creds rid 0] unfolding seedRecords_def three .
qed

lemma sayAll_settles: "\<forall>l \<in> set ls. txs [l] = 0 \<and> mined [l] = 0 \<Longrightarrow> settles 0 0 (sayAll ls)"
proof (induction ls)
  case (Cons l ls)
  then have "txs [l] = 0" "mined [l] = 0" "\<forall>l \<in> set ls. txs [l] = 0 \<and> mined [l] = 0" by simp_all
  from settles_bind [OF settles_say [OF this(1,2)] Cons.IH [OF this(3)]] show ?case by simp
qed (simp add: settles_basic)

lemma verifySeededData_settles: "settles 0 0 (verifySeededData cost ac rid)"
proof -
  have "settles (0 + (0 + (0 + (0 + (0 + 0))))) (0 + (0 + (0 + (0 + (0 + 0))))) (verifySeededData cost ac rid)"
    unfolding verifySeededData_def
    by (intro settles_bind settles_wrapW settles_basic settles_say sayAll_settles) auto
  then show ?thesis by simp
qed

text \<open>The wait of a submission polls at most fifteen times.\<close>

lemma receipt_polls_bounded:
  assumes w: "waitForReceipt cost ec txHash (30 * Second) ''30s'' s = (Returns rc, s')"
  obtains hash n where "n < 15" "HashFromHex txHash = Some hash"
    "fst (cl_TransactionReceipt ec hash (runs (cl_TransactionReceipt ec hash) n (ss_world s))) = Returns rc"
proof (rule waitForReceipt_spec [OF w])
  fix k assume "\<And>rc'. Returns rc = Returns rc' \<Longrightarrow> \<exists>hash n. HashFromHex txHash = Some hash \<and> int n * (2 * Second) < 30 * Second
       \<and> fst (cl_TransactionReceipt ec hash (runs (cl_TransactionReceipt ec hash) n (ss_world s))) = Returns rc'"
  then obtain hash n where h: "HashFromHex txHash = Some hash" "int n * (2 * Second) < 30 * Second"
      "fst (cl_TransactionReceipt ec hash (runs (cl_TransactionReceipt ec hash) n (ss_world s))) = Returns rc" by blast
  from h(2) have "n < 15" by (simp add: Second_def)
  with h show thesis using that by blast
qed (simp add: Second_def)


section \<open>Reuse of the registry\<close>

lemma ensureRegistry_looks:
  assumes "onNode cost (findRegistryByName ac registryName) (s\<lparr>ss_out := ss_out s @ [CreatingLine registryName]\<rparr>) = (r, s1)"
  shows "r = Returns (Some reg) \<Longrightarrow> ensureRegistry lib cost ac ec creds s =
      (Returns (rg_ID reg), s1\<lparr>ss_out := ss_out s1 @ [ExistsLine (rg_ID reg) (rg_Creator reg)]\<rparr>)"
    and "r = Returns None \<Longrightarrow> ensureRegistry lib cost ac ec creds s = createRegistry lib cost ac ec creds s1"
    and "r = Fails e \<Longrightarrow> ensureRegistry lib cost ac ec creds s = createRegistry lib cost ac ec creds s1"
  using assms by (simp_all add: ensureRegistry_def bindW_def say_def retW_def)

text \<open>
  A lookup that fails is taken for a registry that does not exist: the command goes on to create one,
  a duplicate if the chain already holds it.
\<close>

lemma lookup_failure_creates:
  assumes "findRegistryByName ac registryName (ss_world s) = (Fails e, w')"
  shows "ensureRegistry lib cost ac ec creds s = createRegistry lib cost ac ec creds
    (s\<lparr>ss_now := ss_now s + int (cost w'), ss_out := ss_out s @ [CreatingLine registryName], ss_world := w'\<rparr>)"
  by (rule ensureRegistry_looks(3)) (simp_all add: onNode_def assms)

text \<open>
  Reuse of the registry. On a chain that serves a table of registries,
  the command takes the first row with its name among the first 20,000 and submits nothing for it;
  it creates a registry exactly if there is no such row there, so beyond that horizon it does not see
  its own registry and creates another one on every run.
\<close>

theorem seeding_reuses_registry:
  assumes "serving ac tbl (ss_world s)"
  shows "case find (\<lambda>r. rg_Name r = registryName) (take 20000 (toRegistries ac tbl)) of
      Some reg \<Rightarrow> \<exists>s'. ensureRegistry lib cost ac ec creds s = (Returns (rg_ID reg), s')
        \<and> serving ac tbl (ss_world s')
        \<and> ss_out s' = ss_out s @ [CreatingLine registryName, ExistsLine (rg_ID reg) (rg_Creator reg)]
    | None \<Rightarrow> \<exists>s1. ensureRegistry lib cost ac ec creds s = createRegistry lib cost ac ec creds s1
        \<and> serving ac tbl (ss_world s1) \<and> ss_out s1 = ss_out s @ [CreatingLine registryName]"
proof -
  let ?row = "find (\<lambda>r. rg_Name r = registryName) (take 20000 (toRegistries ac tbl))"
  have "findHorizon = 20000" by (simp add: findHorizon_def chainPageCap_def findRegistryByNameMaxPages_def)
  then obtain w' where w': "serving ac tbl w'" "findRegistryByName ac registryName (ss_world s) = (Returns ?row, w')"
    using findRegistryByName_run [OF assms, of registryName] by metis
  let ?s1 = "s\<lparr>ss_now := ss_now s + int (cost w'), ss_out := ss_out s @ [CreatingLine registryName], ss_world := w'\<rparr>"
  have look: "onNode cost (findRegistryByName ac registryName) (s\<lparr>ss_out := ss_out s @ [CreatingLine registryName]\<rparr>)
      = (Returns ?row, ?s1)" by (simp add: onNode_def w'(2))
  show ?thesis
  proof (cases ?row)
    case None
    from ensureRegistry_looks(2) [OF look, of lib ec creds] w'(1) show ?thesis
      unfolding None by (intro option.simps(4) [THEN iffD2] exI [of _ ?s1]) simp
  next
    case (Some reg)
    from ensureRegistry_looks(1) [OF look, of reg lib ec creds] w'(1) show ?thesis unfolding Some by simp
  qed
qed

definition seeded_table :: "abiRegistryRow list" where
  "seeded_table = [toy_row 0, (toy_row 1)\<lparr>rr_Name := registryName\<rparr>]"

definition seed_start :: "unit seed_state" where
  "seed_start = \<lparr>ss_now = 0, ss_out = [], ss_world = ()\<rparr>"

theorem seeding_reuses_registry_witness:
  "\<exists>s' creator. ensureRegistry lib cost (table_client seeded_table) ec creds seed_start = (Returns 2, s')
     \<and> ss_out s' = [CreatingLine registryName, ExistsLine 2 creator]"
proof -
  have "ascending rr_ID seeded_table"
    using toy_rows_ascending [of 2] by (simp add: seeded_table_def ascending_def upt_rec numeral_eq_Suc)
  then have "serving (table_client seeded_table) seeded_table (ss_world seed_start)"
    using table_client_serving by simp
  note reuse = seeding_reuses_registry [OF this, of lib cost ec creds]
  have "find (\<lambda>r. rg_Name r = registryName) (take 20000 (toRegistries (table_client seeded_table) seeded_table))
      = Some (toRegistry (table_client seeded_table) ((toy_row 1)\<lparr>rr_Name := registryName\<rparr>))"
    by (simp add: seeded_table_def toRegistries_def toRegistry_def toy_row_def registryName_def dec_nat.simps)
  moreover have "rg_ID (toRegistry (table_client seeded_table) ((toy_row 1)\<lparr>rr_Name := registryName\<rparr>)) = 2"
    by (simp add: toRegistry_def toy_row_def)
  ultimately show ?thesis using reuse by (auto simp: seed_start_def)
qed

end
