(* ===== verification/Query_Survey.thy ===== *)
theory Query_Survey
  imports Evm_Stack Anchor_Prepare
begin

text \<open>
  The command that surveys a chain (\<^verbatim>\<open>cmd/query-anchor\<close>): it lists the first registries, counts their
  creators, asks for the records of the first twenty and for the first records of all. It only reads.
  The lines it prints are values of a datatype, without their formatting; the order in which Go ranges
  over the map of creators is an argument.
\<close>

section \<open>Lines and state\<close>

datatype survey_line =
    SvChain "64 word" uint64
  | SvTotal uint64 nat
  | SvCreator string nat
  | SvEarliest string uint64
  | SvLatest string uint64
  | SvFailed uint64 string goerr
  | SvRegistry uint64 string uint64
  | SvRecord uint64 uint64 string string string bool string string string
  | SvSummary nat uint64 nat uint64
  | SvAllFailed goerr
  | SvAll uint64 nat "Record list"

type_synonym 'w survey_state = "survey_line list \<times> 'w"

definition print :: "survey_line list \<Rightarrow> ('w survey_state, unit) call" where
  "print ls s = (Returns (), (fst s @ ls, snd s))"

definition query :: "('w, 'a) call \<Rightarrow> ('w survey_state, 'a) call" where
  "query m s = (case m (snd s) of (r, w') \<Rightarrow> (r, (fst s, w')))"

section \<open>The survey\<close>

definition countCreators :: "Registry list \<Rightarrow> string \<Rightarrow> nat" where
  "countCreators regs = fold (\<lambda>r m. m(rg_Creator r := m (rg_Creator r) + 1)) regs (\<lambda>_. 0)"

definition firstAndLast :: "Registry list \<Rightarrow> survey_line list" where
  "firstAndLast regs =
     (if 0 < length regs
      then [SvEarliest (rg_CreatedAt (regs ! 0)) (rg_ID (regs ! 0)),
            SvLatest (rg_CreatedAt (regs ! (length regs - 1))) (rg_ID (regs ! (length regs - 1)))]
      else [])"

definition recordLine :: "Record \<Rightarrow> survey_line" where
  "recordLine r = SvRecord (rc_RecordID r) (rc_Index r) (rc_Status r) (rc_Checksum r) (rc_ChecksumAlgo r)
     (rc_IsLatest r) (rc_URI r) (rc_Timestamp r) (rc_Metadata r)"

definition surveyReq :: "uint64 option \<Rightarrow> uint64 \<Rightarrow> GetRecordsRequest" where
  "surveyReq rid lim = \<lparr>rq_RegistryID = rid, rq_RecordID = None, rq_Index = None, rq_Checksum = None,
     rq_Pagination = Some (noPage\<lparr>pq_Limit := lim\<rparr>)\<rparr>"

definition recordCount :: "GetRecordsResponse \<Rightarrow> uint64" where
  "recordCount recs = (case re_Pagination recs of None \<Rightarrow> 0 | Some p \<Rightarrow> pr_Total p)"

definition registryLines :: "Registry \<Rightarrow> GetRecordsResponse \<Rightarrow> survey_line list" where
  "registryLines reg recs =
     (if recordCount recs > 0
      then SvRegistry (rg_ID reg) (rg_Name reg) (recordCount recs) # map recordLine (re_Records recs) else [])"

fun surveyRegistries ::
  "'w anchor_client \<Rightarrow> Registry list \<Rightarrow> uint64 \<Rightarrow> nat \<Rightarrow> ('w survey_state, uint64 \<times> nat) call" where
  "surveyRegistries c [] totalRecords withRecords s = (Returns (totalRecords, withRecords), s)"
| "surveyRegistries c (reg # regs) totalRecords withRecords s =
     (case query (GetRecords c (surveyReq (Some (rg_ID reg)) 5)) s of
        (Panics, s1) \<Rightarrow> (Panics, s1)
      | (Fails recErr, s1) \<Rightarrow>
          bindW (print [SvFailed (rg_ID reg) (rg_Name reg) recErr])
            (\<lambda>_. surveyRegistries c regs totalRecords withRecords) s1
      | (Returns recs, s1) \<Rightarrow>
          bindW (print (registryLines reg recs))
            (\<lambda>_. surveyRegistries c regs (totalRecords + recordCount recs)
                  (if recordCount recs > 0 then Suc withRecords else withRecords)) s1)"

text \<open>The total is read through a pointer that the response may leave nil.\<close>

definition pageTotal :: "PageResponse option \<Rightarrow> uint64 outcome" where
  "pageTotal p = (case p of None \<Rightarrow> Panics | Some q \<Rightarrow> Returns (pr_Total q))"

definition allRecords :: "'w anchor_client \<Rightarrow> ('w survey_state, unit) call" where
  "allRecords c s =
     (case query (GetRecords c (surveyReq None 20)) s of
        (Panics, s1) \<Rightarrow> (Panics, s1)
      | (Fails e, s1) \<Rightarrow> print [SvAllFailed e] s1
      | (Returns recs, s1) \<Rightarrow>
          bindW (liftW (pageTotal (re_Pagination recs)))
            (\<lambda>total. print [SvAll total (length (re_Records recs)) (re_Records recs)]) s1)"

definition survey_run ::
  "goerr + ('c, 'w) node_client \<Rightarrow> 'w anchor_client \<Rightarrow> abi_lib \<Rightarrow> (Registry list \<Rightarrow> string list)
     \<Rightarrow> ('w survey_state, unit) call" where
  "survey_run connect base al order =
     bindW (wrapW (wrapf ''connect'') (sumW connect)) (\<lambda>ec.
     bindW (wrapW (wrapf ''chain info'') (query (cl_GetChainInfo ec))) (\<lambda>info.
     bindW (print [SvChain (ci_ChainID info) (ci_LatestBlockNumber info)]) (\<lambda>_.
     bindW (liftW (NewClient base PrecompileAddress (sint (ci_ChainID info)) ''abi/anchoring.json'' al)) (\<lambda>c.
     bindW (wrapW (wrapf ''get registries'') (query (GetRegistries c
              \<lparr>gq_RegistryID = None, gq_Pagination = Some (noPage\<lparr>pq_Limit := 200\<rparr>)\<rparr>))) (\<lambda>all.
     bindW (liftW (pageTotal (gr_Pagination all))) (\<lambda>total.
     let regs = gr_Registries all; limit = (if length regs < 20 then length regs else 20) in
     bindW (print (SvTotal total (length regs) #
              map (\<lambda>c. SvCreator c (countCreators regs c)) (order regs) @ firstAndLast regs)) (\<lambda>_.
     bindW (surveyRegistries c (take limit regs) 0 0) (\<lambda>(totalRecords, withRecords).
     bindW (print [SvSummary limit total withRecords totalRecords]) (\<lambda>_.
       allRecords c)))))))))"

section \<open>What it reports\<close>

lemma countCreators_exact: "countCreators regs c = length (filter (\<lambda>r. rg_Creator r = c) regs)"
proof -
  have "fold (\<lambda>r m. m(rg_Creator r := m (rg_Creator r) + 1)) regs m c
      = m c + length (filter (\<lambda>r. rg_Creator r = c) regs)" for m
    by (induction regs arbitrary: m) auto
  then show ?thesis by (simp add: countCreators_def)
qed

definition answerCount :: "GetRecordsResponse outcome \<Rightarrow> uint64" where
  "answerCount r = (case r of Returns recs \<Rightarrow> recordCount recs | _ \<Rightarrow> 0)"

definition answerLines :: "Registry \<Rightarrow> GetRecordsResponse outcome \<Rightarrow> survey_line list" where
  "answerLines reg r =
     (case r of Returns recs \<Rightarrow> registryLines reg recs | Fails e \<Rightarrow> [SvFailed (rg_ID reg) (rg_Name reg) e] | Panics \<Rightarrow> [])"

lemma surveyRegistries_run:
  assumes "\<forall>reg \<in> set regs. GetRecords c (surveyReq (Some (rg_ID reg)) 5) w = (answer reg, w) \<and> answer reg \<noteq> Panics"
  shows "surveyRegistries c regs t n (out, w) =
     (Returns (t + sum_list (map (\<lambda>reg. answerCount (answer reg)) regs),
               n + length (filter (\<lambda>reg. 0 < answerCount (answer reg)) regs)),
      (out @ concat (map (\<lambda>reg. answerLines reg (answer reg)) regs), w))"
  using assms
proof (induction regs arbitrary: t n out)
  case (Cons reg regs)
  then have q: "query (GetRecords c (surveyReq (Some (rg_ID reg)) 5)) (out, w) = (answer reg, (out, w))"
      "answer reg \<noteq> Panics" by (simp_all add: query_def)
  show ?case
    using q Cons.IH Cons.prems
    by (cases "answer reg") (auto simp: bindW_def print_def answerCount_def answerLines_def)
qed simp

lemma query_pages:
  "query (GetRegistries c q) s = (Returns a, s') \<Longrightarrow> \<exists>t. pageTotal (gr_Pagination a) = Returns t"
  "query (GetRecords c q') s = (Returns a', s') \<Longrightarrow> \<exists>t. pageTotal (re_Pagination a') = Returns t"
  by (auto simp: query_def GetRegistries_def GetRecords_def requireABI_def failW_def pageTotal_def retW_def
      elim!: bindW_ReturnsE split: prod.splits option.splits)

end
