(* ===== verification/Telemetry.thy ===== *)
theory Telemetry
  imports Auth_Policy
begin

text \<open>
  What the server records about requests: the redaction of log attributes
  (\<^verbatim>\<open>internal/logging/redact.go\<close>), the classes of the response counter
  (\<^verbatim>\<open>internal/telemetry/http_responses.go\<close>) with the recorder of response statuses
  (\<^verbatim>\<open>internal/mcp/response_metrics.go\<close>), and the middleware that counts method calls
  (\<^verbatim>\<open>internal/telemetry/middleware.go\<close>). Counters are natural numbers and gauges integers; spans,
  durations and the log lines themselves are left out.
\<close>

section \<open>Redaction\<close>

text \<open>The value of a log attribute; \<^verbatim>\<open>url.Parse\<close> is a parameter that yields scheme and host.\<close>

definition SafeAddr :: "string \<Rightarrow> string" where
  "SafeAddr addr =
     (if length addr \<le> 10 then addr else take 6 addr @ ''...'' @ drop (length addr - 4) addr)"

definition SafeURL :: "(string \<Rightarrow> (string \<times> string) option) \<Rightarrow> string \<Rightarrow> string" where
  "SafeURL parse rawURL =
     (case parse rawURL of None \<Rightarrow> ''[invalid_url]'' | Some (scheme, host) \<Rightarrow> scheme @ ''://'' @ host)"

fun LastIndex :: "char \<Rightarrow> string \<Rightarrow> int" where
  "LastIndex c [] = - 1"
| "LastIndex c (d # s) = (let i = LastIndex c s in if 0 \<le> i then i + 1 else if d = c then 0 else - 1)"

definition SafeEmail :: "string \<Rightarrow> string" where
  "SafeEmail email =
     (let at = LastIndex CHR ''@'' email
      in if at \<le> 0 \<or> at = int (length email) - 1 then ''[redacted_email]''
         else take 1 email @ ''***'' @ drop (nat at) email)"

definition SafeTxData :: "string \<Rightarrow> nat" where
  "SafeTxData data = length (TrimPrefix data ''0x'') div 2"

section \<open>Response statuses\<close>

definition ResponseClassServerFault :: string where "ResponseClassServerFault = ''server_fault''"
definition ResponseClassCustomerImpact :: string where "ResponseClassCustomerImpact = ''customer_impact''"
definition ResponseClassClientError :: string where "ResponseClassClientError = ''client_error''"
definition ResponseClassSuccess :: string where "ResponseClassSuccess = ''success''"

definition ClassifyStatus :: "int \<Rightarrow> string" where
  "ClassifyStatus status =
     (if status \<ge> 500 \<and> status < 600 then ResponseClassServerFault
      else if status = 429 \<or> status = 408 then ResponseClassCustomerImpact
      else if status \<ge> 400 \<and> status < 500 then ResponseClassClientError
      else if status \<ge> 100 \<and> status < 400 then ResponseClassSuccess
      else ResponseClassServerFault)"

text \<open>A handler's calls of its response writer.\<close>

datatype writer_call = WriteHeader int | Write | Flush

record statusRecorder =
  sr_status :: int
  sr_wroteHeader :: bool

fun recorderStep :: "writer_call \<Rightarrow> statusRecorder \<Rightarrow> statusRecorder" where
  "recorderStep (WriteHeader code) sr = (if \<not> sr_wroteHeader sr then \<lparr>sr_status = code, sr_wroteHeader = True\<rparr> else sr)"
| "recorderStep Write sr = (if \<not> sr_wroteHeader sr then \<lparr>sr_status = 200, sr_wroteHeader = True\<rparr> else sr)"
| "recorderStep Flush sr = sr"

definition recordedStatus :: "writer_call list \<Rightarrow> int" where
  "recordedStatus cs = sr_status (fold recorderStep cs \<lparr>sr_status = 200, sr_wroteHeader = False\<rparr>)"

text \<open>
  \<^verbatim>\<open>net/http\<close>: the first final status wins, an informational one is sent and forgotten, and a body or
  a flush before any status sends 200.
\<close>

fun wireStep :: "writer_call \<Rightarrow> int option \<Rightarrow> int option" where
  "wireStep c (Some s) = Some s"
| "wireStep (WriteHeader code) None = (if 100 \<le> code \<and> code \<le> 199 \<and> code \<noteq> 101 then None else Some code)"
| "wireStep Write None = Some 200"
| "wireStep Flush None = Some 200"

definition wireStatus :: "writer_call list \<Rightarrow> int" where
  "wireStatus cs = (case fold wireStep cs None of Some s \<Rightarrow> s | None \<Rightarrow> 200)"

type_synonym response_counts = "string \<times> string \<Rightarrow> nat"

definition responseMetricsMiddleware ::
  "(string \<Rightarrow> writer_call list) \<Rightarrow> bool \<Rightarrow> string \<Rightarrow> response_counts \<Rightarrow> writer_call list \<times> response_counts" where
  "responseMetricsMiddleware next metrics method n =
     (let cs = next method; k = (ClassifyStatus (recordedStatus cs), method)
      in (cs, if \<not> metrics then n else n(k := n k + 1)))"

section \<open>Method calls\<close>

record call_metrics =
  cm_Active :: int
  cm_Calls :: "string \<times> string \<times> string \<Rightarrow> nat"
  cm_Errors :: "string \<times> string \<Rightarrow> nat"

definition extractToolName :: "string \<Rightarrow> req_params \<Rightarrow> string" where
  "extractToolName method req =
     (if method \<noteq> ''tools/call'' then method
      else case req of NamedParams n \<Rightarrow> n | RawToolCall n \<Rightarrow> n | OtherParams \<Rightarrow> ''unknown'')"

text \<open>\<open>next\<close> may panic, shown as None; the panic then passes through the middleware.\<close>

definition NewMCPMiddleware ::
  "(Claims option \<Rightarrow> string \<Rightarrow> req_params \<Rightarrow> 's \<Rightarrow> (goerr + 'r) option \<times> 's)
     \<Rightarrow> Claims option \<Rightarrow> string \<Rightarrow> req_params \<Rightarrow> call_metrics \<Rightarrow> 's
     \<Rightarrow> (goerr + 'r) option \<times> call_metrics \<times> 's" where
  "NewMCPMiddleware next ctx method req m s =
     (let tool = extractToolName method req;
          m1 = m\<lparr>cm_Active := cm_Active m + 1\<rparr>
      in case next ctx method req s of
           (None, s') \<Rightarrow> (None, m1, s')
         | (Some r, s') \<Rightarrow>
             let m2 = m1\<lparr>cm_Active := cm_Active m1 - 1\<rparr>;
                 status = (case r of Inl _ \<Rightarrow> ''error'' | Inr _ \<Rightarrow> ''ok'');
                 m3 = (case r of Inl _ \<Rightarrow> m2\<lparr>cm_Errors := (cm_Errors m2)((method, tool) := cm_Errors m2 (method, tool) + 1)\<rparr>
                              | Inr _ \<Rightarrow> m2);
                 m4 = m3\<lparr>cm_Calls := (cm_Calls m3)((method, tool, status) := cm_Calls m3 (method, tool, status) + 1)\<rparr>
             in (Some (case r of Inl err \<Rightarrow> (case SafeForClient (Some err) of Some e \<Rightarrow> Inl e | None \<Rightarrow> Inl err) | Inr v \<Rightarrow> Inr v), m4, s'))"

section \<open>Properties\<close>

lemma LastIndex_bounds: "- 1 \<le> LastIndex c s \<and> LastIndex c s < int (length s)"
  by (induction s) (auto simp: Let_def)

lemma LastIndex_split:
  "0 \<le> LastIndex c s \<Longrightarrow>
     s = take (nat (LastIndex c s)) s @ c # drop (Suc (nat (LastIndex c s))) s
     \<and> c \<notin> set (drop (Suc (nat (LastIndex c s))) s)"
proof (induction s)
  case (Cons d s)
  show ?case
  proof (cases "0 \<le> LastIndex c s")
    case True
    then have "nat (LastIndex c (d # s)) = Suc (nat (LastIndex c s))" by (simp add: Let_def nat_add_distrib)
    with Cons.IH [OF True] show ?thesis by simp
  next
    case False
    have "c \<notin> set s" using False by (induction s) (auto simp: Let_def split: if_splits)
    with False Cons.prems show ?thesis by (auto simp: Let_def split: if_splits)
  qed
qed simp

text \<open>
  Redaction. Whatever is logged of an address of a person is one byte of its local
  part and the domain after the last at sign, or nothing; of a chain address longer than ten
  characters the first six and the last four; of a URL scheme and host, or nothing.
\<close>

theorem log_redaction:
  "(SafeEmail e = ''[redacted_email]''
    \<or> (\<exists>l d. e = l @ CHR ''@'' # d \<and> l \<noteq> [] \<and> d \<noteq> [] \<and> CHR ''@'' \<notin> set d \<and> SafeEmail e = take 1 l @ ''***@'' @ d))
   \<and> (SafeAddr a = a \<and> length a \<le> 10
      \<or> (\<exists>x m y. a = x @ m @ y \<and> length x = 6 \<and> length y = 4 \<and> m \<noteq> [] \<and> SafeAddr a = x @ ''...'' @ y))
   \<and> (SafeURL parse u = ''[invalid_url]'' \<or> (\<exists>s h. parse u = Some (s, h) \<and> SafeURL parse u = s @ ''://'' @ h))"
proof (intro conjI)
  let ?i = "LastIndex CHR ''@'' e"
  show "SafeEmail e = ''[redacted_email]''
    \<or> (\<exists>l d. e = l @ CHR ''@'' # d \<and> l \<noteq> [] \<and> d \<noteq> [] \<and> CHR ''@'' \<notin> set d \<and> SafeEmail e = take 1 l @ ''***@'' @ d)"
  proof (cases "?i \<le> 0 \<or> ?i = int (length e) - 1")
    case False
    let ?l = "take (nat ?i) e" and ?d = "drop (Suc (nat ?i)) e"
    have s: "e = ?l @ CHR ''@'' # ?d" "CHR ''@'' \<notin> set ?d" using LastIndex_split [of "CHR ''@''" e] False by auto
    have n: "?l \<noteq> []" "?d \<noteq> []" using False LastIndex_bounds [of "CHR ''@''" e] by auto
    have "drop (nat ?i) e = CHR ''@'' # ?d" by (subst s(1)) (use False LastIndex_bounds [of "CHR ''@''" e] in simp)
    moreover have "take 1 e = take 1 ?l"
      using False by (simp add: min_absorb1 Suc_le_eq)
    ultimately have "SafeEmail e = take 1 ?l @ ''***@'' @ ?d" using False by (simp add: SafeEmail_def Let_def)
    with s n show ?thesis by blast
  qed (simp add: SafeEmail_def)
  show "SafeAddr a = a \<and> length a \<le> 10
      \<or> (\<exists>x m y. a = x @ m @ y \<and> length x = 6 \<and> length y = 4 \<and> m \<noteq> [] \<and> SafeAddr a = x @ ''...'' @ y)"
  proof (cases "length a \<le> 10")
    case False
    let ?m = "drop 6 (take (length a - 4) a)"
    let ?p = "take (length a - 4) a"
    have "take 6 ?p = take 6 a" using False by (simp add: min_absorb1)
    then have "?p = take 6 a @ ?m" using append_take_drop_id [of 6 ?p] by simp
    then have "a = (take 6 a @ ?m) @ drop (length a - 4) a" using append_take_drop_id [of "length a - 4" a] by simp
    with False show ?thesis
      by (intro disjI2 exI [of _ "take 6 a"] exI [of _ ?m] exI [of _ "drop (length a - 4) a"]) (simp add: SafeAddr_def)
  qed (simp add: SafeAddr_def)
  show "SafeURL parse u = ''[invalid_url]'' \<or> (\<exists>s h. parse u = Some (s, h) \<and> SafeURL parse u = s @ ''://'' @ h)"
    by (auto simp: SafeURL_def split: option.splits)
qed


text \<open>
  The status that is counted is the one that was sent, except for a handler that flushes before
  it sets another status than 200: the flush sends 200. (Handlers do not send informational codes.)
\<close>

definition informational :: "writer_call \<Rightarrow> bool" where
  "informational c = (case c of WriteHeader k \<Rightarrow> 100 \<le> k \<and> k \<le> 199 \<and> k \<noteq> 101 | _ \<Rightarrow> False)"

lemma fold_wireStep_Some [simp]: "fold wireStep cs (Some s) = Some s"
  by (induction cs) simp_all

lemma fold_recorderStep_set [simp]: "sr_wroteHeader sr \<Longrightarrow> fold recorderStep cs sr = sr"
proof (induction cs)
  case (Cons c cs)
  then show ?case by (cases c) simp_all
qed simp

lemma recordedStatus_eq:
  "recordedStatus cs = (case dropWhile (\<lambda>c. c = Flush) cs of WriteHeader k # _ \<Rightarrow> k | _ \<Rightarrow> 200)"
proof (induction cs)
  case (Cons c cs)
  then show ?case by (cases c) (simp_all add: recordedStatus_def)
qed (simp add: recordedStatus_def)

lemma wireStatus_eq:
  "list_all (\<lambda>c. \<not> informational c) cs \<Longrightarrow> wireStatus cs = (case cs of WriteHeader k # _ \<Rightarrow> k | _ \<Rightarrow> 200)"
  by (cases cs rule: list.exhaust [case_names Nil Cons])
    (auto simp: wireStatus_def informational_def split: writer_call.splits)

lemma recorded_status_exact:
  assumes "list_all (\<lambda>c. \<not> informational c) cs"
  shows "recordedStatus cs = wireStatus cs
    \<longleftrightarrow> \<not> (\<exists>k rest. dropWhile (\<lambda>c. c = Flush) cs = WriteHeader k # rest \<and> k \<noteq> 200 \<and> hd cs = Flush)"
proof (cases cs)
  case (Cons c t)
  then show ?thesis
    using assms
    by (cases c; cases "dropWhile (\<lambda>c. c = Flush) t"; cases "hd (dropWhile (\<lambda>c. c = Flush) t)")
      (simp_all add: recordedStatus_eq wireStatus_eq del: dropWhile_eq_Nil_conv)
qed (simp add: recordedStatus_def wireStatus_def)

text \<open>Each request is counted once, under its method.\<close>

lemma response_counted_once:
  "snd (responseMetricsMiddleware nx True meth n) k
     = n k + (if k = (ClassifyStatus (recordedStatus (nx meth)), meth) then 1 else 0)"
  by (simp add: responseMetricsMiddleware_def Let_def)

lemma ClassifyStatus_success: "ClassifyStatus s = ResponseClassSuccess \<longleftrightarrow> 100 \<le> s \<and> s < 400"
  by (auto simp: ClassifyStatus_def ResponseClassServerFault_def ResponseClassCustomerImpact_def
      ResponseClassClientError_def ResponseClassSuccess_def)

text \<open>The name under which a tool call is counted is the name under which it is authorized.\<close>

lemma tool_names_agree: "extractToolName ''tools/call'' req = ToolNameFromRequest req"
  by (simp add: extractToolName_def ToolNameFromRequest_def)

lemma SafeForClient_Some: "\<exists>e'. SafeForClient (Some e) = Some e'"
  by (simp add: SafeForClient_def)

text \<open>
  A call that returns is counted once, leaves the gauge of running calls as it was and gives the
  client a sanitized error; a call that panics leaves the gauge raised.
\<close>

lemma call_metrics_exact:
  assumes "NewMCPMiddleware nx ctx meth req m s = (Some r, m', s')"
  shows "cm_Active m' = cm_Active m"
    and "\<exists>q. nx ctx meth req s = (Some q, s')
       \<and> (case q of Inl e \<Rightarrow> r = Inl (the (SafeForClient (Some e))) | Inr v \<Rightarrow> r = Inr v)
       \<and> (\<forall>k. cm_Calls m' k = cm_Calls m k
            + (if k = (meth, extractToolName meth req, case q of Inl _ \<Rightarrow> ''error'' | Inr _ \<Rightarrow> ''ok'') then 1 else 0))
       \<and> (\<forall>k. cm_Errors m' k = cm_Errors m k + (if k = (meth, extractToolName meth req) \<and> isl q then 1 else 0))"
proof -
  obtain o1 s1 where n: "nx ctx meth req s = (o1, s1)" by (cases "nx ctx meth req s")
  obtain q where q: "o1 = Some q" using assms n by (cases o1) (simp_all add: NewMCPMiddleware_def Let_def)
  show "cm_Active m' = cm_Active m"
    using assms n q by (cases q) (auto simp: NewMCPMiddleware_def Let_def)
  show "\<exists>q. nx ctx meth req s = (Some q, s')
       \<and> (case q of Inl e \<Rightarrow> r = Inl (the (SafeForClient (Some e))) | Inr v \<Rightarrow> r = Inr v)
       \<and> (\<forall>k. cm_Calls m' k = cm_Calls m k
            + (if k = (meth, extractToolName meth req, case q of Inl _ \<Rightarrow> ''error'' | Inr _ \<Rightarrow> ''ok'') then 1 else 0))
       \<and> (\<forall>k. cm_Errors m' k = cm_Errors m k + (if k = (meth, extractToolName meth req) \<and> isl q then 1 else 0))"
  proof (cases q)
    case (Inl e)
    obtain e' where "SafeForClient (Some e) = Some e'" using SafeForClient_Some by blast
    with assms n q Inl show ?thesis by (auto simp: NewMCPMiddleware_def Let_def)
  next
    case (Inr v)
    with assms n q show ?thesis by (auto simp: NewMCPMiddleware_def Let_def)
  qed
qed

lemma panicking_call_leaks_gauge:
  "nx ctx meth req s = (None, s') \<Longrightarrow> cm_Active (fst (snd (NewMCPMiddleware nx ctx meth req m s))) = cm_Active m + 1"
  by (simp add: NewMCPMiddleware_def Let_def)

end
