(* ===== verification/Config.thy ===== *)
theory Config
  imports Config_Types Go_Text
begin

text \<open>
  Loading and validation of the configuration (\<^verbatim>\<open>internal/config/config.go\<close>). A loader that
  assigns to the receiver returns the updated record; the first error ends the load, and no
  caller ever sees the record of a failed load. The theorems say what a configuration that was
  loaded is known to satisfy, which is what the components rely on when they are built from it.
\<close>

fun bindE :: "goerr + 'a \<Rightarrow> ('a \<Rightarrow> goerr + 'b) \<Rightarrow> goerr + 'b" where
  "bindE (Inl e) f = Inl e"
| "bindE (Inr a) f = f a"

lemma bindE_Inr: "bindE m f = Inr b \<longleftrightarrow> (\<exists>a. m = Inr a \<and> f a = Inr b)"
  by (cases m) auto

definition requireE :: "bool \<Rightarrow> goerr \<Rightarrow> 'a \<Rightarrow> goerr + 'a" where
  "requireE ok err a = (if ok then Inr a else Inl err)"

lemma requireE_Inr [simp]: "requireE ok err a = Inr b \<longleftrightarrow> ok \<and> b = a"
  by (auto simp: requireE_def)

text \<open>
  The four ways the loaders read a typed variable: take the value or the default, parse it,
  and wrap the error of the parser with the variable's name.
\<close>

definition envParsed ::
  "cfg_lib \<Rightarrow> environ \<Rightarrow> (string \<Rightarrow> goerr + 'a) \<Rightarrow> string \<Rightarrow> string \<Rightarrow> goerr + 'a" where
  "envParsed lib env parser key fallback =
     (let raw = envOrDefault env key fallback
      in case parser raw of Inl err \<Rightarrow> Inl (invalidEnv lib key raw err) | Inr v \<Rightarrow> Inr v)"

definition envDuration :: "cfg_lib \<Rightarrow> environ \<Rightarrow> string \<Rightarrow> string \<Rightarrow> goerr + duration" where
  "envDuration lib env = envParsed lib env (lb_ParseDuration lib)"

definition envFloat :: "cfg_lib \<Rightarrow> environ \<Rightarrow> string \<Rightarrow> string \<Rightarrow> goerr + gofloat" where
  "envFloat lib env = envParsed lib env (lb_ParseFloat lib)"

definition envInt :: "cfg_lib \<Rightarrow> environ \<Rightarrow> string \<Rightarrow> string \<Rightarrow> goerr + int" where
  "envInt lib env = envParsed lib env (parseSigned (lb_quote lib) ''Atoi'')"

section \<open>Retention windows\<close>

definition Retention_Enabled :: "RetentionConfig \<Rightarrow> bool" where
  "Retention_Enabled r \<longleftrightarrow>
     0 < rt_WriteAudit r \<or> 0 < rt_WriteAuditGrantRole r \<or> 0 < rt_SignerQuota r
     \<or> 0 < rt_SignerBlacklist r \<or> 0 < rt_AdminAudit r"

definition Retention_validate :: "RetentionConfig \<Rightarrow> goerr option" where
  "Retention_validate r =
     (if \<not> Retention_Enabled r then None
      else if rt_PurgeInterval r \<le> 0 then Some ErrRetentionIntervalInvalid
      else if 0 < rt_WriteAuditGrantRole r
              \<and> (rt_WriteAudit r = 0 \<or> rt_WriteAuditGrantRole r < rt_WriteAudit r)
        then Some ErrRetentionGrantRoleShorter
      else None)"

text \<open>One entry of the table of windows: unset keeps the zero value.\<close>

definition retentionWindow :: "cfg_lib \<Rightarrow> environ \<Rightarrow> string \<Rightarrow> goerr + duration" where
  "retentionWindow lib env key =
     (let raw = envOrDefault env key ''''
      in if raw = '''' then Inr 0
         else case lb_ParseDuration lib raw of
                Inl err \<Rightarrow> Inl (invalidEnv lib key raw err)
              | Inr d \<Rightarrow>
                  if d < 0
                  then Inl (Errorf (key @ ''='' @ Quote (lb_quote lib) raw @ '': '' @ Error ErrRetentionNegative)
                              [ErrRetentionNegative])
                  else Inr d)"

definition loadRetentionConfig :: "cfg_lib \<Rightarrow> environ \<Rightarrow> Config \<Rightarrow> goerr + Config" where
  "loadRetentionConfig lib env c =
     bindE (retentionWindow lib env ''MCP_WRITE_AUDIT_RETENTION'') (\<lambda>wa.
     bindE (retentionWindow lib env ''MCP_WRITE_AUDIT_GRANT_ROLE_RETENTION'') (\<lambda>gr.
     bindE (retentionWindow lib env ''MCP_SIGNER_QUOTA_RETENTION'') (\<lambda>sq.
     bindE (retentionWindow lib env ''MCP_SIGNER_BLACKLIST_RETENTION'') (\<lambda>sb.
     bindE (retentionWindow lib env ''MCP_ADMIN_AUDIT_RETENTION'') (\<lambda>aa.
     bindE (envDuration lib env ''MCP_RETENTION_PURGE_INTERVAL'' ''1h'') (\<lambda>iv.
       let r = \<lparr>rt_WriteAudit = wa, rt_WriteAuditGrantRole = gr, rt_SignerQuota = sq,
                rt_SignerBlacklist = sb, rt_AdminAudit = aa, rt_PurgeInterval = iv\<rparr>
       in case Retention_validate r of
            Some err \<Rightarrow> Inl err
          | None \<Rightarrow> Inr (c\<lparr>c_Retention := r\<rparr>)))))))"

section \<open>The loaders\<close>

definition legacyKeys :: "string list" where
  "legacyKeys = [''INVENIAM_EVM_RPC_URL'', ''INVENIAM_EVM_ARCHIVE_RPC_URL'', ''INVENIAM_CHAIN_ID'']"

definition detectLegacyEnvVars :: "environ \<Rightarrow> string list" where
  "detectLegacyEnvVars env = filter (\<lambda>k. env k \<noteq> None) legacyKeys"

definition loadCoreConfig :: "cfg_lib \<Rightarrow> environ \<Rightarrow> Config \<Rightarrow> goerr + Config" where
  "loadCoreConfig lib env c =
     (let chainIDStr = Getenv env ''NVNM_CHAIN_ID'' in
      bindE (if chainIDStr = '''' then Inr c
             else case parseSigned (lb_quote lib) ''ParseInt'' chainIDStr of
                    Inl err \<Rightarrow> Inl (invalidEnv lib ''NVNM_CHAIN_ID'' chainIDStr err)
                  | Inr n \<Rightarrow> Inr (c\<lparr>c_ChainID := n\<rparr>)) (\<lambda>c.
      bindE (envDuration lib env ''REQUEST_TIMEOUT'' ''15s'') (\<lambda>d.
        Inr (c\<lparr>c_RequestTimeout := d\<rparr>))))"

definition loadFeatureFlags :: "cfg_lib \<Rightarrow> environ \<Rightarrow> Config \<Rightarrow> goerr + Config" where
  "loadFeatureFlags lib env c =
     bindE (envBool lib env ''ENABLE_WRITE_TOOLS'' False) (\<lambda>v1.
     bindE (envBool lib env ''ENABLE_PROMETHEUS'' True) (\<lambda>v2.
     bindE (envBool lib env ''ENABLE_STDOUT_TELEMETRY'' False) (\<lambda>v3.
     bindE (envBool lib env ''OTLP_INSECURE'' False) (\<lambda>v4.
     bindE (envBool lib env ''NVNM_TRUST_PROXY_HEADERS'' False) (\<lambda>v5.
       Inr (c\<lparr>c_EnableWriteTools := v1, c_EnablePrometheus := v2, c_EnableStdoutTel := v3,
              c_OTLPInsecure := v4, c_TrustProxyHeaders := v5\<rparr>))))))"

definition loadTrustedProxyHops :: "cfg_lib \<Rightarrow> environ \<Rightarrow> Config \<Rightarrow> goerr + Config" where
  "loadTrustedProxyHops lib env c =
     bindE (envInt lib env ''NVNM_TRUSTED_PROXY_HOPS'' ''1'') (\<lambda>hops.
       if hops < 1 then Inl ErrInvalidTrustedProxyHops
       else Inr (c\<lparr>c_TrustedProxyHops := hops\<rparr>))"

definition loadKeyStoreConfig :: "cfg_lib \<Rightarrow> environ \<Rightarrow> Config \<Rightarrow> goerr + Config" where
  "loadKeyStoreConfig lib env c =
     bindE (envDuration lib env ''KEY_DEFAULT_TTL'' ''8760h'') (\<lambda>ttl.
       Inr (c\<lparr>c_KeyHMACPepper := Getenv env ''KEY_HMAC_PEPPER'',
              c_KeyHMACPepperPrevious := Getenv env ''KEY_HMAC_PEPPER_PREVIOUS'',
              c_KeyStoreBackend := Getenv env ''KEY_STORE_BACKEND'',
              c_KeyStoreDSN := Getenv env ''KEY_STORE_DSN'',
              c_KeyRenewalURL := Getenv env ''KEY_RENEWAL_URL'',
              c_KeyDefaultTTL := ttl\<rparr>))"

definition loadTelemetryConfig :: "cfg_lib \<Rightarrow> environ \<Rightarrow> Config \<Rightarrow> goerr + Config" where
  "loadTelemetryConfig lib env c =
     bindE (envFloat lib env ''OTEL_TRACE_SAMPLE_RATIO'' ''1.0'') (\<lambda>ratio.
     bindE (envDuration lib env ''NVNM_READINESS_MAX_BLOCK_AGE'' ''5m'') (\<lambda>age.
       Inr (c\<lparr>c_OTELEndpoint := Getenv env ''OTEL_EXPORTER_OTLP_ENDPOINT'',
              c_OTELServiceName := envOrDefault env ''OTEL_SERVICE_NAME'' ''nvnm-mcp-server'',
              c_MetricsAddr := envOrDefault env ''METRICS_ADDR'' '':9090'',
              c_OTELTraceSampleRatio := ratio,
              c_ReadinessMaxBlockAge := age\<rparr>)))"

definition loadResilienceConfig :: "cfg_lib \<Rightarrow> environ \<Rightarrow> Config \<Rightarrow> goerr + Config" where
  "loadResilienceConfig lib env c =
     bindE (envInt lib env ''RPC_MAX_RETRIES'' ''3'') (\<lambda>retries.
     bindE (envDuration lib env ''RPC_INITIAL_BACKOFF'' ''500ms'') (\<lambda>ib.
     bindE (envDuration lib env ''RPC_MAX_BACKOFF'' ''10s'') (\<lambda>mb.
     bindE (envFloat lib env ''RPC_RATE_LIMIT'' ''100'') (\<lambda>rl.
     bindE (envInt lib env ''RPC_RATE_BURST'' ''20'') (\<lambda>rb.
     bindE (envParsed lib env (parseUint32 (lb_quote lib)) ''CIRCUIT_BREAKER_THRESHOLD'' ''5'') (\<lambda>bt.
     bindE (envDuration lib env ''CIRCUIT_BREAKER_TIMEOUT'' ''30s'') (\<lambda>bto.
       Inr (c\<lparr>c_RPCMaxRetries := retries, c_RPCInitialBackoff := ib, c_RPCMaxBackoff := mb,
              c_RPCRateLimit := rl, c_RPCRateBurst := rb, c_CircuitBreakerThreshold := bt,
              c_CircuitBreakerTimeout := bto\<rparr>))))))))"

definition loadMCPRateConfig :: "cfg_lib \<Rightarrow> environ \<Rightarrow> Config \<Rightarrow> goerr + Config" where
  "loadMCPRateConfig lib env c =
     bindE (envFloat lib env ''MCP_RATE_LIMIT'' ''60'') (\<lambda>rl.
     bindE (envInt lib env ''MCP_RATE_BURST'' ''10'') (\<lambda>rb.
       Inr (c\<lparr>c_MCPRateLimit := rl, c_MCPRateBurst := rb\<rparr>)))"

definition loadSignerQuotaConfig :: "cfg_lib \<Rightarrow> environ \<Rightarrow> Config \<Rightarrow> goerr + Config" where
  "loadSignerQuotaConfig lib env c =
     bindE (envInt lib env ''MCP_SIGNER_WRITE_RATE'' ''500'') (\<lambda>rate.
     bindE (envDuration lib env ''MCP_SIGNER_WRITE_WINDOW'' ''24h'') (\<lambda>window.
     bindE (envBool lib env ''MCP_SIGNER_QUOTA_FAIL_OPEN'' False) (\<lambda>qfo.
     bindE (envBool lib env ''MCP_SIGNER_BLACKLIST_FAIL_OPEN'' False) (\<lambda>bfo.
       Inr (c\<lparr>c_SignerWriteRate := rate, c_SignerWriteWindow := window,
              c_SignerQuotaFailOpen := qfo, c_SignerBlacklistFailOpen := bfo\<rparr>)))))"

definition loadKeylessConfig :: "cfg_lib \<Rightarrow> environ \<Rightarrow> Config \<Rightarrow> goerr + Config" where
  "loadKeylessConfig lib env c =
     bindE (envBool lib env ''MCP_KEYLESS_READS'' False) (\<lambda>keyless.
     bindE (envBool lib env ''MCP_KEYLESS_WRITES'' False) (\<lambda>keylessW.
     bindE (envBool lib env ''MCP_RELAY_ALLOW_ANY'' False) (\<lambda>allowAny.
     bindE (envFloat lib env ''MCP_ANON_RATE_LIMIT'' ''5'') (\<lambda>al.
     bindE (envInt lib env ''MCP_ANON_RATE_BURST'' ''5'') (\<lambda>ab.
     bindE (loadSignerQuotaConfig lib env
              (c\<lparr>c_KeylessReads := keyless, c_KeylessWrites := keylessW,
                 c_KeylessPGDSN := Getenv env ''MCP_KEYLESS_PG_DSN'', c_RelayAllowAny := allowAny,
                 c_AnonRateLimit := al, c_AnonRateBurst := ab\<rparr>)) (\<lambda>c.
       loadRetentionConfig lib env c))))))"

definition loadChainEnvironment :: "environ \<Rightarrow> Config \<Rightarrow> Config" where
  "loadChainEnvironment env c =
     (let raw = Getenv env ''NVNM_CHAIN_ENVIRONMENT'' in
      if raw \<noteq> '''' then c\<lparr>c_ChainEnvironment := raw\<rparr>
      else let inferred = InferEnvironmentFromChainID (c_ChainID c) in
           if inferred \<noteq> '''' then c\<lparr>c_ChainEnvironment := inferred\<rparr> else c)"

definition loadKeyRequestConfig :: "cfg_lib \<Rightarrow> environ \<Rightarrow> Config \<Rightarrow> goerr + Config" where
  "loadKeyRequestConfig lib env c =
     bindE (envBool lib env ''NVNM_KEY_REQUEST_ENABLED'' False) (\<lambda>enabled.
     bindE (envBool lib env ''NVNM_ALLOW_KEY_IN_LOGS'' False) (\<lambda>allow.
     bindE (envFloat lib env ''NVNM_KEY_REQUEST_RATE_LIMIT'' ''0.5'') (\<lambda>limit.
     bindE (envInt lib env ''NVNM_KEY_REQUEST_RATE_BURST'' ''3'') (\<lambda>burst.
     bindE (envParsed lib env (parseSigned (lb_quote lib) ''ParseInt'')
              ''NVNM_KEY_REQUEST_MAX_BODY_BYTES'' ''16384'') (\<lambda>maxBody.
       let c = c\<lparr>c_KeyRequestEnabled := enabled,
                 c_KeyPendingFile := Getenv env ''NVNM_KEY_PENDING_FILE'',
                 c_AllowKeyInLogs := allow, c_KeyRequestRateLimit := limit,
                 c_KeyRequestRateBurst := burst, c_KeyRequestMaxBodyBytes := maxBody\<rparr>
       in if \<not> c_KeyRequestEnabled c then Inr c
          else if c_KeyPendingFile c = '''' then Inl ErrMissingKeyPendingFile
          else if fleZero (c_KeyRequestRateLimit c) then Inl ErrInvalidKeyRequestRateLimit
          else if c_KeyRequestRateBurst c \<le> 0 then Inl ErrInvalidKeyRequestRateBurst
          else if c_KeyRequestMaxBodyBytes c \<le> 0 then Inl ErrInvalidKeyRequestMaxBody
          else Inr c)))))"

definition loadSMTPConfig :: "cfg_lib \<Rightarrow> environ \<Rightarrow> Config \<Rightarrow> goerr + Config" where
  "loadSMTPConfig lib env c =
     (let portStr = Getenv env ''NVNM_SMTP_PORT'';
          c = c\<lparr>c_SMTPHost := Getenv env ''NVNM_SMTP_HOST'',
                c_SMTPUsername := Getenv env ''NVNM_SMTP_USERNAME'',
                c_SMTPPassword := Getenv env ''NVNM_SMTP_PASSWORD'',
                c_SMTPFrom := Getenv env ''NVNM_SMTP_FROM'',
                c_SMTPFromName := Getenv env ''NVNM_SMTP_FROM_NAME''\<rparr> in
      bindE (if portStr = '''' then Inr c
             else case parseSigned (lb_quote lib) ''Atoi'' portStr of
                    Inl err \<Rightarrow> Inl (invalidEnv lib ''NVNM_SMTP_PORT'' portStr err)
                  | Inr port \<Rightarrow> Inr (c\<lparr>c_SMTPPort := port\<rparr>)) (\<lambda>c.
        if c_SMTPHost c = '''' then Inr c
        else if c_SMTPPort c = 0 then Inl ErrMissingSMTPPort
        else if c_SMTPFrom c = '''' then Inl ErrMissingSMTPFrom
        else Inr c))"


section \<open>Validation\<close>

definition httpURL :: "string \<Rightarrow> bool" where
  "httpURL u \<longleftrightarrow> HasPrefix u ''http://'' \<or> HasPrefix u ''https://''"

definition validateKeyRequestEmail :: "Config \<Rightarrow> goerr option" where
  "validateKeyRequestEmail c =
     (if c_KeyRequestEnabled c \<and> c_SMTPHost c = '''' \<and> \<not> c_AllowKeyInLogs c
      then Some ErrKeyInLogsNotAllowed else None)"

definition validateKeylessWrites :: "Config \<Rightarrow> goerr option" where
  "validateKeylessWrites c =
     (if \<not> c_KeylessWrites c then None
      else if c_RelayAllowAny c then Some ErrRelayAllowAnyWithKeyless
      else if \<not> c_KeylessReads c then Some ErrKeylessWritesRequiresReads
      else if AddressFromHex (c_AnchorAddress c) = None then Some ErrAnchorAddressInvalid
      else if c_SignerWriteRate c < 1 then Some ErrSignerWriteRateInvalid
      else if c_SignerWriteWindow c \<le> 0 then Some ErrSignerWriteWindowInvalid
      else None)"

definition validateKeyless :: "Config \<Rightarrow> goerr option" where
  "validateKeyless c =
     (if c_KeylessWrites c \<and> c_KeylessPGDSN c = '''' then Some ErrKeylessWritesRequiresDSN
      else validateKeylessWrites c)"

definition validateKeyStore :: "cfg_lib \<Rightarrow> Config \<Rightarrow> goerr option" where
  "validateKeyStore lib c =
     (if c_KeyStoreBackend c = '''' \<or> c_KeyStoreBackend c = ''file'' then None
      else if c_KeyStoreBackend c = ''postgres'' then
        (if c_KeyStoreDSN c = '''' then Some ErrKeyStoreDSNRequired
         else if c_AuthProvider c = ''apikey'' \<and> c_KeyHMACPepper c = '''' then Some ErrPepperRequired
         else None)
      else Some (gotErr lib ErrInvalidKeyStoreBackend (c_KeyStoreBackend c)))"

definition MinKeyHMACPepperLen :: nat where
  "MinKeyHMACPepperLen = 32"

definition weakPepper :: "string \<Rightarrow> bool" where
  "weakPepper p \<longleftrightarrow> 0 < length p \<and> length p < MinKeyHMACPepperLen"

definition validatePepperStrength :: "Config \<Rightarrow> goerr option" where
  "validatePepperStrength c =
     (if weakPepper (c_KeyHMACPepper c) then
        Some (Errorf (Error ErrPepperTooShort @ '': got '' @ dec_nat (length (c_KeyHMACPepper c)) @
                        '' characters'') [ErrPepperTooShort])
      else if weakPepper (c_KeyHMACPepperPrevious c) then
        Some (Errorf (Error ErrPepperTooShort @ '': KEY_HMAC_PEPPER_PREVIOUS has '' @
                        dec_nat (length (c_KeyHMACPepperPrevious c)) @ '' characters'') [ErrPepperTooShort])
      else None)"

definition validateAuth :: "cfg_lib \<Rightarrow> Config \<Rightarrow> goerr option" where
  "validateAuth lib c =
     (if c_KeyHMACPepperPrevious c \<noteq> '''' \<and> c_KeyHMACPepper c = '''' then Some ErrPepperPreviousWithoutActive
      else if c_APIKey c \<noteq> '''' \<and> c_APIKeyRoles c = [] then Some ErrStaticKeyRolesRequired
      else case (if c_APIKey c \<noteq> '''' then find (\<lambda>r. \<not> IsValidRole r) (c_APIKeyRoles c) else None) of
             Some r \<Rightarrow> Some (gotErr lib cfgErrInvalidRole r)
           | None \<Rightarrow>
               if c_AuthProvider c \<noteq> ''apikey'' \<and> c_AuthProvider c \<noteq> ''fusionauth''
               then Some (gotErr lib ErrInvalidAuthProvider (c_AuthProvider c))
               else if c_AuthProvider c = ''fusionauth'' then
                 (if c_FusionAuthURL c = '''' then Some ErrMissingFusionAuthURL
                  else if \<not> httpURL (c_FusionAuthURL c)
                    then Some (gotErr lib ErrInvalidFusionAuthURL (c_FusionAuthURL c))
                  else if c_FusionAuthAppID c = '''' then Some ErrMissingFusionAuthAppID
                  else if c_FusionAuthClientIDHMACKey c = '''' then Some ErrMissingClientIDHMACKey
                  else None)
               else None)"

definition validateResilience :: "Config \<Rightarrow> goerr option" where
  "validateResilience c =
     (if c_RPCMaxRetries c < 0 then Some ErrInvalidRetries
      else if c_RPCInitialBackoff c \<le> 0 \<or> c_RPCMaxBackoff c \<le> 0 then Some ErrInvalidBackoff
      else if fleZero (c_RPCRateLimit c) then Some ErrInvalidRateLimit
      else if c_RPCRateBurst c \<le> 0 then Some ErrInvalidRateBurst
      else if c_CircuitBreakerThreshold c = 0 \<or> c_CircuitBreakerTimeout c \<le> 0
        then Some ErrInvalidBreakerSettings
      else if fltZero (c_OTELTraceSampleRatio c) \<or> fgtOne (c_OTELTraceSampleRatio c)
        then Some ErrInvalidSampleRatio
      else if c_ReadinessMaxBlockAge c < 0 then Some ErrInvalidReadinessMaxBlockAge
      else if fleZero (c_MCPRateLimit c) then Some ErrInvalidMCPRateLimit
      else if c_MCPRateBurst c \<le> 0 then Some ErrInvalidMCPRateBurst
      else if fleZero (c_AnonRateLimit c) then Some ErrInvalidAnonRateLimit
      else if c_AnonRateBurst c \<le> 0 then Some ErrInvalidAnonRateBurst
      else None)"

text \<open>\<open>orElseE\<close> is the sequence \<^verbatim>\<open>if err := f(); err != nil { return err }; return g()\<close>.\<close>

definition orElseE :: "goerr option \<Rightarrow> goerr option \<Rightarrow> goerr option" where
  "orElseE a b = (case a of Some e \<Rightarrow> Some e | None \<Rightarrow> b)"

lemma orElseE_None [simp]: "orElseE a b = None \<longleftrightarrow> a = None \<and> b = None"
  by (simp add: orElseE_def split: option.split)

definition Config_Validate :: "cfg_lib \<Rightarrow> Config \<Rightarrow> goerr option" where
  "Config_Validate lib c =
     (if c_EVMRPCURL c = '''' then Some ErrMissingRPCURL
      else if \<not> httpURL (c_EVMRPCURL c) then Some (gotErr lib ErrInvalidRPCURL (c_EVMRPCURL c))
      else if c_ChainID c \<le> 0 then Some cfgErrInvalidChainID
      else if c_RequestTimeout c \<le> 0 then Some ErrInvalidTimeout
      else if c_Transport c \<noteq> ''stdio'' \<and> c_Transport c \<noteq> ''http''
        then Some (gotErr lib ErrInvalidTransport (c_Transport c))
      else if \<not> ChainEnvironment_IsValid (c_ChainEnvironment c)
        then Some (gotErr lib ErrInvalidChainEnvironment (c_ChainEnvironment c))
      else orElseE (validateAuth lib c)
          (orElseE (validatePepperStrength c)
          (orElseE (validateKeyStore lib c)
          (orElseE (validateKeyless c)
          (orElseE (validateKeyRequestEmail c)
                   (validateResilience c))))))"

section \<open>Load\<close>

definition zeroConfig :: Config where
  "zeroConfig =
     \<lparr>c_EVMRPCURL = '''', c_EVMArchiveRPCURL = '''', c_ChainID = 0, c_AnchorAddress = '''',
      c_AnchorABIPath = '''', c_RequestTimeout = 0, c_LogLevel = '''', c_EnableWriteTools = False,
      c_Transport = '''', c_HTTPAddr = '''', c_APIKey = '''', c_APIKeyRoles = [],
      c_KeyHMACPepper = '''', c_KeyHMACPepperPrevious = '''', c_KeyStoreBackend = '''',
      c_KeyStoreDSN = '''', c_KeyDefaultTTL = 0, c_KeyRenewalURL = '''', c_APIKeysFile = '''',
      c_AdminAPIKey = '''', c_AdminAPIKeysFile = '''', c_AdminAPIAddr = '''', c_OTELEndpoint = '''',
      c_OTELServiceName = '''', c_EnablePrometheus = False, c_EnableStdoutTel = False,
      c_OTLPInsecure = False, c_MetricsAddr = '''', c_ReadinessMaxBlockAge = 0, c_RPCMaxRetries = 0,
      c_RPCInitialBackoff = 0, c_RPCMaxBackoff = 0, c_RPCRateLimit = Fin 0 0, c_RPCRateBurst = 0,
      c_CircuitBreakerThreshold = 0, c_CircuitBreakerTimeout = 0, c_OTELTraceSampleRatio = Fin 0 0,
      c_MCPRateLimit = Fin 0 0, c_MCPRateBurst = 0, c_KeylessReads = False, c_KeylessWrites = False,
      c_RelayAllowAny = False, c_KeylessPGDSN = '''',
      c_Retention = \<lparr>rt_WriteAudit = 0, rt_WriteAuditGrantRole = 0, rt_SignerQuota = 0,
                     rt_SignerBlacklist = 0, rt_AdminAudit = 0, rt_PurgeInterval = 0\<rparr>,
      c_SignerWriteRate = 0, c_SignerWriteWindow = 0, c_SignerQuotaFailOpen = False,
      c_SignerBlacklistFailOpen = False, c_AnonRateLimit = Fin 0 0, c_AnonRateBurst = 0,
      c_AuthProvider = '''', c_FusionAuthURL = '''', c_FusionAuthAppID = '''', c_FusionAuthIssuer = '''',
      c_FusionAuthJWKSURL = '''', c_FusionAuthClientIDHMACKey = '''', c_JWTClockSkew = 0,
      c_JWTRolesClaim = '''', c_ChainEnvironment = '''', c_DocsURL = '''', c_ExplorerURL = '''',
      c_BridgeURL = '''', c_WalletGeneratorURL = '''', c_AllowedOrigins = [], c_TrustProxyHeaders = False,
      c_TrustedProxyHops = 0, c_KeyRequestEnabled = False, c_KeyPendingFile = '''',
      c_KeyRequestRateLimit = Fin 0 0, c_KeyRequestRateBurst = 0, c_KeyRequestMaxBodyBytes = 0,
      c_SMTPHost = '''', c_SMTPPort = 0, c_SMTPUsername = '''', c_SMTPPassword = '''', c_SMTPFrom = '''',
      c_SMTPFromName = '''', c_AllowKeyInLogs = False\<rparr>"

definition initialConfig :: "environ \<Rightarrow> Config" where
  "initialConfig env =
     zeroConfig
       \<lparr>c_EVMRPCURL := Getenv env ''NVNM_EVM_RPC_URL'',
        c_EVMArchiveRPCURL := Getenv env ''NVNM_EVM_ARCHIVE_RPC_URL'',
        c_AnchorAddress := envOrDefault env ''ANCHOR_ADDRESS'' ''0x0000000000000000000000000000000000000A00'',
        c_AnchorABIPath := Getenv env ''ANCHOR_ABI_PATH'',
        c_LogLevel := envOrDefault env ''LOG_LEVEL'' ''info'',
        c_Transport := envOrDefault env ''MCP_TRANSPORT'' ''stdio'',
        c_HTTPAddr := envOrDefault env ''MCP_HTTP_ADDR'' '':8080''\<rparr>"

definition loadKeyFiles :: "environ \<Rightarrow> Config \<Rightarrow> Config" where
  "loadKeyFiles env c =
     c\<lparr>c_APIKeysFile := Getenv env ''MCP_API_KEYS_FILE'',
       c_AdminAPIKey := Getenv env ''ADMIN_API_KEY'',
       c_AdminAPIKeysFile := Getenv env ''ADMIN_API_KEYS_FILE'',
       c_AdminAPIAddr := envOrDefault env ''ADMIN_API_ADDR'' ''127.0.0.1:8081''\<rparr>"

definition loadProvider :: "cfg_lib \<Rightarrow> environ \<Rightarrow> Config \<Rightarrow> goerr + Config" where
  "loadProvider lib env c =
     bindE (envDuration lib env ''JWT_CLOCK_SKEW'' ''60s'') (\<lambda>skew.
       Inr (c\<lparr>c_AuthProvider := envOrDefault env ''AUTH_PROVIDER'' ''apikey'',
              c_FusionAuthURL := Getenv env ''FUSIONAUTH_URL'',
              c_FusionAuthAppID := Getenv env ''FUSIONAUTH_APPLICATION_ID'',
              c_FusionAuthIssuer := Getenv env ''FUSIONAUTH_ISSUER'',
              c_FusionAuthJWKSURL := Getenv env ''FUSIONAUTH_JWKS_URL'',
              c_FusionAuthClientIDHMACKey := Getenv env ''MCP_CLIENT_ID_HMAC_KEY'',
              c_JWTRolesClaim := envOrDefault env ''JWT_ROLES_CLAIM'' ''roles'',
              c_JWTClockSkew := skew\<rparr>))"

definition loadURLs :: "environ \<Rightarrow> Config \<Rightarrow> Config" where
  "loadURLs env c =
     (loadChainEnvironment env c)
       \<lparr>c_DocsURL := Getenv env ''NVNM_DOCS_URL'',
        c_ExplorerURL := Getenv env ''NVNM_EXPLORER_URL'',
        c_BridgeURL := Getenv env ''NVNM_BRIDGE_URL'',
        c_WalletGeneratorURL := envOrDefault env ''NVNM_WALLET_GENERATOR_URL'' ''https://wallet.nvnmchain.io''\<rparr>"

definition Load :: "cfg_lib \<Rightarrow> environ \<Rightarrow> goerr + Config" where
  "Load lib env =
     (let legacy = detectLegacyEnvVars env in
      if 0 < length legacy then
        Inl (Errorf (Error ErrLegacyEnvVars @ '': found '' @ Join '', '' legacy @
               ''. Migration table: docs/RUNBOOK.md#env-var-migration'') [ErrLegacyEnvVars])
      else if Getenv env ''WRITE_APPROVAL_DEFAULT'' \<noteq> '''' then Inl ErrLegacyWriteApproval
      else
        bindE (loadCoreConfig lib env (initialConfig env)) (\<lambda>c.
        bindE (loadFeatureFlags lib env c) (\<lambda>c.
        bindE (loadTrustedProxyHops lib env c) (\<lambda>c.
        bindE (loadKeyStoreConfig lib env
                 (c\<lparr>c_APIKey := Getenv env ''MCP_API_KEY'',
                    c_APIKeyRoles := parseRoleList (Getenv env ''MCP_API_KEY_ROLES'')\<rparr>)) (\<lambda>c.
        bindE (loadTelemetryConfig lib env (loadKeyFiles env c)) (\<lambda>c.
        bindE (loadResilienceConfig lib env c) (\<lambda>c.
        bindE (loadMCPRateConfig lib env c) (\<lambda>c.
        bindE (loadKeylessConfig lib env c) (\<lambda>c.
        bindE (loadProvider lib env c) (\<lambda>c.
        bindE (loadKeyRequestConfig lib env (loadURLs env c)) (\<lambda>c.
        bindE (loadSMTPConfig lib env c) (\<lambda>c.
          let c = c\<lparr>c_AllowedOrigins := parseCommaSeparated (Getenv env ''NVNM_ALLOWED_ORIGINS'')\<rparr>
          in case Config_Validate lib c of Some err \<Rightarrow> Inl err | None \<Rightarrow> Inr c))))))))))))"

definition GetFusionAuthIssuer :: "Config \<Rightarrow> string" where
  "GetFusionAuthIssuer c = (if c_FusionAuthIssuer c \<noteq> '''' then c_FusionAuthIssuer c else c_FusionAuthURL c)"

definition trimRightSlash :: "string \<Rightarrow> string" where
  "trimRightSlash s = rev (dropWhile (\<lambda>ch. ch = CHR ''/'') (rev s))"

definition GetFusionAuthJWKSURL :: "Config \<Rightarrow> string" where
  "GetFusionAuthJWKSURL c =
     (if c_FusionAuthJWKSURL c \<noteq> '''' then c_FusionAuthJWKSURL c
      else trimRightSlash (c_FusionAuthURL c) @ ''/.well-known/jwks.json'')"


section \<open>What a validated configuration satisfies\<close>

definition strong_pepper :: "string \<Rightarrow> bool" where
  "strong_pepper p \<longleftrightarrow> p = '''' \<or> 32 \<le> length p"

definition core_ok :: "Config \<Rightarrow> bool" where
  "core_ok c \<longleftrightarrow>
     httpURL (c_EVMRPCURL c) \<and> 0 < c_ChainID c \<and> 0 < c_RequestTimeout c
     \<and> c_Transport c \<in> {''stdio'', ''http''} \<and> c_ChainEnvironment c \<in> {EnvTestnet, EnvMainnet}"

definition auth_ok :: "Config \<Rightarrow> bool" where
  "auth_ok c \<longleftrightarrow>
     (c_KeyHMACPepperPrevious c \<noteq> '''' \<longrightarrow> c_KeyHMACPepper c \<noteq> '''')
     \<and> strong_pepper (c_KeyHMACPepper c) \<and> strong_pepper (c_KeyHMACPepperPrevious c)
     \<and> (c_APIKey c \<noteq> '''' \<longrightarrow> c_APIKeyRoles c \<noteq> [] \<and> set (c_APIKeyRoles c) \<subseteq> set validRoles)
     \<and> (c_AuthProvider c = ''apikey''
        \<or> c_AuthProvider c = ''fusionauth'' \<and> httpURL (c_FusionAuthURL c) \<and> c_FusionAuthAppID c \<noteq> ''''
          \<and> c_FusionAuthClientIDHMACKey c \<noteq> '''')"

definition keystore_ok :: "Config \<Rightarrow> bool" where
  "keystore_ok c \<longleftrightarrow>
     c_KeyStoreBackend c \<in> {'''', ''file''}
     \<or> c_KeyStoreBackend c = ''postgres'' \<and> c_KeyStoreDSN c \<noteq> ''''
       \<and> (c_AuthProvider c = ''apikey'' \<longrightarrow> c_KeyHMACPepper c \<noteq> '''')"

definition keyless_ok :: "Config \<Rightarrow> bool" where
  "keyless_ok c \<longleftrightarrow>
     (c_KeylessWrites c \<longrightarrow>
        c_KeylessPGDSN c \<noteq> '''' \<and> c_KeylessReads c \<and> \<not> c_RelayAllowAny c
        \<and> AddressFromHex (c_AnchorAddress c) \<noteq> None
        \<and> 1 \<le> c_SignerWriteRate c \<and> 0 < c_SignerWriteWindow c)"

definition mail_ok :: "Config \<Rightarrow> bool" where
  "mail_ok c \<longleftrightarrow> (c_KeyRequestEnabled c \<and> c_SMTPHost c = '''' \<longrightarrow> c_AllowKeyInLogs c)"

definition limits_ok :: "Config \<Rightarrow> bool" where
  "limits_ok c \<longleftrightarrow>
     0 \<le> c_RPCMaxRetries c \<and> 0 < c_RPCInitialBackoff c \<and> 0 < c_RPCMaxBackoff c
     \<and> 0 < c_RPCRateBurst c \<and> 0 < c_CircuitBreakerThreshold c \<and> 0 < c_CircuitBreakerTimeout c
     \<and> 0 \<le> c_ReadinessMaxBlockAge c \<and> 0 < c_MCPRateBurst c \<and> 0 < c_AnonRateBurst c
     \<and> \<not> fleZero (c_RPCRateLimit c) \<and> \<not> fleZero (c_MCPRateLimit c) \<and> \<not> fleZero (c_AnonRateLimit c)
     \<and> \<not> fltZero (c_OTELTraceSampleRatio c) \<and> \<not> fgtOne (c_OTELTraceSampleRatio c)"

lemma httpURL_nonempty: "httpURL u \<Longrightarrow> u \<noteq> ''''"
  by (auto simp: httpURL_def HasPrefix_def)

lemma weakPepper_iff: "weakPepper p \<longleftrightarrow> \<not> strong_pepper p"
  by (auto simp: weakPepper_def strong_pepper_def MinKeyHMACPepperLen_def)

lemma validatePepperStrength_iff:
  "validatePepperStrength c = None
     \<longleftrightarrow> strong_pepper (c_KeyHMACPepper c) \<and> strong_pepper (c_KeyHMACPepperPrevious c)"
  by (simp add: validatePepperStrength_def weakPepper_iff)

lemma if_Some_None: "((if b then Some e else x) = None) \<longleftrightarrow> \<not> b \<and> x = None"
  by simp

lemma badRole_None:
  "(if k then find (\<lambda>r. \<not> IsValidRole r) rs else None) = None \<longleftrightarrow> (k \<longrightarrow> set rs \<subseteq> set validRoles)"
  by (auto simp: find_None_iff IsValidRole_def)

lemma case_Some_None: "(case m of Some r \<Rightarrow> Some (f r) | None \<Rightarrow> x) = None \<longleftrightarrow> m = None \<and> x = None"
  by (simp split: option.split)

lemma validateAuth_iff:
  "validateAuth lib c = None \<and> validatePepperStrength c = None \<longleftrightarrow> auth_ok c"
proof -
  define k where "k = (c_APIKey c \<noteq> '''')"
  define p where "p = (c_AuthProvider c = ''apikey'')"
  define q where "q = (c_AuthProvider c = ''fusionauth'')"
  have "\<not> (p \<and> q)" by (simp add: p_def q_def)
  then show ?thesis
    unfolding validateAuth_def auth_ok_def validatePepperStrength_iff if_Some_None case_Some_None
      k_def [symmetric] p_def [symmetric] q_def [symmetric] badRole_None
    by (cases p; cases q; cases k) (auto simp: httpURL_nonempty)
qed

lemma validateKeyStore_iff: "validateKeyStore lib c = None \<longleftrightarrow> keystore_ok c"
  by (auto simp: validateKeyStore_def keystore_ok_def)

lemma validateKeyless_iff: "validateKeyless c = None \<longleftrightarrow> keyless_ok c"
  by (auto simp: validateKeyless_def validateKeylessWrites_def keyless_ok_def)

lemma validateKeyRequestEmail_iff: "validateKeyRequestEmail c = None \<longleftrightarrow> mail_ok c"
  by (auto simp: validateKeyRequestEmail_def mail_ok_def)

lemma validateResilience_iff: "validateResilience c = None \<longleftrightarrow> limits_ok c"
  by (auto simp: validateResilience_def limits_ok_def)

lemma Config_Validate_iff:
  "Config_Validate lib c = None
     \<longleftrightarrow> core_ok c \<and> auth_ok c \<and> keystore_ok c \<and> keyless_ok c \<and> mail_ok c \<and> limits_ok c"
proof -
  have "Config_Validate lib c = None \<longleftrightarrow>
          core_ok c \<and> (validateAuth lib c = None \<and> validatePepperStrength c = None)
          \<and> validateKeyStore lib c = None \<and> validateKeyless c = None
          \<and> validateKeyRequestEmail c = None \<and> validateResilience c = None"
    by (auto simp: Config_Validate_def core_ok_def ChainEnvironment_IsValid_def httpURL_nonempty)
  then show ?thesis
    by (simp only: validateAuth_iff validateKeyStore_iff validateKeyless_iff
        validateKeyRequestEmail_iff validateResilience_iff)
qed

section \<open>What the loaders leave alone\<close>

definition retention_ok :: "RetentionConfig \<Rightarrow> bool" where
  "retention_ok r \<longleftrightarrow>
     0 \<le> rt_WriteAudit r \<and> 0 \<le> rt_WriteAuditGrantRole r \<and> 0 \<le> rt_SignerQuota r
     \<and> 0 \<le> rt_SignerBlacklist r \<and> 0 \<le> rt_AdminAudit r
     \<and> (Retention_Enabled r \<longrightarrow> 0 < rt_PurgeInterval r)
     \<and> (0 < rt_WriteAuditGrantRole r \<longrightarrow>
          0 < rt_WriteAudit r \<and> rt_WriteAudit r \<le> rt_WriteAuditGrantRole r)"

definition keyrequest_ok :: "Config \<Rightarrow> bool" where
  "keyrequest_ok c \<longleftrightarrow>
     (c_KeyRequestEnabled c \<longrightarrow>
        c_KeyPendingFile c \<noteq> '''' \<and> \<not> fleZero (c_KeyRequestRateLimit c)
        \<and> 0 < c_KeyRequestRateBurst c \<and> 0 < c_KeyRequestMaxBodyBytes c)"

definition smtp_ok :: "Config \<Rightarrow> bool" where
  "smtp_ok c \<longleftrightarrow> (c_SMTPHost c \<noteq> '''' \<longrightarrow> c_SMTPPort c \<noteq> 0 \<and> c_SMTPFrom c \<noteq> '''')"

lemma retentionWindow_nonneg: "retentionWindow lib env key = Inr d \<Longrightarrow> 0 \<le> d"
  by (auto simp: retentionWindow_def Let_def split: if_splits sum.splits)

lemma Retention_validate_ok:
  assumes "Retention_validate r = None" "0 \<le> rt_WriteAudit r" "0 \<le> rt_WriteAuditGrantRole r"
    "0 \<le> rt_SignerQuota r" "0 \<le> rt_SignerBlacklist r" "0 \<le> rt_AdminAudit r"
  shows "retention_ok r"
  using assms
  by (auto simp: Retention_validate_def retention_ok_def Retention_Enabled_def split: if_splits)

lemma loadRetention_ok:
  "loadRetentionConfig lib env c = Inr c' \<Longrightarrow> \<exists>r. retention_ok r \<and> c' = c\<lparr>c_Retention := r\<rparr>"
  by (auto simp: loadRetentionConfig_def bindE_Inr Let_def split: option.splits
      dest!: retentionWindow_nonneg intro!: exI Retention_validate_ok)


text \<open>
  \<open>early\<close> and \<open>middle\<close> are the fields that no loader after the feature flags, or after the
  keyless settings, assigns again.
\<close>

definition early :: "Config \<Rightarrow> int \<times> bool list" where
  "early c =
     (c_TrustedProxyHops c,
      [c_EnableWriteTools c, c_EnablePrometheus c, c_EnableStdoutTel c, c_OTLPInsecure c,
       c_TrustProxyHeaders c])"

definition middle :: "Config \<Rightarrow> RetentionConfig \<times> bool list" where
  "middle c =
     (c_Retention c,
      [c_KeylessReads c, c_KeylessWrites c, c_RelayAllowAny c, c_SignerQuotaFailOpen c,
       c_SignerBlacklistFailOpen c])"

lemma frame_KeyStore: "loadKeyStoreConfig lib env c = Inr c' \<Longrightarrow> early c' = early c"
  by (auto simp: loadKeyStoreConfig_def bindE_Inr early_def)

lemma frame_Telemetry: "loadTelemetryConfig lib env c = Inr c' \<Longrightarrow> early c' = early c"
  by (auto simp: loadTelemetryConfig_def bindE_Inr early_def)

lemma frame_Resilience: "loadResilienceConfig lib env c = Inr c' \<Longrightarrow> early c' = early c"
  by (auto simp: loadResilienceConfig_def bindE_Inr early_def)

lemma frame_MCPRate: "loadMCPRateConfig lib env c = Inr c' \<Longrightarrow> early c' = early c"
  by (auto simp: loadMCPRateConfig_def bindE_Inr early_def)

lemma frame_SignerQuota: "loadSignerQuotaConfig lib env c = Inr c' \<Longrightarrow> early c' = early c"
  by (auto simp: loadSignerQuotaConfig_def bindE_Inr early_def)

lemma frame_Keyless: "loadKeylessConfig lib env c = Inr c' \<Longrightarrow> early c' = early c"
  by (auto simp: loadKeylessConfig_def bindE_Inr early_def dest!: frame_SignerQuota loadRetention_ok)

lemma frame_Provider:
  "loadProvider lib env c = Inr c' \<Longrightarrow> early c' = early c \<and> middle c' = middle c"
  by (auto simp: loadProvider_def bindE_Inr early_def middle_def)

lemma frame_URLs: "early (loadURLs env c) = early c \<and> middle (loadURLs env c) = middle c"
  by (auto simp: loadURLs_def loadChainEnvironment_def Let_def early_def middle_def)

lemma keyRequest_shape:
  assumes "loadKeyRequestConfig lib env c = Inr c'"
  obtains en al li bu mb where
    "envBool lib env ''NVNM_KEY_REQUEST_ENABLED'' False = Inr en"
    "envBool lib env ''NVNM_ALLOW_KEY_IN_LOGS'' False = Inr al"
    "c' = c\<lparr>c_KeyRequestEnabled := en, c_KeyPendingFile := Getenv env ''NVNM_KEY_PENDING_FILE'',
            c_AllowKeyInLogs := al, c_KeyRequestRateLimit := li, c_KeyRequestRateBurst := bu,
            c_KeyRequestMaxBodyBytes := mb\<rparr>"
    "en \<longrightarrow> Getenv env ''NVNM_KEY_PENDING_FILE'' \<noteq> '''' \<and> \<not> fleZero li \<and> 0 < bu \<and> 0 < mb"
proof -
  from assms obtain en al li bu mb where
    1: "envBool lib env ''NVNM_KEY_REQUEST_ENABLED'' False = Inr en"
      "envBool lib env ''NVNM_ALLOW_KEY_IN_LOGS'' False = Inr al" and
    2: "(let c = c\<lparr>c_KeyRequestEnabled := en, c_KeyPendingFile := Getenv env ''NVNM_KEY_PENDING_FILE'',
                   c_AllowKeyInLogs := al, c_KeyRequestRateLimit := li, c_KeyRequestRateBurst := bu,
                   c_KeyRequestMaxBodyBytes := mb\<rparr>
         in if \<not> c_KeyRequestEnabled c then Inr c
            else if c_KeyPendingFile c = '''' then Inl ErrMissingKeyPendingFile
            else if fleZero (c_KeyRequestRateLimit c) then Inl ErrInvalidKeyRequestRateLimit
            else if c_KeyRequestRateBurst c \<le> 0 then Inl ErrInvalidKeyRequestRateBurst
            else if c_KeyRequestMaxBodyBytes c \<le> 0 then Inl ErrInvalidKeyRequestMaxBody
            else Inr c) = Inr c'"
    unfolding loadKeyRequestConfig_def bindE_Inr by (elim exE conjE) (rule that)
  show thesis
  proof (rule that [OF 1])
    show "c' = c\<lparr>c_KeyRequestEnabled := en, c_KeyPendingFile := Getenv env ''NVNM_KEY_PENDING_FILE'',
            c_AllowKeyInLogs := al, c_KeyRequestRateLimit := li, c_KeyRequestRateBurst := bu,
            c_KeyRequestMaxBodyBytes := mb\<rparr>"
      using 2 by (simp add: Let_def split: if_split_asm)
    show "en \<longrightarrow> Getenv env ''NVNM_KEY_PENDING_FILE'' \<noteq> '''' \<and> \<not> fleZero li \<and> 0 < bu \<and> 0 < mb"
      using 2 by (simp add: Let_def split: if_split_asm)
  qed
qed

lemma frame_KeyRequest:
  assumes "loadKeyRequestConfig lib env c = Inr c'"
  shows "early c' = early c" "middle c' = middle c" "keyrequest_ok c'"
    "envBool lib env ''NVNM_KEY_REQUEST_ENABLED'' False = Inr (c_KeyRequestEnabled c')"
    "envBool lib env ''NVNM_ALLOW_KEY_IN_LOGS'' False = Inr (c_AllowKeyInLogs c')"
  by (rule keyRequest_shape [OF assms], simp add: early_def middle_def keyrequest_ok_def)+

lemma smtp_shape:
  assumes "loadSMTPConfig lib env c = Inr c'"
  obtains po where
    "c' = c\<lparr>c_SMTPHost := Getenv env ''NVNM_SMTP_HOST'', c_SMTPUsername := Getenv env ''NVNM_SMTP_USERNAME'',
            c_SMTPPassword := Getenv env ''NVNM_SMTP_PASSWORD'', c_SMTPFrom := Getenv env ''NVNM_SMTP_FROM'',
            c_SMTPFromName := Getenv env ''NVNM_SMTP_FROM_NAME'', c_SMTPPort := po\<rparr>"
    "Getenv env ''NVNM_SMTP_HOST'' \<noteq> '''' \<longrightarrow> po \<noteq> 0 \<and> Getenv env ''NVNM_SMTP_FROM'' \<noteq> ''''"
proof -
  define d where "d = c\<lparr>c_SMTPHost := Getenv env ''NVNM_SMTP_HOST'',
    c_SMTPUsername := Getenv env ''NVNM_SMTP_USERNAME'', c_SMTPPassword := Getenv env ''NVNM_SMTP_PASSWORD'',
    c_SMTPFrom := Getenv env ''NVNM_SMTP_FROM'', c_SMTPFromName := Getenv env ''NVNM_SMTP_FROM_NAME''\<rparr>"
  have d: "c_SMTPHost d = Getenv env ''NVNM_SMTP_HOST''" "c_SMTPFrom d = Getenv env ''NVNM_SMTP_FROM''"
    by (simp_all add: d_def)
  let ?port = "if Getenv env ''NVNM_SMTP_PORT'' = '''' then Inr d
               else case parseSigned (lb_quote lib) ''Atoi'' (Getenv env ''NVNM_SMTP_PORT'') of
                      Inl err \<Rightarrow> Inl (invalidEnv lib ''NVNM_SMTP_PORT'' (Getenv env ''NVNM_SMTP_PORT'') err)
                    | Inr port \<Rightarrow> Inr (d\<lparr>c_SMTPPort := port\<rparr>)"
  from assms obtain e where port: "?port = Inr e" and
    fin: "(if c_SMTPHost e = '''' then Inr e
           else if c_SMTPPort e = 0 then Inl ErrMissingSMTPPort
           else if c_SMTPFrom e = '''' then Inl ErrMissingSMTPFrom
           else Inr e) = Inr c'"
    unfolding loadSMTPConfig_def Let_def d_def [symmetric] bindE_Inr by (elim exE conjE) (rule that)
  have "e = d\<lparr>c_SMTPPort := c_SMTPPort e\<rparr>"
    using port by (auto split: if_split_asm sum.split_asm)
  then obtain po where e: "e = d\<lparr>c_SMTPPort := po\<rparr>" by (rule that)
  from fin have "c' = d\<lparr>c_SMTPPort := po\<rparr>"
    and "c_SMTPHost d \<noteq> '''' \<longrightarrow> po \<noteq> 0 \<and> c_SMTPFrom d \<noteq> ''''"
    unfolding e by (simp_all split: if_split_asm)
  then show thesis unfolding d unfolding d_def by (rule that)
qed

lemma frame_SMTP:
  assumes "loadSMTPConfig lib env c = Inr c'"
  shows "early c' = early c" "middle c' = middle c" "smtp_ok c'" "keyrequest_ok c' = keyrequest_ok c"
    "c_KeyRequestEnabled c' = c_KeyRequestEnabled c" "c_AllowKeyInLogs c' = c_AllowKeyInLogs c"
  by (rule smtp_shape [OF assms], simp add: early_def middle_def smtp_ok_def keyrequest_ok_def)+

lemma flags_read:
  assumes "loadFeatureFlags lib env c = Inr c'"
  shows "envBool lib env ''ENABLE_WRITE_TOOLS'' False = Inr (c_EnableWriteTools c')"
    and "envBool lib env ''ENABLE_PROMETHEUS'' True = Inr (c_EnablePrometheus c')"
    and "envBool lib env ''ENABLE_STDOUT_TELEMETRY'' False = Inr (c_EnableStdoutTel c')"
    and "envBool lib env ''OTLP_INSECURE'' False = Inr (c_OTLPInsecure c')"
    and "envBool lib env ''NVNM_TRUST_PROXY_HEADERS'' False = Inr (c_TrustProxyHeaders c')"
  using assms by (auto simp: loadFeatureFlags_def bindE_Inr)

lemma hops_read:
  "loadTrustedProxyHops lib env c = Inr c' \<Longrightarrow>
     1 \<le> c_TrustedProxyHops c' \<and> snd (early c') = snd (early c)"
  by (auto simp: loadTrustedProxyHops_def bindE_Inr early_def split: if_splits)

lemma quota_flags_read:
  "loadSignerQuotaConfig lib env c = Inr c' \<Longrightarrow>
     envBool lib env ''MCP_SIGNER_QUOTA_FAIL_OPEN'' False = Inr (c_SignerQuotaFailOpen c')
     \<and> envBool lib env ''MCP_SIGNER_BLACKLIST_FAIL_OPEN'' False = Inr (c_SignerBlacklistFailOpen c')
     \<and> c_KeylessReads c' = c_KeylessReads c \<and> c_KeylessWrites c' = c_KeylessWrites c
     \<and> c_RelayAllowAny c' = c_RelayAllowAny c"
  by (auto simp: loadSignerQuotaConfig_def bindE_Inr)

lemma keyless_read:
  assumes "loadKeylessConfig lib env c = Inr c'"
  shows "retention_ok (c_Retention c')"
    and "envBool lib env ''MCP_KEYLESS_READS'' False = Inr (c_KeylessReads c')"
    and "envBool lib env ''MCP_KEYLESS_WRITES'' False = Inr (c_KeylessWrites c')"
    and "envBool lib env ''MCP_RELAY_ALLOW_ANY'' False = Inr (c_RelayAllowAny c')"
    and "envBool lib env ''MCP_SIGNER_QUOTA_FAIL_OPEN'' False = Inr (c_SignerQuotaFailOpen c')"
    and "envBool lib env ''MCP_SIGNER_BLACKLIST_FAIL_OPEN'' False = Inr (c_SignerBlacklistFailOpen c')"
  using assms by (auto simp: loadKeylessConfig_def bindE_Inr dest!: quota_flags_read loadRetention_ok)


lemma Load_shape:
  assumes "Load lib env = Inr c"
  obtains c1 c2 c3 c4 c5 c6 c7 c8 c9 c10 where
    "detectLegacyEnvVars env = []" "Getenv env ''WRITE_APPROVAL_DEFAULT'' = ''''"
    "loadFeatureFlags lib env c1 = Inr c2" "loadTrustedProxyHops lib env c2 = Inr c3"
    "early c4 = early c3" "loadKeylessConfig lib env c4 = Inr c5"
    "loadProvider lib env c5 = Inr c6" "loadKeyRequestConfig lib env (loadURLs env c6) = Inr c7"
    "loadSMTPConfig lib env c7 = Inr c8"
    "c = c8\<lparr>c_AllowedOrigins := parseCommaSeparated (Getenv env ''NVNM_ALLOWED_ORIGINS'')\<rparr>"
    "Config_Validate lib c = None"
proof -
  have pre: "detectLegacyEnvVars env = []" "Getenv env ''WRITE_APPROVAL_DEFAULT'' = ''''"
    using assms unfolding Load_def Let_def by (simp_all split: if_split_asm)
  from assms obtain c1 c2 c3 k1 k2 k3 c4 c5 c6 c7 c8 where s:
    "loadFeatureFlags lib env c1 = Inr c2" "loadTrustedProxyHops lib env c2 = Inr c3"
    "loadKeyStoreConfig lib env (c3\<lparr>c_APIKey := Getenv env ''MCP_API_KEY'',
       c_APIKeyRoles := parseRoleList (Getenv env ''MCP_API_KEY_ROLES'')\<rparr>) = Inr k1"
    "loadTelemetryConfig lib env (loadKeyFiles env k1) = Inr k2"
    "loadResilienceConfig lib env k2 = Inr k3" "loadMCPRateConfig lib env k3 = Inr c4"
    "loadKeylessConfig lib env c4 = Inr c5" "loadProvider lib env c5 = Inr c6"
    "loadKeyRequestConfig lib env (loadURLs env c6) = Inr c7" "loadSMTPConfig lib env c7 = Inr c8"
    and fin: "(case Config_Validate lib
        (c8\<lparr>c_AllowedOrigins := parseCommaSeparated (Getenv env ''NVNM_ALLOWED_ORIGINS'')\<rparr>) of
        Some err \<Rightarrow> Inl err
      | None \<Rightarrow> Inr (c8\<lparr>c_AllowedOrigins := parseCommaSeparated (Getenv env ''NVNM_ALLOWED_ORIGINS'')\<rparr>)) = Inr c"
    unfolding Load_def Let_def pre by (simp only: list.size less_irrefl if_False simp_thms bindE_Inr) (elim exE conjE, rule that)
  have files: "early (loadKeyFiles env k1) = early k1" by (simp add: early_def loadKeyFiles_def)
  have "early c4 = early c3"
    using frame_MCPRate [OF s(6)] frame_Resilience [OF s(5)] frame_Telemetry [OF s(4)] files
      frame_KeyStore [OF s(3)] by (simp add: early_def)
  moreover have "c = c8\<lparr>c_AllowedOrigins := parseCommaSeparated (Getenv env ''NVNM_ALLOWED_ORIGINS'')\<rparr>"
    using fin by (simp split: option.split_asm)
  moreover have "Config_Validate lib c = None" using fin by (simp split: option.split_asm)
  ultimately show thesis using that [OF pre s(1,2) _ s(7-10)] by blast
qed

lemma Load_frames:
  assumes "Load lib env = Inr c"
  obtains c1 c2 c5 where
    "loadFeatureFlags lib env c1 = Inr c2" "1 \<le> c_TrustedProxyHops c" "snd (early c) = snd (early c2)"
    "middle c = middle c5" "\<exists>c4. loadKeylessConfig lib env c4 = Inr c5"
    "keyrequest_ok c" "smtp_ok c" "Config_Validate lib c = None" "detectLegacyEnvVars env = []"
    "envBool lib env ''NVNM_KEY_REQUEST_ENABLED'' False = Inr (c_KeyRequestEnabled c)"
    "envBool lib env ''NVNM_ALLOW_KEY_IN_LOGS'' False = Inr (c_AllowKeyInLogs c)"
proof (rule Load_shape [OF assms])
  fix c1 c2 c3 c4 c5 c6 c7 c8
  assume legacy: "detectLegacyEnvVars env = []"
    and s: "loadFeatureFlags lib env c1 = Inr c2" "loadTrustedProxyHops lib env c2 = Inr c3"
      "early c4 = early c3" "loadKeylessConfig lib env c4 = Inr c5"
      "loadProvider lib env c5 = Inr c6" "loadKeyRequestConfig lib env (loadURLs env c6) = Inr c7"
      "loadSMTPConfig lib env c7 = Inr c8"
    and c: "c = c8\<lparr>c_AllowedOrigins := parseCommaSeparated (Getenv env ''NVNM_ALLOWED_ORIGINS'')\<rparr>"
    and valid: "Config_Validate lib c = None"
  have last: "early c = early c8" "middle c = middle c8" "keyrequest_ok c = keyrequest_ok c8"
    "smtp_ok c = smtp_ok c8" "c_KeyRequestEnabled c = c_KeyRequestEnabled c8"
    "c_AllowKeyInLogs c = c_AllowKeyInLogs c8"
    unfolding c by (simp_all add: early_def middle_def keyrequest_ok_def smtp_ok_def)
  note kr = frame_KeyRequest [OF s(6)] and sm = frame_SMTP [OF s(7)] and pr = frame_Provider [OF s(5)]
    and ur = frame_URLs [of env c6]
  have e: "early c = early c3"
    using last(1) sm(1) kr(1) ur pr frame_Keyless [OF s(4)] s(3) by simp
  have hops: "1 \<le> c_TrustedProxyHops c"
    using hops_read [OF s(2)] arg_cong [OF e, of fst] by (simp add: early_def)
  have flags: "snd (early c) = snd (early c2)" using e hops_read [OF s(2)] by simp
  have m: "middle c = middle c5" using last(2) sm(2) kr(2) ur pr by simp
  show thesis
    by (rule that [OF s(1) hops flags m _ _ _ valid legacy])
       (use s(4) last kr sm in auto)
qed


section \<open>Properties\<close>

definition config_ok :: "Config \<Rightarrow> bool" where
  "config_ok c \<longleftrightarrow>
     core_ok c \<and> auth_ok c \<and> keystore_ok c \<and> keyless_ok c \<and> mail_ok c \<and> limits_ok c"

lemma Load_ok:
  assumes "Load lib env = Inr c"
  shows "config_ok c" "keyrequest_ok c" "smtp_ok c" "retention_ok (c_Retention c)" "1 \<le> c_TrustedProxyHops c"
    "\<forall>k \<in> set legacyKeys. env k = None"
proof -
  show "config_ok c" "keyrequest_ok c" "smtp_ok c" "1 \<le> c_TrustedProxyHops c"
    "\<forall>k \<in> set legacyKeys. env k = None"
    by (rule Load_frames [OF assms],
        auto simp: Config_Validate_iff config_ok_def detectLegacyEnvVars_def filter_empty_conv)+
  show "retention_ok (c_Retention c)"
    by (rule Load_frames [OF assms]) (auto simp: middle_def dest!: keyless_read(1))
qed

text \<open>
  Claim C17 (a configuration that loads is a safe one). Validation accepts exactly the
  configurations in which every documented constraint holds: among others that keyless writes
  come with their audit database, the anonymous path, the pinned destination, an address that
  parses, a positive quota and a positive window; that a pepper is absent or at least 32 bytes
  long and never missing where a peppered store needs it; that a static key has known roles;
  and that minted keys reach the logs only by consent. A configuration that was loaded
  satisfies them, and also the constraints the loaders check themselves: no legacy variable is
  set, at least one trusted hop, complete mail settings, a usable request endpoint, and
  retention windows that are non-negative, with a positive interval when one is set, and with
  role grants kept at least as long as ordinary writes.
\<close>

theorem loaded_config_sound:
  "(Config_Validate lib c = None \<longleftrightarrow> config_ok c)
   \<and> (Load lib env = Inr c \<longrightarrow>
        config_ok c \<and> keyrequest_ok c \<and> smtp_ok c \<and> retention_ok (c_Retention c)
        \<and> 1 \<le> c_TrustedProxyHops c \<and> (\<forall>k \<in> set legacyKeys. env k = None))"
  using Load_ok by (simp add: Config_Validate_iff config_ok_def)

text \<open>
  The reading of a boolean variable that the documentation promises: absent or blank is the
  default, the spellings of \<^verbatim>\<open>strconv.ParseBool\<close> are what they say, and nothing else is a value.
\<close>

definition flag_value :: "environ \<Rightarrow> string \<Rightarrow> bool \<Rightarrow> bool option" where
  "flag_value env key fallback =
     (let v = TrimSpace (Getenv env key)
      in if v = '''' then Some fallback
         else if v \<in> {''1'', ''t'', ''T'', ''TRUE'', ''true'', ''True''} then Some True
         else if v \<in> {''0'', ''f'', ''F'', ''FALSE'', ''false'', ''False''} then Some False
         else None)"

definition bool_flags :: "(string \<times> bool \<times> (Config \<Rightarrow> bool)) list" where
  "bool_flags =
     [(''ENABLE_WRITE_TOOLS'', False, c_EnableWriteTools),
      (''ENABLE_PROMETHEUS'', True, c_EnablePrometheus),
      (''ENABLE_STDOUT_TELEMETRY'', False, c_EnableStdoutTel),
      (''OTLP_INSECURE'', False, c_OTLPInsecure),
      (''NVNM_TRUST_PROXY_HEADERS'', False, c_TrustProxyHeaders),
      (''MCP_KEYLESS_READS'', False, c_KeylessReads),
      (''MCP_KEYLESS_WRITES'', False, c_KeylessWrites),
      (''MCP_RELAY_ALLOW_ANY'', False, c_RelayAllowAny),
      (''MCP_SIGNER_QUOTA_FAIL_OPEN'', False, c_SignerQuotaFailOpen),
      (''MCP_SIGNER_BLACKLIST_FAIL_OPEN'', False, c_SignerBlacklistFailOpen),
      (''NVNM_KEY_REQUEST_ENABLED'', False, c_KeyRequestEnabled),
      (''NVNM_ALLOW_KEY_IN_LOGS'', False, c_AllowKeyInLogs)]"

lemma envBool_flag: "envBool lib env key fb = Inr b \<Longrightarrow> flag_value env key fb = Some b"
  unfolding envBool_def flag_value_def Let_def ParseBool_def
  by (simp only: split: if_split_asm sum.split_asm) simp_all

lemma flags_exact:
  assumes "Load lib env = Inr c"
  shows "list_all (\<lambda>(key, fb, get). flag_value env key fb = Some (get c)) bool_flags"
proof (rule Load_frames [OF assms])
  fix c1 c2 c5
  assume ff: "loadFeatureFlags lib env c1 = Inr c2" and e: "snd (early c) = snd (early c2)"
    and m: "middle c = middle c5" and k: "\<exists>c4. loadKeylessConfig lib env c4 = Inr c5"
    and kr: "envBool lib env ''NVNM_KEY_REQUEST_ENABLED'' False = Inr (c_KeyRequestEnabled c)"
      "envBool lib env ''NVNM_ALLOW_KEY_IN_LOGS'' False = Inr (c_AllowKeyInLogs c)"
  from k obtain c4 where k: "loadKeylessConfig lib env c4 = Inr c5" by (rule exE)
  have "c_EnableWriteTools c = c_EnableWriteTools c2" "c_EnablePrometheus c = c_EnablePrometheus c2"
    "c_EnableStdoutTel c = c_EnableStdoutTel c2" "c_OTLPInsecure c = c_OTLPInsecure c2"
    "c_TrustProxyHeaders c = c_TrustProxyHeaders c2"
    using e by (simp_all add: early_def)
  moreover have "c_KeylessReads c = c_KeylessReads c5" "c_KeylessWrites c = c_KeylessWrites c5"
    "c_RelayAllowAny c = c_RelayAllowAny c5" "c_SignerQuotaFailOpen c = c_SignerQuotaFailOpen c5"
    "c_SignerBlacklistFailOpen c = c_SignerBlacklistFailOpen c5"
    using m by (simp_all add: middle_def)
  ultimately show ?thesis
    using envBool_flag [OF flags_read(1) [OF ff]] envBool_flag [OF flags_read(2) [OF ff]]
      envBool_flag [OF flags_read(3) [OF ff]] envBool_flag [OF flags_read(4) [OF ff]]
      envBool_flag [OF flags_read(5) [OF ff]]
      keyless_read(2-6) [OF k, THEN envBool_flag] kr [THEN envBool_flag]
    by (simp only: bool_flags_def list.pred_inject prod.case simp_thms)
qed

text \<open>
  no flag is silently coerced. Each of the twelve boolean variables of a
  configuration that loads has the value its spelling says, or its documented default when it
  is absent or blank; a spelling that is neither makes the whole load fail.
\<close>

theorem flags_fail_loud:
  "(case Load lib env of
      Inr c \<Rightarrow> list_all (\<lambda>(key, fb, get). flag_value env key fb = Some (get c)) bool_flags
    | Inl err \<Rightarrow> True)
   \<and> (list_ex (\<lambda>(key, fb, get). flag_value env key fb = None) bool_flags \<longrightarrow>
        (\<exists>err. Load lib env = Inl err))"
proof (cases "Load lib env")
  case (Inr c)
  from flags_exact [OF Inr] show ?thesis
    by (auto simp: Inr list_all_iff list_ex_iff)
qed simp

section \<open>A hosted deployment\<close>

text \<open>
  An environment as a hosted keyless server has it, with one slip: the rate is spelled
  \<^verbatim>\<open>NaN\<close>, which \<^verbatim>\<open>strconv.ParseFloat\<close> accepts and no comparison rejects.
\<close>

definition demo_lib :: cfg_lib where
  "demo_lib = \<lparr>lb_quote = id, lb_ParseDuration = (\<lambda>s. if s = '''' then Inl ErrInvalidTimeout else Inr Second),
     lb_ParseFloat = (\<lambda>s. if s = ''NaN'' then Inr NaN else Inr (Fin 1 (- 1)))\<rparr>"

definition hosted_env :: environ where
  "hosted_env =
     [''NVNM_EVM_RPC_URL'' \<mapsto> ''https://rpc'', ''NVNM_CHAIN_ID'' \<mapsto> ''1611'',
      ''MCP_TRANSPORT'' \<mapsto> ''http'', ''MCP_KEYLESS_READS'' \<mapsto> ''true'',
      ''MCP_KEYLESS_WRITES'' \<mapsto> ''1'', ''MCP_KEYLESS_PG_DSN'' \<mapsto> ''db'',
      ''MCP_RATE_LIMIT'' \<mapsto> ''NaN'', ''ENABLE_WRITE_TOOLS'' \<mapsto> ''true'',
      ''MCP_API_KEY'' \<mapsto> ''k'', ''MCP_API_KEY_ROLES'' \<mapsto> ''reader'',
      ''NVNM_KEY_REQUEST_ENABLED'' \<mapsto> ''true'', ''NVNM_KEY_PENDING_FILE'' \<mapsto> ''q.json'',
      ''NVNM_ALLOW_KEY_IN_LOGS'' \<mapsto> ''true'']"

lemma TrimSpace_Nil: "TrimSpace '''' = ''''"
proof -
  have "find (\<lambda>w. prefix w '''') go_spaces = None" "find (\<lambda>w. suffix w '''') go_spaces = None"
    by (auto simp: find_None_iff dest: go_spaces_nonempty)
  then show ?thesis by (simp add: TrimSpace_def trimLeftSpace.simps [of "''''"] trimRightSpace.simps [of "''''"])
qed

lemma numerals:
  "Atoi ''1611'' = Some 1611" "Atoi ''1'' = Some 1" "Atoi ''3'' = Some 3" "Atoi ''20'' = Some 20"
  "Atoi ''10'' = Some 10" "Atoi ''500'' = Some 500" "Atoi ''5'' = Some 5" "Atoi ''16384'' = Some 16384"
  "parse_digits 0 ''5'' = Some 5"
  by (simp_all add: Atoi_def HasPrefix_def digitVal_def)

lemma hosted_flags: "envBool demo_lib hosted_env ''MCP_KEYLESS_WRITES'' b = Inr True"
 "envBool demo_lib hosted_env ''MCP_KEYLESS_READS'' b = Inr True"
 "envBool demo_lib hosted_env ''ENABLE_WRITE_TOOLS'' b = Inr True"
 "envBool demo_lib hosted_env ''NVNM_KEY_REQUEST_ENABLED'' b = Inr True"
 "envBool demo_lib hosted_env ''NVNM_ALLOW_KEY_IN_LOGS'' b = Inr True"
  by (simp_all add: envBool_def Getenv_def hosted_env_def TrimSpace_visible ParseBool_def)

lemma unset_flag: "hosted_env key = None \<Longrightarrow> envBool demo_lib hosted_env key b = Inr b"
  by (simp add: envBool_def Getenv_def TrimSpace_Nil)

lemma unset_duration: "hosted_env key = None \<Longrightarrow> d \<noteq> '''' \<Longrightarrow> envDuration demo_lib hosted_env key d = Inr Second"
  by (simp add: envDuration_def envParsed_def envOrDefault_def Getenv_def demo_lib_def)

lemma unset_int: "hosted_env key = None \<Longrightarrow> Atoi d = Some n \<Longrightarrow> d \<noteq> '''' \<Longrightarrow> envInt demo_lib hosted_env key d = Inr n"
  by (simp add: envInt_def envParsed_def envOrDefault_def Getenv_def parseSigned_def)

lemma unset_float: "hosted_env key = None \<Longrightarrow> d \<noteq> '''' \<Longrightarrow> d \<noteq> ''NaN'' \<Longrightarrow> envFloat demo_lib hosted_env key d = Inr (Fin 1 (- 1))"
  by (simp add: envFloat_def envParsed_def envOrDefault_def Getenv_def demo_lib_def)

lemma unset_window: "hosted_env key = None \<Longrightarrow> retentionWindow demo_lib hosted_env key = Inr 0"
  by (simp add: retentionWindow_def envOrDefault_def Getenv_def)

lemma unset_env: "hosted_env key = None \<Longrightarrow> Getenv hosted_env key = ''''"  "hosted_env key = None \<Longrightarrow> envOrDefault hosted_env key d = d"
  by (simp_all add: envOrDefault_def Getenv_def)

lemma unset_uint: "hosted_env key = None \<Longrightarrow> envParsed demo_lib hosted_env (parseUint32 q) key ''5'' = Inr 5"
  by (simp add: envParsed_def envOrDefault_def Getenv_def parseUint32_def digitVal_def)

lemma unset_int64: "hosted_env key = None \<Longrightarrow> envParsed demo_lib hosted_env (parseSigned q fn) key ''16384'' = Inr 16384"
  by (simp add: envParsed_def envOrDefault_def Getenv_def parseSigned_def numerals)

lemma hosted_nan: "envFloat demo_lib hosted_env ''MCP_RATE_LIMIT'' d = Inr NaN"
  by (simp add: envFloat_def envParsed_def envOrDefault_def Getenv_def demo_lib_def hosted_env_def)

lemma set_env: "Getenv hosted_env ''NVNM_EVM_RPC_URL'' = ''https://rpc''"
 "Getenv hosted_env ''NVNM_CHAIN_ID'' = ''1611''"
 "envOrDefault hosted_env ''MCP_TRANSPORT'' d = ''http''"
 "Getenv hosted_env ''MCP_KEYLESS_PG_DSN'' = ''db''"
 "Getenv hosted_env ''MCP_API_KEY'' = ''k''"
 "Getenv hosted_env ''MCP_API_KEY_ROLES'' = ''reader''"
 "Getenv hosted_env ''NVNM_KEY_PENDING_FILE'' = ''q.json''"
  by (simp_all add: envOrDefault_def Getenv_def hosted_env_def)

lemma hosted_unset: "hosted_env key = None \<longleftrightarrow> key \<notin> {''NVNM_EVM_RPC_URL'', ''NVNM_CHAIN_ID'', ''MCP_TRANSPORT'', ''MCP_KEYLESS_READS'', ''MCP_KEYLESS_WRITES'', ''MCP_KEYLESS_PG_DSN'', ''MCP_RATE_LIMIT'',
    ''ENABLE_WRITE_TOOLS'', ''MCP_API_KEY'', ''MCP_API_KEY_ROLES'',
    ''NVNM_KEY_REQUEST_ENABLED'', ''NVNM_KEY_PENDING_FILE'', ''NVNM_ALLOW_KEY_IN_LOGS''}"
  by (simp add: hosted_env_def)

lemmas hosted = unset_uint unset_int64 hosted_flags unset_flag unset_duration unset_int unset_float unset_window unset_env hosted_nan set_env hosted_unset numerals

lemma anchor_default: "AddressFromHex ''0x0000000000000000000000000000000000000A00'' \<noteq> None"
  by (simp add: AddressFromHex_def HexToBytes_def Has0xPrefix_def HasPrefix_def fromHexChar_def)

lemma demo_lists: "parseRoleList ''reader'' = [''reader'']" "parseCommaSeparated '''' = []" "IsValidRole ''reader''"
  by (simp_all add: parseRoleList_def parseCommaSeparated_def TrimSpace_visible IsValidRole_def validRoles_def)

lemmas loaders = loadCoreConfig_def loadFeatureFlags_def loadTrustedProxyHops_def loadKeyStoreConfig_def loadKeyFiles_def
  loadTelemetryConfig_def loadResilienceConfig_def loadMCPRateConfig_def loadKeylessConfig_def loadSignerQuotaConfig_def
  loadRetentionConfig_def loadProvider_def loadURLs_def loadChainEnvironment_def loadKeyRequestConfig_def loadSMTPConfig_def

lemma hosted_loads:
  "\<exists>c. Load demo_lib hosted_env = Inr c \<and> c_KeylessWrites c \<and> c_MCPRateLimit c = NaN
     \<and> c_Transport c = ''http'' \<and> c_EnableWriteTools c \<and> c_KeylessPGDSN c = ''db''
     \<and> c_APIKey c = ''k'' \<and> c_APIKeysFile c = '''' \<and> c_KeyStoreBackend c = '''' \<and> c_AuthProvider c = ''apikey''
     \<and> c_AdminAPIKey c = '''' \<and> c_AdminAPIKeysFile c = '''' \<and> c_KeyRequestEnabled c \<and> c_KeyPendingFile c = ''q.json'' \<and> c_SMTPHost c = ''''
     \<and> \<not> Retention_Enabled (c_Retention c)"
  by (simp add: Load_def detectLegacyEnvVars_def legacyKeys_def loaders hosted demo_lists initialConfig_def
  parseSigned_def Retention_validate_def Retention_Enabled_def
  Config_Validate_def validateAuth_def validatePepperStrength_def weakPepper_def validateKeyStore_def validateKeyless_def
  validateKeylessWrites_def validateKeyRequestEmail_def validateResilience_def anchor_default httpURL_def HasPrefix_def orElseE_def
  ChainEnvironment_IsValid_def EnvMainnet_def EnvTestnet_def InferEnvironmentFromChainID_def mainnetChainID_def testnetChainID_def
  zeroConfig_def Second_def)

theorem loaded_config_sound_witness:
  "\<exists>c. Load demo_lib hosted_env = Inr c \<and> c_KeylessWrites c
       \<and> config_ok c \<and> 1 \<le> c_TrustedProxyHops c \<and> retention_ok (c_Retention c)"
proof -
  obtain c where c: "Load demo_lib hosted_env = Inr c" "c_KeylessWrites c"
    using hosted_loads by (elim exE conjE) (rule that)
  with loaded_config_sound [of demo_lib c hosted_env] show ?thesis by (intro exI [of _ c]) simp
qed

theorem flags_fail_loud_witness:
  "\<exists>err. Load demo_lib (hosted_env(''ENABLE_WRITE_TOOLS'' \<mapsto> ''yes'')) = Inl err"
proof -
  have "flag_value (hosted_env(''ENABLE_WRITE_TOOLS'' \<mapsto> ''yes'')) ''ENABLE_WRITE_TOOLS'' False = None"
    by (simp add: flag_value_def Getenv_def TrimSpace_visible)
  then have "list_ex (\<lambda>(key, fb, get). flag_value (hosted_env(''ENABLE_WRITE_TOOLS'' \<mapsto> ''yes'')) key fb = None) bool_flags"
    by (simp add: bool_flags_def)
  then show ?thesis by (rule mp [OF conjunct2 [OF flags_fail_loud]])
qed

end
