(* ===== verification/Telemetry_Setup.thy ===== *)
theory Telemetry_Setup
  imports Telemetry Config
begin

text \<open>
  The set-up of telemetry and logging: the providers with their exporters and the table of instruments
  (\<^verbatim>\<open>internal/telemetry/telemetry.go\<close>, \<^verbatim>\<open>metrics.go\<close>), the level of the logger and the handler that
  writes to two (\<^verbatim>\<open>internal/logging\<close>). The constructors of the OpenTelemetry library either work or
  fail with a given error; its check of instrument names is the one thing modelled of it. Contexts,
  batching and the contents of spans are left out.
\<close>

section \<open>Instruments\<close>

datatype instrument_kind = Float64Histogram | Int64Counter | Int64UpDownCounter | Int64Gauge

record instrument =
  in_kind :: instrument_kind
  in_name :: string
  in_unit :: string
  in_description :: string

definition isAlpha :: "char \<Rightarrow> bool" where
  "isAlpha c \<longleftrightarrow> (let n = of_char c :: nat in (97 \<le> n \<and> n \<le> 122) \<or> (65 \<le> n \<and> n \<le> 90))"

definition isAlphanumeric :: "char \<Rightarrow> bool" where
  "isAlphanumeric c \<longleftrightarrow> isAlpha c \<or> (let n = of_char c :: nat in 48 \<le> n \<and> n \<le> 57)"

text \<open>The library's rule for names; a byte of a longer rune is no letter either way.\<close>

definition validInstrumentName :: "string \<Rightarrow> bool" where
  "validInstrumentName name \<longleftrightarrow>
     name \<noteq> '''' \<and> length name \<le> 255 \<and> isAlpha (hd name)
     \<and> (\<forall>c \<in> set (tl name). isAlphanumeric c \<or> c = CHR ''_'' \<or> c = CHR ''.'' \<or> c = CHR ''-'' \<or> c = CHR ''/'')"

record Metrics =
  mt_ToolCallDuration :: instrument
  mt_ToolCallCount :: instrument
  mt_ToolErrorCount :: instrument
  mt_ActiveRequests :: instrument
  mt_RPCDuration :: instrument
  mt_RPCErrorCount :: instrument
  mt_RPCRetryCount :: instrument
  mt_CircuitBreakerState :: instrument
  mt_RPCRateLimited :: instrument
  mt_HTTPResponses :: instrument
  mt_WriteBroadcasts :: instrument
  mt_WriteRelayScopeRejected :: instrument

definition instruments :: "Metrics \<Rightarrow> instrument list" where
  "instruments m =
     [mt_ToolCallDuration m, mt_ToolCallCount m, mt_ToolErrorCount m, mt_ActiveRequests m, mt_RPCDuration m,
      mt_RPCErrorCount m, mt_RPCRetryCount m, mt_CircuitBreakerState m, mt_RPCRateLimited m, mt_HTTPResponses m,
      mt_WriteBroadcasts m, mt_WriteRelayScopeRejected m]"

text \<open>\<open>meter\<close> says whether the library refuses an instrument.\<close>

definition instrumentOr ::
  "(instrument \<Rightarrow> goerr option) \<Rightarrow> instrument_kind \<Rightarrow> string \<Rightarrow> string \<Rightarrow> string \<Rightarrow> string
     \<Rightarrow> (instrument \<Rightarrow> goerr + 'a) \<Rightarrow> goerr + 'a" where
  "instrumentOr meter kind name unit desc what k =
     (let i = \<lparr>in_kind = kind, in_name = name, in_unit = unit, in_description = desc\<rparr> in
      case meter i of Some err \<Rightarrow> Inl (wrapf what err) | None \<Rightarrow> k i)"

definition NewMetrics :: "(instrument \<Rightarrow> goerr option) \<Rightarrow> goerr + Metrics" where
  "NewMetrics meter =
     instrumentOr meter Float64Histogram ''mcp.server.tool.duration'' ''s'' ''Duration of MCP tool calls in seconds''
       ''tool duration histogram'' (\<lambda>toolDur.
     instrumentOr meter Int64Counter ''mcp.server.tool.calls'' '''' ''Total MCP tool calls by name and status''
       ''tool call counter'' (\<lambda>toolCount.
     instrumentOr meter Int64Counter ''mcp.server.tool.errors'' '''' ''Total MCP tool errors by name and error type''
       ''tool error counter'' (\<lambda>toolErrors.
     instrumentOr meter Int64UpDownCounter ''mcp.server.active_requests'' '''' ''Number of in-flight MCP requests''
       ''active requests gauge'' (\<lambda>active.
     instrumentOr meter Float64Histogram ''evm.rpc.duration'' ''s'' ''Duration of upstream EVM RPC calls in seconds''
       ''rpc duration histogram'' (\<lambda>rpcDur.
     instrumentOr meter Int64Counter ''evm.rpc.errors'' '''' ''Total upstream EVM RPC errors by method''
       ''rpc error counter'' (\<lambda>rpcErrors.
     instrumentOr meter Int64Counter ''evm.rpc.retries'' '''' ''Total retry attempts for upstream EVM RPC calls''
       ''rpc retry counter'' (\<lambda>rpcRetries.
     instrumentOr meter Int64Gauge ''evm.rpc.circuit_breaker.state'' ''''
       ''Circuit breaker state: 0=closed, 1=half-open, 2=open'' ''circuit breaker state gauge'' (\<lambda>cbState.
     instrumentOr meter Int64Counter ''evm.rpc.rate_limited'' '''' ''Total rate-limit rejections for upstream RPC calls''
       ''rate limited counter'' (\<lambda>rateLimited.
     instrumentOr meter Int64Counter ''mcp.http.responses'' ''''
       ''Total MCP HTTP responses, labeled by SLI class (server_fault|customer_impact|client_error|success)''
       ''http responses counter'' (\<lambda>httpResponses.
     instrumentOr meter Int64Counter ''mcp.write.broadcasts'' ''''
       ''Broadcast attempts that passed relay scope, by outcome (ok|failed)'' ''write broadcasts counter'' (\<lambda>writeBroadcasts.
     instrumentOr meter Int64Counter ''mcp.write.relay_scope_rejected'' ''''
       (''Pre-broadcast write rejections, by cause '' @
        ''(decode|anchor_misconfig|relay_scope|signer_blacklist|'' @
        ''signer_quota|quota_store_error|blacklist_store_error)'')
       ''write relay-scope rejected counter'' (\<lambda>writeRelayRejected.
       Inr \<lparr>mt_ToolCallDuration = toolDur, mt_ToolCallCount = toolCount, mt_ToolErrorCount = toolErrors,
            mt_ActiveRequests = active, mt_RPCDuration = rpcDur, mt_RPCErrorCount = rpcErrors,
            mt_RPCRetryCount = rpcRetries, mt_CircuitBreakerState = cbState, mt_RPCRateLimited = rateLimited,
            mt_HTTPResponses = httpResponses, mt_WriteBroadcasts = writeBroadcasts,
            mt_WriteRelayScopeRejected = writeRelayRejected\<rparr>))))))))))))"

section \<open>Providers\<close>

record telemetry_cfg =
  tc_ServiceName :: string
  tc_ServiceVersion :: string
  tc_OTLPEndpoint :: string
  tc_EnablePrometheus :: bool
  tc_EnableStdout :: bool
  tc_TraceSampleRatio :: gofloat
  tc_OTLPInsecure :: bool

text \<open>An OTLP exporter with its endpoint and whether the connection is insecure, or another one.\<close>

datatype exporter = OTLP string bool | Stdout | Prometheus

record provider =
  pv_service :: "string \<times> string"
  pv_sampler :: "gofloat option"
  pv_exporters :: "exporter list"

text \<open>
  What the library does: the error of the resource, of each exporter by signal, of each instrument,
  and of the shutdown of each provider.
\<close>

datatype otel_signal = Traces | MetricsSignal

record otel_lib =
  ot_resource :: "goerr option"
  ot_exporter :: "otel_signal \<Rightarrow> exporter \<Rightarrow> goerr option"
  ot_meter :: "provider \<Rightarrow> instrument \<Rightarrow> goerr option"
  ot_shutdown :: "otel_signal \<Rightarrow> goerr option"

fun fltOne :: "gofloat \<Rightarrow> bool" where
  "fltOne NaN = False"
| "fltOne (Inf neg) = neg"
| "fltOne (Fin m e) = (if 0 \<le> e then m * 2 ^ nat e < 1 else m < 2 ^ nat (- e))"

text \<open>One optional exporter: switched off, failed, or added to the options.\<close>

definition withExporter ::
  "otel_lib \<Rightarrow> otel_signal \<Rightarrow> bool \<Rightarrow> exporter \<Rightarrow> string \<Rightarrow> exporter list
     \<Rightarrow> (exporter list \<Rightarrow> goerr + 'a) \<Rightarrow> goerr + 'a" where
  "withExporter lib sig enabled e what es k =
     (if enabled then (case ot_exporter lib sig e of Some err \<Rightarrow> Inl (wrapf what err) | None \<Rightarrow> k (es @ [e])) else k es)"

definition buildTracerProvider :: "otel_lib \<Rightarrow> telemetry_cfg \<Rightarrow> goerr + provider" where
  "buildTracerProvider lib cfg =
     withExporter lib Traces (tc_OTLPEndpoint cfg \<noteq> '''') (OTLP (tc_OTLPEndpoint cfg) (tc_OTLPInsecure cfg))
       ''otlp trace exporter'' [] (\<lambda>es1.
     withExporter lib Traces (tc_EnableStdout cfg) Stdout ''stdout trace exporter'' es1 (\<lambda>es2.
       Inr \<lparr>pv_service = (tc_ServiceName cfg, tc_ServiceVersion cfg),
            pv_sampler = (if fltOne (tc_TraceSampleRatio cfg) then Some (tc_TraceSampleRatio cfg) else None),
            pv_exporters = es2\<rparr>))"

definition buildMeterProvider :: "otel_lib \<Rightarrow> telemetry_cfg \<Rightarrow> goerr + provider \<times> bool" where
  "buildMeterProvider lib cfg =
     withExporter lib MetricsSignal (tc_EnablePrometheus cfg) Prometheus ''prometheus exporter'' [] (\<lambda>es1.
     withExporter lib MetricsSignal (tc_OTLPEndpoint cfg \<noteq> '''') (OTLP (tc_OTLPEndpoint cfg) (tc_OTLPInsecure cfg))
       ''otlp metric exporter'' es1 (\<lambda>es2.
     withExporter lib MetricsSignal (tc_EnableStdout cfg) Stdout ''stdout metric exporter'' es2 (\<lambda>es3.
       Inr (\<lparr>pv_service = (tc_ServiceName cfg, tc_ServiceVersion cfg), pv_sampler = None, pv_exporters = es3\<rparr>,
            tc_EnablePrometheus cfg))))"

record Telemetry_obj =
  te_tracerProvider :: provider
  te_meterProvider :: provider
  te_promHandler :: bool
  te_Metrics :: Metrics

text \<open>What the construction does to the process: it installs providers and shuts them down.\<close>

datatype otel_event = SetTracerProvider provider | SetMeterProvider provider
  | ShutdownTracer provider | ShutdownMeter provider

definition NewTelemetry :: "otel_lib \<Rightarrow> telemetry_cfg \<Rightarrow> (goerr + Telemetry_obj) \<times> otel_event list" where
  "NewTelemetry lib cfg =
     (case ot_resource lib of
        Some err \<Rightarrow> (Inl (wrapf ''create otel resource'' err), [])
      | None \<Rightarrow>
          (case buildTracerProvider lib cfg of
             Inl err \<Rightarrow> (Inl (wrapf ''create tracer provider'' err), [])
           | Inr tp \<Rightarrow>
               (case buildMeterProvider lib cfg of
                  Inl err \<Rightarrow> (Inl (wrapf ''create meter provider'' err), [SetTracerProvider tp, ShutdownTracer tp])
                | Inr (mp, promHandler) \<Rightarrow>
                    (case NewMetrics (ot_meter lib mp) of
                       Inl err \<Rightarrow> (Inl (wrapf ''create metrics'' err),
                                   [SetTracerProvider tp, SetMeterProvider mp, ShutdownTracer tp, ShutdownMeter mp])
                     | Inr metrics \<Rightarrow>
                         (Inr \<lparr>te_tracerProvider = tp, te_meterProvider = mp, te_promHandler = promHandler,
                               te_Metrics = metrics\<rparr>, [SetTracerProvider tp, SetMeterProvider mp])))))"

text \<open>\<^verbatim>\<open>errors.Join\<close> of the errors collected.\<close>

definition joinErrors :: "goerr list \<Rightarrow> goerr option" where
  "joinErrors es = (if es = [] then None else Some (Errorf (Join [CHR 0x0A] (map Error es)) es))"

definition Telemetry_Shutdown :: "otel_lib \<Rightarrow> Telemetry_obj \<Rightarrow> goerr option \<times> otel_event list" where
  "Telemetry_Shutdown lib t =
     (joinErrors
        ((case ot_shutdown lib Traces of Some err \<Rightarrow> [wrapf ''tracer shutdown'' err] | None \<Rightarrow> []) @
         (case ot_shutdown lib MetricsSignal of Some err \<Rightarrow> [wrapf ''meter shutdown'' err] | None \<Rightarrow> [])),
      [ShutdownTracer (te_tracerProvider t), ShutdownMeter (te_meterProvider t)])"

text \<open>The configuration the process passes.\<close>

definition telemetryConfigOf :: "string \<Rightarrow> Config \<Rightarrow> telemetry_cfg" where
  "telemetryConfigOf version c =
     \<lparr>tc_ServiceName = c_OTELServiceName c, tc_ServiceVersion = version, tc_OTLPEndpoint = c_OTELEndpoint c,
      tc_EnablePrometheus = c_EnablePrometheus c, tc_EnableStdout = c_EnableStdoutTel c,
      tc_TraceSampleRatio = c_OTELTraceSampleRatio c, tc_OTLPInsecure = c_OTLPInsecure c\<rparr>"

section \<open>Logging\<close>

type_synonym level = int

definition LevelDebug :: level where "LevelDebug = - 4"
definition LevelInfo :: level where "LevelInfo = 0"
definition LevelWarn :: level where "LevelWarn = 4"
definition LevelError :: level where "LevelError = 8"

definition parseLevel :: "(string \<Rightarrow> string) \<Rightarrow> string \<Rightarrow> level" where
  "parseLevel ul s =
     (let l = ToLower ul s in
      if l = ''debug'' then LevelDebug
      else if l = ''warn'' \<or> l = ''warning'' then LevelWarn
      else if l = ''error'' then LevelError
      else LevelInfo)"

text \<open>A handler of log records: its level, what it does with a record, and its two decorations.\<close>

datatype ('a, 'r, 's) handler_tree =
    Leaf "level \<Rightarrow> bool" "('a + string) list \<Rightarrow> 'r \<Rightarrow> 's \<Rightarrow> goerr option \<times> 's" "('a + string) list"
  | Fanout "('a, 'r, 's) handler_tree" "('a, 'r, 's) handler_tree"

fun Enabled :: "('a, 'r, 's) handler_tree \<Rightarrow> level \<Rightarrow> bool" where
  "Enabled (Leaf en out ctx) l = en l"
| "Enabled (Fanout primary secondary) l = (Enabled primary l \<or> Enabled secondary l)"

fun Handle :: "('a, 'r, 's) handler_tree \<Rightarrow> level \<Rightarrow> 'r \<Rightarrow> 's \<Rightarrow> goerr option \<times> 's" where
  "Handle (Leaf en out ctx) l r s = out ctx r s"
| "Handle (Fanout primary secondary) l r s =
     (case (if Enabled primary l then Handle primary l r s else (None, s)) of
        (Some err, s1) \<Rightarrow> (Some err, s1)
      | (None, s1) \<Rightarrow> (if Enabled secondary l then (None, snd (Handle secondary l r s1)) else (None, s1)))"

fun decorate :: "('a + string) \<Rightarrow> ('a, 'r, 's) handler_tree \<Rightarrow> ('a, 'r, 's) handler_tree" where
  "decorate d (Leaf en out ctx) = Leaf en out (ctx @ [d])"
| "decorate d (Fanout primary secondary) = Fanout (decorate d primary) (decorate d secondary)"

definition WithAttrs :: "'a \<Rightarrow> ('a, 'r, 's) handler_tree \<Rightarrow> ('a, 'r, 's) handler_tree" where
  "WithAttrs attrs h = decorate (Inl attrs) h"

definition WithGroup :: "string \<Rightarrow> ('a, 'r, 's) handler_tree \<Rightarrow> ('a, 'r, 's) handler_tree" where
  "WithGroup name h = decorate (Inr name) h"

section \<open>Properties\<close>

lemma withExporter_Inr:
  assumes "withExporter lib sig en e what es k = Inr a"
  shows "k (es @ (if en then [e] else [])) = Inr a \<and> (en \<longrightarrow> ot_exporter lib sig e = None)"
  using assms by (auto simp: withExporter_def split: if_splits option.splits)

lemma buildTracerProvider_Inr:
  assumes "buildTracerProvider lib cfg = Inr tp"
  shows "tp = \<lparr>pv_service = (tc_ServiceName cfg, tc_ServiceVersion cfg),
      pv_sampler = (if fltOne (tc_TraceSampleRatio cfg) then Some (tc_TraceSampleRatio cfg) else None),
      pv_exporters = (if tc_OTLPEndpoint cfg \<noteq> '''' then [OTLP (tc_OTLPEndpoint cfg) (tc_OTLPInsecure cfg)] else []) @
        (if tc_EnableStdout cfg then [Stdout] else [])\<rparr>"
  using assms unfolding buildTracerProvider_def
  by (auto dest!: withExporter_Inr split: if_splits)

lemma buildMeterProvider_Inr:
  assumes "buildMeterProvider lib cfg = Inr (mp, ph)"
  shows "mp = \<lparr>pv_service = (tc_ServiceName cfg, tc_ServiceVersion cfg), pv_sampler = None,
      pv_exporters = (if tc_EnablePrometheus cfg then [Prometheus] else []) @
        (if tc_OTLPEndpoint cfg \<noteq> '''' then [OTLP (tc_OTLPEndpoint cfg) (tc_OTLPInsecure cfg)] else []) @
        (if tc_EnableStdout cfg then [Stdout] else [])\<rparr> \<and> ph = tc_EnablePrometheus cfg"
  using assms unfolding buildMeterProvider_def
  by (auto dest!: withExporter_Inr split: if_splits)

lemma instrumentOr_Inr:
  "instrumentOr meter kind name unit desc what k = Inr a \<Longrightarrow>
     k \<lparr>in_kind = kind, in_name = name, in_unit = unit, in_description = desc\<rparr> = Inr a"
  by (auto simp: instrumentOr_def Let_def split: option.splits)

text \<open>The names of the instruments, which dashboards refer to.\<close>

definition metricNames :: "string list" where
  "metricNames =
     [''mcp.server.tool.duration'', ''mcp.server.tool.calls'', ''mcp.server.tool.errors'', ''mcp.server.active_requests'',
      ''evm.rpc.duration'', ''evm.rpc.errors'', ''evm.rpc.retries'', ''evm.rpc.circuit_breaker.state'',
      ''evm.rpc.rate_limited'', ''mcp.http.responses'', ''mcp.write.broadcasts'', ''mcp.write.relay_scope_rejected'']"

lemma metricNames_valid: "list_all validInstrumentName metricNames" "distinct metricNames"
  by (simp_all add: metricNames_def validInstrumentName_def isAlphanumeric_def isAlpha_def)

lemma NewMetrics_names: "NewMetrics meter = Inr m \<Longrightarrow> map in_name (instruments m) = metricNames"
  unfolding NewMetrics_def by (drule instrumentOr_Inr)+ (auto simp: instruments_def metricNames_def)

lemma NewMetrics_works:
  assumes "\<And>i. validInstrumentName (in_name i) \<Longrightarrow> meter i = None"
  shows "\<exists>m. NewMetrics meter = Inr m"
proof -
  have "meter i = None" if "in_name i \<in> set metricNames" for i
    using assms [of i] that metricNames_valid(1) by (auto simp: list_all_iff)
  then show ?thesis by (simp add: NewMetrics_def instrumentOr_def metricNames_def)
qed


text \<open>
  The standard output. Nothing in the validation of a configuration looks at the switch for telemetry
  on standard output, and a process that has it on exports its traces there whatever its transport is.
  On the stdio transport that stream carries the protocol.
\<close>

lemma stdout_telemetry_unguarded:
  "Config_Validate lib (c\<lparr>c_EnableStdoutTel := b\<rparr>) = None \<longleftrightarrow> Config_Validate lib c = None"
  by (simp add: Config_Validate_iff core_ok_def auth_ok_def keystore_ok_def keyless_ok_def mail_ok_def limits_ok_def)

lemma stdout_any_transport:
  assumes "NewTelemetry lib (telemetryConfigOf v c) = (Inr t, evs)"
  shows "Stdout \<in> set (pv_exporters (te_tracerProvider t)) \<longleftrightarrow> c_EnableStdoutTel c"
  using assms
  by (auto simp: NewTelemetry_def telemetryConfigOf_def dest!: buildTracerProvider_Inr split: option.splits sum.splits if_splits)

text \<open>
  The two-way handler: a record goes to each branch whose level admits it, except that an error of the
  first branch keeps the record from the second; only errors of the first branch are reported.
\<close>

lemma fanout_delivers:
  "fst (Handle (Fanout p q) l r s) = (if Enabled p l then fst (Handle p l r s) else None)"
  "fst (Handle (Fanout p q) l r s) = None \<Longrightarrow>
     snd (Handle (Fanout p q) l r s) =
       (let s1 = (if Enabled p l then snd (Handle p l r s) else s) in
        if Enabled q l then snd (Handle q l r s1) else s1)"
  by (auto simp: Let_def split: prod.splits option.splits)

lemma decorate_Enabled [simp]: "Enabled (decorate d h) l = Enabled h l"
  by (induction h) simp_all

lemma parseLevel_default:
  "ToLower ul s \<notin> {''debug'', ''warn'', ''warning'', ''error''} \<Longrightarrow> parseLevel ul s = LevelInfo"
  by (simp add: parseLevel_def)

text \<open>A library that refuses malformed names, with the default configuration of a local process.\<close>

definition local_otel :: otel_lib where
  "local_otel = \<lparr>ot_resource = None, ot_exporter = \<lambda>_ _. None,
     ot_meter = \<lambda>_ i. if validInstrumentName (in_name i) then None else Some (Ext OtherExt ''invalid instrument name''),
     ot_shutdown = \<lambda>_. None\<rparr>"

definition local_telemetry :: telemetry_cfg where
  "local_telemetry = \<lparr>tc_ServiceName = ''nvnm-mcp-server'', tc_ServiceVersion = ''dev'', tc_OTLPEndpoint = '''',
     tc_EnablePrometheus = True, tc_EnableStdout = False, tc_TraceSampleRatio = Fin 1 0, tc_OTLPInsecure = True\<rparr>"


end
