(* ===== verification/Lifecycle.thy ===== *)
theory Lifecycle
  imports Telemetry_Setup
begin

text \<open>
  Starting and stopping: the listener of the health endpoint with its probe loop (\<^verbatim>\<open>health.go\<close>), which
  are started by one goroutine and closed by another; the end of the HTTP server (\<^verbatim>\<open>RunHTTP\<close>), of the
  administration server (\<^verbatim>\<open>admin.go\<close>); and the migration of the key store under its advisory lock
  (\<^verbatim>\<open>migrate.go\<close>). The network, the database and the migration library answer as they like.
\<close>

section \<open>Migrations\<close>

text \<open>The answers of the database and of the migration library, and what is asked of them.\<close>

record migration_env =
  mg_conn :: "goerr option"
  mg_lock :: "goerr option"
  mg_dialect :: "goerr option"
  mg_up :: "goerr option"

datatype migration_event = OpenDB | AcquireConn | AdvisoryLock | SetDialect | ApplyMigrations
  | AdvisoryUnlock | CloseConn | CloseDB

definition RunMigrations :: "migration_env \<Rightarrow> goerr option \<times> migration_event list" where
  "RunMigrations e =
     (case mg_conn e of
        Some err \<Rightarrow> (Some (wrapf ''acquire migration conn'' err), [OpenDB, AcquireConn, CloseDB])
      | None \<Rightarrow>
          (case mg_lock e of
             Some err \<Rightarrow> (Some (wrapf ''acquire advisory lock'' err), [OpenDB, AcquireConn, AdvisoryLock, CloseConn, CloseDB])
           | None \<Rightarrow>
               (case mg_dialect e of
                  Some err \<Rightarrow> (Some (wrapf ''goose dialect'' err),
                     [OpenDB, AcquireConn, AdvisoryLock, SetDialect, AdvisoryUnlock, CloseConn, CloseDB])
                | None \<Rightarrow>
                    (map_option (wrapf ''apply migrations'') (mg_up e),
                     [OpenDB, AcquireConn, AdvisoryLock, SetDialect, ApplyMigrations, AdvisoryUnlock, CloseConn, CloseDB]))))"

text \<open>
  The lock is held while migrations are applied and given back, and connection and handle are closed,
  on every path that got them.
\<close>

lemma migrations_bracketed:
  assumes "RunMigrations e = (r, evs)"
  shows "(\<exists>us vs ws. evs = us @ [AdvisoryLock] @ vs @ [AdvisoryUnlock] @ ws \<and> ApplyMigrations \<notin> set (us @ ws))
      \<or> ApplyMigrations \<notin> set evs"
    and "last evs = CloseDB" and "mg_conn e = None \<longleftrightarrow> CloseConn \<in> set evs"
    and "mg_conn e = None \<and> mg_lock e = None \<longleftrightarrow> AdvisoryUnlock \<in> set evs"
    and "r = None \<Longrightarrow> ApplyMigrations \<in> set evs"
proof -
  show "(\<exists>us vs ws. evs = us @ [AdvisoryLock] @ vs @ [AdvisoryUnlock] @ ws \<and> ApplyMigrations \<notin> set (us @ ws))
      \<or> ApplyMigrations \<notin> set evs"
  proof (cases "mg_conn e = None \<and> mg_lock e = None \<and> mg_dialect e = None")
    case True
    then have "evs = [OpenDB, AcquireConn] @ [AdvisoryLock] @ [SetDialect, ApplyMigrations] @ [AdvisoryUnlock] @ [CloseConn, CloseDB]"
      using assms by (auto simp: RunMigrations_def)
    then show ?thesis by (intro disjI1 exI conjI) (assumption | simp)+
  qed (use assms in \<open>auto simp: RunMigrations_def split: option.splits\<close>)
qed (use assms in \<open>auto simp: RunMigrations_def split: option.splits\<close>)

section \<open>The end of a server\<close>

text \<open>
  What wakes the main goroutine of \<^verbatim>\<open>RunHTTP\<close>: the context, or the channel of the listener, on which an
  error was sent or which was closed because the server was.
\<close>

datatype http_end = ContextDone "goerr option" | ListenerFailed goerr | ListenerClosed

definition RunHTTP_end :: "http_end \<Rightarrow> goerr option" where
  "RunHTTP_end e =
     (case e of
        ContextDone shutdownErr \<Rightarrow> shutdownErr
      | ListenerFailed err \<Rightarrow> Some (wrapf ''HTTP server error'' err)
      | ListenerClosed \<Rightarrow> None)"

text \<open>\<open>Start\<close> of the administration server: the answer of \<^verbatim>\<open>ListenAndServe\<close>, which is never nil.\<close>

definition ErrServerClosed :: goerr where
  "ErrServerClosed = Ext OtherExt ''http: Server closed''"

definition AdminServer_Start :: "goerr \<Rightarrow> goerr option" where
  "AdminServer_Start err = (if err = ErrServerClosed then None else Some (wrapf ''admin server'' err))"

section \<open>The health endpoint\<close>

text \<open>
  The server object, the goroutine that runs \<open>Start\<close> and the one that runs \<open>Close\<close>. \<open>hl_probing\<close> says
  whether the probe loop has been started and not cancelled.
\<close>

datatype srv_state = Idle | Serving | ShutDown

datatype start_pc = SBegin | SListened | SSpawned | SServing | SDone "goerr option"

datatype close_pc = CBegin | CStopped | CDone

record health_life =
  hl_bound :: bool
  hl_stopProbe :: bool
  hl_probing :: bool
  hl_srv :: srv_state
  hl_start :: start_pc
  hl_close :: close_pc

definition booted_health :: health_life where
  "booted_health = \<lparr>hl_bound = True, hl_stopProbe = False, hl_probing = False, hl_srv = Idle,
     hl_start = SBegin, hl_close = CBegin\<rparr>"

inductive hl_step :: "health_life \<Rightarrow> health_life \<Rightarrow> bool" where
  listened: "hl_start h = SBegin \<Longrightarrow> hl_bound h \<Longrightarrow> hl_step h (h\<lparr>hl_start := SListened\<rparr>)"
| listen: "hl_start h = SBegin \<Longrightarrow> \<not> hl_bound h \<Longrightarrow> hl_step h (h\<lparr>hl_bound := True, hl_start := SListened\<rparr>)"
| listen_fails: "hl_start h = SBegin \<Longrightarrow> \<not> hl_bound h \<Longrightarrow> hl_step h (h\<lparr>hl_start := SDone (Some err)\<rparr>)"
| spawn: "hl_start h = SListened \<Longrightarrow> hl_step h (h\<lparr>hl_stopProbe := True, hl_probing := True, hl_start := SSpawned\<rparr>)"
| serve: "hl_start h = SSpawned \<Longrightarrow> hl_srv h = Idle \<Longrightarrow> hl_step h (h\<lparr>hl_srv := Serving, hl_start := SServing\<rparr>)"
| serve_closed: "hl_start h = SSpawned \<Longrightarrow> hl_srv h = ShutDown \<Longrightarrow> hl_step h (h\<lparr>hl_start := SDone None\<rparr>)"
| served: "hl_start h = SServing \<Longrightarrow> hl_srv h = ShutDown \<Longrightarrow> hl_step h (h\<lparr>hl_start := SDone None\<rparr>)"
| serve_fails: "hl_start h \<in> {SSpawned, SServing} \<Longrightarrow>
    hl_step h (h\<lparr>hl_probing := False, hl_start := SDone (Some err)\<rparr>)"
| stop: "hl_close h = CBegin \<Longrightarrow> hl_stopProbe h \<Longrightarrow> hl_step h (h\<lparr>hl_probing := False, hl_close := CStopped\<rparr>)"
| stop_nothing: "hl_close h = CBegin \<Longrightarrow> \<not> hl_stopProbe h \<Longrightarrow> hl_step h (h\<lparr>hl_close := CStopped\<rparr>)"
| shutdown: "hl_close h = CStopped \<Longrightarrow> hl_step h (h\<lparr>hl_srv := ShutDown, hl_close := CDone\<rparr>)"

abbreviation hl_run :: "health_life \<Rightarrow> health_life \<Rightarrow> bool" where
  "hl_run \<equiv> hl_step\<^sup>*\<^sup>*"

inductive_cases hl_stepE: "hl_step h h'"

text \<open>What holds in every interleaving.\<close>

definition hl_inv :: "health_life \<Rightarrow> bool" where
  "hl_inv h \<longleftrightarrow>
     (hl_stopProbe h \<longleftrightarrow> hl_start h \<noteq> SBegin \<and> hl_start h \<noteq> SListened)
     \<and> (hl_probing h \<longrightarrow> hl_stopProbe h)
     \<and> (hl_srv h = ShutDown \<longleftrightarrow> hl_close h = CDone)
     \<and> (\<forall>err. hl_start h = SDone (Some err) \<longrightarrow> \<not> hl_probing h)
     \<and> (hl_start h = SDone None \<longrightarrow> hl_close h = CDone)
     \<and> hl_bound h"

lemma hl_inv_step: "hl_step h h' \<Longrightarrow> hl_inv h \<Longrightarrow> hl_inv h'"
  by (erule hl_stepE) (auto simp: hl_inv_def)

lemma hl_inv_run: "hl_run booted_health h \<Longrightarrow> hl_inv h"
proof (induction rule: rtranclp_induct)
  case base
  show ?case by (simp add: hl_inv_def booted_health_def)
qed (rule hl_inv_step)

text \<open>A close that comes after the probe loop was started ends it for good.\<close>

lemma probing_ends_run: "hl_run h h' \<Longrightarrow> hl_stopProbe h \<and> \<not> hl_probing h \<and> hl_start h \<noteq> SBegin \<and> hl_start h \<noteq> SListened \<Longrightarrow>
     \<not> hl_probing h' \<and> hl_stopProbe h' \<and> hl_start h' \<noteq> SBegin \<and> hl_start h' \<noteq> SListened"
proof (induction rule: rtranclp_induct)
  case (step y z)
  then have y: "\<not> hl_probing y \<and> hl_stopProbe y \<and> hl_start y \<noteq> SBegin \<and> hl_start y \<noteq> SListened" by blast
  from step.hyps(2) show ?case by (rule hl_stepE) (use y in auto)
qed simp

lemma close_stops_probe:
  assumes "hl_run booted_health h" "hl_stopProbe h" "hl_close h = CBegin" "hl_step h h'" "hl_close h' = CStopped" "hl_run h' h''"
  shows "\<not> hl_probing h''"
proof -
  have i: "hl_inv h" by (rule hl_inv_run [OF assms(1)])
  from assms(4) have "hl_stopProbe h' \<and> \<not> hl_probing h' \<and> hl_start h' \<noteq> SBegin \<and> hl_start h' \<noteq> SListened"
    by (rule hl_stepE) (use assms(2,3,5) i in \<open>auto simp: hl_inv_def\<close>)
  with probing_ends_run [OF assms(6)] show ?thesis by blast
qed

text \<open>
  A close that comes before finds nothing to stop: the loop is started afterwards, the server then
  refuses to serve and \<open>Start\<close> returns without an error, and the loop is never ended.
\<close>

lemma probe_outlives_close:
  "\<exists>h. hl_run booted_health h \<and> hl_start h = SDone None \<and> hl_close h = CDone \<and> hl_probing h \<and> \<not> (\<exists>h'. hl_step h h')"
proof -
  let ?h0 = booted_health
  let ?h1 = "?h0\<lparr>hl_close := CStopped\<rparr>"
  let ?h2 = "?h1\<lparr>hl_srv := ShutDown, hl_close := CDone\<rparr>"
  let ?h3 = "?h2\<lparr>hl_start := SListened\<rparr>"
  let ?h4 = "?h3\<lparr>hl_stopProbe := True, hl_probing := True, hl_start := SSpawned\<rparr>"
  let ?h5 = "?h4\<lparr>hl_start := SDone None\<rparr>"
  have "hl_step ?h0 ?h1" by (rule stop_nothing) (simp_all add: booted_health_def)
  moreover have "hl_step ?h1 ?h2" by (rule shutdown) simp
  moreover have "hl_step ?h2 ?h3" by (rule listened) (simp_all add: booted_health_def)
  moreover have "hl_step ?h3 ?h4" by (rule spawn) simp
  moreover have "hl_step ?h4 ?h5" by (rule serve_closed) simp_all
  ultimately have "hl_run ?h0 ?h5" by (meson converse_rtranclp_into_rtranclp rtranclp.rtrancl_refl)
  moreover have "\<not> (\<exists>h'. hl_step ?h5 h')" by (auto elim!: hl_stepE)
  ultimately show ?thesis by (intro exI [of _ ?h5]) simp
qed

end
