(* ===== verification/Key_Store.thy ===== *)
theory Key_Store
  imports Auth_Keys
begin

text \<open>
  The file-backed key store: loading and atomic saving of the keys file (second half of
  \<^verbatim>\<open>internal/mcp/keys.go\<close>) and the managed store on top of it
  (\<^verbatim>\<open>internal/mcp/managed_keys.go\<close>).

  The file system maps paths to contents of a type \<open>'d\<close>; \<open>codec\<close> stands for
  \<^verbatim>\<open>encoding/json\<close> on a slice of entries. Every system call may fail: \<open>io\<close> says which
  one does and with what error. \<open>writeKeysAtomic\<close> also returns the file-system states it
  passes through, so that a crash between two system calls can be reasoned about. Each
  method of the managed store holds its mutex throughout, so it is one state transformer.
\<close>

section \<open>Files\<close>

type_synonym 'd fsys = "string \<rightharpoonup> 'd"

record 'd codec =
  Marshal :: "KeyEntry list \<Rightarrow> 'd"
  Unmarshal :: "'d \<Rightarrow> goerr + KeyEntry list"
  emptyFile :: 'd

datatype io_call = OpenLock | Flock | CreateTemp | Chmod | WriteTmp | Sync | CloseTmp | Rename
  | ReadKeys | ReadOriginal | WriteBackup

record 'd io =
  io_fail :: "io_call \<Rightarrow> goerr option"
  io_tmpPath :: string
  io_partial :: 'd

definition ErrNotExist :: goerr where
  "ErrNotExist = PkgErr ''fs.ErrNotExist'' ''file does not exist''"

definition ErrLegacyKeyWriteApproval :: goerr where
  "ErrLegacyKeyWriteApproval = PkgErr ''mcp.ErrLegacyKeyWriteApproval''
     (''key store contains the retired write_approval field; remove it from '' @
      ''every entry (server-side write approval was removed in Option 0). '' @
      ''See docs/RUNBOOK.md#write-approval-removal'')"

text \<open>\<^verbatim>\<open>%v\<close> of a slice of strings: the elements in brackets, separated by blanks.\<close>

definition loadKeysFromPath ::
  "(string \<Rightarrow> string) \<Rightarrow> 'd codec \<Rightarrow> 'd io \<Rightarrow> 'd fsys \<Rightarrow> string \<Rightarrow> goerr + KeyEntry list" where
  "loadKeysFromPath uq cd io fs path =
     (case io_fail io ReadKeys of
        Some err \<Rightarrow> Inl (wrapf ''read keys file'' err)
      | None \<Rightarrow>
          (case fs path of
             None \<Rightarrow> Inl (wrapf ''read keys file'' ErrNotExist)
           | Some data \<Rightarrow>
               (case Unmarshal cd data of
                  Inl err \<Rightarrow> Inl (wrapf ''parse keys file'' err)
                | Inr es \<Rightarrow>
                    let legacyIDs = map ke_ID (filter (\<lambda>e. ke_WriteApproval e \<noteq> '''') es) in
                    if length legacyIDs > 0 then
                      Inl (Errorf (''key store '' @ Quote uq path
                             @ '': entries with retired write_approval field: ['' @ Join '' '' legacyIDs
                             @ '']: '' @ Error ErrLegacyKeyWriteApproval)
                           [ErrLegacyKeyWriteApproval])
                    else Inr es)))"

definition LoadKeysFile ::
  "(string \<Rightarrow> string) \<Rightarrow> 'd codec \<Rightarrow> 'd io \<Rightarrow> 'd fsys \<Rightarrow> string \<Rightarrow> goerr + KeyEntry list" where
  "LoadKeysFile uq cd io fs path =
     (case loadKeysFromPath uq cd io fs path of
        Inr es \<Rightarrow> Inr es
      | Inl primaryErr \<Rightarrow>
          let tmpPath = path @ ''.tmp'' in
          if fs tmpPath \<noteq> None then
            (case loadKeysFromPath uq cd io fs tmpPath of
               Inr tmpEntries \<Rightarrow> Inr tmpEntries
             | Inl _ \<Rightarrow> Inl primaryErr)
          else Inl primaryErr)"

text \<open>
  \<open>writeKeysAtomic io path data fs\<close>: the error and the file-system states in order, the last
  of them the final one.
\<close>

definition writeKeysAtomic ::
  "'d codec \<Rightarrow> 'd io \<Rightarrow> string \<Rightarrow> 'd \<Rightarrow> 'd fsys \<Rightarrow> goerr option \<times> 'd fsys list" where
  "writeKeysAtomic cd io path data fs =
     (let tmp = io_tmpPath io;
          fs1 = fs(tmp \<mapsto> emptyFile cd);
          fs2 = fs1(tmp \<mapsto> data);
          drop_tmp = (\<lambda>f. f(tmp := None))
      in case io_fail io CreateTemp of
           Some err \<Rightarrow> (Some (wrapf ''create temp keys file'' err), [fs])
         | None \<Rightarrow>
             (case io_fail io Chmod of
                Some err \<Rightarrow> (Some (wrapf ''chmod temp keys file'' err), [fs, fs1, drop_tmp fs1])
              | None \<Rightarrow>
                  (case io_fail io WriteTmp of
                     Some err \<Rightarrow>
                       (let fsp = fs1(tmp \<mapsto> io_partial io)
                        in (Some (wrapf ''write temp keys file'' err), [fs, fs1, fsp, drop_tmp fsp]))
                   | None \<Rightarrow>
                       (case io_fail io Sync of
                          Some err \<Rightarrow> (Some (wrapf ''fsync temp keys file'' err), [fs, fs1, fs2, drop_tmp fs2])
                        | None \<Rightarrow>
                            (case io_fail io CloseTmp of
                               Some err \<Rightarrow> (Some (wrapf ''close temp keys file'' err), [fs, fs1, fs2, drop_tmp fs2])
                             | None \<Rightarrow>
                                 (case io_fail io Rename of
                                    Some err \<Rightarrow>
                                      (Some (wrapf ''rename temp keys file'' err), [fs, fs1, fs2, drop_tmp fs2])
                                  | None \<Rightarrow> (None, [fs, fs1, fs2, (drop_tmp fs2)(path \<mapsto> data)])))))))"

definition withExclusiveLock ::
  "'d io \<Rightarrow> 'd fsys \<Rightarrow> string \<Rightarrow> goerr option \<times> 'd fsys list \<Rightarrow> goerr option \<times> 'd fsys list" where
  "withExclusiveLock io fs path fn =
     (if fs path = None then fn
      else case io_fail io OpenLock of
             Some err \<Rightarrow> (Some (wrapf ''open keys file for lock'' err), [fs])
           | None \<Rightarrow>
               (case io_fail io Flock of
                  Some err \<Rightarrow>
                    (Some (wrapf ''acquire exclusive lock on keys file (another process holds it?)'' err), [fs])
                | None \<Rightarrow> fn))"

definition SaveKeysFile ::
  "'d codec \<Rightarrow> 'd io \<Rightarrow> string \<Rightarrow> KeyEntry list \<Rightarrow> 'd fsys \<Rightarrow> goerr option \<times> 'd fsys list" where
  "SaveKeysFile cd io path es fs =
     withExclusiveLock io fs path (writeKeysAtomic cd io path (Marshal cd es) fs)"

definition preMigrationBackupSuffix :: string where
  "preMigrationBackupSuffix = ''.pre-migration''"

definition writePreMigrationBackup :: "'d io \<Rightarrow> string \<Rightarrow> 'd fsys \<Rightarrow> goerr option \<times> 'd fsys" where
  "writePreMigrationBackup io path fs =
     (let backupPath = path @ preMigrationBackupSuffix in
      if fs backupPath \<noteq> None then (None, fs)
      else case io_fail io ReadOriginal of
             Some err \<Rightarrow> (Some (wrapf ''read original for backup'' err), fs)
           | None \<Rightarrow>
               (case fs path of
                  None \<Rightarrow> (Some (wrapf ''read original for backup'' ErrNotExist), fs)
                | Some original \<Rightarrow>
                    (case io_fail io WriteBackup of
                       Some err \<Rightarrow> (Some (wrapf ''write backup'' err), fs(backupPath \<mapsto> io_partial io))
                     | None \<Rightarrow> (None, fs(backupPath \<mapsto> original)))))"

definition GenerateKey :: "goerr + bytes \<Rightarrow> goerr + string" where
  "GenerateKey rnd =
     (case rnd of
        Inl err \<Rightarrow> Inl (wrapf ''generate random key'' err)
      | Inr b \<Rightarrow> Inr (b64enc urlDigit False b))"

section \<open>The managed store\<close>

definition ErrClientExists :: goerr where
  "ErrClientExists = PkgErr ''mcp.ErrClientExists'' ''client already exists''"

definition ErrClientMissing :: goerr where
  "ErrClientMissing = PkgErr ''mcp.ErrClientMissing'' ''client not found''"

record KeySummary =
  su_ID :: string
  su_Enabled :: bool
  su_CreatedAt :: time
  su_Roles :: "string list"
  su_KeyPrefix :: string
  su_ExpiresAt :: time

record KeyUpdate =
  up_Enabled :: "bool option"
  up_Roles :: "string list option"
  up_ExpiresAt :: "time option"

record ManagedKeyStore =
  mk_store :: KeyStore
  mk_entries :: "KeyEntry list"
  mk_path :: string
  mk_hasher :: "KeyHasher option"

definition summarize :: "KeyEntry \<Rightarrow> KeySummary" where
  "summarize e =
     \<lparr>su_ID = ke_ID e, su_Enabled = ke_Enabled e, su_CreatedAt = ke_CreatedAt e,
      su_Roles = ke_Roles e, su_KeyPrefix = ke_KeyPrefix e, su_ExpiresAt = ke_ExpiresAt e\<rparr>"

text \<open>
  Indexing a slice migrates it in place, and the store keeps that slice: \<open>install\<close> is the pair
  of assignments \<^verbatim>\<open>m.entries = updated; m.store = NewKeyStoreWithHasher(updated, m.hasher)\<close>.
\<close>

definition install :: "digests \<Rightarrow> KeyEntry list \<Rightarrow> ManagedKeyStore \<Rightarrow> ManagedKeyStore" where
  "install dg updated m =
     m\<lparr>mk_entries := fst (migrateLegacyEntries dg updated),
       mk_store := NewKeyStoreWithHasher dg updated (mk_hasher m)\<rparr>"

definition NewManagedKeyStoreWithHasher ::
  "(string \<Rightarrow> string) \<Rightarrow> digests \<Rightarrow> 'd codec \<Rightarrow> 'd io \<Rightarrow> string \<Rightarrow> KeyHasher option \<Rightarrow> 'd fsys
     \<Rightarrow> (goerr + ManagedKeyStore) \<times> 'd fsys" where
  "NewManagedKeyStoreWithHasher uq dg cd io path hasher fs =
     (let start = (\<lambda>es fs'.
            (Inr \<lparr>mk_store = NewKeyStoreWithHasher dg es hasher,
                  mk_entries = fst (migrateLegacyEntries dg es), mk_path = path, mk_hasher = hasher\<rparr>, fs'));
          cont = (\<lambda>es0.
            (case migrateLegacyEntries dg es0 of
               (es, count) \<Rightarrow>
                 if count > 0 then
                   (case writePreMigrationBackup io path fs of
                      (Some backupErr, fs1) \<Rightarrow> start es fs1
                    | (None, fs1) \<Rightarrow>
                        (case SaveKeysFile cd io path es fs1 of (_, states) \<Rightarrow> start es (last states)))
                 else start es fs))
      in case LoadKeysFile uq cd io fs path of
           Inr es0 \<Rightarrow> cont es0
         | Inl err \<Rightarrow> if Is err ErrNotExist then cont [] else (Inl err, fs))"

definition Lookup ::
  "digests \<Rightarrow> time \<Rightarrow> ManagedKeyStore \<Rightarrow> string \<Rightarrow> KeyEntry option \<times> RejectReason" where
  "Lookup dg now m rawKey =
     (let e = KeyStore_Lookup dg (mk_store m) rawKey in (e, classifyEntry e now))"

definition Empty :: "ManagedKeyStore \<Rightarrow> bool" where
  "Empty m = KeyStore_Empty (mk_store m)"

definition UsableCount :: "time \<Rightarrow> ManagedKeyStore \<Rightarrow> nat" where
  "UsableCount now m =
     length (filter (\<lambda>e. classifyEntry (Some e) now = RejectNone) (mk_entries m))"

definition List_summaries :: "ManagedKeyStore \<Rightarrow> KeySummary list" where
  "List_summaries m = map summarize (mk_entries m)"

definition ActiveCount :: "ManagedKeyStore \<Rightarrow> nat" where
  "ActiveCount m = length (filter ke_Enabled (mk_entries m))"

definition TotalCount :: "ManagedKeyStore \<Rightarrow> nat" where
  "TotalCount m = length (mk_entries m)"

definition clientErr :: "(string \<Rightarrow> string) \<Rightarrow> string \<Rightarrow> goerr \<Rightarrow> goerr" where
  "clientErr uq clientID err =
     Errorf (''client '' @ Quote uq clientID @ '': '' @ Error err) [err]"

definition Create ::
  "(string \<Rightarrow> string) \<Rightarrow> digests \<Rightarrow> 'd codec \<Rightarrow> 'd io \<Rightarrow> time \<Rightarrow> goerr + bytes
     \<Rightarrow> string \<Rightarrow> string list \<Rightarrow> time \<Rightarrow> ManagedKeyStore \<Rightarrow> 'd fsys
     \<Rightarrow> (goerr + KeySummary \<times> string) \<times> ManagedKeyStore \<times> 'd fsys" where
  "Create uq dg cd io now rnd clientID roles expiresAt m fs =
     (if list_ex (\<lambda>e. ke_ID e = clientID) (mk_entries m)
      then (Inl (clientErr uq clientID ErrClientExists), m, fs)
      else case GenerateKey rnd of
             Inl err \<Rightarrow> (Inl err, m, fs)
           | Inr rawKey \<Rightarrow>
               let entry = (NewKeyEntryWithHasher dg now clientID rawKey roles (mk_hasher m))
                             \<lparr>ke_ExpiresAt := expiresAt\<rparr>;
                   updated = mk_entries m @ [entry]
               in (case SaveKeysFile cd io (mk_path m) updated fs of
                     (Some err, states) \<Rightarrow> (Inl (wrapf ''persist keys'' err), m, last states)
                   | (None, states) \<Rightarrow> (Inr (summarize entry, rawKey), install dg updated m, last states)))"

definition apply_update :: "KeyUpdate \<Rightarrow> KeyEntry \<Rightarrow> KeyEntry" where
  "apply_update upd e =
     e\<lparr>ke_Enabled := (case up_Enabled upd of Some b \<Rightarrow> b | None \<Rightarrow> ke_Enabled e),
       ke_Roles := (case up_Roles upd of Some r \<Rightarrow> r | None \<Rightarrow> ke_Roles e),
       ke_ExpiresAt := (case up_ExpiresAt upd of Some t \<Rightarrow> t | None \<Rightarrow> ke_ExpiresAt e)\<rparr>"

definition Update ::
  "(string \<Rightarrow> string) \<Rightarrow> digests \<Rightarrow> 'd codec \<Rightarrow> 'd io \<Rightarrow> string \<Rightarrow> KeyUpdate
     \<Rightarrow> ManagedKeyStore \<Rightarrow> 'd fsys \<Rightarrow> (goerr + KeySummary) \<times> ManagedKeyStore \<times> 'd fsys" where
  "Update uq dg cd io clientID upd m fs =
     (case index_of (\<lambda>e. ke_ID e = clientID) (mk_entries m) of
        None \<Rightarrow> (Inl (clientErr uq clientID ErrClientMissing), m, fs)
      | Some idx \<Rightarrow>
          let updated = (mk_entries m)[idx := apply_update upd (mk_entries m ! idx)] in
          (case SaveKeysFile cd io (mk_path m) updated fs of
             (Some err, states) \<Rightarrow> (Inl (wrapf ''persist keys'' err), m, last states)
           | (None, states) \<Rightarrow>
               (let m' = install dg updated m
                in (Inr (summarize (mk_entries m' ! idx)), m', last states))))"

definition Delete ::
  "(string \<Rightarrow> string) \<Rightarrow> digests \<Rightarrow> 'd codec \<Rightarrow> 'd io \<Rightarrow> string
     \<Rightarrow> ManagedKeyStore \<Rightarrow> 'd fsys \<Rightarrow> goerr option \<times> ManagedKeyStore \<times> 'd fsys" where
  "Delete uq dg cd io clientID m fs =
     (case index_of (\<lambda>e. ke_ID e = clientID) (mk_entries m) of
        None \<Rightarrow> (Some (clientErr uq clientID ErrClientMissing), m, fs)
      | Some idx \<Rightarrow>
          let updated = take idx (mk_entries m) @ drop (idx + 1) (mk_entries m) in
          (case SaveKeysFile cd io (mk_path m) updated fs of
             (Some err, states) \<Rightarrow> (Some (wrapf ''persist keys'' err), m, last states)
           | (None, states) \<Rightarrow> (None, install dg updated m, last states)))"

section \<open>Saving\<close>

text \<open>
  \<open>save_ok\<close>: the target path holds its old contents or the complete new contents in every
  state, and nothing but the temporary file changes besides.
\<close>

lemma writeKeysAtomic_spec:
  assumes "writeKeysAtomic cd io path data fs = (r, sts)" and "io_tmpPath io \<noteq> path"
  shows "sts \<noteq> []"
    and "\<forall>f \<in> set sts. \<forall>q. q \<noteq> io_tmpPath io \<and> q \<noteq> path \<longrightarrow> f q = fs q"
    and "\<forall>f \<in> set sts. f path = fs path \<or> r = None \<and> f path = Some data"
    and "r = None \<Longrightarrow> last sts path = Some data"
    and "r \<noteq> None \<Longrightarrow> fs (io_tmpPath io) = None \<Longrightarrow> last sts = fs"
  using assms by (auto simp: writeKeysAtomic_def Let_def split: option.splits if_splits)

lemma SaveKeysFile_spec:
  assumes "SaveKeysFile cd io path es fs = (r, sts)" and "io_tmpPath io \<noteq> path"
  shows "sts \<noteq> []"
    and "\<forall>f \<in> set sts. \<forall>q. q \<noteq> io_tmpPath io \<and> q \<noteq> path \<longrightarrow> f q = fs q"
    and "\<forall>f \<in> set sts. f path = fs path \<or> r = None \<and> f path = Some (Marshal cd es)"
    and "r = None \<Longrightarrow> last sts path = Some (Marshal cd es)"
    and "r \<noteq> None \<Longrightarrow> fs (io_tmpPath io) = None \<Longrightarrow> last sts = fs"
proof -
  have "writeKeysAtomic cd io path (Marshal cd es) fs = (r, sts) \<or> (\<exists>e. r = Some e \<and> sts = [fs])"
    using assms(1) by (auto simp: SaveKeysFile_def withExclusiveLock_def split: option.splits if_splits)
  then consider "writeKeysAtomic cd io path (Marshal cd es) fs = (r, sts)"
    | e where "r = Some e" "sts = [fs]" by blast
  note cs = this
  note spec = writeKeysAtomic_spec [OF _ assms(2)]
  show "sts \<noteq> []" using cs spec(1) by cases auto
  show "\<forall>f \<in> set sts. \<forall>q. q \<noteq> io_tmpPath io \<and> q \<noteq> path \<longrightarrow> f q = fs q"
    using cs spec(2) by cases (blast, simp)
  show "\<forall>f \<in> set sts. f path = fs path \<or> r = None \<and> f path = Some (Marshal cd es)"
    using cs spec(3) by cases (blast, simp)
  show "r = None \<Longrightarrow> last sts path = Some (Marshal cd es)" using cs spec(4) by cases auto
  show "r \<noteq> None \<Longrightarrow> fs (io_tmpPath io) = None \<Longrightarrow> last sts = fs" using cs spec(5) by cases auto
qed

section \<open>The invariant of the managed store\<close>

lemma migrateEntry_idem [simp]: "migrateEntry dg (migrateEntry dg e) = migrateEntry dg e"
  by (simp add: migrateEntry_def)

lemma migrateEntry_fields [simp]:
  "ke_ID (migrateEntry dg e) = ke_ID e" "ke_Enabled (migrateEntry dg e) = ke_Enabled e"
  "ke_Roles (migrateEntry dg e) = ke_Roles e" "ke_ExpiresAt (migrateEntry dg e) = ke_ExpiresAt e"
  "ke_WriteApproval (migrateEntry dg e) = ke_WriteApproval e"
  by (simp_all add: migrateEntry_def)

lemma index_migrated [simp]:
  "NewKeyStoreWithHasher dg (map (migrateEntry dg) es) h = NewKeyStoreWithHasher dg es h"
  by (simp add: NewKeyStoreWithHasher_def migrateLegacyEntries_def comp_def)

definition mk_wf :: "digests \<Rightarrow> ManagedKeyStore \<Rightarrow> bool" where
  "mk_wf dg m \<longleftrightarrow>
     mk_store m = NewKeyStoreWithHasher dg (mk_entries m) (mk_hasher m)
     \<and> map (migrateEntry dg) (mk_entries m) = mk_entries m
     \<and> distinct (map ke_ID (mk_entries m))
     \<and> proper_digests dg"

lemma install_wf [wf_intros]:
  "mk_wf dg m \<Longrightarrow> distinct (map ke_ID es) \<Longrightarrow> mk_wf dg (install dg es m)"
  by (simp add: mk_wf_def install_def migrateLegacyEntries_def comp_def)

lemma install_fields [simp]:
  "mk_hasher (install dg es m) = mk_hasher m" "mk_path (install dg es m) = mk_path m"
  "mk_entries (install dg es m) = map (migrateEntry dg) es"
  by (simp_all add: install_def migrateLegacyEntries_def)

lemma mk_wf_set: "mk_wf dg m \<Longrightarrow> set (map (migrateEntry dg) (mk_entries m)) = set (mk_entries m)"
  by (simp only: mk_wf_def)

lemma map_fixed: "map f xs = xs \<Longrightarrow> x \<in> set xs \<Longrightarrow> f x = x"
  by (induction xs) auto

lemma mk_wf_migrated: "mk_wf dg m \<Longrightarrow> x \<in> set (mk_entries m) \<Longrightarrow> migrateEntry dg x = x"
  using map_fixed [of "migrateEntry dg" "mk_entries m" x] by (simp add: mk_wf_def)

lemma migrateEntry_fix: "migrateEntry dg x = x \<longleftrightarrow> \<not> needsMigration x"
proof -
  have "ke_Key (migrateEntry dg x) = []" if "needsMigration x"
    using that by (simp add: needsMigration_def migrateEntry_def)
  then have "migrateEntry dg x \<noteq> x" if "needsMigration x"
    using that by (metis needsMigration_def)
  then show ?thesis by (auto simp: needsMigration_def migrateEntry_def)
qed

interpretation mk: key_backend dg h mk_entries "\<lambda>now m k. (Lookup dg now m k, m)" "\<lambda>now. now"
    "\<lambda>_. True" "\<lambda>m. mk_wf dg m \<and> mk_hasher m = h"
  for dg h
proof (unfold_locales, goal_cases)
  case (1 s env k e r s')
  then have e: "KeyStore_Lookup dg (NewKeyStoreWithHasher dg (mk_entries s) h) k = Some e"
      and r: "r = classifyEntry (Some e) env"
    by (auto simp: Lookup_def mk_wf_def Let_def)
  from Lookup_SomeD [OF e] mk_wf_set [of dg s] 1
  have "e \<in> set (mk_entries s)" "ke_KeyHash e \<in> set (candidate_hashes dg h k)" by blast+
  with r show ?case by (auto simp: same_grant_def)
next
  case (2 s env k r s')
  then have "KeyStore_Lookup dg (NewKeyStoreWithHasher dg (mk_entries s) h) k = None"
      and "r = classifyEntry None env" and p: "proper_digests dg"
    by (auto simp: Lookup_def mk_wf_def Let_def)
  with mk_wf_set [of dg s] 2 show ?case
    by (simp only: Lookup_None_iff [OF p]) (simp add: classifyEntry_def)
qed auto

text \<open>\<open>authenticate\<close> is the validator wired to the managed store, as the server does it.\<close>

definition authenticate ::
  "digests \<Rightarrow> time \<Rightarrow> ManagedKeyStore \<Rightarrow> string \<Rightarrow> (goerr + Claims) option" where
  "authenticate dg now m token =
     Validate dg (mk_hasher m) (KeyLookupAdapter_Lookup (Lookup dg now m)) token"

lemma authenticate_eq: "mk_hasher m = h \<Longrightarrow> authenticate dg now m = mk.validate dg h now m"
  by (rule ext) (simp add: authenticate_def mk.validate_def)


section \<open>Effects of the operations\<close>

lemma index_of_delete:
  "index_of (\<lambda>x. f x = a) xs = Some i \<Longrightarrow> distinct (map f xs) \<Longrightarrow>
   take i xs @ drop (i + 1) xs = filter (\<lambda>x. f x \<noteq> a) xs"
proof (induction xs arbitrary: i)
  case (Cons x xs)
  show ?case
  proof (cases "f x = a")
    case True
    with Cons.prems(2) have "a \<notin> f ` set xs" by simp
    then have "\<forall>y \<in> set xs. f y \<noteq> a" by (auto simp: image_iff)
    then have "filter (\<lambda>x. f x \<noteq> a) xs = xs" by (simp add: filter_id_conv)
    with True Cons.prems show ?thesis by simp
  next
    case False
    with Cons show ?thesis by auto
  qed
qed simp

lemma index_of_update:
  "index_of (\<lambda>x. f x = a) xs = Some i \<Longrightarrow> distinct (map f xs) \<Longrightarrow>
   xs[i := g (xs ! i)] = map (\<lambda>x. if f x = a then g x else x) xs"
proof (induction xs arbitrary: i)
  case (Cons x xs)
  show ?case
  proof (cases "f x = a")
    case True
    with Cons.prems(2) have "a \<notin> f ` set xs" by simp
    then have "\<forall>y \<in> set xs. f y \<noteq> a" by (auto simp: image_iff)
    then have "map (\<lambda>x. if f x = a then g x else x) xs = xs" by (simp add: map_idI)
    with True Cons.prems show ?thesis by simp
  next
    case False
    with Cons show ?thesis by auto
  qed
qed simp

text \<open>The specification of the three mutations on the list of entries.\<close>

lemma Create_Inr:
  assumes "Create uq dg cd io now rnd cid roles expt m fs = (Inr (su, raw), m', fs')"
  shows "cid \<notin> ke_ID ` set (mk_entries m)"
    and "\<exists>b. rnd = Inr b \<and> raw = b64enc urlDigit False b"
    and "m' = install dg (mk_entries m @ [(NewKeyEntryWithHasher dg now cid raw roles (mk_hasher m))
                                            \<lparr>ke_ExpiresAt := expt\<rparr>]) m"
    and "\<exists>sts. SaveKeysFile cd io (mk_path m)
           (mk_entries m @ [(NewKeyEntryWithHasher dg now cid raw roles (mk_hasher m))\<lparr>ke_ExpiresAt := expt\<rparr>]) fs
         = (None, sts) \<and> fs' = last sts"
  using assms
  by (auto simp: Create_def GenerateKey_def list_ex_iff Let_def split: if_splits sum.splits prod.splits option.splits)

lemma Delete_None:
  assumes "Delete uq dg cd io cid m fs = (None, m', fs')" "mk_wf dg m"
  shows "cid \<in> ke_ID ` set (mk_entries m)"
    and "m' = install dg (filter (\<lambda>e. ke_ID e \<noteq> cid) (mk_entries m)) m"
proof -
  obtain i where i: "index_of (\<lambda>e. ke_ID e = cid) (mk_entries m) = Some i"
    using assms(1) by (auto simp: Delete_def split: option.splits)
  from index_of_SomeD [OF i] show "cid \<in> ke_ID ` set (mk_entries m)" by auto
  have "take i (mk_entries m) @ drop (i + 1) (mk_entries m) = filter (\<lambda>e. ke_ID e \<noteq> cid) (mk_entries m)"
    using index_of_delete [OF i] assms(2) by (simp add: mk_wf_def)
  with assms(1) i show "m' = install dg (filter (\<lambda>e. ke_ID e \<noteq> cid) (mk_entries m)) m"
    by (auto simp: Delete_def Let_def split: prod.splits option.splits)
qed

lemma Update_Inr:
  assumes "Update uq dg cd io cid upd m fs = (Inr su, m', fs')" "mk_wf dg m"
  shows "cid \<in> ke_ID ` set (mk_entries m)"
    and "m' = install dg (map (\<lambda>e. if ke_ID e = cid then apply_update upd e else e) (mk_entries m)) m"
proof -
  obtain i where i: "index_of (\<lambda>e. ke_ID e = cid) (mk_entries m) = Some i"
    using assms(1) by (auto simp: Update_def split: option.splits)
  from index_of_SomeD [OF i] show "cid \<in> ke_ID ` set (mk_entries m)" by auto
  have "(mk_entries m)[i := apply_update upd (mk_entries m ! i)]
      = map (\<lambda>e. if ke_ID e = cid then apply_update upd e else e) (mk_entries m)"
    using index_of_update [OF i] assms(2) by (simp add: mk_wf_def)
  with assms(1) i show
    "m' = install dg (map (\<lambda>e. if ke_ID e = cid then apply_update upd e else e) (mk_entries m)) m"
    by (auto simp: Update_def Let_def split: prod.splits option.splits)
qed

lemma apply_update_ID [simp]: "ke_ID (apply_update upd e) = ke_ID e"
  by (simp add: apply_update_def)

lemma map_if_ID: "map ke_ID (map (\<lambda>e. if P e then apply_update upd e else e) es) = map ke_ID es"
  by (induction es) simp_all

lemma new_entry_fields [simp]:
  "ke_ID (NewKeyEntryWithHasher dg now cid raw roles h) = cid"
  "ke_Roles (NewKeyEntryWithHasher dg now cid raw roles h) = roles"
  "ke_Enabled (NewKeyEntryWithHasher dg now cid raw roles h) = True"
  "ke_KeyHash (NewKeyEntryWithHasher dg now cid raw roles h) = fst (HashForStore dg h raw)"
  by (simp_all add: NewKeyEntryWithHasher_def split: prod.split)

lemma new_entry_migrated [simp]:
  "proper_digests dg \<Longrightarrow>
   migrateEntry dg ((NewKeyEntryWithHasher dg now cid raw roles h)\<lparr>ke_ExpiresAt := t\<rparr>)
     = (NewKeyEntryWithHasher dg now cid raw roles h)\<lparr>ke_ExpiresAt := t\<rparr>"
  by (auto simp: migrateEntry_def proper_digests_def HashForStore_def HashKey_def hashKeyHMAC_def
      split: option.splits)

lemma Create_wf [wf_intros]:
  "Create uq dg cd io now rnd cid roles expt m fs = (r, m', fs') \<Longrightarrow> mk_wf dg m \<Longrightarrow> mk_wf dg m'"
proof (cases r)
  case (Inl e)
  assume "Create uq dg cd io now rnd cid roles expt m fs = (r, m', fs')" "mk_wf dg m"
  with Inl show ?thesis
    by (auto simp: Create_def Let_def split: if_splits sum.splits prod.splits option.splits)
next
  case (Inr p)
  assume a: "Create uq dg cd io now rnd cid roles expt m fs = (r, m', fs')" "mk_wf dg m"
  obtain su raw where p: "p = (su, raw)" by (cases p)
  have "distinct (map ke_ID (mk_entries m))" using a(2) by (simp add: mk_wf_def)
  with Create_Inr(1,3) [OF a(1) [unfolded Inr p]] show ?thesis
    by (simp add: install_wf [OF a(2)])
qed

lemma Delete_wf [wf_intros]:
  "Delete uq dg cd io cid m fs = (r, m', fs') \<Longrightarrow> mk_wf dg m \<Longrightarrow> mk_wf dg m'"
proof (cases r)
  case (Some e)
  assume "Delete uq dg cd io cid m fs = (r, m', fs')" "mk_wf dg m"
  with Some show ?thesis by (auto simp: Delete_def Let_def split: prod.splits option.splits)
next
  case None
  assume a: "Delete uq dg cd io cid m fs = (r, m', fs')" "mk_wf dg m"
  have "distinct (map ke_ID (mk_entries m))" using a(2) by (simp add: mk_wf_def)
  then have "distinct (map ke_ID (filter (\<lambda>e. ke_ID e \<noteq> cid) (mk_entries m)))"
    by (auto simp: distinct_map intro: inj_on_subset)
  with Delete_None(2) [OF a(1) [unfolded None] a(2)] show ?thesis
    by (simp add: install_wf [OF a(2)])
qed

lemma Update_wf [wf_intros]:
  "Update uq dg cd io cid upd m fs = (r, m', fs') \<Longrightarrow> mk_wf dg m \<Longrightarrow> mk_wf dg m'"
proof (cases r)
  case (Inl e)
  assume "Update uq dg cd io cid upd m fs = (r, m', fs')" "mk_wf dg m"
  with Inl show ?thesis by (auto simp: Update_def Let_def split: prod.splits option.splits)
next
  case (Inr su)
  assume a: "Update uq dg cd io cid upd m fs = (r, m', fs')" "mk_wf dg m"
  have "distinct (map ke_ID (mk_entries m))" using a(2) by (simp add: mk_wf_def)
  with Update_Inr(2) [OF a(1) [unfolded Inr] a(2)] install_wf [OF a(2)] show ?thesis
    by (metis map_if_ID)
qed


section \<open>Properties\<close>

definition verdict :: "KeyEntry \<Rightarrow> time \<Rightarrow> goerr + Claims" where
  "verdict e now =
     (case classifyEntry (Some e) now of
        RejectNone \<Rightarrow> Inr \<lparr>cl_ClientID = ke_ID e, cl_Roles = ke_Roles e\<rparr>
      | RejectRevoked \<Rightarrow> Inl ErrKeyRevoked
      | RejectExpired \<Rightarrow> Inl ErrKeyExpired
      | RejectNotFound \<Rightarrow> Inl ErrInvalidAPIKey)"

lemma authenticate_entry:
  assumes "mk_wf dg m" "e \<in> set (mk_entries m)"
    and "ke_KeyHash e \<in> set (candidate_hashes dg (mk_hasher m) k)"
    and "\<forall>e' \<in> set (mk_entries m). ke_KeyHash e' \<in> set (candidate_hashes dg (mk_hasher m) k) \<longrightarrow> e' = e"
  shows "authenticate dg now m k = Some (verdict e now)"
proof -
  have "mk.validate dg (mk_hasher m) now m k = Some (verdict e now)"
    unfolding verdict_def
    by (rule mk.validate_complete [OF _ _ assms(2-4)]) (simp_all add: assms(1))
  then show ?thesis by (simp only: authenticate_eq)
qed

lemma authenticate_unknown:
  assumes "mk_wf dg m"
    and "\<forall>e \<in> set (mk_entries m). ke_KeyHash e \<notin> set (candidate_hashes dg (mk_hasher m) k)"
  shows "authenticate dg now m k = Some (Inl ErrInvalidAPIKey)"
proof -
  have "mk.validate dg (mk_hasher m) now m k = Some (Inl ErrInvalidAPIKey)"
    by (rule mk.validate_unknown [OF _ assms(2)]) (simp add: assms(1))
  then show ?thesis by (simp only: authenticate_eq)
qed

lemma probe_cong: "(\<And>c. c \<in> set cs \<Longrightarrow> m (hc_Hash c) = m' (hc_Hash c)) \<Longrightarrow> probe m cs = probe m' cs"
  by (induction cs) (auto split: option.split)

lemma byHash_snoc:
  "ke_KeyHash (migrateEntry dg e) \<noteq> k \<Longrightarrow>
   byHash (NewKeyStoreWithHasher dg (es @ [e]) h) k = byHash (NewKeyStoreWithHasher dg es h) k"
  by (simp add: NewKeyStoreWithHasher_def migrateLegacyEntries_def index_entry_def)

lemma byHash_filter:
  "(\<And>e. e \<in> set es \<Longrightarrow> \<not> P e \<Longrightarrow> ke_KeyHash (migrateEntry dg e) \<noteq> k) \<Longrightarrow>
   byHash (NewKeyStoreWithHasher dg (filter P es) h) k = byHash (NewKeyStoreWithHasher dg es h) k"
proof (induction es rule: rev_induct)
  case (snoc e es)
  then have IH: "byHash (NewKeyStoreWithHasher dg (filter P es) h) k = byHash (NewKeyStoreWithHasher dg es h) k"
    by simp
  show ?case
  proof (cases "P e")
    case True
    with IH show ?thesis
      by (simp add: NewKeyStoreWithHasher_def migrateLegacyEntries_def index_entry_def)
  next
    case False
    then have "ke_KeyHash (migrateEntry dg e) \<noteq> k" using snoc.prems by simp
    with IH False show ?thesis by (simp add: byHash_snoc)
  qed
qed simp

lemma authenticate_cong:
  assumes "mk_hasher m' = mk_hasher m"
    and "\<And>c. c \<in> set (candidate_hashes dg (mk_hasher m) k) \<Longrightarrow> byHash (mk_store m') c = byHash (mk_store m) c"
    and "ks_hasher (mk_store m) = mk_hasher m" "ks_hasher (mk_store m') = mk_hasher m"
  shows "authenticate dg now m' k = authenticate dg now m k"
proof -
  have "KeyStore_Lookup dg (mk_store m') k = KeyStore_Lookup dg (mk_store m) k"
    using assms by (auto simp: KeyStore_Lookup_def candidate_hashes_def intro: probe_cong)
  then show ?thesis
    using assms(1) by (simp add: authenticate_def Validate_def KeyLookupAdapter_Lookup_def Lookup_def)
qed

text \<open>
  Claim C5 (nobody gets in without a live key). A token authenticates only if some stored
  entry is enabled, has not expired at the time of the request and is filed under a digest of
  that very token, and the caller then gets that entry's identity and roles and no other. The
  validator never dereferences a nil entry.
\<close>

theorem authenticate_sound:
  assumes "mk_wf dg m"
  shows "authenticate dg now m token \<noteq> None
       \<and> (\<forall>c. authenticate dg now m token = Some (Inr c) \<longrightarrow>
            (\<exists>e \<in> set (mk_entries m). ke_Enabled e
                \<and> (ke_ExpiresAt e = zeroTime \<or> now < ke_ExpiresAt e)
                \<and> ke_KeyHash e \<in> set (candidate_hashes dg (mk_hasher m) token)
                \<and> c = \<lparr>cl_ClientID = ke_ID e, cl_Roles = ke_Roles e\<rparr>))"
proof -
  have i: "mk_wf dg m \<and> mk_hasher m = mk_hasher m" using assms by simp
  have "ke_Enabled e \<and> (ke_ExpiresAt e = zeroTime \<or> now < ke_ExpiresAt e)"
    if "mk.usable now e" for e
    using that by (auto simp: mk.usable_def classifyEntry_def IsZero_def Before_def split: if_splits)
  then show ?thesis
    using mk.validate_total [OF i] mk.validate_sound [OF i] by (simp only: authenticate_eq) blast
qed

text \<open>
  a key works from the moment it is issued. After a successful create, the key
  that was handed out authenticates as the new client with the requested roles until its
  expiry, and reads as expired from then on; the file on disk holds exactly the entries in
  memory; and the outcome of every other token is unchanged. The hypothesis on digests is
  that the new key collides with no stored entry.
\<close>

theorem created_key_authenticates:
  assumes wf: "mk_wf dg m"
    and ok: "Create uq dg cd io now rnd cid roles expt m fs = (Inr (su, raw), m', fs')"
    and fresh: "\<forall>e \<in> set (mk_entries m). ke_KeyHash e \<notin> set (candidate_hashes dg (mk_hasher m) raw)"
    and tmp: "io_tmpPath io \<noteq> mk_path m"
  shows "authenticate dg t m' raw =
           Some (if expt \<noteq> zeroTime \<and> expt \<le> t then Inl ErrKeyExpired
                 else Inr \<lparr>cl_ClientID = cid, cl_Roles = roles\<rparr>)
       \<and> fs' (mk_path m') = Some (Marshal cd (mk_entries m'))
       \<and> (\<forall>token. fst (HashForStore dg (mk_hasher m) raw) \<notin> set (candidate_hashes dg (mk_hasher m) token) \<longrightarrow>
            authenticate dg t m' token = authenticate dg t m token)"
proof -
  let ?e = "(NewKeyEntryWithHasher dg now cid raw roles (mk_hasher m))\<lparr>ke_ExpiresAt := expt\<rparr>"
  have m': "m' = install dg (mk_entries m @ [?e]) m" by (rule Create_Inr(3) [OF ok])
  have p: "proper_digests dg" and mig: "map (migrateEntry dg) (mk_entries m) = mk_entries m"
      and st: "mk_store m = NewKeyStoreWithHasher dg (mk_entries m) (mk_hasher m)"
    using wf by (simp_all add: mk_wf_def)
  have es: "mk_entries m' = mk_entries m @ [?e]" using m' p mig by simp
  have "authenticate dg t m' raw = Some (verdict ?e t)"
  proof (rule authenticate_entry [OF Create_wf [OF ok wf]])
    show "ke_KeyHash ?e \<in> set (candidate_hashes dg (mk_hasher m') raw)"
      using m' HashForStore_candidate by simp
  qed (use es fresh m' in auto)
  then have 1: "authenticate dg t m' raw =
           Some (if expt \<noteq> zeroTime \<and> expt \<le> t then Inl ErrKeyExpired
                 else Inr \<lparr>cl_ClientID = cid, cl_Roles = roles\<rparr>)"
    by (auto simp: verdict_def classifyEntry_def IsZero_def Before_def)
  obtain sts where "SaveKeysFile cd io (mk_path m) (mk_entries m @ [?e]) fs = (None, sts)" "fs' = last sts"
    using Create_Inr(4) [OF ok] by blast
  with SaveKeysFile_spec(4) tmp have 2: "fs' (mk_path m') = Some (Marshal cd (mk_entries m'))"
    using m' es by fastforce
  have "authenticate dg t m' token = authenticate dg t m token"
    if "fst (HashForStore dg (mk_hasher m) raw) \<notin> set (candidate_hashes dg (mk_hasher m) token)" for token
  proof (rule authenticate_cong)
    fix c assume "c \<in> set (candidate_hashes dg (mk_hasher m) token)"
    with that have "ke_KeyHash (migrateEntry dg ?e) \<noteq> c" using p by auto
    with byHash_snoc show "byHash (mk_store m') c = byHash (mk_store m) c"
      by (simp add: m' install_def st)
  qed (simp_all add: m' install_def st)
  with 1 2 show ?thesis by blast
qed


text \<open>Concrete parameters for the witnesses: injective digests, a transparent codec, no I/O errors.\<close>

definition tag_digests :: digests where
  "tag_digests = \<lparr>sha256 = (\<lambda>k. CHR ''s'' # k), hmac256 = (\<lambda>p k. CHR ''h'' # p @ CHR ''|'' # k)\<rparr>"

definition plain_codec :: "KeyEntry list codec" where
  "plain_codec = \<lparr>Marshal = id, Unmarshal = Inr, emptyFile = []\<rparr>"

definition calm_io :: "KeyEntry list io" where
  "calm_io = \<lparr>io_fail = (\<lambda>_. None), io_tmpPath = ''keys.json.tmp-1'', io_partial = []\<rparr>"

definition empty_store :: ManagedKeyStore where
  "empty_store = \<lparr>mk_store = NewKeyStoreWithHasher tag_digests [] None, mk_entries = [],
                  mk_path = ''keys.json'', mk_hasher = None\<rparr>"

lemma proper_tag [simp]: "proper_digests tag_digests"
  by (simp add: proper_digests_def tag_digests_def)

lemma empty_store_wf [simp]: "mk_wf tag_digests empty_store"
  by (simp add: mk_wf_def empty_store_def)

lemma calm_SaveKeysFile:
  "path \<noteq> ''keys.json.tmp-1'' \<Longrightarrow>
   fst (SaveKeysFile plain_codec calm_io path es fs) = None"
  by (simp add: SaveKeysFile_def withExclusiveLock_def writeKeysAtomic_def calm_io_def Let_def)

lemma calm_Create:
  "\<exists>su m' fs'. Create id tag_digests plain_codec calm_io 5 (Inr [CHR ''k'']) ''alice'' [''writer''] 100
     empty_store Map.empty = (Inr (su, b64enc urlDigit False [CHR ''k'']), m', fs')"
  by (simp add: Create_def GenerateKey_def empty_store_def SaveKeysFile_def withExclusiveLock_def
      writeKeysAtomic_def calm_io_def Let_def)

theorem authenticate_sound_witness:
  "mk_wf tag_digests empty_store \<and> authenticate tag_digests 0 empty_store ''guess'' \<noteq> None"
  using authenticate_sound [of tag_digests empty_store 0 "''guess''"] by simp

theorem created_key_authenticates_witness:
  "\<exists>su raw m' fs'. Create id tag_digests plain_codec calm_io 5 (Inr [CHR ''k'']) ''alice'' [''writer''] 100
       empty_store Map.empty = (Inr (su, raw), m', fs')
     \<and> authenticate tag_digests 50 m' raw = Some (Inr \<lparr>cl_ClientID = ''alice'', cl_Roles = [''writer'']\<rparr>)
     \<and> authenticate tag_digests 100 m' raw = Some (Inl ErrKeyExpired)"
proof -
  obtain su m' fs' where c: "Create id tag_digests plain_codec calm_io 5 (Inr [CHR ''k'']) ''alice''
      [''writer''] 100 empty_store Map.empty = (Inr (su, b64enc urlDigit False [CHR ''k'']), m', fs')"
    using calm_Create by blast
  have "\<forall>e \<in> set (mk_entries empty_store).
      ke_KeyHash e \<notin> set (candidate_hashes tag_digests (mk_hasher empty_store) (b64enc urlDigit False [CHR ''k'']))"
    by (simp add: empty_store_def)
  note * = created_key_authenticates [OF empty_store_wf c this]
  have "io_tmpPath calm_io \<noteq> mk_path empty_store" by (simp add: calm_io_def empty_store_def)
  from * [OF this, of 50] * [OF this, of 100] c show ?thesis
    by (simp add: zeroTime_def)
qed

text \<open>
  Revocation and changes take effect. After a successful delete, a key of the
  deleted client is an unknown key; after a successful update, the key is judged by the
  updated entry: disabled reads as revoked even when also expired, and new roles and deadline
  apply at once. The key in question is the only one filed under its digests.
\<close>

theorem revocation_takes_effect:
  assumes wf: "mk_wf dg m" and e: "e \<in> set (mk_entries m)" "ke_ID e = cid"
    and k: "ke_KeyHash e \<in> set (candidate_hashes dg (mk_hasher m) token)"
    and uniq: "\<forall>e' \<in> set (mk_entries m).
       ke_KeyHash e' \<in> set (candidate_hashes dg (mk_hasher m) token) \<longrightarrow> e' = e"
  shows "(\<forall>m' fs'. Delete uq dg cd io cid m fs = (None, m', fs') \<longrightarrow>
            authenticate dg now m' token = Some (Inl ErrInvalidAPIKey))
       \<and> (\<forall>upd su m' fs'. Update uq dg cd io cid upd m fs = (Inr su, m', fs') \<longrightarrow>
            authenticate dg now m' token = Some (verdict (apply_update upd e) now)
            \<and> (up_Enabled upd = Some False \<longrightarrow> authenticate dg now m' token = Some (Inl ErrKeyRevoked)))"
proof (intro conjI allI impI)
  note mig = mk_wf_migrated [OF wf]
  {
    fix m' fs' assume d: "Delete uq dg cd io cid m fs = (None, m', fs')"
    show "authenticate dg now m' token = Some (Inl ErrInvalidAPIKey)"
    proof (rule authenticate_unknown [OF Delete_wf [OF d wf]])
      show "\<forall>x \<in> set (mk_entries m'). ke_KeyHash x \<notin> set (candidate_hashes dg (mk_hasher m') token)"
        using Delete_None(2) [OF d wf] uniq e(2) mig by auto
    qed
  }
  fix upd su m' fs' assume u: "Update uq dg cd io cid upd m fs = (Inr su, m', fs')"
  have hash: "ke_KeyHash (apply_update upd x) = ke_KeyHash x" for x by (simp add: apply_update_def)
  have mig': "migrateEntry dg (apply_update upd x) = apply_update upd x" if "x \<in> set (mk_entries m)" for x
    using mig [OF that] by (simp add: migrateEntry_fix needsMigration_def apply_update_def)
  have es: "mk_entries m' = map (\<lambda>x. if ke_ID x = cid then apply_update upd x else x) (mk_entries m)"
    using Update_Inr(2) [OF u wf] mig mig' by simp
  have h: "mk_hasher m' = mk_hasher m" using Update_Inr(2) [OF u wf] by simp
  have "authenticate dg now m' token = Some (verdict (apply_update upd e) now)"
  proof (rule authenticate_entry [OF Update_wf [OF u wf]])
    show "apply_update upd e \<in> set (mk_entries m')" using es e by (auto simp: image_iff)
    show "ke_KeyHash (apply_update upd e) \<in> set (candidate_hashes dg (mk_hasher m') token)"
      using k h hash by simp
    show "\<forall>e' \<in> set (mk_entries m'). ke_KeyHash e' \<in> set (candidate_hashes dg (mk_hasher m') token)
        \<longrightarrow> e' = apply_update upd e"
      using es uniq e(2) h hash by (auto split: if_splits)
  qed
  then show "authenticate dg now m' token = Some (verdict (apply_update upd e) now)"
    and "up_Enabled upd = Some False \<Longrightarrow> authenticate dg now m' token = Some (Inl ErrKeyRevoked)"
    by (auto simp: verdict_def classifyEntry_def apply_update_def)
qed


definition bob_entry :: KeyEntry where
  "bob_entry = (NewKeyEntryWithHasher tag_digests 1 ''bob'' ''bobkey'' [''reader''] None)"

definition bob_store :: ManagedKeyStore where
  "bob_store = install tag_digests [bob_entry] empty_store"

lemma bob_store_wf [simp]: "mk_wf tag_digests bob_store"
  unfolding bob_store_def by (rule install_wf) simp_all

lemma bob_entry_migrated [simp]: "migrateEntry dg bob_entry = bob_entry"
  by (simp add: migrateEntry_def bob_entry_def HashForStore_def HashKey_def tag_digests_def)

lemma bob_store_fields [simp]:
  "mk_entries bob_store = [bob_entry]" "mk_hasher bob_store = None" "mk_path bob_store = ''keys.json''"
  by (simp_all add: bob_store_def) (simp_all add: empty_store_def)

theorem revocation_takes_effect_witness:
  "\<exists>m' fs'. Delete id tag_digests plain_codec calm_io ''bob'' bob_store Map.empty = (None, m', fs')
     \<and> authenticate tag_digests 9 m' ''bobkey'' = Some (Inl ErrInvalidAPIKey)"
proof -
  obtain m' fs' where d: "Delete id tag_digests plain_codec calm_io ''bob'' bob_store Map.empty = (None, m', fs')"
    by (simp add: Delete_def SaveKeysFile_def withExclusiveLock_def writeKeysAtomic_def calm_io_def
        bob_entry_def Let_def)
  have "authenticate tag_digests 9 m' ''bobkey'' = Some (Inl ErrInvalidAPIKey)"
    using revocation_takes_effect [of tag_digests bob_store bob_entry "''bob''" "''bobkey''" id plain_codec calm_io
        Map.empty 9]
      d HashForStore_candidate [of tag_digests None "''bobkey''"]
    by (simp add: bob_entry_def)
  with d show ?thesis by blast
qed

text \<open>
  a failed or interrupted save loses nothing. If an operation reports an error, the
  store in memory and every file are as before. And during any save, successful or not, at
  every instant the keys file holds either the complete previous contents or the complete new
  contents, so a crash between two system calls cannot corrupt it. The temporary name is
  fresh, as \<^verbatim>\<open>os.CreateTemp\<close> chooses it.
\<close>

theorem failed_save_loses_nothing:
  assumes tmp: "io_tmpPath io \<noteq> mk_path m" "fs (io_tmpPath io) = None"
  shows "(\<forall>err m' fs'. Create uq dg cd io now rnd cid roles expt m fs = (Inl err, m', fs') \<longrightarrow> m' = m \<and> fs' = fs)
       \<and> (\<forall>err m' fs'. Update uq dg cd io cid upd m fs = (Inl err, m', fs') \<longrightarrow> m' = m \<and> fs' = fs)
       \<and> (\<forall>err m' fs'. Delete uq dg cd io cid m fs = (Some err, m', fs') \<longrightarrow> m' = m \<and> fs' = fs)
       \<and> (\<forall>es f. f \<in> set (snd (SaveKeysFile cd io (mk_path m) es fs)) \<longrightarrow>
            f (mk_path m) = fs (mk_path m) \<or> f (mk_path m) = Some (Marshal cd es))"
proof -
  have keep: "last sts = fs" if "SaveKeysFile cd io (mk_path m) es fs = (Some e, sts)" for es e sts
    using SaveKeysFile_spec(5) [OF that tmp(1)] tmp(2) by simp
  have all: "f (mk_path m) = fs (mk_path m) \<or> f (mk_path m) = Some (Marshal cd es)"
    if "f \<in> set (snd (SaveKeysFile cd io (mk_path m) es fs))" for es f
    using SaveKeysFile_spec(3) [of cd io "mk_path m" es fs] tmp(1) that
    by (cases "SaveKeysFile cd io (mk_path m) es fs") auto
  show ?thesis
    using keep all
    by (auto simp: Create_def Update_def Delete_def Let_def
        split: if_splits sum.splits option.splits prod.splits)
qed

theorem failed_save_loses_nothing_witness:
  "\<exists>err. Delete id tag_digests plain_codec
      (calm_io\<lparr>io_fail := (\<lambda>c. if c = Rename then Some (Ext OtherExt ''EXDEV'') else None)\<rparr>)
      ''bob'' bob_store [''keys.json'' \<mapsto> [bob_entry]] =
    (Some err, bob_store, [''keys.json'' \<mapsto> [bob_entry]])"
proof -
  let ?io = "calm_io\<lparr>io_fail := (\<lambda>c. if c = Rename then Some (Ext OtherExt ''EXDEV'') else None)\<rparr>"
  let ?fs = "[''keys.json'' \<mapsto> [bob_entry]]"
  have h: "io_tmpPath ?io \<noteq> mk_path bob_store" "?fs (io_tmpPath ?io) = None"
    by (simp_all add: calm_io_def)
  obtain e m' fs' where d: "Delete id tag_digests plain_codec ?io ''bob'' bob_store ?fs = (e, m', fs')"
    by (metis prod_cases3)
  then obtain err where "e = Some err"
    by (cases e) (auto simp: Delete_def bob_store_def bob_entry_def index_of_Some_iff SaveKeysFile_def
        withExclusiveLock_def writeKeysAtomic_def calm_io_def Let_def split: option.splits prod.splits)
  with d failed_save_loses_nothing [where io = ?io and m = bob_store and fs = ?fs, OF h, where uq = id and dg = tag_digests and cd = plain_codec
      and cid = "''bob''", THEN conjunct2, THEN conjunct2, THEN conjunct1]
  show ?thesis by blast
qed


definition quiet :: "'d io \<Rightarrow> bool" where
  "quiet io \<longleftrightarrow> io_fail io ReadKeys = None"

lemma load_saved:
  assumes "fs path = Some (Marshal cd es)" "\<forall>es. Unmarshal cd (Marshal cd es) = Inr es"
    and "\<forall>e \<in> set es. ke_WriteApproval e = '''' \<and> \<not> needsMigration e" "quiet io"
  shows "NewManagedKeyStoreWithHasher uq dg cd io path h fs =
     (Inr \<lparr>mk_store = NewKeyStoreWithHasher dg es h, mk_entries = es, mk_path = path, mk_hasher = h\<rparr>, fs)"
proof -
  have "map (migrateEntry dg) es = es"
    using assms(3) by (simp add: map_idI migrateEntry_fix)
  moreover have "filter (\<lambda>e. ke_WriteApproval e \<noteq> '''') es = []" "filter needsMigration es = []"
    using assms(3) by (simp_all add: filter_empty_conv)
  ultimately show ?thesis
    using assms(1,2,4)
    by (simp add: NewManagedKeyStoreWithHasher_def LoadKeysFile_def loadKeysFromPath_def quiet_def
        migrateLegacyEntries_def Let_def)
qed

lemma apply_update_live:
  "ke_WriteApproval (apply_update upd e) = ke_WriteApproval e"
  "needsMigration (apply_update upd e) = needsMigration e"
  by (simp_all add: apply_update_def needsMigration_def)

lemma new_entry_live:
  "proper_digests dg \<Longrightarrow>
   \<not> needsMigration ((NewKeyEntryWithHasher dg now cid raw roles h)\<lparr>ke_ExpiresAt := t\<rparr>)"
  using new_entry_migrated migrateEntry_fix by blast

lemma new_entry_WriteApproval:
  "ke_WriteApproval ((NewKeyEntryWithHasher dg now cid raw roles h)\<lparr>ke_ExpiresAt := t\<rparr>) = []"
  by (simp add: NewKeyEntryWithHasher_def split: prod.split)

definition live :: "KeyEntry \<Rightarrow> bool" where
  "live e \<longleftrightarrow> ke_WriteApproval e = [] \<and> \<not> needsMigration e"

lemma mutation_saves:
  assumes old: "\<forall>e \<in> set (mk_entries m). live e" and p: "proper_digests dg"
    and op: "(\<exists>r. Create uq dg cd io now rnd cid roles expt m fs = (Inr r, m', fs'))
       \<or> (\<exists>r. Update uq dg cd io cid upd m fs = (Inr r, m', fs'))
       \<or> Delete uq dg cd io cid m fs = (None, m', fs')"
  shows "\<exists>es sts. m' = install dg es m \<and> SaveKeysFile cd io (mk_path m) es fs = (None, sts)
           \<and> fs' = last sts \<and> (\<forall>e \<in> set es. live e)"
  using op
proof (elim disjE exE)
  fix r assume "Create uq dg cd io now rnd cid roles expt m fs = (Inr r, m', fs')"
  moreover obtain su raw where "r = (su, raw)" by (cases r)
  ultimately have c: "Create uq dg cd io now rnd cid roles expt m fs = (Inr (su, raw), m', fs')" by simp
  have "live ((NewKeyEntryWithHasher dg now cid raw roles (mk_hasher m))\<lparr>ke_ExpiresAt := expt\<rparr>)"
    unfolding live_def using new_entry_live [OF p] new_entry_WriteApproval by blast
  with Create_Inr(3,4) [OF c] old show ?thesis by fastforce
next
  fix r assume u: "Update uq dg cd io cid upd m fs = (Inr r, m', fs')"
  then obtain i where i: "index_of (\<lambda>e. ke_ID e = cid) (mk_entries m) = Some i"
    by (auto simp: Update_def split: option.splits)
  let ?es = "(mk_entries m)[i := apply_update upd (mk_entries m ! i)]"
  have "live (apply_update upd (mk_entries m ! i))"
    using old index_of_SomeD [OF i] by (simp add: live_def apply_update_live)
  then have "\<forall>e \<in> set ?es. live e" using old set_update_subset_insert by fastforce
  with u i show ?thesis by (auto simp: Update_def Let_def split: prod.splits option.splits)
next
  assume d: "Delete uq dg cd io cid m fs = (None, m', fs')"
  then obtain i where i: "index_of (\<lambda>e. ke_ID e = cid) (mk_entries m) = Some i"
    by (auto simp: Delete_def split: option.splits)
  have "\<forall>e \<in> set (take i (mk_entries m) @ drop (i + 1) (mk_entries m)). live e"
    using old by (auto dest: in_set_takeD in_set_dropD)
  with d i show ?thesis by (auto simp: Delete_def Let_def split: prod.splits option.splits)
qed

text \<open>
  Claim C38 (a restart finds the same keys). After a successful create, update or delete, a
  server that starts from the files it left behind loads exactly the entries the running
  server has, so every token is judged the same as before the restart. The codec must read
  back what it wrote, and no entry may carry the retired \<^verbatim>\<open>write_approval\<close> field, which the
  loader refuses.
\<close>

theorem restart_preserves_keys:
  assumes wf: "mk_wf dg m" and codec: "\<forall>es. Unmarshal cd (Marshal cd es) = Inr es"
    and tmp: "io_tmpPath io \<noteq> mk_path m" and q: "quiet io'"
    and wa: "\<forall>e \<in> set (mk_entries m). ke_WriteApproval e = []"
    and op: "(\<exists>r. Create uq dg cd io now rnd cid roles expt m fs = (Inr r, m', fs'))
       \<or> (\<exists>r. Update uq dg cd io cid upd m fs = (Inr r, m', fs'))
       \<or> Delete uq dg cd io cid m fs = (None, m', fs')"
  shows "NewManagedKeyStoreWithHasher uq dg cd io' (mk_path m) (mk_hasher m) fs' = (Inr m', fs')"
proof -
  have "\<forall>e \<in> set (mk_entries m). live e"
    using wa mk_wf_migrated [OF wf] migrateEntry_fix by (auto simp: live_def)
  moreover have "proper_digests dg" using wf by (simp add: mk_wf_def)
  ultimately obtain es sts where es: "m' = install dg es m" "\<forall>e \<in> set es. live e"
      and save: "SaveKeysFile cd io (mk_path m) es fs = (None, sts)" "fs' = last sts"
    using mutation_saves [OF _ _ op] by blast
  have onDisk: "fs' (mk_path m) = Some (Marshal cd es)"
    using SaveKeysFile_spec(4) [OF save(1) tmp] save(2) by simp
  have "map (migrateEntry dg) es = es"
    using es(2) by (simp add: live_def map_idI migrateEntry_fix)
  then have "m' = \<lparr>mk_store = NewKeyStoreWithHasher dg es (mk_hasher m), mk_entries = es,
                  mk_path = mk_path m, mk_hasher = mk_hasher m\<rparr>"
    by (simp add: es(1) install_def migrateLegacyEntries_def)
  moreover have "\<forall>e \<in> set es. ke_WriteApproval e = [] \<and> \<not> needsMigration e"
    using es(2) by (simp add: live_def)
  ultimately show ?thesis using load_saved [where fs = fs' and path = "mk_path m" and h = "mk_hasher m", OF onDisk codec _ q] by simp
qed


theorem restart_preserves_keys_witness:
  "\<exists>m' fs'. Delete id tag_digests plain_codec calm_io ''bob'' bob_store Map.empty = (None, m', fs')
     \<and> NewManagedKeyStoreWithHasher id tag_digests plain_codec calm_io ''keys.json'' None fs' = (Inr m', fs')"
proof -
  obtain m' fs' where d: "Delete id tag_digests plain_codec calm_io ''bob'' bob_store Map.empty = (None, m', fs')"
    by (simp add: Delete_def SaveKeysFile_def withExclusiveLock_def writeKeysAtomic_def calm_io_def
        bob_entry_def Let_def)
  have "NewManagedKeyStoreWithHasher id tag_digests plain_codec calm_io (mk_path bob_store)
      (mk_hasher bob_store) fs' = (Inr m', fs')"
  proof (rule restart_preserves_keys [where io = calm_io])
    show "(\<exists>r. Create id tag_digests plain_codec calm_io 0 (Inr []) ''bob'' [] 0 bob_store Map.empty = (Inr r, m', fs'))
       \<or> (\<exists>r. Update id tag_digests plain_codec calm_io ''bob'' undefined bob_store Map.empty = (Inr r, m', fs'))
       \<or> Delete id tag_digests plain_codec calm_io ''bob'' bob_store Map.empty = (None, m', fs')"
      using d by simp
  qed (simp_all add: plain_codec_def calm_io_def quiet_def bob_entry_def NewKeyEntryWithHasher_def HashForStore_def)
  with d show ?thesis by simp
qed

lemma writePreMigrationBackup_cases:
  assumes "writePreMigrationBackup io path fs = (r, fs1)" "fs path = Some data"
  shows "\<forall>q. q \<noteq> path @ preMigrationBackupSuffix \<longrightarrow> fs1 q = fs q"
    and "\<forall>b. fs (path @ preMigrationBackupSuffix) = Some b \<longrightarrow> fs1 = fs \<and> r = None"
    and "r = None \<Longrightarrow> fs1 (path @ preMigrationBackupSuffix) =
           (if fs (path @ preMigrationBackupSuffix) = None then Some data
            else fs (path @ preMigrationBackupSuffix))"
  using assms by (auto simp: writePreMigrationBackup_def Let_def split: if_splits option.splits)

text \<open>
  Migration of old key files. When a keys file holds entries with raw keys, start-up
  hashes them in memory, so no entry keeps a raw key it could be read from; the file on disk
  is rewritten only once a backup of the original exists, with the original contents unless
  an earlier migration already left one, and an existing backup is never touched. This holds
  whichever system calls fail after the file was read.
\<close>

theorem legacy_migration:
  assumes data: "fs path = Some data" "Unmarshal cd data = Inr es0" and q: "quiet io"
    and wa: "\<forall>e \<in> set es0. ke_WriteApproval e = []"
    and legacy: "\<exists>e \<in> set es0. needsMigration e"
    and tmp: "io_tmpPath io \<noteq> path" "io_tmpPath io \<noteq> path @ preMigrationBackupSuffix"
  shows "\<exists>m fs'. NewManagedKeyStoreWithHasher uq dg cd io path h fs = (Inr m, fs')
      \<and> mk_entries m = map (migrateEntry dg) es0
      \<and> (\<forall>e \<in> set (mk_entries m). \<not> needsMigration e)
      \<and> (\<forall>b. fs (path @ preMigrationBackupSuffix) = Some b \<longrightarrow> fs' (path @ preMigrationBackupSuffix) = Some b)
      \<and> (fs' path \<noteq> fs path \<longrightarrow>
           fs' path = Some (Marshal cd (mk_entries m))
           \<and> (fs (path @ preMigrationBackupSuffix) = None \<longrightarrow> fs' (path @ preMigrationBackupSuffix) = Some data))"
proof -
  let ?bp = "path @ preMigrationBackupSuffix" and ?es = "map (migrateEntry dg) es0"
  have bp: "?bp \<noteq> path" by (simp add: preMigrationBackupSuffix_def)
  have load: "LoadKeysFile uq cd io fs path = Inr es0"
  proof -
    have "filter (\<lambda>e. ke_WriteApproval e \<noteq> []) es0 = []" using wa by (simp add: filter_empty_conv)
    then show ?thesis using data q by (simp add: LoadKeysFile_def loadKeysFromPath_def quiet_def Let_def)
  qed
  have cnt: "0 < length (filter needsMigration es0)" using legacy by (simp add: filter_empty_conv)
  have live: "\<forall>e \<in> set ?es. \<not> needsMigration e"
    using migrateEntry_idem migrateEntry_fix by (metis (no_types, lifting) image_iff list.set_map)
  let ?m = "\<lparr>mk_store = NewKeyStoreWithHasher dg ?es h, mk_entries = ?es, mk_path = path, mk_hasher = h\<rparr>"
  obtain r fs1 where b: "writePreMigrationBackup io path fs = (r, fs1)" by fastforce
  note bc = writePreMigrationBackup_cases [OF b data(1)]
  show ?thesis
  proof (cases r)
    case (Some err)
    have "NewManagedKeyStoreWithHasher uq dg cd io path h fs = (Inr ?m, fs1)"
      using load cnt b Some
      by (simp add: NewManagedKeyStoreWithHasher_def migrateLegacyEntries_def comp_def)
    moreover have "fs1 path = fs path" using bc(1) bp by metis
    ultimately show ?thesis using live bc(2) by auto
  next
    case None
    obtain r2 sts where s: "SaveKeysFile cd io path ?es fs1 = (r2, sts)" by fastforce
    have new: "NewManagedKeyStoreWithHasher uq dg cd io path h fs = (Inr ?m, last sts)"
      using load cnt b None s
      by (simp add: NewManagedKeyStoreWithHasher_def migrateLegacyEntries_def comp_def)
    note sp = SaveKeysFile_spec [OF s tmp(1)]
    have "last sts \<in> set sts" using sp(1) by simp
    then have "last sts ?bp = fs1 ?bp" "last sts path = fs1 path \<or> last sts path = Some (Marshal cd ?es)"
      using sp(2,3) tmp(2) bp by metis+
    moreover have "fs1 path = fs path" using bc(1) bp by metis
    ultimately show ?thesis using new live bc(2,3) None by auto
  qed
qed

theorem legacy_migration_witness:
  "\<exists>m fs'. NewManagedKeyStoreWithHasher id tag_digests plain_codec calm_io ''keys.json'' None
        [''keys.json'' \<mapsto> [bob_entry\<lparr>ke_KeyHash := [], ke_Key := ''old''\<rparr>]] = (Inr m, fs')
     \<and> (\<forall>e \<in> set (mk_entries m). \<not> needsMigration e)"
proof -
  let ?e = "bob_entry\<lparr>ke_KeyHash := [], ke_Key := ''old''\<rparr>"
  have "\<exists>m fs'. NewManagedKeyStoreWithHasher id tag_digests plain_codec calm_io ''keys.json'' None
        [''keys.json'' \<mapsto> [?e]] = (Inr m, fs')
      \<and> mk_entries m = map (migrateEntry tag_digests) [?e]
      \<and> (\<forall>e \<in> set (mk_entries m). \<not> needsMigration e)
      \<and> (\<forall>b. [''keys.json'' \<mapsto> [?e]] (''keys.json'' @ preMigrationBackupSuffix) = Some b \<longrightarrow>
             fs' (''keys.json'' @ preMigrationBackupSuffix) = Some b)
      \<and> (fs' ''keys.json'' \<noteq> [''keys.json'' \<mapsto> [?e]] ''keys.json'' \<longrightarrow>
           fs' ''keys.json'' = Some (Marshal plain_codec (mk_entries m))
           \<and> ([''keys.json'' \<mapsto> [?e]] (''keys.json'' @ preMigrationBackupSuffix) = None \<longrightarrow>
               fs' (''keys.json'' @ preMigrationBackupSuffix) = Some [?e]))"
    by (rule legacy_migration)
       (simp_all add: plain_codec_def calm_io_def quiet_def needsMigration_def preMigrationBackupSuffix_def
         bob_entry_def NewKeyEntryWithHasher_def HashForStore_def)
  then show ?thesis by blast
qed

text \<open>
  Pepper rotation: a key issued while pepper \<open>a\<close> was active still authenticates after
  one rotation to pepper \<open>b\<close> with \<open>a\<close> kept as the previous pepper; after a second rotation, to
  \<open>c\<close> with \<open>b\<close> as previous, the file-backed store no longer accepts it, because nothing ever
  rewrites the stored digest. Distinct peppers and schemes are taken to give distinct digests.
\<close>

theorem pepper_rotation:
  assumes wf: "mk_wf dg m" "mk_entries m = es @ [e]"
    and e: "ke_KeyHash e = fst (HashForStore dg (Some (NewKeyHasher a old)) token)" "a \<noteq> []" "b \<noteq> []"
    and only: "\<forall>x \<in> set es. ke_KeyHash x \<notin> {HashKey dg token, hashKeyHMAC dg a token,
                 hashKeyHMAC dg b token, hashKeyHMAC dg c token}"
    and apart: "hashKeyHMAC dg a token \<notin> {HashKey dg token, hashKeyHMAC dg b token, hashKeyHMAC dg c token}"
  shows "(mk_hasher m = Some (NewKeyHasher b a) \<longrightarrow> authenticate dg now m token = Some (verdict e now))
       \<and> (mk_hasher m = Some (NewKeyHasher c b) \<longrightarrow> authenticate dg now m token = Some (Inl ErrInvalidAPIKey))"
proof (intro conjI impI)
  have h: "ke_KeyHash e = hashKeyHMAC dg a token"
    using e(1,2) by (simp add: HashForStore_def NewKeyHasher_def)
  {
    assume "mk_hasher m = Some (NewKeyHasher b a)"
    then have c: "set (candidate_hashes dg (mk_hasher m) token)
        = {HashKey dg token, hashKeyHMAC dg b token, hashKeyHMAC dg a token}"
      using e(2,3) by (auto simp: candidate_hashes_def Candidates_def NewKeyHasher_def Let_def)
    show "authenticate dg now m token = Some (verdict e now)"
      by (rule authenticate_entry [OF wf(1)]) (use c h wf(2) only in auto)
  }
  assume "mk_hasher m = Some (NewKeyHasher c b)"
  then have c: "set (candidate_hashes dg (mk_hasher m) token)
      \<subseteq> {HashKey dg token, hashKeyHMAC dg c token, hashKeyHMAC dg b token}"
    by (auto simp: candidate_hashes_def Candidates_def NewKeyHasher_def Let_def split: option.splits if_splits)
  show "authenticate dg now m token = Some (Inl ErrInvalidAPIKey)"
    by (rule authenticate_unknown [OF wf(1)]) (use c h wf(2) only apart in auto)
qed

definition rotated_entry :: KeyEntry where
  "rotated_entry = NewKeyEntryWithHasher tag_digests 1 ''eve'' ''evekey'' [''reader''] (Some (NewKeyHasher ''A'' []))"

definition rotated_store :: ManagedKeyStore where
  "rotated_store = install tag_digests [rotated_entry] (empty_store\<lparr>mk_hasher := Some (NewKeyHasher ''B'' ''A''),
      mk_store := NewKeyStoreWithHasher tag_digests [] (Some (NewKeyHasher ''B'' ''A''))\<rparr>)"

theorem pepper_rotation_witness:
  "authenticate tag_digests 9 rotated_store ''evekey''
     = Some (Inr \<lparr>cl_ClientID = ''eve'', cl_Roles = [''reader'']\<rparr>)"
proof -
  have e: "migrateEntry tag_digests rotated_entry = rotated_entry"
    by (simp add: rotated_entry_def migrateEntry_def HashForStore_def NewKeyHasher_def hashKeyHMAC_def tag_digests_def)
  have wf: "mk_wf tag_digests rotated_store"
    unfolding rotated_store_def by (rule install_wf) (simp_all add: mk_wf_def empty_store_def)
  have "mk_hasher rotated_store = Some (NewKeyHasher ''B'' ''A'') \<longrightarrow>
      authenticate tag_digests 9 rotated_store ''evekey'' = Some (verdict rotated_entry 9)"
    by (rule pepper_rotation [where es = "[]" and a = "''A''" and b = "''B''" and c = "''C''" and old = "[]",
          THEN conjunct1])
       (use e wf in \<open>simp_all add: rotated_store_def rotated_entry_def hashKeyHMAC_def HashKey_def
         tag_digests_def EncodeToString_inject del: EncodeToString.simps\<close>)
  then show ?thesis
    by (simp add: rotated_store_def verdict_def classifyEntry_def rotated_entry_def IsZero_def
        NewKeyEntryWithHasher_def HashForStore_def NewKeyHasher_def)
qed

end
