(* ===== verification/Key_Postgres.thy ===== *)
theory Key_Postgres
  imports Key_Store
begin

text \<open>
  The Postgres-backed key store (\<^verbatim>\<open>internal/mcp/postgres_store.go\<close>), the second
  implementation of the backend interface. The database is the list of rows of the table
  \<^verbatim>\<open>api_keys\<close>, with its primary key on \<^verbatim>\<open>id\<close> and unique index on \<^verbatim>\<open>key_hash\<close>
  (\<^verbatim>\<open>migrations/0001_init_api_keys.sql\<close>); a row is a \<open>KeyEntry\<close> whose digest is written in
  hexadecimal, since the \<^verbatim>\<open>BYTEA\<close> column and the hex string determine each other. Queries
  may fail; the column type rounds instants to its own precision, which is the parameter
  \<open>tz\<close>.
\<close>

type_synonym pg_table = "KeyEntry list"

record pg_env =
  pe_now :: time
  pe_query :: "goerr option"
  pe_exec :: "goerr option"

definition isUniqueViolation :: "goerr \<Rightarrow> bool" where
  "isUniqueViolation err = has (\<lambda>e. e = PkgErr ''23505'' ''duplicate key value'') err"

definition uniqueViolation :: goerr where
  "uniqueViolation = PkgErr ''23505'' ''duplicate key value''"

text \<open>The statements of the store, on the table.\<close>

definition sql_insert :: "KeyEntry \<Rightarrow> pg_table \<Rightarrow> goerr option \<times> pg_table" where
  "sql_insert r t =
     (if list_ex (\<lambda>x. ke_ID x = ke_ID r \<or> ke_KeyHash x = ke_KeyHash r) t
      then (Some uniqueViolation, t) else (None, t @ [r]))"

definition sql_set_hash :: "string \<Rightarrow> string \<Rightarrow> int \<Rightarrow> pg_table \<Rightarrow> goerr option \<times> pg_table" where
  "sql_set_hash i h v t =
     (if list_ex (\<lambda>x. ke_ID x \<noteq> i \<and> ke_KeyHash x = h) t \<and> list_ex (\<lambda>x. ke_ID x = i) t
      then (Some uniqueViolation, t)
      else (None, map (\<lambda>x. if ke_ID x = i then x\<lparr>ke_KeyHash := h, ke_HashVersion := v\<rparr> else x) t))"

section \<open>Operations\<close>

definition maybeRehash ::
  "digests \<Rightarrow> KeyHasher option \<Rightarrow> pg_env \<Rightarrow> string \<Rightarrow> KeyEntry \<Rightarrow> pg_table \<Rightarrow> KeyEntry \<times> pg_table" where
  "maybeRehash dg h env rawKey e t =
     (case HashForStore dg h rawKey of
        (activeHash, activeVer) \<Rightarrow>
          if ke_KeyHash e = activeHash \<and> ke_HashVersion e = activeVer then (e, t)
          else
            (e\<lparr>ke_KeyHash := activeHash, ke_HashVersion := activeVer\<rparr>,
             (if pe_exec env \<noteq> None then t else snd (sql_set_hash (ke_ID e) activeHash activeVer t))))"

definition pg_Lookup ::
  "digests \<Rightarrow> KeyHasher option \<Rightarrow> pg_env \<Rightarrow> pg_table \<Rightarrow> string
     \<Rightarrow> (KeyEntry option \<times> RejectReason) \<times> pg_table" where
  "pg_Lookup dg h env t rawKey =
     (if pe_query env \<noteq> None then ((None, RejectNotFound), t)
      else case find (\<lambda>e. ke_KeyHash e \<in> set (candidate_hashes dg h rawKey)) t of
             None \<Rightarrow> ((None, RejectNotFound), t)
           | Some e \<Rightarrow>
               let reason = classifyEntry (Some e) (pe_now env) in
               if reason = RejectNone
               then (case maybeRehash dg h env rawKey e t of (e', t') \<Rightarrow> ((Some e', reason), t'))
               else ((Some e, reason), t))"

definition pg_Create ::
  "(string \<Rightarrow> string) \<Rightarrow> (time \<Rightarrow> time) \<Rightarrow> digests \<Rightarrow> KeyHasher option \<Rightarrow> pg_env \<Rightarrow> goerr + bytes
     \<Rightarrow> string \<Rightarrow> string list \<Rightarrow> time \<Rightarrow> pg_table \<Rightarrow> (goerr + KeySummary \<times> string) \<times> pg_table" where
  "pg_Create uq tz dg h env rnd clientID roles expiresAt t =
     (case GenerateKey rnd of
        Inl err \<Rightarrow> (Inl err, t)
      | Inr rawKey \<Rightarrow>
          (case HashForStore dg h rawKey of
             (hash, version) \<Rightarrow>
               let entry = \<lparr>ke_ID = clientID, ke_Key = [], ke_KeyHash = hash,
                            ke_KeyPrefix = keyPrefixOf rawKey, ke_Enabled = True,
                            ke_CreatedAt = pe_now env, ke_HashVersion = version,
                            ke_WriteApproval = [], ke_Roles = roles, ke_ExpiresAt = expiresAt\<rparr>;
                   row = entry\<lparr>ke_CreatedAt := tz (pe_now env),
                               ke_ExpiresAt := (if IsZero expiresAt then zeroTime else tz expiresAt)\<rparr>
               in (case (case pe_exec env of Some err \<Rightarrow> (Some err, t) | None \<Rightarrow> sql_insert row t) of
                     (Some err, t') \<Rightarrow>
                       (Inl (if isUniqueViolation err then clientErr uq clientID ErrClientExists
                             else wrapf ''insert key'' err), t')
                   | (None, t') \<Rightarrow> (Inr (summarize entry, rawKey), t'))))"

definition pg_summary ::
  "(string \<Rightarrow> string) \<Rightarrow> pg_env \<Rightarrow> string \<Rightarrow> pg_table \<Rightarrow> goerr + KeySummary" where
  "pg_summary uq env clientID t =
     (case pe_query env of
        Some err \<Rightarrow> Inl (Errorf (''fetch summary '' @ Quote uq clientID @ '': '' @ Error err) [err])
      | None \<Rightarrow>
          (case find (\<lambda>e. ke_ID e = clientID) t of
             None \<Rightarrow> Inl (clientErr uq clientID ErrClientMissing)
           | Some e \<Rightarrow> Inr (summarize e)))"

definition pg_round :: "(time \<Rightarrow> time) \<Rightarrow> KeyUpdate \<Rightarrow> KeyUpdate" where
  "pg_round tz upd =
     upd\<lparr>up_ExpiresAt := map_option (\<lambda>t. if IsZero t then zeroTime else tz t) (up_ExpiresAt upd)\<rparr>"

definition pg_Update ::
  "(string \<Rightarrow> string) \<Rightarrow> (time \<Rightarrow> time) \<Rightarrow> pg_env \<Rightarrow> string \<Rightarrow> KeyUpdate \<Rightarrow> pg_table
     \<Rightarrow> (goerr + KeySummary) \<times> pg_table" where
  "pg_Update uq tz env clientID upd t =
     (if up_Enabled upd = None \<and> up_Roles upd = None \<and> up_ExpiresAt upd = None
      then (pg_summary uq env clientID t, t)
      else case pe_exec env of
             Some err \<Rightarrow> (Inl (wrapf ''update key'' err), t)
           | None \<Rightarrow>
               let t' = map (\<lambda>e. if ke_ID e = clientID then apply_update (pg_round tz upd) e else e) t in
               if \<not> list_ex (\<lambda>e. ke_ID e = clientID) t
               then (Inl (clientErr uq clientID ErrClientMissing), t')
               else (pg_summary uq env clientID t', t'))"

definition pg_Delete ::
  "(string \<Rightarrow> string) \<Rightarrow> pg_env \<Rightarrow> string \<Rightarrow> pg_table \<Rightarrow> goerr option \<times> pg_table" where
  "pg_Delete uq env clientID t =
     (case pe_exec env of
        Some err \<Rightarrow> (Some (wrapf ''delete key'' err), t)
      | None \<Rightarrow>
          if \<not> list_ex (\<lambda>e. ke_ID e = clientID) t
          then (Some (clientErr uq clientID ErrClientMissing), t)
          else (None, filter (\<lambda>e. ke_ID e \<noteq> clientID) t))"

definition countEnabled :: "pg_env \<Rightarrow> pg_table \<Rightarrow> nat" where
  "countEnabled env t = (if pe_query env \<noteq> None then 0 else length (filter ke_Enabled t))"

definition countAll :: "pg_env \<Rightarrow> pg_table \<Rightarrow> nat" where
  "countAll env t = (if pe_query env \<noteq> None then 0 else length t)"

section \<open>The table invariant and the backend interface\<close>

definition pg_wf :: "pg_table \<Rightarrow> bool" where
  "pg_wf t \<longleftrightarrow> distinct (map ke_ID t) \<and> distinct (map ke_KeyHash t)"

lemma maybeRehash_entry:
  "maybeRehash dg h env k e t = (e', t') \<Longrightarrow> same_grant e' e \<and> (ke_KeyHash e' = ke_KeyHash e \<or> ke_KeyHash e' = fst (HashForStore dg h k))"
  by (auto simp: maybeRehash_def same_grant_def split: prod.splits if_splits)

lemma sql_set_hash_grants:
  "map (\<lambda>e. (ke_ID e, ke_Roles e, ke_Enabled e, ke_ExpiresAt e)) (snd (sql_set_hash i hh v t))
     = map (\<lambda>e. (ke_ID e, ke_Roles e, ke_Enabled e, ke_ExpiresAt e)) t"
  by (auto simp: sql_set_hash_def)

lemma distinct_map_update_one:
  assumes "distinct (map ke_ID t)" "distinct (map ke_KeyHash t)"
    and "\<forall>x \<in> set t. ke_ID x \<noteq> i \<longrightarrow> ke_KeyHash x \<noteq> hh"
  shows "distinct (map ke_KeyHash (map (\<lambda>x. if ke_ID x = i then x\<lparr>ke_KeyHash := hh, ke_HashVersion := v\<rparr> else x) t))"
  using assms
proof (induction t)
  case (Cons x t)
  show ?case
  proof (cases "ke_ID x = i")
    case True
    with Cons.prems(1) have "\<forall>y \<in> set t. ke_ID y \<noteq> i" by (auto simp: image_iff)
    with True Cons show ?thesis by (auto simp: image_iff)
  next
    case False
    with Cons show ?thesis by (auto simp: image_iff)
  qed
qed simp

lemma sql_set_hash_wf [wf_intros]: "pg_wf t \<Longrightarrow> pg_wf (snd (sql_set_hash i hh v t))"
proof -
  assume wf: "pg_wf t"
  show ?thesis
  proof (cases "list_ex (\<lambda>x. ke_ID x \<noteq> i \<and> ke_KeyHash x = hh) t")
    case True
    then show ?thesis
      using wf by (cases "list_ex (\<lambda>x. ke_ID x = i) t")
        (auto simp: sql_set_hash_def list_ex_iff map_idI cong: map_cong)
  next
    case False
    have "map ke_ID (map (\<lambda>x. if ke_ID x = i then x\<lparr>ke_KeyHash := hh, ke_HashVersion := v\<rparr> else x) t)
        = map ke_ID t"
      by (induction t) auto
    with False wf distinct_map_update_one [of t i hh v] show ?thesis
      by (auto simp: sql_set_hash_def pg_wf_def list_ex_iff simp del: map_map)
  qed
qed

interpretation pg: key_backend dg h "\<lambda>t. t" "pg_Lookup dg h" pe_now "\<lambda>env. pe_query env = None" pg_wf
  for dg h
proof (unfold_locales, goal_cases)
  case (1 s env k e r s')
  then obtain e0 where e0: "find (\<lambda>e. ke_KeyHash e \<in> set (candidate_hashes dg h k)) s = Some e0"
      and r: "r = classifyEntry (Some e0) (pe_now env)"
      and e: "e = e0 \<or> (\<exists>t'. maybeRehash dg h env k e0 s = (e, t'))"
    by (auto simp: pg_Lookup_def Let_def split: if_splits option.splits prod.splits)
  from find_SomeD [OF e0] have "e0 \<in> set s" "ke_KeyHash e0 \<in> set (candidate_hashes dg h k)" by auto
  moreover have "same_grant e e0 \<and> ke_KeyHash e \<in> set (candidate_hashes dg h k)"
    using e maybeRehash_entry [of dg h env k e0 s e] HashForStore_candidate [of dg h k] calculation(2)
    by (auto simp: same_grant_def)
  ultimately show ?case using r by blast
next
  case (2 s env k r s')
  then show ?case
    by (auto simp: pg_Lookup_def Let_def find_None_iff split: if_splits option.splits prod.splits)
next
  case (3 s env k res s')
  then show ?case
    using sql_set_hash_grants sql_set_hash_wf
    by (auto simp: pg_Lookup_def maybeRehash_def Let_def split: if_splits option.splits prod.splits)
qed


section \<open>Properties\<close>

definition pg_authenticate ::
  "digests \<Rightarrow> KeyHasher option \<Rightarrow> pg_env \<Rightarrow> pg_table \<Rightarrow> string \<Rightarrow> (goerr + Claims) option" where
  "pg_authenticate dg h env t token =
     Validate dg h (KeyLookupAdapter_Lookup (\<lambda>k. fst (pg_Lookup dg h env t k))) token"

lemma pg_authenticate_eq: "pg_authenticate dg h env t = pg.validate dg h env t"
  by (rule ext) (simp add: pg_authenticate_def pg.validate_def)

text \<open>
  The shared database lets nobody in without a live key: with the Postgres backend,
  too, a token authenticates only through a row that is enabled, unexpired and filed under one
  of its digests, with that row's identity and roles; a database that cannot be reached
  rejects every token.
\<close>

theorem pg_authenticate_sound:
  assumes "pg_wf t"
  shows "(\<forall>c. pg_authenticate dg h env t token = Some (Inr c) \<longrightarrow>
            (\<exists>e \<in> set t. ke_Enabled e \<and> (ke_ExpiresAt e = zeroTime \<or> pe_now env < ke_ExpiresAt e)
                \<and> ke_KeyHash e \<in> set (candidate_hashes dg h token)
                \<and> c = \<lparr>cl_ClientID = ke_ID e, cl_Roles = ke_Roles e\<rparr>))
       \<and> (pe_query env \<noteq> None \<longrightarrow> pg_authenticate dg h env t token = Some (Inl ErrInvalidAPIKey))"
proof -
  have "ke_Enabled e \<and> (ke_ExpiresAt e = zeroTime \<or> pe_now env < ke_ExpiresAt e)"
    if "pg.usable env e" for e
    using that by (auto simp: pg.usable_def classifyEntry_def IsZero_def Before_def split: if_splits)
  moreover have "pg_authenticate dg h env t token = Some (Inl ErrInvalidAPIKey)" if "pe_query env \<noteq> None"
    using that by (simp add: pg_authenticate_def Validate_def KeyLookupAdapter_Lookup_def pg_Lookup_def)
  ultimately show ?thesis
    using pg.validate_sound [OF assms, of dg h env token] by (simp only: pg_authenticate_eq) blast
qed

theorem pg_authenticate_sound_witness:
  "pg_authenticate tag_digests None \<lparr>pe_now = 3, pe_query = Some (Ext NetError ''down''), pe_exec = None\<rparr>
     [bob_entry] ''bobkey'' = Some (Inl ErrInvalidAPIKey)"
  using pg_authenticate_sound [of "[bob_entry]" tag_digests None
      "\<lparr>pe_now = 3, pe_query = Some (Ext NetError ''down''), pe_exec = None\<rparr>" "''bobkey''"]
  by (simp add: pg_wf_def)

lemma rehash_row:
  assumes wf: "pg_wf (xs @ [e])"
    and only: "\<forall>x \<in> set xs. ke_KeyHash x \<notin> set (candidate_hashes dg h k)"
    and ce: "ke_KeyHash e \<in> set (candidate_hashes dg h k)"
    and env: "pe_query env = None" "pe_exec env = None"
    and ok: "classifyEntry (Some e) (pe_now env) = RejectNone"
  shows "snd (pg_Lookup dg h env (xs @ [e]) k) =
     xs @ [e\<lparr>ke_KeyHash := fst (HashForStore dg h k), ke_HashVersion := snd (HashForStore dg h k)\<rparr>]"
proof -
  have f: "find (\<lambda>x. ke_KeyHash x \<in> set (candidate_hashes dg h k)) (xs @ [e]) = Some e"
    using only ce by (simp add: find_append_case find_None_iff split: option.split)
      (metis find_SomeD)
  have ids: "\<forall>x \<in> set xs. ke_ID x \<noteq> ke_ID e" using wf by (auto simp: pg_wf_def image_iff)
  obtain ah av where a: "HashForStore dg h k = (ah, av)" by fastforce
  then have "ah \<in> set (candidate_hashes dg h k)" using HashForStore_candidate [of dg h k] by simp
  then have "\<not> list_ex (\<lambda>x. ke_ID x \<noteq> ke_ID e \<and> ke_KeyHash x = ah) (xs @ [e])"
    using only by (auto simp: list_ex_iff)
  then have u: "snd (sql_set_hash (ke_ID e) ah av (xs @ [e]))
      = xs @ [e\<lparr>ke_KeyHash := ah, ke_HashVersion := av\<rparr>]"
    using ids by (simp add: sql_set_hash_def map_idI)
  have "e = e\<lparr>ke_KeyHash := ah, ke_HashVersion := av\<rparr>" if "ke_KeyHash e = ah" "ke_HashVersion e = av"
    using that by simp
  with f a u env ok show ?thesis
    by (auto simp: pg_Lookup_def maybeRehash_def Let_def split: if_splits)
qed

text \<open>
  Claim C40 (keys in use survive pepper rotations). Let a key be stored under pepper \<open>a\<close> and be
  used once while \<open>b\<close> is active and \<open>a\<close> is the previous pepper. The lookup rewrites the row to
  pepper \<open>b\<close>, so the key still authenticates after the next rotation to \<open>c\<close> with \<open>b\<close> as the
  previous pepper, for the same client and roles, which the file-backed store cannot do.
\<close>

theorem pg_rotation_survives_use:
  assumes wf: "pg_wf (xs @ [e])" and p: "a \<noteq> []" "b \<noteq> []" "c \<noteq> []"
    and e: "ke_KeyHash e = hashKeyHMAC dg a token"
    and only: "\<forall>x \<in> set xs. ke_KeyHash x \<notin> {HashKey dg token, hashKeyHMAC dg a token,
                 hashKeyHMAC dg b token, hashKeyHMAC dg c token}"
    and env: "pe_query env = None" "pe_exec env = None" "pe_query env' = None"
    and ok: "classifyEntry (Some e) (pe_now env) = RejectNone"
    and ok': "classifyEntry (Some e) (pe_now env') = RejectNone"
  shows "pg_authenticate dg (Some (NewKeyHasher c b)) env'
           (snd (pg_Lookup dg (Some (NewKeyHasher b a)) env (xs @ [e]) token)) token
       = Some (Inr \<lparr>cl_ClientID = ke_ID e, cl_Roles = ke_Roles e\<rparr>)"
proof -
  let ?h = "Some (NewKeyHasher b a)" and ?h' = "Some (NewKeyHasher c b)"
  have c: "set (candidate_hashes dg ?h token) = {HashKey dg token, hashKeyHMAC dg b token, hashKeyHMAC dg a token}"
      "set (candidate_hashes dg ?h' token) = {HashKey dg token, hashKeyHMAC dg c token, hashKeyHMAC dg b token}"
    using p by (auto simp: candidate_hashes_def Candidates_def NewKeyHasher_def Let_def)
  let ?e = "e\<lparr>ke_KeyHash := hashKeyHMAC dg b token, ke_HashVersion := 1\<rparr>"
  have st: "HashForStore dg ?h token = (hashKeyHMAC dg b token, 1)"
    using p by (simp add: HashForStore_def NewKeyHasher_def)
  have t': "snd (pg_Lookup dg ?h env (xs @ [e]) token) = xs @ [?e]"
    using rehash_row [OF wf, of dg ?h token env] only c(1) e env ok st by simp
  have wf': "pg_wf (xs @ [?e])"
    using pg.keeps [OF wf, of dg ?h env token] t' by (metis prod.collapse)
  have "classifyEntry (Some ?e) (pe_now env') = RejectNone"
    using ok' by (auto simp: classifyEntry_def split: if_splits)
  then show ?thesis
    using pg.validate_complete [OF wf', of env' ?e dg ?h' token] only c(2) env(3)
    by (simp add: t' pg_authenticate_eq)
qed

theorem pg_rotation_survives_use_witness:
  "pg_authenticate tag_digests (Some (NewKeyHasher ''C'' ''B'')) \<lparr>pe_now = 9, pe_query = None, pe_exec = None\<rparr>
     (snd (pg_Lookup tag_digests (Some (NewKeyHasher ''B'' ''A'')) \<lparr>pe_now = 3, pe_query = None, pe_exec = None\<rparr>
        ([] @ [rotated_entry]) ''evekey'')) ''evekey''
     = Some (Inr \<lparr>cl_ClientID = ke_ID rotated_entry, cl_Roles = ke_Roles rotated_entry\<rparr>)"
  by (rule pg_rotation_survives_use)
     (simp_all add: pg_wf_def rotated_entry_def HashForStore_def NewKeyHasher_def classifyEntry_def
        NewKeyEntryWithHasher_def IsZero_def)

end
