(* ===== verification/Pending_Keys.thy ===== *)
theory Pending_Keys
  imports Key_Store
begin

text \<open>
  The review queue of self-serve key requests (\<^verbatim>\<open>internal/mcp/keys_pending.go\<close>). Each method
  holds the store's lock throughout, so it is one state transformer on the items and the file
  system; whatever the interleaving of concurrent callers, what happens is a sequence of these
  transformers. Identifiers and clock readings are arguments.
\<close>

definition PendingStatusPending :: string where "PendingStatusPending = ''pending''"
definition PendingStatusApproved :: string where "PendingStatusApproved = ''approved''"
definition PendingStatusRejected :: string where "PendingStatusRejected = ''rejected''"

lemmas status_defs = PendingStatusPending_def PendingStatusApproved_def PendingStatusRejected_def

definition ErrPendingNotFound :: goerr where
  "ErrPendingNotFound = PkgErr ''mcp.ErrPendingNotFound'' ''pending key request not found''"

definition ErrPendingNotPending :: goerr where
  "ErrPendingNotPending =
     PkgErr ''mcp.ErrPendingNotPending'' ''pending key request is not in 'pending' status''"

definition ErrPendingEmptyPath :: goerr where
  "ErrPendingEmptyPath = PkgErr ''mcp.ErrPendingEmptyPath'' ''pending key store: empty path''"

definition ErrPendingInvalidStatus :: goerr where
  "ErrPendingInvalidStatus = PkgErr ''mcp.ErrPendingInvalidStatus'' ''invalid decision status''"

record PendingKeyRequest =
  pk_ID :: string
  pk_Email :: string
  pk_Company :: string
  pk_IntendedUse :: string
  pk_Status :: string
  pk_CreatedAt :: time
  pk_DecidedAt :: "time option"
  pk_DeciderID :: string
  pk_KeyID :: string
  pk_RemoteAddr :: string

record 'd pending_codec =
  pMarshal :: "PendingKeyRequest list \<Rightarrow> 'd"
  pUnmarshal :: "'d \<Rightarrow> goerr + PendingKeyRequest list"
  pEmptyFile :: 'd

record PendingKeyStore =
  ps_path :: string
  ps_items :: "PendingKeyRequest list"

definition NewPendingKeyStore ::
  "'d pending_codec \<Rightarrow> 'd io \<Rightarrow> string \<Rightarrow> 'd fsys \<Rightarrow> goerr + PendingKeyStore" where
  "NewPendingKeyStore cd io path fs =
     (if path = '''' then Inl ErrPendingEmptyPath
      else case io_fail io ReadKeys of
             Some err \<Rightarrow>
               if Is err ErrNotExist then Inr \<lparr>ps_path = path, ps_items = []\<rparr>
               else Inl (wrapf ''read pending keys file'' err)
           | None \<Rightarrow>
               (case fs path of
                  None \<Rightarrow> Inr \<lparr>ps_path = path, ps_items = []\<rparr>
                | Some data \<Rightarrow>
                    if data = pEmptyFile cd then Inr \<lparr>ps_path = path, ps_items = []\<rparr>
                    else (case pUnmarshal cd data of
                            Inl err \<Rightarrow> Inl (wrapf ''parse pending keys file'' err)
                          | Inr es \<Rightarrow> Inr \<lparr>ps_path = path, ps_items = es\<rparr>)))"

text \<open>
  \<open>writePendingAtomic\<close> is the near-duplicate of \<open>writeKeysAtomic\<close>; like it, it returns the
  error and the states the file system passes through.
\<close>

definition writePendingAtomic ::
  "'d pending_codec \<Rightarrow> 'd io \<Rightarrow> string \<Rightarrow> 'd \<Rightarrow> 'd fsys \<Rightarrow> goerr option \<times> 'd fsys list" where
  "writePendingAtomic cd io path data fs =
     (let tmp = io_tmpPath io;
          fs1 = fs(tmp \<mapsto> pEmptyFile cd);
          fs2 = fs1(tmp \<mapsto> data);
          drop_tmp = (\<lambda>f. f(tmp := None))
      in case io_fail io CreateTemp of
           Some err \<Rightarrow> (Some (wrapf ''create temp pending file'' err), [fs])
         | None \<Rightarrow>
             (case io_fail io Chmod of
                Some err \<Rightarrow> (Some (wrapf ''chmod temp pending file'' err), [fs, fs1, drop_tmp fs1])
              | None \<Rightarrow>
                  (case io_fail io WriteTmp of
                     Some err \<Rightarrow>
                       (let fsp = fs1(tmp \<mapsto> io_partial io)
                        in (Some (wrapf ''write temp pending file'' err), [fs, fs1, fsp, drop_tmp fsp]))
                   | None \<Rightarrow>
                       (case io_fail io Sync of
                          Some err \<Rightarrow>
                            (Some (wrapf ''fsync temp pending file'' err), [fs, fs1, fs2, drop_tmp fs2])
                        | None \<Rightarrow>
                            (case io_fail io CloseTmp of
                               Some err \<Rightarrow>
                                 (Some (wrapf ''close temp pending file'' err), [fs, fs1, fs2, drop_tmp fs2])
                             | None \<Rightarrow>
                                 (case io_fail io Rename of
                                    Some err \<Rightarrow>
                                      (Some (wrapf ''rename temp pending file'' err), [fs, fs1, fs2, drop_tmp fs2])
                                  | None \<Rightarrow> (None, [fs, fs1, fs2, (drop_tmp fs2)(path \<mapsto> data)])))))))"

definition pending_save ::
  "'d pending_codec \<Rightarrow> 'd io \<Rightarrow> string \<Rightarrow> PendingKeyRequest list \<Rightarrow> 'd fsys
     \<Rightarrow> goerr option \<times> 'd fsys list" where
  "pending_save cd io path snapshot fs =
     withExclusiveLock io fs path (writePendingAtomic cd io path (pMarshal cd snapshot) fs)"

text \<open>The file-system arguments of a method, and its result with the states it leaves.\<close>

definition Pending_Add ::
  "'d pending_codec \<Rightarrow> 'd io \<Rightarrow> string \<Rightarrow> time \<Rightarrow> string \<Rightarrow> string \<Rightarrow> string \<Rightarrow> string
     \<Rightarrow> PendingKeyStore \<Rightarrow> 'd fsys \<Rightarrow> (goerr + PendingKeyRequest) \<times> PendingKeyStore \<times> 'd fsys" where
  "Pending_Add cd io uuid now email company intendedUse remoteAddr s fs =
     (let req = \<lparr>pk_ID = uuid, pk_Email = email, pk_Company = company, pk_IntendedUse = intendedUse,
                 pk_Status = PendingStatusPending, pk_CreatedAt = now, pk_DecidedAt = None,
                 pk_DeciderID = '''', pk_KeyID = '''', pk_RemoteAddr = remoteAddr\<rparr>;
          items = ps_items s @ [req]
      in case pending_save cd io (ps_path s) items fs of
           (Some err, sts) \<Rightarrow> (Inl err, s\<lparr>ps_items := take (length items - 1) items\<rparr>, last sts)
         | (None, sts) \<Rightarrow> (Inr req, s\<lparr>ps_items := items\<rparr>, last sts))"

definition Pending_Get :: "string \<Rightarrow> PendingKeyStore \<Rightarrow> PendingKeyRequest option" where
  "Pending_Get rid s = find (\<lambda>r. pk_ID r = rid) (ps_items s)"

definition Pending_List :: "PendingKeyStore \<Rightarrow> PendingKeyRequest list" where
  "Pending_List s = ps_items s"

definition CountByStatus :: "PendingKeyStore \<Rightarrow> string \<Rightarrow> nat option" where
  "CountByStatus s =
     foldl (\<lambda>c r. c(pk_Status r \<mapsto> (case c (pk_Status r) of None \<Rightarrow> 1 | Some n \<Rightarrow> n + 1)))
       [PendingStatusPending \<mapsto> 0, PendingStatusApproved \<mapsto> 0, PendingStatusRejected \<mapsto> 0] (ps_items s)"

definition Decide ::
  "(string \<Rightarrow> string) \<Rightarrow> 'd pending_codec \<Rightarrow> 'd io \<Rightarrow> time \<Rightarrow> string \<Rightarrow> string \<Rightarrow> string \<Rightarrow> string
     \<Rightarrow> PendingKeyStore \<Rightarrow> 'd fsys \<Rightarrow> (goerr + PendingKeyRequest) \<times> PendingKeyStore \<times> 'd fsys" where
  "Decide uq cd io now rid st deciderID keyID s fs =
     (if st \<noteq> PendingStatusApproved \<and> st \<noteq> PendingStatusRejected then
        (Inl (Errorf (Error ErrPendingInvalidStatus @ '' '' @ Quote uq st @ '' (want '' @
                Quote uq PendingStatusApproved @ '' or '' @ Quote uq PendingStatusRejected @ '')'')
                [ErrPendingInvalidStatus]), s, fs)
      else case index_of (\<lambda>r. pk_ID r = rid) (ps_items s) of
             None \<Rightarrow> (Inl ErrPendingNotFound, s, fs)
           | Some idx \<Rightarrow>
               let prev = ps_items s ! idx in
               if pk_Status prev \<noteq> PendingStatusPending then (Inl ErrPendingNotPending, s, fs)
               else
                 let upd = prev\<lparr>pk_Status := st, pk_DecidedAt := Some now, pk_DeciderID := deciderID,
                                pk_KeyID := (if st = PendingStatusApproved then keyID else pk_KeyID prev)\<rparr>;
                     items = (ps_items s)[idx := upd]
                 in (case pending_save cd io (ps_path s) items fs of
                       (Some err, sts) \<Rightarrow> (Inl err, s\<lparr>ps_items := items[idx := prev]\<rparr>, last sts)
                     | (None, sts) \<Rightarrow> (Inr (items ! idx), s\<lparr>ps_items := items\<rparr>, last sts)))"

section \<open>Failed saves leave no trace\<close>

lemma Pending_Add_Inl:
  "Pending_Add cd io uuid now em co iu ra s fs = (Inl e, s', fs') \<Longrightarrow> s' = s"
  by (auto simp: Pending_Add_def Let_def split: prod.splits option.splits)

lemma Pending_Add_Inr:
  "Pending_Add cd io uuid now em co iu ra s fs = (Inr r, s', fs') \<Longrightarrow>
     s' = s\<lparr>ps_items := ps_items s @ [r]\<rparr> \<and> pk_ID r = uuid \<and> pk_Status r = PendingStatusPending
     \<and> pk_Email r = em \<and> pk_Company r = co \<and> pk_IntendedUse r = iu"
  by (auto simp: Pending_Add_def Let_def split: prod.splits option.splits)

lemma Decide_Inl:
  "Decide uq cd io now rid st d k s fs = (Inl e, s', fs') \<Longrightarrow> s' = s"
  by (auto simp: Decide_def Let_def dest: index_of_SomeD split: if_splits prod.splits option.splits)

lemma Decide_Inr:
  assumes "Decide uq cd io now rid st d k s fs = (Inr r, s', fs')"
  shows "st = PendingStatusApproved \<or> st = PendingStatusRejected"
    and "\<exists>idx. index_of (\<lambda>r. pk_ID r = rid) (ps_items s) = Some idx
           \<and> pk_Status (ps_items s ! idx) = PendingStatusPending
           \<and> r = (ps_items s ! idx)\<lparr>pk_Status := st, pk_DecidedAt := Some now, pk_DeciderID := d,
                    pk_KeyID := (if st = PendingStatusApproved then k else pk_KeyID (ps_items s ! idx))\<rparr>
           \<and> s' = s\<lparr>ps_items := (ps_items s)[idx := r]\<rparr>"
  using assms
  by (auto simp: Decide_def Let_def dest: index_of_SomeD split: if_splits prod.splits option.splits)


section \<open>Sequences of calls\<close>

datatype 'd pending_op =
    OpAdd "'d io" string time string string string string
  | OpDecide "'d io" time string string string string

fun pending_step ::
  "(string \<Rightarrow> string) \<Rightarrow> 'd pending_codec \<Rightarrow> 'd pending_op \<Rightarrow> PendingKeyStore \<times> 'd fsys
     \<Rightarrow> (goerr + PendingKeyRequest) \<times> PendingKeyStore \<times> 'd fsys" where
  "pending_step uq cd (OpAdd io uuid now em co iu ra) (s, fs) = Pending_Add cd io uuid now em co iu ra s fs"
| "pending_step uq cd (OpDecide io now rid st d k) (s, fs) = Decide uq cd io now rid st d k s fs"

fun decides :: "string \<Rightarrow> 'd pending_op \<Rightarrow> bool" where
  "decides rid (OpDecide io now rid' st d k) = (rid' = rid)"
| "decides rid (OpAdd io uuid now em co iu ra) = False"

fun decisions ::
  "(string \<Rightarrow> string) \<Rightarrow> 'd pending_codec \<Rightarrow> string \<Rightarrow> 'd pending_op list \<Rightarrow> PendingKeyStore \<times> 'd fsys \<Rightarrow> nat" where
  "decisions uq cd rid [] st = 0"
| "decisions uq cd rid (op # ops) st =
     (case pending_step uq cd op st of (res, st') \<Rightarrow>
        (if \<not> isl res \<and> decides rid op then 1 else 0) + decisions uq cd rid ops st')"

definition undecided :: "string \<Rightarrow> PendingKeyStore \<Rightarrow> bool" where
  "undecided rid s =
     (case Pending_Get rid s of None \<Rightarrow> True | Some r \<Rightarrow> pk_Status r = PendingStatusPending)"

lemma find_index: "find P xs = (case index_of P xs of None \<Rightarrow> None | Some i \<Rightarrow> Some (xs ! i))"
  by (induction xs) (auto split: option.split)

lemma find_update:
  "index_of P xs = Some i \<Longrightarrow> P y \<Longrightarrow> find P (xs[i := y]) = Some y"
  by (induction xs arbitrary: i) (auto split: if_splits)

lemma find_update_other:
  "i < length xs \<Longrightarrow> \<not> P (xs ! i) \<Longrightarrow> \<not> P y \<Longrightarrow> find P (xs[i := y]) = find P xs"
proof (induction xs arbitrary: i)
  case (Cons x xs)
  then show ?case by (cases i) auto
qed simp

lemma undecided_Add:
  assumes "Pending_Add cd io uuid now em co iu ra s fs = (r, s', fs')"
  shows "undecided rid s' = undecided rid s"
proof (cases r)
  case (Inl e)
  with assms Pending_Add_Inl show ?thesis by blast
next
  case (Inr q)
  with Pending_Add_Inr [of cd io uuid now em co iu ra s fs q s' fs'] assms show ?thesis
    by (auto simp: undecided_def Pending_Get_def find_append_case split: option.split)
qed

lemma undecided_Decide:
  assumes "Decide uq cd io now rid' st d k s fs = (Inr r, s', fs')"
  shows "undecided rid s' = (rid \<noteq> rid' \<and> undecided rid s) \<and> (rid = rid' \<longrightarrow> undecided rid s)"
proof -
  from Decide_Inr(2) [OF assms] obtain idx where i: "index_of (\<lambda>r. pk_ID r = rid') (ps_items s) = Some idx"
    "pk_Status (ps_items s ! idx) = PendingStatusPending" "pk_ID r = pk_ID (ps_items s ! idx)" "pk_Status r = st"
    "s' = s\<lparr>ps_items := (ps_items s)[idx := r]\<rparr>" by auto
  from index_of_SomeD [OF i(1)] have len: "idx < length (ps_items s)" and ID: "pk_ID (ps_items s ! idx) = rid'"
    by simp_all
  have st: "st \<noteq> PendingStatusPending"
    using Decide_Inr(1) [OF assms] by (auto simp: status_defs)
  show ?thesis
  proof (cases "rid = rid'")
    case True
    have "find (\<lambda>r. pk_ID r = rid') (ps_items s) = Some (ps_items s ! idx)"
      using i(1) by (simp add: find_index)
    moreover have "find (\<lambda>r. pk_ID r = rid') ((ps_items s)[idx := r]) = Some r"
      using i(1,3) ID by (simp add: find_update)
    ultimately show ?thesis using i(2,4,5) st True by (simp add: undecided_def Pending_Get_def)
  next
    case False
    with i ID len show ?thesis by (simp add: undecided_def Pending_Get_def find_update_other)
  qed
qed

section \<open>Properties\<close>

text \<open>
  Claim C24 (a request is decided at most once). Whatever calls are made, by however many
  administrators, and whichever of their saves fail, at most one decision on a request
  succeeds, and none when the request was already decided: nobody is sent two verdicts.
\<close>

theorem decided_at_most_once:
  "decisions uq cd rid ops (s, fs) \<le> (if undecided rid s then 1 else 0)"
proof (induction ops arbitrary: s fs)
  case (Cons op ops)
  show ?case
  proof (cases op)
    case (OpAdd io uuid now em co iu ra)
    obtain r s' fs' where a: "Pending_Add cd io uuid now em co iu ra s fs = (r, s', fs')"
      by (metis prod_cases3)
    from Cons.IH [of s' fs'] undecided_Add [OF a, of rid] show ?thesis by (simp add: OpAdd a)
  next
    case (OpDecide io now rid' st d k)
    obtain r s' fs' where a: "Decide uq cd io now rid' st d k s fs = (r, s', fs')" by (metis prod_cases3)
    show ?thesis
    proof (cases r)
      case (Inl e)
      with a Decide_Inl have "s' = s" by blast
      with Cons.IH [of s' fs'] show ?thesis by (simp add: OpDecide a Inl)
    next
      case (Inr q)
      with a have "Decide uq cd io now rid' st d k s fs = (Inr q, s', fs')" by simp
      from undecided_Decide [OF this, of rid] Cons.IH [of s' fs'] show ?thesis
        by (auto simp: OpDecide a Inr split: if_splits)
    qed
  qed
qed simp

lemma writePendingAtomic_None:
  "writePendingAtomic cd io path data fs = (None, sts) \<Longrightarrow> last sts path = Some data"
  by (auto simp: writePendingAtomic_def Let_def split: option.splits)

lemma pending_save_None:
  "pending_save cd io path items fs = (None, sts) \<Longrightarrow> last sts path = Some (pMarshal cd items)"
  by (auto simp: pending_save_def withExclusiveLock_def dest: writePendingAtomic_None
      split: if_splits option.splits)

lemma step_saved:
  assumes "pending_step uq cd op (s, fs) = (Inr r, s', fs')"
  shows "fs' (ps_path s) = Some (pMarshal cd (ps_items s')) \<and> ps_path s' = ps_path s"
  using assms
  by (cases op) (auto simp: Pending_Add_def Decide_def Let_def dest: pending_save_None
      split: if_splits prod.splits option.splits)

text \<open>
  One store object is durable. Once a call on the queue has succeeded, the file holds the
  queue of that object: reopening the store, after a restart or a crash, yields exactly its items
  in memory. A call that fails leaves them as they were. The server opens two objects on
  the same file; what that does is the subject of theory \<open>Boot\<close>.
\<close>

theorem pending_queue_durable:
  assumes "\<forall>items. pUnmarshal cd (pMarshal cd items) = Inr items \<and> pMarshal cd items \<noteq> pEmptyFile cd"
    and "ps_path s \<noteq> ''''" and "io_fail io ReadKeys = None"
    and "pending_step uq cd op (s, fs) = (res, s', fs')"
  shows "case res of Inr r \<Rightarrow> NewPendingKeyStore cd io (ps_path s) fs' = Inr s' | Inl e \<Rightarrow> s' = s"
proof (cases res)
  case (Inr r)
  with step_saved [of uq cd op s fs r s' fs'] assms show ?thesis by (simp add: NewPendingKeyStore_def)
next
  case (Inl e)
  with assms(4) show ?thesis by (cases op) (auto dest: Pending_Add_Inl Decide_Inl)
qed

definition plain_pending :: "PendingKeyRequest list option pending_codec" where
  "plain_pending =
     \<lparr>pMarshal = Some, pUnmarshal = (\<lambda>d. case d of None \<Rightarrow> Inl ErrNotExist | Some x \<Rightarrow> Inr x), pEmptyFile = None\<rparr>"

definition steady_io :: "'a option io" where
  "steady_io = \<lparr>io_fail = (\<lambda>_. None), io_tmpPath = ''q.json.tmp-1'', io_partial = None\<rparr>"

definition empty_queue :: PendingKeyStore where
  "empty_queue = \<lparr>ps_path = ''q.json'', ps_items = []\<rparr>"

theorem pending_queue_durable_witness:
  "\<exists>s' fs'. pending_step id plain_pending (OpAdd steady_io ''u1'' 5 ''a@b'' '''' ''x'' ''ip'') (empty_queue, \<lambda>_. None)
      = (Inr (hd (ps_items s')), s', fs')
    \<and> NewPendingKeyStore plain_pending steady_io ''q.json'' fs' = Inr s'"
proof -
  obtain res s' fs' where r: "pending_step id plain_pending
      (OpAdd steady_io ''u1'' 5 ''a@b'' '''' ''x'' ''ip'') (empty_queue, \<lambda>_. None) = (res, s', fs')"
    by (metis prod_cases3)
  then have ok: "res = Inr (hd (ps_items s'))"
    by (auto simp: Pending_Add_def pending_save_def withExclusiveLock_def writePendingAtomic_def
        empty_queue_def plain_pending_def steady_io_def Let_def)
  have c: "\<forall>items. pUnmarshal plain_pending (pMarshal plain_pending items) = Inr items
        \<and> pMarshal plain_pending items \<noteq> pEmptyFile plain_pending"
    by (simp add: plain_pending_def)
  have "ps_path empty_queue \<noteq> ''''" "io_fail steady_io ReadKeys = None"
    by (simp_all add: empty_queue_def steady_io_def)
  from pending_queue_durable [OF c this r] ok have "NewPendingKeyStore plain_pending steady_io ''q.json'' fs' = Inr s'"
    by (simp add: empty_queue_def)
  with r ok show ?thesis by blast
qed

end
