(* ===== verification/Client_IP.thy ===== *)
theory Client_IP
  imports Prelude
begin

text \<open>
  Derivation of the source address of a request (\<^verbatim>\<open>clientIP\<close>, \<^verbatim>\<open>remoteHost\<close>,
  \<^verbatim>\<open>parseXFF\<close>, \<^verbatim>\<open>indexByte\<close> and \<^verbatim>\<open>trimSpace\<close> of \<^verbatim>\<open>internal/mcp/failrate.go\<close>),
  on which every per-address limit of the server is keyed. The main result is that a caller
  behind the configured number of trusted proxies cannot influence the derived address by
  sending an \<^verbatim>\<open>X-Forwarded-For\<close> header of its own.

  \<open>Header\<close> is \<^verbatim>\<open>http.Header.Get\<close>: the first value of a header, the empty string when the
  header is absent.
\<close>

record Request =
  Method :: string
  Path :: string
  RemoteAddr :: string
  Header :: "string \<Rightarrow> string"

section \<open>Definitions\<close>

definition indexByte :: "string \<Rightarrow> char \<Rightarrow> int" where
  "indexByte s b = (case index_of (\<lambda>c. c = b) s of None \<Rightarrow> -1 | Some i \<Rightarrow> int i)"

definition blank :: "char \<Rightarrow> bool" where
  "blank c \<longleftrightarrow> c = CHR '' '' \<or> c = CHR 0x09"

text \<open>The two index loops of \<^verbatim>\<open>trimSpace\<close>: skip blanks from the left, then from the right.\<close>

definition trimSpace :: "string \<Rightarrow> string" where
  "trimSpace s = rev (dropWhile blank (rev (dropWhile blank s)))"

function parseXFF_loop :: "string \<Rightarrow> string list \<Rightarrow> string list" where
  "parseXFF_loop xff out =
     (if xff = '''' then out
      else
        let i = indexByte xff (CHR '','');
            part = (if i < 0 then xff else take (nat i) xff);
            rest = (if i < 0 then '''' else drop (nat i + 1) xff);
            p = trimSpace part
        in parseXFF_loop rest (if p \<noteq> '''' then out @ [p] else out))"
  by pat_completeness auto
termination
  by (relation "measure (\<lambda>(xff, out). length xff)") (auto simp flip: length_greater_0_conv)

declare parseXFF_loop.simps [simp del]

definition parseXFF :: "string \<Rightarrow> string list" where
  "parseXFF xff = (if xff = '''' then [] else parseXFF_loop xff [])"

text \<open>
  \<^verbatim>\<open>net.SplitHostPort\<close> of the Go library, without the port: \<open>None\<close> is its error. The port
  starts after the last colon; an address that opens with a bracket must close it right
  before that colon, and any other bracket or colon is an error.
\<close>

definition lastIndexByte :: "string \<Rightarrow> char \<Rightarrow> nat option" where
  "lastIndexByte s b =
     map_option (\<lambda>i. length s - 1 - i) (index_of (\<lambda>c. c = b) (rev s))"

definition SplitHostPort :: "string \<Rightarrow> string option" where
  "SplitHostPort hp =
     (case lastIndexByte hp (CHR '':'') of
        None \<Rightarrow> None
      | Some i \<Rightarrow>
          if take 1 hp = ''['' then
            (case index_of (\<lambda>c. c = CHR '']'') hp of
               None \<Rightarrow> None
             | Some e \<Rightarrow>
                 if e + 1 = i \<and> CHR ''['' \<notin> set (drop 1 hp) \<and> CHR '']'' \<notin> set (drop (e + 1) hp)
                 then Some (take (e - 1) (drop 1 hp)) else None)
          else
            (let host = take i hp
             in if CHR '':'' \<in> set host \<or> CHR ''['' \<in> set hp \<or> CHR '']'' \<in> set hp
                then None else Some host))"

definition remoteHost :: "string \<Rightarrow> string" where
  "remoteHost remoteAddr =
     (case SplitHostPort remoteAddr of None \<Rightarrow> remoteAddr | Some host \<Rightarrow> host)"

definition clientIP :: "Request \<Rightarrow> bool \<Rightarrow> int \<Rightarrow> string" where
  "clientIP r trustProxy hops =
     (let remote = remoteHost (RemoteAddr r) in
      if \<not> trustProxy then remote
      else
        let seq = parseXFF (Header r ''X-Forwarded-For'') @ [remote];
            idx = int (length seq) - hops - 1
        in if idx < 0 \<or> int (length seq) \<le> idx then remote else seq ! nat idx)"

section \<open>Parsing of the forwarded chain\<close>

lemma parseXFF_loop_out: "parseXFF_loop xff out = out @ parseXFF_loop xff []"
proof (induction "length xff" arbitrary: xff out rule: less_induct)
  case less
  show ?case
  proof (cases "xff = []")
    case True
    then show ?thesis by (simp add: parseXFF_loop.simps)
  next
    case False
    let ?i = "indexByte xff (CHR '','')"
    let ?part = "if ?i < 0 then xff else take (nat ?i) xff"
    let ?rest = "if ?i < 0 then [] else drop (nat ?i + 1) xff"
    let ?p = "if trimSpace ?part \<noteq> [] then [trimSpace ?part] else []"
    have step: "parseXFF_loop xff o' = parseXFF_loop ?rest (o' @ ?p)" for o'
      using False by (subst parseXFF_loop.simps) (simp add: Let_def)
    have "length ?rest < length xff" using False by (cases xff) auto
    then have rest: "parseXFF_loop ?rest o' = o' @ parseXFF_loop ?rest []" for o'
      by (rule less)
    show ?thesis unfolding step [of out] step [of "[]"] rest [of "out @ ?p"] rest [of "[] @ ?p"]
      by simp
  qed
qed

lemma parseXFF_eq_loop: "parseXFF xff = parseXFF_loop xff []"
  by (simp add: parseXFF_def parseXFF_loop.simps)

definition xff_part :: "string \<Rightarrow> string list" where
  "xff_part s = (if trimSpace s = '''' then [] else [trimSpace s])"

lemma trimSpace_Nil [simp]: "trimSpace '''' = ''''"
  by (simp add: trimSpace_def)

lemma parseXFF_no_comma: "CHR '','' \<notin> set s \<Longrightarrow> parseXFF s = xff_part s"
proof -
  assume "CHR '','' \<notin> set s"
  then have "index_of (\<lambda>c. c = CHR '','') s = None" by (auto simp: index_of_None)
  then have "indexByte s (CHR '','') = -1" by (simp add: indexByte_def)
  then show ?thesis
    by (subst parseXFF_eq_loop, subst parseXFF_loop.simps)
       (simp add: Let_def xff_part_def parseXFF_loop.simps [of "''''"])
qed

lemma index_of_append_hit:
  "\<forall>x \<in> set xs. \<not> P x \<Longrightarrow> P y \<Longrightarrow> index_of P (xs @ y # ys) = Some (length xs)"
  by (induction xs) auto

lemma parseXFF_split:
  assumes "CHR '','' \<notin> set a"
  shows "parseXFF (a @ CHR '','' # b) = xff_part a @ parseXFF b"
proof -
  have i: "indexByte (a @ CHR '','' # b) (CHR '','') = int (length a)"
  proof -
    have "\<forall>x \<in> set a. \<not> x = CHR '',''" using assms by auto
    then have "index_of (\<lambda>c. c = CHR '','') (a @ CHR '','' # b) = Some (length a)"
      by (rule index_of_append_hit) simp
    then show ?thesis by (simp add: indexByte_def)
  qed
  have "parseXFF (a @ CHR '','' # b) = parseXFF_loop b (xff_part a)"
    by (subst parseXFF_eq_loop, subst parseXFF_loop.simps)
       (simp add: Let_def i xff_part_def)
  then show ?thesis
    by (subst parseXFF_eq_loop [of b]) (simp add: parseXFF_loop_out [of b "xff_part a"])
qed

text \<open>The parts before and after any comma are parsed independently.\<close>

lemma parseXFF_append: "parseXFF (a @ CHR '','' # b) = parseXFF a @ parseXFF b"
proof (induction "length a" arbitrary: a rule: less_induct)
  case less
  show ?case
  proof (cases "CHR '','' \<in> set a")
    case False
    then show ?thesis by (simp add: parseXFF_split parseXFF_no_comma)
  next
    case True
    then obtain u v where uv: "a = u @ CHR '','' # v" "CHR '','' \<notin> set u"
      by (meson split_list_first)
    then have "parseXFF (v @ CHR '','' # b) = parseXFF v @ parseXFF b"
      by (intro less) simp
    with uv show ?thesis by (simp add: parseXFF_split)
  qed
qed

section \<open>Trusted proxies\<close>

text \<open>
  Each proxy of the trusted chain appends the address of its own peer to the header it
  received; an address is a non-empty string without comma or surrounding blanks.
\<close>

definition append_hop :: "string \<Rightarrow> string \<Rightarrow> string" where
  "append_hop xff peer = xff @ '', '' @ peer"

definition xff_entry :: "string \<Rightarrow> bool" where
  "xff_entry e \<longleftrightarrow> e \<noteq> '''' \<and> CHR '','' \<notin> set e \<and> trimSpace e = e"

lemma xff_part_entry: "xff_entry e \<Longrightarrow> xff_part (CHR '' '' # e) = [e]"
  by (simp add: xff_entry_def xff_part_def trimSpace_def blank_def)

lemma parseXFF_append_hop: "xff_entry e \<Longrightarrow> parseXFF (append_hop xff e) = parseXFF xff @ [e]"
  using parseXFF_append [of xff "CHR '' '' # e"] xff_part_entry [of e]
  by (simp add: append_hop_def parseXFF_no_comma xff_entry_def)

lemma parseXFF_hops:
  "\<forall>e \<in> set es. xff_entry e \<Longrightarrow> parseXFF (foldl append_hop forged es) = parseXFF forged @ es"
  by (induction es arbitrary: forged) (simp_all add: parseXFF_append_hop)

text \<open>
  Claim C11 (the derived address cannot be forged). Let a caller \<open>c\<close> send any
  \<^verbatim>\<open>X-Forwarded-For\<close> header it likes, and let every trusted proxy append its peer's
  address, so that the trusted chain contributes the entries \<open>c # ps\<close>. With the hop count set
  to the number of those entries, the server derives exactly \<open>c\<close>, whatever was forged.
\<close>

theorem clientIP_unforgeable:
  assumes "\<forall>e \<in> set (c # ps). xff_entry e"
    and "Header r ''X-Forwarded-For'' = foldl append_hop forged (c # ps)"
  shows "clientIP r True (int (length (c # ps))) = c"
proof -
  let ?f = "parseXFF forged"
  have "parseXFF (Header r ''X-Forwarded-For'') = ?f @ c # ps"
    unfolding assms(2) by (rule parseXFF_hops [OF assms(1)])
  then show ?thesis
    by (simp add: clientIP_def Let_def nth_append)
qed

theorem clientIP_unforgeable_witness:
  "clientIP \<lparr>Method = ''POST'', Path = ''/'', RemoteAddr = ''10.0.0.2:443'',
             Header = (\<lambda>_. ''6.6.6.6, 7.7.7.7, 203.0.113.9, 10.0.0.1'')\<rparr> True 2 = ''203.0.113.9''"
proof -
  let ?r = "\<lparr>Method = ''POST'', Path = ''/'', RemoteAddr = ''10.0.0.2:443'',
             Header = (\<lambda>_. ''6.6.6.6, 7.7.7.7, 203.0.113.9, 10.0.0.1'')\<rparr>"
  have "clientIP ?r True (int (length [''203.0.113.9'', ''10.0.0.1''])) = ''203.0.113.9''"
    by (rule clientIP_unforgeable [where forged = "''6.6.6.6, 7.7.7.7''"])
       (simp_all add: append_hop_def xff_entry_def trimSpace_def blank_def)
  then show ?thesis by simp
qed

text \<open>
  Fail-safe fallback: when proxies are not trusted, or when the hop count is
  negative or not covered by the forwarded chain, the address is the host of the socket
  peer; in every case the result is the peer or one of the parsed entries, so no index is
  ever out of range.
\<close>

theorem clientIP_fallback:
  "clientIP r False hops = remoteHost (RemoteAddr r)
   \<and> (hops < 0 \<or> int (length (parseXFF (Header r ''X-Forwarded-For''))) < hops
       \<longrightarrow> clientIP r True hops = remoteHost (RemoteAddr r))
   \<and> clientIP r trust hops
       \<in> insert (remoteHost (RemoteAddr r)) (set (parseXFF (Header r ''X-Forwarded-For'')))"
proof -
  let ?p = "parseXFF (Header r ''X-Forwarded-For'')" and ?h = "remoteHost (RemoteAddr r)"
  have mem: "(?p @ [?h]) ! n \<in> insert ?h (set ?p)" if "n < length (?p @ [?h])" for n
    using nth_mem [OF that] by simp
  show ?thesis
    using mem [of "nat (int (length (?p @ [?h])) - hops - 1)"]
    by (auto simp: clientIP_def Let_def)
qed

theorem clientIP_fallback_witness:
  "clientIP \<lparr>Method = ''POST'', Path = ''/'', RemoteAddr = ''10.0.0.2:443'',
             Header = (\<lambda>_. ''1.2.3.4'')\<rparr> True 7 = ''10.0.0.2''"
proof -
  let ?r = "\<lparr>Method = ''POST'', Path = ''/'', RemoteAddr = ''10.0.0.2:443'',
             Header = (\<lambda>_. ''1.2.3.4'')\<rparr>"
  have "parseXFF ''1.2.3.4'' = [''1.2.3.4'']"
    by (simp add: parseXFF_no_comma xff_part_def trimSpace_def blank_def)
  moreover have "remoteHost ''10.0.0.2:443'' = ''10.0.0.2''"
    by (simp add: remoteHost_def SplitHostPort_def lastIndexByte_def)
  ultimately show ?thesis
    using clientIP_fallback [of ?r 7 True] by simp
qed

end
