(* ===== verification/Bucket_Cache.thy ===== *)
theory Bucket_Cache
  imports Prelude
begin

text \<open>
  The interface of the two bounded caches of token buckets (\<^verbatim>\<open>keyedRateLimiter\<close> and
  \<^verbatim>\<open>IPFailRateLimiter\<close>): the bucket record they share, the scan for the least recently
  used bucket, and the locale \<open>bucket_cache\<close> with the laws both promise. The survival
  lemma (a bucket outlives requests of fewer than capacity-many other keys) is proved once
  inside the locale.

  The token bucket itself is \<^verbatim>\<open>golang.org/x/time/rate\<close>, a third-party package: its three
  operations are the record \<open>rate_ops\<close>, a parameter of the model.
\<close>

record ('r, 'l) rate_ops =
  NewLimiter :: "'r \<Rightarrow> int \<Rightarrow> 'l"
  Allow :: "time \<Rightarrow> 'l \<Rightarrow> bool \<times> 'l"
  TokensGE1 :: "time \<Rightarrow> 'l \<Rightarrow> bool"

record 'l clientBucket =
  cb_limiter :: 'l
  cb_lastUsed :: time

text \<open>The loop of \<^verbatim>\<open>evictLRULocked\<close>: the state is \<open>(oldestKey, oldestAt, first)\<close>.\<close>

fun lru_scan :: "'l clientBucket gomap \<Rightarrow> string \<times> time \<times> bool \<Rightarrow> string \<times> time \<times> bool" where
  "lru_scan [] acc = acc"
| "lru_scan ((k, b) # bs) (oldestKey, oldestAt, first) =
     lru_scan bs (if first \<or> Before (cb_lastUsed b) oldestAt
                  then (k, cb_lastUsed b, False)
                  else (oldestKey, oldestAt, first))"

definition lru_evict :: "'l clientBucket gomap \<Rightarrow> 'l clientBucket gomap" where
  "lru_evict bs =
     (case lru_scan bs ('''', zeroTime, True) of
        (oldestKey, _, _) \<Rightarrow>
          if oldestKey \<noteq> '''' then AList.delete oldestKey bs else bs)"

lemma lru_scan_min:
  "lru_scan bs (k0, t0, False) = (k, t, f) \<Longrightarrow>
     \<not> f \<and> t \<le> t0 \<and> (\<forall>(j, b) \<in> set bs. t \<le> cb_lastUsed b) \<and>
     (k = k0 \<and> t = t0 \<or> (\<exists>b. (k, b) \<in> set bs \<and> cb_lastUsed b = t))"
proof (induction bs arbitrary: k0 t0)
  case (Cons p bs)
  obtain j b where p: "p = (j, b)" by (cases p)
  show ?case
  proof (cases "cb_lastUsed b < t0")
    case True
    with Cons.prems p have "lru_scan bs (j, cb_lastUsed b, False) = (k, t, f)"
      by (simp add: Before_def)
    from Cons.IH [OF this] True p show ?thesis by auto
  next
    case False
    with Cons.prems p have "lru_scan bs (k0, t0, False) = (k, t, f)"
      by (simp add: Before_def)
    from Cons.IH [OF this] False p show ?thesis by auto
  qed
qed simp

lemma lru_scan_oldest:
  assumes "bs \<noteq> []" and "lru_scan bs (k0, t0, True) = (k, t, f)"
  shows "(\<exists>b. (k, b) \<in> set bs \<and> cb_lastUsed b = t) \<and> (\<forall>(j, b) \<in> set bs. t \<le> cb_lastUsed b)"
proof -
  obtain j b bs' where bs: "bs = (j, b) # bs'"
    using assms(1) by (cases bs) auto
  with assms(2) have "lru_scan bs' (j, cb_lastUsed b, False) = (k, t, f)" by simp
  from lru_scan_min [OF this] bs show ?thesis by auto
qed

text \<open>What one eviction does to the map, when no key is the empty string.\<close>

lemma lru_evict_victim:
  assumes "bs \<noteq> []" and dist: "distinct (map fst bs)" and ne: "'''' \<notin> fst ` set bs"
  obtains v bv where "map_of bs v = Some bv"
    and "\<And>j bj. map_of bs j = Some bj \<Longrightarrow> cb_lastUsed bv \<le> cb_lastUsed bj"
    and "lru_evict bs = AList.delete v bs"
proof -
  obtain v t f where sc: "lru_scan bs ('''', zeroTime, True) = (v, t, f)"
    by (cases "lru_scan bs ('''', zeroTime, True)")
  from lru_scan_oldest [OF assms(1) sc] obtain bv where
    bv: "(v, bv) \<in> set bs" "cb_lastUsed bv = t" and
    le: "\<forall>(j, b) \<in> set bs. t \<le> cb_lastUsed b" by blast
  from bv(1) ne have "v \<noteq> ''''" by force
  with sc have "lru_evict bs = AList.delete v bs" by (simp add: lru_evict_def)
  moreover from bv(1) dist have "map_of bs v = Some bv" by simp
  moreover have "cb_lastUsed bv \<le> cb_lastUsed bj" if "map_of bs j = Some bj" for j bj
    using that le bv(2) by (fastforce dest: map_of_SomeD)
  ultimately show ?thesis using that by blast
qed

text \<open>
  The invariant of a cache: one bucket per key, no bucket under the empty key, never more
  buckets than the cap.
\<close>

definition cache_wf :: "int \<Rightarrow> 'l clientBucket gomap \<Rightarrow> bool" where
  "cache_wf cap bs \<longleftrightarrow>
     0 < cap \<and> distinct (map fst bs) \<and> '''' \<notin> fst ` set bs \<and> int (length bs) \<le> cap"

text \<open>
  \<open>survives k b T m\<close>: \<open>k\<close> still has the bucket \<open>b\<close>, and every other bucket belongs to a
  key of \<open>T\<close> or was last used strictly before \<open>b\<close>.
\<close>

definition survives ::
  "string \<Rightarrow> 'l clientBucket \<Rightarrow> string set \<Rightarrow> (string \<rightharpoonup> 'l clientBucket) \<Rightarrow> bool" where
  "survives k b T m \<longleftrightarrow>
     m k = Some b \<and>
     (\<forall>j bj. m j = Some bj \<longrightarrow> j = k \<or> j \<in> T \<or> cb_lastUsed bj < cb_lastUsed b)"

lemma survives_older_exists:
  assumes wf: "cache_wf cap bs" and full: "int (length bs) = cap"
    and surv: "survives k b T (map_of bs)" and fin: "finite T"
    and j: "map_of bs j = None" and card: "int (card (insert j T)) < cap"
  shows "\<exists>i bi. map_of bs i = Some bi \<and> i \<noteq> k \<and> cb_lastUsed bi < cb_lastUsed b"
proof (rule ccontr)
  assume no: "\<not> ?thesis"
  have sub: "fst ` set bs \<subseteq> insert k (T - {j})"
  proof
    fix i assume "i \<in> fst ` set bs"
    then obtain bi where bi: "map_of bs i = Some bi"
      by (cases "map_of bs i") (auto simp: map_of_eq_None_iff)
    with surv no have "i = k \<or> i \<in> T" by (auto simp: survives_def)
    with bi j show "i \<in> insert k (T - {j})" by auto
  qed
  have "length bs = card (fst ` set bs)"
    using wf distinct_card [of "map fst bs"] by (simp add: cache_wf_def)
  also have "\<dots> \<le> card (insert k (T - {j}))"
    using sub fin by (intro card_mono) auto
  also have "\<dots> \<le> Suc (card (T - {j}))"
    using fin by (simp add: card_insert_if)
  also have "\<dots> \<le> card (insert j T)"
    using fin by (simp add: card.insert_remove)
  finally show False using full card by simp
qed

text \<open>The effect of a lookup-or-create on the bucket list, as both limiters code it.\<close>

definition lru_touch ::
  "int \<Rightarrow> 'l \<Rightarrow> time \<Rightarrow> string \<Rightarrow> 'l clientBucket gomap \<Rightarrow> 'l clientBucket gomap" where
  "lru_touch c fr now k bs =
     (case map_of bs k of
        Some b \<Rightarrow> AList.update k (b\<lparr>cb_lastUsed := now\<rparr>) bs
      | None \<Rightarrow> AList.update k \<lparr>cb_limiter = fr, cb_lastUsed = now\<rparr>
                 (if c \<le> int (length bs) then lru_evict bs else bs))"

lemma lru_touch_full:
  assumes wf: "cache_wf c bs" and "map_of bs k = None" and full: "int (length bs) = c"
  shows "\<exists>v bv. map_of bs v = Some bv \<and>
           (\<forall>j bj. map_of bs j = Some bj \<longrightarrow> cb_lastUsed bv \<le> cb_lastUsed bj) \<and>
           map_of (lru_touch c fr now k bs) =
             ((map_of bs)(v := None))(k \<mapsto> \<lparr>cb_limiter = fr, cb_lastUsed = now\<rparr>)"
proof -
  from wf full have "bs \<noteq> []" "distinct (map fst bs)" "'''' \<notin> fst ` set bs"
    by (auto simp: cache_wf_def)
  then obtain v bv where v: "map_of bs v = Some bv"
    "\<And>j bj. map_of bs j = Some bj \<Longrightarrow> cb_lastUsed bv \<le> cb_lastUsed bj"
    "lru_evict bs = AList.delete v bs"
    by (rule lru_evict_victim) blast
  have "map_of (lru_touch c fr now k bs) =
          ((map_of bs)(v := None))(k \<mapsto> \<lparr>cb_limiter = fr, cb_lastUsed = now\<rparr>)"
    using assms(2) full v(3) by (simp add: lru_touch_def AList.update_conv' AList.delete_conv')
  with v(1,2) show ?thesis by blast
qed

lemma lru_touch_wf [wf_intros]:
  assumes wf: "cache_wf c bs" and k: "k \<noteq> ''''"
  shows "cache_wf c (lru_touch c fr now k bs)"
proof (cases "map_of bs k")
  case (Some b)
  then have "k \<in> fst ` set bs" by (force dest: map_of_SomeD)
  with wf k Some show ?thesis
    by (auto simp: cache_wf_def lru_touch_def AList.dom_update length_update
             intro: AList.distinct_update simp del: map_of_eq_Some_iff)
next
  case None
  then have nk: "k \<notin> fst ` set bs" by (simp add: map_of_eq_None_iff)
  show ?thesis
  proof (cases "c \<le> int (length bs)")
    case False
    with wf k nk None show ?thesis
      by (auto simp: cache_wf_def lru_touch_def AList.dom_update length_update
               intro: AList.distinct_update)
  next
    case True
    with wf have "bs \<noteq> []" "distinct (map fst bs)" "'''' \<notin> fst ` set bs"
      by (auto simp: cache_wf_def)
    then obtain v bv where v: "map_of bs v = Some bv" "lru_evict bs = AList.delete v bs"
      by (rule lru_evict_victim) blast
    from v(1) have "v \<in> fst ` set bs" by (force dest: map_of_SomeD)
    with wf have len: "Suc (length (AList.delete v bs)) = length bs"
      by (simp add: cache_wf_def length_delete)
    have "k \<notin> fst ` set (AList.delete v bs)" "'''' \<notin> fst ` set (AList.delete v bs)"
      using nk wf AList.dom_delete_subset [of v bs] by (auto simp: cache_wf_def)
    with len wf k None True v(2) show ?thesis
      by (auto simp: cache_wf_def lru_touch_def AList.dom_update length_update
               intro!: AList.distinct_update AList.distinct_delete)
  qed
qed

lemma put_wf_list:
  assumes "cache_wf c bs" "map_of bs k = Some b"
  shows "cache_wf c (AList.update k b' bs)"
proof -
  from assms(2) have "k \<in> fst ` set bs" by (force dest: map_of_SomeD)
  with assms show ?thesis
    by (auto simp: cache_wf_def AList.dom_update length_update intro: AList.distinct_update
             simp del: map_of_eq_Some_iff)
qed

lemma filter_wf [wf_intros]: "cache_wf c bs \<Longrightarrow> cache_wf c (filter P bs)"
  by (auto simp: cache_wf_def distinct_map_filter_fst
           intro: order_trans [OF of_nat_mono [OF length_filter_le]])

section \<open>The interface\<close>

locale bucket_cache =
  fixes bks :: "'s \<Rightarrow> 'l clientBucket gomap"
    and cap :: "'s \<Rightarrow> int"
    and fresh :: "'s \<Rightarrow> 'l"
    and get :: "time \<Rightarrow> string \<Rightarrow> 's \<Rightarrow> 'l \<times> 's"
    and put :: "string \<Rightarrow> 'l \<Rightarrow> 's \<Rightarrow> 's"
    and clean :: "time \<Rightarrow> 's \<Rightarrow> 's"
    and ttl :: "'s \<Rightarrow> duration"
  assumes get_hit:
      "map_of (bks s) k = Some b \<Longrightarrow>
         fst (get now k s) = cb_limiter b \<and>
         map_of (bks (snd (get now k s))) = (map_of (bks s))(k \<mapsto> b\<lparr>cb_lastUsed := now\<rparr>)"
    and get_miss: "map_of (bks s) k = None \<Longrightarrow> fst (get now k s) = fresh s"
    and get_room:
      "map_of (bks s) k = None \<Longrightarrow> int (length (bks s)) < cap s \<Longrightarrow>
         map_of (bks (snd (get now k s))) =
           (map_of (bks s))(k \<mapsto> \<lparr>cb_limiter = fresh s, cb_lastUsed = now\<rparr>)"
    and get_full:
      "cache_wf (cap s) (bks s) \<Longrightarrow> map_of (bks s) k = None \<Longrightarrow> int (length (bks s)) = cap s \<Longrightarrow>
         \<exists>v bv. map_of (bks s) v = Some bv \<and>
           (\<forall>j bj. map_of (bks s) j = Some bj \<longrightarrow> cb_lastUsed bv \<le> cb_lastUsed bj) \<and>
           map_of (bks (snd (get now k s))) =
             ((map_of (bks s))(v := None))(k \<mapsto> \<lparr>cb_limiter = fresh s, cb_lastUsed = now\<rparr>)"
    and get_wf: "cache_wf (cap s) (bks s) \<Longrightarrow> k \<noteq> '''' \<Longrightarrow>
         cache_wf (cap s) (bks (snd (get now k s)))"
    and get_params: "cap (snd (get now k s)) = cap s" "ttl (snd (get now k s)) = ttl s"
      "fresh (snd (get now k s)) = fresh s"
    and put_map: "map_of (bks s) k = Some b \<Longrightarrow>
         map_of (bks (put k l s)) = (map_of (bks s))(k \<mapsto> b\<lparr>cb_limiter := l\<rparr>)"
    and put_wf: "cache_wf c (bks s) \<Longrightarrow> cache_wf c (bks (put k l s))"
    and put_params: "cap (put k l s) = cap s" "ttl (put k l s) = ttl s" "fresh (put k l s) = fresh s"
    and clean_map: "distinct (map fst (bks s)) \<Longrightarrow>
         map_of (bks (clean now s)) k =
           (case map_of (bks s) k of None \<Rightarrow> None
            | Some b \<Rightarrow> if Before (cb_lastUsed b) (now - ttl s) then None else Some b)"
    and clean_wf: "cache_wf c (bks s) \<Longrightarrow> cache_wf c (bks (clean now s))"
    and clean_params: "cap (clean now s) = cap s" "ttl (clean now s) = ttl s"
      "fresh (clean now s) = fresh s"
begin

text \<open>A request: obtain the key's limiter, let it decide, keep its new state in the bucket.\<close>

definition use :: "time \<Rightarrow> string \<Rightarrow> ('l \<Rightarrow> 'l) \<Rightarrow> 's \<Rightarrow> 's" where
  "use now k f s = (case get now k s of (l, s') \<Rightarrow> put k (f l) s')"

lemma use_params: "cap (use now k f s) = cap s" "ttl (use now k f s) = ttl s"
  by (simp_all add: use_def split_beta put_params get_params)

lemma use_wf:
  assumes "cache_wf (cap s) (bks s)" "k \<noteq> ''''"
  shows "cache_wf (cap s) (bks (use now k f s))"
  using get_wf [OF assms] by (simp add: use_def split_beta put_wf)

lemma get_present: "cache_wf (cap s) (bks s) \<Longrightarrow>
  \<exists>b. map_of (bks (snd (get now k s))) k = Some b"
proof (cases "map_of (bks s) k")
  case (Some b)
  then show ?thesis using get_hit [OF Some] by simp
next
  case None
  assume wf: "cache_wf (cap s) (bks s)"
  then consider "int (length (bks s)) < cap s" | "int (length (bks s)) = cap s"
    by (fastforce simp: cache_wf_def)
  then show ?thesis
  proof cases
    case 1
    show ?thesis by (simp add: get_room [OF None 1])
  next
    case 2
    from get_full [OF wf None 2, of now] show ?thesis by auto
  qed
qed

lemma survives_get:
  assumes wf: "cache_wf (cap s) (bks s)" and surv: "survives k b T (map_of (bks s))"
    and jk: "j \<noteq> k" and fin: "finite T" and card: "int (card (insert j T)) < cap s"
  shows "survives k b (insert j T) (map_of (bks (snd (get now j s))))"
proof (cases "map_of (bks s) j")
  case (Some bj)
  then show ?thesis using get_hit [OF Some, of now] surv jk by (auto simp: survives_def)
next
  case None
  from wf consider "int (length (bks s)) < cap s" | "int (length (bks s)) = cap s"
    by (fastforce simp: cache_wf_def)
  then show ?thesis
  proof cases
    case 1
    then show ?thesis using get_room [OF None, of now] surv jk by (auto simp: survives_def)
  next
    case 2
    from survives_older_exists [OF wf 2 surv fin None card] obtain i bi where
      i: "map_of (bks s) i = Some bi" "cb_lastUsed bi < cb_lastUsed b" by blast
    from get_full [OF wf None 2, of now] obtain v bv where
      v: "map_of (bks s) v = Some bv" "cb_lastUsed bv \<le> cb_lastUsed bi"
      "map_of (bks (snd (get now j s))) =
         ((map_of (bks s))(v := None))(j \<mapsto> \<lparr>cb_limiter = fresh s, cb_lastUsed = now\<rparr>)"
      using i(1) by blast
    have "v \<noteq> k" using v(1,2) i(2) surv by (auto simp: survives_def)
    then show ?thesis using v(3) surv jk by (auto simp: survives_def)
  qed
qed

lemma survives_use:
  assumes "cache_wf (cap s) (bks s)" "survives k b T (map_of (bks s))"
    and "j \<noteq> k" "finite T" "int (card (insert j T)) < cap s"
  shows "survives k b (insert j T) (map_of (bks (use now j f s)))"
proof -
  obtain bj where bj: "map_of (bks (snd (get now j s))) j = Some bj"
    using get_present [OF assms(1)] by blast
  show ?thesis
    using survives_get [OF assms, of now] put_map [OF bj] assms(3)
    by (auto simp: survives_def use_def split_beta)
qed

lemma survives_clean:
  assumes "cache_wf (cap s) (bks s)" "survives k b T (map_of (bks s))"
    and "now - ttl s \<le> cb_lastUsed b"
  shows "survives k b T (map_of (bks (clean now s)))"
proof -
  have "distinct (map fst (bks s))" using assms(1) by (simp add: cache_wf_def)
  then show ?thesis using assms(2,3)
    by (auto simp: survives_def clean_map Before_def simp del: map_of_eq_Some_iff
             split: option.splits if_splits)
qed

end

end
