(* ===== verification/Rate_Limit.thy ===== *)
theory Rate_Limit
  imports Bucket_Cache
begin

text \<open>
  The per-key limiter (\<^verbatim>\<open>internal/mcp/keyedrate.go\<close>) and the pre-authentication failure
  limiter (\<^verbatim>\<open>internal/mcp/failrate.go\<close>). Each method takes its mutex for the whole of
  its access to the map, so a method is one atomic state transformer; the instants the Go
  code reads with \<^verbatim>\<open>time.Now()\<close> are arguments. The janitor goroutine is the event
  \<open>Tick\<close> of a run.
\<close>

section \<open>keyedRateLimiter\<close>

record ('r, 'l) keyedRateLimiter =
  kl_buckets :: "'l clientBucket gomap"
  kl_rps :: 'r
  kl_burst :: int
  kl_idleTTL :: duration
  kl_maxKeys :: int

definition DefaultLimiterIdleTTL :: duration where
  "DefaultLimiterIdleTTL = 30 * Minute"

definition DefaultLimiterMaxClients :: int where
  "DefaultLimiterMaxClients = 10000"

definition newKeyedRateLimiter :: "'r \<Rightarrow> int \<Rightarrow> ('r, 'l) keyedRateLimiter" where
  "newKeyedRateLimiter rps burst =
     \<lparr>kl_buckets = [], kl_rps = rps, kl_burst = burst,
      kl_idleTTL = DefaultLimiterIdleTTL, kl_maxKeys = DefaultLimiterMaxClients\<rparr>"

definition sweep :: "time \<Rightarrow> ('r, 'l) keyedRateLimiter \<Rightarrow> ('r, 'l) keyedRateLimiter" where
  "sweep now l =
     (let cutoff = now - kl_idleTTL l
      in l\<lparr>kl_buckets := filter (\<lambda>(k, b). \<not> Before (cb_lastUsed b) cutoff) (kl_buckets l)\<rparr>)"

definition evictLRULocked :: "('r, 'l) keyedRateLimiter \<Rightarrow> ('r, 'l) keyedRateLimiter" where
  "evictLRULocked l = l\<lparr>kl_buckets := lru_evict (kl_buckets l)\<rparr>"

definition limiterFor ::
  "('r, 'l) rate_ops \<Rightarrow> time \<Rightarrow> string \<Rightarrow> ('r, 'l) keyedRateLimiter
     \<Rightarrow> 'l \<times> ('r, 'l) keyedRateLimiter" where
  "limiterFor ro now key l =
     (case map_of (kl_buckets l) key of
        Some b \<Rightarrow>
          (cb_limiter b,
           l\<lparr>kl_buckets := AList.update key (b\<lparr>cb_lastUsed := now\<rparr>) (kl_buckets l)\<rparr>)
      | None \<Rightarrow>
          let l1 = (if int (length (kl_buckets l)) \<ge> kl_maxKeys l then evictLRULocked l else l);
              lim = NewLimiter ro (kl_rps l) (kl_burst l)
          in (lim, l1\<lparr>kl_buckets :=
                AList.update key \<lparr>cb_limiter = lim, cb_lastUsed = now\<rparr> (kl_buckets l1)\<rparr>))"

text \<open>
  \<^verbatim>\<open>limiterFor\<close> returns a pointer to the bucket's limiter; \<open>kl_put\<close> is the write
  through that pointer that \<^verbatim>\<open>Allow\<close> performs.
\<close>

definition kl_put :: "string \<Rightarrow> 'l \<Rightarrow> ('r, 'l) keyedRateLimiter \<Rightarrow> ('r, 'l) keyedRateLimiter" where
  "kl_put key lim l =
     (case map_of (kl_buckets l) key of
        None \<Rightarrow> l
      | Some b \<Rightarrow> l\<lparr>kl_buckets := AList.update key (b\<lparr>cb_limiter := lim\<rparr>) (kl_buckets l)\<rparr>)"

definition allow ::
  "('r, 'l) rate_ops \<Rightarrow> time \<Rightarrow> time \<Rightarrow> string \<Rightarrow> ('r, 'l) keyedRateLimiter
     \<Rightarrow> bool \<times> ('r, 'l) keyedRateLimiter" where
  "allow ro now now' key l =
     (case limiterFor ro now key l of
        (lim, l1) \<Rightarrow> (case Allow ro now' lim of (ok, lim') \<Rightarrow> (ok, kl_put key lim' l1)))"

definition Size :: "('r, 'l) keyedRateLimiter \<Rightarrow> nat" where
  "Size l = length (kl_buckets l)"

section \<open>IPFailRateLimiter\<close>

record ('r, 'l) IPFailRateLimiter =
  fl_ips :: "'l clientBucket gomap"
  fl_rps :: 'r
  fl_burst :: int
  fl_idleTTL :: duration
  fl_maxIPs :: int
  fl_trustProxy :: bool
  fl_hops :: int

definition DefaultFailLimiterIdleTTL :: duration where
  "DefaultFailLimiterIdleTTL = 15 * Minute"

definition DefaultFailMaxIPs :: int where
  "DefaultFailMaxIPs = 10000"

definition NewIPFailRateLimiter :: "'r \<Rightarrow> int \<Rightarrow> bool \<Rightarrow> int \<Rightarrow> ('r, 'l) IPFailRateLimiter" where
  "NewIPFailRateLimiter rps burst trustProxy hops =
     \<lparr>fl_ips = [], fl_rps = rps, fl_burst = burst,
      fl_idleTTL = DefaultFailLimiterIdleTTL, fl_maxIPs = DefaultFailMaxIPs,
      fl_trustProxy = trustProxy, fl_hops = hops\<rparr>"

definition fl_sweep :: "time \<Rightarrow> ('r, 'l) IPFailRateLimiter \<Rightarrow> ('r, 'l) IPFailRateLimiter" where
  "fl_sweep now l =
     (let cutoff = now - fl_idleTTL l
      in l\<lparr>fl_ips := filter (\<lambda>(k, b). \<not> Before (cb_lastUsed b) cutoff) (fl_ips l)\<rparr>)"

definition fl_evictLRULocked :: "('r, 'l) IPFailRateLimiter \<Rightarrow> ('r, 'l) IPFailRateLimiter" where
  "fl_evictLRULocked l = l\<lparr>fl_ips := lru_evict (fl_ips l)\<rparr>"

definition getLimiter ::
  "('r, 'l) rate_ops \<Rightarrow> time \<Rightarrow> string \<Rightarrow> ('r, 'l) IPFailRateLimiter
     \<Rightarrow> 'l \<times> ('r, 'l) IPFailRateLimiter" where
  "getLimiter ro now ip l =
     (case map_of (fl_ips l) ip of
        Some b \<Rightarrow>
          (cb_limiter b,
           l\<lparr>fl_ips := AList.update ip (b\<lparr>cb_lastUsed := now\<rparr>) (fl_ips l)\<rparr>)
      | None \<Rightarrow>
          let l1 = (if int (length (fl_ips l)) \<ge> fl_maxIPs l then fl_evictLRULocked l else l);
              lim = NewLimiter ro (fl_rps l) (fl_burst l)
          in (lim, l1\<lparr>fl_ips :=
                AList.update ip \<lparr>cb_limiter = lim, cb_lastUsed = now\<rparr> (fl_ips l1)\<rparr>))"

definition fl_put :: "string \<Rightarrow> 'l \<Rightarrow> ('r, 'l) IPFailRateLimiter \<Rightarrow> ('r, 'l) IPFailRateLimiter" where
  "fl_put ip lim l =
     (case map_of (fl_ips l) ip of
        None \<Rightarrow> l
      | Some b \<Rightarrow> l\<lparr>fl_ips := AList.update ip (b\<lparr>cb_limiter := lim\<rparr>) (fl_ips l)\<rparr>)"

definition Penalize ::
  "('r, 'l) rate_ops \<Rightarrow> time \<Rightarrow> time \<Rightarrow> string \<Rightarrow> ('r, 'l) IPFailRateLimiter
     \<Rightarrow> ('r, 'l) IPFailRateLimiter" where
  "Penalize ro now now' ip l =
     (if ip = '''' then l
      else case getLimiter ro now ip l of (lim, l1) \<Rightarrow> fl_put ip (snd (Allow ro now' lim)) l1)"

definition peek ::
  "('r, 'l) rate_ops \<Rightarrow> time \<Rightarrow> time \<Rightarrow> string \<Rightarrow> ('r, 'l) IPFailRateLimiter
     \<Rightarrow> bool \<times> ('r, 'l) IPFailRateLimiter" where
  "peek ro now now' ip l =
     (if ip = '''' then (True, l)
      else case getLimiter ro now ip l of (lim, l1) \<Rightarrow> (TokensGE1 ro now' lim, l1))"

definition fl_Size :: "('r, 'l) IPFailRateLimiter \<Rightarrow> nat" where
  "fl_Size l = length (fl_ips l)"

section \<open>Both limiters implement the cache interface\<close>

lemma limiterFor_buckets:
  "kl_buckets (snd (limiterFor ro now k l)) =
     lru_touch (kl_maxKeys l) (NewLimiter ro (kl_rps l) (kl_burst l)) now k (kl_buckets l)"
  by (simp add: limiterFor_def lru_touch_def evictLRULocked_def Let_def split: option.split)

lemma getLimiter_ips:
  "fl_ips (snd (getLimiter ro now k l)) =
     lru_touch (fl_maxIPs l) (NewLimiter ro (fl_rps l) (fl_burst l)) now k (fl_ips l)"
  by (simp add: getLimiter_def lru_touch_def fl_evictLRULocked_def Let_def split: option.split)

lemma limiterFor_params [simp]:
  "kl_maxKeys (snd (limiterFor ro now k l)) = kl_maxKeys l"
  "kl_idleTTL (snd (limiterFor ro now k l)) = kl_idleTTL l"
  "kl_rps (snd (limiterFor ro now k l)) = kl_rps l"
  "kl_burst (snd (limiterFor ro now k l)) = kl_burst l"
  by (simp_all add: limiterFor_def evictLRULocked_def Let_def split: option.split)

lemma getLimiter_params [simp]:
  "fl_maxIPs (snd (getLimiter ro now k l)) = fl_maxIPs l"
  "fl_idleTTL (snd (getLimiter ro now k l)) = fl_idleTTL l"
  "fl_rps (snd (getLimiter ro now k l)) = fl_rps l"
  "fl_burst (snd (getLimiter ro now k l)) = fl_burst l"
  by (simp_all add: getLimiter_def fl_evictLRULocked_def Let_def split: option.split)

interpretation kl: bucket_cache kl_buckets kl_maxKeys
    "\<lambda>l. NewLimiter ro (kl_rps l) (kl_burst l)" "limiterFor ro" kl_put sweep kl_idleTTL
  for ro :: "('r, 'l) rate_ops"
proof (unfold_locales, goal_cases)
  case (1 s k b now)
  then show ?case
    by (simp add: limiterFor_buckets lru_touch_def AList.update_conv')
       (simp add: limiterFor_def)
next
  case (2 s k now)
  then show ?case by (simp add: limiterFor_def Let_def)
next
  case (3 s k now)
  then show ?case by (simp add: limiterFor_buckets lru_touch_def AList.update_conv')
next
  case (4 s k now)
  then show ?case unfolding limiterFor_buckets by (rule lru_touch_full)
next
  case (5 s k now)
  then show ?case by (simp add: limiterFor_buckets lru_touch_wf)
next
  case (9 s k b l)
  then show ?case by (simp add: kl_put_def AList.update_conv')
next
  case (10 c s k l)
  then show ?case by (auto simp: kl_put_def put_wf_list split: option.split)
next
  case (14 s now k)
  then show ?case by (simp add: sweep_def Let_def map_of_filter_key split: option.split)
next
  case (15 c s now)
  then show ?case by (simp add: sweep_def Let_def filter_wf)
qed (auto simp: kl_put_def sweep_def Let_def split: option.split)

interpretation fl: bucket_cache fl_ips fl_maxIPs
    "\<lambda>l. NewLimiter ro (fl_rps l) (fl_burst l)" "getLimiter ro" fl_put fl_sweep fl_idleTTL
  for ro :: "('r, 'l) rate_ops"
proof (unfold_locales, goal_cases)
  case (1 s k b now)
  then show ?case
    by (simp add: getLimiter_ips lru_touch_def AList.update_conv')
       (simp add: getLimiter_def)
next
  case (2 s k now)
  then show ?case by (simp add: getLimiter_def Let_def)
next
  case (3 s k now)
  then show ?case by (simp add: getLimiter_ips lru_touch_def AList.update_conv')
next
  case (4 s k now)
  then show ?case unfolding getLimiter_ips by (rule lru_touch_full)
next
  case (5 s k now)
  then show ?case by (simp add: getLimiter_ips lru_touch_wf)
next
  case (9 s k b l)
  then show ?case by (simp add: fl_put_def AList.update_conv')
next
  case (10 c s k l)
  then show ?case by (auto simp: fl_put_def put_wf_list split: option.split)
next
  case (14 s now k)
  then show ?case by (simp add: fl_sweep_def Let_def map_of_filter_key split: option.split)
next
  case (15 c s now)
  then show ?case by (simp add: fl_sweep_def Let_def filter_wf)
qed (auto simp: fl_put_def fl_sweep_def Let_def split: option.split)

section \<open>Runs of a limiter\<close>

text \<open>
  A run interleaves requests (\<open>Req now now' key\<close>: the clock readings of \<^verbatim>\<open>limiterFor\<close>
  and of \<^verbatim>\<open>Allow\<close>) with ticks of the janitor.
\<close>

datatype lim_event = Req time time string | Tick time

fun lim_step :: "('r, 'l) rate_ops \<Rightarrow> lim_event \<Rightarrow> ('r, 'l) keyedRateLimiter
    \<Rightarrow> ('r, 'l) keyedRateLimiter" where
  "lim_step ro (Req now now' key) l = snd (allow ro now now' key l)"
| "lim_step ro (Tick now) l = sweep now l"

definition lim_run :: "('r, 'l) rate_ops \<Rightarrow> lim_event list \<Rightarrow> ('r, 'l) keyedRateLimiter
    \<Rightarrow> ('r, 'l) keyedRateLimiter" where
  "lim_run ro evs l = fold (lim_step ro) evs l"

fun ev_keys :: "lim_event \<Rightarrow> string set" where
  "ev_keys (Req now now' key) = {key}"
| "ev_keys (Tick now) = {}"

text \<open>The janitor never ticks so late that a bucket used at \<open>t\<close> is past its idle time.\<close>

fun ev_fresh :: "duration \<Rightarrow> time \<Rightarrow> lim_event \<Rightarrow> bool" where
  "ev_fresh ttl t (Req now now' key) = True"
| "ev_fresh ttl t (Tick now) = (now - ttl \<le> t)"

lemma allow_use:
  "snd (allow ro now now' k l) = kl.use ro now k (\<lambda>lim. snd (Allow ro now' lim)) l"
  by (simp add: allow_def kl.use_def split_beta)

lemma lim_step_params:
  "kl_maxKeys (lim_step ro e l) = kl_maxKeys l" "kl_idleTTL (lim_step ro e l) = kl_idleTTL l"
  by (cases e; simp add: allow_use kl.use_params kl.clean_params)+

lemma lim_step_wf [wf_intros]:
  "cache_wf (kl_maxKeys l) (kl_buckets l) \<Longrightarrow> '''' \<notin> ev_keys e \<Longrightarrow>
   cache_wf (kl_maxKeys l) (kl_buckets (lim_step ro e l))"
  by (cases e) (auto simp: allow_use intro: kl.use_wf kl.clean_wf)

lemma lim_run_wf:
  "cache_wf (kl_maxKeys l) (kl_buckets l) \<Longrightarrow> '''' \<notin> (\<Union>e \<in> set evs. ev_keys e) \<Longrightarrow>
   cache_wf (kl_maxKeys l) (kl_buckets (lim_run ro evs l))"
proof (induction evs arbitrary: l)
  case (Cons e evs)
  then have "cache_wf (kl_maxKeys (lim_step ro e l)) (kl_buckets (lim_step ro e l))"
    by (simp add: lim_step_wf lim_step_params)
  with Cons.IH [of "lim_step ro e l"] Cons.prems(2) show ?case
    by (simp add: lim_run_def lim_step_params)
qed (simp add: lim_run_def)

lemma newKeyedRateLimiter_wf:
  "cache_wf (kl_maxKeys (newKeyedRateLimiter r n)) (kl_buckets (newKeyedRateLimiter r n))"
  by (simp add: cache_wf_def newKeyedRateLimiter_def DefaultLimiterMaxClients_def)

lemma lim_step_survives:
  assumes "cache_wf (kl_maxKeys l) (kl_buckets l)" "survives k b T (map_of (kl_buckets l))"
    and "k \<notin> ev_keys e" "finite T" "int (card (ev_keys e \<union> T)) < kl_maxKeys l"
    and "ev_fresh (kl_idleTTL l) (cb_lastUsed b) e"
  shows "survives k b (ev_keys e \<union> T) (map_of (kl_buckets (lim_step ro e l)))"
  using assms by (cases e) (auto simp: allow_use intro: kl.survives_use kl.survives_clean)

lemma lim_run_survives:
  assumes "cache_wf (kl_maxKeys l) (kl_buckets l)" "survives k b T (map_of (kl_buckets l))"
    and "k \<notin> (\<Union>e \<in> set evs. ev_keys e)" "'''' \<notin> (\<Union>e \<in> set evs. ev_keys e)" "finite T"
    and "int (card ((\<Union>e \<in> set evs. ev_keys e) \<union> T)) < kl_maxKeys l"
    and "\<forall>e \<in> set evs. ev_fresh (kl_idleTTL l) (cb_lastUsed b) e"
  shows "map_of (kl_buckets (lim_run ro evs l)) k = Some b"
  using assms
proof (induction evs arbitrary: l T)
  case Nil
  then show ?case by (simp add: lim_run_def survives_def)
next
  case (Cons e evs)
  have fin: "finite (ev_keys x)" for x by (cases x) auto
  let ?K = "(\<Union>e \<in> set (e # evs). ev_keys e) \<union> T"
  have "card (ev_keys e \<union> T) \<le> card ?K"
    using Cons.prems(5) fin by (intro card_mono) auto
  with Cons.prems have "survives k b (ev_keys e \<union> T) (map_of (kl_buckets (lim_step ro e l)))"
    by (intro lim_step_survives) auto
  moreover have "(\<Union>e \<in> set evs. ev_keys e) \<union> (ev_keys e \<union> T) = ?K" by auto
  ultimately have "map_of (kl_buckets (lim_run ro evs (lim_step ro e l))) k = Some b"
    using Cons.prems fin
    by (intro Cons.IH [where T = "ev_keys e \<union> T"]) (auto simp: lim_step_params lim_step_wf)
  then show ?case by (simp add: lim_run_def)
qed

section \<open>Properties\<close>

text \<open>
  Memory bound. Whatever requests and janitor ticks a fresh per-key limiter
  serves, it never retains more buckets than \<^verbatim>\<open>DefaultLimiterMaxClients\<close> and never two
  buckets for one key, as long as no request is keyed by the empty string (client ids and
  source addresses are not empty).
\<close>

theorem limiter_memory_bounded:
  assumes "'''' \<notin> (\<Union>e \<in> set evs. ev_keys e)"
  shows "int (Size (lim_run ro evs (newKeyedRateLimiter rps burst))) \<le> DefaultLimiterMaxClients
       \<and> distinct (map fst (kl_buckets (lim_run ro evs (newKeyedRateLimiter rps burst))))"
  using lim_run_wf [OF newKeyedRateLimiter_wf [of rps burst] assms, of ro]
  by (simp add: cache_wf_def Size_def newKeyedRateLimiter_def)

text \<open>A concrete token bucket for the witnesses: a counter of tokens, with no refill.\<close>

definition counting_rate :: "(unit, nat) rate_ops" where
  "counting_rate = \<lparr>NewLimiter = (\<lambda>_ burst. nat burst),
               Allow = (\<lambda>_ n. (0 < n, n - 1)), TokensGE1 = (\<lambda>_ n. 1 \<le> n)\<rparr>"

theorem limiter_memory_bounded_witness:
  "'''' \<notin> (\<Union>e \<in> set [Req 1 1 ''a'', Tick 2, Req 3 3 ''b'']. ev_keys e)
   \<and> int (Size (lim_run counting_rate [Req 1 1 ''a'', Tick 2, Req 3 3 ''b'']
                  (newKeyedRateLimiter () 5))) \<le> DefaultLimiterMaxClients"
  using limiter_memory_bounded [of "[Req 1 1 ''a'', Tick 2, Req 3 3 ''b'']" counting_rate "()" 5]
  by simp

text \<open>
  Isolation between clients. The bucket of a key is untouched, token for token,
  by the traffic of other keys and by the janitor, as long as fewer than \<open>maxKeys\<close> distinct
  other keys appear, the key's own last use is the most recent at the start, and no tick
  comes later than its idle time: eviction always finds an older victim.
\<close>

theorem limiter_isolates_clients:
  assumes "cache_wf (kl_maxKeys l) (kl_buckets l)"
    and "map_of (kl_buckets l) k = Some b"
    and "\<forall>j bj. map_of (kl_buckets l) j = Some bj \<longrightarrow> j = k \<or> cb_lastUsed bj < cb_lastUsed b"
    and "k \<notin> (\<Union>e \<in> set evs. ev_keys e)" "'''' \<notin> (\<Union>e \<in> set evs. ev_keys e)"
    and "int (card (\<Union>e \<in> set evs. ev_keys e)) < kl_maxKeys l"
    and "\<forall>e \<in> set evs. ev_fresh (kl_idleTTL l) (cb_lastUsed b) e"
  shows "map_of (kl_buckets (lim_run ro evs l)) k = Some b"
  using assms lim_run_survives [of l k b "{}" evs ro] by (simp add: survives_def)

definition small_limiter :: "(unit, nat) keyedRateLimiter" where
  "small_limiter =
     \<lparr>kl_buckets = [(''old'', \<lparr>cb_limiter = 3, cb_lastUsed = 10\<rparr>),
                    (''alice'', \<lparr>cb_limiter = 2, cb_lastUsed = 20\<rparr>)],
      kl_rps = (), kl_burst = 5, kl_idleTTL = 100, kl_maxKeys = 2\<rparr>"

theorem limiter_isolates_clients_witness:
  "map_of (kl_buckets (lim_run counting_rate [Req 30 30 ''bob'', Tick 40, Req 50 50 ''bob'']
             small_limiter)) ''alice'' = Some \<lparr>cb_limiter = 2, cb_lastUsed = 20\<rparr>"
proof (rule limiter_isolates_clients)
  show "cache_wf (kl_maxKeys small_limiter) (kl_buckets small_limiter)"
    by (simp add: cache_wf_def small_limiter_def)
  show "map_of (kl_buckets small_limiter) ''alice'' = Some \<lparr>cb_limiter = 2, cb_lastUsed = 20\<rparr>"
    by (simp add: small_limiter_def)
qed (auto simp: small_limiter_def split: if_splits)

end
