(* ===== verification/Key_Request.thy ===== *)
theory Key_Request
  imports Pending_Keys Client_IP Rate_Limit Go_Text
begin

text \<open>
  The public endpoint on which anyone may ask for a key
  (\<^verbatim>\<open>internal/mcp/keys_request_http.go\<close>): its throttle, the validation of the fields and
  the enqueueing. The decoded body is an argument, a function of the size limit the handler
  sets; the address parser of \<^verbatim>\<open>net/mail\<close> is the predicate \<open>validMail\<close>. JSON bodies of
  responses are values of \<open>json\<close>.
\<close>

datatype json = JStr string | JBool bool | JInt int | JArr "json list" | JObj "(string \<times> json) list"

record reply =
  rp_status :: nat
  rp_body :: "json option"

definition jsonError :: "nat \<Rightarrow> string \<Rightarrow> reply" where
  "jsonError code msg = \<lparr>rp_status = code, rp_body = Some (JObj [(''error'', JStr msg)])\<rparr>"

definition writeRateLimited :: reply where
  "writeRateLimited = jsonError 429 ''rate limit exceeded''"

record KeyRequestInput =
  ki_Email :: string
  ki_Company :: string
  ki_IntendedUse :: string

definition keyRequestMaxEmailLen :: nat where "keyRequestMaxEmailLen = 320"
definition keyRequestMaxIntendedUseLen :: nat where "keyRequestMaxIntendedUseLen = 2000"
definition keyRequestMaxCompanyLen :: nat where "keyRequestMaxCompanyLen = 200"

text \<open>\<^verbatim>\<open>unicode.IsControl\<close> (category Cc) and the table \<^verbatim>\<open>unicode.Cf\<close>, as code point ranges.\<close>

definition IsControl :: "nat \<Rightarrow> bool" where
  "IsControl r \<longleftrightarrow> r < 32 \<or> 127 \<le> r \<and> r < 160"

definition Cf_ranges :: "(nat \<times> nat) list" where
  "Cf_ranges =
     [(0x00AD, 0x00AD), (0x0600, 0x0605), (0x061C, 0x061C), (0x06DD, 0x06DD), (0x070F, 0x070F),
      (0x0890, 0x0891), (0x08E2, 0x08E2), (0x180E, 0x180E), (0x200B, 0x200F), (0x202A, 0x202E),
      (0x2060, 0x2064), (0x2066, 0x206F), (0xFEFF, 0xFEFF), (0xFFF9, 0xFFFB), (0x110BD, 0x110BD),
      (0x110CD, 0x110CD), (0x13430, 0x1343F), (0x1BCA0, 0x1BCA3), (0x1D173, 0x1D17A),
      (0xE0001, 0xE0001), (0xE0020, 0xE007F)]"

definition In_Cf :: "nat \<Rightarrow> bool" where
  "In_Cf r = list_ex (\<lambda>(lo, hi). lo \<le> r \<and> r \<le> hi) Cf_ranges"

definition hasDisallowedControlChars :: "string \<Rightarrow> bool" where
  "hasDisallowedControlChars s =
     list_ex (\<lambda>r. r \<noteq> 9 \<and> r \<noteq> 10 \<and> (IsControl r \<or> In_Cf r)) (range_runes s)"

definition validateKeyRequest :: "(string \<Rightarrow> bool) \<Rightarrow> KeyRequestInput \<Rightarrow> string" where
  "validateKeyRequest validMail inp =
     (if TrimSpace (ki_Email inp) = '''' then ''email is required''
      else if length (ki_Email inp) > keyRequestMaxEmailLen then ''email too long''
      else if \<not> validMail (ki_Email inp) then ''email is not a valid address''
      else if length (ki_Company inp) > keyRequestMaxCompanyLen then ''company too long''
      else if hasDisallowedControlChars (ki_Company inp)
      then ''company contains disallowed control characters''
      else if TrimSpace (ki_IntendedUse inp) = '''' then ''intended_use is required''
      else if length (ki_IntendedUse inp) > keyRequestMaxIntendedUseLen then ''intended_use too long''
      else if hasDisallowedControlChars (ki_IntendedUse inp)
      then ''intended_use contains disallowed control characters''
      else '''')"

record KeyRequestHandlerConfig =
  kc_MaxBodyBytes :: int
  kc_TrustProxy :: bool
  kc_TrustedProxyHops :: int

text \<open>The endpoint's own limiter, the queue and the file system.\<close>

record ('r, 'l, 'd) kreq_state =
  kq_limiter :: "('r, 'l) keyedRateLimiter option"
  kq_store :: PendingKeyStore
  kq_fs :: "'d fsys"

record 'd kreq_env =
  kv_now :: time
  kv_uuid :: string
  kv_io :: "'d io"
  kv_decode :: "int \<Rightarrow> KeyRequestInput option"

definition kreq_throttle ::
  "('r, 'l) rate_ops \<Rightarrow> time \<Rightarrow> string \<Rightarrow> ('r, 'l, 'd) kreq_state \<Rightarrow> bool \<times> ('r, 'l, 'd) kreq_state" where
  "kreq_throttle ro now ip s =
     (case kq_limiter s of
        None \<Rightarrow> (True, s)
      | Some l \<Rightarrow> (case allow ro now now ip l of (ok, l') \<Rightarrow> (ok, s\<lparr>kq_limiter := Some l'\<rparr>)))"

text \<open>The part behind the throttle: decode, validate, enqueue.\<close>

definition kreq_enqueue ::
  "'d pending_codec \<Rightarrow> (string \<Rightarrow> bool) \<Rightarrow> int \<Rightarrow> 'd kreq_env \<Rightarrow> string
     \<Rightarrow> ('r, 'l, 'd) kreq_state \<Rightarrow> reply \<times> ('r, 'l, 'd) kreq_state" where
  "kreq_enqueue cd validMail maxBody env ip s =
     (case kv_decode env maxBody of
        None \<Rightarrow> (jsonError 400 ''invalid JSON body'', s)
      | Some inp \<Rightarrow>
          let msg = validateKeyRequest validMail inp in
          if msg \<noteq> [] then (jsonError 400 msg, s)
          else
            (case Pending_Add cd (kv_io env) (kv_uuid env) (kv_now env) (ki_Email inp)
                    (ki_Company inp) (ki_IntendedUse inp) ip (kq_store s) (kq_fs s) of
               (Inl err, ps, fs) \<Rightarrow> (jsonError 500 ''internal error'', s\<lparr>kq_store := ps, kq_fs := fs\<rparr>)
             | (Inr q, ps, fs) \<Rightarrow>
                 (\<lparr>rp_status = 202,
                   rp_body = Some (JObj [(''request_id'', JStr (pk_ID q)),
                                         (''status'', JStr (pk_Status q))])\<rparr>,
                  s\<lparr>kq_store := ps, kq_fs := fs\<rparr>)))"

definition NewKeyRequestHandler ::
  "('r, 'l) rate_ops \<Rightarrow> 'd pending_codec \<Rightarrow> (string \<Rightarrow> bool) \<Rightarrow> KeyRequestHandlerConfig \<Rightarrow> 'd kreq_env
     \<Rightarrow> Request \<Rightarrow> ('r, 'l, 'd) kreq_state \<Rightarrow> reply \<times> ('r, 'l, 'd) kreq_state" where
  "NewKeyRequestHandler ro cd validMail cfg env r s =
     (let maxBody = (if kc_MaxBodyBytes cfg = 0 then 16 * 1024 else kc_MaxBodyBytes cfg) in
      if Method r \<noteq> ''POST'' then (jsonError 405 ''method not allowed'', s)
      else
        let ct = Header r ''Content-Type'' in
        if ct \<noteq> [] \<and> \<not> HasPrefix ct ''application/json''
        then (jsonError 415 ''Content-Type must be application/json'', s)
        else
          let ip = clientIP r (kc_TrustProxy cfg) (kc_TrustedProxyHops cfg) in
          (case kreq_throttle ro (kv_now env) ip s of
             (ok, s1) \<Rightarrow>
               if \<not> ok then (writeRateLimited, s1)
               else kreq_enqueue cd validMail maxBody env ip s1))"

section \<open>Properties\<close>

lemma throttle_store [simp]: "kq_store (snd (kreq_throttle ro now ip s)) = kq_store s"
  by (simp add: kreq_throttle_def split: option.split prod.split)

lemma clean_bytes:
  assumes "\<not> hasDisallowedControlChars s" "c \<in> set s" "(of_char c :: nat) < 128"
  shows "(32 \<le> (of_char c :: nat) \<and> of_char c \<noteq> (127 :: nat)) \<or> c = CHR 0x09 \<or> c = CHR 0x0A"
proof -
  have "of_char c \<in> set (range_runes s)" by (rule ASCII_in_range [OF assms(2,3)])
  then have "(of_char c :: nat) = 9 \<or> (of_char c :: nat) = 10 \<or> \<not> IsControl (of_char c)"
    using assms(1) by (auto simp: hasDisallowedControlChars_def list_ex_iff)
  moreover have c: "c = char_of (of_char c :: nat)" by simp
  moreover have "c = CHR 0x09" if "(of_char c :: nat) = 9"
    by (subst c, subst that) (simp add: char_of_def bit_0)
  moreover have "c = CHR 0x0A" if "(of_char c :: nat) = 10"
    by (subst c, subst that) (simp add: char_of_def bit_0)
  ultimately show ?thesis by (auto simp: IsControl_def)
qed



definition clean_text :: "string \<Rightarrow> bool" where
  "clean_text s \<longleftrightarrow>
     (\<forall>c \<in> set s. of_char c < (128 :: nat) \<longrightarrow>
        (32 \<le> (of_char c :: nat) \<and> of_char c \<noteq> (127 :: nat)) \<or> c = CHR 0x09 \<or> c = CHR 0x0A)
     \<and> (\<forall>r \<in> set (range_runes s). \<not> In_Cf r)"

lemma clean_text: "\<not> hasDisallowedControlChars s \<Longrightarrow> clean_text s"
proof -
  assume a: "\<not> hasDisallowedControlChars s"
  have "\<not> In_Cf 9" "\<not> In_Cf 10" by (simp_all add: In_Cf_def Cf_ranges_def)
  with a have "\<forall>r \<in> set (range_runes s). \<not> In_Cf r"
    by (auto simp: hasDisallowedControlChars_def list_ex_iff)
  with clean_bytes [OF a] show ?thesis unfolding clean_text_def by blast
qed


lemma validate_ok:
  "validateKeyRequest validMail inp = [] \<Longrightarrow>
     validMail (ki_Email inp) \<and> length (ki_Email inp) \<le> 320 \<and> length (ki_Company inp) \<le> 200
     \<and> length (ki_IntendedUse inp) \<le> 2000 \<and> TrimSpace (ki_IntendedUse inp) \<noteq> []
     \<and> clean_text (ki_Company inp) \<and> clean_text (ki_IntendedUse inp)"
  by (auto simp: validateKeyRequest_def keyRequestMaxEmailLen_def keyRequestMaxIntendedUseLen_def
      keyRequestMaxCompanyLen_def intro: clean_text split: if_splits)

definition proper_request :: "(string \<Rightarrow> bool) \<Rightarrow> PendingKeyRequest \<Rightarrow> bool" where
  "proper_request validMail q \<longleftrightarrow>
     validMail (pk_Email q) \<and> length (pk_Email q) \<le> 320 \<and> length (pk_Company q) \<le> 200
     \<and> length (pk_IntendedUse q) \<le> 2000 \<and> TrimSpace (pk_IntendedUse q) \<noteq> []
     \<and> clean_text (pk_Company q) \<and> clean_text (pk_IntendedUse q)"

lemma enqueue_cases:
  assumes "kreq_enqueue cd validMail maxBody env ip s = (resp, s')"
  shows "rp_status resp \<noteq> 202 \<and> kq_store s' = kq_store s
       \<or> rp_status resp = 202 \<and> (\<exists>q. ps_items (kq_store s') = ps_items (kq_store s) @ [q]
            \<and> pk_Status q = PendingStatusPending \<and> proper_request validMail q)"
proof (cases "kv_decode env maxBody")
  case None
  with assms show ?thesis by (auto simp: kreq_enqueue_def jsonError_def)
next
  case (Some inp)
  show ?thesis
  proof (cases "validateKeyRequest validMail inp = []")
    case False
    with Some assms show ?thesis by (auto simp: kreq_enqueue_def jsonError_def Let_def)
  next
    case True
    obtain res ps fs where p: "Pending_Add cd (kv_io env) (kv_uuid env) (kv_now env) (ki_Email inp)
        (ki_Company inp) (ki_IntendedUse inp) ip (kq_store s) (kq_fs s) = (res, ps, fs)"
      by (metis prod_cases3)
    show ?thesis
    proof (cases res)
      case (Inl e)
      with p Pending_Add_Inl have "ps = kq_store s" by blast
      with Inl p Some True assms show ?thesis by (auto simp: kreq_enqueue_def jsonError_def)
    next
      case (Inr q)
      with Pending_Add_Inr p have "ps = (kq_store s)\<lparr>ps_items := ps_items (kq_store s) @ [q]\<rparr>
          \<and> pk_ID q = kv_uuid env \<and> pk_Status q = PendingStatusPending
          \<and> pk_Email q = ki_Email inp \<and> pk_Company q = ki_Company inp \<and> pk_IntendedUse q = ki_IntendedUse inp"
        by blast
      with validate_ok [OF True] Inr p Some True assms show ?thesis
        by (auto simp: kreq_enqueue_def proper_request_def)
    qed
  qed
qed

text \<open>
  What enters the review queue. An anonymous request is answered 202 only if it is
  a POST whose fields are within their limits, with an address the parser accepts, a non-blank
  purpose, and, in the two free-text fields that an operator will read, no control byte but
  tab and newline and no invisible formatting character; it then enters the queue exactly
  once, as undecided. Any other request leaves the queue as it was.
\<close>

theorem review_queue_intake:
  assumes "NewKeyRequestHandler ro cd validMail cfg env r s = (resp, s')"
  shows "rp_status resp \<noteq> 202 \<and> kq_store s' = kq_store s
       \<or> rp_status resp = 202 \<and> Method r = ''POST''
         \<and> (\<exists>q. ps_items (kq_store s') = ps_items (kq_store s) @ [q]
              \<and> pk_Status q = PendingStatusPending \<and> proper_request validMail q)"
proof -
  obtain ok s1 where t: "kreq_throttle ro (kv_now env)
      (clientIP r (kc_TrustProxy cfg) (kc_TrustedProxyHops cfg)) s = (ok, s1)" by fastforce
  have s1: "kq_store s1 = kq_store s"
    using throttle_store [of ro "kv_now env" "clientIP r (kc_TrustProxy cfg) (kc_TrustedProxyHops cfg)" s]
    unfolding t by simp
  let ?mb = "if kc_MaxBodyBytes cfg = 0 then 16 * 1024 else kc_MaxBodyBytes cfg"
  consider "kq_store s' = kq_store s" "rp_status resp \<noteq> 202"
    | "Method r = ''POST''" "kreq_enqueue cd validMail ?mb env
        (clientIP r (kc_TrustProxy cfg) (kc_TrustedProxyHops cfg)) s1 = (resp, s')"
    using assms s1 unfolding NewKeyRequestHandler_def Let_def t
    by (simp add: jsonError_def writeRateLimited_def split: if_split_asm) fastforce+
  then show ?thesis
  proof cases
    case 1
    then show ?thesis by simp
  next
    case 2
    with enqueue_cases [OF 2(2)] s1 show ?thesis by simp
  qed
qed


definition sample_request :: Request where
  "sample_request = \<lparr>Method = ''POST'', Path = ''/api/v1/keys/request'', RemoteAddr = ''10.0.0.9:1'', Header = (\<lambda>_. [])\<rparr>"

definition sample_env :: "PendingKeyRequest list option kreq_env" where
  "sample_env =
     \<lparr>kv_now = 5, kv_uuid = ''u1'', kv_io = steady_io,
      kv_decode = (\<lambda>_. Some \<lparr>ki_Email = ''a@b'', ki_Company = [], ki_IntendedUse = ''x''\<rparr>)\<rparr>"

definition sample_state :: "(unit, nat, PendingKeyRequest list option) kreq_state" where
  "sample_state = \<lparr>kq_limiter = None, kq_store = empty_queue, kq_fs = (\<lambda>_. None)\<rparr>"

lemma sample_valid:
  "validateKeyRequest (\<lambda>_. True) \<lparr>ki_Email = ''a@b'', ki_Company = [], ki_IntendedUse = ''x''\<rparr> = []"
proof -
  have "runes [120] = [120]" "runes [] = []"
    by (simp_all add: runes.simps decodeRune.simps)
  then have "\<not> hasDisallowedControlChars ''x''" "\<not> hasDisallowedControlChars []"
    by (simp_all add: hasDisallowedControlChars_def range_runes_def IsControl_def In_Cf_def Cf_ranges_def)
  then show ?thesis
    by (simp add: validateKeyRequest_def TrimSpace_visible keyRequestMaxEmailLen_def
        keyRequestMaxIntendedUseLen_def keyRequestMaxCompanyLen_def)
qed

theorem review_queue_intake_witness:
  "\<exists>q. ps_items (kq_store (snd (NewKeyRequestHandler counting_rate plain_pending (\<lambda>_. True)
          \<lparr>kc_MaxBodyBytes = 0, kc_TrustProxy = False, kc_TrustedProxyHops = 1\<rparr> sample_env sample_request sample_state)))
       = [q] \<and> proper_request (\<lambda>_. True) q"
proof -
  let ?cfg = "\<lparr>kc_MaxBodyBytes = 0, kc_TrustProxy = False, kc_TrustedProxyHops = 1\<rparr>"
  obtain resp s' where r: "NewKeyRequestHandler counting_rate plain_pending (\<lambda>_. True) ?cfg sample_env
      sample_request sample_state = (resp, s')" by fastforce
  have "rp_status resp = 202"
    using r by (auto simp: NewKeyRequestHandler_def kreq_throttle_def kreq_enqueue_def sample_request_def
        sample_env_def sample_state_def sample_valid Pending_Add_def pending_save_def withExclusiveLock_def
        writePendingAtomic_def empty_queue_def plain_pending_def steady_io_def Let_def)
  with review_queue_intake [OF r] show ?thesis
    unfolding r by (auto simp: sample_state_def empty_queue_def)
qed

end
