(* ===== verification/Admin.thy ===== *)
theory Admin
  imports Key_Postgres Key_Request Write_Relay
begin

text \<open>
  The administration API (\<^verbatim>\<open>internal/mcp/admin.go\<close>, \<^verbatim>\<open>admin_keys_pending.go\<close>,
  \<^verbatim>\<open>admin_signer_blacklist.go\<close>, \<^verbatim>\<open>admin_write_audit.go\<close>, \<^verbatim>\<open>admin_audit.go\<close>,
  \<^verbatim>\<open>admin_identity.go\<close>) and the loading of the administrators' keys
  (\<^verbatim>\<open>cmd/nvnm-mcp-server/admin_keys.go\<close>).

  A request arrives routed, with its path value and its decoded body (\<open>None\<close> when the JSON does
  not decode). The key store behind the API is any implementation of the operations
  \<open>key_ops\<close>; the locale \<open>key_admin\<close> states what the handlers rely on, and it is interpreted on
  the file store and on the Postgres store. Time formatting and \<^verbatim>\<open>time.ParseDuration\<close> are
  parameters; log lines are left out.
\<close>

section \<open>Administrators\<close>

record adminKeyEntry =
  ak_ID :: string
  ak_Key :: string

definition ErrAdminKeyEmptyID :: goerr where
  "ErrAdminKeyEmptyID = PkgErr ''ErrAdminKeyEmptyID'' ''admin key entry has empty id''"
definition ErrAdminKeyEmptyKey :: goerr where
  "ErrAdminKeyEmptyKey = PkgErr ''ErrAdminKeyEmptyKey'' ''admin key entry has empty key''"
definition ErrAdminKeyDuplicateID :: goerr where
  "ErrAdminKeyDuplicateID = PkgErr ''ErrAdminKeyDuplicateID'' ''duplicate admin key id''"

definition ErrAdminKeyDuplicateHash :: goerr where
  "ErrAdminKeyDuplicateHash = PkgErr ''ErrAdminKeyDuplicateHash'' ''admin key entry has duplicate key''"
definition ErrAdminKeyNoneConfigured :: goerr where
  "ErrAdminKeyNoneConfigured = PkgErr ''ErrAdminKeyNoneConfigured''
     ''no admin keys configured (ADMIN_API_KEY empty and ADMIN_API_KEYS_FILE has no entries)''"

text \<open>
  The identity map, from digest to administrator, is an association list with distinct keys.
  \<open>sha\<close> is SHA-256; the file, when one is configured, is its path and what reading and parsing
  it gave.
\<close>

fun addAdminRows ::
  "(string \<Rightarrow> string) \<Rightarrow> (bytes \<Rightarrow> bytes) \<Rightarrow> string \<Rightarrow> adminKeyEntry list
     \<Rightarrow> (bytes \<times> string) list \<Rightarrow> string list \<Rightarrow> goerr + (bytes \<times> string) list" where
  "addAdminRows uq sha file [] keys ids = Inr keys"
| "addAdminRows uq sha file (e # es) keys ids =
     (let err = (\<lambda>s rest. Inl (Errorf (Error s @ '': file '' @ Quote uq file @ rest) [s]));
          idText = '', id '' @ Quote uq (ak_ID e)
      in if ak_ID e = '''' then err ErrAdminKeyEmptyID ''''
         else if ak_Key e = '''' then err ErrAdminKeyEmptyKey idText
         else if ak_ID e \<in> set ids then err ErrAdminKeyDuplicateID idText
         else if sha (ak_Key e) \<in> fst ` set keys then err ErrAdminKeyDuplicateHash idText
         else addAdminRows uq sha file es (keys @ [(sha (ak_Key e), ak_ID e)]) (ids @ [ak_ID e]))"

definition loadAdminKeys ::
  "(string \<Rightarrow> string) \<Rightarrow> (bytes \<Rightarrow> bytes) \<Rightarrow> string \<Rightarrow> (string \<times> (goerr + (goerr + adminKeyEntry list))) option
     \<Rightarrow> goerr + (bytes \<times> string) list" where
  "loadAdminKeys uq sha adminKey file =
     (let keys = (if adminKey \<noteq> '''' then [(sha adminKey, ''admin'')] else []);
          ids = (if adminKey \<noteq> '''' then [''admin''] else []);
          nonEmpty = (\<lambda>ks. if ks = [] then Inl ErrAdminKeyNoneConfigured else Inr ks)
      in case file of
           None \<Rightarrow> nonEmpty keys
         | Some (path, Inl err) \<Rightarrow> Inl (wrapf ''read admin keys file'' err)
         | Some (path, Inr (Inl err)) \<Rightarrow> Inl (wrapf ''parse admin keys file'' err)
         | Some (path, Inr (Inr entries)) \<Rightarrow>
             (case addAdminRows uq sha path entries keys ids of
                Inl err \<Rightarrow> Inl err
              | Inr ks \<Rightarrow> nonEmpty ks))"

section \<open>The key store behind the API\<close>

record 's key_ops =
  ko_Create :: "string \<Rightarrow> string list \<Rightarrow> time \<Rightarrow> 's \<Rightarrow> (goerr + KeySummary \<times> string) \<times> 's"
  ko_Update :: "string \<Rightarrow> KeyUpdate \<Rightarrow> 's \<Rightarrow> (goerr + KeySummary) \<times> 's"
  ko_Delete :: "string \<Rightarrow> 's \<Rightarrow> goerr option \<times> 's"
  ko_List :: "'s \<Rightarrow> KeySummary list"

record 'd managed_env =
  me_now :: time
  me_rnd :: "goerr + bytes"
  me_ioCreate :: "'d io"
  me_io :: "'d io"

definition managed_ops ::
  "(string \<Rightarrow> string) \<Rightarrow> digests \<Rightarrow> 'd codec \<Rightarrow> 'd managed_env \<Rightarrow> (ManagedKeyStore \<times> 'd fsys) key_ops" where
  "managed_ops uq dg cd e =
     \<lparr>ko_Create = (\<lambda>cid roles t (m, fs).
        Create uq dg cd (me_ioCreate e) (me_now e) (me_rnd e) cid roles t m fs),
      ko_Update = (\<lambda>cid upd (m, fs). Update uq dg cd (me_io e) cid upd m fs),
      ko_Delete = (\<lambda>cid (m, fs). Delete uq dg cd (me_io e) cid m fs),
      ko_List = (\<lambda>(m, fs). List_summaries m)\<rparr>"

definition pg_List :: "pg_env \<Rightarrow> pg_table \<Rightarrow> KeySummary list" where
  "pg_List env t = (if pe_query env \<noteq> None then [] else map summarize (sort_key ke_CreatedAt t))"

record pg_admin_env =
  pa_env :: pg_env
  pa_rnd :: "goerr + bytes"

definition pg_ops ::
  "(string \<Rightarrow> string) \<Rightarrow> (time \<Rightarrow> time) \<Rightarrow> digests \<Rightarrow> KeyHasher option \<Rightarrow> pg_admin_env \<Rightarrow> pg_table key_ops" where
  "pg_ops uq tz dg h e =
     \<lparr>ko_Create = pg_Create uq tz dg h (pa_env e) (pa_rnd e),
      ko_Update = pg_Update uq tz (pa_env e),
      ko_Delete = pg_Delete uq (pa_env e),
      ko_List = pg_List (pa_env e)\<rparr>"

section \<open>State and requests\<close>

record AdminAuditEntry =
  aa_ActorID :: string
  aa_Action :: string
  aa_Target :: string
  aa_Detail :: string
  aa_Outcome :: string

record 'd admin_aux =
  ax_pending :: "PendingKeyStore option"
  ax_fs :: "'d fsys"
  ax_db :: write_db
  ax_adminAudit :: "AdminAuditEntry list option"
  ax_mail :: "(string \<times> string \<times> string) list"

type_synonym ('s, 'd) admin_state = "'s \<times> 'd admin_aux"

record admin_cfg =
  ac_uq :: "string \<Rightarrow> string"
  ac_ul :: "string \<Rightarrow> string"
  ac_sha :: "bytes \<Rightarrow> bytes"
  ac_parseDuration :: "string \<Rightarrow> goerr + duration"
  ac_fmt :: "time \<Rightarrow> string"
  ac_keys :: "(bytes \<times> string) list"
  ac_defaultTTL :: duration
  ac_email :: bool
  ac_blacklist :: bool
  ac_writeAudit :: bool

record 'd admin_env =
  ae_now :: time
  ae_dbnow :: time
  ae_io :: "'d io"
  ae_pcodec :: "'d pending_codec"
  ae_blErr :: "goerr option"
  ae_queryErr :: "goerr option"
  ae_auditErr :: "goerr option"
  ae_mailErr :: "goerr option"

record createRequest =
  cr_ClientID :: string
  cr_Roles :: "string list"
  cr_TTL :: "string option"

record updateRequest =
  ur_Enabled :: "bool option"
  ur_Roles :: "string list option"
  ur_TTL :: "string option"

record addBlacklistRequest =
  br_Signer :: string
  br_Reason :: string

datatype admin_route =
    R_List
  | R_Create "createRequest option"
  | R_Update string "updateRequest option"
  | R_Delete string
  | R_ListPending
  | R_Approve string
  | R_Reject string bool "string option"
  | R_WriteAudit string "(goerr + time) option" "(goerr + time) option" string
  | R_ListBlacklist
  | R_AddBlacklist "addBlacklistRequest option"
  | R_DeleteBlacklist string

record pendingItemSummary =
  pi_ID :: string
  pi_Email :: string
  pi_Company :: string
  pi_IntendedUse :: string
  pi_Status :: string
  pi_CreatedAt :: string
  pi_DecidedAt :: string
  pi_DeciderID :: string
  pi_KeyID :: string
  pi_RemoteAddr :: string

datatype admin_body =
    B_None
  | B_Error string
  | B_Plain string
  | B_Created KeySummary string
  | B_Summary KeySummary
  | B_Summaries "KeySummary list"
  | B_Pending "pendingItemSummary list"
  | B_Approved string string string string bool
  | B_Rejected string string bool
  | B_WriteAudit "WriteAuditEntry list"
  | B_Blacklist "BlacklistEntry list"

record admin_reply =
  ad_status :: nat
  ad_body :: admin_body

definition writeError :: "nat \<Rightarrow> string \<Rightarrow> admin_reply" where
  "writeError code msg = \<lparr>ad_status = code, ad_body = B_Error msg\<rparr>"

definition plainError :: "nat \<Rightarrow> string \<Rightarrow> admin_reply" where
  "plainError code msg = \<lparr>ad_status = code, ad_body = B_Plain msg\<rparr>"

definition recordAdminAudit ::
  "'d admin_env \<Rightarrow> string \<Rightarrow> string \<Rightarrow> string \<Rightarrow> string \<Rightarrow> string \<Rightarrow> 'd admin_aux \<Rightarrow> 'd admin_aux" where
  "recordAdminAudit env actor action target detail outcome x =
     (case ax_adminAudit x of
        None \<Rightarrow> x
      | Some rows \<Rightarrow>
          if ae_auditErr env \<noteq> None then x
          else x\<lparr>ax_adminAudit := Some (rows @
                 [\<lparr>aa_ActorID = actor, aa_Action = action, aa_Target = target, aa_Detail = detail,
                   aa_Outcome = outcome\<rparr>])\<rparr>)"


section \<open>Key handlers\<close>

definition validateRoles :: "string list \<Rightarrow> bool" where
  "validateRoles roles = list_all IsValidRole roles"

definition errTTLNotPositive :: goerr where
  "errTTLNotPositive = PkgErr ''errTTLNotPositive'' ''ttl must be positive''"

definition resolveExpiry :: "admin_cfg \<Rightarrow> string option \<Rightarrow> time \<Rightarrow> goerr + time" where
  "resolveExpiry cfg ttl now =
     (case ttl of
        None \<Rightarrow> if ac_defaultTTL cfg = 0 then Inr zeroTime else Inr (now + ac_defaultTTL cfg)
      | Some t \<Rightarrow>
          if t = ''0'' \<or> t = ''none'' \<or> t = ''never'' then Inr zeroTime
          else (case ac_parseDuration cfg t of
                  Inl err \<Rightarrow>
                    Inl (Errorf (''invalid ttl '' @ Quote (ac_uq cfg) t @ '': '' @ Error err) [err])
                | Inr d \<Rightarrow>
                    if d \<le> 0
                    then Inl (Errorf (Error errTTLNotPositive @ '': got '' @ Quote (ac_uq cfg) t) [errTTLNotPositive])
                    else Inr (now + d)))"

definition rolesMessage :: string where
  "rolesMessage = ''roles must be one or more of: reader, writer, admin, automation''"

definition handleCreate ::
  "admin_cfg \<Rightarrow> 's key_ops \<Rightarrow> 'd admin_env \<Rightarrow> string \<Rightarrow> createRequest option
     \<Rightarrow> ('s, 'd) admin_state \<Rightarrow> admin_reply \<times> ('s, 'd) admin_state" where
  "handleCreate cfg ops env actor input st =
     (case st of (s, x) \<Rightarrow>
      (case input of
         None \<Rightarrow> (writeError 400 ''invalid JSON body'', st)
       | Some req \<Rightarrow>
           if cr_ClientID req = '''' then (writeError 400 ''client_id is required'', st)
           else if cr_Roles req = [] then
             (writeError 400 ''at least one role is required; a key with no roles authorizes nothing'', st)
           else if \<not> validateRoles (cr_Roles req) then (writeError 400 rolesMessage, st)
           else
             (case resolveExpiry cfg (cr_TTL req) (ae_now env) of
                Inl err \<Rightarrow> (writeError 400 (Error err), st)
              | Inr expiresAt \<Rightarrow>
                  (case ko_Create ops (cr_ClientID req) (cr_Roles req) expiresAt s of
                     (Inl err, s') \<Rightarrow>
                       if Is err ErrClientExists then (writeError 409 (Error err), (s', x))
                       else (writeError 500 ''internal error'',
                             (s', recordAdminAudit env actor ''key.create'' (cr_ClientID req) '''' ''error'' x))
                   | (Inr (su, rawKey), s') \<Rightarrow>
                       (\<lparr>ad_status = 201, ad_body = B_Created su rawKey\<rparr>,
                        (s', recordAdminAudit env actor ''key.create'' (cr_ClientID req)
                               (''roles='' @ Join '','' (cr_Roles req)) ''ok'' x))))))"

definition updateAuditDetail :: "updateRequest \<Rightarrow> string" where
  "updateAuditDetail req =
     ''fields='' @ Join '',''
       ((if ur_Enabled req \<noteq> None then [''enabled''] else [])
        @ (if ur_Roles req \<noteq> None then [''roles''] else [])
        @ (if ur_TTL req \<noteq> None then [''ttl''] else []))"

text \<open>The validation of a PATCH: the first complaint, or the update to apply.\<close>

definition updateOf :: "admin_cfg \<Rightarrow> time \<Rightarrow> updateRequest \<Rightarrow> string + KeyUpdate" where
  "updateOf cfg now req =
     (if ur_Enabled req = None \<and> ur_Roles req = None \<and> ur_TTL req = None then
        Inl ''at least one of enabled, roles, or ttl must be provided''
      else if ur_Roles req = Some [] then
        Inl ''roles cannot be cleared; use enabled:false to deactivate a key''
      else if \<not> (case ur_Roles req of None \<Rightarrow> True | Some rs \<Rightarrow> validateRoles rs) then Inl rolesMessage
      else
        (let upd = \<lparr>up_Enabled = ur_Enabled req, up_Roles = ur_Roles req, up_ExpiresAt = None\<rparr> in
         case ur_TTL req of
           None \<Rightarrow> Inr upd
         | Some t \<Rightarrow>
             (case resolveExpiry cfg (Some t) now of
                Inl err \<Rightarrow> Inl (Error err)
              | Inr expt \<Rightarrow> Inr (upd\<lparr>up_ExpiresAt := Some expt\<rparr>))))"

definition handleUpdate ::
  "admin_cfg \<Rightarrow> 's key_ops \<Rightarrow> 'd admin_env \<Rightarrow> string \<Rightarrow> string \<Rightarrow> updateRequest option
     \<Rightarrow> ('s, 'd) admin_state \<Rightarrow> admin_reply \<times> ('s, 'd) admin_state" where
  "handleUpdate cfg ops env actor clientID input st =
     (case st of (s, x) \<Rightarrow>
      if clientID = '''' then (writeError 400 ''client id is required in path'', st)
      else case input of
        None \<Rightarrow> (writeError 400 ''invalid JSON body'', st)
      | Some req \<Rightarrow>
          (case updateOf cfg (ae_now env) req of
             Inl msg \<Rightarrow> (writeError 400 msg, st)
           | Inr upd \<Rightarrow>
               (case ko_Update ops clientID upd s of
                  (Inl err, s') \<Rightarrow>
                    if Is err ErrClientMissing then (writeError 404 (Error err), (s', x))
                    else (writeError 500 ''internal error'', (s', x))
                | (Inr summary, s') \<Rightarrow>
                    (\<lparr>ad_status = 200, ad_body = B_Summary summary\<rparr>,
                     (s', recordAdminAudit env actor ''key.update'' clientID (updateAuditDetail req) ''ok'' x)))))"

definition handleDelete ::
  "'s key_ops \<Rightarrow> 'd admin_env \<Rightarrow> string \<Rightarrow> string
     \<Rightarrow> ('s, 'd) admin_state \<Rightarrow> admin_reply \<times> ('s, 'd) admin_state" where
  "handleDelete ops env actor clientID st =
     (case st of (s, x) \<Rightarrow>
      if clientID = '''' then (writeError 400 ''client id is required in path'', st)
      else case ko_Delete ops clientID s of
             (Some err, s') \<Rightarrow>
               if Is err ErrClientMissing then (writeError 404 (Error err), (s', x))
               else (writeError 500 ''internal error'', (s', x))
           | (None, s') \<Rightarrow>
               (\<lparr>ad_status = 204, ad_body = B_None\<rparr>,
                (s', recordAdminAudit env actor ''key.delete'' clientID '''' ''ok'' x)))"

definition handleList ::
  "'s key_ops \<Rightarrow> ('s, 'd) admin_state \<Rightarrow> admin_reply \<times> ('s, 'd) admin_state" where
  "handleList ops st = (\<lparr>ad_status = 200, ad_body = B_Summaries (ko_List ops (fst st))\<rparr>, st)"

section \<open>Pending requests\<close>

definition toSummary :: "admin_cfg \<Rightarrow> PendingKeyRequest \<Rightarrow> pendingItemSummary" where
  "toSummary cfg r =
     \<lparr>pi_ID = pk_ID r, pi_Email = pk_Email r, pi_Company = pk_Company r,
      pi_IntendedUse = pk_IntendedUse r, pi_Status = pk_Status r, pi_CreatedAt = ac_fmt cfg (pk_CreatedAt r),
      pi_DecidedAt = (case pk_DecidedAt r of None \<Rightarrow> '''' | Some t \<Rightarrow> ac_fmt cfg t),
      pi_DeciderID = pk_DeciderID r, pi_KeyID = pk_KeyID r, pi_RemoteAddr = pk_RemoteAddr r\<rparr>"

definition handleListPending ::
  "admin_cfg \<Rightarrow> ('s, 'd) admin_state \<Rightarrow> admin_reply \<times> ('s, 'd) admin_state" where
  "handleListPending cfg st =
     (case ax_pending (snd st) of
        None \<Rightarrow> (writeError 503 (''pending key store is not configured '' @
                  ''(set NVNM_KEY_REQUEST_ENABLED + NVNM_KEY_PENDING_FILE)''), st)
      | Some ps \<Rightarrow> (\<lparr>ad_status = 200, ad_body = B_Pending (map (toSummary cfg) (Pending_List ps))\<rparr>, st))"

definition nl :: string where
  "nl = [CHR 0x0A]"

definition approvalEmailBody :: "string \<Rightarrow> string" where
  "approvalEmailBody rawKey =
     ''Hello,'' @ nl @ nl @ ''Your request for an NVNM Chain MCP Server API key has been approved.'' @ nl @ nl @
     ''Your API key:'' @ nl @ nl @ ''    '' @ rawKey @ nl @ nl @
     ''Use it as a Bearer token on requests to the MCP server:'' @ nl @ nl @
     ''    Authorization: Bearer <your-key>'' @ nl @ nl @
     ''If you did not request this key, please contact security@nvnmchain.io.'' @ nl @ nl @
     ''Welcome to the closed beta.'' @ nl"

definition rejectionEmailBody :: "string \<Rightarrow> string" where
  "rejectionEmailBody reason =
     ''Hello,'' @ nl @ nl @ ''Your recent NVNM Chain MCP Server API key request was not approved at this time.'' @
     (if reason = '''' then
        '' You can re-apply after addressing any concerns; reply to this email if you have questions.'' @ nl
      else nl @ nl @ ''Reason: '' @ reason @ nl @ nl @
        ''You can re-apply after addressing the concern; reply to this email if you have questions.'' @ nl)"

text \<open>\<open>sendMail\<close>: whether the notice was delivered; the mails that were.\<close>

definition sendMail ::
  "admin_cfg \<Rightarrow> 'd admin_env \<Rightarrow> string \<Rightarrow> string \<Rightarrow> string \<Rightarrow> 'd admin_aux \<Rightarrow> bool \<times> 'd admin_aux" where
  "sendMail cfg env to subject text x =
     (if ac_email cfg \<and> ae_mailErr env = None
      then (True, x\<lparr>ax_mail := ax_mail x @ [(to, subject, text)]\<rparr>) else (False, x))"

definition adminActor :: "string \<Rightarrow> string" where
  "adminActor aid = (if aid = '''' then ''admin'' else aid)"

text \<open>
  The approval in the order of the code: the checks, the new key, the decision; when the
  decision fails, the deletion of the key; otherwise the notice and the audit row.
\<close>

definition handleApprovePending ::
  "admin_cfg \<Rightarrow> 's key_ops \<Rightarrow> 'd admin_env \<Rightarrow> string \<Rightarrow> string
     \<Rightarrow> ('s, 'd) admin_state \<Rightarrow> admin_reply \<times> ('s, 'd) admin_state" where
  "handleApprovePending cfg ops env actor rid st =
     (case st of (s, x) \<Rightarrow>
      (case ax_pending x of
         None \<Rightarrow> (writeError 503 ''pending key store is not configured'', st)
       | Some ps \<Rightarrow>
           if rid = '''' then (writeError 400 ''missing request id'', st)
           else case Pending_Get rid ps of
             None \<Rightarrow> (writeError 404 ''pending request not found'', st)
           | Some req \<Rightarrow>
               if pk_Status req \<noteq> PendingStatusPending
               then (writeError 409 (''request already decided: status='' @ Quote (ac_uq cfg) (pk_Status req)), st)
               else case ko_Create ops (''pending:'' @ pk_ID req) [''reader''] zeroTime s of
                 (Inl err, s1) \<Rightarrow> (writeError 500 ''key mint failed'', (s1, x))
               | (Inr (su, rawKey), s1) \<Rightarrow>
                   (case Decide (ac_uq cfg) (ae_pcodec env) (ae_io env) (ae_now env) (pk_ID req)
                           PendingStatusApproved actor (su_ID su) ps (ax_fs x) of
                      (Inl err, ps', fs') \<Rightarrow>
                        (case ko_Delete ops (su_ID su) s1 of
                           (_, s2) \<Rightarrow>
                             (writeError (if Is err ErrPendingNotPending \<or> Is err ErrPendingNotFound
                                          then 409 else 500) (Error err),
                              (s2, x\<lparr>ax_pending := Some ps', ax_fs := fs'\<rparr>)))
                    | (Inr decided, ps', fs') \<Rightarrow>
                        (case sendMail cfg env (pk_Email req)
                                ''Your NVNM Chain MCP Server API key request was approved''
                                (approvalEmailBody rawKey) (x\<lparr>ax_pending := Some ps', ax_fs := fs'\<rparr>) of
                           (delivered, x1) \<Rightarrow>
                             (\<lparr>ad_status = 200,
                               ad_body = B_Approved (pk_ID decided) (pk_Status decided) (su_ID su) rawKey delivered\<rparr>,
                              (s1, recordAdminAudit env actor ''pending.approve'' (pk_ID req)
                                     (''client_id='' @ su_ID su @ '',roles=reader'') ''ok'' x1))))))"

text \<open>\<open>hasBody\<close>: the request has a body; \<open>reason\<close>: what it decodes to.\<close>

definition handleRejectPending ::
  "admin_cfg \<Rightarrow> 'd admin_env \<Rightarrow> string \<Rightarrow> string \<Rightarrow> bool \<Rightarrow> string option
     \<Rightarrow> ('s, 'd) admin_state \<Rightarrow> admin_reply \<times> ('s, 'd) admin_state" where
  "handleRejectPending cfg env actor rid hasBody decoded st =
     (case st of (s, x) \<Rightarrow>
      (case ax_pending x of
         None \<Rightarrow> (writeError 503 ''pending key store is not configured'', st)
       | Some ps \<Rightarrow>
           if rid = '''' then (writeError 400 ''missing request id'', st)
           else case (if hasBody then decoded else Some '''') of
             None \<Rightarrow> (writeError 400 ''invalid JSON body'', st)
           | Some reason \<Rightarrow>
               (case Decide (ac_uq cfg) (ae_pcodec env) (ae_io env) (ae_now env) rid
                       PendingStatusRejected actor '''' ps (ax_fs x) of
                  (Inl err, ps', fs') \<Rightarrow>
                    (writeError (if Is err ErrPendingNotFound then 404
                                 else if Is err ErrPendingNotPending then 409 else 500) (Error err),
                     (s, x\<lparr>ax_pending := Some ps', ax_fs := fs'\<rparr>))
                | (Inr decided, ps', fs') \<Rightarrow>
                    (case sendMail cfg env (pk_Email decided)
                            ''Update on your NVNM Chain MCP Server API key request''
                            (rejectionEmailBody reason) (x\<lparr>ax_pending := Some ps', ax_fs := fs'\<rparr>) of
                       (delivered, x1) \<Rightarrow>
                         (\<lparr>ad_status = 200,
                           ad_body = B_Rejected (pk_ID decided) (pk_Status decided) delivered\<rparr>,
                          (s, recordAdminAudit env actor ''pending.reject'' rid (''reason='' @ reason) ''ok'' x1))))))"


section \<open>Ban list and audit queries\<close>

definition handleListBlacklist ::
  "admin_cfg \<Rightarrow> 'd admin_env \<Rightarrow> ('s, 'd) admin_state \<Rightarrow> admin_reply \<times> ('s, 'd) admin_state" where
  "handleListBlacklist cfg env st =
     (if \<not> ac_blacklist cfg then (plainError 404 ''signer blacklist not configured'', st)
      else case Blacklist_List (ae_blErr env) (ax_db (snd st)) of
             Inl err \<Rightarrow> (plainError 500 ''list failed'', st)
           | Inr entries \<Rightarrow> (\<lparr>ad_status = 200, ad_body = B_Blacklist entries\<rparr>, st))"

definition handleAddBlacklist ::
  "admin_cfg \<Rightarrow> 'd admin_env \<Rightarrow> string \<Rightarrow> addBlacklistRequest option
     \<Rightarrow> ('s, 'd) admin_state \<Rightarrow> admin_reply \<times> ('s, 'd) admin_state" where
  "handleAddBlacklist cfg env actor input st =
     (case st of (s, x) \<Rightarrow>
      if \<not> ac_blacklist cfg then (plainError 404 ''signer blacklist not configured'', st)
      else case input of
        None \<Rightarrow> (plainError 400 ''invalid JSON body'', st)
      | Some req \<Rightarrow>
          if AddressFromHex (br_Signer req) = None
          then (plainError 400 ''signer is not a valid address'', st)
          else
            (case Blacklist_Add (ac_ul cfg) (ae_blErr env) (ae_dbnow env) (br_Signer req) (br_Reason req) (ax_db x) of
               (Some err, db) \<Rightarrow> (plainError 500 ''add failed'', (s, x\<lparr>ax_db := db\<rparr>))
             | (None, db) \<Rightarrow>
                 (\<lparr>ad_status = 200, ad_body = B_None\<rparr>,
                  (s, recordAdminAudit env actor ''blacklist.add'' (br_Signer req)
                        (''reason='' @ br_Reason req) ''ok'' (x\<lparr>ax_db := db\<rparr>)))))"

definition handleDeleteBlacklist ::
  "admin_cfg \<Rightarrow> 'd admin_env \<Rightarrow> string \<Rightarrow> string
     \<Rightarrow> ('s, 'd) admin_state \<Rightarrow> admin_reply \<times> ('s, 'd) admin_state" where
  "handleDeleteBlacklist cfg env actor signer st =
     (case st of (s, x) \<Rightarrow>
      if \<not> ac_blacklist cfg then (plainError 404 ''signer blacklist not configured'', st)
      else if signer = '''' then (plainError 400 ''signer is required in path'', st)
      else
        (case Blacklist_Remove (ac_ul cfg) (ae_blErr env) signer (ax_db x) of
           (Some err, db) \<Rightarrow> (plainError 500 ''remove failed'', (s, x\<lparr>ax_db := db\<rparr>))
         | (None, db) \<Rightarrow>
             (\<lparr>ad_status = 200, ad_body = B_None\<rparr>,
              (s, recordAdminAudit env actor ''blacklist.remove'' signer '''' ''ok'' (x\<lparr>ax_db := db\<rparr>)))))"

definition timeParam :: "(goerr + time) option \<Rightarrow> time option" where
  "timeParam p = (case p of Some (Inr t) \<Rightarrow> Some t | _ \<Rightarrow> None)"

definition badTime :: "(goerr + time) option \<Rightarrow> bool" where
  "badTime p = (case p of Some (Inl _) \<Rightarrow> True | _ \<Rightarrow> False)"

definition handleWriteAudit ::
  "admin_cfg \<Rightarrow> 'd admin_env \<Rightarrow> string \<Rightarrow> (goerr + time) option \<Rightarrow> (goerr + time) option \<Rightarrow> string
     \<Rightarrow> ('s, 'd) admin_state \<Rightarrow> admin_reply \<times> ('s, 'd) admin_state" where
  "handleWriteAudit cfg env signer frm till limit st =
     (if \<not> ac_writeAudit cfg then (plainError 404 ''write audit not configured'', st)
      else if badTime frm then (plainError 400 ''invalid 'from' (want RFC3339)'', st)
      else if badTime till then (plainError 400 ''invalid 'to' (want RFC3339)'', st)
      else
        (case (if limit = '''' then Some 0 else Atoi limit) of
           None \<Rightarrow> (plainError 400 (''invalid 'limit'' @ [CHR 0x27]), st)
         | Some n \<Rightarrow>
             if n < 0 then (plainError 400 (''invalid 'limit'' @ [CHR 0x27]), st)
             else
               (case WriteAudit_Query (ac_ul cfg) (ae_queryErr env)
                       \<lparr>wf_Signer = signer, wf_From = timeParam frm, wf_To = timeParam till, wf_Limit = n\<rparr>
                       (ax_db (snd st)) of
                  Inl err \<Rightarrow> (plainError 500 ''query failed'', st)
                | Inr entries \<Rightarrow> (\<lparr>ad_status = 200, ad_body = B_WriteAudit entries\<rparr>, st))))"

section \<open>The server\<close>

definition admin_dispatch ::
  "admin_cfg \<Rightarrow> 's key_ops \<Rightarrow> 'd admin_env \<Rightarrow> string \<Rightarrow> admin_route
     \<Rightarrow> ('s, 'd) admin_state \<Rightarrow> admin_reply \<times> ('s, 'd) admin_state" where
  "admin_dispatch cfg ops env actor route st =
     (case route of
        R_List \<Rightarrow> handleList ops st
      | R_Create req \<Rightarrow> handleCreate cfg ops env actor req st
      | R_Update cid req \<Rightarrow> handleUpdate cfg ops env actor cid req st
      | R_Delete cid \<Rightarrow> handleDelete ops env actor cid st
      | R_ListPending \<Rightarrow> handleListPending cfg st
      | R_Approve rid \<Rightarrow> handleApprovePending cfg ops env actor rid st
      | R_Reject rid b reason \<Rightarrow> handleRejectPending cfg env actor rid b reason st
      | R_WriteAudit sg frm till limit \<Rightarrow> handleWriteAudit cfg env sg frm till limit st
      | R_ListBlacklist \<Rightarrow> handleListBlacklist cfg env st
      | R_AddBlacklist req \<Rightarrow> handleAddBlacklist cfg env actor req st
      | R_DeleteBlacklist sg \<Rightarrow> handleDeleteBlacklist cfg env actor sg st)"

text \<open>
  \<open>adminAuth\<close> compares the digest of the bearer with every entry; a later match overrides an
  earlier one, but the digests of the map are distinct.
\<close>

definition matchAdmin :: "bytes \<Rightarrow> (bytes \<times> string) list \<Rightarrow> bool \<times> string" where
  "matchAdmin got keys = foldl (\<lambda>(m, i) (h, aid). if h = got then (True, aid) else (m, i)) (False, '''') keys"

definition bearerPrefix :: string where
  "bearerPrefix = ''Bearer ''"

definition adminAuth ::
  "admin_cfg \<Rightarrow> string \<Rightarrow> (string \<Rightarrow> ('s, 'd) admin_state \<Rightarrow> admin_reply \<times> ('s, 'd) admin_state)
     \<Rightarrow> ('s, 'd) admin_state \<Rightarrow> admin_reply \<times> ('s, 'd) admin_state" where
  "adminAuth cfg authHeader next st =
     (if authHeader = '''' then
        (plainError 401 (''{'' @ dq @ ''error'' @ dq @ '':'' @ dq @ ''missing Authorization header'' @ dq @ ''}''), st)
      else if \<not> HasPrefix authHeader bearerPrefix then
        (plainError 401 (''{'' @ dq @ ''error'' @ dq @ '':'' @ dq
           @ ''invalid Authorization scheme; expected Bearer'' @ dq @ ''}''), st)
      else
        (case matchAdmin (ac_sha cfg (TrimPrefix authHeader bearerPrefix)) (ac_keys cfg) of
           (matched, aid) \<Rightarrow>
             if \<not> matched then
               (plainError 401 (''{'' @ dq @ ''error'' @ dq @ '':'' @ dq @ ''invalid admin key'' @ dq @ ''}''), st)
             else next (adminActor aid) st))"

definition admin_serve ::
  "admin_cfg \<Rightarrow> 's key_ops \<Rightarrow> 'd admin_env \<Rightarrow> string \<Rightarrow> admin_route
     \<Rightarrow> ('s, 'd) admin_state \<Rightarrow> admin_reply \<times> ('s, 'd) admin_state" where
  "admin_serve cfg ops env authHeader route st =
     adminAuth cfg authHeader (\<lambda>actor. admin_dispatch cfg ops env actor route) st"

section \<open>Who gets in\<close>

lemma matchAdmin_snoc:
  "matchAdmin got (keys @ [(h, aid)]) = (if h = got then (True, aid) else matchAdmin got keys)"
  by (simp add: matchAdmin_def split: prod.split)

lemma matchAdmin_spec:
  "matchAdmin got keys = (m, i) \<Longrightarrow>
     (m \<longrightarrow> (got, i) \<in> set keys) \<and> (\<not> m \<longrightarrow> got \<notin> fst ` set keys \<and> i = '''')"
proof (induction keys arbitrary: m i rule: rev_induct)
  case Nil
  then show ?case by (auto simp: matchAdmin_def)
next
  case (snoc p keys)
  obtain h aid where p: "p = (h, aid)" by (cases p)
  from snoc show ?case unfolding p matchAdmin_snoc by (auto split: if_splits)
qed

lemma addAdminRows_keys:
  "addAdminRows uq sha file es keys ids = Inr ks \<Longrightarrow> distinct (map fst keys) \<Longrightarrow> \<forall>p \<in> set keys. snd p \<noteq> '''' \<Longrightarrow>
     set ids = snd ` set keys \<Longrightarrow> distinct (map snd keys) \<Longrightarrow>
     distinct (map fst ks) \<and> distinct (map snd ks) \<and> (\<forall>p \<in> set ks. snd p \<noteq> '''')
     \<and> set ks = set keys \<union> (\<lambda>e. (sha (ak_Key e), ak_ID e)) ` set es"
proof (induction es arbitrary: keys ids)
  case (Cons e es)
  from Cons.prems(1) have c: "ak_ID e \<noteq> ''''" "ak_ID e \<notin> set ids" "sha (ak_Key e) \<notin> fst ` set keys"
    and r: "addAdminRows uq sha file es (keys @ [(sha (ak_Key e), ak_ID e)]) (ids @ [ak_ID e]) = Inr ks"
    by (auto simp: Let_def split: if_splits)
  from Cons.IH [OF r] Cons.prems(2-) c show ?case by (auto simp: Cons.prems)
qed auto


section \<open>The interface of the key store\<close>

text \<open>
  What the approval relies on. \<open>ops e\<close> are the operations in the environment \<open>e\<close> of one
  request, \<open>entries\<close> the stored entries.
\<close>

locale key_admin =
  fixes ops :: "'e \<Rightarrow> 's key_ops"
    and entries :: "'s \<Rightarrow> KeyEntry list"
    and inv :: "'s \<Rightarrow> bool"
  assumes create_ok: "inv s \<Longrightarrow> ko_Create (ops e) cid roles t s = (Inr (su, raw), s') \<Longrightarrow>
      inv s' \<and> cid \<notin> ke_ID ` set (entries s) \<and> su_ID su = cid
      \<and> (\<exists>x. entries s' = entries s @ [x] \<and> ke_ID x = cid \<and> ke_Roles x = roles \<and> ke_Enabled x)"
    and create_fail: "inv s \<Longrightarrow> ko_Create (ops e) cid roles t s = (Inl er, s') \<Longrightarrow>
      inv s' \<and> entries s' = entries s"
    and delete_ok: "inv s \<Longrightarrow> ko_Delete (ops e) cid s = (None, s') \<Longrightarrow>
      inv s' \<and> entries s' = filter (\<lambda>x. ke_ID x \<noteq> cid) (entries s)"
    and delete_fail: "inv s \<Longrightarrow> ko_Delete (ops e) cid s = (Some er, s') \<Longrightarrow>
      inv s' \<and> entries s' = entries s"
begin

lemma create_then_delete:
  assumes "inv s" "ko_Create (ops e) cid roles t s = (Inr (su, raw), s1)"
    and "ko_Delete (ops e) (su_ID su) s1 = (None, s2)"
  shows "inv s2 \<and> entries s2 = entries s"
proof -
  from create_ok [OF assms(1,2)] obtain x where x: "inv s1" "cid \<notin> ke_ID ` set (entries s)"
    "su_ID su = cid" "entries s1 = entries s @ [x]" "ke_ID x = cid" by blast
  have "filter (\<lambda>y. ke_ID y \<noteq> cid) (entries s) = entries s"
    using x(2) by (auto simp: filter_id_conv)
  with delete_ok [OF x(1) assms(3)] x(3-5) show ?thesis by simp
qed

text \<open>
  The possible ends of an approval: refused with nothing minted; approved; or the decision
  failed and the key was taken back, unless its deletion failed as well.
\<close>

lemma approve_outcomes:
  assumes "inv s" "handleApprovePending cfg (ops e) env actor rid (s, x) = (resp, (s', x'))"
  shows "inv s' \<and>
    (if ad_status resp = 200 then
       \<exists>ps req k. ax_pending x = Some ps \<and> Pending_Get rid ps = Some req \<and> pk_Status req = PendingStatusPending
         \<and> entries s' = entries s @ [k] \<and> ke_ID k = ''pending:'' @ rid \<and> ke_Roles k = [''reader''] \<and> ke_Enabled k
         \<and> ''pending:'' @ rid \<notin> ke_ID ` set (entries s)
         \<and> (\<exists>ps' d. ax_pending x' = Some ps' \<and> Pending_Get rid ps' = Some d \<and> pk_Status d = PendingStatusApproved
              \<and> pk_KeyID d = ke_ID k \<and> pk_DeciderID d = actor)
     else entries s' = entries s
       \<or> (\<exists>s1. fst (ko_Delete (ops e) (''pending:'' @ rid) s1) \<noteq> None))"
proof -
  let ?h = "handleApprovePending cfg (ops e) env actor rid (s, x)"
  show ?thesis
  proof (cases "ax_pending x")
    case None
    with assms show ?thesis by (auto simp: handleApprovePending_def writeError_def)
  next
    case ps: (Some ps)
    show ?thesis
    proof (cases "rid = '''' \<or> (case Pending_Get rid ps of None \<Rightarrow> True | Some q \<Rightarrow> pk_Status q \<noteq> PendingStatusPending)")
      case True
      with assms ps show ?thesis
        by (auto simp: handleApprovePending_def writeError_def split: option.splits if_splits)
    next
      case False
      then obtain req where g: "rid \<noteq> ''''" "Pending_Get rid ps = Some req" "pk_Status req = PendingStatusPending"
        by (auto split: option.splits)
      have rid: "pk_ID req = rid" using g(2) find_SomeD by (fastforce simp: Pending_Get_def)
      obtain cr s1 where c: "ko_Create (ops e) (''pending:'' @ rid) [''reader''] zeroTime s = (cr, s1)" by fastforce
      show ?thesis
      proof (cases cr)
        case (Inl er)
        with assms ps g rid c create_fail [OF assms(1)] show ?thesis
          by (auto simp: handleApprovePending_def writeError_def)
      next
        case (Inr p)
        obtain su raw where p: "p = (su, raw)" by (cases p)
        note ok = create_ok [OF assms(1) c [unfolded Inr p]]
        obtain dr ps' fs' where d: "Decide (ac_uq cfg) (ae_pcodec env) (ae_io env) (ae_now env) rid
            PendingStatusApproved actor (su_ID su) ps (ax_fs x) = (dr, ps', fs')" by (metis prod_cases3)
        show ?thesis
        proof (cases dr)
          case (Inl er)
          obtain de s2 where del: "ko_Delete (ops e) (su_ID su) s1 = (de, s2)" by fastforce
          have fin: "s' = s2" "ad_status resp \<noteq> 200"
            using assms(2) ps g rid c Inr p d Inl del
            by (auto simp: handleApprovePending_def writeError_def split: if_splits)
          show ?thesis
          proof (cases de)
            case None
            with create_then_delete [OF assms(1) c [unfolded Inr p]] del fin show ?thesis by simp
          next
            case (Some er')
            with delete_fail del ok fin have "inv s'" by blast
            moreover have "fst (ko_Delete (ops e) (''pending:'' @ rid) s1) \<noteq> None"
              using del Some ok by simp
            ultimately show ?thesis using fin(2) by auto
          qed
        next
          case (Inr dec)
          from Decide_Inr(2) [OF d [unfolded Inr]] obtain idx where
            i: "index_of (\<lambda>r. pk_ID r = rid) (ps_items ps) = Some idx"
              "dec = (ps_items ps ! idx)\<lparr>pk_Status := PendingStatusApproved, pk_DecidedAt := Some (ae_now env),
                 pk_DeciderID := actor, pk_KeyID := su_ID su\<rparr>"
              "ps' = ps\<lparr>ps_items := (ps_items ps)[idx := dec]\<rparr>" by auto
          have "pk_ID dec = rid" using index_of_SomeD [OF i(1)] i(2) by simp
          then have "Pending_Get rid ps' = Some dec"
            using i(1) by (simp add: i(3) Pending_Get_def find_update)
          moreover have "s' = s1 \<and> ad_status resp = 200 \<and> ax_pending x' = Some ps'"
            using assms(2) ps g rid c \<open>cr = Inr p\<close> p d Inr
            by (auto simp: handleApprovePending_def sendMail_def recordAdminAudit_def split: option.splits if_splits)
          moreover have "pk_Status dec = PendingStatusApproved" "pk_KeyID dec = su_ID su" "pk_DeciderID dec = actor"
            using i(2) by simp_all
          ultimately show ?thesis using ok ps g by auto
        qed
      qed
    qed
  qed
qed

end


lemma managed_snoc:
  assumes "mk_wf dg m"
  shows "map (migrateEntry dg) (mk_entries m @ [(NewKeyEntryWithHasher dg now cid raw roles h)\<lparr>ke_ExpiresAt := t\<rparr>])
       = mk_entries m @ [(NewKeyEntryWithHasher dg now cid raw roles h)\<lparr>ke_ExpiresAt := t\<rparr>]"
  using assms by (simp add: mk_wf_def)

lemma managed_filter: "mk_wf dg m \<Longrightarrow> map (migrateEntry dg) (filter P (mk_entries m)) = filter P (mk_entries m)"
  by (rule map_idI) (simp add: mk_wf_migrated)

lemma Create_Inl:
  "Create uq dg cd io now rnd cid roles t m fs = (Inl e, m', fs') \<Longrightarrow> m' = m"
  by (auto simp: Create_def Let_def split: if_splits sum.splits prod.splits option.splits)

lemma Create_summary:
  "Create uq dg cd io now rnd cid roles t m fs = (Inr (su, raw), m', fs') \<Longrightarrow> su_ID su = cid"
  by (auto simp: Create_def summarize_def Let_def split: if_splits sum.splits prod.splits option.splits)

lemma Delete_Some:
  "Delete uq dg cd io cid m fs = (Some e, m', fs') \<Longrightarrow> m' = m"
  by (auto simp: Delete_def Let_def split: prod.splits option.splits)

interpretation mka: key_admin "managed_ops uq dg cd" "\<lambda>(m, fs). mk_entries m" "\<lambda>(m, fs). mk_wf dg m"
  for uq dg cd
proof (unfold_locales, goal_cases)
  case (1 s e cid roles t su raw s')
  obtain m fs m' fs' where s: "s = (m, fs)" "s' = (m', fs')" by fastforce
  with 1 have wf: "mk_wf dg m" and c: "Create uq dg cd (me_ioCreate e) (me_now e) (me_rnd e) cid roles t m fs
      = (Inr (su, raw), m', fs')" by (simp_all add: managed_ops_def)
  from Create_Inr [OF c] Create_wf [OF c wf] Create_summary [OF c] managed_snoc [OF wf]
  show ?case by (simp add: s)
next
  case (2 s e cid roles t er s')
  then show ?case by (cases s') (auto simp: managed_ops_def dest: Create_Inl)
next
  case (3 s e cid s')
  obtain m fs m' fs' where s: "s = (m, fs)" "s' = (m', fs')" by fastforce
  with 3 have wf: "mk_wf dg m" and d: "Delete uq dg cd (me_io e) cid m fs = (None, m', fs')"
    by (simp_all add: managed_ops_def)
  from Delete_None [OF d wf] Delete_wf [OF d wf] managed_filter [OF wf] show ?case by (simp add: s)
next
  case (4 s e cid er s')
  then show ?case by (cases s') (auto simp: managed_ops_def dest: Delete_Some)
qed

interpretation pga: key_admin "pg_ops uq tz dg h" "\<lambda>t. t" pg_wf
  for uq tz dg h
proof (unfold_locales, goal_cases)
  case (1 s e cid roles t su raw s')
  then show ?case
    by (auto simp: pg_ops_def pg_Create_def sql_insert_def summarize_def pg_wf_def list_ex_iff Let_def
        split: sum.splits prod.splits option.splits if_splits)
next
  case (2 s e cid roles t er s')
  then show ?case
    by (auto simp: pg_ops_def pg_Create_def sql_insert_def Let_def
        split: sum.splits prod.splits option.splits if_splits)
next
  case (3 s e cid s')
  then show ?case
    by (auto simp: pg_ops_def pg_Delete_def pg_wf_def distinct_map inj_on_def split: option.splits if_splits)
next
  case (4 s e cid er s')
  then show ?case by (auto simp: pg_ops_def pg_Delete_def split: option.splits if_splits)
qed


section \<open>Properties\<close>

lemma loadAdminKeys_ok:
  assumes "loadAdminKeys uq sha adminKey file = Inr ks"
  shows "ks \<noteq> [] \<and> distinct (map fst ks) \<and> distinct (map snd ks) \<and> (\<forall>p \<in> set ks. snd p \<noteq> '''')"
proof -
  define k where "k = (if adminKey \<noteq> [] then [(sha adminKey, ''admin'')] else [])"
  define i where "i = (if adminKey \<noteq> [] then [''admin''] else [])"
  have base: "distinct (map fst k)" "\<forall>p \<in> set k. snd p \<noteq> []" "set i = snd ` set k" "distinct (map snd k)"
    by (auto simp: k_def i_def split: if_splits)
  have "(case file of
           None \<Rightarrow> if k = [] then Inl ErrAdminKeyNoneConfigured else Inr k
         | Some (path, Inl err) \<Rightarrow> Inl (wrapf ''read admin keys file'' err)
         | Some (path, Inr (Inl err)) \<Rightarrow> Inl (wrapf ''parse admin keys file'' err)
         | Some (path, Inr (Inr entries)) \<Rightarrow>
             (case addAdminRows uq sha path entries k i of
                Inl err \<Rightarrow> Inl err
              | Inr ks \<Rightarrow> if ks = [] then Inl ErrAdminKeyNoneConfigured else Inr ks)) = Inr ks"
    using assms unfolding loadAdminKeys_def Let_def k_def i_def .
  note load = this
  have "ks = k \<and> ks \<noteq> [] \<or> (\<exists>path es. addAdminRows uq sha path es k i = Inr ks \<and> ks \<noteq> [])"
  proof (cases "file")
    case None
    with load show ?thesis by (auto split: if_split_asm)
  next
    case (Some p)
    obtain path r where p: "p = (path, r)" by (cases p)
    from load obtain es where r: "r = Inr (Inr es)"
      by (cases r; cases "projr r") (auto simp: Some p)
    from load have "addAdminRows uq sha path es k i = Inr ks \<and> ks \<noteq> []"
      by (auto simp: Some p r split: sum.split_asm if_split_asm)
    then show ?thesis by blast
  qed
  then show ?thesis
  proof
    assume "ks = k \<and> ks \<noteq> []"
    then show ?thesis using base by auto
  next
    assume "\<exists>path es. addAdminRows uq sha path es k i = Inr ks \<and> ks \<noteq> []"
    then show ?thesis using addAdminRows_keys [OF _ base] by blast
  qed
qed


text \<open>
  an approval mints exactly one key. Approving a request on the file store answers
  200 only if the request was undecided; the store then holds one new enabled reader key, filed
  under the request, and the request is recorded as approved with that key and the deciding
  administrator. Whatever fails on the way, no key of an unapproved request is left behind,
  unless the deletion of the key fails as well.
\<close>

theorem approval_mints_one_key:
  assumes "mk_wf dg m"
    and "handleApprovePending cfg (managed_ops uq dg cd e) env actor rid ((m, fs), x) = (resp, ((m', fs'), x'))"
  shows "mk_wf dg m' \<and>
    (if ad_status resp = 200 then
       \<exists>ps req k. ax_pending x = Some ps \<and> Pending_Get rid ps = Some req \<and> pk_Status req = PendingStatusPending
         \<and> mk_entries m' = mk_entries m @ [k] \<and> ke_ID k = ''pending:'' @ rid \<and> ke_Roles k = [''reader'']
         \<and> ke_Enabled k \<and> ''pending:'' @ rid \<notin> ke_ID ` set (mk_entries m)
         \<and> (\<exists>ps' d. ax_pending x' = Some ps' \<and> Pending_Get rid ps' = Some d \<and> pk_Status d = PendingStatusApproved
              \<and> pk_KeyID d = ke_ID k \<and> pk_DeciderID d = actor)
     else mk_entries m' = mk_entries m
       \<or> (\<exists>s1. fst (ko_Delete (managed_ops uq dg cd e) (''pending:'' @ rid) s1) \<noteq> None))"
proof -
  have "case (m, fs) of (m, fs) \<Rightarrow> mk_wf dg m" using assms(1) by simp
  from mka.approve_outcomes [OF this assms(2), unfolded split_conv] show ?thesis .
qed


section \<open>Witnesses\<close>

definition demo_admin :: admin_cfg where
  "demo_admin =
     \<lparr>ac_uq = id, ac_ul = id, ac_sha = rev, ac_parseDuration = (\<lambda>_. Inl ErrNotExist), ac_fmt = (\<lambda>_. []),
      ac_keys = [(rev ''k'', ''admin'')], ac_defaultTTL = 0, ac_email = True, ac_blacklist = True,
      ac_writeAudit = True\<rparr>"

definition demo_admin_env :: "PendingKeyRequest list option admin_env" where
  "demo_admin_env =
     \<lparr>ae_now = 7, ae_dbnow = 7, ae_io = steady_io, ae_pcodec = plain_pending, ae_blErr = None,
      ae_queryErr = None, ae_auditErr = None, ae_mailErr = None\<rparr>"

definition demo_aux :: "PendingKeyRequest list option admin_aux" where
  "demo_aux =
     \<lparr>ax_pending = Some \<lparr>ps_path = ''q.json'', ps_items =
        [\<lparr>pk_ID = ''u1'', pk_Email = ''a@b'', pk_Company = [], pk_IntendedUse = ''x'',
          pk_Status = PendingStatusPending, pk_CreatedAt = 5, pk_DecidedAt = None, pk_DeciderID = [],
          pk_KeyID = [], pk_RemoteAddr = []\<rparr>]\<rparr>,
      ax_fs = (\<lambda>_. None), ax_db = \<lparr>db_blacklist = [], db_quota = [], db_audit = []\<rparr>,
      ax_adminAudit = Some [], ax_mail = []\<rparr>"

definition demo_managed_env :: "KeyEntry list managed_env" where
  "demo_managed_env = \<lparr>me_now = 7, me_rnd = Inr ''k'', me_ioCreate = calm_io, me_io = calm_io\<rparr>"


lemma nested_pair: "\<exists>a b c d. p = (a, ((b, c), d))"
  by (cases p) auto

lemma demo_mint:
  "\<exists>su m1 fs1. Create id tag_digests plain_codec calm_io 7 (Inr ''k'') ''pending:u1'' [''reader''] zeroTime
     empty_store Map.empty = (Inr (su, b64enc urlDigit False ''k''), m1, fs1)"
  by (simp add: Create_def GenerateKey_def empty_store_def SaveKeysFile_def withExclusiveLock_def
      writeKeysAtomic_def calm_io_def Let_def del: b64enc.simps)

lemma demo_decide:
  "\<exists>d ps' fs'. Decide id plain_pending steady_io 7 ''u1'' PendingStatusApproved actor k
     (the (ax_pending demo_aux)) Map.empty = (Inr d, ps', fs')"
  by (simp add: Decide_def demo_aux_def status_defs pending_save_def withExclusiveLock_def
      writePendingAtomic_def steady_io_def Let_def)

theorem approval_mints_one_key_witness:
  "\<exists>resp m' fs' x' k. handleApprovePending demo_admin (managed_ops id tag_digests plain_codec demo_managed_env)
        demo_admin_env ''root'' ''u1'' ((empty_store, Map.empty), demo_aux) = (resp, ((m', fs'), x'))
    \<and> ad_status resp = 200 \<and> mk_entries m' = [k] \<and> ke_Roles k = [''reader'']"
proof -
  let ?ops = "managed_ops id tag_digests plain_codec demo_managed_env"
  obtain resp m' fs' x' where r: "handleApprovePending demo_admin ?ops
        demo_admin_env ''root'' ''u1'' ((empty_store, Map.empty), demo_aux) = (resp, ((m', fs'), x'))"
    using nested_pair [of "handleApprovePending demo_admin ?ops demo_admin_env ''root'' ''u1''
        ((empty_store, Map.empty), demo_aux)"] by blast
  obtain su m1 fs1 where c: "ko_Create ?ops ''pending:u1'' [''reader''] zeroTime (empty_store, Map.empty)
      = (Inr (su, b64enc urlDigit False ''k''), m1, fs1)"
    using demo_mint by (auto simp: managed_ops_def demo_managed_env_def)
  obtain d ps' fs2 where d: "Decide id plain_pending steady_io 7 ''u1'' PendingStatusApproved ''root'' (su_ID su)
      (the (ax_pending demo_aux)) Map.empty = (Inr d, ps', fs2)" using demo_decide by blast
  have "ad_status resp = 200"
    using r c d
    by (auto simp: handleApprovePending_def demo_aux_def Pending_Get_def demo_admin_def demo_admin_env_def
        sendMail_def simp del: b64enc.simps)
  with approval_mints_one_key [OF empty_store_wf r] obtain k where
    "mk_entries m' = mk_entries empty_store @ [k]" "ke_Roles k = [''reader'']" by auto
  with r \<open>ad_status resp = 200\<close> show ?thesis by (auto simp: empty_store_def)
qed

end
