(* ===== verification/Purge.thy ===== *)
theory Purge
  imports Admin Config
begin

text \<open>
  The retention purge (\<^verbatim>\<open>internal/mcp/purge.go\<close>): the batched deletion from the four tables of
  the keyless bundle, one sweep, and the loop of sweeps. The tables are those the write path and
  the administration API use; a row of \<^verbatim>\<open>admin_audit\<close> is an entry with its \<^verbatim>\<open>created_at\<close>.

  The order of a table is the order in which the database meets its rows, which decides what a
  batch takes first. The outcome of the \<open>i\<close>-th statement of a batched deletion and the state of
  the context after it are arguments; a failed statement may or may not have taken effect,
  since the connection can be lost after the commit. A sweep is one transition: rows written
  while it runs are not in the window of any statement, being newer than the cutoff.
\<close>

section \<open>Batched deletion\<close>

definition purgeBatchSize :: nat where
  "purgeBatchSize = 5000"

definition purgeMaxBatchesPerTable :: nat where
  "purgeMaxBatchesPerTable = 200"

text \<open>\<open>deleteSome P n\<close> is one statement: at most \<open>n\<close> of the rows that satisfy \<open>P\<close> go.\<close>

fun deleteSome :: "('r \<Rightarrow> bool) \<Rightarrow> nat \<Rightarrow> 'r list \<Rightarrow> 'r list" where
  "deleteSome P n [] = []"
| "deleteSome P n (r # rs) =
     (if P r \<and> 0 < n then deleteSome P (n - 1) rs else r # deleteSome P n rs)"

datatype exec_result = ExecOk | ExecFailed goerr bool

record exec_env =
  xe_exec :: "nat \<Rightarrow> exec_result"
  xe_ctxErr :: "nat \<Rightarrow> goerr option"

text \<open>
  \<open>deleteLoop\<close> is the \<^verbatim>\<open>for range purgeMaxBatchesPerTable\<close> loop, with \<open>k\<close> batches left, the
  \<open>i\<close>-th statement next and \<open>tot\<close> rows deleted so far.
\<close>

fun deleteLoop ::
  "('r \<Rightarrow> bool) \<Rightarrow> exec_env \<Rightarrow> nat \<Rightarrow> nat \<Rightarrow> nat \<Rightarrow> 'r list \<Rightarrow> nat \<times> goerr option \<times> 'r list" where
  "deleteLoop P xe i 0 tot rows = (tot, None, rows)"
| "deleteLoop P xe i (Suc k) tot rows =
     (let rows' = deleteSome P purgeBatchSize rows;
          n = length rows - length rows'
      in case xe_exec xe i of
           ExecFailed err committed \<Rightarrow> (tot, Some err, if committed then rows' else rows)
         | ExecOk \<Rightarrow>
             if n < purgeBatchSize then (tot + n, None, rows')
             else (case xe_ctxErr xe i of
                     Some err \<Rightarrow> (tot + n, Some err, rows')
                   | None \<Rightarrow> deleteLoop P xe (Suc i) k (tot + n) rows'))"

definition deleteBatched :: "('r \<Rightarrow> bool) \<Rightarrow> exec_env \<Rightarrow> 'r list \<Rightarrow> nat \<times> goerr option \<times> 'r list" where
  "deleteBatched P xe rows = deleteLoop P xe 0 purgeMaxBatchesPerTable 0 rows"

section \<open>The purger\<close>

definition ErrPurgeNoPool :: goerr where
  "ErrPurgeNoPool = PkgErr ''mcp.ErrPurgeNoPool'' ''retention purge requires a Postgres pool''"

record Purger =
  pu_cfg :: RetentionConfig
  pu_grantRoleSelector :: string

text \<open>\<open>NewPurger pool\<close>, where \<open>pool\<close> says that there is a pool.\<close>

definition NewPurger :: "bool \<Rightarrow> RetentionConfig \<Rightarrow> string \<Rightarrow> goerr + Purger" where
  "NewPurger pool cfg grantRoleSelector =
     (if \<not> pool then Inl ErrPurgeNoPool
      else if 0 < rt_WriteAuditGrantRole cfg \<and> grantRoleSelector = '''' then
        Inl (wrapf (''MCP_WRITE_AUDIT_GRANT_ROLE_RETENTION is set but the grantRole ABI '' @
                    ''selector is unknown (no ABI loaded), so grantRole rows cannot be '' @
                    ''distinguished from ordinary writes'') ErrPurgeNoPool)
      else Inr \<lparr>pu_cfg = cfg, pu_grantRoleSelector = grantRoleSelector\<rparr>)"

record PurgeResult =
  pr_WriteAudit :: nat
  pr_WriteAuditGrantRole :: nat
  pr_SignerQuota :: nat
  pr_SignerBlacklist :: nat
  pr_AdminAudit :: nat

definition PurgeResult_Total :: "PurgeResult \<Rightarrow> nat" where
  "PurgeResult_Total r =
     pr_WriteAudit r + pr_WriteAuditGrantRole r + pr_SignerQuota r + pr_SignerBlacklist r + pr_AdminAudit r"

definition emptyResult :: PurgeResult where
  "emptyResult =
     \<lparr>pr_WriteAudit = 0, pr_WriteAuditGrantRole = 0, pr_SignerQuota = 0, pr_SignerBlacklist = 0,
      pr_AdminAudit = 0\<rparr>"

record purge_db =
  pd_write :: write_db
  pd_admin :: "(AdminAuditEntry \<times> time) list"

text \<open>The outcomes of the statements of one sweep, per deletion.\<close>

record purge_env =
  sw_now :: time
  sw_grant :: exec_env
  sw_audit :: exec_env
  sw_quota :: exec_env
  sw_ban :: exec_env
  sw_admin :: exec_env

definition carveOut :: "Purger \<Rightarrow> bool" where
  "carveOut p \<longleftrightarrow> 0 < rt_WriteAuditGrantRole (pu_cfg p) \<and> pu_grantRoleSelector p \<noteq> ''''"

definition purgeWriteAudit ::
  "Purger \<Rightarrow> purge_env \<Rightarrow> write_db \<Rightarrow> nat \<times> nat \<times> goerr option \<times> write_db" where
  "purgeWriteAudit p env db =
     (let cfg = pu_cfg p; now = sw_now env; sel = pu_grantRoleSelector p;
          gcut = now - rt_WriteAuditGrantRole cfg; cutoff = now - rt_WriteAudit cfg;
          (g, gerr, rows) =
            (if carveOut p
             then deleteBatched (\<lambda>e. wa_CreatedAt e < gcut \<and> wa_MethodSelector e = sel) (sw_grant env) (db_audit db)
             else (0, None, db_audit db))
      in case gerr of
           Some err \<Rightarrow> (0, 0, Some (wrapf ''purge write_audit (grantRole)'' err), db\<lparr>db_audit := rows\<rparr>)
         | None \<Rightarrow>
             if rt_WriteAudit cfg = 0 then (0, g, None, db\<lparr>db_audit := rows\<rparr>)
             else
               (let (n, err, rows') =
                      (if carveOut p
                       then deleteBatched (\<lambda>e. wa_CreatedAt e < cutoff \<and> wa_MethodSelector e \<noteq> sel) (sw_audit env) rows
                       else deleteBatched (\<lambda>e. wa_CreatedAt e < cutoff) (sw_audit env) rows)
                in case err of
                     Some e \<Rightarrow> (0, g, Some (wrapf ''purge write_audit'' e), db\<lparr>db_audit := rows'\<rparr>)
                   | None \<Rightarrow> (n, g, None, db\<lparr>db_audit := rows'\<rparr>)))"

text \<open>
  The three single-window tables of \<^verbatim>\<open>PurgeOnce\<close>: skip when the window is zero, else delete the
  rows older than it and wrap the error with the table's name.
\<close>

definition purgeTable ::
  "string \<Rightarrow> duration \<Rightarrow> time \<Rightarrow> ('r \<Rightarrow> time) \<Rightarrow> exec_env \<Rightarrow> 'r list \<Rightarrow> nat \<times> goerr option \<times> 'r list" where
  "purgeTable tbl window now age xe rows =
     (if 0 < window then
        (let (n, err, rows') = deleteBatched (\<lambda>r. age r < now - window) xe rows
         in case err of
              Some e \<Rightarrow> (0, Some (wrapf (''purge '' @ tbl) e), rows')
            | None \<Rightarrow> (n, None, rows'))
      else (0, None, rows))"

definition PurgeOnce :: "Purger \<Rightarrow> purge_env \<Rightarrow> purge_db \<Rightarrow> PurgeResult \<times> goerr option \<times> purge_db" where
  "PurgeOnce p env db =
     (let cfg = pu_cfg p; now = sw_now env
      in case purgeWriteAudit p env (pd_write db) of
           (wa, waGrant, Some err, w) \<Rightarrow> (emptyResult, Some err, db\<lparr>pd_write := w\<rparr>)
         | (wa, waGrant, None, w) \<Rightarrow>
             (let res = emptyResult\<lparr>pr_WriteAudit := wa, pr_WriteAuditGrantRole := waGrant\<rparr>
              in case purgeTable ''signer_quota'' (rt_SignerQuota cfg) now (\<lambda>r. snd (fst r)) (sw_quota env) (db_quota w) of
                   (_, Some err, q) \<Rightarrow> (res, Some err, db\<lparr>pd_write := w\<lparr>db_quota := q\<rparr>\<rparr>)
                 | (nq, None, q) \<Rightarrow>
                     (let res = res\<lparr>pr_SignerQuota := nq\<rparr>; w = w\<lparr>db_quota := q\<rparr>
                      in case purgeTable ''signer_blacklist'' (rt_SignerBlacklist cfg) now bl_CreatedAt (sw_ban env) (db_blacklist w) of
                           (_, Some err, b) \<Rightarrow> (res, Some err, db\<lparr>pd_write := w\<lparr>db_blacklist := b\<rparr>\<rparr>)
                         | (nb, None, b) \<Rightarrow>
                             (let res = res\<lparr>pr_SignerBlacklist := nb\<rparr>; w = w\<lparr>db_blacklist := b\<rparr>
                              in case purgeTable ''admin_audit'' (rt_AdminAudit cfg) now snd (sw_admin env) (pd_admin db) of
                                   (_, Some err, a) \<Rightarrow> (res, Some err, db\<lparr>pd_write := w, pd_admin := a\<rparr>)
                                 | (nad, None, a) \<Rightarrow>
                                     (res\<lparr>pr_AdminAudit := nad\<rparr>, None, db\<lparr>pd_write := w, pd_admin := a\<rparr>)))))"

text \<open>
  \<open>Purger_Run\<close> is the loop of \<^verbatim>\<open>Run\<close> over the sweeps that happen before the context is
  cancelled: a sweep that fails is logged and the next tick sweeps again.
\<close>

fun Purger_Run :: "Purger \<Rightarrow> purge_env list \<Rightarrow> purge_db \<Rightarrow> purge_db" where
  "Purger_Run p [] db = db"
| "Purger_Run p (env # envs) db =
     (case PurgeOnce p env db of (res, err, db') \<Rightarrow> Purger_Run p envs db')"

section \<open>What one deletion does\<close>

lemma deleteSome_kept [simp]: "filter (\<lambda>r. \<not> P r) (deleteSome P n rows) = filter (\<lambda>r. \<not> P r) rows"
  by (induction P n rows rule: deleteSome.induct) auto

lemma deleteSome_subseq: "subseq (deleteSome P n rows) rows"
  by (induction P n rows rule: deleteSome.induct) auto

lemma deleteSome_left:
  "length (filter P (deleteSome P n rows)) = length (filter P rows) - n"
  by (induction P n rows rule: deleteSome.induct) auto

lemma length_split: "length rows = length (filter P rows) + length (filter (\<lambda>r. \<not> P r) rows)"
  by (induction rows) auto

lemma deleteSome_count: "length rows - length (deleteSome P n rows) = min n (length (filter P rows))"
  using length_split [of rows P] length_split [of "deleteSome P n rows" P]
  by (simp add: deleteSome_left)

lemma deleteSome_all: "length (filter P rows) \<le> n \<Longrightarrow> deleteSome P n rows = filter (\<lambda>r. \<not> P r) rows"
  by (induction P n rows rule: deleteSome.induct) (auto simp: filter_id_conv length_0_conv filter_empty_conv)

lemma deleteLoop_kept:
  "deleteLoop P xe i k tot rows = (n, err, rows') \<Longrightarrow>
     filter (\<lambda>r. \<not> P r) rows' = filter (\<lambda>r. \<not> P r) rows \<and> subseq rows' rows"
proof (induction P xe i k tot rows arbitrary: n err rows' rule: deleteLoop.induct)
  case (2 P xe i k tot rows)
  then show ?case
    by (auto simp: Let_def deleteSome_subseq split: exec_result.splits if_splits option.splits
        intro: subseq_order.trans [OF _ deleteSome_subseq])
qed simp

text \<open>Without faults a run of \<open>k\<close> batches takes up to \<open>k\<close> times the batch size.\<close>

definition calm :: "exec_env \<Rightarrow> bool" where
  "calm xe \<longleftrightarrow> (\<forall>i. xe_exec xe i = ExecOk \<and> xe_ctxErr xe i = None)"

lemma deleteLoop_calm:
  "calm xe \<Longrightarrow> deleteLoop P xe i k tot rows = (n, err, rows') \<Longrightarrow>
     err = None
     \<and> length (filter P rows') = length (filter P rows) - k * purgeBatchSize
     \<and> n + length rows' = tot + length rows"
proof (induction P xe i k tot rows arbitrary: n err rows' rule: deleteLoop.induct)
  case (2 P xe i k tot rows)
  let ?rows = "deleteSome P purgeBatchSize rows"
  have le: "length ?rows \<le> length rows" by (rule list_emb_length [OF deleteSome_subseq])
  have cnt: "length rows - length ?rows = min purgeBatchSize (length (filter P rows))"
    by (rule deleteSome_count)
  have ok: "xe_exec xe i = ExecOk" "xe_ctxErr xe i = None" using 2(2) by (simp_all add: calm_def)
  show ?case
  proof (cases "length rows - length ?rows < purgeBatchSize")
    case True
    then have "n = tot + (length rows - length ?rows)" "err = None" "rows' = ?rows"
      using 2(3) ok by (auto simp: Let_def)
    moreover have "length (filter P rows) < purgeBatchSize" using True cnt by simp
    ultimately show ?thesis using le by (simp add: deleteSome_left)
  next
    case False
    then have "deleteLoop P xe (Suc i) k (tot + (length rows - length ?rows)) ?rows = (n, err, rows')"
      using 2(3) ok by (simp add: Let_def)
    from 2(1) [OF refl refl ok(1) False ok(2) 2(2) this] le show ?thesis
      by (simp add: deleteSome_left algebra_simps)
  qed
qed simp

lemmas deleteBatched_kept = deleteLoop_kept [of _ _ 0 purgeMaxBatchesPerTable 0, folded deleteBatched_def]
lemmas deleteBatched_calm = deleteLoop_calm [of _ _ 0 purgeMaxBatchesPerTable 0, folded deleteBatched_def]


lemma deleteLoop_count:
  "deleteLoop P xe i k tot rows = (n, None, rows') \<Longrightarrow> n + length rows' = tot + length rows"
proof (induction P xe i k tot rows arbitrary: n rows' rule: deleteLoop.induct)
  case (2 P xe i k tot rows)
  let ?rows = "deleteSome P purgeBatchSize rows"
  have le: "length ?rows \<le> length rows" by (rule list_emb_length [OF deleteSome_subseq])
  from 2(2) have ok: "xe_exec xe i = ExecOk"
    by (simp add: Let_def split: exec_result.splits)
  show ?case
  proof (cases "length rows - length ?rows < purgeBatchSize")
    case True
    then have "n = tot + (length rows - length ?rows)" "rows' = ?rows" using 2(2) ok by (auto simp: Let_def)
    with le show ?thesis by simp
  next
    case False
    then have "xe_ctxErr xe i = None" "deleteLoop P xe (Suc i) k (tot + (length rows - length ?rows)) ?rows = (n, None, rows')"
      using 2(2) ok by (auto simp: Let_def split: option.splits)
    from 2(1) [OF refl refl ok False this] le show ?thesis by simp
  qed
qed simp

lemmas deleteBatched_count = deleteLoop_count [of _ _ 0 purgeMaxBatchesPerTable 0, folded deleteBatched_def]

section \<open>What one sweep does\<close>

text \<open>The rows each window condemns at an instant, said per row.\<close>

definition grant_expired :: "Purger \<Rightarrow> time \<Rightarrow> WriteAuditEntry \<Rightarrow> bool" where
  "grant_expired p now e \<longleftrightarrow>
     carveOut p \<and> wa_MethodSelector e = pu_grantRoleSelector p
     \<and> wa_CreatedAt e < now - rt_WriteAuditGrantRole (pu_cfg p)"

definition write_expired :: "Purger \<Rightarrow> time \<Rightarrow> WriteAuditEntry \<Rightarrow> bool" where
  "write_expired p now e \<longleftrightarrow>
     rt_WriteAudit (pu_cfg p) \<noteq> 0 \<and> \<not> (carveOut p \<and> wa_MethodSelector e = pu_grantRoleSelector p)
     \<and> wa_CreatedAt e < now - rt_WriteAudit (pu_cfg p)"

definition audit_expired :: "Purger \<Rightarrow> time \<Rightarrow> WriteAuditEntry \<Rightarrow> bool" where
  "audit_expired p now e \<longleftrightarrow> grant_expired p now e \<or> write_expired p now e"

definition window_expired :: "duration \<Rightarrow> ('r \<Rightarrow> time) \<Rightarrow> time \<Rightarrow> 'r \<Rightarrow> bool" where
  "window_expired window age now r \<longleftrightarrow> 0 < window \<and> age r < now - window"

text \<open>\<open>only E t t'\<close>: the table went from \<open>t\<close> to \<open>t'\<close> losing rows of \<open>E\<close> only.\<close>

definition only :: "('r \<Rightarrow> bool) \<Rightarrow> 'r list \<Rightarrow> 'r list \<Rightarrow> bool" where
  "only E t t' \<longleftrightarrow> filter (\<lambda>r. \<not> E r) t' = filter (\<lambda>r. \<not> E r) t \<and> subseq t' t"

lemma only_refl [simp]: "only E t t"
  by (simp add: only_def)

lemma only_trans: "only E t u \<Longrightarrow> only E u v \<Longrightarrow> only E t v"
  by (auto simp: only_def intro: subseq_order.trans)

lemma only_mono:
  assumes "only P t t'" "\<And>r. P r \<Longrightarrow> E r"
  shows "only E t t'"
proof -
  have "filter (\<lambda>r. \<not> E r) u = filter (\<lambda>r. \<not> E r) (filter (\<lambda>r. \<not> P r) u)" for u
    using assms(2) by (induction u) auto
  with assms(1) show ?thesis unfolding only_def by metis
qed

lemma deleteBatched_only: "deleteBatched P xe rows = (n, err, rows') \<Longrightarrow> only P rows rows'"
  unfolding only_def by (rule deleteBatched_kept)

lemma purgeTable_only:
  "purgeTable tbl window now age xe rows = (n, err, rows') \<Longrightarrow>
     only (window_expired window age now) rows rows' \<and> (err = None \<longrightarrow> n + length rows' = length rows)"
proof (cases "0 < window")
  case True
  assume r: "purgeTable tbl window now age xe rows = (n, err, rows')"
  obtain m e rs where d: "deleteBatched (\<lambda>r. age r < now - window) xe rows = (m, e, rs)"
    by (rule prod_cases3)
  have "only (window_expired window age now) rows rs"
    by (rule only_mono [OF deleteBatched_only [OF d]]) (simp add: window_expired_def True)
  moreover have "e = None \<Longrightarrow> m + length rs = length rows"
    using deleteBatched_count d by fastforce
  ultimately show ?thesis using r True d by (auto simp: purgeTable_def split: option.splits)
qed (auto simp: purgeTable_def)

lemma purgeWriteAudit_shape:
  assumes "purgeWriteAudit p env db = (n, g, err, db')"
  obtains rows where "db' = db\<lparr>db_audit := rows\<rparr>" "only (audit_expired p (sw_now env)) (db_audit db) rows"
    "err = None \<longrightarrow> n + g + length rows = length (db_audit db)"
proof -
  let ?cfg = "pu_cfg p" and ?now = "sw_now env" and ?sel = "pu_grantRoleSelector p"
  define first where "first =
    (if carveOut p
     then deleteBatched (\<lambda>e. wa_CreatedAt e < ?now - rt_WriteAuditGrantRole ?cfg \<and> wa_MethodSelector e = ?sel)
            (sw_grant env) (db_audit db)
     else (0, None, db_audit db))"
  obtain g1 e1 rows where f: "first = (g1, e1, rows)" by (rule prod_cases3)
  define second where "second =
    (if carveOut p
     then deleteBatched (\<lambda>e. wa_CreatedAt e < ?now - rt_WriteAudit ?cfg \<and> wa_MethodSelector e \<noteq> ?sel) (sw_audit env) rows
     else deleteBatched (\<lambda>e. wa_CreatedAt e < ?now - rt_WriteAudit ?cfg) (sw_audit env) rows)"
  obtain n2 e2 rows2 where s: "second = (n2, e2, rows2)" by (rule prod_cases3)
  have f_only: "only (audit_expired p ?now) (db_audit db) rows"
    and f_count: "e1 = None \<Longrightarrow> g1 + length rows = length (db_audit db)"
    using f unfolding first_def
    by (auto simp: audit_expired_def grant_expired_def split: if_splits
        elim!: only_mono [OF deleteBatched_only] dest: deleteBatched_count)
  have s_only: "rt_WriteAudit ?cfg \<noteq> 0 \<Longrightarrow> only (audit_expired p ?now) rows rows2"
    and s_count: "e2 = None \<Longrightarrow> n2 + length rows2 = length rows"
    using s unfolding second_def
    by (auto simp: audit_expired_def write_expired_def split: if_splits
        elim!: only_mono [OF deleteBatched_only] dest: deleteBatched_count)
  have run: "purgeWriteAudit p env db =
     (case e1 of
        Some err \<Rightarrow> (0, 0, Some (wrapf ''purge write_audit (grantRole)'' err), db\<lparr>db_audit := rows\<rparr>)
      | None \<Rightarrow>
          if rt_WriteAudit ?cfg = 0 then (0, g1, None, db\<lparr>db_audit := rows\<rparr>)
          else case e2 of
                 Some e \<Rightarrow> (0, g1, Some (wrapf ''purge write_audit'' e), db\<lparr>db_audit := rows2\<rparr>)
               | None \<Rightarrow> (n2, g1, None, db\<lparr>db_audit := rows2\<rparr>))"
    unfolding purgeWriteAudit_def Let_def first_def [symmetric] f prod.case second_def [symmetric] s ..
  show thesis
  proof (cases "e1 = None \<and> rt_WriteAudit ?cfg \<noteq> 0")
    case True
    then have "db' = db\<lparr>db_audit := rows2\<rparr>" using assms run by (auto split: option.splits)
    moreover have "err = None \<longrightarrow> n + g + length rows2 = length (db_audit db)"
      using assms run True f_count s_count by (auto split: option.splits)
    ultimately show thesis using that only_trans [OF f_only s_only] True by blast
  next
    case False
    then have "db' = db\<lparr>db_audit := rows\<rparr>" using assms run by (auto split: option.splits)
    moreover have "err = None \<longrightarrow> n + g + length rows = length (db_audit db)"
      using assms run False f_count by (auto split: option.splits)
    ultimately show thesis using that f_only by blast
  qed
qed


definition db_rows :: "purge_db \<Rightarrow> nat" where
  "db_rows db =
     length (db_audit (pd_write db)) + length (db_quota (pd_write db))
     + length (db_blacklist (pd_write db)) + length (pd_admin db)"

definition sweep_only :: "Purger \<Rightarrow> time \<Rightarrow> purge_db \<Rightarrow> purge_db \<Rightarrow> bool" where
  "sweep_only p now db db' \<longleftrightarrow>
     only (audit_expired p now) (db_audit (pd_write db)) (db_audit (pd_write db'))
     \<and> only (window_expired (rt_SignerQuota (pu_cfg p)) (\<lambda>r. snd (fst r)) now)
          (db_quota (pd_write db)) (db_quota (pd_write db'))
     \<and> only (window_expired (rt_SignerBlacklist (pu_cfg p)) bl_CreatedAt now)
          (db_blacklist (pd_write db)) (db_blacklist (pd_write db'))
     \<and> only (window_expired (rt_AdminAudit (pu_cfg p)) snd now) (pd_admin db) (pd_admin db')"

lemma PurgeOnce_sweep:
  assumes run: "PurgeOnce p env db = (res, err, db')"
  shows "sweep_only p (sw_now env) db db'
    \<and> (err = None \<longrightarrow> PurgeResult_Total res + db_rows db' = db_rows db)"
proof -
  let ?cfg = "pu_cfg p" and ?now = "sw_now env" and ?w = "pd_write db"
  obtain wa gr e1 w1 where a: "purgeWriteAudit p env ?w = (wa, gr, e1, w1)" by (rule prod_cases4)
  obtain rows where w1: "w1 = ?w\<lparr>db_audit := rows\<rparr>"
    and ao: "only (audit_expired p ?now) (db_audit ?w) rows"
    and ac: "e1 = None \<longrightarrow> wa + gr + length rows = length (db_audit ?w)"
    by (rule purgeWriteAudit_shape [OF a])
  obtain nq e2 q where b: "purgeTable ''signer_quota'' (rt_SignerQuota ?cfg) ?now (\<lambda>r. snd (fst r)) (sw_quota env) (db_quota ?w)
      = (nq, e2, q)" by (rule prod_cases3)
  obtain nb e3 bl where c: "purgeTable ''signer_blacklist'' (rt_SignerBlacklist ?cfg) ?now bl_CreatedAt (sw_ban env) (db_blacklist ?w)
      = (nb, e3, bl)" by (rule prod_cases3)
  obtain nd e4 ad where d: "purgeTable ''admin_audit'' (rt_AdminAudit ?cfg) ?now snd (sw_admin env) (pd_admin db)
      = (nd, e4, ad)" by (rule prod_cases3)
  note bo = purgeTable_only [OF b] and co = purgeTable_only [OF c] and ad_only = purgeTable_only [OF d]
  have fields: "db_quota w1 = db_quota ?w" "db_blacklist (w1\<lparr>db_quota := q\<rparr>) = db_blacklist ?w"
    by (simp_all add: w1)
  have run': "PurgeOnce p env db =
    (case e1 of
       Some err \<Rightarrow> (emptyResult, Some err, db\<lparr>pd_write := w1\<rparr>)
     | None \<Rightarrow>
         (let res = emptyResult\<lparr>pr_WriteAudit := wa, pr_WriteAuditGrantRole := gr\<rparr>
          in case e2 of
               Some err \<Rightarrow> (res, Some err, db\<lparr>pd_write := w1\<lparr>db_quota := q\<rparr>\<rparr>)
             | None \<Rightarrow>
                 (let res = res\<lparr>pr_SignerQuota := nq\<rparr>; w = w1\<lparr>db_quota := q\<rparr>
                  in case e3 of
                       Some err \<Rightarrow> (res, Some err, db\<lparr>pd_write := w\<lparr>db_blacklist := bl\<rparr>\<rparr>)
                     | None \<Rightarrow>
                         (let res = res\<lparr>pr_SignerBlacklist := nb\<rparr>; w = w\<lparr>db_blacklist := bl\<rparr>
                          in case e4 of
                               Some err \<Rightarrow> (res, Some err, db\<lparr>pd_write := w, pd_admin := ad\<rparr>)
                             | None \<Rightarrow> (res\<lparr>pr_AdminAudit := nd\<rparr>, None, db\<lparr>pd_write := w, pd_admin := ad\<rparr>)))))"
    unfolding PurgeOnce_def Let_def a prod.case fields b c d
    by (simp split: option.split)
  consider (e1) "e1 \<noteq> None" | (e2) "e1 = None" "e2 \<noteq> None" | (e3) "e1 = None" "e2 = None" "e3 \<noteq> None"
    | (all) "e1 = None" "e2 = None" "e3 = None" by blast
  then show ?thesis
  proof cases
    case e1
    then show ?thesis using run run' ao by (auto simp: sweep_only_def w1 Let_def)
  next
    case e2
    then show ?thesis using run run' ao bo by (auto simp: sweep_only_def w1 Let_def)
  next
    case e3
    then show ?thesis using run run' ao bo co by (auto simp: sweep_only_def w1 Let_def)
  next
    case all
    then show ?thesis using run run' ao bo co ad_only ac
      by (cases e4) (auto simp: sweep_only_def w1 Let_def db_rows_def PurgeResult_Total_def emptyResult_def)
  qed
qed


section \<open>Retention\<close>

lemma only_member: "only E t t' \<Longrightarrow> r \<in> set t \<Longrightarrow> \<not> E r \<Longrightarrow> r \<in> set t'"
  unfolding only_def by (metis (mono_tags, lifting) mem_Collect_eq set_filter)

text \<open>
  Claim C18 (retention windows are respected). Whatever the statements of a sweep do, fail, be
  cut off after the commit or be cancelled between batches, each table loses only rows that its
  own window condemns at the instant of the sweep and keeps the others in their order: a table
  without a window loses nothing, and a row of \<^verbatim>\<open>write_audit\<close> is judged by the administrative
  window if the carve-out is on and it is a role grant, and by the ordinary window otherwise.
  A sweep without error reports exactly the rows that went. With the windows a configuration
  can load, a role grant that is gone is older than the ordinary window too: the administrative
  trail outlives the traffic around it.
\<close>

theorem retention_respected:
  assumes "PurgeOnce p env db = (res, err, db')"
  shows "sweep_only p (sw_now env) db db'
    \<and> (err = None \<longrightarrow> PurgeResult_Total res + db_rows db' = db_rows db)
    \<and> (retention_ok (pu_cfg p) \<longrightarrow>
         (\<forall>e \<in> set (db_audit (pd_write db)) - set (db_audit (pd_write db')).
            0 < rt_WriteAudit (pu_cfg p) \<and> wa_CreatedAt e < sw_now env - rt_WriteAudit (pu_cfg p)))"
proof (intro conjI impI ballI)
  note sweep = PurgeOnce_sweep [OF assms]
  show so: "sweep_only p (sw_now env) db db'" and "err = None \<Longrightarrow> PurgeResult_Total res + db_rows db' = db_rows db"
    using sweep by auto
  fix e assume ok: "retention_ok (pu_cfg p)"
    and e: "e \<in> set (db_audit (pd_write db)) - set (db_audit (pd_write db'))"
  from so e have "audit_expired p (sw_now env) e"
    unfolding sweep_only_def using only_member by fastforce
  with ok show "0 < rt_WriteAudit (pu_cfg p)" "wa_CreatedAt e < sw_now env - rt_WriteAudit (pu_cfg p)"
    by (auto simp: audit_expired_def grant_expired_def write_expired_def carveOut_def retention_ok_def)
qed

text \<open>
  A quota row counts for the calls of its window only. A sweep keeps the counters of the window
  it happens in as long as the retention of the table is not shorter than that window.
\<close>

lemma WindowStart_recent: "0 < window \<Longrightarrow> now - window < WindowStart now window"
  using pos_mod_bound [of window "now - zeroTime"] by (simp add: WindowStart_def)

lemma map_of_only:
  assumes "only E t t'" "\<And>n. \<not> E (k, n)"
  shows "map_of t' k = map_of t k"
proof -
  have "map_of (filter (\<lambda>r. \<not> E r) u) k = map_of u k" for u
    using assms(2) by (induction u) auto
  with assms(1) show ?thesis unfolding only_def by metis
qed

text \<open>
  the purge never refills a quota. If the retention of \<^verbatim>\<open>signer_quota\<close> is unset or at
  least the quota window, no sweep changes what the quota gate reads for any signer in the
  current window or a later one.
\<close>

theorem quota_survives_purge:
  assumes "rt_SignerQuota (pu_cfg p) = 0 \<or> window \<le> rt_SignerQuota (pu_cfg p)" "0 < window"
    and "PurgeOnce p env db = (res, err, db')" "sw_now env \<le> now"
  shows "quota_count k (WindowStart now window) (pd_write db') = quota_count k (WindowStart now window) (pd_write db)"
proof -
  have so: "only (window_expired (rt_SignerQuota (pu_cfg p)) (\<lambda>r. snd (fst r)) (sw_now env))
      (db_quota (pd_write db)) (db_quota (pd_write db'))"
    using PurgeOnce_sweep [OF assms(3)] by (simp add: sweep_only_def)
  have "\<not> window_expired (rt_SignerQuota (pu_cfg p)) (\<lambda>r. snd (fst r)) (sw_now env) ((k, WindowStart now window), n)" for n
    using WindowStart_recent [OF assms(2), of now] assms(1,4) by (auto simp: window_expired_def)
  from map_of_only [OF so this] show ?thesis by (simp add: quota_count_def)
qed

section \<open>Convergence\<close>

definition calm_sweep :: "purge_env \<Rightarrow> bool" where
  "calm_sweep env \<longleftrightarrow>
     calm (sw_grant env) \<and> calm (sw_audit env) \<and> calm (sw_quota env) \<and> calm (sw_ban env) \<and> calm (sw_admin env)"

definition sweepCapacity :: nat where
  "sweepCapacity = purgeMaxBatchesPerTable * purgeBatchSize"

text \<open>\<open>drains E t t'\<close>: of the rows of \<open>E\<close>, and only of those, a sweep took its capacity or all.\<close>

definition drains :: "('r \<Rightarrow> bool) \<Rightarrow> 'r list \<Rightarrow> 'r list \<Rightarrow> bool" where
  "drains E t t' \<longleftrightarrow> only E t t' \<and> length (filter E t') = length (filter E t) - sweepCapacity"

lemma deleteBatched_drains:
  "calm xe \<Longrightarrow> deleteBatched P xe rows = (n, err, rows') \<Longrightarrow> err = None \<and> drains P rows rows'"
  using deleteBatched_calm [of xe P rows n err rows'] deleteBatched_only [of P xe rows n err rows']
  by (simp add: drains_def sweepCapacity_def)

lemma purgeTable_drains:
  assumes "calm xe" "purgeTable tbl window now age xe rows = (n, err, rows')"
  shows "err = None \<and> drains (window_expired window age now) rows rows'"
proof (cases "0 < window")
  case True
  obtain m e rs where d: "deleteBatched (\<lambda>r. age r < now - window) xe rows = (m, e, rs)"
    by (rule prod_cases3)
  have "window_expired window age now = (\<lambda>r. age r < now - window)"
    using True by (simp add: window_expired_def fun_eq_iff)
  with assms True d deleteBatched_drains [OF assms(1) d] show ?thesis by (simp add: purgeTable_def)
next
  case False
  with assms show ?thesis by (auto simp: purgeTable_def drains_def window_expired_def)
qed

lemma drains_idle: "drains (\<lambda>r. False) t t"
  by (simp add: drains_def)

text \<open>Deleting rows of one kind leaves the backlog of a disjoint kind as it is.\<close>

lemma only_other:
  assumes "only P t t'" "\<And>r. E r \<Longrightarrow> \<not> P r"
  shows "filter E t' = filter E t"
proof -
  have "filter E u = filter E (filter (\<lambda>r. \<not> P r) u)" for u
    using assms(2) by (induction u) auto
  with assms(1) show ?thesis unfolding only_def by metis
qed

text \<open>A backlog within the capacity of the sweeps to come is gone after them.\<close>

lemma drains_backlog:
  assumes "drains E t t'" "\<And>r. E0 r \<Longrightarrow> E r" "\<And>r. E r \<Longrightarrow> E1 r"
    and "length (filter E1 t) \<le> Suc n * sweepCapacity"
  shows "filter E0 t' = [] \<or> length (filter E1 t') \<le> n * sweepCapacity"
proof (cases "length (filter E t) \<le> sweepCapacity")
  case True
  with assms(1) have "filter E t' = []" by (simp add: drains_def)
  with assms(2) show ?thesis by (auto simp: filter_empty_conv)
next
  case False
  have split: "length (filter E1 u) = length (filter E u) + length (filter (\<lambda>r. E1 r \<and> \<not> E r) u)" for u
    using assms(3) by (induction u) auto
  have "filter (\<lambda>r. E1 r \<and> \<not> E r) t' = filter (\<lambda>r. E1 r \<and> \<not> E r) t"
    using assms(1) by (intro only_other [of E]) (auto simp: drains_def)
  with assms(1) False split [of t] split [of t']
  have "length (filter E1 t') + sweepCapacity = length (filter E1 t)" by (simp add: drains_def)
  also have "\<dots> \<le> n * sweepCapacity + sweepCapacity" using assms(4) by simp
  finally show ?thesis by simp
qed

lemma subseq_set: "subseq t' t \<Longrightarrow> r \<in> set t' \<Longrightarrow> r \<in> set t"
  by (induction t' t rule: list_emb.induct) auto

lemma only_filter_Nil: "only E t t' \<Longrightarrow> filter P t = [] \<Longrightarrow> filter P t' = []"
  unfolding only_def filter_empty_conv by (auto dest: subseq_set)


lemma drain_run:
  assumes step: "\<And>env db. calm_sweep env \<Longrightarrow> drains (E (sw_now env)) (tab db) (tab (snd (snd (PurgeOnce p env db))))"
    and mono: "\<And>s s' r. s \<le> s' \<Longrightarrow> E s r \<Longrightarrow> E s' r"
    and calm: "\<forall>env \<in> set envs. calm_sweep env \<and> t0 \<le> sw_now env \<and> sw_now env \<le> T"
    and backlog: "filter (E t0) (tab db) = [] \<or> length (filter (E T) (tab db)) \<le> length envs * sweepCapacity"
    and order: "t0 \<le> T"
  shows "filter (E t0) (tab (Purger_Run p envs db)) = []"
  using calm backlog
proof (induction envs arbitrary: db)
  case Nil
  then show ?case using mono [OF order] by (auto simp: filter_empty_conv)
next
  case (Cons env envs)
  obtain res err db' where once: "PurgeOnce p env db = (res, err, db')" by (rule prod_cases3)
  have d: "drains (E (sw_now env)) (tab db) (tab db')" using step [of env db] Cons.prems(1) once by simp
  have "filter (E t0) (tab db') = [] \<or> length (filter (E T) (tab db')) \<le> length envs * sweepCapacity"
    using Cons.prems(2)
  proof
    assume "filter (E t0) (tab db) = []"
    with d only_filter_Nil show ?thesis unfolding drains_def by blast
  next
    assume "length (filter (E T) (tab db)) \<le> length (env # envs) * sweepCapacity"
    then show ?thesis
      using Cons.prems(1) by (intro drains_backlog [OF d]) (auto intro: mono)
  qed
  with Cons.IH [of db'] Cons.prems(1) once show ?case by simp
qed

definition is_grant :: "Purger \<Rightarrow> WriteAuditEntry \<Rightarrow> bool" where
  "is_grant p e \<longleftrightarrow> carveOut p \<and> wa_MethodSelector e = pu_grantRoleSelector p"

lemma only_filter: "only E t t' \<Longrightarrow> only E (filter K t) (filter K t')"
proof -
  assume o: "only E t t'"
  have "filter (\<lambda>r. \<not> E r) (filter K u) = filter K (filter (\<lambda>r. \<not> E r) u)" for u
    by (simp add: conj_commute)
  with o show ?thesis by (simp add: only_def subseq_filter del: filter_filter)
qed

lemma drains_kind:
  assumes "drains P t t'" "\<And>r. P r \<Longrightarrow> K r"
  shows "drains P (filter K t) (filter K t')"
proof -
  have "filter P (filter K u) = filter P u" for u
    using assms(2) by (induction u) auto
  with assms(1) only_filter [of P t t' K] show ?thesis by (simp add: drains_def del: filter_filter)
qed

lemma drains_other: "filter K t' = filter K t \<Longrightarrow> (\<And>r. \<not> E r) \<Longrightarrow> drains E (filter K t) (filter K t')"
  by (simp add: drains_def)

lemma purgeWriteAudit_drains:
  assumes "calm (sw_grant env)" "calm (sw_audit env)" "purgeWriteAudit p env db = (n, g, err, db')"
  shows "err = None
    \<and> drains (grant_expired p (sw_now env)) (filter (is_grant p) (db_audit db)) (filter (is_grant p) (db_audit db'))
    \<and> drains (write_expired p (sw_now env)) (filter (\<lambda>e. \<not> is_grant p e) (db_audit db))
        (filter (\<lambda>e. \<not> is_grant p e) (db_audit db'))"
proof -
  let ?cfg = "pu_cfg p" and ?now = "sw_now env" and ?sel = "pu_grantRoleSelector p"
  let ?G = "\<lambda>e. wa_CreatedAt e < ?now - rt_WriteAuditGrantRole ?cfg \<and> wa_MethodSelector e = ?sel"
  let ?W = "\<lambda>e. wa_CreatedAt e < ?now - rt_WriteAudit ?cfg \<and> wa_MethodSelector e \<noteq> ?sel"
  let ?A = "\<lambda>e. wa_CreatedAt e < ?now - rt_WriteAudit ?cfg"
  obtain g1 e1 rows where f: "deleteBatched ?G (sw_grant env) (db_audit db) = (g1, e1, rows)" by (rule prod_cases3)
  obtain n2 e2 rows2 where s: "deleteBatched ?W (sw_audit env) rows = (n2, e2, rows2)" by (rule prod_cases3)
  obtain n3 e3 rows3 where a: "deleteBatched ?A (sw_audit env) (db_audit db) = (n3, e3, rows3)" by (rule prod_cases3)
  note fd = deleteBatched_drains [OF assms(1) f] and sd = deleteBatched_drains [OF assms(2) s]
    and ad = deleteBatched_drains [OF assms(2) a]
  show ?thesis
  proof (cases "carveOut p")
    case True
    have G: "grant_expired p ?now = ?G" and isg: "is_grant p = (\<lambda>e. wa_MethodSelector e = ?sel)"
      using True by (auto simp: grant_expired_def is_grant_def fun_eq_iff)
    have same: "filter (\<lambda>e. \<not> is_grant p e) rows = filter (\<lambda>e. \<not> is_grant p e) (db_audit db)"
      by (rule only_other [OF deleteBatched_only [OF f]]) (simp add: isg)
    have same2: "filter (is_grant p) rows2 = filter (is_grant p) rows"
      by (rule only_other [OF deleteBatched_only [OF s]]) (simp add: isg)
    have g: "drains (grant_expired p ?now) (filter (is_grant p) (db_audit db)) (filter (is_grant p) rows)"
      unfolding G using fd by (intro drains_kind) (auto simp: isg)
    show ?thesis
    proof (cases "rt_WriteAudit ?cfg = 0")
      case T: True
      have "drains (write_expired p ?now) (filter (\<lambda>e. \<not> is_grant p e) (db_audit db))
              (filter (\<lambda>e. \<not> is_grant p e) rows)"
        by (rule drains_other [OF same]) (simp add: write_expired_def T)
      with assms(3) True T f fd g show ?thesis
        by (auto simp: purgeWriteAudit_def Let_def)
    next
      case F: False
      have "write_expired p ?now = ?W" using True F by (auto simp: write_expired_def fun_eq_iff)
      then have "drains (write_expired p ?now) (filter (\<lambda>e. \<not> is_grant p e) rows) (filter (\<lambda>e. \<not> is_grant p e) rows2)"
        using sd by (intro drains_kind) (auto simp: isg)
      moreover have "err = None \<and> db' = db\<lparr>db_audit := rows2\<rparr>"
        using assms(3) True F f fd s sd by (simp add: purgeWriteAudit_def Let_def)
      ultimately show ?thesis using g same same2 by simp
    qed
  next
    case False
    have none: "\<not> grant_expired p ?now e" "\<not> is_grant p e" for e
      using False by (simp_all add: grant_expired_def is_grant_def)
    show ?thesis
    proof (cases "rt_WriteAudit ?cfg = 0")
      case T: True
      have "\<not> write_expired p ?now e" for e using T by (simp add: write_expired_def)
      with assms(3) False T none show ?thesis by (auto simp: purgeWriteAudit_def Let_def drains_def)
    next
      case F: False
      have "write_expired p ?now = ?A" using False F by (auto simp: write_expired_def fun_eq_iff)
      moreover have "err = None \<and> db' = db\<lparr>db_audit := rows3\<rparr>"
        using assms(3) False F a ad by (simp add: purgeWriteAudit_def Let_def)
      ultimately show ?thesis using none ad by (simp add: drains_def)
    qed
  qed
qed


definition calm_run :: "time \<Rightarrow> time \<Rightarrow> purge_env list \<Rightarrow> bool" where
  "calm_run t0 T envs \<longleftrightarrow> (\<forall>env \<in> set envs. calm_sweep env \<and> t0 \<le> sw_now env \<and> sw_now env \<le> T)"

definition backlog :: "Purger \<Rightarrow> time \<Rightarrow> purge_db \<Rightarrow> nat" where
  "backlog p T db =
     Max {length (filter (audit_expired p T) (db_audit (pd_write db))),
          length (filter (window_expired (rt_SignerQuota (pu_cfg p)) (\<lambda>r. snd (fst r)) T) (db_quota (pd_write db))),
          length (filter (window_expired (rt_SignerBlacklist (pu_cfg p)) bl_CreatedAt T) (db_blacklist (pd_write db))),
          length (filter (window_expired (rt_AdminAudit (pu_cfg p)) snd T) (pd_admin db))}"

lemma PurgeOnce_calm:
  assumes "calm_sweep env" "PurgeOnce p env db = (res, err, db')"
  shows "err = None"
    and "drains (grant_expired p (sw_now env)) (filter (is_grant p) (db_audit (pd_write db)))
           (filter (is_grant p) (db_audit (pd_write db')))"
    and "drains (write_expired p (sw_now env)) (filter (\<lambda>e. \<not> is_grant p e) (db_audit (pd_write db)))
           (filter (\<lambda>e. \<not> is_grant p e) (db_audit (pd_write db')))"
    and "drains (window_expired (rt_SignerQuota (pu_cfg p)) (\<lambda>r. snd (fst r)) (sw_now env))
           (db_quota (pd_write db)) (db_quota (pd_write db'))"
    and "drains (window_expired (rt_SignerBlacklist (pu_cfg p)) bl_CreatedAt (sw_now env))
           (db_blacklist (pd_write db)) (db_blacklist (pd_write db'))"
    and "drains (window_expired (rt_AdminAudit (pu_cfg p)) snd (sw_now env)) (pd_admin db) (pd_admin db')"
proof -
  let ?cfg = "pu_cfg p" and ?now = "sw_now env" and ?w = "pd_write db"
  have calm: "calm (sw_grant env)" "calm (sw_audit env)" "calm (sw_quota env)" "calm (sw_ban env)" "calm (sw_admin env)"
    using assms(1) by (simp_all add: calm_sweep_def)
  obtain wa gr e1 w1 where a: "purgeWriteAudit p env ?w = (wa, gr, e1, w1)" by (rule prod_cases4)
  obtain rows where w1: "w1 = ?w\<lparr>db_audit := rows\<rparr>"
    by (rule purgeWriteAudit_shape [OF a])
  obtain nq e2 q where b: "purgeTable ''signer_quota'' (rt_SignerQuota ?cfg) ?now (\<lambda>r. snd (fst r)) (sw_quota env) (db_quota ?w)
      = (nq, e2, q)" by (rule prod_cases3)
  obtain nb e3 bl where c: "purgeTable ''signer_blacklist'' (rt_SignerBlacklist ?cfg) ?now bl_CreatedAt (sw_ban env) (db_blacklist ?w)
      = (nb, e3, bl)" by (rule prod_cases3)
  obtain nd e4 ad where d: "purgeTable ''admin_audit'' (rt_AdminAudit ?cfg) ?now snd (sw_admin env) (pd_admin db)
      = (nd, e4, ad)" by (rule prod_cases3)
  note ad' = purgeWriteAudit_drains [OF calm(1,2) a] and bd = purgeTable_drains [OF calm(3) b]
    and cd = purgeTable_drains [OF calm(4) c] and dd = purgeTable_drains [OF calm(5) d]
  have "err = None \<and> db' = db\<lparr>pd_write := w1\<lparr>db_quota := q, db_blacklist := bl\<rparr>, pd_admin := ad\<rparr>"
    using assms(2) a b c d ad' bd cd dd by (simp add: PurgeOnce_def Let_def w1)
  then show "err = None"
    "drains (grant_expired p ?now) (filter (is_grant p) (db_audit ?w)) (filter (is_grant p) (db_audit (pd_write db')))"
    "drains (write_expired p ?now) (filter (\<lambda>e. \<not> is_grant p e) (db_audit ?w))
       (filter (\<lambda>e. \<not> is_grant p e) (db_audit (pd_write db')))"
    "drains (window_expired (rt_SignerQuota ?cfg) (\<lambda>r. snd (fst r)) ?now) (db_quota ?w) (db_quota (pd_write db'))"
    "drains (window_expired (rt_SignerBlacklist ?cfg) bl_CreatedAt ?now) (db_blacklist ?w) (db_blacklist (pd_write db'))"
    "drains (window_expired (rt_AdminAudit ?cfg) snd ?now) (pd_admin db) (pd_admin db')"
    using ad' bd cd dd by simp_all
qed

lemma audit_kinds_0:
  "length (filter (audit_expired p t) rows) \<le> 0 \<longleftrightarrow>
     filter (grant_expired p t) (filter (is_grant p) rows) = []
     \<and> filter (write_expired p t) (filter (\<lambda>e. \<not> is_grant p e) rows) = []"
  by (auto simp: filter_empty_conv audit_expired_def grant_expired_def write_expired_def is_grant_def)

lemma audit_kinds_length:
  "length (filter (grant_expired p t) (filter (is_grant p) rows)) \<le> length (filter (audit_expired p t) rows)"
  "length (filter (write_expired p t) (filter (\<lambda>e. \<not> is_grant p e) rows)) \<le> length (filter (audit_expired p t) rows)"
  by (induction rows) (auto simp: audit_expired_def)

lemma backlog_le:
  "backlog p T db \<le> n \<longleftrightarrow>
     length (filter (audit_expired p T) (db_audit (pd_write db))) \<le> n
     \<and> length (filter (window_expired (rt_SignerQuota (pu_cfg p)) (\<lambda>r. snd (fst r)) T) (db_quota (pd_write db))) \<le> n
     \<and> length (filter (window_expired (rt_SignerBlacklist (pu_cfg p)) bl_CreatedAt T) (db_blacklist (pd_write db))) \<le> n
     \<and> length (filter (window_expired (rt_AdminAudit (pu_cfg p)) snd T) (pd_admin db)) \<le> n"
  by (simp add: backlog_def)

lemma expired_mono:
  "s \<le> s' \<Longrightarrow> grant_expired p s e \<Longrightarrow> grant_expired p s' e"
  "s \<le> s' \<Longrightarrow> write_expired p s e \<Longrightarrow> write_expired p s' e"
  "s \<le> s' \<Longrightarrow> window_expired window age s r \<Longrightarrow> window_expired window age s' r"
  by (auto simp: grant_expired_def write_expired_def window_expired_def)

lemma sweep_eq: "PurgeOnce p env db = (fst (PurgeOnce p env db), fst (snd (PurgeOnce p env db)), snd (snd (PurgeOnce p env db)))"
  by simp

text \<open>
  Claim C19 (retention is enforced, not only promised). If the sweeps of a run meet no fault and
  every backlog fits the capacity of the run, two hundred batches of five thousand rows per
  sweep, then at its end no table holds a row that had expired when the run began, whatever
  else expired meanwhile.
\<close>

theorem purge_converges:
  assumes "calm_run t0 T envs" "t0 \<le> T" "backlog p T db \<le> length envs * 1000000"
  shows "backlog p t0 (Purger_Run p envs db) = 0"
proof -
  have "sweepCapacity = 1000000"
    by (simp add: sweepCapacity_def purgeMaxBatchesPerTable_def purgeBatchSize_def)
  note size = assms(3)[folded this, unfolded backlog_le]
  note calm = assms(1)[unfolded calm_run_def] and order = assms(2)
  let ?fin = "Purger_Run p envs db"
  have "filter (grant_expired p t0) (filter (is_grant p) (db_audit (pd_write ?fin))) = []"
    by (rule drain_run [where E = "grant_expired p" and tab = "\<lambda>db. filter (is_grant p) (db_audit (pd_write db))", OF _ _ calm _ order])
       (erule PurgeOnce_calm(2) [OF _ sweep_eq], erule (1) expired_mono(1), rule disjI2, rule order_trans [OF audit_kinds_length(1)], simp only: size)
  moreover have "filter (write_expired p t0) (filter (\<lambda>e. \<not> is_grant p e) (db_audit (pd_write ?fin))) = []"
    by (rule drain_run [where E = "write_expired p" and tab = "\<lambda>db. filter (\<lambda>e. \<not> is_grant p e) (db_audit (pd_write db))", OF _ _ calm _ order])
       (erule PurgeOnce_calm(3) [OF _ sweep_eq], erule (1) expired_mono(2), rule disjI2, rule order_trans [OF audit_kinds_length(2)], simp only: size)
  moreover have "filter (window_expired (rt_SignerQuota (pu_cfg p)) (\<lambda>r. snd (fst r)) t0) (db_quota (pd_write ?fin)) = []"
    by (rule drain_run [where tab = "\<lambda>db. db_quota (pd_write db)", OF _ _ calm _ order])
       (erule PurgeOnce_calm(4) [OF _ sweep_eq], erule (1) expired_mono(3), rule disjI2, simp only: size)
  moreover have "filter (window_expired (rt_SignerBlacklist (pu_cfg p)) bl_CreatedAt t0) (db_blacklist (pd_write ?fin)) = []"
    by (rule drain_run [where tab = "\<lambda>db. db_blacklist (pd_write db)", OF _ _ calm _ order])
       (erule PurgeOnce_calm(5) [OF _ sweep_eq], erule (1) expired_mono(3), rule disjI2, simp only: size)
  moreover have "filter (window_expired (rt_AdminAudit (pu_cfg p)) snd t0) (pd_admin ?fin) = []"
    by (rule drain_run [where tab = pd_admin, OF _ _ calm _ order])
       (erule PurgeOnce_calm(6) [OF _ sweep_eq], erule (1) expired_mono(3), rule disjI2, simp only: size)
  ultimately have "backlog p t0 ?fin \<le> 0" unfolding backlog_le audit_kinds_0 by simp
  then show ?thesis by simp
qed


section \<open>A retention shorter than the quota window\<close>

text \<open>
  Nothing relates the retention of \<^verbatim>\<open>signer_quota\<close> to \<^verbatim>\<open>MCP_SIGNER_WRITE_WINDOW\<close>: a configuration
  that keeps counters for less than the window is accepted, and then a sweep in the middle of a
  window deletes the counters in use, which gives every signer a fresh quota.
\<close>

lemma short_retention_refills_quota:
  assumes "calm_sweep env" "PurgeOnce p env db = (res, err, db')" "length (db_quota (pd_write db)) \<le> 1000000"
    and "0 < rt_SignerQuota (pu_cfg p)" "ws < sw_now env - rt_SignerQuota (pu_cfg p)"
  shows "quota_count k ws (pd_write db') = 0"
proof -
  let ?E = "window_expired (rt_SignerQuota (pu_cfg p)) (\<lambda>r. snd (fst r)) (sw_now env)"
  have cap: "sweepCapacity = 1000000"
    by (simp add: sweepCapacity_def purgeMaxBatchesPerTable_def purgeBatchSize_def)
  have d: "drains ?E (db_quota (pd_write db)) (db_quota (pd_write db'))"
    by (rule PurgeOnce_calm(4) [OF assms(1,2)])
  have "length (filter ?E (db_quota (pd_write db))) \<le> 1000000"
    using assms(3) length_filter_le [of ?E "db_quota (pd_write db)"] by linarith
  with d have gone: "filter ?E (db_quota (pd_write db')) = []" by (simp add: drains_def cap)
  have "map_of (db_quota (pd_write db')) (k, ws) = None"
  proof (rule ccontr)
    assume "map_of (db_quota (pd_write db')) (k, ws) \<noteq> None"
    then obtain n where "((k, ws), n) \<in> set (db_quota (pd_write db'))" by (auto dest: map_of_SomeD)
    with gone assms(4,5) show False by (auto simp: filter_empty_conv window_expired_def)
  qed
  then show ?thesis by (simp add: quota_count_def)
qed

section \<open>A sweep\<close>

definition calm_exec :: exec_env where
  "calm_exec = \<lparr>xe_exec = (\<lambda>i. ExecOk), xe_ctxErr = (\<lambda>i. None)\<rparr>"

definition demo_sweep :: purge_env where
  "demo_sweep = \<lparr>sw_now = 100, sw_grant = calm_exec, sw_audit = calm_exec, sw_quota = calm_exec,
                 sw_ban = calm_exec, sw_admin = calm_exec\<rparr>"

definition demo_purger :: Purger where
  "demo_purger =
     \<lparr>pu_cfg = \<lparr>rt_WriteAudit = 20, rt_WriteAuditGrantRole = 60, rt_SignerQuota = 24, rt_SignerBlacklist = 0,
                rt_AdminAudit = 50, rt_PurgeInterval = 1\<rparr>,
      pu_grantRoleSelector = ''0xaa''\<rparr>"

definition audit_row :: "string \<Rightarrow> time \<Rightarrow> WriteAuditEntry" where
  "audit_row sel t =
     \<lparr>wa_Signer = ''s'', wa_ToAddr = ''a'', wa_ValueWei = ''0'', wa_CalldataLen = 4, wa_MethodSelector = sel,
      wa_TxHash = ''h'', wa_Outcome = ''ok'', wa_Error = '''', wa_CreatedAt = t\<rparr>"

definition demo_tables :: purge_db where
  "demo_tables =
     \<lparr>pd_write = \<lparr>db_blacklist = [\<lparr>bl_Signer = ''b'', bl_Reason = '''', bl_CreatedAt = 1\<rparr>],
                  db_quota = [((''s'', 48), 3), ((''s'', 96), 2)],
                  db_audit = [audit_row ''0xaa'' 30, audit_row ''0xbb'' 50, audit_row ''0xaa'' 60, audit_row ''0xbb'' 90]\<rparr>,
      pd_admin = []\<rparr>"

lemma demo_calm: "calm_sweep demo_sweep"
  by (simp add: calm_sweep_def calm_def demo_sweep_def calm_exec_def)

theorem retention_respected_witness:
  "fst (snd (PurgeOnce demo_purger demo_sweep demo_tables)) = None
   \<and> audit_row ''0xaa'' 60 \<in> set (db_audit (pd_write (snd (snd (PurgeOnce demo_purger demo_sweep demo_tables)))))
   \<and> db_blacklist (pd_write (snd (snd (PurgeOnce demo_purger demo_sweep demo_tables)))) = db_blacklist (pd_write demo_tables)"
proof -
  let ?db = "snd (snd (PurgeOnce demo_purger demo_sweep demo_tables))"
  have so: "sweep_only demo_purger (sw_now demo_sweep) demo_tables ?db"
    using retention_respected [OF sweep_eq] by blast
  have "audit_row ''0xaa'' 60 \<in> set (db_audit (pd_write ?db))"
    by (rule only_member [of "audit_expired demo_purger 100" "db_audit (pd_write demo_tables)"])
       (use so in \<open>simp_all add: sweep_only_def demo_sweep_def demo_tables_def audit_expired_def grant_expired_def
          write_expired_def carveOut_def demo_purger_def audit_row_def\<close>)
  moreover have "db_blacklist (pd_write ?db) = db_blacklist (pd_write demo_tables)"
    using so by (auto simp: sweep_only_def only_def window_expired_def demo_purger_def)
  ultimately show ?thesis using PurgeOnce_calm(1) [OF demo_calm sweep_eq] by simp
qed

theorem quota_survives_purge_witness:
  "quota_count ''s'' 96 (pd_write (snd (snd (PurgeOnce demo_purger demo_sweep demo_tables)))) = 2"
proof -
  have "WindowStart 100 24 = 96" by (simp add: WindowStart_def zeroTime_def)
  with quota_survives_purge [OF _ _ sweep_eq, of demo_purger 24 demo_sweep 100 "''s''" demo_tables]
  show ?thesis by (simp add: demo_purger_def demo_sweep_def quota_count_def demo_tables_def)
qed

theorem purge_converges_witness:
  "backlog demo_purger 100 demo_tables = 2
   \<and> backlog demo_purger 100 (Purger_Run demo_purger [demo_sweep] demo_tables) = 0"
proof -
  have two: "backlog demo_purger 100 demo_tables = 2"
    by (simp add: backlog_def demo_purger_def demo_tables_def audit_expired_def grant_expired_def write_expired_def
        carveOut_def audit_row_def window_expired_def)
  have "calm_run 100 100 [demo_sweep]" using demo_calm by (simp add: calm_run_def demo_sweep_def)
  from purge_converges [OF this order_refl, of demo_purger demo_tables] two show ?thesis by simp
qed

end
