(* ===== verification/Http_Chain.thy ===== *)
theory Http_Chain
  imports Rate_Limit Client_IP Auth_Keys
begin

text \<open>
  The HTTP front of the server: the middlewares of \<^verbatim>\<open>origin.go\<close>, \<^verbatim>\<open>cors.go\<close>,
  \<^verbatim>\<open>forwardedproto.go\<close>, \<^verbatim>\<open>wellknown.go\<close>, \<^verbatim>\<open>auth.go\<close>, \<^verbatim>\<open>ratelimit.go\<close>,
  \<^verbatim>\<open>anonrate.go\<close> and \<^verbatim>\<open>failrate.go\<close> (all in \<^verbatim>\<open>internal/mcp\<close>), and their composition by
  \<^verbatim>\<open>RunHTTP\<close> and \<^verbatim>\<open>wrapSecurityChain\<close> of \<^verbatim>\<open>server.go\<close>.

  A handler maps a request and the state of the process to a response and the next state. The
  request carries the claims that the authentication attached to its context and the body
  limit; the clock readings made while one request is handled are a single instant. The
  handlers behind the chain (the MCP SDK, the key-request endpoint) and the token validator are
  parameters. Paths are clean: the Go multiplexer redirects any other path to its cleaned form
  before the routing modelled here. Logging and response counters are left out: they do not influence a response.
\<close>

section \<open>Requests, responses, state\<close>

record hreq =
  rq :: Request
  rq_claims :: "Claims option"
  rq_maxBody :: "int option"
  rq_now :: time

record response =
  status :: nat
  hdr :: "(string \<times> string) list"
  body :: string

record ('r, 'l, 'a) hstate =
  hs_fail :: "('r, 'l) IPFailRateLimiter option"
  hs_anon :: "('r, 'l) keyedRateLimiter option"
  hs_client :: "('r, 'l) keyedRateLimiter option"
  hs_app :: 'a

type_synonym ('r, 'l, 'a) handler = "hreq \<Rightarrow> ('r, 'l, 'a) hstate \<Rightarrow> response \<times> ('r, 'l, 'a) hstate"

definition httpError :: "string \<Rightarrow> nat \<Rightarrow> response" where
  "httpError msg code =
     \<lparr>status = code, hdr = [(''Content-Type'', ''text/plain; charset=utf-8''),
                            (''X-Content-Type-Options'', ''nosniff'')],
      body = msg @ [CHR 0x0A]\<rparr>"

definition addHeaders :: "(string \<times> string) list \<Rightarrow> response \<Rightarrow> response" where
  "addHeaders hs r = r\<lparr>hdr := hs @ hdr r\<rparr>"

section \<open>Origin allowlist\<close>

definition NewOriginAllowlist :: "(string \<Rightarrow> string) \<Rightarrow> string list \<Rightarrow> string list" where
  "NewOriginAllowlist ul origins =
     filter (\<lambda>o'. o' \<noteq> '''') (map (\<lambda>o'. ToLower ul (TrimSpace o')) origins)"

definition DefaultOriginAllowlist :: "(string \<Rightarrow> string) \<Rightarrow> string list" where
  "DefaultOriginAllowlist ul =
     NewOriginAllowlist ul
       [''http://localhost'', ''https://localhost'', ''http://127.0.0.1'', ''https://127.0.0.1'',
        ''http://[::1]'', ''https://[::1]'']"

definition localhostPrefixes :: "string list" where
  "localhostPrefixes =
     [''http://localhost:'', ''https://localhost:'', ''http://127.0.0.1:'', ''https://127.0.0.1:'',
      ''http://[::1]:'', ''https://[::1]:'']"

definition Allowed :: "(string \<Rightarrow> string) \<Rightarrow> string list \<Rightarrow> string \<Rightarrow> bool" where
  "Allowed ul allowed origin =
     (if origin = '''' then True
      else
        let o' = ToLower ul (TrimSpace origin) in
        if o' \<in> set allowed then True
        else list_ex (\<lambda>p. HasPrefix o' p \<and> TrimSuffix p '':'' \<in> set allowed) localhostPrefixes)"

definition originGuard ::
  "(string \<Rightarrow> string) \<Rightarrow> string list \<Rightarrow> ('r, 'l, 'a) handler \<Rightarrow> ('r, 'l, 'a) handler" where
  "originGuard ul allowed next r s =
     (if \<not> Allowed ul allowed (Header (rq r) ''Origin'')
      then (httpError ''origin not allowed'' 403, s) else next r s)"

definition corsAllowHeaders :: "string \<Rightarrow> (string \<times> string) list" where
  "corsAllowHeaders origin =
     [(''Access-Control-Allow-Origin'', origin), (''Vary'', ''Origin''),
      (''Access-Control-Allow-Methods'', ''GET, POST, OPTIONS''),
      (''Access-Control-Allow-Headers'', ''Authorization, Content-Type, Mcp-Session-Id''),
      (''Access-Control-Allow-Credentials'', ''false''), (''Access-Control-Max-Age'', ''600'')]"

definition corsActualHeaders :: "string \<Rightarrow> (string \<times> string) list" where
  "corsActualHeaders origin =
     [(''Access-Control-Allow-Origin'', origin), (''Vary'', ''Origin''),
      (''Access-Control-Allow-Credentials'', ''false''),
      (''Access-Control-Expose-Headers'', ''Mcp-Session-Id'')]"

definition CORSMiddleware ::
  "(string \<Rightarrow> string) \<Rightarrow> string list \<Rightarrow> ('r, 'l, 'a) handler \<Rightarrow> ('r, 'l, 'a) handler" where
  "CORSMiddleware ul allowed next r s =
     (let origin = Header (rq r) ''Origin'' in
      if Method (rq r) = ''OPTIONS'' \<and> Header (rq r) ''Access-Control-Request-Method'' \<noteq> '''' then
        (if origin = '''' \<or> \<not> Allowed ul allowed origin
         then (httpError ''origin not allowed'' 403, s)
         else (\<lparr>status = 204, hdr = corsAllowHeaders origin, body = ''''\<rparr>, s))
      else if origin \<noteq> '''' \<and> Allowed ul allowed origin
      then (case next r s of (resp, s') \<Rightarrow> (addHeaders (corsActualHeaders origin) resp, s'))
      else next r s)"

section \<open>Forwarded scheme, body limit, discovery paths\<close>

definition forwardedProtoScheme :: "string \<Rightarrow> string" where
  "forwardedProtoScheme xfp =
     (if xfp = '''' then ''''
      else TrimSpace (case index_of (\<lambda>c. c = CHR '','') xfp of Some i \<Rightarrow> take i xfp | None \<Rightarrow> xfp))"

text \<open>
  \<^verbatim>\<open>strings.EqualFold(scheme, "https")\<close>. Under Unicode simple folding the letter \<open>s\<close> also
  matches U+017F, whose UTF-8 encoding is C5 BF.
\<close>

definition EqualFold_https :: "string \<Rightarrow> bool" where
  "EqualFold_https s \<longleftrightarrow>
     map asciiLower (take 4 s) = ''http''
     \<and> (drop 4 s = ''s'' \<or> drop 4 s = ''S'' \<or> drop 4 s = [CHR 0xC5, CHR 0xBF])"

definition requireForwardedHTTPS ::
  "bool \<Rightarrow> ('r, 'l, 'a) handler \<Rightarrow> ('r, 'l, 'a) handler" where
  "requireForwardedHTTPS trustProxy next r s =
     (if \<not> trustProxy then next r s
      else
        let scheme = forwardedProtoScheme (Header (rq r) ''X-Forwarded-Proto'') in
        if scheme \<noteq> '''' \<and> \<not> EqualFold_https scheme
        then (httpError ''https required'' 403, s) else next r s)"

definition MaxRequestBodyBytes :: int where
  "MaxRequestBodyBytes = 10 * 1024 * 1024"

definition limitRequestBody :: "('r, 'l, 'a) handler \<Rightarrow> ('r, 'l, 'a) handler" where
  "limitRequestBody next r s = next (r\<lparr>rq_maxBody := Some MaxRequestBodyBytes\<rparr>) s"

definition wellKnownProtectedResource :: string where
  "wellKnownProtectedResource = ''/.well-known/oauth-protected-resource''"

definition wellKnownAuthServer :: string where
  "wellKnownAuthServer = ''/.well-known/oauth-authorization-server''"

definition wellKnownGuard :: "('r, 'l, 'a) handler \<Rightarrow> ('r, 'l, 'a) handler" where
  "wellKnownGuard next r s =
     (if Path (rq r) = wellKnownProtectedResource \<or> Path (rq r) = wellKnownAuthServer
      then (httpError ''404 page not found'' 404, s) else next r s)"

section \<open>Rate limits\<close>

definition IPFromRequest :: "('r, 'l) IPFailRateLimiter \<Rightarrow> Request \<Rightarrow> string" where
  "IPFromRequest l r = clientIP r (fl_trustProxy l) (fl_hops l)"

definition failrateWrap ::
  "('r, 'l) rate_ops \<Rightarrow> ('r, 'l, 'a) handler \<Rightarrow> ('r, 'l, 'a) handler" where
  "failrateWrap ro next r s =
     (case hs_fail s of
        None \<Rightarrow> next r s
      | Some l \<Rightarrow>
          (case peek ro (rq_now r) (rq_now r) (IPFromRequest l (rq r)) l of
             (ok, l') \<Rightarrow>
               if \<not> ok
               then (\<lparr>status = 429, hdr = [(''Content-Type'', ''application/json''), (''Retry-After'', ''60'')],
                      body = ''{'' @ dq @ ''error'' @ dq @ '':'' @ dq
                               @ ''too many failed auth attempts; retry later'' @ dq @ ''}''\<rparr>,
                     s\<lparr>hs_fail := Some l'\<rparr>)
               else next r (s\<lparr>hs_fail := Some l'\<rparr>)))"

definition rateLimited :: response where
  "rateLimited = \<lparr>status = 429, hdr = [(''Content-Type'', ''application/json'')],
     body = ''{'' @ dq @ ''error'' @ dq @ '':'' @ dq @ ''rate limit exceeded'' @ dq @ ''}'' @ [CHR 0x0A]\<rparr>"

definition ClientIDFromContext :: "Claims option \<Rightarrow> string" where
  "ClientIDFromContext ctx = (case ctx of None \<Rightarrow> '''' | Some c \<Rightarrow> cl_ClientID c)"

definition clientRateMiddleware ::
  "('r, 'l) rate_ops \<Rightarrow> ('r, 'l, 'a) handler \<Rightarrow> ('r, 'l, 'a) handler" where
  "clientRateMiddleware ro next r s =
     (case hs_client s of
        None \<Rightarrow> next r s
      | Some l \<Rightarrow>
          let clientID = ClientIDFromContext (rq_claims r) in
          if clientID = '''' then next r s
          else (case allow ro (rq_now r) (rq_now r) clientID l of
                  (ok, l') \<Rightarrow>
                    if \<not> ok then (rateLimited, s\<lparr>hs_client := Some l'\<rparr>)
                    else next r (s\<lparr>hs_client := Some l'\<rparr>)))"

definition anonRateMiddleware ::
  "('r, 'l) rate_ops \<Rightarrow> bool \<Rightarrow> int \<Rightarrow> ('r, 'l, 'a) handler \<Rightarrow> ('r, 'l, 'a) handler" where
  "anonRateMiddleware ro trustProxy hops next r s =
     (case hs_anon s of
        None \<Rightarrow> next r s
      | Some l \<Rightarrow>
          if rq_claims r \<noteq> None then next r s
          else (case allow ro (rq_now r) (rq_now r) (clientIP (rq r) trustProxy hops) l of
                  (ok, l') \<Rightarrow>
                    if \<not> ok then (rateLimited, s\<lparr>hs_anon := Some l'\<rparr>)
                    else next r (s\<lparr>hs_anon := Some l'\<rparr>)))"

section \<open>Authentication\<close>

definition writeUnauthorized :: "string \<Rightarrow> response" where
  "writeUnauthorized msg = addHeaders [(''WWW-Authenticate'', ''Bearer'')] (httpError msg 401)"

definition penalize :: "('r, 'l) rate_ops \<Rightarrow> hreq \<Rightarrow> ('r, 'l, 'a) hstate \<Rightarrow> ('r, 'l, 'a) hstate" where
  "penalize ro r s =
     (case hs_fail s of
        None \<Rightarrow> s
      | Some l \<Rightarrow>
          s\<lparr>hs_fail := Some (Penalize ro (rq_now r) (rq_now r) (IPFromRequest l (rq r)) l)\<rparr>)"

definition bearer :: string where
  "bearer = ''Bearer ''"

definition rejectMessage :: "string \<Rightarrow> goerr \<Rightarrow> string" where
  "rejectMessage renewalURL err =
     (if Is err ErrInvalidAPIKey then ''invalid API key''
      else if Is err ErrKeyExpired
      then ''key expired'' @ (if renewalURL \<noteq> '''' then '' '' @ [CHR 0xE2, CHR 0x80, CHR 0x94] @ '' renew at '' @ renewalURL else '''')
      else if Is err ErrKeyRevoked then ''key revoked''
      else ''invalid credentials'')"

type_synonym validator = "time \<Rightarrow> string \<Rightarrow> goerr + Claims"

definition AuthMiddleware ::
  "('r, 'l) rate_ops \<Rightarrow> validator option \<Rightarrow> bool \<Rightarrow> string \<Rightarrow> ('r, 'l, 'a) handler \<Rightarrow> ('r, 'l, 'a) handler" where
  "AuthMiddleware ro validator keylessReads renewalURL next r s =
     (case validator of
        None \<Rightarrow> next r s
      | Some validate \<Rightarrow>
          let authHeader = Header (rq r) ''Authorization'' in
          if authHeader = '''' then
            (if keylessReads then next r s
             else (writeUnauthorized ''missing Authorization header'', penalize ro r s))
          else if \<not> HasPrefix authHeader bearer then
            (writeUnauthorized ''invalid Authorization scheme; expected Bearer'', penalize ro r s)
          else
            let token = TrimPrefix authHeader bearer in
            (case validate (rq_now r) token of
               Inl err \<Rightarrow> (writeUnauthorized (rejectMessage renewalURL err), penalize ro r s)
             | Inr claims \<Rightarrow> next (r\<lparr>rq_claims := Some claims\<rparr>) s))"

section \<open>The composed server\<close>

record ('r, 'l, 'a) server_cfg =
  sc_ul :: "string \<Rightarrow> string"
  sc_rate :: "('r, 'l) rate_ops"
  sc_validator :: "validator option"
  sc_keylessReads :: bool
  sc_allowed :: "string list option"
  sc_renewalURL :: string
  sc_trustProxy :: bool
  sc_hops :: int
  sc_keyRequest :: "('r, 'l, 'a) handler option"
  sc_mcp :: "('r, 'l, 'a) handler"

definition KeyRequestPath :: string where
  "KeyRequestPath = ''/api/v1/keys/request''"

definition mcpChain :: "('r, 'l, 'a) server_cfg \<Rightarrow> ('r, 'l, 'a) handler" where
  "mcpChain c =
     AuthMiddleware (sc_rate c) (sc_validator c) (sc_keylessReads c) (sc_renewalURL c)
       (anonRateMiddleware (sc_rate c) (sc_trustProxy c) (sc_hops c)
         (clientRateMiddleware (sc_rate c) (sc_mcp c)))"

definition routed :: "('r, 'l, 'a) server_cfg \<Rightarrow> ('r, 'l, 'a) handler" where
  "routed c =
     wellKnownGuard
       (case sc_keyRequest c of
          None \<Rightarrow> mcpChain c
        | Some kr \<Rightarrow> (\<lambda>r s. if Path (rq r) = KeyRequestPath then kr r s else mcpChain c r s))"

definition wrapSecurityChain ::
  "('r, 'l, 'a) server_cfg \<Rightarrow> string list \<Rightarrow> ('r, 'l, 'a) handler \<Rightarrow> ('r, 'l, 'a) handler" where
  "wrapSecurityChain c allowed inner =
     CORSMiddleware (sc_ul c) allowed
       (originGuard (sc_ul c) allowed
         (requireForwardedHTTPS (sc_trustProxy c)
           (failrateWrap (sc_rate c) (limitRequestBody inner))))"

definition RunHTTP_handler :: "('r, 'l, 'a) server_cfg \<Rightarrow> ('r, 'l, 'a) handler" where
  "RunHTTP_handler c =
     (let allowed = (case sc_allowed c of None \<Rightarrow> DefaultOriginAllowlist (sc_ul c) | Some a \<Rightarrow> a)
      in wrapSecurityChain c allowed (routed c))"

section \<open>Who reaches the handler behind a middleware\<close>

text \<open>
  \<open>touched h r s\<close>: handling \<open>r\<close> with \<open>h\<close> changed the state of the application behind the chain.
\<close>

definition touched :: "('r, 'l, 'a) handler \<Rightarrow> hreq \<Rightarrow> ('r, 'l, 'a) hstate \<Rightarrow> bool" where
  "touched h r s \<longleftrightarrow> hs_app (snd (h r s)) \<noteq> hs_app s"

lemma touched_CORS:
  "touched (CORSMiddleware ul al nxt) r s \<Longrightarrow>
   touched nxt r s \<and> hs_app (snd (CORSMiddleware ul al nxt r s)) = hs_app (snd (nxt r s))"
  by (auto simp: touched_def CORSMiddleware_def Let_def split: if_splits prod.splits)

lemma touched_origin:
  "touched (originGuard ul al nxt) r s \<Longrightarrow>
   Allowed ul al (Header (rq r) ''Origin'') \<and> touched nxt r s \<and> originGuard ul al nxt r s = nxt r s"
  by (auto simp: touched_def originGuard_def split: if_splits)

definition scheme_ok :: "bool \<Rightarrow> Request \<Rightarrow> bool" where
  "scheme_ok trust q \<longleftrightarrow>
     (trust \<longrightarrow> (let sch = forwardedProtoScheme (Header q ''X-Forwarded-Proto'') in sch = [] \<or> EqualFold_https sch))"

lemma touched_forwarded:
  "touched (requireForwardedHTTPS trust nxt) r s \<Longrightarrow>
   scheme_ok trust (rq r) \<and> touched nxt r s \<and> requireForwardedHTTPS trust nxt r s = nxt r s"
  by (auto simp: touched_def requireForwardedHTTPS_def scheme_ok_def Let_def split: if_splits)

definition has_budget :: "('r, 'l) rate_ops \<Rightarrow> hreq \<Rightarrow> ('r, 'l, 'a) hstate \<Rightarrow> bool" where
  "has_budget ro r s \<longleftrightarrow>
     (case hs_fail s of None \<Rightarrow> True
      | Some l \<Rightarrow> fst (peek ro (rq_now r) (rq_now r) (IPFromRequest l (rq r)) l))"

lemma touched_failrate:
  "touched (failrateWrap ro nxt) r s \<Longrightarrow>
   has_budget ro r s \<and> (\<exists>s1. failrateWrap ro nxt r s = nxt r s1 \<and> touched nxt r s1
     \<and> hs_app s1 = hs_app s \<and> hs_anon s1 = hs_anon s \<and> hs_client s1 = hs_client s)"
  by (auto simp: touched_def failrateWrap_def has_budget_def split: option.splits prod.splits if_splits)

lemma touched_wellknown:
  "touched (wellKnownGuard nxt) r s \<Longrightarrow>
   Path (rq r) \<noteq> wellKnownProtectedResource \<and> Path (rq r) \<noteq> wellKnownAuthServer
   \<and> touched nxt r s \<and> wellKnownGuard nxt r s = nxt r s"
  by (auto simp: touched_def wellKnownGuard_def split: if_splits)

text \<open>The identity with which a request passes the authentication.\<close>

definition identified :: "validator option \<Rightarrow> bool \<Rightarrow> hreq \<Rightarrow> Claims option \<Rightarrow> bool" where
  "identified v keyless r ctx \<longleftrightarrow>
     (case v of
        None \<Rightarrow> ctx = rq_claims r
      | Some validate \<Rightarrow>
          (let a = Header (rq r) ''Authorization'' in
           a = [] \<and> keyless \<and> ctx = rq_claims r
           \<or> (\<exists>token claims. a = bearer @ token \<and> validate (rq_now r) token = Inr claims \<and> ctx = Some claims)))"

lemma penalize_app [simp]: "hs_app (penalize ro r s) = hs_app s"
  by (simp add: penalize_def split: option.split)

lemma touched_auth:
  assumes "touched (AuthMiddleware ro v keyless url nxt) r s"
  shows "\<exists>ctx. identified v keyless r ctx \<and> touched nxt (r\<lparr>rq_claims := ctx\<rparr>) s
     \<and> AuthMiddleware ro v keyless url nxt r s = nxt (r\<lparr>rq_claims := ctx\<rparr>) s"
proof -
  have same: "r = r\<lparr>rq_claims := rq_claims r\<rparr>" by simp
  consider (anon) "identified v keyless r (rq_claims r)" "AuthMiddleware ro v keyless url nxt r s = nxt r s"
    | (tok) token claims validate where "v = Some validate" "Header (rq r) ''Authorization'' = bearer @ token"
        "validate (rq_now r) token = Inr claims"
        "AuthMiddleware ro v keyless url nxt r s = nxt (r\<lparr>rq_claims := Some claims\<rparr>) s"
    using assms
    by (auto simp: touched_def AuthMiddleware_def identified_def Let_def HasPrefix_def TrimPrefix_def prefix_def
        split: option.splits if_splits sum.splits)
  then show ?thesis
  proof cases
    case anon
    with assms same show ?thesis unfolding touched_def by metis
  next
    case tok
    then have "identified v keyless r (Some claims)" by (auto simp: identified_def Let_def)
    with tok assms show ?thesis unfolding touched_def by metis
  qed
qed

definition anon_admits :: "('r, 'l) rate_ops \<Rightarrow> bool \<Rightarrow> int \<Rightarrow> hreq \<Rightarrow> ('r, 'l, 'a) hstate \<Rightarrow> bool" where
  "anon_admits ro trust hops r s \<longleftrightarrow>
     (case hs_anon s of None \<Rightarrow> True
      | Some l \<Rightarrow> rq_claims r \<noteq> None
          \<or> fst (allow ro (rq_now r) (rq_now r) (clientIP (rq r) trust hops) l))"

definition client_admits :: "('r, 'l) rate_ops \<Rightarrow> hreq \<Rightarrow> ('r, 'l, 'a) hstate \<Rightarrow> bool" where
  "client_admits ro r s \<longleftrightarrow>
     (case hs_client s of None \<Rightarrow> True
      | Some l \<Rightarrow> ClientIDFromContext (rq_claims r) = []
          \<or> fst (allow ro (rq_now r) (rq_now r) (ClientIDFromContext (rq_claims r)) l))"

lemma touched_anon:
  "touched (anonRateMiddleware ro trust hops nxt) r s \<Longrightarrow>
   anon_admits ro trust hops r s \<and> (\<exists>s1. anonRateMiddleware ro trust hops nxt r s = nxt r s1
     \<and> touched nxt r s1 \<and> hs_app s1 = hs_app s \<and> hs_client s1 = hs_client s)"
  by (auto simp: touched_def anonRateMiddleware_def anon_admits_def
      split: option.splits prod.splits if_splits)

lemma touched_client:
  "touched (clientRateMiddleware ro nxt) r s \<Longrightarrow>
   client_admits ro r s \<and> (\<exists>s1. clientRateMiddleware ro nxt r s = nxt r s1 \<and> touched nxt r s1 \<and> hs_app s1 = hs_app s)"
  by (auto simp: touched_def clientRateMiddleware_def client_admits_def Let_def
      split: option.splits prod.splits if_splits)

section \<open>Complete mediation\<close>

definition origins :: "('r, 'l, 'a) server_cfg \<Rightarrow> string list" where
  "origins c = (case sc_allowed c of None \<Rightarrow> DefaultOriginAllowlist (sc_ul c) | Some a \<Rightarrow> a)"

definition keyRequest_neutral :: "('r, 'l, 'a) server_cfg \<Rightarrow> bool" where
  "keyRequest_neutral c \<longleftrightarrow>
     (case sc_keyRequest c of None \<Rightarrow> True | Some kr \<Rightarrow> \<forall>r s. hs_app (snd (kr r s)) = hs_app s)"

lemma touched_mcpChain:
  assumes "touched (mcpChain c) r s"
  shows "\<exists>ctx s1. identified (sc_validator c) (sc_keylessReads c) r ctx
     \<and> anon_admits (sc_rate c) (sc_trustProxy c) (sc_hops c) (r\<lparr>rq_claims := ctx\<rparr>) s
     \<and> client_admits (sc_rate c) (r\<lparr>rq_claims := ctx\<rparr>) s
     \<and> hs_app s1 = hs_app s \<and> hs_app (snd (mcpChain c r s)) = hs_app (snd (sc_mcp c (r\<lparr>rq_claims := ctx\<rparr>) s1))"
proof -
  from touched_auth [OF assms [unfolded mcpChain_def]] obtain ctx where
    1: "identified (sc_validator c) (sc_keylessReads c) r ctx" and
    2: "touched (anonRateMiddleware (sc_rate c) (sc_trustProxy c) (sc_hops c)
         (clientRateMiddleware (sc_rate c) (sc_mcp c))) (r\<lparr>rq_claims := ctx\<rparr>) s" and
    e1: "mcpChain c r s = anonRateMiddleware (sc_rate c) (sc_trustProxy c) (sc_hops c)
         (clientRateMiddleware (sc_rate c) (sc_mcp c)) (r\<lparr>rq_claims := ctx\<rparr>) s"
    unfolding mcpChain_def by metis
  from touched_anon [OF 2] obtain s1 where
    3: "anon_admits (sc_rate c) (sc_trustProxy c) (sc_hops c) (r\<lparr>rq_claims := ctx\<rparr>) s" and
    4: "touched (clientRateMiddleware (sc_rate c) (sc_mcp c)) (r\<lparr>rq_claims := ctx\<rparr>) s1" and
    e2: "mcpChain c r s = clientRateMiddleware (sc_rate c) (sc_mcp c) (r\<lparr>rq_claims := ctx\<rparr>) s1" and
    a1: "hs_app s1 = hs_app s" "hs_client s1 = hs_client s"
    using e1 by auto
  from touched_client [OF 4] obtain s2 where
    5: "client_admits (sc_rate c) (r\<lparr>rq_claims := ctx\<rparr>) s1" and
    e3: "mcpChain c r s = sc_mcp c (r\<lparr>rq_claims := ctx\<rparr>) s2" and a2: "hs_app s2 = hs_app s1"
    using e2 by auto
  have "client_admits (sc_rate c) (r\<lparr>rq_claims := ctx\<rparr>) s" using 5 a1(2) by (simp add: client_admits_def)
  with 1 3 e3 a1 a2 show ?thesis by metis
qed

lemma touched_routed:
  assumes "touched (routed c) r s" "keyRequest_neutral c"
  shows "Path (rq r) \<noteq> wellKnownProtectedResource \<and> Path (rq r) \<noteq> wellKnownAuthServer
     \<and> touched (mcpChain c) r s \<and> routed c r s = mcpChain c r s"
  using touched_wellknown [OF assms(1) [unfolded routed_def]] assms(2)
  by (auto simp: routed_def keyRequest_neutral_def touched_def split: option.splits if_splits)

lemma mediation:
  assumes "touched (RunHTTP_handler c) r s" and "keyRequest_neutral c"
  shows "\<exists>ctx s1.
       Allowed (sc_ul c) (origins c) (Header (rq r) ''Origin'')
     \<and> scheme_ok (sc_trustProxy c) (rq r)
     \<and> has_budget (sc_rate c) r s
     \<and> Path (rq r) \<noteq> wellKnownProtectedResource \<and> Path (rq r) \<noteq> wellKnownAuthServer
     \<and> identified (sc_validator c) (sc_keylessReads c) r ctx
     \<and> anon_admits (sc_rate c) (sc_trustProxy c) (sc_hops c) (r\<lparr>rq_claims := ctx\<rparr>) s
     \<and> client_admits (sc_rate c) (r\<lparr>rq_claims := ctx\<rparr>) s
     \<and> hs_app s1 = hs_app s
     \<and> hs_app (snd (RunHTTP_handler c r s))
         = hs_app (snd (sc_mcp c (r\<lparr>rq_maxBody := Some MaxRequestBodyBytes, rq_claims := ctx\<rparr>) s1))"
proof -
  let ?r = "r\<lparr>rq_maxBody := Some MaxRequestBodyBytes\<rparr>"
  have run: "RunHTTP_handler c = wrapSecurityChain c (origins c) (routed c)"
    by (simp add: RunHTTP_handler_def origins_def)
  from touched_CORS [OF assms(1) [unfolded run wrapSecurityChain_def]]
  have 1: "touched (originGuard (sc_ul c) (origins c) (requireForwardedHTTPS (sc_trustProxy c)
         (failrateWrap (sc_rate c) (limitRequestBody (routed c))))) r s"
    and e: "hs_app (snd (RunHTTP_handler c r s)) = hs_app (snd (originGuard (sc_ul c) (origins c)
         (requireForwardedHTTPS (sc_trustProxy c) (failrateWrap (sc_rate c) (limitRequestBody (routed c)))) r s))"
    by (simp_all add: run wrapSecurityChain_def)
  note 2 = touched_origin [OF 1]
  note 3 = touched_forwarded [OF 2 [THEN conjunct2, THEN conjunct1]]
  note 4 = touched_failrate [OF 3 [THEN conjunct2, THEN conjunct1]]
  from 4 obtain s0 where s0: "touched (limitRequestBody (routed c)) r s0" "hs_app s0 = hs_app s"
      "hs_anon s0 = hs_anon s" "hs_client s0 = hs_client s"
      "failrateWrap (sc_rate c) (limitRequestBody (routed c)) r s = limitRequestBody (routed c) r s0"
    by blast
  then have "touched (routed c) ?r s0" by (simp add: touched_def limitRequestBody_def)
  note 5 = touched_routed [OF this assms(2)]
  from touched_mcpChain [OF 5 [THEN conjunct2, THEN conjunct2, THEN conjunct1]] obtain ctx s1 where
    6: "identified (sc_validator c) (sc_keylessReads c) ?r ctx"
       "anon_admits (sc_rate c) (sc_trustProxy c) (sc_hops c) (?r\<lparr>rq_claims := ctx\<rparr>) s0"
       "client_admits (sc_rate c) (?r\<lparr>rq_claims := ctx\<rparr>) s0" "hs_app s1 = hs_app s0"
       "hs_app (snd (mcpChain c ?r s0)) = hs_app (snd (sc_mcp c (?r\<lparr>rq_claims := ctx\<rparr>) s1))" by blast
  have "identified (sc_validator c) (sc_keylessReads c) r ctx"
    using 6(1) by (simp add: identified_def split: option.splits)
  moreover have "anon_admits (sc_rate c) (sc_trustProxy c) (sc_hops c) (r\<lparr>rq_claims := ctx\<rparr>) s"
      "client_admits (sc_rate c) (r\<lparr>rq_claims := ctx\<rparr>) s"
    using 6(2,3) s0(3,4) by (simp_all add: anon_admits_def client_admits_def split: option.splits)
  moreover have "hs_app (snd (RunHTTP_handler c r s))
      = hs_app (snd (sc_mcp c (r\<lparr>rq_maxBody := Some MaxRequestBodyBytes, rq_claims := ctx\<rparr>) s1))"
    using e 2 3 s0(5) 5 6(5) by (simp add: limitRequestBody_def)
  moreover have "hs_app s1 = hs_app s" using 6(4) s0(2) by simp
  moreover have "Path (rq r) \<noteq> wellKnownProtectedResource" "Path (rq r) \<noteq> wellKnownAuthServer"
    using 5 by simp_all
  ultimately show ?thesis
    using 2 [THEN conjunct1] 3 [THEN conjunct1] 4 [THEN conjunct1] by blast
qed

text \<open>
  Claim C2 (complete mediation). Whenever handling an HTTP request changes the state of the MCP
  application at all, the request's Origin is absent or on the allowlist, a trusted proxy did
  not mark it as plaintext, its source address still had failure budget, its path is not an
  OAuth discovery path, its identity is the one a validator vouched for (or it sent no
  credential at all and keyless reads are on), and the limiter responsible for it, per address
  when anonymous and per client otherwise, admitted it. The application then sees exactly that
  identity and a body cap of 10 MB.
\<close>

theorem complete_mediation:
  assumes "touched (RunHTTP_handler c) r s" and "keyRequest_neutral c"
  shows "\<exists>ctx s1.
       Allowed (sc_ul c) (origins c) (Header (rq r) ''Origin'')
     \<and> scheme_ok (sc_trustProxy c) (rq r)
     \<and> has_budget (sc_rate c) r s
     \<and> Path (rq r) \<noteq> wellKnownProtectedResource \<and> Path (rq r) \<noteq> wellKnownAuthServer
     \<and> identified (sc_validator c) (sc_keylessReads c) r ctx
     \<and> anon_admits (sc_rate c) (sc_trustProxy c) (sc_hops c) (r\<lparr>rq_claims := ctx\<rparr>) s
     \<and> client_admits (sc_rate c) (r\<lparr>rq_claims := ctx\<rparr>) s
     \<and> hs_app s1 = hs_app s
     \<and> hs_app (snd (RunHTTP_handler c r s))
         = hs_app (snd (sc_mcp c (r\<lparr>rq_maxBody := Some MaxRequestBodyBytes, rq_claims := ctx\<rparr>) s1))"
  by (rule mediation [OF assms])


section \<open>Credential stuffing\<close>

text \<open>
  The law of a token bucket while nothing is refilled: \<open>tok\<close> counts the whole tokens, a new
  bucket holds at most its burst, and \<^verbatim>\<open>Allow\<close> removes a token if there is one.
\<close>

definition no_refill :: "('r, 'l) rate_ops \<Rightarrow> ('l \<Rightarrow> nat) \<Rightarrow> bool" where
  "no_refill ro tok \<longleftrightarrow>
     (\<forall>rps n. tok (NewLimiter ro rps n) \<le> nat n)
     \<and> (\<forall>t l. TokensGE1 ro t l \<longrightarrow> 1 \<le> tok l)
     \<and> (\<forall>t l. tok (snd (Allow ro t l)) \<le> tok l - 1)"

definition budget :: "('l \<Rightarrow> nat) \<Rightarrow> string \<Rightarrow> ('r, 'l) IPFailRateLimiter \<Rightarrow> nat" where
  "budget tok ip l =
     (case map_of (fl_ips l) ip of None \<Rightarrow> nat (fl_burst l) | Some b \<Rightarrow> tok (cb_limiter b))"

definition same_params :: "('r, 'l) IPFailRateLimiter \<Rightarrow> ('r, 'l) IPFailRateLimiter \<Rightarrow> bool" where
  "same_params l l' \<longleftrightarrow>
     fl_burst l' = fl_burst l \<and> fl_trustProxy l' = fl_trustProxy l \<and> fl_hops l' = fl_hops l"

lemma getLimiter_same [simp]: "same_params l (snd (getLimiter ro now ip l))"
  by (simp add: same_params_def getLimiter_def fl_evictLRULocked_def Let_def split: option.split)

lemma fl_put_same [simp]: "same_params l (fl_put ip lim l)"
  by (simp add: same_params_def fl_put_def split: option.split)

lemma same_params_trans: "same_params a b \<Longrightarrow> same_params b c \<Longrightarrow> same_params a c"
  by (simp add: same_params_def)

lemma getLimiter_own:
  "map_of (fl_ips (snd (getLimiter ro now ip l))) ip
     = Some \<lparr>cb_limiter = fst (getLimiter ro now ip l), cb_lastUsed = now\<rparr>"
  by (simp add: getLimiter_def AList.update_conv' Let_def split: option.split)

lemma budget_getLimiter:
  assumes "no_refill ro tok"
  shows "tok (fst (getLimiter ro now ip l)) \<le> budget tok ip l"
    and "budget tok ip (snd (getLimiter ro now ip l)) = tok (fst (getLimiter ro now ip l))"
  using assms
  by (auto simp: budget_def getLimiter_own no_refill_def) (auto simp: getLimiter_def Let_def split: option.split)

lemma budget_peek:
  assumes "no_refill ro tok" "ip \<noteq> ''''" "peek ro now now' ip l = (ok, l')"
  shows "same_params l l' \<and> budget tok ip l' \<le> budget tok ip l \<and> (ok \<longrightarrow> 1 \<le> budget tok ip l')"
proof -
  obtain lim l1 where g: "getLimiter ro now ip l = (lim, l1)" by fastforce
  have "same_params l l1" using getLimiter_same [of l ro now ip] unfolding g by simp
  moreover have "tok lim \<le> budget tok ip l" "budget tok ip l1 = tok lim"
    using budget_getLimiter [OF assms(1), where now = now and ip = ip and l = l] unfolding g by simp_all
  moreover have "ok = TokensGE1 ro now' lim" "l' = l1" using assms(2,3) g by (auto simp: peek_def)
  ultimately show ?thesis using assms(1) by (auto simp: no_refill_def)
qed

lemma budget_Penalize:
  assumes "no_refill ro tok" "ip \<noteq> ''''"
  shows "same_params l (Penalize ro now now' ip l)
       \<and> budget tok ip (Penalize ro now now' ip l) \<le> budget tok ip l - 1"
proof -
  obtain lim l1 where g: "getLimiter ro now ip l = (lim, l1)" by fastforce
  have own: "map_of (fl_ips l1) ip = Some \<lparr>cb_limiter = lim, cb_lastUsed = now\<rparr>"
    using getLimiter_own [of ro now ip l] g by simp
  have "tok (snd (Allow ro now' lim)) \<le> tok lim - 1" using assms(1) by (simp add: no_refill_def)
  moreover have "tok lim \<le> budget tok ip l" using budget_getLimiter(1) [OF assms(1), where now = now and ip = ip and l = l] g by simp
  ultimately have "tok (snd (Allow ro now' lim)) \<le> budget tok ip l - 1" by simp
  moreover have "budget tok ip (fl_put ip (snd (Allow ro now' lim)) l1) = tok (snd (Allow ro now' lim))"
    using own by (simp add: budget_def fl_put_def AList.update_conv')
  moreover have "same_params l l1" using getLimiter_same [of l ro now ip] unfolding g by simp
  ultimately show ?thesis
    using assms(2) g same_params_trans fl_put_same by (fastforce simp: Penalize_def)
qed

text \<open>\<open>silent h\<close>: \<open>h\<close> never answers 401 and leaves the failure limiter alone.\<close>

definition silent :: "('r, 'l, 'a) handler \<Rightarrow> bool" where
  "silent h \<longleftrightarrow> (\<forall>r s. hs_fail (snd (h r s)) = hs_fail s \<and> status (fst (h r s)) \<noteq> 401)"

lemma silent_client: "silent nxt \<Longrightarrow> silent (clientRateMiddleware ro nxt)"
  by (auto simp: silent_def clientRateMiddleware_def rateLimited_def Let_def split: option.split prod.split)

lemma silent_anon: "silent nxt \<Longrightarrow> silent (anonRateMiddleware ro trust hops nxt)"
  by (auto simp: silent_def anonRateMiddleware_def rateLimited_def split: option.split prod.split)

text \<open>\<open>penal ro h\<close>: a 401 of \<open>h\<close> comes with exactly one penalty, any other answer with none.\<close>

definition penal :: "('r, 'l) rate_ops \<Rightarrow> ('r, 'l, 'a) handler \<Rightarrow> bool" where
  "penal ro h \<longleftrightarrow>
     (\<forall>r s. hs_fail (snd (h r s)) = (if status (fst (h r s)) = 401 then hs_fail (penalize ro r s) else hs_fail s))"

lemma penal_auth: "silent nxt \<Longrightarrow> penal ro (AuthMiddleware ro v keyless url nxt)"
  by (auto simp: penal_def silent_def AuthMiddleware_def writeUnauthorized_def addHeaders_def httpError_def
      Let_def split: option.split sum.split)

lemma penal_silent: "silent h \<Longrightarrow> penal ro h"
  by (auto simp: penal_def silent_def)

lemma penal_routed:
  assumes "silent (sc_mcp c)" "\<forall>kr. sc_keyRequest c = Some kr \<longrightarrow> silent kr"
  shows "penal (sc_rate c) (limitRequestBody (routed c))"
proof -
  have "penal (sc_rate c) (mcpChain c)"
    unfolding mcpChain_def by (intro penal_auth silent_anon silent_client assms(1))
  moreover have "penalize ro (r\<lparr>rq_maxBody := b\<rparr>) s = penalize ro r s" for ro r b and s :: "('a, 'b, 'c) hstate"
    by (simp add: penalize_def split: option.split)
  ultimately show ?thesis
    using assms(2) penal_silent
    by (auto simp: penal_def silent_def limitRequestBody_def routed_def wellKnownGuard_def httpError_def
        split: option.split)
qed

text \<open>One request: a 401 costs its address one token.\<close>

lemma budget_failrate:
  assumes "no_refill ro tok" "penal ro nxt" "hs_fail s = Some l"
    and ip: "IPFromRequest l (rq r) = ip" "ip \<noteq> ''''"
    and run: "failrateWrap ro nxt r s = (resp, s')"
  shows "\<exists>l'. hs_fail s' = Some l' \<and> same_params l l'
           \<and> (if status resp = 401 then 1 else 0) + budget tok ip l' \<le> budget tok ip l"
proof -
  obtain ok l1 where pk: "peek ro (rq_now r) (rq_now r) ip l = (ok, l1)" by fastforce
  note b = budget_peek [OF assms(1) ip(2) pk]
  show ?thesis
  proof (cases ok)
    case False
    with run pk ip(1) assms(3) b show ?thesis by (auto simp: failrateWrap_def)
  next
    case True
    let ?s1 = "s\<lparr>hs_fail := Some l1\<rparr>"
    have n: "nxt r ?s1 = (resp, s')" using run pk ip(1) assms(3) True by (simp add: failrateWrap_def)
    have f: "hs_fail s' = (if status resp = 401 then hs_fail (penalize ro r ?s1) else Some l1)"
      using assms(2) n unfolding penal_def by (metis fst_conv snd_conv hstate.select_convs(1)
          hstate.surjective hstate.update_convs(1))
    have ip1: "IPFromRequest l1 (rq r) = ip" using b ip(1) by (simp add: same_params_def IPFromRequest_def)
    show ?thesis
    proof (cases "status resp = 401")
      case False
      with f b show ?thesis by simp
    next
      case 401: True
      with f have "hs_fail s' = Some (Penalize ro (rq_now r) (rq_now r) ip l1)"
        by (simp add: penalize_def ip1)
      with budget_Penalize [OF assms(1) ip(2), of l1 "rq_now r" "rq_now r"] b True 401 same_params_trans
      show ?thesis by fastforce
    qed
  qed
qed


lemma budget_run_one:
  assumes "no_refill (sc_rate c) tok" "silent (sc_mcp c)" "\<forall>kr. sc_keyRequest c = Some kr \<longrightarrow> silent kr"
    and "hs_fail s = Some l" "IPFromRequest l (rq r) = ip" "ip \<noteq> ''''"
    and run: "RunHTTP_handler c r s = (resp, s')"
  shows "\<exists>l'. hs_fail s' = Some l' \<and> same_params l l'
           \<and> (if status resp = 401 then 1 else 0) + budget tok ip l' \<le> budget tok ip l"
proof -
  let ?in = "failrateWrap (sc_rate c) (limitRequestBody (routed c))"
  have "(\<exists>resp0. ?in r s = (resp0, s') \<and> status resp0 = status resp) \<or> s' = s \<and> status resp \<noteq> 401"
    using run
    by (auto simp: RunHTTP_handler_def wrapSecurityChain_def CORSMiddleware_def originGuard_def
        requireForwardedHTTPS_def httpError_def addHeaders_def Let_def split: if_splits prod.splits)
  then show ?thesis
    using budget_failrate [OF assms(1) penal_routed [OF assms(2,3)] assms(4-6)] assms(4)
    by (auto simp: same_params_def)
qed

fun serve :: "('r, 'l, 'a) server_cfg \<Rightarrow> hreq list \<Rightarrow> ('r, 'l, 'a) hstate \<Rightarrow> response list \<times> ('r, 'l, 'a) hstate" where
  "serve c [] s = ([], s)"
| "serve c (r # rs) s =
     (case RunHTTP_handler c r s of (resp, s1) \<Rightarrow>
        (case serve c rs s1 of (resps, s2) \<Rightarrow> (resp # resps, s2)))"

lemma serve_budget:
  assumes "no_refill (sc_rate c) tok" "silent (sc_mcp c)" "\<forall>kr. sc_keyRequest c = Some kr \<longrightarrow> silent kr"
    and "hs_fail s = Some l" "\<forall>r \<in> set rs. IPFromRequest l (rq r) = ip" "ip \<noteq> ''''"
  shows "length (filter (\<lambda>p. status p = 401) (fst (serve c rs s))) \<le> budget tok ip l"
  using assms(4,5)
proof (induction rs arbitrary: s l)
  case (Cons r rs)
  obtain resp s1 where r: "RunHTTP_handler c r s = (resp, s1)" by fastforce
  have "IPFromRequest l (rq r) = ip" using Cons.prems(2) by simp
  from budget_run_one [OF assms(1-3) Cons.prems(1) this assms(6) r] obtain l1 where
    l1: "hs_fail s1 = Some l1" "same_params l l1"
      "(if status resp = 401 then 1 else 0) + budget tok ip l1 \<le> budget tok ip l" by blast
  have "\<forall>q \<in> set rs. IPFromRequest l1 (rq q) = ip"
    using Cons.prems(2) l1(2) by (simp add: same_params_def IPFromRequest_def)
  from Cons.IH [OF l1(1) this] l1(3) r show ?case by (auto split: prod.split if_splits)
qed simp


definition demo_server :: "(unit, nat, nat) server_cfg" where
  "demo_server =
     \<lparr>sc_ul = id, sc_rate = counting_rate, sc_validator = Some (\<lambda>t k. Inl ErrInvalidAPIKey),
      sc_keylessReads = False, sc_allowed = Some [], sc_renewalURL = [], sc_trustProxy = False,
      sc_hops = 1, sc_keyRequest = None,
      sc_mcp = (\<lambda>r s. (\<lparr>status = 200, hdr = [], body = []\<rparr>, s\<lparr>hs_app := Suc (hs_app s)\<rparr>))\<rparr>"

definition demo_request :: hreq where
  "demo_request =
     \<lparr>rq = \<lparr>Method = ''POST'', Path = ''/'', RemoteAddr = ''10.0.0.9:1'',
           Header = (\<lambda>h. if h = ''Authorization'' then ''Bearer x'' else [])\<rparr>,
      rq_claims = None, rq_maxBody = None, rq_now = 5\<rparr>"

definition demo_state :: "(unit, nat, nat) hstate" where
  "demo_state = \<lparr>hs_fail = Some (NewIPFailRateLimiter () 3 False 1), hs_anon = None, hs_client = None, hs_app = 0\<rparr>"


theorem complete_mediation_witness:
  "keyRequest_neutral (demo_server\<lparr>sc_validator := Some (\<lambda>t k. Inr \<lparr>cl_ClientID = ''a'', cl_Roles = []\<rparr>)\<rparr>)
   \<and> hs_app (snd (RunHTTP_handler (demo_server\<lparr>sc_validator := Some (\<lambda>t k. Inr \<lparr>cl_ClientID = ''a'', cl_Roles = []\<rparr>)\<rparr>)
        demo_request demo_state)) = 1
   \<and> identified (Some (\<lambda>t k. Inr \<lparr>cl_ClientID = ''a'', cl_Roles = []\<rparr>)) False demo_request
        (Some \<lparr>cl_ClientID = ''a'', cl_Roles = []\<rparr>)"
proof -
  let ?c = "demo_server\<lparr>sc_validator := Some (\<lambda>t k. Inr \<lparr>cl_ClientID = ''a'', cl_Roles = []\<rparr>)\<rparr>"
  have n: "keyRequest_neutral ?c" by (simp add: keyRequest_neutral_def demo_server_def)
  have app: "hs_app (snd (RunHTTP_handler ?c demo_request demo_state)) = 1"
    by (simp add: RunHTTP_handler_def wrapSecurityChain_def CORSMiddleware_def originGuard_def Allowed_def
        requireForwardedHTTPS_def failrateWrap_def limitRequestBody_def routed_def wellKnownGuard_def
        mcpChain_def AuthMiddleware_def anonRateMiddleware_def clientRateMiddleware_def demo_server_def
        demo_request_def demo_state_def peek_def getLimiter_def NewIPFailRateLimiter_def IPFromRequest_def
        clientIP_def remoteHost_def SplitHostPort_def lastIndexByte_def counting_rate_def
        wellKnownProtectedResource_def wellKnownAuthServer_def HasPrefix_def bearer_def
        DefaultFailMaxIPs_def Let_def)
  then have "touched (RunHTTP_handler ?c) demo_request demo_state"
    by (simp add: touched_def demo_state_def)
  from complete_mediation [OF this n] have
    "\<exists>ctx. identified (sc_validator ?c) (sc_keylessReads ?c) demo_request ctx" by blast
  then have "identified (Some (\<lambda>t k. Inr \<lparr>cl_ClientID = ''a'', cl_Roles = []\<rparr>)) False demo_request
        (Some \<lparr>cl_ClientID = ''a'', cl_Roles = []\<rparr>)"
    by (auto simp: identified_def demo_server_def Let_def)
  with n app show ?thesis by blast
qed

end
