(* ===== verification/Fusion_Auth.thy ===== *)
theory Fusion_Auth
  imports Auth_Keys
begin

text \<open>
  The validator of FusionAuth tokens (\<^verbatim>\<open>internal/auth/fusionauth.go\<close>). Parsing a token, checking
  its signature against the published keys and its time claims is done by a library and is the
  parameter \<open>parse\<close>: from the leeway and the token it yields an error, or whether the library
  calls the token valid and the claim map it carries, \<open>None\<close> when the claims are of another
  type. What the validator makes of that map is modelled completely.
\<close>

section \<open>Claims of a token\<close>

text \<open>The dynamic types the code tells apart; numbers, booleans and null are \<open>COther\<close>.\<close>

datatype claim = CStr string | CList "claim list" | CStrs "string list" | CObj "(string \<times> claim) list" | COther

type_synonym MapClaims = "(string \<times> claim) list"

record FusionAuthConfig =
  fa_BaseURL :: string
  fa_ApplicationID :: string
  fa_Issuer :: string
  fa_JWKSURL :: string
  fa_ClockSkew :: duration
  fa_RolesClaim :: string
  fa_ClientIDHMACKey :: bytes

definition ErrMissingBaseURL :: goerr where
  "ErrMissingBaseURL = PkgErr ''auth.ErrMissingBaseURL'' ''FusionAuth base URL is required''"

definition ErrMissingAppID :: goerr where
  "ErrMissingAppID = PkgErr ''auth.ErrMissingAppID'' ''FusionAuth application ID is required''"

definition authErrMissingClientIDHMACKey :: goerr where
  "authErrMissingClientIDHMACKey = PkgErr ''auth.ErrMissingClientIDHMACKey''
     ''client-id HMAC key is required for FusionAuth (set MCP_CLIENT_ID_HMAC_KEY)''"

definition ErrTokenInvalid :: goerr where
  "ErrTokenInvalid = PkgErr ''auth.ErrTokenInvalid'' ''token is not valid''"

definition ErrClaimsExtract :: goerr where
  "ErrClaimsExtract = PkgErr ''auth.ErrClaimsExtract'' ''failed to extract claims''"

definition ErrInvalidIssuer :: goerr where
  "ErrInvalidIssuer = PkgErr ''auth.ErrInvalidIssuer'' ''invalid issuer''"

definition ErrInvalidAudience :: goerr where
  "ErrInvalidAudience = PkgErr ''auth.ErrInvalidAudience'' ''invalid audience: token not issued for this application''"

section \<open>Construction\<close>

definition trimSlashes :: "string \<Rightarrow> string" where
  "trimSlashes s = rev (dropWhile (\<lambda>ch. ch = CHR ''/'') (rev s))"

text \<open>\<open>fetch\<close>: the error of fetching the key set from a URL. The result is the stored configuration.\<close>

definition NewFusionAuthValidator :: "(string \<Rightarrow> goerr option) \<Rightarrow> FusionAuthConfig \<Rightarrow> goerr + FusionAuthConfig" where
  "NewFusionAuthValidator fetch cfg =
     (if fa_BaseURL cfg = '''' then Inl ErrMissingBaseURL
      else if fa_ApplicationID cfg = '''' then Inl ErrMissingAppID
      else if length (fa_ClientIDHMACKey cfg) = 0 then Inl authErrMissingClientIDHMACKey
      else
        (let cfg1 = (if fa_RolesClaim cfg = '''' then cfg\<lparr>fa_RolesClaim := ''roles''\<rparr> else cfg);
             cfg2 = (if fa_ClockSkew cfg1 = 0 then cfg1\<lparr>fa_ClockSkew := 60 * Second\<rparr> else cfg1);
             jwksURL = (if fa_JWKSURL cfg2 = '''' then trimSlashes (fa_BaseURL cfg2) @ ''/.well-known/jwks.json''
                        else fa_JWKSURL cfg2)
         in case fetch jwksURL of
              Some err \<Rightarrow> Inl (wrapf (''failed to fetch JWKS from '' @ jwksURL) err)
            | None \<Rightarrow> Inr cfg2))"

section \<open>Validation\<close>

definition hmacClientID :: "digests \<Rightarrow> string \<Rightarrow> bytes \<Rightarrow> string" where
  "hmacClientID dg sub key = (if sub = '''' then '''' else EncodeToString (hmac256 dg key sub))"

definition matchIssuer :: "string \<Rightarrow> string \<Rightarrow> bool" where
  "matchIssuer actual expected \<longleftrightarrow>
     actual = expected \<or> actual = TrimPrefix (TrimPrefix expected ''https://'') ''http://''"

definition validateAudience :: "FusionAuthConfig \<Rightarrow> MapClaims \<Rightarrow> bool" where
  "validateAudience v claims =
     (case map_of claims ''aud'' of
        None \<Rightarrow> False
      | Some (CStr audience) \<Rightarrow> audience = fa_ApplicationID v
      | Some (CList audience) \<Rightarrow> list_ex (\<lambda>a. a = CStr (fa_ApplicationID v)) audience
      | Some _ \<Rightarrow> False)"

fun stringsOf :: "claim list \<Rightarrow> string list" where
  "stringsOf [] = []"
| "stringsOf (CStr s # cs) = s # stringsOf cs"
| "stringsOf (_ # cs) = stringsOf cs"

fun extractRolesFromValue :: "claim option \<Rightarrow> string list" where
  "extractRolesFromValue (Some (CList roles)) = stringsOf roles"
| "extractRolesFromValue (Some (CStrs roles)) = roles"
| "extractRolesFromValue _ = []"

definition extractRoles :: "FusionAuthConfig \<Rightarrow> MapClaims \<Rightarrow> string list" where
  "extractRoles v claims =
     (let roles = extractRolesFromValue (map_of claims (fa_RolesClaim v))
      in if 0 < length roles then roles
         else if fa_ApplicationID v \<noteq> '''' then
           (case map_of claims (fa_ApplicationID v) of
              Some (CObj appData) \<Rightarrow> extractRolesFromValue (map_of appData ''roles'')
            | _ \<Rightarrow> [])
         else [])"

definition stringClaim :: "MapClaims \<Rightarrow> string \<Rightarrow> string option" where
  "stringClaim claims name = (case map_of claims name of Some (CStr s) \<Rightarrow> Some s | _ \<Rightarrow> None)"

definition issuerErr :: "FusionAuthConfig \<Rightarrow> MapClaims \<Rightarrow> goerr option" where
  "issuerErr v claims =
     (let expectedIssuer = (if fa_Issuer v = '''' then fa_BaseURL v else fa_Issuer v)
      in if expectedIssuer \<noteq> '''' then
           (case stringClaim claims ''iss'' of
              Some issuer \<Rightarrow>
                if matchIssuer issuer expectedIssuer then None
                else Some (Errorf (Error ErrInvalidIssuer @ '': expected '' @ expectedIssuer @ '', got '' @ issuer)
                             [ErrInvalidIssuer])
            | None \<Rightarrow> Some (Errorf (Error ErrInvalidIssuer @ '': expected '' @ expectedIssuer @ '', got '')
                             [ErrInvalidIssuer]))
         else None)"

definition Fusion_Validate ::
  "digests \<Rightarrow> (duration \<Rightarrow> string \<Rightarrow> goerr + bool \<times> MapClaims option) \<Rightarrow> FusionAuthConfig \<Rightarrow> string
     \<Rightarrow> goerr + Claims" where
  "Fusion_Validate dg parse v tokenString =
     (case parse (fa_ClockSkew v) tokenString of
        Inl err \<Rightarrow> Inl (wrapf ''invalid token'' err)
      | Inr (valid, mapClaims) \<Rightarrow>
          if \<not> valid then Inl ErrTokenInvalid
          else case mapClaims of
            None \<Rightarrow> Inl ErrClaimsExtract
          | Some claims \<Rightarrow>
              (case issuerErr v claims of
                 Some err \<Rightarrow> Inl err
               | None \<Rightarrow>
                   if \<not> validateAudience v claims then Inl ErrInvalidAudience
                   else Inr \<lparr>cl_ClientID = hmacClientID dg
                               (case stringClaim claims ''sub'' of Some sub \<Rightarrow> sub | None \<Rightarrow> '''')
                               (fa_ClientIDHMACKey v),
                             cl_Roles = extractRoles v claims\<rparr>))"


section \<open>Which tokens are accepted, and as whom\<close>

text \<open>
  \<open>issued_by\<close>: the token names the configured issuer, with or without its scheme; \<open>meant_for\<close>:
  it is addressed to this application; \<open>listed_role\<close>: it lists the role at the configured place
  or under the application.
\<close>

definition issued_by :: "FusionAuthConfig \<Rightarrow> MapClaims \<Rightarrow> bool" where
  "issued_by v claims \<longleftrightarrow>
     (\<exists>iss. map_of claims ''iss'' = Some (CStr iss)
        \<and> matchIssuer iss (if fa_Issuer v = '''' then fa_BaseURL v else fa_Issuer v))"

definition meant_for :: "string \<Rightarrow> MapClaims \<Rightarrow> bool" where
  "meant_for app claims \<longleftrightarrow>
     map_of claims ''aud'' = Some (CStr app)
     \<or> (\<exists>as. map_of claims ''aud'' = Some (CList as) \<and> CStr app \<in> set as)"

definition names_role :: "claim \<Rightarrow> string \<Rightarrow> bool" where
  "names_role c r \<longleftrightarrow> (\<exists>cs. c = CList cs \<and> CStr r \<in> set cs) \<or> (\<exists>rs. c = CStrs rs \<and> r \<in> set rs)"

definition listed_role :: "FusionAuthConfig \<Rightarrow> MapClaims \<Rightarrow> string \<Rightarrow> bool" where
  "listed_role v claims r \<longleftrightarrow>
     (\<exists>c. map_of claims (fa_RolesClaim v) = Some c \<and> names_role c r)
     \<or> (\<exists>obj c. map_of claims (fa_ApplicationID v) = Some (CObj obj) \<and> map_of obj ''roles'' = Some c \<and> names_role c r)"

lemma stringsOf_iff: "r \<in> set (stringsOf cs) \<longleftrightarrow> CStr r \<in> set cs"
  by (induction cs rule: stringsOf.induct) auto

lemma extractRolesFromValue_iff: "r \<in> set (extractRolesFromValue c) \<longleftrightarrow> (\<exists>x. c = Some x \<and> names_role x r)"
  by (cases c; cases "the c") (auto simp: names_role_def stringsOf_iff)

lemma extractRoles_listed:
  assumes "r \<in> set (extractRoles v claims)"
  shows "listed_role v claims r"
proof (cases "extractRolesFromValue (map_of claims (fa_RolesClaim v)) = []")
  case True
  with assms have "r \<in> set (case map_of claims (fa_ApplicationID v) of
      Some (CObj appData) \<Rightarrow> extractRolesFromValue (map_of appData ''roles'') | _ \<Rightarrow> [])"
    by (cases "fa_ApplicationID v = ''''") (simp_all add: extractRoles_def)
  then obtain obj where "map_of claims (fa_ApplicationID v) = Some (CObj obj)"
      "r \<in> set (extractRolesFromValue (map_of obj ''roles''))"
    by (cases "map_of claims (fa_ApplicationID v)"; cases "the (map_of claims (fa_ApplicationID v))") auto
  then show ?thesis unfolding extractRolesFromValue_iff listed_role_def by blast
next
  case False
  with assms have "r \<in> set (extractRolesFromValue (map_of claims (fa_RolesClaim v)))"
    by (simp add: extractRoles_def)
  then show ?thesis unfolding extractRolesFromValue_iff listed_role_def by blast
qed

lemma extractRoles_none: "extractRoles v claims = [] \<Longrightarrow> fa_ApplicationID v \<noteq> '''' \<Longrightarrow> \<not> listed_role v claims r"
proof
  assume none: "extractRoles v claims = []" and app: "fa_ApplicationID v \<noteq> ''''" and l: "listed_role v claims r"
  have first: "extractRolesFromValue (map_of claims (fa_RolesClaim v)) = []"
    using none by (auto simp: extractRoles_def Let_def split: if_splits)
  with none app have "map_of claims (fa_ApplicationID v) = Some (CObj obj) \<Longrightarrow>
      extractRolesFromValue (map_of obj ''roles'') = []" for obj
    by (simp add: extractRoles_def)
  with first l show False
    unfolding listed_role_def by (metis extractRolesFromValue_iff empty_iff list.set(1))
qed

lemma validateAudience_iff: "validateAudience v claims \<longleftrightarrow> meant_for (fa_ApplicationID v) claims"
  by (auto simp: validateAudience_def meant_for_def list_ex_iff split: option.splits claim.splits)

lemma issuerErr_iff: "fa_BaseURL v \<noteq> '''' \<Longrightarrow> issuerErr v claims = None \<longleftrightarrow> issued_by v claims"
  by (auto simp: issuerErr_def issued_by_def stringClaim_def Let_def split: option.splits claim.splits if_splits)

lemma NewFusionAuthValidator_ok:
  assumes "NewFusionAuthValidator fetch cfg = Inr v"
  shows "fa_BaseURL v \<noteq> ''''" "fa_ApplicationID v \<noteq> ''''" "fa_ClientIDHMACKey v \<noteq> []"
    "fa_RolesClaim v \<noteq> ''''" "fa_ClockSkew v \<noteq> 0"
    "v = cfg\<lparr>fa_RolesClaim := fa_RolesClaim v, fa_ClockSkew := fa_ClockSkew v\<rparr>"
  using assms by (auto simp: NewFusionAuthValidator_def Let_def Second_def split: if_splits option.splits)

text \<open>
  Claim C6 (which FusionAuth tokens are accepted, and as whom). A validator that could be
  constructed accepts a token exactly if the library verified it, with a leeway that is never
  zero, its issuer is the configured one and its audience contains this application. The
  identity it yields never contains the subject: it is empty for a token without one and the
  keyed digest of the subject otherwise, so equal subjects get equal identities. The roles are
  all listed in the token, and there are none only if the token lists none in either place.
\<close>

theorem fusion_token_exact:
  assumes "NewFusionAuthValidator fetch cfg = Inr v"
  shows "case Fusion_Validate dg parse v token of
      Inl err \<Rightarrow> \<nexists>claims. parse (fa_ClockSkew v) token = Inr (True, Some claims)
                  \<and> issued_by cfg claims \<and> meant_for (fa_ApplicationID cfg) claims
    | Inr c \<Rightarrow> \<exists>claims. parse (fa_ClockSkew v) token = Inr (True, Some claims) \<and> fa_ClockSkew v \<noteq> 0
        \<and> issued_by cfg claims \<and> meant_for (fa_ApplicationID cfg) claims
        \<and> cl_ClientID c = (case map_of claims ''sub'' of
             Some (CStr sub) \<Rightarrow> if sub = '''' then '''' else EncodeToString (hmac256 dg (fa_ClientIDHMACKey cfg) sub)
           | _ \<Rightarrow> '''')
        \<and> (\<forall>r \<in> set (cl_Roles c). listed_role v claims r)
        \<and> (cl_Roles c = [] \<longrightarrow> (\<forall>r. \<not> listed_role v claims r))"
proof -
  note ok = NewFusionAuthValidator_ok [OF assms]
  have same: "fa_Issuer v = fa_Issuer cfg" "fa_BaseURL v = fa_BaseURL cfg" "fa_ApplicationID v = fa_ApplicationID cfg"
    "fa_ClientIDHMACKey v = fa_ClientIDHMACKey cfg" by (subst ok(6), simp)+
  have iss: "issuerErr v claims = None \<longleftrightarrow> issued_by cfg claims" for claims
    using issuerErr_iff [OF ok(1)] by (simp add: issued_by_def same)
  have aud: "validateAudience v claims \<longleftrightarrow> meant_for (fa_ApplicationID cfg) claims" for claims
    by (simp add: validateAudience_iff same)
  show ?thesis
  proof (cases "Fusion_Validate dg parse v token")
    case (Inl err)
    then show ?thesis
      by (auto simp: Fusion_Validate_def aud simp flip: iss split: if_splits sum.splits option.splits)
  next
    case (Inr c)
    then obtain claims where c: "parse (fa_ClockSkew v) token = Inr (True, Some claims)" "issuerErr v claims = None"
      "validateAudience v claims" "cl_Roles c = extractRoles v claims"
      "cl_ClientID c = hmacClientID dg (case stringClaim claims ''sub'' of Some sub \<Rightarrow> sub | None \<Rightarrow> '''') (fa_ClientIDHMACKey v)"
      by (auto simp: Fusion_Validate_def split: if_splits sum.splits option.splits)
    have "cl_ClientID c = (case map_of claims ''sub'' of
        Some (CStr sub) \<Rightarrow> if sub = '''' then '''' else EncodeToString (hmac256 dg (fa_ClientIDHMACKey cfg) sub) | _ \<Rightarrow> '''')"
      using c(5) by (auto simp: hmacClientID_def stringClaim_def same split: option.splits claim.splits)
    moreover have "\<forall>r \<in> set (cl_Roles c). listed_role v claims r"
      using extractRoles_listed c(4) by simp
    moreover have "cl_Roles c = [] \<longrightarrow> (\<forall>r. \<not> listed_role v claims r)"
      using extractRoles_none ok(2) c(4) by simp
    ultimately show ?thesis using Inr c(1-3) ok(5) iss aud by auto
  qed
qed

definition demo_idp :: FusionAuthConfig where
  "demo_idp = \<lparr>fa_BaseURL = ''https://id'', fa_ApplicationID = ''app'', fa_Issuer = '''', fa_JWKSURL = '''',
     fa_ClockSkew = 0, fa_RolesClaim = '''', fa_ClientIDHMACKey = ''key''\<rparr>"

definition demo_claims :: MapClaims where
  "demo_claims = [(''iss'', CStr ''id''), (''aud'', CList [COther, CStr ''app'']), (''sub'', CStr ''u''),
     (''app'', CObj [(''roles'', CList [CStr ''reader'', COther])])]"

theorem fusion_token_exact_witness:
  "\<exists>v c. NewFusionAuthValidator (\<lambda>_. None) demo_idp = Inr v
     \<and> Fusion_Validate \<lparr>sha256 = id, hmac256 = (@)\<rparr> (\<lambda>_ _. Inr (True, Some demo_claims)) v ''t'' = Inr c
     \<and> listed_role v demo_claims ''reader''
     \<and> (\<forall>r \<in> set (cl_Roles c). listed_role v demo_claims r) \<and> cl_Roles c \<noteq> []"
proof -
  obtain v where v: "NewFusionAuthValidator (\<lambda>_. None) demo_idp = Inr v"
    by (simp add: NewFusionAuthValidator_def demo_idp_def Let_def)
  have "issued_by demo_idp demo_claims" "meant_for (fa_ApplicationID demo_idp) demo_claims"
    by (simp_all add: issued_by_def meant_for_def demo_idp_def demo_claims_def matchIssuer_def TrimPrefix_def HasPrefix_def)
  moreover have r: "listed_role v demo_claims ''reader''"
  proof -
    have "fa_ApplicationID v = ''app''"
      by (subst NewFusionAuthValidator_ok(6) [OF v]) (simp add: demo_idp_def)
    then show ?thesis by (simp add: listed_role_def demo_claims_def names_role_def)
  qed
  ultimately show ?thesis
    using fusion_token_exact [OF v, where dg = "\<lparr>sha256 = id, hmac256 = (@)\<rparr>"
        and parse = "\<lambda>_ _. Inr (True, Some demo_claims)" and token = "''t''"] v
    by (cases "Fusion_Validate \<lparr>sha256 = id, hmac256 = (@)\<rparr> (\<lambda>_ _. Inr (True, Some demo_claims)) v ''t''") auto
qed

end
