(* ===== verification/Boot.thy ===== *)
theory Boot
  imports Purge Http_Chain Mail Fusion_Auth
begin

text \<open>
  The start of the server (\<^verbatim>\<open>cmd/nvnm-mcp-server/main.go\<close>, the write-tool wiring of
  \<^verbatim>\<open>internal/mcp/server.go\<close>): which stores, validators and gates a configuration yields, in
  the order the process builds them, and with which error it refuses to start. What the
  process meets outside, the databases, the identity provider and the files, is the record
  \<open>boot_env\<close>. Of telemetry only the error of its start is kept; logging, listeners and signal
  handling are left out.
\<close>

section \<open>What the process meets\<close>

record pool_env =
  po_dsnOK :: bool
  po_connect :: "goerr option"
  po_ping :: "goerr option"
  po_migrate :: "goerr option"

text \<open>
  \<open>be_ksQuery\<close> and \<open>be_ksTable\<close> are the fault and the table met by the \<open>i\<close>-th count query on
  the key store: other processes share the database.
\<close>

record 'd boot_env =
  be_dg :: digests
  be_cd :: "'d codec"
  be_pcd :: "'d pending_codec"
  be_io :: "'d io"
  be_now :: time
  be_telemetry :: "goerr option"
  be_jwks :: "string \<Rightarrow> goerr option"
  be_ksPool :: pool_env
  be_ksQuery :: "nat \<Rightarrow> goerr option"
  be_ksTable :: "nat \<Rightarrow> pg_table"
  be_evm :: "goerr option"
  be_bind :: "goerr option"
  be_klPool :: pool_env
  be_selector :: string
  be_adminFile :: "goerr + (goerr + adminKeyEntry list)"

definition errKeylessDSNInvalid :: goerr where
  "errKeylessDSNInvalid = PkgErr ''main.errKeylessDSNInvalid''
     ''invalid MCP_KEYLESS_PG_DSN: check the DSN format (value withheld from logs)''"

definition errKeyStoreDSNInvalid :: goerr where
  "errKeyStoreDSNInvalid = PkgErr ''main.errKeyStoreDSNInvalid''
     ''invalid KEY_STORE_DSN: check the DSN format (value withheld from logs)''"

text \<open>
  The bounded dial both pools share: parse, connect, ping, migrate. The parse error is never
  wrapped, since it can echo the password.
\<close>

definition bootPool :: "goerr \<Rightarrow> string \<Rightarrow> pool_env \<Rightarrow> goerr option" where
  "bootPool dsnErr name po =
     (if \<not> po_dsnOK po then Some dsnErr
      else orElseE (map_option (wrapf (''connect '' @ name)) (po_connect po))
          (orElseE (map_option (wrapf (''ping '' @ name)) (po_ping po))
                   (map_option (wrapf (''migrate '' @ name)) (po_migrate po))))"

section \<open>Authentication\<close>

datatype auth_source = FileKeys ManagedKeyStore | PgKeys "KeyHasher option" | FusionAuth FusionAuthConfig

datatype key_backend = NoBackend | FileBackend ManagedKeyStore | PgBackend

text \<open>\<^verbatim>\<open>NewAPIKeyValidatorWithHasher\<close>: nil over an empty store, that is, no authentication.\<close>

definition NewAPIKeyValidatorWithHasher :: "bool \<Rightarrow> auth_source \<Rightarrow> auth_source option" where
  "NewAPIKeyValidatorWithHasher noKeys src = (if noKeys then None else Some src)"

definition NewManagedKeyStoreFromEntriesWithHasher ::
  "digests \<Rightarrow> string \<Rightarrow> KeyEntry list \<Rightarrow> KeyHasher option \<Rightarrow> ManagedKeyStore" where
  "NewManagedKeyStoreFromEntriesWithHasher dg path es hasher =
     \<lparr>mk_store = NewKeyStoreWithHasher dg es hasher, mk_entries = es, mk_path = path, mk_hasher = hasher\<rparr>"

text \<open>The \<open>i\<close>-th \<^verbatim>\<open>countEnabled\<close> of the boot: an error counts as zero.\<close>

definition ksEnabled :: "'d boot_env \<Rightarrow> nat \<Rightarrow> nat" where
  "ksEnabled env i =
     countEnabled \<lparr>pe_now = be_now env, pe_query = be_ksQuery env i, pe_exec = None\<rparr> (be_ksTable env i)"

text \<open>
  The store is counted four times: by \<^verbatim>\<open>Empty\<close> for the check, twice for the log line, and by
  \<^verbatim>\<open>Empty\<close> again in the constructor of the validator.
\<close>

definition loadPostgresKeyStore ::
  "'d boot_env \<Rightarrow> Config \<Rightarrow> KeyHasher option \<Rightarrow> goerr + auth_source option \<times> key_backend" where
  "loadPostgresKeyStore env c hasher =
     (case bootPool errKeyStoreDSNInvalid ''postgres key store'' (be_ksPool env) of
        Some err \<Rightarrow> Inl err
      | None \<Rightarrow>
          if c_KeyHMACPepper c = '''' then Inl ErrPepperRequired
          else if ksEnabled env 0 = 0 \<and> c_Transport c = ''http'' then
            Inl (Errorf (Error ErrHTTPAuthRequired @ '': postgres key store has no enabled keys'')
                   [ErrHTTPAuthRequired])
          else Inr (NewAPIKeyValidatorWithHasher (ksEnabled env 3 = 0) (PgKeys hasher), PgBackend))"

definition loadAPIKeys ::
  "cfg_lib \<Rightarrow> 'd boot_env \<Rightarrow> Config \<Rightarrow> 'd fsys \<Rightarrow> (goerr + auth_source option \<times> key_backend) \<times> 'd fsys" where
  "loadAPIKeys lib env c fs =
     (let dg = be_dg env; hasher = Some (NewKeyHasher (c_KeyHMACPepper c) (c_KeyHMACPepperPrevious c));
          finish = (\<lambda>m. Inr (NewAPIKeyValidatorWithHasher (Key_Store.Empty m) (FileKeys m), FileBackend m))
      in if c_KeyStoreBackend c = ''postgres'' then (loadPostgresKeyStore env c hasher, fs)
         else if c_APIKeysFile c \<noteq> '''' then
           (case NewManagedKeyStoreWithHasher (lb_quote lib) dg (be_cd env) (be_io env) (c_APIKeysFile c) hasher fs of
              (Inl err, fs') \<Rightarrow> (Inl (wrapf ''load API keys file'' err), fs')
            | (Inr m, fs') \<Rightarrow>
                if c_Transport c = ''http'' \<and> UsableCount (be_now env) m = 0 then
                  (Inl (Errorf (Error ErrHTTPAuthRequired @ '': file '' @ Quote (lb_quote lib) (c_APIKeysFile c) @
                          '' has no enabled, unexpired keys ('' @ dec_nat (ActiveCount m) @
                          '' enabled, all past expires_at); create one with `make key-create` or renew with `key-mgmt renew`'')
                        [ErrHTTPAuthRequired]), fs')
                else (finish m, fs'))
         else if c_APIKey c \<noteq> '''' then
           (finish (NewManagedKeyStoreFromEntriesWithHasher dg ''''
              [NewKeyEntryWithHasher dg (be_now env) ''static-key'' (c_APIKey c) (c_APIKeyRoles c) hasher] hasher), fs)
         else if c_Transport c = ''http'' then (Inl ErrHTTPAuthRequired, fs)
         else (Inr (None, NoBackend), fs))"

definition loadFusionAuth :: "'d boot_env \<Rightarrow> Config \<Rightarrow> goerr + auth_source option \<times> key_backend" where
  "loadFusionAuth env c =
     (case NewFusionAuthValidator (be_jwks env)
             \<lparr>fa_BaseURL = c_FusionAuthURL c, fa_ApplicationID = c_FusionAuthAppID c, fa_Issuer = GetFusionAuthIssuer c,
              fa_JWKSURL = GetFusionAuthJWKSURL c, fa_ClockSkew = c_JWTClockSkew c, fa_RolesClaim = c_JWTRolesClaim c,
              fa_ClientIDHMACKey = c_FusionAuthClientIDHMACKey c\<rparr> of
        Inl err \<Rightarrow> Inl (wrapf ''FusionAuth init'' err)
      | Inr v \<Rightarrow> Inr (Some (FusionAuth v), NoBackend))"

definition loadAuth ::
  "cfg_lib \<Rightarrow> 'd boot_env \<Rightarrow> Config \<Rightarrow> 'd fsys \<Rightarrow> (goerr + auth_source option \<times> key_backend) \<times> 'd fsys" where
  "loadAuth lib env c fs =
     (if c_AuthProvider c = ''fusionauth'' then (loadFusionAuth env c, fs) else loadAPIKeys lib env c fs)"

section \<open>The review queue and the mail sender\<close>

definition buildEmailSender :: "Config \<Rightarrow> goerr + email_sender" where
  "buildEmailSender c =
     (if c_SMTPHost c = '''' then Inr LogOnly
      else case NewSMTPEmailSender (Some \<lparr>sm_Host = c_SMTPHost c, sm_Port = c_SMTPPort c,
                  sm_Username = c_SMTPUsername c, sm_Password = c_SMTPPassword c, sm_From = c_SMTPFrom c,
                  sm_FromName = c_SMTPFromName c\<rparr>) of
             Inr sender \<Rightarrow> Inr sender
           | Inl err \<Rightarrow>
               if \<not> c_AllowKeyInLogs c then
                 Inl (wrapf (''SMTP sender construction failed and NVNM_ALLOW_KEY_IN_LOGS is not set '' @
                             ''(refusing to fall back to logging minted keys)'') err)
               else Inr LogOnly)"

definition newPendingAndEmail ::
  "'d boot_env \<Rightarrow> Config \<Rightarrow> 'd fsys \<Rightarrow> goerr + PendingKeyStore option \<times> email_sender" where
  "newPendingAndEmail env c fs =
     bindE (if c_KeyRequestEnabled c
            then (case NewPendingKeyStore (be_pcd env) (be_io env) (c_KeyPendingFile c) fs of
                    Inl err \<Rightarrow> Inl (wrapf ''init pending key store'' err)
                  | Inr s \<Rightarrow> Inr (Some s))
            else Inr None) (\<lambda>store.
     bindE (buildEmailSender c) (\<lambda>sender. Inr (store, sender)))"

text \<open>The public endpoint opens a store of its own on the same file.\<close>

definition newKeyRequestHandler ::
  "'d boot_env \<Rightarrow> Config \<Rightarrow> 'd fsys \<Rightarrow> goerr + (PendingKeyStore \<times> KeyRequestHandlerConfig) option" where
  "newKeyRequestHandler env c fs =
     (if \<not> c_KeyRequestEnabled c \<or> c_Transport c \<noteq> ''http'' then Inr None
      else case NewPendingKeyStore (be_pcd env) (be_io env) (c_KeyPendingFile c) fs of
             Inl err \<Rightarrow> Inl (wrapf ''init pending key store'' err)
           | Inr s \<Rightarrow>
               Inr (Some (s, \<lparr>kc_MaxBodyBytes = c_KeyRequestMaxBodyBytes c, kc_TrustProxy = c_TrustProxyHeaders c,
                              kc_TrustedProxyHops = c_TrustedProxyHops c\<rparr>)))"

section \<open>The keyless bundle\<close>

record keyless_bundle =
  bu_pool :: bool
  bu_writeAudit :: bool
  bu_quota :: bool
  bu_blacklist :: bool
  bu_adminAudit :: bool

definition loadWriteAudit :: "'d boot_env \<Rightarrow> Config \<Rightarrow> goerr + keyless_bundle" where
  "loadWriteAudit env c =
     (if c_KeylessPGDSN c = '''' then
        Inr \<lparr>bu_pool = False, bu_writeAudit = False, bu_quota = False, bu_blacklist = False, bu_adminAudit = False\<rparr>
      else case bootPool errKeylessDSNInvalid ''keyless pg'' (be_klPool env) of
             Some err \<Rightarrow> Inl err
           | None \<Rightarrow>
               if \<not> c_KeylessWrites c then
                 Inr \<lparr>bu_pool = True, bu_writeAudit = True, bu_quota = False, bu_blacklist = False, bu_adminAudit = True\<rparr>
               else
                 Inr \<lparr>bu_pool = True, bu_writeAudit = True, bu_quota = True, bu_blacklist = True, bu_adminAudit = True\<rparr>)"

definition startRetentionPurge :: "'d boot_env \<Rightarrow> Config \<Rightarrow> bool \<Rightarrow> goerr + Purger option" where
  "startRetentionPurge env c pool =
     (if \<not> Retention_Enabled (c_Retention c) then Inr None
      else if \<not> pool then Inr None
      else case NewPurger pool (c_Retention c) (be_selector env) of
             Inl err \<Rightarrow> Inl (wrapf ''retention purge'' err)
           | Inr p \<Rightarrow> Inr (Some p))"

definition startAdminServer ::
  "cfg_lib \<Rightarrow> 'd boot_env \<Rightarrow> Config \<Rightarrow> key_backend \<Rightarrow> goerr + (bytes \<times> string) list option" where
  "startAdminServer lib env c keys =
     (if c_AdminAPIKey c = '''' \<and> c_AdminAPIKeysFile c = '''' then Inr None
      else if c_Transport c \<noteq> ''http'' then Inr None
      else if c_AuthProvider c \<noteq> ''apikey'' then Inr None
      else if keys = NoBackend then Inl ErrAdminKeyWithoutFile
      else case loadAdminKeys (lb_quote lib) (sha256 (be_dg env)) (c_AdminAPIKey c)
                  (if c_AdminAPIKeysFile c = '''' then None else Some (c_AdminAPIKeysFile c, be_adminFile env)) of
             Inl err \<Rightarrow> Inl err
           | Inr ids \<Rightarrow> Inr (Some ids))"

definition startAuditAndAdmin ::
  "cfg_lib \<Rightarrow> 'd boot_env \<Rightarrow> Config \<Rightarrow> key_backend
     \<Rightarrow> goerr + keyless_bundle \<times> Purger option \<times> (bytes \<times> string) list option" where
  "startAuditAndAdmin lib env c keys =
     bindE (loadWriteAudit env c) (\<lambda>bu.
     bindE (startRetentionPurge env c (bu_pool bu)) (\<lambda>purger.
     bindE (startAdminServer lib env c keys) (\<lambda>admin. Inr (bu, purger, admin))))"

section \<open>The server\<close>

text \<open>\<^verbatim>\<open>NewServer\<close>: what the write tools are registered with, if they are registered.\<close>

definition relayConfig :: "Config \<Rightarrow> keyless_bundle \<Rightarrow> write_cfg option" where
  "relayConfig c bu =
     (if \<not> c_EnableWriteTools c then None
      else Some \<lparr>wc_anchorAddr = c_AnchorAddress c, wc_keyless = c_KeylessWrites c,
                 wc_relayAllowAny = c_RelayAllowAny c, wc_audit = bu_writeAudit bu, wc_metrics = True,
                 wc_gates = \<lparr>sg_blacklist = bu_blacklist bu, sg_quota = bu_quota bu,
                             sg_rate = c_SignerWriteRate c, sg_window = c_SignerWriteWindow c,
                             sg_quotaFailOpen = c_SignerQuotaFailOpen c,
                             sg_blacklistFailOpen = c_SignerBlacklistFailOpen c\<rparr>\<rparr>)"

definition serverKeylessReads :: "Config \<Rightarrow> bool" where
  "serverKeylessReads c \<longleftrightarrow> c_KeylessReads c \<and> c_Transport c = ''http''"

definition buildOriginAllowlist :: "(string \<Rightarrow> string) \<Rightarrow> Config \<Rightarrow> string list option" where
  "buildOriginAllowlist ul c =
     (if c_AllowedOrigins c = [] then None else Some (NewOriginAllowlist ul (c_AllowedOrigins c)))"

record boot_state =
  bs_cfg :: Config
  bs_auth :: "auth_source option"
  bs_keys :: key_backend
  bs_pending :: "PendingKeyStore option"
  bs_email :: email_sender
  bs_bundle :: keyless_bundle
  bs_purger :: "Purger option"
  bs_admin :: "(bytes \<times> string) list option"
  bs_relay :: "write_cfg option"
  bs_keylessReads :: bool
  bs_requests :: "(PendingKeyStore \<times> KeyRequestHandlerConfig) option"

text \<open>The configuration the process runs with: the flag \<^verbatim>\<open>--transport\<close> overrides the variable.\<close>

definition bootConfig :: "cfg_lib \<Rightarrow> environ \<Rightarrow> string \<Rightarrow> goerr + Config" where
  "bootConfig lib env flag =
     (case Load lib env of
        Inl err \<Rightarrow> Inl (wrapf ''configuration error'' err)
      | Inr c \<Rightarrow>
          if flag \<noteq> '''' then
            (let c' = c\<lparr>c_Transport := flag\<rparr>
             in case Config_Validate lib c' of
                  Some err \<Rightarrow> Inl (wrapf ''configuration error after flag override'' err)
                | None \<Rightarrow> Inr c')
          else Inr c)"

definition bootAfterAuth ::
  "cfg_lib \<Rightarrow> 'd boot_env \<Rightarrow> Config \<Rightarrow> auth_source option \<Rightarrow> key_backend \<Rightarrow> 'd fsys \<Rightarrow> goerr + boot_state" where
  "bootAfterAuth lib env c validator keys fs =
     (case be_evm env of Some err \<Rightarrow> Inl (wrapf ''failed to create EVM client'' err)
      | None \<Rightarrow>
     (case be_bind env of
        Some err \<Rightarrow> Inl (wrapf (''health/metrics server: failed to bind '' @ c_MetricsAddr c) err)
      | None \<Rightarrow>
     bindE (newPendingAndEmail env c fs) (\<lambda>(pending, email).
     bindE (startAuditAndAdmin lib env c keys) (\<lambda>(bu, purger, admin).
     bindE (newKeyRequestHandler env c fs) (\<lambda>requests.
       Inr \<lparr>bs_cfg = c, bs_auth = validator, bs_keys = keys, bs_pending = pending, bs_email = email,
            bs_bundle = bu, bs_purger = purger, bs_admin = admin, bs_relay = relayConfig c bu,
            bs_keylessReads = serverKeylessReads c, bs_requests = requests\<rparr>)))))"

definition boot ::
  "cfg_lib \<Rightarrow> 'd boot_env \<Rightarrow> environ \<Rightarrow> string \<Rightarrow> 'd fsys \<Rightarrow> (goerr + boot_state) \<times> 'd fsys" where
  "boot lib env vars flag fs =
     (case bootConfig lib vars flag of
        Inl err \<Rightarrow> (Inl err, fs)
      | Inr c \<Rightarrow>
          (case be_telemetry env of
             Some err \<Rightarrow> (Inl (wrapf ''telemetry init'' err), fs)
           | None \<Rightarrow>
               (case loadAuth lib env c fs of
                  (Inl err, fs') \<Rightarrow> (Inl err, fs')
                | (Inr (validator, keys), fs') \<Rightarrow> (bootAfterAuth lib env c validator keys fs', fs'))))"


section \<open>The running configuration\<close>

lemma bootConfig_ok:
  assumes "bootConfig lib vars flag = Inr c"
  shows "config_ok c" "keyrequest_ok c" "smtp_ok c" "retention_ok (c_Retention c)"
proof -
  obtain c0 where l: "Load lib vars = Inr c0"
    using assms by (auto simp: bootConfig_def split: sum.splits)
  note ok = Load_ok [OF l]
  have "c = c0 \<and> config_ok c \<or> c = c0\<lparr>c_Transport := flag\<rparr> \<and> config_ok c"
    using assms l ok(1)
    by (auto simp: bootConfig_def Let_def Config_Validate_iff config_ok_def split: if_splits option.splits)
  then show "config_ok c" "keyrequest_ok c" "smtp_ok c" "retention_ok (c_Retention c)"
    using ok by (auto simp: keyrequest_ok_def smtp_ok_def)
qed

lemma boot_shape:
  assumes "boot lib env vars flag fs = (Inr b, fs')"
  obtains "bootConfig lib vars flag = Inr (bs_cfg b)"
    "loadAuth lib env (bs_cfg b) fs = (Inr (bs_auth b, bs_keys b), fs')"
    "newPendingAndEmail env (bs_cfg b) fs' = Inr (bs_pending b, bs_email b)"
    "startAuditAndAdmin lib env (bs_cfg b) (bs_keys b) = Inr (bs_bundle b, bs_purger b, bs_admin b)"
    "newKeyRequestHandler env (bs_cfg b) fs' = Inr (bs_requests b)"
    "bs_relay b = relayConfig (bs_cfg b) (bs_bundle b)" "bs_keylessReads b = serverKeylessReads (bs_cfg b)"
proof -
  obtain c where c: "bootConfig lib vars flag = Inr c"
    using assms by (auto simp: boot_def split: sum.splits)
  obtain v k f where a: "loadAuth lib env c fs = (Inr (v, k), f)"
    using assms by (auto simp: boot_def c split: sum.splits prod.splits option.splits)
  have r: "bootAfterAuth lib env c v k f = Inr b" "f = fs'"
    using assms by (auto simp: boot_def c a split: option.splits)
  from r(1) show thesis
    by (auto simp: bootAfterAuth_def bindE_Inr split: option.splits prod.splits)
       (use c a r(2) that in auto)
qed

section \<open>No server without authentication\<close>

lemma HashForStore_nonempty: "proper_digests dg \<Longrightarrow> fst (HashForStore dg h k) \<noteq> ''''"
  by (auto simp: HashForStore_def HashKey_def hashKeyHMAC_def proper_digests_def split: option.split)

lemma fold_index_mono: "enabledCount ks \<le> enabledCount (fold index_entry es ks)"
proof (induction es arbitrary: ks)
  case (Cons e es)
  from Cons.IH [of "index_entry e ks"] show ?case by (auto simp: index_entry_def split: if_splits)
qed simp

lemma fold_index_counts:
  "e \<in> set es \<Longrightarrow> ke_Enabled e \<Longrightarrow> ke_KeyHash e \<noteq> '''' \<Longrightarrow> 0 < enabledCount (fold index_entry es ks)"
proof (induction es arbitrary: ks)
  case (Cons x es)
  show ?case
  proof (cases "e = x")
    case True
    with Cons.prems have "0 < enabledCount (index_entry x ks)" by (simp add: index_entry_def)
    then show ?thesis using fold_index_mono [of "index_entry x ks" es] by simp
  qed (use Cons in simp)
qed simp

lemma store_not_empty:
  "e \<in> set (fst (migrateLegacyEntries dg es)) \<Longrightarrow> ke_Enabled e \<Longrightarrow> ke_KeyHash e \<noteq> '''' \<Longrightarrow>
     \<not> KeyStore_Empty (NewKeyStoreWithHasher dg es h)"
  unfolding KeyStore_Empty_def NewKeyStoreWithHasher_def using fold_index_counts by fastforce

lemma NewManaged_entries:
  assumes "NewManagedKeyStoreWithHasher uq dg cd io path h fs = (Inr m, fs')"
  shows "\<exists>es. mk_store m = NewKeyStoreWithHasher dg es h \<and> mk_entries m = fst (migrateLegacyEntries dg es)"
  using assms
  by (auto simp: NewManagedKeyStoreWithHasher_def Let_def split: sum.splits if_splits prod.splits option.splits)

lemma usable_entry:
  assumes "0 < UsableCount now m"
  obtains e where "e \<in> set (mk_entries m)" "ke_Enabled e"
proof -
  from assms have "filter (\<lambda>e. classifyEntry (Some e) now = RejectNone) (mk_entries m) \<noteq> []"
    by (auto simp: UsableCount_def)
  then obtain e where e: "e \<in> set (mk_entries m)" "classifyEntry (Some e) now = RejectNone"
    by (auto simp: filter_empty_conv)
  then have "ke_Enabled e" by (simp add: classifyEntry_def split: if_splits)
  with e(1) show thesis by (rule that)
qed

definition hashed_entries :: "key_backend \<Rightarrow> bool" where
  "hashed_entries k =
     (case k of FileBackend m \<Rightarrow> list_all (\<lambda>e. ke_KeyHash e \<noteq> '''') (mk_entries m) | _ \<Rightarrow> True)"

lemma loadAPIKeys_auth:
  assumes run: "loadAPIKeys lib env c fs = (Inr (v, k), fs')" and http: "c_Transport c = ''http''"
    and dg: "proper_digests (be_dg env)" and stable: "ksEnabled env 3 = ksEnabled env 0" and hashed: "hashed_entries k"
  shows "v \<noteq> None"
proof -
  let ?h = "Some (NewKeyHasher (c_KeyHMACPepper c) (c_KeyHMACPepperPrevious c))"
  consider (pg) "c_KeyStoreBackend c = ''postgres''"
    | (keysfile) "c_KeyStoreBackend c \<noteq> ''postgres''" "c_APIKeysFile c \<noteq> ''''"
    | (single) "c_KeyStoreBackend c \<noteq> ''postgres''" "c_APIKeysFile c = ''''" "c_APIKey c \<noteq> ''''"
    | (nokeys) "c_KeyStoreBackend c \<noteq> ''postgres''" "c_APIKeysFile c = ''''" "c_APIKey c = ''''" by blast
  then show ?thesis
  proof cases
    case pg
    with run http stable show ?thesis
      by (auto simp: loadAPIKeys_def Let_def loadPostgresKeyStore_def NewAPIKeyValidatorWithHasher_def
          split: option.splits if_splits)
  next
    case keysfile
    obtain r f where n: "NewManagedKeyStoreWithHasher (lb_quote lib) (be_dg env) (be_cd env) (be_io env) (c_APIKeysFile c) ?h fs
        = (r, f)" by (rule prod.exhaust)
    with run keysfile obtain m where m: "r = Inr m" by (cases r) (auto simp: loadAPIKeys_def Let_def)
    have u: "UsableCount (be_now env) m \<noteq> 0" and vk: "v = NewAPIKeyValidatorWithHasher (Key_Store.Empty m) (FileKeys m)"
      "k = FileBackend m"
      using run keysfile http n m by (auto simp: loadAPIKeys_def Let_def split: if_splits)
    from u obtain e where e: "e \<in> set (mk_entries m)" "ke_Enabled e" by (auto elim: usable_entry)
    with hashed vk(2) have "ke_KeyHash e \<noteq> ''''" by (simp add: hashed_entries_def list_all_iff)
    moreover from NewManaged_entries [OF n [unfolded m]] obtain es where
      "mk_store m = NewKeyStoreWithHasher (be_dg env) es ?h" "mk_entries m = fst (migrateLegacyEntries (be_dg env) es)"
      by blast
    ultimately have "\<not> Key_Store.Empty m" using e store_not_empty by (simp add: Key_Store.Empty_def)
    with vk(1) show ?thesis by (simp add: NewAPIKeyValidatorWithHasher_def)
  next
    case single
    let ?e = "NewKeyEntryWithHasher (be_dg env) (be_now env) ''static-key'' (c_APIKey c) (c_APIKeyRoles c) ?h"
    have "ke_KeyHash ?e \<noteq> ''''" "ke_Enabled ?e"
      using HashForStore_nonempty [OF dg, of ?h "c_APIKey c"]
      by (auto simp: NewKeyEntryWithHasher_def split: prod.split)
    then have "\<not> KeyStore_Empty (NewKeyStoreWithHasher (be_dg env) [?e] ?h)"
      by (intro store_not_empty [of ?e]) (simp_all add: migrateLegacyEntries_def migrateEntry_def)
    with run single show ?thesis
      by (auto simp: loadAPIKeys_def Let_def NewAPIKeyValidatorWithHasher_def Key_Store.Empty_def
          NewManagedKeyStoreFromEntriesWithHasher_def)
  next
    case nokeys
    with run http show ?thesis by (simp add: loadAPIKeys_def Let_def)
  qed
qed

lemma loadFusionAuth_ok:
  assumes "loadFusionAuth env c = Inr (a, k)"
  obtains v cfg where "a = Some (FusionAuth v)" "NewFusionAuthValidator (be_jwks env) cfg = Inr v"
    "fa_ApplicationID cfg = c_FusionAuthAppID c" "fa_BaseURL cfg = c_FusionAuthURL c" "fa_Issuer cfg = GetFusionAuthIssuer c"
  using assms by (auto simp: loadFusionAuth_def intro!: that split: sum.splits)

text \<open>
  A process that comes up on the HTTP transport has a token validator, whichever provider and
  store is configured, provided that every entry of the keys file carries a digest or a key to
  digest, and that the key store answers the last count query of the start as it answered the
  first.
\<close>

lemma booted_validator:
  assumes "boot lib env vars flag fs = (Inr b, fs')" "c_Transport (bs_cfg b) = ''http''"
    and "proper_digests (be_dg env)" "ksEnabled env 3 = ksEnabled env 0" "hashed_entries (bs_keys b)"
  shows "bs_auth b \<noteq> None"
proof (rule boot_shape [OF assms(1)])
  assume a: "loadAuth lib env (bs_cfg b) fs = (Inr (bs_auth b, bs_keys b), fs')"
  show ?thesis
  proof (cases "c_AuthProvider (bs_cfg b) = ''fusionauth''")
    case True
    with a have "loadFusionAuth env (bs_cfg b) = Inr (bs_auth b, bs_keys b)" by (simp add: loadAuth_def)
    then show ?thesis by (rule loadFusionAuth_ok) simp
  next
    case False
    with a have "loadAPIKeys lib env (bs_cfg b) fs = (Inr (bs_auth b, bs_keys b), fs')" by (simp add: loadAuth_def)
    with assms(2-5) show ?thesis by (rule loadAPIKeys_auth [rotated])
  qed
qed


text \<open>
  Both provisos are needed. A keys file whose only enabled entries carry neither a digest nor a
  key passes the check on usable keys, while the index skips such entries and is empty; and a
  count query that fails only the last time reads as an empty store after the check has passed.
  Either way the validator is nil and the server answers without authentication.
\<close>

definition blank_entry :: KeyEntry where
  "blank_entry = \<lparr>ke_ID = ''x'', ke_Key = '''', ke_KeyHash = '''', ke_KeyPrefix = '''', ke_Enabled = True,
     ke_CreatedAt = 0, ke_HashVersion = 0, ke_WriteApproval = '''', ke_Roles = [''admin''], ke_ExpiresAt = 0\<rparr>"

lemma blank_key_opens_server:
  assumes "c_Transport c = ''http''" "c_KeyStoreBackend c \<noteq> ''postgres''" "c_APIKeysFile c \<noteq> ''''"
    and "io_fail (be_io env) ReadKeys = None" "fs (c_APIKeysFile c) = Some d" "Unmarshal (be_cd env) d = Inr [blank_entry]"
  shows "\<exists>k. loadAPIKeys lib env c fs = (Inr (None, k), fs)"
proof -
  have load: "LoadKeysFile uq (be_cd env) (be_io env) fs (c_APIKeysFile c) = Inr [blank_entry]" for uq
    using assms(4-6) by (simp add: LoadKeysFile_def loadKeysFromPath_def blank_entry_def)
  have migr: "migrateLegacyEntries dg [blank_entry] = ([blank_entry], 0)" for dg
    by (simp add: migrateLegacyEntries_def migrateEntry_def needsMigration_def blank_entry_def)
  have "KeyStore_Empty (NewKeyStoreWithHasher dg [blank_entry] h)" for dg h
    by (simp add: KeyStore_Empty_def NewKeyStoreWithHasher_def migr index_entry_def) (simp add: blank_entry_def)
  moreover have "classifyEntry (Some blank_entry) now = RejectNone" for now
    by (simp add: classifyEntry_def blank_entry_def time_defs)
  ultimately show ?thesis
    using assms(1-3) load migr
    by (simp add: loadAPIKeys_def Let_def NewManagedKeyStoreWithHasher_def UsableCount_def
        Key_Store.Empty_def NewAPIKeyValidatorWithHasher_def)
qed

lemma failed_count_opens_server:
  assumes "bootPool errKeyStoreDSNInvalid ''postgres key store'' (be_ksPool env) = None" "c_KeyHMACPepper c \<noteq> ''''"
    and "ksEnabled env 0 \<noteq> 0" "be_ksQuery env 3 \<noteq> None"
  shows "loadPostgresKeyStore env c h = Inr (None, PgBackend)"
  using assms by (simp add: loadPostgresKeyStore_def NewAPIKeyValidatorWithHasher_def ksEnabled_def countEnabled_def)

section \<open>The posture of a running server\<close>

lemma bundle_keyless:
  "loadWriteAudit env c = Inr bu \<Longrightarrow> c_KeylessPGDSN c \<noteq> '''' \<Longrightarrow>
     bu_pool bu \<and> bu_writeAudit bu \<and> bu_adminAudit bu \<and> bu_quota bu = c_KeylessWrites c \<and> bu_blacklist bu = c_KeylessWrites c"
  by (auto simp: loadWriteAudit_def split: option.splits if_splits)

lemma purger_windows:
  "startRetentionPurge env c pool = Inr (Some p) \<Longrightarrow>
     pu_cfg p = c_Retention c \<and> (0 < rt_WriteAuditGrantRole (c_Retention c) \<longrightarrow> carveOut p)"
  by (auto simp: startRetentionPurge_def NewPurger_def carveOut_def split: if_splits sum.splits)

lemma sender_smtp:
  "smtp_ok c \<Longrightarrow> buildEmailSender c = Inr e \<Longrightarrow> e = LogOnly \<longleftrightarrow> c_SMTPHost c = ''''"
  by (auto simp: buildEmailSender_def NewSMTPEmailSender_def smtp_ok_def Let_def split: if_splits sum.splits)

text \<open>\<open>gated wc\<close>: the relay has everything the guarantees on keyless writes assume of it.\<close>

definition gated :: "write_cfg \<Rightarrow> bool" where
  "gated wc \<longleftrightarrow>
     wc_audit wc \<and> \<not> wc_relayAllowAny wc \<and> AddressFromHex (wc_anchorAddr wc) \<noteq> None
     \<and> sg_blacklist (wc_gates wc) \<and> sg_quota (wc_gates wc)
     \<and> 1 \<le> sg_rate (wc_gates wc) \<and> 0 < sg_window (wc_gates wc)"



section \<open>Two stores on one queue file\<close>

text \<open>
  The administration API and the public endpoint each open the queue file and keep their own
  copy of the items, which they never read again. What the endpoint accepts is therefore not
  visible to the administrators of the running process, and the next decision one of them takes
  writes the file back without it: a request that was answered with 202 is gone.
\<close>

lemma Decide_ids:
  assumes "Decide uq cd io now rid st d k s fs = (Inr r, s', fs')"
  shows "map pk_ID (ps_items s') = map pk_ID (ps_items s)" "ps_path s' = ps_path s"
proof -
  from Decide_Inr(2) [OF assms] obtain idx where i: "index_of (\<lambda>r. pk_ID r = rid) (ps_items s) = Some idx"
    "pk_ID r = pk_ID (ps_items s ! idx)" "s' = s\<lparr>ps_items := (ps_items s)[idx := r]\<rparr>" by auto
  from index_of_SomeD [OF i(1)] have "idx < length (ps_items s)" by simp
  with i(2) have "map pk_ID ((ps_items s)[idx := r]) = map pk_ID (ps_items s)"
    by (simp add: map_update list_update_same_conv)
  with i(3) show "map pk_ID (ps_items s') = map pk_ID (ps_items s)" "ps_path s' = ps_path s" by simp_all
qed

lemma Pending_Get_None: "Pending_Get rid s = None \<longleftrightarrow> rid \<notin> set (map pk_ID (ps_items s))"
  by (auto simp: Pending_Get_def find_None_iff)

text \<open>
  Claim C34 (an accepted request can be lost). Take a process that is up with the request
  endpoint and the queue of the administration API. If the endpoint accepts a request under a
  fresh identifier and an administrator then decides any other request, the administration API
  does not know the accepted request, before and after, and the file no longer holds it, so that
  it does not come back with a restart either.
\<close>

theorem accepted_request_lost:
  assumes "boot lib env vars flag fs = (Inr b, fs0)" "bs_pending b = Some admin" "bs_requests b = Some (public, kc)"
    and "\<forall>items. pUnmarshal (be_pcd env) (pMarshal (be_pcd env) items) = Inr items
           \<and> pMarshal (be_pcd env) items \<noteq> pEmptyFile (be_pcd env)"
    and "io_fail io ReadKeys = None" "uuid \<notin> set (map pk_ID (ps_items public))"
    and "Pending_Add (be_pcd env) io uuid now em co iu ra public fs0 = (Inr req, public', fs1)"
    and "Decide uq (be_pcd env) io' now' rid st d k admin fs1 = (Inr r, admin', fs2)"
  shows "Pending_Get uuid public' = Some req \<and> Pending_Get uuid admin = None \<and> Pending_Get uuid admin' = None
    \<and> NewPendingKeyStore (be_pcd env) io (ps_path admin) fs2 = Inr admin'"
proof (rule boot_shape [OF assms(1)])
  assume pe: "newPendingAndEmail env (bs_cfg b) fs0 = Inr (bs_pending b, bs_email b)"
    and kr: "newKeyRequestHandler env (bs_cfg b) fs0 = Inr (bs_requests b)"
  have open_same: "NewPendingKeyStore (be_pcd env) (be_io env) (c_KeyPendingFile (bs_cfg b)) fs0 = Inr public"
    and "NewPendingKeyStore (be_pcd env) (be_io env) (c_KeyPendingFile (bs_cfg b)) fs0 = Inr admin"
    using kr pe assms(2,3)
    by (auto simp: newPendingAndEmail_def newKeyRequestHandler_def bindE_Inr split: if_splits sum.splits)
  then have same: "admin = public" by simp
  have path: "ps_path public \<noteq> ''''"
    using open_same by (auto simp: NewPendingKeyStore_def split: if_splits option.splits sum.splits)
  have "find (\<lambda>r. pk_ID r = uuid) (ps_items public) = None" using assms(6) by (auto simp: find_None_iff)
  then have "Pending_Get uuid public' = Some req"
    using Pending_Add_Inr [OF assms(7)] by (simp add: Pending_Get_def find_append_case)
  moreover have "Pending_Get uuid admin = None" "Pending_Get uuid admin' = None"
    using assms(6) same Decide_ids [OF assms(8)] by (simp_all only: Pending_Get_None not_False_eq_True)
  moreover have "NewPendingKeyStore (be_pcd env) io (ps_path admin) fs2 = Inr admin'"
    using step_saved [of uq "be_pcd env" "OpDecide io' now' rid st d k" admin fs1 r admin' fs2] assms(4,5,8)
      path same by (simp add: NewPendingKeyStore_def)
  ultimately show ?thesis by blast
qed


section \<open>A server that is up\<close>

definition demo_pool :: pool_env where
  "demo_pool = \<lparr>po_dsnOK = True, po_connect = None, po_ping = None, po_migrate = None\<rparr>"

definition demo_boot :: "PendingKeyRequest list option boot_env" where
  "demo_boot =
     \<lparr>be_dg = tag_digests,
      be_cd = \<lparr>Marshal = (\<lambda>_. None), Unmarshal = (\<lambda>_. Inl ErrNotExist), emptyFile = None\<rparr>,
      be_pcd = plain_pending, be_io = steady_io, be_now = 0, be_telemetry = None, be_jwks = (\<lambda>_. None), be_ksPool = demo_pool,
      be_ksQuery = (\<lambda>_. None), be_ksTable = (\<lambda>_. []), be_evm = None, be_bind = None,
      be_klPool = demo_pool, be_selector = ''0xaa'', be_adminFile = Inr (Inr [])\<rparr>"

definition old_request :: PendingKeyRequest where
  "old_request =
     \<lparr>pk_ID = ''r1'', pk_Email = ''a@b'', pk_Company = '''', pk_IntendedUse = ''x'', pk_Status = PendingStatusPending,
      pk_CreatedAt = 0, pk_DecidedAt = None, pk_DeciderID = '''', pk_KeyID = '''', pk_RemoteAddr = ''ip''\<rparr>"

definition old_queue :: PendingKeyStore where
  "old_queue = \<lparr>ps_path = ''q.json'', ps_items = [old_request]\<rparr>"

definition demo_disk :: "PendingKeyRequest list option fsys" where
  "demo_disk = [''q.json'' \<mapsto> Some [old_request]]"

lemma demo_pool_up: "bootPool e n demo_pool = None"
  by (simp add: bootPool_def demo_pool_def)

lemma demo_queue_opens: "NewPendingKeyStore plain_pending steady_io ''q.json'' demo_disk = Inr old_queue"
  by (simp add: NewPendingKeyStore_def plain_pending_def steady_io_def demo_disk_def old_queue_def)

lemma steady_save: "\<exists>sts. pending_save cd steady_io path items fs = (None, sts)"
  by (simp add: pending_save_def withExclusiveLock_def writePendingAtomic_def steady_io_def Let_def)

lemma steady_Add:
  obtains r q fs1 where "Pending_Add cd steady_io uuid now em co iu ra s fs = (Inr r, q, fs1)"
proof -
  define req where "req = \<lparr>pk_ID = uuid, pk_Email = em, pk_Company = co, pk_IntendedUse = iu,
    pk_Status = PendingStatusPending, pk_CreatedAt = now, pk_DecidedAt = None, pk_DeciderID = '''', pk_KeyID = '''',
    pk_RemoteAddr = ra\<rparr>"
  obtain sts where "pending_save cd steady_io (ps_path s) (ps_items s @ [req]) fs = (None, sts)"
    using steady_save by blast
  then have "Pending_Add cd steady_io uuid now em co iu ra s fs = (Inr req, s\<lparr>ps_items := ps_items s @ [req]\<rparr>, last sts)"
    by (simp add: Pending_Add_def req_def Let_def)
  then show thesis by (rule that)
qed

lemma steady_Decide:
  assumes "index_of (\<lambda>r. pk_ID r = rid) (ps_items s) = Some i" "pk_Status (ps_items s ! i) = PendingStatusPending"
  obtains r a fs2 where "Decide uq cd steady_io now rid PendingStatusApproved d k s fs = (Inr r, a, fs2)"
proof -
  define items where "items = (ps_items s)[i := (ps_items s ! i)\<lparr>pk_Status := PendingStatusApproved,
    pk_DecidedAt := Some now, pk_DeciderID := d, pk_KeyID := k\<rparr>]"
  obtain sts where "pending_save cd steady_io (ps_path s) items fs = (None, sts)"
    using steady_save by blast
  with assms have "Decide uq cd steady_io now rid PendingStatusApproved d k s fs
      = (Inr (items ! i), s\<lparr>ps_items := items\<rparr>, last sts)"
    by (simp add: Decide_def items_def Let_def)
  then show thesis by (rule that)
qed

lemma demo_up:
  obtains b wc kc where "boot demo_lib demo_boot hosted_env '''' demo_disk = (Inr b, demo_disk)"
    "c_Transport (bs_cfg b) = ''http''" "hashed_entries (bs_keys b)"
    "bs_pending b = Some old_queue" "bs_requests b = Some (old_queue, kc)" "bs_relay b = Some wc" "wc_keyless wc"
proof -
  obtain c where c: "Load demo_lib hosted_env = Inr c" "c_KeylessWrites c" "c_Transport c = ''http''"
    "c_EnableWriteTools c" "c_KeylessPGDSN c = ''db''" "c_APIKey c = ''k''" "c_APIKeysFile c = ''''"
    "c_KeyStoreBackend c = ''''" "c_AuthProvider c = ''apikey''" "c_AdminAPIKey c = ''''" "c_AdminAPIKeysFile c = ''''"
    "c_KeyRequestEnabled c" "c_KeyPendingFile c = ''q.json''" "c_SMTPHost c = ''''" "\<not> Retention_Enabled (c_Retention c)"
    using hosted_loads by (elim exE conjE) (rule that)
  have proper: "proper_digests tag_digests" by (simp add: proper_digests_def tag_digests_def)
  obtain v k where a: "loadAuth demo_lib demo_boot c demo_disk = (Inr (v, k), demo_disk)" and h: "hashed_entries k"
  proof -
    have "loadAuth demo_lib demo_boot c demo_disk = loadAPIKeys demo_lib demo_boot c demo_disk"
      by (simp add: loadAuth_def c)
    then show thesis
      using that HashForStore_nonempty [OF proper]
      by (auto simp: loadAPIKeys_def Let_def c hashed_entries_def NewManagedKeyStoreFromEntriesWithHasher_def
          NewKeyEntryWithHasher_def demo_boot_def split: prod.splits) (metis fst_conv)
  qed
  have env: "be_evm demo_boot = None" "be_bind demo_boot = None" "be_klPool demo_boot = demo_pool"
    "be_pcd demo_boot = plain_pending" "be_io demo_boot = steady_io" "be_telemetry demo_boot = None"
    by (simp_all add: demo_boot_def)
  have cfg: "bootConfig demo_lib hosted_env '''' = Inr c" by (simp add: bootConfig_def c)
  obtain b where b: "bootAfterAuth demo_lib demo_boot c v k demo_disk = Inr b"
    and f: "bs_cfg b = c" "bs_keys b = k" "bs_pending b = Some old_queue" "\<exists>kc. bs_requests b = Some (old_queue, kc)"
      "\<exists>wc. bs_relay b = Some wc \<and> wc_keyless wc"
  proof -
    have "newPendingAndEmail demo_boot c demo_disk = Inr (Some old_queue, LogOnly)"
      by (simp add: newPendingAndEmail_def c env demo_queue_opens buildEmailSender_def)
    moreover obtain bu pu ad where "startAuditAndAdmin demo_lib demo_boot c k = Inr (bu, pu, ad)"
      by (auto simp: startAuditAndAdmin_def loadWriteAudit_def startRetentionPurge_def startAdminServer_def c env demo_pool_up)
    moreover obtain kc where "newKeyRequestHandler demo_boot c demo_disk = Inr (Some (old_queue, kc))"
      by (auto simp: newKeyRequestHandler_def c env demo_queue_opens)
    ultimately show thesis using that by (auto simp: bootAfterAuth_def env relayConfig_def c)
  qed
  have "boot demo_lib demo_boot hosted_env '''' demo_disk = (Inr b, demo_disk)"
    by (simp add: boot_def cfg a b env)
  with f c(3) h show thesis using that by blast
qed


theorem accepted_request_lost_witness:
  "\<exists>req q fs1 r a fs2.
     Pending_Add plain_pending steady_io ''r2'' 1 ''c@d'' '''' ''y'' ''ip'' old_queue demo_disk = (Inr req, q, fs1)
     \<and> Decide id plain_pending steady_io 2 ''r1'' PendingStatusApproved ''adm'' ''key'' old_queue fs1 = (Inr r, a, fs2)
     \<and> Pending_Get ''r2'' q = Some req \<and> Pending_Get ''r2'' a = None
     \<and> NewPendingKeyStore plain_pending steady_io ''q.json'' fs2 = Inr a"
proof (rule demo_up)
  fix b kc assume b: "boot demo_lib demo_boot hosted_env '''' demo_disk = (Inr b, demo_disk)"
    "bs_pending b = Some old_queue" "bs_requests b = Some (old_queue, kc)"
  have pcd: "be_pcd demo_boot = plain_pending" by (simp add: demo_boot_def)
  obtain req q fs1 where add: "Pending_Add plain_pending steady_io ''r2'' 1 ''c@d'' '''' ''y'' ''ip'' old_queue demo_disk
      = (Inr req, q, fs1)"
    by (rule steady_Add)
  obtain r a fs2 where dec: "Decide id plain_pending steady_io 2 ''r1'' PendingStatusApproved ''adm'' ''key'' old_queue fs1
      = (Inr r, a, fs2)"
    by (rule steady_Decide [of "''r1''" old_queue 0]) (simp_all add: old_queue_def old_request_def)
  have "Pending_Get ''r2'' q = Some req \<and> Pending_Get ''r2'' old_queue = None \<and> Pending_Get ''r2'' a = None
      \<and> NewPendingKeyStore plain_pending steady_io (ps_path old_queue) fs2 = Inr a"
    by (rule accepted_request_lost [OF b, unfolded pcd, OF _ _ _ add dec])
       (simp_all add: plain_pending_def steady_io_def old_queue_def old_request_def)
  with add dec show ?thesis by (auto simp: old_queue_def)
qed

end
