(* ===== verification/Deploy.thy ===== *)
theory Deploy
  imports Boot Key_Postgres
begin

text \<open>
  The running server: the last part of \<^verbatim>\<open>run\<close> in \<^verbatim>\<open>cmd/nvnm-mcp-server/main.go\<close>, which turns the
  parts of theory \<open>Boot\<close> into the chain of handlers of theory \<open>Http_Chain\<close>, and the guarantee
  that spans them: from the environment variables of a process to the identity of a request.
\<close>

section \<open>The validator behind the chain\<close>

text \<open>
  What changes while the process runs: the entries of the managed store (through the
  administration API), the table of the Postgres store and the faults of its queries, and what
  the token library says, each at a point in time.
\<close>

record 'l net_env =
  ne_ul :: "string \<Rightarrow> string"
  ne_rate :: "(gofloat, 'l) rate_ops"
  ne_store :: "time \<Rightarrow> ManagedKeyStore"
  ne_table :: "time \<Rightarrow> pg_table"
  ne_query :: "time \<Rightarrow> goerr option"
  ne_parse :: "time \<Rightarrow> duration \<Rightarrow> string \<Rightarrow> goerr + bool \<times> MapClaims option"

text \<open>
  The three implementations of \<^verbatim>\<open>TokenValidator\<close>. The two key stores never dereference a nil
  entry, which would be the value \<open>None\<close>.
\<close>

definition validatorOf :: "digests \<Rightarrow> 'l net_env \<Rightarrow> auth_source \<Rightarrow> validator" where
  "validatorOf dg ne src =
     (case src of
        FileKeys m \<Rightarrow> (\<lambda>t token. the (authenticate dg t (ne_store ne t) token))
      | PgKeys h \<Rightarrow> (\<lambda>t token. the (pg_authenticate dg h
                       \<lparr>pe_now = t, pe_query = ne_query ne t, pe_exec = None\<rparr> (ne_table ne t) token))
      | FusionAuth v \<Rightarrow> (\<lambda>t. Fusion_Validate dg (ne_parse ne t) v))"

section \<open>Limiters and transport\<close>

definition DefaultFailRatePerSec :: gofloat where
  "DefaultFailRatePerSec = Fin 1 0"

definition DefaultFailBurst :: int where
  "DefaultFailBurst = 5"

definition newHTTPLimiters :: "Config \<Rightarrow> 'a \<Rightarrow> (gofloat, 'l, 'a) hstate" where
  "newHTTPLimiters c app =
     \<lparr>hs_fail = Some (NewIPFailRateLimiter DefaultFailRatePerSec DefaultFailBurst
                        (c_TrustProxyHeaders c) (c_TrustedProxyHops c)),
      hs_anon = Some (newKeyedRateLimiter (c_AnonRateLimit c) (c_AnonRateBurst c)),
      hs_client = Some (newKeyedRateLimiter (c_MCPRateLimit c) (c_MCPRateBurst c)),
      hs_app = app\<rparr>"

text \<open>
  \<open>runTransport\<close>: \<open>None\<close> is the standard streams, otherwise the HTTP server with the handlers
  \<open>mcp\<close> of the tools and \<open>kr\<close> of the request endpoint behind it.
\<close>

definition runTransport ::
  "cfg_lib \<Rightarrow> digests \<Rightarrow> 'l net_env \<Rightarrow> boot_state \<Rightarrow> (gofloat, 'l, 'a) handler \<Rightarrow> (gofloat, 'l, 'a) handler
     \<Rightarrow> goerr + (gofloat, 'l, 'a) server_cfg option" where
  "runTransport lib dg ne b mcp kr =
     (let c = bs_cfg b
      in if c_Transport c = ''stdio'' then Inr None
         else if c_Transport c = ''http'' then
           Inr (Some \<lparr>sc_ul = ne_ul ne, sc_rate = ne_rate ne,
                      sc_validator = map_option (validatorOf dg ne) (bs_auth b),
                      sc_keylessReads = bs_keylessReads b,
                      sc_allowed = buildOriginAllowlist (ne_ul ne) c,
                      sc_renewalURL = c_KeyRenewalURL c, sc_trustProxy = c_TrustProxyHeaders c,
                      sc_hops = c_TrustedProxyHops c,
                      sc_keyRequest = (if bs_requests b = None then None else Some kr), sc_mcp = mcp\<rparr>)
         else Inl (Errorf (''unknown transport '' @ Quote (lb_quote lib) (c_Transport c) @ '': '' @
                     Error ErrInvalidTransport) [ErrInvalidTransport]))"

section \<open>The validator interface\<close>

text \<open>
  What the HTTP chain relies on: a token that \<open>validate\<close> accepts is one the provider \<open>vouches\<close> for.
  The chain then serves no request under any other identity.
\<close>

locale token_validator =
  fixes validate :: validator
    and vouches :: "time \<Rightarrow> string \<Rightarrow> Claims \<Rightarrow> bool"
  assumes sound: "validate t token = Inr c \<Longrightarrow> vouches t token c"
begin

lemma served_identity:
  assumes "sc_validator srv = Some validate" and "keyRequest_neutral srv" and "rq_claims r = None"
    and "touched (RunHTTP_handler srv) r s"
  shows "\<exists>ctx s1. Allowed (sc_ul srv) (origins srv) (Header (rq r) ''Origin'') \<and> scheme_ok (sc_trustProxy srv) (rq r)
    \<and> (ctx = None \<and> sc_keylessReads srv \<and> Header (rq r) ''Authorization'' = ''''
       \<or> (\<exists>token c. Header (rq r) ''Authorization'' = bearer @ token \<and> ctx = Some c \<and> vouches (rq_now r) token c))
    \<and> hs_app s1 = hs_app s
    \<and> hs_app (snd (RunHTTP_handler srv r s))
        = hs_app (snd (sc_mcp srv (r\<lparr>rq_maxBody := Some MaxRequestBodyBytes, rq_claims := ctx\<rparr>) s1))"
proof -
  from mediation [OF assms(4,2)] obtain ctx s1 where
    m: "Allowed (sc_ul srv) (origins srv) (Header (rq r) ''Origin'')" "scheme_ok (sc_trustProxy srv) (rq r)"
       "identified (sc_validator srv) (sc_keylessReads srv) r ctx" "hs_app s1 = hs_app s"
       "hs_app (snd (RunHTTP_handler srv r s))
          = hs_app (snd (sc_mcp srv (r\<lparr>rq_maxBody := Some MaxRequestBodyBytes, rq_claims := ctx\<rparr>) s1))"
    by blast
  have "ctx = None \<and> sc_keylessReads srv \<and> Header (rq r) ''Authorization'' = ''''
       \<or> (\<exists>token c. Header (rq r) ''Authorization'' = bearer @ token \<and> ctx = Some c \<and> vouches (rq_now r) token c)"
    using m(3) assms(1,3) sound by (auto simp: identified_def Let_def)
  with m(1,2,4,5) show ?thesis by blast
qed

end

section \<open>From the environment to the identity of a request\<close>

text \<open>\<open>holds_key\<close>: a live entry is filed under a digest of the token, and the claims are its own.\<close>

definition holds_key :: "digests \<Rightarrow> KeyHasher option \<Rightarrow> time \<Rightarrow> KeyEntry list \<Rightarrow> string \<Rightarrow> Claims \<Rightarrow> bool" where
  "holds_key dg h now es token c \<longleftrightarrow>
     (\<exists>e \<in> set es. ke_Enabled e \<and> (ke_ExpiresAt e = zeroTime \<or> now < ke_ExpiresAt e)
        \<and> ke_KeyHash e \<in> set (candidate_hashes dg h token) \<and> c = \<lparr>cl_ClientID = ke_ID e, cl_Roles = ke_Roles e\<rparr>)"

text \<open>\<open>entitled\<close>: what each provider must have vouched for.\<close>

definition entitled :: "digests \<Rightarrow> 'l net_env \<Rightarrow> boot_state \<Rightarrow> time \<Rightarrow> string \<Rightarrow> Claims \<Rightarrow> bool" where
  "entitled dg ne b t token c =
     (case bs_auth b of
        None \<Rightarrow> False
      | Some (FileKeys m) \<Rightarrow> holds_key dg (mk_hasher (ne_store ne t)) t (mk_entries (ne_store ne t)) token c
      | Some (PgKeys h) \<Rightarrow> holds_key dg h t (ne_table ne t) token c
      | Some (FusionAuth v) \<Rightarrow>
          (\<exists>claims iss. ne_parse ne t (fa_ClockSkew v) token = Inr (True, Some claims)
             \<and> meant_for (c_FusionAuthAppID (bs_cfg b)) claims
             \<and> map_of claims ''iss'' = Some (CStr iss) \<and> matchIssuer iss (GetFusionAuthIssuer (bs_cfg b))
             \<and> (\<forall>r \<in> set (cl_Roles c). listed_role v claims r)))"

lemma usable_live: "classifyEntry (Some e) now = RejectNone \<Longrightarrow> ke_Enabled e \<and> (ke_ExpiresAt e = zeroTime \<or> now < ke_ExpiresAt e)"
  by (auto simp: classifyEntry_def IsZero_def Before_def split: if_splits)

lemma file_validator:
  assumes "mk_wf dg m" "the (authenticate dg t m token) = Inr c"
  shows "holds_key dg (mk_hasher m) t (mk_entries m) token c"
proof -
  have i: "mk_wf dg m \<and> mk_hasher m = mk_hasher m" using assms(1) by simp
  have "authenticate dg t m token = Some (Inr c)"
    using mk.validate_total [OF i, of t token] assms(2) by (auto simp: authenticate_eq [OF refl])
  then show ?thesis
    using mk.validate_sound [OF i, of t token c] usable_live
    by (auto simp: authenticate_eq [OF refl] holds_key_def mk.usable_def)
qed

lemma pg_validator:
  assumes "pg_wf tab" "the (pg_authenticate dg h env tab token) = Inr c"
  shows "holds_key dg h (pe_now env) tab token c"
proof -
  have "pg_authenticate dg h env tab token = Some (Inr c)"
    using pg.validate_total [OF assms(1), of dg h env token] assms(2) by (auto simp: pg_authenticate_eq)
  then show ?thesis
    using pg.validate_sound [OF assms(1), of dg h env token c] usable_live
    by (auto simp: pg_authenticate_eq holds_key_def pg.usable_def)
qed

lemma fusion_claims:
  assumes "NewFusionAuthValidator fetch cfg = Inr v" "Fusion_Validate dg parse v token = Inr c"
  shows "\<exists>claims. parse (fa_ClockSkew v) token = Inr (True, Some claims) \<and> issued_by v claims
    \<and> meant_for (fa_ApplicationID v) claims \<and> cl_Roles c = extractRoles v claims"
  using assms(2) issuerErr_iff [OF NewFusionAuthValidator_ok(1) [OF assms(1)]]
  by (auto simp: Fusion_Validate_def validateAudience_iff split: if_splits sum.splits option.splits)

interpretation fkeys: token_validator "validatorOf dg ne (FileKeys m)"
  "\<lambda>t token c. mk_wf dg (ne_store ne t) \<longrightarrow> holds_key dg (mk_hasher (ne_store ne t)) t (mk_entries (ne_store ne t)) token c"
  by unfold_locales (simp add: validatorOf_def file_validator)

interpretation pkeys: token_validator "validatorOf dg ne (PgKeys h)"
  "\<lambda>t token c. pg_wf (ne_table ne t) \<longrightarrow> holds_key dg h t (ne_table ne t) token c"
  by unfold_locales (auto simp: validatorOf_def dest: pg_validator)

interpretation ftokens: token_validator "validatorOf dg ne (FusionAuth v)"
  "\<lambda>t token c. \<forall>fetch cfg. NewFusionAuthValidator fetch cfg = Inr v \<longrightarrow>
     (\<exists>claims. ne_parse ne t (fa_ClockSkew v) token = Inr (True, Some claims) \<and> issued_by v claims
        \<and> meant_for (fa_ApplicationID v) claims \<and> cl_Roles c = extractRoles v claims)"
  by unfold_locales (auto simp: validatorOf_def dest: fusion_claims)

lemma loadAPIKeys_kind: "loadAPIKeys lib env c fs = (Inr (a, k), fs') \<Longrightarrow> a \<noteq> Some (FusionAuth v)"
  by (auto simp: loadAPIKeys_def loadPostgresKeyStore_def NewAPIKeyValidatorWithHasher_def Let_def
      split: if_splits option.splits prod.splits sum.splits)

lemma validator_entitles:
  assumes up: "boot lib env vars flag fs = (Inr b, fs')" and a: "bs_auth b = Some src"
    and wf: "mk_wf (be_dg env) (ne_store ne t)" "pg_wf (ne_table ne t)"
    and v: "validatorOf (be_dg env) ne src t token = Inr c"
  shows "entitled (be_dg env) ne b t token c"
proof (rule boot_shape [OF up])
  assume l: "loadAuth lib env (bs_cfg b) fs = (Inr (bs_auth b, bs_keys b), fs')"
  show ?thesis
  proof (cases src)
    case (FileKeys m)
    with a wf(1) fkeys.sound [of "be_dg env" ne m t token c] v show ?thesis by (simp add: entitled_def)
  next
    case (PgKeys h)
    with a wf(2) pkeys.sound [of "be_dg env" ne h t token c] v show ?thesis by (simp add: entitled_def)
  next
    case (FusionAuth w)
    with l a have "loadFusionAuth env (bs_cfg b) = Inr (Some (FusionAuth w), bs_keys b)"
      using loadAPIKeys_kind [of lib env "bs_cfg b" fs "bs_auth b" "bs_keys b" fs' w]
      by (auto simp: loadAuth_def split: if_splits)
    then obtain cfg where cfg: "NewFusionAuthValidator (be_jwks env) cfg = Inr w" "fa_ApplicationID cfg = c_FusionAuthAppID (bs_cfg b)"
      "fa_BaseURL cfg = c_FusionAuthURL (bs_cfg b)" "fa_Issuer cfg = GetFusionAuthIssuer (bs_cfg b)"
      by (rule loadFusionAuth_ok) auto
    note ok = NewFusionAuthValidator_ok [OF cfg(1)]
    have w: "fa_ApplicationID w = c_FusionAuthAppID (bs_cfg b)" "fa_BaseURL w = c_FusionAuthURL (bs_cfg b)"
      "fa_Issuer w = GetFusionAuthIssuer (bs_cfg b)" by (subst ok(6), simp add: cfg)+
    have "GetFusionAuthIssuer (bs_cfg b) \<noteq> ''''" using ok(1) w(2) by (simp add: GetFusionAuthIssuer_def)
    with ftokens.sound [of "be_dg env" ne w t token c] v a FusionAuth cfg(1) extractRoles_listed
    show ?thesis by (fastforce simp: entitled_def issued_by_def w)
  qed
qed

lemma deployed_identity:
  assumes up: "boot lib env vars flag fs = (Inr b, fs')"
    and run: "runTransport lib (be_dg env) ne b mcp kr = Inr (Some srv)"
    and provisos: "proper_digests (be_dg env)" "ksEnabled env 3 = ksEnabled env 0" "hashed_entries (bs_keys b)"
    and stores: "\<forall>t. mk_wf (be_dg env) (ne_store ne t)" "\<forall>t. pg_wf (ne_table ne t)"
    and kr: "\<forall>r s. hs_app (snd (kr r s)) = hs_app s"
    and req: "rq_claims r = None" "touched (RunHTTP_handler srv) r s"
  shows "\<exists>ctx s1. Allowed (ne_ul ne) (case buildOriginAllowlist (ne_ul ne) (bs_cfg b) of
             None \<Rightarrow> DefaultOriginAllowlist (ne_ul ne) | Some al \<Rightarrow> al) (Header (rq r) ''Origin'')
    \<and> scheme_ok (c_TrustProxyHeaders (bs_cfg b)) (rq r)
    \<and> (ctx = None \<and> c_KeylessReads (bs_cfg b) \<and> Header (rq r) ''Authorization'' = ''''
       \<or> (\<exists>token c. Header (rq r) ''Authorization'' = bearer @ token \<and> ctx = Some c
            \<and> entitled (be_dg env) ne b (rq_now r) token c))
    \<and> hs_app s1 = hs_app s
    \<and> hs_app (snd (RunHTTP_handler srv r s))
        = hs_app (snd (mcp (r\<lparr>rq_maxBody := Some MaxRequestBodyBytes, rq_claims := ctx\<rparr>) s1))"
proof -
  have http: "c_Transport (bs_cfg b) = ''http''"
    using run by (auto simp: runTransport_def Let_def split: if_splits)
  from booted_validator [OF up http provisos] obtain src where src: "bs_auth b = Some src" by blast
  have kl: "bs_keylessReads b = serverKeylessReads (bs_cfg b)" by (rule boot_shape [OF up])
  have srv: "sc_ul srv = ne_ul ne" "sc_validator srv = Some (validatorOf (be_dg env) ne src)" "sc_mcp srv = mcp"
    "sc_keylessReads srv \<longrightarrow> c_KeylessReads (bs_cfg b)" "sc_trustProxy srv = c_TrustProxyHeaders (bs_cfg b)"
    "sc_allowed srv = buildOriginAllowlist (ne_ul ne) (bs_cfg b)" "sc_keyRequest srv = None \<or> sc_keyRequest srv = Some kr"
    using run http src kl by (auto simp: runTransport_def Let_def serverKeylessReads_def split: if_splits)
  have "keyRequest_neutral srv" using srv(7) kr by (auto simp: keyRequest_neutral_def)
  note neutral = this
  have tv: "token_validator (validatorOf (be_dg env) ne src) (entitled (be_dg env) ne b)"
    using validator_entitles [OF up src spec [OF stores(1)] spec [OF stores(2)]] by (rule token_validator.intro)
  from token_validator.served_identity [OF tv srv(2) neutral req] srv(4) show ?thesis
    unfolding srv(1,3,5) origins_def srv(6) by blast
qed


section \<open>Tokens without a subject\<close>

text \<open>
  A FusionAuth token need not have a subject, and its identity is then the empty string. The
  limiter for anonymous traffic passes the request on because it has claims, the limiter per
  client because it has no identity: the holder of such a token is not limited at all.
\<close>

lemma subjectless_token_unthrottled:
  assumes "sc_validator srv = Some (validatorOf dg ne (FusionAuth v))" "Header (rq r) ''Authorization'' = bearer @ token"
    and "Fusion_Validate dg (ne_parse ne (rq_now r)) v token = Inr c"
    and "ne_parse ne (rq_now r) (fa_ClockSkew v) token = Inr (True, Some claims)" "map_of claims ''sub'' = None"
  shows "mcpChain srv r s = sc_mcp srv (r\<lparr>rq_claims := Some c\<rparr>) s"
proof -
  have "cl_ClientID c = ''''"
    using assms(3-5) by (auto simp: Fusion_Validate_def stringClaim_def hmacClientID_def split: if_splits option.splits)
  moreover have "bearer \<noteq> ''''" by (simp add: bearer_def)
  ultimately show ?thesis
    using assms(1-3)
    by (simp add: mcpChain_def AuthMiddleware_def anonRateMiddleware_def clientRateMiddleware_def ClientIDFromContext_def
        validatorOf_def HasPrefix_def TrimPrefix_def split: option.split)
qed



definition calm_net :: "nat net_env" where
  "calm_net = \<lparr>ne_ul = id, ne_rate = \<lparr>NewLimiter = (\<lambda>r b. 0), Allow = (\<lambda>now l. (True, l)), TokensGE1 = (\<lambda>now l. True)\<rparr>,
     ne_store = (\<lambda>t. empty_store), ne_table = (\<lambda>t. []), ne_query = (\<lambda>t. None), ne_parse = (\<lambda>t d k. Inl ErrNotExist)\<rparr>"

definition anonymous_request :: hreq where
  "anonymous_request =
     \<lparr>rq = \<lparr>Method = ''POST'', Path = ''/mcp'', RemoteAddr = ''10.0.0.9:1'', Header = (\<lambda>h. [])\<rparr>,
      rq_claims = None, rq_maxBody = None, rq_now = 5\<rparr>"

definition idle_state :: "(gofloat, nat, nat) hstate" where
  "idle_state = \<lparr>hs_fail = None, hs_anon = None, hs_client = None, hs_app = 0\<rparr>"

definition counting_tool :: "(gofloat, nat, nat) handler" where
  "counting_tool r s = (httpError '''' 200, s\<lparr>hs_app := Suc (hs_app s)\<rparr>)"

definition quiet_endpoint :: "(gofloat, nat, nat) handler" where
  "quiet_endpoint r s = (httpError '''' 202, s)"

lemma keyless_touch:
  assumes "sc_keylessReads srv" "sc_mcp srv = counting_tool"
  shows "touched (RunHTTP_handler srv) anonymous_request idle_state"
  using assms
  by (auto simp: touched_def RunHTTP_handler_def wrapSecurityChain_def CORSMiddleware_def originGuard_def Allowed_def
      requireForwardedHTTPS_def forwardedProtoScheme_def failrateWrap_def limitRequestBody_def routed_def wellKnownGuard_def
      mcpChain_def AuthMiddleware_def anonRateMiddleware_def clientRateMiddleware_def anonymous_request_def idle_state_def
      counting_tool_def wellKnownProtectedResource_def wellKnownAuthServer_def KeyRequestPath_def Let_def split: option.splits)


end
