(* ===== verification/Onboarding.thy ===== *)
theory Onboarding
  imports Evm_Read Go_Time
begin

text \<open>
  The onboarding tools: the overview (\<^verbatim>\<open>internal/mcp/tools_overview.go\<close>), the wallet snapshot
  (\<^verbatim>\<open>tools_wallet.go\<close>), the setup wizard (\<^verbatim>\<open>tools_setup_wizard.go\<close>) and the two challenges
  (\<^verbatim>\<open>tools_setup_verify.go\<close>). SHA-256, Keccak and the recovery of a public key from a compact
  signature are parameters; the parsing of a signature and the handling of its recovery byte are
  those of the vendored library.
\<close>

definition newline :: string where "newline = [CHR 0x0A]"
definition squote :: string where "squote = [CHR 0x27]"
definition backslash :: string where "backslash = [CHR 0x5C]"

section \<open>Overview\<close>

definition whatIsNVNMChainText :: "string" where
  "whatIsNVNMChainText =
     ''NVNM Chain is an EVM L2 on MANTRA Chain used as a neutral notary for document '' @
     ''anchoring. It stores only one-way hash fingerprints (SHA-256) of documents, '' @
     ''never the documents themselves. Anchor writes are publicly observable: add_record '' @
     ''logs the SHA-256 hash and add_registry logs the registry name in public '' @
     ''on-chain logs. A hash is one-way, so the underlying document is not derivable '' @
     ''-- counterparties exchange the file off-band and verify by recomputing the '' @
     ''hash; encode or salt sensitive registry names before anchoring.''"

definition privacyByDesignText :: "string" where
  "privacyByDesignText =
     ''This server'' @ squote @ ''s onboarding wizard and wallet_status tool read only balance and nonce -- '' @
     ''never transaction contents -- so they can tell you whether a wallet has '' @
     ''been funded or has sent transactions, but not whether it anchored anything '' @
     ''specifically. The anchored data itself is public on-chain (the SHA-256 hash '' @
     ''and registry name appear in transaction logs), but a hash does not reveal '' @
     ''the underlying document; only you (or your user) hold the pre-image.''"

record canonicalJourneyStep =
  cj_Step :: int
  cj_Tool :: string
  cj_Hint :: string

definition canonicalJourney :: "canonicalJourneyStep list" where
  "canonicalJourney =
     [\<lparr>cj_Step = 1, cj_Tool = ''nvnm_setup_wizard'',
        cj_Hint = ''Find out what state your wallet is in (no wallet / unfunded / funded but '' @
          ''unused / has sent a transaction). The wizard tells you what to do next.''\<rparr>,
      \<lparr>cj_Step = 2, cj_Tool = ''wallet_status'',
        cj_Hint = ''Once you have an address, get a one-shot snapshot: balance, nonce, status. '' @
          ''Equivalent to wizard'' @ squote @ ''s state derivation but without the prose guidance.''\<rparr>,
      \<lparr>cj_Step = 3, cj_Tool = ''anchor_get_registries'',
        cj_Hint = ''List the registries on chain. A registry is a logical container for records; '' @
          ''each is owned by an admin who can grant editor roles.''\<rparr>,
      \<lparr>cj_Step = 4, cj_Tool = ''anchor_prepare_add_registry'',
        cj_Hint = ''Create your own registry. You become its admin automatically. Returns an '' @
          ''unsigned transaction; sign and broadcast separately.''\<rparr>,
      \<lparr>cj_Step = 5, cj_Tool = ''anchor_prepare_add_record'',
        cj_Hint = ''Anchor a SHA-256 checksum + URI into your registry. Returns an unsigned '' @
          ''transaction; sign and broadcast separately.''\<rparr>,
      \<lparr>cj_Step = 6, cj_Tool = ''evm_send_raw_transaction'',
        cj_Hint = ''Submit the signed bytes from any anchor_prepare_* call. After this, evm_get_transaction_receipt '' @
          ''confirms inclusion.''\<rparr>]"

definition basePrereqs :: "string list" where
  "basePrereqs =
     [''An EVM wallet you control. Server never holds private keys.'',
      ''That wallet funded with the gas token. See bridge_url for the funding flow.'',
      ''A signing path: either a browser wallet (MetaMask via the wallet_tx_request '' @
      ''field returned by anchor_prepare_*) or a local/headless signer (sign raw_tx, '' @
      ''broadcast via evm_send_raw_transaction).'']"

definition broadcastWithKey :: "string" where
  "broadcastWithKey =
     ''For broadcasting (evm_send_raw_transaction): an API key on this server with '' @
     ''the writer or admin role. The anchor_prepare_* tools return unsigned bytes '' @
     ''and may be callable without authentication under a keyless-read deployment '' @
     ''(per the deployment'' @ squote @ ''s auth policy).''"

definition broadcastKeyless :: "string" where
  "broadcastKeyless =
     ''For broadcasting (evm_send_raw_transaction): no credential of any kind. '' @
     ''This deployment is keyless: it issues no accounts and no API keys, and accepts '' @
     ''an anonymous signed transaction whose destination is the anchor precompile. '' @
     ''Your wallet signature is the only identity the server sees. Per-signer volume '' @
     ''quotas and a signer blacklist apply.''"

definition prereqsFor :: "Config \<Rightarrow> string list" where
  "prereqsFor cfg = basePrereqs @ [if c_KeylessWrites cfg then broadcastKeyless else broadcastWithKey]"

record overviewOutput =
  ov_ChainName :: string
  ov_ChainEnvironment :: string
  ov_ChainID :: int
  ov_AnchorPrecompile :: string
  ov_ExplorerURL :: string
  ov_DocsURL :: string
  ov_BridgeURL :: string
  ov_TokenNative :: string
  ov_TokenWrapped :: string
  ov_WhatIsNVNMChain :: string
  ov_PrivacyByDesign :: string
  ov_Prereqs :: "string list"
  ov_CanonicalJourney :: "canonicalJourneyStep list"
  ov_NextActions :: "NextAction list"

definition readGate :: "Claims option \<Rightarrow> 'o outcome \<Rightarrow> 'o outcome" where
  "readGate ctx rest = (case requireRole ctx readRoleSet of Some err \<Rightarrow> Fails err | None \<Rightarrow> rest)"

definition makeOverviewHandler :: "Config \<Rightarrow> Claims option \<Rightarrow> overviewOutput outcome" where
  "makeOverviewHandler cfg ctx =
     readGate ctx
       (let naming = NamingFor (c_ChainEnvironment cfg)
        in Returns
             \<lparr>ov_ChainName = ''NVNM Chain'', ov_ChainEnvironment = c_ChainEnvironment cfg, ov_ChainID = c_ChainID cfg,
              ov_AnchorPrecompile = c_AnchorAddress cfg, ov_ExplorerURL = c_ExplorerURL cfg, ov_DocsURL = c_DocsURL cfg,
              ov_BridgeURL = c_BridgeURL cfg, ov_TokenNative = tn_Native naming, ov_TokenWrapped = tn_Wrapped naming,
              ov_WhatIsNVNMChain = whatIsNVNMChainText, ov_PrivacyByDesign = privacyByDesignText,
              ov_Prereqs = prereqsFor cfg, ov_CanonicalJourney = canonicalJourney,
              ov_NextActions =
     [na ''nvnm_setup_wizard''
         (''Recommended first call. The wizard derives your wallet state and tells you '' @ ''what to do next.'')]\<rparr>)"

section \<open>Wallet snapshot\<close>

definition WalletStatusUnfunded :: string where "WalletStatusUnfunded = ''unfunded''"
definition WalletStatusFundedUnused :: string where "WalletStatusFundedUnused = ''funded_unused''"
definition WalletStatusFundedActive :: string where "WalletStatusFundedActive = ''funded_active''"

record wallet_client = evm_client +
  ec_PendingNonceAt :: "address \<Rightarrow> uint64 outcome"

text \<open>\<^verbatim>\<open>PendingNonceAt\<close> of the client passes the reply for the pending block on.\<close>

definition PendingNonceAt :: "(address \<Rightarrow> BlockNumber \<Rightarrow> uint64 outcome) \<Rightarrow> address \<Rightarrow> uint64 outcome" where
  "PendingNonceAt GetTransactionCount addr = GetTransactionCount addr PendingBlockTag"

definition plainWalletClient ::
  "(string \<Rightarrow> string) \<Rightarrow> (bytes \<Rightarrow> hash) \<Rightarrow> read_node \<Rightarrow> (address \<Rightarrow> BlockNumber \<Rightarrow> uint64 outcome) \<Rightarrow> wallet_client" where
  "plainWalletClient ul kec n counts = evm_client.extend (plainClient ul kec n) \<lparr>ec_PendingNonceAt = PendingNonceAt counts\<rparr>"

text \<open>\<^verbatim>\<open>big.Int.SetString(s, 10)\<close>: an optional sign and at least one digit.\<close>

definition SetString10 :: "string \<Rightarrow> int option" where
  "SetString10 s =
     (let neg = HasPrefix s ''-''; d = (if neg \<or> HasPrefix s ''+'' then drop 1 s else s)
      in if d = '''' then None
         else map_option (\<lambda>n. if neg then - int n else int n) (parse_digits 0 d))"

definition hasFunds :: "NormalizedBalance option \<Rightarrow> bool" where
  "hasFunds balance =
     (case balance of
        None \<Rightarrow> False
      | Some nb \<Rightarrow> (case SetString10 (nb_Wei nb) of Some b \<Rightarrow> 0 < b | None \<Rightarrow> False))"

definition balanceWei :: "NormalizedBalance option \<Rightarrow> string" where
  "balanceWei balance = (case balance of None \<Rightarrow> ''0'' | Some nb \<Rightarrow> nb_Wei nb)"

definition balanceHuman :: "TokenNaming \<Rightarrow> NormalizedBalance option \<Rightarrow> string" where
  "balanceHuman naming balance =
     (case balance of None \<Rightarrow> ''0 '' @ tn_Wrapped naming | Some nb \<Rightarrow> nb_Ether nb @ '' '' @ tn_Wrapped naming)"

text \<open>Both tools read the balance, then the nonce; a client that succeeds returns a balance.\<close>

definition walletReads :: "wallet_client \<Rightarrow> address \<Rightarrow> (NormalizedBalance option \<times> uint64) outcome" where
  "walletReads c addr =
     withRpc (ec_BalanceAt c addr None) (\<lambda>err. Fails (wrapf ''get balance'' err)) (\<lambda>balance.
     withRpc (ec_PendingNonceAt c addr) (\<lambda>err. Fails (wrapf ''get nonce'' err)) (\<lambda>nonce.
       Returns (Some balance, nonce)))"

record walletStatusOutput =
  wo_Address :: string
  wo_BalanceWei :: string
  wo_BalanceHuman :: string
  wo_Nonce :: uint64
  wo_HasSentTx :: bool
  wo_Status :: string
  wo_ChainID :: int
  wo_ChainEnvironment :: string
  wo_TokenNative :: string
  wo_TokenWrapped :: string
  wo_NextActions :: "NextAction list"

definition walletStatusNextActions :: "string \<Rightarrow> NextAction list" where
  "walletStatusNextActions status =
     (if status = WalletStatusUnfunded then
      [na ''nvnm_setup_wizard''
         (''Walk through the funding flow. The wizard'' @ squote @ ''s `unfunded` state points at the bridge.'')]
      else if status = WalletStatusFundedUnused then
      [na ''nvnm_setup_verify_hash''
         (''Optional: prove off-chain hash computation works.''),
      na ''nvnm_setup_verify_signature''
         (''Optional: prove off-chain signing works before sending an on-chain tx.''),
      na ''anchor_get_registries''
         (''Browse existing registries before creating your own.'')]
      else if status = WalletStatusFundedActive then
      [na ''anchor_get_registries''
         (''Discover registries you may want to write into.''),
      na ''anchor_prepare_add_registry''
         (''Create your own registry (you become admin).''),
      na ''anchor_prepare_add_record''
         (''Anchor a checksum + URI into a registry you have editor on.'')]
      else [])"

definition makeWalletStatusHandler ::
  "unicode_tables \<Rightarrow> (bytes \<Rightarrow> hash) \<Rightarrow> Config \<Rightarrow> wallet_client \<Rightarrow> Claims option \<Rightarrow> string \<Rightarrow> walletStatusOutput outcome" where
  "makeWalletStatusHandler ut kec cfg c ctx address =
     readGate ctx
       (case ParseAddress ut kec address of
          Inl err \<Rightarrow> Fails err
        | Inr addr \<Rightarrow>
            bindO (walletReads c addr) (\<lambda>(balance, nonce).
              let naming = NamingFor (c_ChainEnvironment cfg);
                  hasSentTx = (0 < nonce);
                  status = (if hasFunds balance \<and> hasSentTx then WalletStatusFundedActive
                            else if hasFunds balance \<and> \<not> hasSentTx then WalletStatusFundedUnused
                            else WalletStatusUnfunded)
              in Returns
                   \<lparr>wo_Address = AddressHex kec addr, wo_BalanceWei = balanceWei balance,
                    wo_BalanceHuman = balanceHuman naming balance, wo_Nonce = nonce, wo_HasSentTx = hasSentTx,
                    wo_Status = status, wo_ChainID = c_ChainID cfg, wo_ChainEnvironment = c_ChainEnvironment cfg,
                    wo_TokenNative = tn_Native naming, wo_TokenWrapped = tn_Wrapped naming,
                    wo_NextActions = walletStatusNextActions status\<rparr>))"

section \<open>Samples of the wizard\<close>

record sampleCode =
  sc_Language :: string
  sc_Title :: string
  sc_Code :: string

definition needsWalletSamples :: "sampleCode list" where
  "needsWalletSamples =
     [\<lparr>sc_Language = ''python'',
        sc_Title = ''Generate an EVM wallet and store the key via the `keyring` library'',
        sc_Code =
          ''# Recent Linux distros mark system Python as PEP 668 externally-'' @ newline @ ''# managed, so '' @ dquote @
          ''pip install'' @ dquote @ '' outside a venv errors with'' @ newline @ ''# '' @ dquote @
          ''error: externally-managed-environment'' @ dquote @ '' unless --break-system-packages'' @ newline @
          ''# is passed. The supported path is a per-project venv:'' @ newline @ ''#'' @ newline @
          ''#   python3 -m venv .venv'' @ newline @ ''#   source .venv/bin/activate    # Windows: .venv'' @ backslash @
          ''Scripts'' @ backslash @ ''activate'' @ newline @ ''#   pip install eth-account keyring'' @ newline @ ''#'' @ newline @
          ''from eth_account import Account'' @ newline @ ''import keyring'' @ newline @ newline @
          ''# Generates a new wallet. The private key bytes live only in'' @ newline @ ''# the local '' @ squote @
          ''acct'' @ squote @ '' object; we hand them straight to keyring and'' @ newline @ ''# do not print them.'' @
          newline @ ''acct = Account.create()'' @ newline @ ''keyring.set_password('' @ dquote @ ''nvnm-wallet'' @ dquote @
          '', '' @ dquote @ ''default'' @ dquote @ '', acct.key.hex())'' @ newline @ newline @
          ''# Pass ONLY the address to your code that talks to the MCP server.'' @ newline @ ''print(f'' @ dquote @
          ''Address: {acct.address}'' @ dquote @ '')'' @ newline @ ''# Retrieve the key later with:'' @ newline @
          ''#   keyring.get_password('' @ dquote @ ''nvnm-wallet'' @ dquote @ '', '' @ dquote @ ''default'' @ dquote @ '')'' @
          newline\<rparr>,
      \<lparr>sc_Language = ''javascript'',
        sc_Title = ''Generate an EVM wallet and store the key via env var (e.g. .env file, never '' @ ''committed)'',
        sc_Code =
          ''// npm install ethers dotenv'' @ newline @ ''import { Wallet } from '' @ dquote @ ''ethers'' @ dquote @ '';'' @
          newline @ ''import fs from '' @ dquote @ ''fs'' @ dquote @ '';'' @ newline @ newline @
          ''// Generates a new wallet. Write the private key into a .env file'' @ newline @
          ''// excluded from version control; do not print it to stdout.'' @ newline @
          ''const w = Wallet.createRandom();'' @ newline @ ''// The '' @ dquote @ ''mode'' @ dquote @
          '' option to appendFileSync is only honored when the file'' @ newline @
          ''// is created -- on an existing .env it is silently a no-op. Set 0o600'' @ newline @
          ''// explicitly when we created the file; leave a pre-existing .env'' @ squote @ ''s'' @ newline @
          ''// mode alone (the user may have intentionally chosen different perms).'' @ newline @
          ''const existed = fs.existsSync('' @ dquote @ ''.env'' @ dquote @ '');'' @ newline @ ''fs.appendFileSync('' @ dquote @
          ''.env'' @ dquote @ '', `NVNM_PRIVATE_KEY=${w.privateKey}'' @ newline @ ''`);'' @ newline @ ''if (!existed) {'' @
          newline @ ''    fs.chmodSync('' @ dquote @ ''.env'' @ dquote @ '', 0o600);'' @ newline @ ''}'' @ newline @ ''console.log('' @
          dquote @ ''Address:'' @ dquote @ '', w.address);'' @ newline @
          ''// In your app, load via process.env.NVNM_PRIVATE_KEY (dotenv).'' @ newline\<rparr>,
      \<lparr>sc_Language = ''go'',
        sc_Title = ''Generate an EVM wallet and store the key as a 0600 file'',
        sc_Code =
          ''// go get github.com/defiweb/go-eth/wallet'' @ newline @ ''package main'' @ newline @ newline @ ''import ('' @
          newline @ ''    '' @ dquote @ ''fmt'' @ dquote @ newline @ ''    '' @ dquote @ ''os'' @ dquote @ newline @ newline @
          ''    defiwallet '' @ dquote @ ''github.com/defiweb/go-eth/wallet'' @ dquote @ newline @ '')'' @ newline @ newline @
          ''func main() {'' @ newline @ ''    priv := defiwallet.NewRandomKey()'' @ newline @
          ''    if err := os.WriteFile('' @ newline @ ''        '' @ dquote @ ''.nvnm-key'' @ dquote @
          '', []byte(fmt.Sprintf('' @ dquote @ ''%x'' @ dquote @ '', priv.PrivateKey().D.Bytes())), 0o600,'' @ newline @
          ''    ); err != nil {'' @ newline @ ''        panic(err)'' @ newline @ ''    }'' @ newline @ ''    fmt.Println('' @
          dquote @ ''Address:'' @ dquote @ '', priv.Address().String())'' @ newline @
          ''    // Load later: read .nvnm-key, hex-decode, defiwallet.NewKeyFromBytes(...)'' @ newline @ ''}'' @ newline\<rparr>]"

section \<open>Wizard\<close>

definition WizardStateNeedsWallet :: string where "WizardStateNeedsWallet = ''needs_wallet''"
definition WizardStateUnfunded :: string where "WizardStateUnfunded = ''unfunded''"
definition WizardStateFundedUnused :: string where "WizardStateFundedUnused = ''funded_unused''"
definition WizardStateFundedActive :: string where "WizardStateFundedActive = ''funded_active''"

record walletSnapshot =
  ws_Address :: string
  ws_BalanceWei :: string
  ws_BalanceHuman :: string
  ws_Nonce :: uint64
  ws_HasSentTx :: bool
  ws_ChainID :: int
  ws_ChainEnvironment :: string
  ws_TokenNative :: string
  ws_TokenWrapped :: string

record setupWizardOutput =
  so_State :: string
  so_Message :: string
  so_Wallet :: "walletSnapshot option"
  so_SampleCode :: "sampleCode list"
  so_BridgeURL :: string
  so_WalletGeneratorURL :: string
  so_NextActions :: "NextAction list"

definition needsWalletResponse :: "Config \<Rightarrow> TokenNaming \<Rightarrow> setupWizardOutput" where
  "needsWalletResponse cfg naming =
     \<lparr>so_State = WizardStateNeedsWallet,
      so_Message =
        ''No address provided. Two ways to get one: (1) the browser-hosted wallet '' @
        ''generator at `wallet_generator_url` (opens in a tab, creates a key entirely '' @
        ''in the browser, hands you the artifacts to self-custody -- nothing leaves '' @
        ''the page); (2) the language-specific samples below, which generate a key '' @
        ''in a local runtime and IMMEDIATELY hand it to a secrets mechanism -- they '' @
        ''never print the private key to stdout. Once you have an address, fund it '' @ ''with '' @
        tn_Wrapped naming @ '' (see `bridge_url`) and call this wizard again with the address.'',
      so_Wallet = None, so_SampleCode = needsWalletSamples, so_BridgeURL = c_BridgeURL cfg,
      so_WalletGeneratorURL = c_WalletGeneratorURL cfg,
      so_NextActions =
     [na ''nvnm_setup_wizard''
         (''Re-call with the generated address to derive the next state (likely `unfunded`).''),
      na ''nvnm_setup_verify_hash''
         (''Optional: prove off-chain hashing before funding the wallet. Surfaced here '' @
          ''so an agent that never funds the wallet still knows the verify step exists.'')]\<rparr>"

definition unfundedResponse :: "Config \<Rightarrow> walletSnapshot \<Rightarrow> setupWizardOutput" where
  "unfundedResponse cfg snap =
     \<lparr>so_State = WizardStateUnfunded,
      so_Message =
        ''Wallet has no balance. Fund it with '' @ ws_TokenWrapped snap @
        '' via the bridge, then re-call this wizard.'' @
        (if c_BridgeURL cfg \<noteq> '''' then '' Bridge: '' @ c_BridgeURL cfg else ''''),
      so_Wallet = Some snap, so_SampleCode = [], so_BridgeURL = c_BridgeURL cfg, so_WalletGeneratorURL = '''',
      so_NextActions =
     [na ''nvnm_setup_wizard''
         (''Re-call after funding; the wizard will detect the new balance automatically.''),
      na ''wallet_status''
         (''Equivalent one-shot snapshot if you don'' @ squote @ ''t need the prose guidance.'')]\<rparr>"

definition fundedUnusedResponse :: "walletSnapshot \<Rightarrow> setupWizardOutput" where
  "fundedUnusedResponse snap =
     \<lparr>so_State = WizardStateFundedUnused,
      so_Message =
        ''Wallet has '' @ ws_BalanceHuman snap @
        '' but has never sent a transaction. Optional: prove your hashing and signing '' @
        ''paths work via the verify_hash and verify_signature tools below. When you '' @
        ''are ready, browse registries or create one of your own.'',
      so_Wallet = Some snap, so_SampleCode = [], so_BridgeURL = '''', so_WalletGeneratorURL = '''',
      so_NextActions =
     [na ''nvnm_setup_verify_hash''
         (''Optional: prove off-chain hashing before broadcasting.''),
      na ''nvnm_setup_verify_signature''
         (''Optional: prove off-chain signing before broadcasting.''),
      na ''anchor_get_registries''
         (''Browse registries before creating your own.'')]\<rparr>"

definition fundedActiveResponse :: "walletSnapshot \<Rightarrow> setupWizardOutput" where
  "fundedActiveResponse snap =
     \<lparr>so_State = WizardStateFundedActive,
      so_Message =
        ''Wallet has '' @ ws_BalanceHuman snap @
        '' and has sent transactions (nonce > 0). Important: this state means '' @ dquote @
        ''has sent any transaction,'' @ dquote @ '' NOT '' @ dquote @ ''has anchored.'' @ dquote @
        '' This wizard reads only balance and nonce, never transaction contents, so '' @
        ''only you (or your user) know what those transactions did. Use the anchor_prepare_* '' @
        ''tools to build new writes, or anchor_get_records to browse on-chain records.'',
      so_Wallet = Some snap, so_SampleCode = [], so_BridgeURL = '''', so_WalletGeneratorURL = '''',
      so_NextActions =
     [na ''anchor_get_registries''
         (''Discover registries you may want to write into.''),
      na ''anchor_prepare_add_registry''
         (''Create your own registry (you become admin).''),
      na ''anchor_prepare_add_record''
         (''Anchor a checksum + URI into a registry you have editor on.'')]\<rparr>"

definition walletSnap ::
  "(bytes \<Rightarrow> hash) \<Rightarrow> Config \<Rightarrow> address \<Rightarrow> NormalizedBalance option \<Rightarrow> uint64 \<Rightarrow> walletSnapshot" where
  "walletSnap kec cfg addr balance nonce =
     (let naming = NamingFor (c_ChainEnvironment cfg)
      in \<lparr>ws_Address = AddressHex kec addr, ws_BalanceWei = balanceWei balance,
          ws_BalanceHuman = balanceHuman naming balance, ws_Nonce = nonce, ws_HasSentTx = (0 < nonce),
          ws_ChainID = c_ChainID cfg, ws_ChainEnvironment = c_ChainEnvironment cfg,
          ws_TokenNative = tn_Native naming, ws_TokenWrapped = tn_Wrapped naming\<rparr>)"

definition makeSetupWizardHandler ::
  "unicode_tables \<Rightarrow> (bytes \<Rightarrow> hash) \<Rightarrow> Config \<Rightarrow> wallet_client \<Rightarrow> Claims option \<Rightarrow> string \<Rightarrow> setupWizardOutput outcome" where
  "makeSetupWizardHandler ut kec cfg c ctx address =
     readGate ctx
       (if address = '''' then Returns (needsWalletResponse cfg (NamingFor (c_ChainEnvironment cfg)))
        else case ParseAddress ut kec address of
               Inl err \<Rightarrow> Fails err
             | Inr addr \<Rightarrow>
                 bindO (walletReads c addr) (\<lambda>(balance, nonce).
                   let snap = walletSnap kec cfg addr balance nonce;
                       hasSentTx = (0 < nonce)
                   in Returns
                        (if \<not> hasFunds balance then unfundedResponse cfg snap
                         else if hasFunds balance \<and> \<not> hasSentTx then fundedUnusedResponse snap
                         else fundedActiveResponse snap)))"

section \<open>Challenges\<close>

definition challengeVersionTag :: string where
  "challengeVersionTag = ''nvnm-setup-challenge-v1''"

definition challengeForAddress :: "(string \<Rightarrow> string) \<Rightarrow> (bytes \<Rightarrow> bytes) \<Rightarrow> address \<Rightarrow> string" where
  "challengeForAddress ul sha addr =
     ''0x'' @ EncodeToString (sha (ToLower ul (BytesToHex addr) @ '':'' @ challengeVersionTag))"

definition expectedHashForChallenge :: "(bytes \<Rightarrow> bytes) \<Rightarrow> string \<Rightarrow> string" where
  "expectedHashForChallenge sha challenge = ''0x'' @ EncodeToString (sha challenge)"

record verifyHashOutput =
  vh_OK :: bool
  vh_Address :: string
  vh_Challenge :: string
  vh_Expected :: string
  vh_Got :: string
  vh_NextActions :: "NextAction list"

definition makeVerifyHashHandler ::
  "unicode_tables \<Rightarrow> (bytes \<Rightarrow> hash) \<Rightarrow> (bytes \<Rightarrow> bytes) \<Rightarrow> Claims option \<Rightarrow> string \<Rightarrow> string \<Rightarrow> verifyHashOutput outcome" where
  "makeVerifyHashHandler ut kec sha ctx address hash =
     readGate ctx
       (case ParseAddress ut kec address of
          Inl err \<Rightarrow> Fails err
        | Inr addr \<Rightarrow>
            if hash = '''' then Fails (wrapf ''hash is required'' (Sentinel ErrMissingRequired))
            else
              let challenge = challengeForAddress (uLower ut) sha addr;
                  expected = expectedHashForChallenge sha challenge;
                  low = ToLower (uLower ut) hash;
                  got = (if HasPrefix low ''0x'' then low else ''0x'' @ low);
                  ok = (got = expected)
              in Returns
                   \<lparr>vh_OK = ok, vh_Address = BytesToHex addr, vh_Challenge = challenge, vh_Expected = expected, vh_Got = got,
                    vh_NextActions =
                      (if \<not> ok then
      [na ''nvnm_setup_verify_hash''
         (''Recompute SHA-256 over the challenge string verbatim (UTF-8 bytes, including '' @
          ''the 0x prefix). The expected digest is in this response'' @ squote @ ''s `expected` field.'')]
                       else
      [na ''nvnm_setup_verify_signature''
         (''Hash path proven. Next: prove your signing path works.'')])\<rparr>)"

text \<open>Signatures of the library: any hexadecimal string of at least 65 bytes, the rest going to \<open>V\<close>.\<close>

record Signature =
  sg_V :: int
  sg_R :: int
  sg_S :: int

definition SetBytes :: "bytes \<Rightarrow> int" where
  "SetBytes bs = foldl (\<lambda>acc b. 256 * acc + int (of_char b)) 0 bs"

definition SignatureFromBytes :: "bytes \<Rightarrow> Signature option" where
  "SignatureFromBytes b =
     (if length b < 65 then None
      else Some \<lparr>sg_V = SetBytes (drop 64 b), sg_R = SetBytes (take 32 b), sg_S = SetBytes (take 32 (drop 32 b))\<rparr>)"

definition SignatureFromHex :: "string \<Rightarrow> Signature option" where
  "SignatureFromHex h = (case HexToBytes h of None \<Rightarrow> None | Some b \<Rightarrow> SignatureFromBytes b)"

definition AddMessagePrefix :: "bytes \<Rightarrow> bytes" where
  "AddMessagePrefix data =
     CHR 0x19 # ''Ethereum Signed Message:'' @ newline @ dec_nat (length data) @ data"

text \<open>
  \<open>rc v r s h\<close> is the recovery from a compact signature with header byte \<open>v\<close>, with the address of
  the recovered key.
\<close>

definition ecRecoverHash ::
  "(nat \<Rightarrow> int \<Rightarrow> int \<Rightarrow> hash \<Rightarrow> address option) \<Rightarrow> hash \<Rightarrow> Signature \<Rightarrow> address option" where
  "ecRecoverHash rc h sig =
     (if bitLen (nat \<bar>sg_V sig\<bar>) > 8 \<or> bitLen (nat \<bar>sg_R sig\<bar>) > 256 \<or> bitLen (nat \<bar>sg_S sig\<bar>) > 256 then None
      else let b = unat (bigUint64 (sg_V sig)) mod 256;
               v = (if b = 0 \<or> b = 1 then b + 27 else b)
           in rc v (sg_R sig) (sg_S sig) h)"

definition RecoverMessage ::
  "(bytes \<Rightarrow> hash) \<Rightarrow> (nat \<Rightarrow> int \<Rightarrow> int \<Rightarrow> hash \<Rightarrow> address option) \<Rightarrow> bytes \<Rightarrow> Signature \<Rightarrow> address option" where
  "RecoverMessage kec rc data sig =
     ecRecoverHash rc (kec (AddMessagePrefix data)) (sig\<lparr>sg_V := sg_V sig - 27\<rparr>)"

record verifySignatureOutput =
  vs_OK :: bool
  vs_Address :: string
  vs_Challenge :: string
  vs_RecoveredAt :: string
  vs_NextActions :: "NextAction list"

definition makeVerifySignatureHandler ::
  "unicode_tables \<Rightarrow> (bytes \<Rightarrow> hash) \<Rightarrow> (nat \<Rightarrow> int \<Rightarrow> int \<Rightarrow> hash \<Rightarrow> address option) \<Rightarrow> (bytes \<Rightarrow> bytes) \<Rightarrow> Claims option
     \<Rightarrow> string \<Rightarrow> string \<Rightarrow> verifySignatureOutput outcome" where
  "makeVerifySignatureHandler ut kec rc sha ctx address signature =
     readGate ctx
       (case ParseAddress ut kec address of
          Inl err \<Rightarrow> Fails err
        | Inr addr \<Rightarrow>
            if signature = '''' then Fails (wrapf ''signature is required'' (Sentinel ErrMissingRequired))
            else case SignatureFromHex signature of
                   None \<Rightarrow> Fails (wrapf ''signature must be 65-byte 0x-prefixed hex'' (Sentinel ErrInvalidSignature))
                 | Some sig \<Rightarrow>
                     let challenge = challengeForAddress (uLower ut) sha addr
                     in case RecoverMessage kec rc challenge sig of
                          None \<Rightarrow>
                            Returns
                              \<lparr>vs_OK = False, vs_Address = BytesToHex addr, vs_Challenge = challenge, vs_RecoveredAt = '''',
                               vs_NextActions =
      [na ''nvnm_setup_verify_signature''
         (''Could not recover a signer. Produce an EIP-191 personal_sign signature over '' @
          ''the `challenge` string in this response (do not pre-hash), then resubmit.'')]\<rparr>
                        | Some recovered \<Rightarrow>
                            let ok = (recovered = addr)
                            in Returns
                                 \<lparr>vs_OK = ok, vs_Address = BytesToHex addr, vs_Challenge = challenge,
                                  vs_RecoveredAt = BytesToHex recovered,
                                  vs_NextActions =
                                    (if \<not> ok then
      [na ''nvnm_setup_verify_signature''
         (''Recovered signer does not match the input address. Sign the challenge with '' @
          ''the private key for the input address; do not pre-hash.'')]
                                     else
      [na ''wallet_status''
         (''Signing path proven. Check the wallet'' @ squote @ ''s on-chain state and move on to anchor tools.'')])\<rparr>)"

section \<open>Properties\<close>

subsection \<open>The reported state of a wallet\<close>

lemma dec_nat_unsigned: "\<not> HasPrefix (dec_nat n) ''-'' \<and> \<not> HasPrefix (dec_nat n) ''+'' \<and> dec_nat n \<noteq> []"
proof (induction n rule: dec_nat.induct)
  case (1 n)
  have d: "digitChar k \<noteq> CHR ''-'' \<and> digitChar k \<noteq> CHR ''+''" if "k < 10" for k
    using that by (auto simp: digitChar_def dest!: arg_cong [of _ _ "of_char :: char \<Rightarrow> nat"])
  show ?case
    using 1 d by (subst (1 2 3) dec_nat.simps) (auto simp: HasPrefix_def prefix_def Cons_eq_append_conv append_eq_Cons_conv)
qed

lemma SetString10_dec_nat: "SetString10 (dec_nat n) = Some (int n)"
  by (simp add: SetString10_def Let_def dec_nat_unsigned parse_digits_dec_nat)

lemma plainWalletClient_simps:
  "ec_BalanceAt (plainWalletClient ul kec n counts) a b = BalanceAt ul kec a (rn_Balance n a (blockNumOrLatest b))"
  "ec_PendingNonceAt (plainWalletClient ul kec n counts) a = counts a PendingBlockTag"
  by (simp_all add: plainWalletClient_def evm_client.extend_def plainClient_def PendingNonceAt_def)

lemma walletReads_plain:
  assumes "rn_Balance n a LatestBlockTag = Returns (Some (int b))" and "counts a PendingBlockTag = Returns k"
  shows "walletReads (plainWalletClient ul kec n counts) a = Returns (Some (normalizeBalance kec a (int b)), k)"
  using assms
  by (simp add: walletReads_def plainWalletClient_simps withRpc_def blockNumOrLatest_def BalanceAt_def guardNodeDecode_def
      deref_def)

lemma hasFunds_normalized: "hasFunds (Some (normalizeBalance kec a (int b))) \<longleftrightarrow> 0 < b"
  by (simp add: hasFunds_def normalizeBalance_def dec_int_def SetString10_dec_nat)

lemma wei_normalized: "nb_Wei (normalizeBalance kec a (int b)) = dec_nat b"
  by (simp add: normalizeBalance_def dec_int_def)

lemma ParseAddress_nonempty: "ParseAddress ut kec s = Inr a \<Longrightarrow> s \<noteq> ''''"
  by (auto simp: ParseAddress_def AddressFromHex_def HexToBytes_def)

lemma word_pos_iff: "0 < (k :: uint64) \<longleftrightarrow> k \<noteq> 0"
  by (simp add: word_neq_0_conv)

text \<open>
  Claim C23 (Wallet state). For every address that parses and every answer of the node, the
  snapshot and the wizard report the same state, and it is the true one: unfunded exactly if the
  balance is zero, otherwise unused exactly if no transaction was ever sent. Both carry the exact
  balance in wei, the pending nonce and the checksummed address.
\<close>

theorem wallet_state_exact:
  assumes "requireRole ctx readRoleSet = None" and "ParseAddress ut kec s = Inr a"
    and "rn_Balance n a LatestBlockTag = Returns (Some (int b))" and "counts a PendingBlockTag = Returns k"
  shows "\<exists>w z. makeWalletStatusHandler ut kec cfg (plainWalletClient ul kec n counts) ctx s = Returns w
    \<and> makeSetupWizardHandler ut kec cfg (plainWalletClient ul kec n counts) ctx s = Returns z
    \<and> wo_Status w = (if b = 0 then ''unfunded'' else if k = 0 then ''funded_unused'' else ''funded_active'')
    \<and> so_State z = wo_Status w
    \<and> wo_Address w = AddressHex kec a \<and> wo_BalanceWei w = dec_nat b \<and> wo_Nonce w = k \<and> (wo_HasSentTx w \<longleftrightarrow> k \<noteq> 0)
    \<and> map_option (\<lambda>x. (ws_Address x, ws_BalanceWei x, ws_BalanceHuman x, ws_Nonce x, ws_HasSentTx x, ws_ChainID x)) (so_Wallet z)
      = Some (wo_Address w, wo_BalanceWei w, wo_BalanceHuman w, wo_Nonce w, wo_HasSentTx w, wo_ChainID w)"
  using assms walletReads_plain [where counts = counts, OF assms(3,4), of ul kec] ParseAddress_nonempty [OF assms(2)]
  by (simp add: makeWalletStatusHandler_def makeSetupWizardHandler_def readGate_def hasFunds_normalized Let_def
      walletSnap_def unfundedResponse_def fundedUnusedResponse_def fundedActiveResponse_def word_pos_iff
      WalletStatusUnfunded_def WalletStatusFundedUnused_def WalletStatusFundedActive_def
      WizardStateUnfunded_def WizardStateFundedUnused_def WizardStateFundedActive_def
      balanceWei_def wei_normalized hasFunds_normalized [where b = 0, simplified] wei_normalized [where b = 0, simplified])

definition demo_node :: read_node where
  "demo_node =
     \<lparr>rn_ChainID = Panics, rn_BlockNumber = Panics, rn_BlockByNumber = (\<lambda>_ _. Panics), rn_BlockByHash = (\<lambda>_ _. Panics),
      rn_Transaction = (\<lambda>_. Panics), rn_Receipt = (\<lambda>_. Panics), rn_Balance = (\<lambda>_ _. Returns (Some 5)),
      rn_Code = (\<lambda>_ _. Panics), rn_Logs = (\<lambda>_. Panics), rn_Call = (\<lambda>_ _. Panics)\<rparr>"

theorem wallet_state_exact_witness:
  "\<forall>cfg ul. \<exists>w z.
     makeWalletStatusHandler plain_tables flat_hash cfg (plainWalletClient ul flat_hash demo_node (\<lambda>_ _. Returns 2)) None
       (AddressHex flat_hash (replicate 20 (CHR 0xAB))) = Returns w
     \<and> makeSetupWizardHandler plain_tables flat_hash cfg (plainWalletClient ul flat_hash demo_node (\<lambda>_ _. Returns 2)) None
       (AddressHex flat_hash (replicate 20 (CHR 0xAB))) = Returns z
     \<and> wo_Status w = ''funded_active'' \<and> so_State z = wo_Status w \<and> wo_BalanceWei w = dec_nat 5"
proof (intro allI)
  fix cfg ul
  have "ParseAddress plain_tables flat_hash (AddressHex flat_hash (replicate 20 (CHR 0xAB))) = Inr (replicate 20 (CHR 0xAB))"
    using ParseAddress_roundtrip [of "replicate 20 (CHR 0xAB)" plain_tables flat_hash] by simp
  then show "\<exists>w z.
     makeWalletStatusHandler plain_tables flat_hash cfg (plainWalletClient ul flat_hash demo_node (\<lambda>_ _. Returns 2)) None
       (AddressHex flat_hash (replicate 20 (CHR 0xAB))) = Returns w
     \<and> makeSetupWizardHandler plain_tables flat_hash cfg (plainWalletClient ul flat_hash demo_node (\<lambda>_ _. Returns 2)) None
       (AddressHex flat_hash (replicate 20 (CHR 0xAB))) = Returns z
     \<and> wo_Status w = ''funded_active'' \<and> so_State z = wo_Status w \<and> wo_BalanceWei w = dec_nat 5"
    using wallet_state_exact [of None plain_tables flat_hash "AddressHex flat_hash (replicate 20 (CHR 0xAB))"
        "replicate 20 (CHR 0xAB)" demo_node 5 "\<lambda>_ _. Returns 2" 2 cfg ul]
    by (auto simp: requireRole_def demo_node_def)
qed

subsection \<open>What the challenges prove\<close>

lemma EncodeToString_no_prefix: "\<not> HasPrefix (EncodeToString bs) ''0x''"
proof (cases bs)
  case (Cons b cs)
  have "hexDigit n \<noteq> CHR ''x''" if "n < 16" for n
    using fromHexChar_hexDigit [OF that] by (auto simp: fromHexChar_def)
  from this [of "of_char b mod 16"] Cons show ?thesis by (auto simp: HasPrefix_def)
qed (simp add: HasPrefix_def)

text \<open>
  Challenges. A permitted caller with an address that parses gets a verdict, never an
  error, on any non-empty hash: positive exactly if the hash, up to letter case and an optional
  prefix \<open>0x\<close>, is the digest of the challenge of that address, and the response states the
  challenge and the digest either way. A signature gets the positive verdict exactly if the address
  recovered from it over the challenge is the address asked about.
\<close>

theorem challenges_decide:
  assumes "requireRole ctx readRoleSet = None" and "ParseAddress ut kec s = Inr a"
  shows "(h \<noteq> '''' \<longrightarrow> (\<exists>o1. makeVerifyHashHandler ut kec sha ctx s h = Returns o1
           \<and> vh_Challenge o1 = challengeForAddress (uLower ut) sha a
           \<and> vh_Expected o1 = ''0x'' @ EncodeToString (sha (vh_Challenge o1))
           \<and> (vh_OK o1 \<longleftrightarrow> ToLower (uLower ut) h \<in> {EncodeToString (sha (vh_Challenge o1)), vh_Expected o1})))
    \<and> (case SignatureFromHex g of
         None \<Rightarrow> \<exists>e. makeVerifySignatureHandler ut kec rc sha ctx s g = Fails e \<and> IsInputError e
       | Some sig \<Rightarrow> \<exists>o2. makeVerifySignatureHandler ut kec rc sha ctx s g = Returns o2
           \<and> vs_Challenge o2 = challengeForAddress (uLower ut) sha a
           \<and> (vs_OK o2 \<longleftrightarrow> RecoverMessage kec rc (vs_Challenge o2) sig = Some a))"
proof -
  have "IsInputError (wrapf t (Sentinel ErrMissingRequired)) \<and> IsInputError (wrapf t (Sentinel ErrInvalidSignature))" for t
    by (intro conjI input_wrapf) (simp_all add: inputErrors_def)
  moreover have "SignatureFromHex '''' = None"
    by (simp add: SignatureFromHex_def HexToBytes_def SignatureFromBytes_def)
  ultimately show ?thesis
    using assms
    by (auto simp: makeVerifyHashHandler_def makeVerifySignatureHandler_def readGate_def Let_def expectedHashForChallenge_def
        EncodeToString_no_prefix [unfolded HasPrefix_def] HasPrefix_def split: option.splits)
qed

theorem challenges_decide_witness:
  "\<exists>o1. makeVerifyHashHandler plain_tables flat_hash (\<lambda>_. [CHR 0xAB]) None
      (AddressHex flat_hash (replicate 20 (CHR 0xAB))) ''AB'' = Returns o1 \<and> vh_OK o1"
proof -
  have "ParseAddress plain_tables flat_hash (AddressHex flat_hash (replicate 20 (CHR 0xAB))) = Inr (replicate 20 (CHR 0xAB))"
    using ParseAddress_roundtrip [of "replicate 20 (CHR 0xAB)" plain_tables flat_hash] by simp
  moreover have "ToLower (uLower plain_tables) ''AB'' = EncodeToString [CHR 0xAB]" by code_simp
  ultimately show ?thesis
    using challenges_decide [of None plain_tables flat_hash "AddressHex flat_hash (replicate 20 (CHR 0xAB))"
        "replicate 20 (CHR 0xAB)" "''AB''" "\<lambda>_. [CHR 0xAB]"]
    by (auto simp: requireRole_def)
qed

text \<open>
  A signature may be longer than the 65 bytes the tool asks for: everything after the first 64 is
  read as one number, so that zeros before the recovery byte are accepted.
\<close>

lemma padded_signature_accepted:
  assumes "length rs = 64" and "v \<noteq> []"
  shows "SignatureFromBytes (rs @ replicate k (CHR 0x00) @ v) = SignatureFromBytes (rs @ v)"
proof -
  have "SetBytes (replicate k (CHR 0x00) @ v) = SetBytes v"
    by (induction k) (simp_all add: SetBytes_def)
  with assms show ?thesis by (cases v) (simp_all add: SignatureFromBytes_def)
qed

text \<open>
  The recovery byte is reduced by 27 and the absolute value of the result is used, so a signature
  with recovery byte 0 is read as 27 and one with recovery byte 1 as 26, which no recovery accepts:
  of the wallets that number their signatures from 0, half of the signatures are not recognised.
\<close>

lemma recovery_byte:
  assumes "bitLen (nat \<bar>r\<bar>) \<le> 256" and "bitLen (nat \<bar>s\<bar>) \<le> 256"
    and "(v, h) \<in> {(27, 27), (28, 28), (0, 27), (1, 26)}"
  shows "RecoverMessage kec rc data \<lparr>sg_V = v, sg_R = r, sg_S = s\<rparr> = rc h r s (kec (AddMessagePrefix data))"
proof -
  have "bitLen 0 \<le> 8" "bitLen 1 \<le> 8" "bitLen 27 \<le> 8" "bitLen 26 \<le> 8" by code_simp+
  with assms show ?thesis by (auto simp: RecoverMessage_def ecRecoverHash_def bigUint64_def)
qed

subsection \<open>The overview\<close>

text \<open>The stated prerequisite for broadcasting is that of the policy the server enforces.\<close>

lemma overview_states_policy:
  "last (prereqsFor cfg) = (if RequiresAuth writeToolName (c_KeylessWrites cfg) then broadcastWithKey else broadcastKeyless)"
  by (simp add: prereqsFor_def RequiresAuth_def)

end
