(* ===== verification/Tool_Server.thy ===== *)
theory Tool_Server
  imports Onboarding Telemetry Config
begin

text \<open>
  The MCP server object (\<^verbatim>\<open>NewServer\<close> of \<^verbatim>\<open>internal/mcp/server.go\<close>): which tools it registers, in
  the order of registration, which policy it enforces on them, and how the middlewares are nested.
  The SDK's dispatch to a registered tool is the parameter \<open>dispatch\<close>.
\<close>

section \<open>Registration\<close>

definition onboardingTools :: "string list" where
  "onboardingTools =
     [''nvnm_overview'', ''wallet_status'', ''nvnm_setup_wizard'', ''nvnm_setup_verify_hash'', ''nvnm_setup_verify_signature'']"

definition evmTools :: "string list" where
  "evmTools =
     [''evm_get_chain_id'', ''evm_get_block'', ''evm_get_transaction'', ''evm_get_transaction_receipt'',
      ''evm_get_balance'', ''evm_get_code'', ''evm_get_logs'', ''evm_call_contract'']"

definition anchorTools :: "string list" where
  "anchorTools = [''anchor_info'', ''anchor_get_registry'', ''anchor_get_registries'', ''anchor_get_records'']"

definition evmWriteTools :: "string list" where
  "evmWriteTools = [''evm_send_raw_transaction'']"

definition anchorWriteTools :: "string list" where
  "anchorWriteTools =
     [''anchor_prepare_add_registry'', ''anchor_prepare_add_record'', ''anchor_prepare_update_record_status'',
      ''anchor_prepare_grant_role'', ''anchor_prepare_revoke_role'']"

record Server =
  sv_tools :: "string list"
  sv_keylessReads :: bool
  sv_keylessWrites :: bool

definition NewServer :: "Config \<Rightarrow> Server" where
  "NewServer cfg =
     \<lparr>sv_tools = onboardingTools @ evmTools @ anchorTools @
        (if c_EnableWriteTools cfg then evmWriteTools @ anchorWriteTools else []),
      sv_keylessReads = (c_KeylessReads cfg \<and> c_Transport cfg = ''http''),
      sv_keylessWrites = c_KeylessWrites cfg\<rparr>"

text \<open>
  A method call through the server: the enforcement of the policy inside, the counting and the
  sanitizing of errors outside.
\<close>

definition receive ::
  "(string \<Rightarrow> string) \<Rightarrow> Server \<Rightarrow> (Claims option \<Rightarrow> string \<Rightarrow> req_params \<Rightarrow> 's \<Rightarrow> (goerr + 'r) \<times> 's)
     \<Rightarrow> Claims option \<Rightarrow> string \<Rightarrow> req_params \<Rightarrow> call_metrics \<Rightarrow> 's \<Rightarrow> (goerr + 'r) option \<times> call_metrics \<times> 's" where
  "receive uq sv dispatch =
     NewMCPMiddleware
       (\<lambda>ctx method req s.
          case NewAuthEnforcementMiddleware uq (sv_keylessReads sv) (sv_keylessWrites sv) dispatch ctx method req s of
            (r, s') \<Rightarrow> (Some r, s'))"

section \<open>Properties\<close>

lemmas tool_lists = onboardingTools_def evmTools_def anchorTools_def evmWriteTools_def anchorWriteTools_def

lemma exempt_tools: "set authExemptTools = set (onboardingTools @ evmTools @ anchorTools @ anchorWriteTools)"
  by code_simp

lemma write_tool_not_exempt: "writeToolName \<notin> set authExemptTools"
  by code_simp

lemma distinct_tools: "distinct (onboardingTools @ evmTools @ anchorTools @ evmWriteTools @ anchorWriteTools)"
  by code_simp


lemma write_tool_registered: "writeToolName \<in> set (sv_tools (NewServer cfg)) \<longleftrightarrow> c_EnableWriteTools cfg"
proof -
  have "writeToolName \<notin> set (onboardingTools @ evmTools @ anchorTools)" and "writeToolName \<in> set evmWriteTools"
    by code_simp+
  then show ?thesis by (simp add: NewServer_def)
qed

lemma registered_policy:
  "t \<in> set (sv_tools (NewServer cfg)) \<Longrightarrow> RequiresAuth t kw \<longleftrightarrow> t = writeToolName \<and> \<not> kw"
proof -
  assume "t \<in> set (sv_tools (NewServer cfg))"
  moreover have "set evmWriteTools = {writeToolName}" by (simp add: evmWriteTools_def writeToolName_def)
  ultimately have "t = writeToolName \<or> t \<in> set authExemptTools"
    by (auto simp: NewServer_def exempt_tools split: if_splits)
  then show ?thesis using write_tool_not_exempt by (auto simp: RequiresAuth_def)
qed


lemma receive_refused:
  assumes "sv_keylessReads sv" and "RequiresAuth (ToolNameFromRequest req) (sv_keylessWrites sv)"
  shows "\<exists>e m'. receive uq sv dispatch None ''tools/call'' req m s = (Some (Inl e), m', s) \<and> IsS e ErrAuthRequired
    \<and> cm_Errors m' (''tools/call'', ToolNameFromRequest req) = Suc (cm_Errors m (''tools/call'', ToolNameFromRequest req))"
  using assms
  by (simp add: receive_def NewMCPMiddleware_def NewAuthEnforcementMiddleware_def Let_def SafeForClient_def go_simps
      tool_names_agree)

lemma receive_passed:
  assumes "\<not> (sv_keylessReads sv \<and> ctx = None \<and> RequiresAuth (ToolNameFromRequest req) (sv_keylessWrites sv))"
    and "dispatch ctx ''tools/call'' req s = (r, s')"
  shows "\<exists>m'. receive uq sv dispatch ctx ''tools/call'' req m s
    = (Some (case r of Inl e \<Rightarrow> Inl (the (SafeForClient (Some e))) | Inr v \<Rightarrow> Inr v), m', s')"
proof -
  have "NewAuthEnforcementMiddleware uq (sv_keylessReads sv) (sv_keylessWrites sv) dispatch ctx ''tools/call'' req s = (r, s')"
    using assms by (auto simp: NewAuthEnforcementMiddleware_def Let_def)
  note n = this
  show ?thesis
  proof (cases r)
    case (Inl e)
    obtain e' where "SafeForClient (Some e) = Some e'" using SafeForClient_Some by blast
    with n Inl show ?thesis by (simp add: receive_def NewMCPMiddleware_def Let_def)
  next
    case (Inr v)
    with n show ?thesis by (simp add: receive_def NewMCPMiddleware_def Let_def)
  qed
qed

text \<open>
  Claim C9 (Tool surface). A server registers each tool once, and the broadcast tool only when
  writes are enabled. A call of a registered tool is refused before any tool runs exactly if it
  is an anonymous broadcast in a keyless HTTP deployment without keyless writes; the refusal is
  counted as an error and tells the client that authentication is required. Every other call of a
  registered tool reaches the dispatch with its identity, and its error comes back sanitized.
\<close>

theorem tool_surface:
  assumes "ToolNameFromRequest req \<in> set (sv_tools (NewServer cfg))"
  shows "distinct (sv_tools (NewServer cfg)) \<and> (writeToolName \<in> set (sv_tools (NewServer cfg)) \<longleftrightarrow> c_EnableWriteTools cfg)
    \<and> (if c_KeylessReads cfg \<and> c_Transport cfg = ''http'' \<and> ctx = None
          \<and> ToolNameFromRequest req = writeToolName \<and> \<not> c_KeylessWrites cfg
       then \<exists>e m'. receive uq (NewServer cfg) dispatch ctx ''tools/call'' req m s = (Some (Inl e), m', s)
              \<and> IsS e ErrAuthRequired
              \<and> cm_Errors m' (''tools/call'', writeToolName) = Suc (cm_Errors m (''tools/call'', writeToolName))
       else \<exists>m'. receive uq (NewServer cfg) dispatch ctx ''tools/call'' req m s
              = (Some (case fst (dispatch ctx ''tools/call'' req s) of
                         Inl e \<Rightarrow> Inl (the (SafeForClient (Some e))) | Inr v \<Rightarrow> Inr v),
                 m', snd (dispatch ctx ''tools/call'' req s)))"
proof (intro conjI)
  let ?sv = "NewServer cfg"
  show "distinct (sv_tools ?sv)" using distinct_tools by (auto simp: NewServer_def)
  show "writeToolName \<in> set (sv_tools ?sv) \<longleftrightarrow> c_EnableWriteTools cfg" by (rule write_tool_registered)
  have k: "sv_keylessReads ?sv = (c_KeylessReads cfg \<and> c_Transport cfg = ''http'')" "sv_keylessWrites ?sv = c_KeylessWrites cfg"
    by (simp_all add: NewServer_def)
  note p = registered_policy [OF assms, of "c_KeylessWrites cfg"]
  show "if c_KeylessReads cfg \<and> c_Transport cfg = ''http'' \<and> ctx = None
          \<and> ToolNameFromRequest req = writeToolName \<and> \<not> c_KeylessWrites cfg
       then \<exists>e m'. receive uq ?sv dispatch ctx ''tools/call'' req m s = (Some (Inl e), m', s)
              \<and> IsS e ErrAuthRequired
              \<and> cm_Errors m' (''tools/call'', writeToolName) = Suc (cm_Errors m (''tools/call'', writeToolName))
       else \<exists>m'. receive uq ?sv dispatch ctx ''tools/call'' req m s
              = (Some (case fst (dispatch ctx ''tools/call'' req s) of
                         Inl e \<Rightarrow> Inl (the (SafeForClient (Some e))) | Inr v \<Rightarrow> Inr v),
                 m', snd (dispatch ctx ''tools/call'' req s))"
    using receive_refused [of ?sv req uq dispatch m s]
      receive_passed [of ?sv ctx req dispatch s "fst (dispatch ctx ''tools/call'' req s)"
        "snd (dispatch ctx ''tools/call'' req s)" uq m] p k
    by (auto split del: sum.split)
qed


definition relayConfigDemo :: Config where
  "relayConfigDemo = zeroConfig\<lparr>c_EnableWriteTools := True, c_KeylessReads := True, c_Transport := ''http''\<rparr>"

theorem tool_surface_witness:
  "\<exists>e m'. receive id (NewServer relayConfigDemo) (\<lambda>_ _ _ s. (Inr s, s)) None ''tools/call'' (RawToolCall writeToolName)
       \<lparr>cm_Active = 0, cm_Calls = \<lambda>_. 0, cm_Errors = \<lambda>_. 0\<rparr> ''state'' = (Some (Inl e), m', ''state'')
     \<and> IsS e ErrAuthRequired"
proof -
  have w: "ToolNameFromRequest (RawToolCall writeToolName) \<in> set (sv_tools (NewServer relayConfigDemo))"
    using write_tool_registered [of relayConfigDemo] by (simp add: ToolNameFromRequest_def relayConfigDemo_def)
  have "\<not> c_KeylessWrites relayConfigDemo" by (simp add: relayConfigDemo_def zeroConfig_def)
  with tool_surface [OF w, of None id "\<lambda>_ _ _ s. (Inr s, s)" "\<lparr>cm_Active = 0, cm_Calls = \<lambda>_. 0, cm_Errors = \<lambda>_. 0\<rparr>" "''state''"]
  show ?thesis by (auto simp: ToolNameFromRequest_def relayConfigDemo_def)
qed

subsection \<open>Hints\<close>

definition allTools :: "string list" where
  "allTools = onboardingTools @ evmTools @ anchorTools @ evmWriteTools @ anchorWriteTools"

definition hintsKnown :: "NextAction list \<Rightarrow> bool" where
  "hintsKnown = list_all (\<lambda>x. na_Tool x \<in> set allTools)"

lemma hintsKnown_append [simp]: "hintsKnown (xs @ ys) \<longleftrightarrow> hintsKnown xs \<and> hintsKnown ys"
  by (simp add: hintsKnown_def)

lemma plain_hints:
  "hintsKnown (evmChainIDNext @ evmGetBlockNext @ evmGetTransactionNext @ evmGetBalanceNext @ evmGetLogsNext @
     evmCallContractNext @ anchorInfoNext @ anchorGetRegistryNext @ anchorGetRecordsNext @ anchorPrepareWriteNext)"
  by code_simp

lemma known_names:
  "list_all (\<lambda>t. t \<in> set allTools)
     [''evm_get_transaction'', ''anchor_get_records'', ''anchor_info'', ''evm_get_balance'', ''evm_call_contract'',
      ''anchor_prepare_add_registry'', ''anchor_get_registry'', ''anchor_get_registries'', ''anchor_prepare_add_record'',
      ''evm_get_transaction_receipt'', ''nvnm_setup_wizard'', ''nvnm_setup_verify_hash'', ''nvnm_setup_verify_signature'',
      ''wallet_status'', ''evm_send_raw_transaction'']"
  by code_simp

lemma dependent_hints:
  "hintsKnown (evmGetReceiptNext st)" "hintsKnown (evmGetCodeNext ic ip)" "hintsKnown (anchorGetRegistriesNext em)"
  "hintsKnown (evmSendRawTxNext h)" "hintsKnown (walletStatusNextActions ws)"
  "hintsKnown (so_NextActions (needsWalletResponse cfg nm))" "hintsKnown (so_NextActions (unfundedResponse cfg snap))"
  "hintsKnown (so_NextActions (fundedUnusedResponse snap))" "hintsKnown (so_NextActions (fundedActiveResponse snap))"
  using known_names
  by (simp_all add: hintsKnown_def na_def evmGetReceiptNext_def evmGetCodeNext_def anchorGetRegistriesNext_def
      evmSendRawTxNext_def walletStatusNextActions_def needsWalletResponse_def unfundedResponse_def
      fundedUnusedResponse_def fundedActiveResponse_def)


lemma journey_known: "list_all (\<lambda>x. cj_Tool x \<in> set allTools) canonicalJourney"
  by code_simp

lemma allTools_registered: "c_EnableWriteTools cfg \<Longrightarrow> set (sv_tools (NewServer cfg)) = set allTools"
  by (simp add: NewServer_def allTools_def)

lemma hintsKnown_image: "hintsKnown xs \<Longrightarrow> na_Tool ` set xs \<subseteq> set allTools"
  by (auto simp: hintsKnown_def list_all_iff)

text \<open>
  Hints resolve. With writes enabled, every tool that any follow-up hint, any state of
  the wizard and any step of the recommended journey names is a tool the server has registered.
\<close>

theorem hints_resolve:
  assumes "c_EnableWriteTools cfg"
  shows "na_Tool ` set (evmChainIDNext @ evmGetBlockNext @ evmGetTransactionNext @ evmGetBalanceNext @ evmGetLogsNext @
      evmCallContractNext @ anchorInfoNext @ anchorGetRegistryNext @ anchorGetRecordsNext @ anchorPrepareWriteNext @
      evmGetReceiptNext st @ evmGetCodeNext ic ip @ anchorGetRegistriesNext em @ evmSendRawTxNext h @
      walletStatusNextActions ws @ so_NextActions (needsWalletResponse cfg nm) @ so_NextActions (unfundedResponse cfg snap) @
      so_NextActions (fundedUnusedResponse snap) @ so_NextActions (fundedActiveResponse snap))
    \<union> cj_Tool ` set canonicalJourney \<subseteq> set (sv_tools (NewServer cfg))"
  unfolding allTools_registered [OF assms]
proof (rule Un_least)
  show "cj_Tool ` set canonicalJourney \<subseteq> set allTools"
    using journey_known by (auto simp: list_all_iff)
qed (rule hintsKnown_image, use plain_hints dependent_hints in simp)

theorem hints_resolve_witness:
  "na_Tool ` set (walletStatusNextActions ''funded_active'') \<subseteq> set (sv_tools (NewServer relayConfigDemo))"
proof -
  have "c_EnableWriteTools relayConfigDemo" by (simp add: relayConfigDemo_def)
  from hints_resolve [OF this, where ws = "''funded_active''"] show ?thesis
    by (simp only: set_append image_Un Un_subset_iff)
qed

text \<open>Without them the hints still name the preparation tools, which are then not registered.\<close>

lemma hints_dangle:
  assumes "\<not> c_EnableWriteTools cfg"
  shows "\<not> na_Tool ` set (walletStatusNextActions WalletStatusFundedActive) \<subseteq> set (sv_tools (NewServer cfg))"
proof
  have out: "''anchor_prepare_add_registry'' \<notin> set (onboardingTools @ evmTools @ anchorTools)"
    and hint: "''anchor_prepare_add_registry'' \<in> na_Tool ` set (walletStatusNextActions WalletStatusFundedActive)"
    by code_simp+
  have sv: "sv_tools (NewServer cfg) = onboardingTools @ evmTools @ anchorTools" using assms by (simp add: NewServer_def)
  assume "na_Tool ` set (walletStatusNextActions WalletStatusFundedActive) \<subseteq> set (sv_tools (NewServer cfg))"
  from subsetD [OF this hint] out show False unfolding sv by (rule notE [rotated])
qed

end
