(* ===== verification/End_To_End.thy ===== *)
theory End_To_End
  imports Deploy Tool_Server
begin

text \<open>
  The whole path of a write: from an HTTP request through the chain of theory \<open>Http_Chain\<close>, the
  server object of theory \<open>Tool_Server\<close> and the broadcast tool of theory \<open>Write_Relay\<close> to the node,
  in a process constructed by theory \<open>Boot\<close>. The SDK turns a request body into a method call; which
  one is a parameter, and so are the answers of the tools that have no access to the broadcast.
\<close>

section \<open>The tools behind the server\<close>

text \<open>A method call as the SDK decodes it, with the argument of the broadcast tool.\<close>

record mcp_call =
  mc_method :: string
  mc_params :: req_params
  mc_signedTx :: string

definition callTools ::
  "(string \<Rightarrow> string) \<Rightarrow> write_cfg option \<Rightarrow> 'm tx_lib \<Rightarrow> write_env \<Rightarrow> (sendRawTxOutput \<Rightarrow> 'r)
     \<Rightarrow> (string \<Rightarrow> Claims option \<Rightarrow> goerr + 'r) \<Rightarrow> string
     \<Rightarrow> Claims option \<Rightarrow> string \<Rightarrow> req_params \<Rightarrow> world \<Rightarrow> (goerr + 'r) \<times> world" where
  "callTools ul relay lib env out others signedTx ctx method req w =
     (if method = ''tools/call'' \<and> ToolNameFromRequest req = writeToolName then
        (case relay of
           None \<Rightarrow> (others writeToolName ctx, w)
         | Some wc \<Rightarrow> (case makeSendRawTxHandler ul wc lib env ctx signedTx w of (r, w') \<Rightarrow> (map_sum id out r, w')))
      else (others (ToolNameFromRequest req) ctx, w))"

text \<open>The handler of \<^verbatim>\<open>Server.Handler\<close>: it keeps the counters of the process and the world the tools act on.\<close>

definition mcpHandler ::
  "(string \<Rightarrow> string) \<Rightarrow> (string \<Rightarrow> string) \<Rightarrow> Server \<Rightarrow> write_cfg option \<Rightarrow> 'm tx_lib \<Rightarrow> (time \<Rightarrow> write_env)
     \<Rightarrow> (sendRawTxOutput \<Rightarrow> 'r) \<Rightarrow> (string \<Rightarrow> Claims option \<Rightarrow> goerr + 'r) \<Rightarrow> (hreq \<Rightarrow> mcp_call) \<Rightarrow> ((goerr + 'r) option \<Rightarrow> response)
     \<Rightarrow> (gofloat, 'l, call_metrics \<times> world) handler" where
  "mcpHandler uq ul sv relay lib env out others parse render r s =
     (let q = parse r; (m, w) = hs_app s;
          (res, m', w') = receive uq sv (callTools ul relay lib (env (rq_now r)) out others (mc_signedTx q))
                            (rq_claims r) (mc_method q) (mc_params q) m w
      in (render res, s\<lparr>hs_app := (m', w')\<rparr>))"

section \<open>Annotations\<close>

text \<open>What the tools tell clients of themselves; hints that are not set are \<open>None\<close>.\<close>

record ToolAnnotations =
  ta_ReadOnlyHint :: bool
  ta_DestructiveHint :: "bool option"
  ta_OpenWorldHint :: "bool option"

definition newOpenWorldReadOnly :: ToolAnnotations where
  "newOpenWorldReadOnly = \<lparr>ta_ReadOnlyHint = True, ta_DestructiveHint = None, ta_OpenWorldHint = Some True\<rparr>"

definition newClosedWorldReadOnly :: ToolAnnotations where
  "newClosedWorldReadOnly = \<lparr>ta_ReadOnlyHint = True, ta_DestructiveHint = None, ta_OpenWorldHint = Some False\<rparr>"

definition newDestructiveWriteTool :: ToolAnnotations where
  "newDestructiveWriteTool = \<lparr>ta_ReadOnlyHint = False, ta_DestructiveHint = Some True, ta_OpenWorldHint = Some True\<rparr>"

definition toolAnnotations :: "string \<Rightarrow> ToolAnnotations" where
  "toolAnnotations t =
     (if t \<in> {''nvnm_overview'', ''nvnm_setup_verify_hash'', ''nvnm_setup_verify_signature'', ''anchor_info''}
      then newClosedWorldReadOnly
      else if t = ''evm_send_raw_transaction'' then newDestructiveWriteTool
      else newOpenWorldReadOnly)"

text \<open>
  A tool that calls itself read-only leaves the world as it is, and the tool that calls itself
  destructive is the one that does not.
\<close>

lemma annotations_honest:
  assumes "ta_ReadOnlyHint (toolAnnotations (ToolNameFromRequest req))"
  shows "snd (callTools ul relay lib env out others signedTx ctx method req w) = w"
  using assms
  by (auto simp: callTools_def toolAnnotations_def newDestructiveWriteTool_def writeToolName_def split: if_splits)

lemma destructive_is_broadcast:
  "ta_DestructiveHint (toolAnnotations t) = Some True \<longleftrightarrow> t = writeToolName"
  by (auto simp: toolAnnotations_def newDestructiveWriteTool_def newOpenWorldReadOnly_def newClosedWorldReadOnly_def
      writeToolName_def)

section \<open>Properties\<close>

lemma receive_world:
  assumes "receive uq sv dispatch ctx meth req m w = (res, m', w')" and "w' \<noteq> w"
  shows "\<exists>r. dispatch ctx meth req w = (r, w')
    \<and> (sv_keylessReads sv \<and> meth = ''tools/call'' \<and> ctx = None \<longrightarrow> \<not> RequiresAuth (ToolNameFromRequest req) (sv_keylessWrites sv))"
proof -
  obtain r1 w1 where n: "NewAuthEnforcementMiddleware uq (sv_keylessReads sv) (sv_keylessWrites sv) dispatch ctx meth req w = (r1, w1)"
    by fastforce
  have "w1 = w'" using assms(1) n by (cases r1) (auto simp: receive_def NewMCPMiddleware_def Let_def)
  with n assms(2) show ?thesis
    by (auto simp: NewAuthEnforcementMiddleware_def Let_def split: if_splits)
qed

lemma callTools_sent:
  assumes "callTools ul relay lib env out others signedTx ctx meth req w = (r, w')" and "w_sent w' \<noteq> w_sent w"
  obtains wc r' where "relay = Some wc" "meth = ''tools/call''" "ToolNameFromRequest req = writeToolName"
    "makeSendRawTxHandler ul wc lib env ctx signedTx w = (r', w')"
  using assms by (auto simp: callTools_def split: if_splits option.splits prod.splits)


lemma mcpHandler_sent:
  assumes "hs_app s = (m, w)"
    and "w_sent (snd (hs_app (snd (mcpHandler uq ul sv relay lib env out others parse render r s)))) \<noteq> w_sent w"
  obtains wc res w' where "relay = Some wc"
    "makeSendRawTxHandler ul wc lib (env (rq_now r)) (rq_claims r) (mc_signedTx (parse r)) w = (res, w')"
    "snd (hs_app (snd (mcpHandler uq ul sv relay lib env out others parse render r s))) = w'"
    "sv_keylessReads sv \<and> rq_claims r = None \<longrightarrow> sv_keylessWrites sv"
proof -
  obtain res m' w' where rc: "receive uq sv (callTools ul relay lib (env (rq_now r)) out others (mc_signedTx (parse r)))
      (rq_claims r) (mc_method (parse r)) (mc_params (parse r)) m w = (res, m', w')"
    by (metis prod.collapse)
  then have after: "snd (hs_app (snd (mcpHandler uq ul sv relay lib env out others parse render r s))) = w'"
    using assms(1) by (simp add: mcpHandler_def Let_def)
  with assms(2) have ne: "w_sent w' \<noteq> w_sent w" by simp
  then have "w' \<noteq> w" by blast
  from receive_world [OF rc this] obtain q where
    q: "callTools ul relay lib (env (rq_now r)) out others (mc_signedTx (parse r)) (rq_claims r) (mc_method (parse r))
          (mc_params (parse r)) w = (q, w')"
       "sv_keylessReads sv \<and> mc_method (parse r) = ''tools/call'' \<and> rq_claims r = None
          \<longrightarrow> \<not> RequiresAuth (ToolNameFromRequest (mc_params (parse r))) (sv_keylessWrites sv)"
    by blast
  from callTools_sent [OF q(1) ne] obtain wc r' where
    t: "relay = Some wc" "mc_method (parse r) = ''tools/call''" "ToolNameFromRequest (mc_params (parse r)) = writeToolName"
       "makeSendRawTxHandler ul wc lib (env (rq_now r)) (rq_claims r) (mc_signedTx (parse r)) w = (r', w')"
    by blast
  with q(2) have "sv_keylessReads sv \<and> rq_claims r = None \<longrightarrow> sv_keylessWrites sv" by (simp add: RequiresAuth_def)
  with t(1,4) after show thesis by (rule that)
qed



subsection \<open>A keyless broadcast\<close>

definition tx_to :: "address \<Rightarrow> unit tx_lib" where
  "tx_to a = \<lparr>tx_DecodeRLP = (\<lambda>_. Returns (anchor_tx\<lparr>tx_To := Some a\<rparr>)), tx_EncodeRLP = (\<lambda>_. Returns ''raw''),
              tx_Recover = (\<lambda>_. Returns (Some signer_addr))\<rparr>"

definition broadcast_call :: mcp_call where
  "broadcast_call = \<lparr>mc_method = ''tools/call'', mc_params = RawToolCall writeToolName, mc_signedTx = ''0x00''\<rparr>"

definition fresh_process :: "(gofloat, nat, call_metrics \<times> world) hstate" where
  "fresh_process = \<lparr>hs_fail = None, hs_anon = None, hs_client = None,
     hs_app = (\<lparr>cm_Active = 0, cm_Calls = \<lambda>_. 0, cm_Errors = \<lambda>_. 0\<rparr>, empty_world)\<rparr>"

definition silent_endpoint :: "(gofloat, nat, call_metrics \<times> world) handler" where
  "silent_endpoint r s = (httpError '''' 202, s)"

definition demo_mcp :: "boot_state \<Rightarrow> address \<Rightarrow> (gofloat, nat, call_metrics \<times> world) handler" where
  "demo_mcp b a = mcpHandler id id (NewServer (bs_cfg b)) (bs_relay b) (tx_to a) (\<lambda>_. demo_env) (\<lambda>_. ()) (\<lambda>_ _. Inr ())
     (\<lambda>_. broadcast_call) (\<lambda>_. httpError '''' 200)"

lemma tx_to_decode:
  "DecodeSignedTx (tx_to a) ''0x00'' =
     Inr \<lparr>dx_Signer = signer_addr, dx_To = Some a, dx_Input = ''abcdef'', dx_Value = 0, dx_CanonicalRaw = ''raw''\<rparr>"
  by (simp add: DecodeSignedTx_def decodeBody_def tx_to_def HasPrefix_def maxSignedTxHexLen_def
      fromHexChar_def orFail_def fixChainID_def anchor_tx_def Let_def)

lemma keyless_send:
  assumes "wc_keyless wc" "AddressFromHex (wc_anchorAddr wc) = Some a" "1 \<le> sg_rate (wc_gates wc)"
  shows "w_sent (snd (makeSendRawTxHandler id wc (tx_to a) demo_env None ''0x00'' empty_world)) = [''0x'' @ EncodeToString ''raw'']"
  using assms
  by (simp add: makeSendRawTxHandler_def requireRole_def resolveBroadcast_def prepareKeylessBroadcast_def
      decodeAndScope_def tx_to_decode checkRelayScope_def checkSignerGates_def
      IsBlacklisted_def quotaGate_def Quota_Count_def quota_count_def demo_env_def
      empty_world_def broadcast_def Let_def)

lemma keyless_passes:
  assumes "sc_keylessReads srv"
  shows "hs_app (snd (RunHTTP_handler srv anonymous_request fresh_process))
    = hs_app (snd (sc_mcp srv (anonymous_request\<lparr>rq_maxBody := Some MaxRequestBodyBytes\<rparr>) fresh_process))"
  using assms
  by (auto simp: RunHTTP_handler_def wrapSecurityChain_def CORSMiddleware_def originGuard_def Allowed_def
      requireForwardedHTTPS_def forwardedProtoScheme_def failrateWrap_def limitRequestBody_def routed_def wellKnownGuard_def
      mcpChain_def AuthMiddleware_def anonRateMiddleware_def clientRateMiddleware_def anonymous_request_def fresh_process_def
      wellKnownProtectedResource_def wellKnownAuthServer_def KeyRequestPath_def Let_def split: option.splits prod.splits)


lemma demo_mcp_sends:
  assumes "bs_relay b = Some wc" "wc_keyless wc" "AddressFromHex (wc_anchorAddr wc) = Some a" "1 \<le> sg_rate (wc_gates wc)"
    and "c_KeylessWrites (bs_cfg b)"
  shows "w_sent (snd (hs_app (snd (demo_mcp b a (anonymous_request\<lparr>rq_maxBody := n\<rparr>) fresh_process)))) = [''0x'' @ EncodeToString ''raw'']"
proof -
  obtain r w' where s: "makeSendRawTxHandler id wc (tx_to a) demo_env None ''0x00'' empty_world = (r, w')" by fastforce
  then have "w_sent w' = [''0x'' @ EncodeToString ''raw'']" using keyless_send [OF assms(2-4)] by simp
  note w' = this
  let ?d = "callTools id (bs_relay b) (tx_to a) demo_env (\<lambda>_. ()) (\<lambda>_ _. Inr ()) ''0x00''"
  let ?m = "\<lparr>cm_Active = 0, cm_Calls = \<lambda>_. 0, cm_Errors = \<lambda>_. 0\<rparr>"
  obtain q where d: "?d None ''tools/call'' (RawToolCall writeToolName) empty_world = (q, w')"
    using s assms(1) by (simp add: callTools_def ToolNameFromRequest_def)
  have "\<not> RequiresAuth (ToolNameFromRequest (RawToolCall writeToolName)) (sv_keylessWrites (NewServer (bs_cfg b)))"
    using assms(5) by (simp add: RequiresAuth_def NewServer_def ToolNameFromRequest_def)
  then have p: "\<not> (sv_keylessReads (NewServer (bs_cfg b)) \<and> None = None
      \<and> RequiresAuth (ToolNameFromRequest (RawToolCall writeToolName)) (sv_keylessWrites (NewServer (bs_cfg b))))" by simp
  obtain m' where "receive id (NewServer (bs_cfg b)) ?d None ''tools/call'' (RawToolCall writeToolName) ?m empty_world
      = (Some (case q of Inl e \<Rightarrow> Inl (the (SafeForClient (Some e))) | Inr v \<Rightarrow> Inr v), m', w')"
    using receive_passed [where dispatch = ?d, OF p d] by blast
  then show ?thesis
    by (simp add: demo_mcp_def mcpHandler_def fresh_process_def broadcast_call_def anonymous_request_def Let_def w')
qed


end
