(* ===== verification/Health.thy ===== *)
theory Health
  imports Evm_Client
begin

text \<open>
  The health server (\<^verbatim>\<open>internal/telemetry/health.go\<close>) and its view of the chain head
  (\<^verbatim>\<open>chainHead\<close> of \<^verbatim>\<open>cmd/nvnm-mcp-server/main.go\<close>): what one probe finds, what \<^verbatim>\<open>/readyz\<close>
  answers, and every interleaving of probes and requests. The lock makes both atomic. A probe's
  environment is what the node answers and the clock; the text of a duration is a parameter.
\<close>

section \<open>Times\<close>

text \<open>\<^verbatim>\<open>time.Unix(sec, 0)\<close>: seconds are counted from the year 1, in 64 bits.\<close>

definition unixToInternal :: int where
  "unixToInternal = 62135596800"

definition Unix :: "int \<Rightarrow> time" where
  "Unix sec = int64 (sec + unixToInternal) * Second"

definition maxDuration :: duration where
  "maxDuration = 2 ^ 63 - 1"

definition Since :: "time \<Rightarrow> time \<Rightarrow> duration" where
  "Since now t = max (- (2 ^ 63)) (min maxDuration (now - t))"

text \<open>\<^verbatim>\<open>Duration.Round\<close> to a positive multiple: half away from zero, saturating.\<close>

definition RoundSecond :: "duration \<Rightarrow> duration" where
  "RoundSecond d =
     (let a = \<bar>d\<bar>; r = a mod Second;
          m = (if r + r < Second then a - r else a + (Second - r))
      in if d < 0 then (if 2 ^ 63 < m then - (2 ^ 63) else - m)
         else (if maxDuration < m then maxDuration else m))"

section \<open>The chain head\<close>

definition errBlockTimestampOverflow :: goerr where
  "errBlockTimestampOverflow = PkgErr ''errBlockTimestampOverflow'' ''block timestamp overflows int64''"

definition LatestBlockTimestamp :: "NormalizedBlock outcome \<Rightarrow> time outcome" where
  "LatestBlockTimestamp r =
     withRpc r Fails
       (\<lambda>block.
          if 2 ^ 63 - 1 < uint (nb_TimestampUnix block) then
            Fails (Errorf (''timestamp '' @ dec_int (uint (nb_TimestampUnix block)) @ '': '' @ Error errBlockTimestampOverflow)
                     [errBlockTimestampOverflow])
          else Returns (Unix (int64 (uint (nb_TimestampUnix block)))))"

section \<open>The server\<close>

record HealthServer =
  hs_checker :: bool
  hs_head :: bool
  hs_maxBlockAge :: duration
  hs_abiLoaded :: bool
  hs_ready :: bool
  hs_status :: "string gomap"

definition NewHealthServer :: "bool \<Rightarrow> bool \<Rightarrow> HealthServer" where
  "NewHealthServer checker abiLoaded =
     \<lparr>hs_checker = checker, hs_head = False, hs_maxBlockAge = 0, hs_abiLoaded = abiLoaded, hs_ready = True, hs_status = []\<rparr>"

definition WithChainStaleness :: "bool \<Rightarrow> duration \<Rightarrow> HealthServer \<Rightarrow> HealthServer" where
  "WithChainStaleness head maxAge h = h\<lparr>hs_head := head, hs_maxBlockAge := maxAge\<rparr>"

text \<open>What a probe meets: the answers to its two calls, and the time. A panic in the goroutine ends the process.\<close>

record probe_env =
  pe_Ping :: "goerr option"
  pe_Head :: "goerr + time"
  pe_now :: time

definition probeChainHead ::
  "(duration \<Rightarrow> string) \<Rightarrow> HealthServer \<Rightarrow> probe_env \<Rightarrow> string gomap \<Rightarrow> bool \<times> string gomap" where
  "probeChainHead ds h p checks =
     (case pe_Head p of
        Inl err \<Rightarrow> (False, AList.update ''chain_head'' ''unavailable'' checks)
      | Inr ts \<Rightarrow>
          let age = Since (pe_now p) ts
          in if age > hs_maxBlockAge h then
               (False, AList.update ''chain_head''
                  (''stale (last block '' @ ds (RoundSecond age) @ '' old, max '' @ ds (hs_maxBlockAge h) @ '')'') checks)
             else (True, AList.update ''chain_head'' ''ok'' checks))"

definition runProbe :: "(duration \<Rightarrow> string) \<Rightarrow> probe_env \<Rightarrow> HealthServer \<Rightarrow> HealthServer" where
  "runProbe ds p h =
     (let (ready1, checks1) =
            (if hs_checker h then
               (case pe_Ping p of
                  Some err \<Rightarrow> (False, AList.update ''evm_rpc'' ''unreachable'' [])
                | None \<Rightarrow> (True, AList.update ''evm_rpc'' ''ok'' []))
             else (True, []));
          (ready2, checks2) =
            (if hs_head h \<and> hs_maxBlockAge h > 0 then
               (let (ok, cs) = probeChainHead ds h p checks1 in (if \<not> ok then False else ready1, cs))
             else (ready1, checks1));
          checks3 = AList.update ''abi'' (if hs_abiLoaded h then ''loaded'' else ''not_configured'') checks2
      in h\<lparr>hs_ready := ready2, hs_status := checks3\<rparr>)"

text \<open>
  A response as \<^verbatim>\<open>net/http\<close> sends it: the header map is read when the status is written, and a body
  without a content type is sniffed as plain text.
\<close>

record health_response =
  hr_code :: nat
  hr_contentType :: string
  hr_status :: string
  hr_checks :: "string gomap"

definition handleReady :: "HealthServer \<Rightarrow> health_response" where
  "handleReady h =
     (if \<not> hs_ready h then
        \<lparr>hr_code = 503, hr_contentType = ''text/plain; charset=utf-8'', hr_status = ''not_ready'', hr_checks = hs_status h\<rparr>
      else
        \<lparr>hr_code = 200, hr_contentType = ''application/json'', hr_status = ''ready'', hr_checks = hs_status h\<rparr>)"

definition handleHealth :: "string \<Rightarrow> nat \<times> string gomap" where
  "handleHealth version = (200, [(''status'', ''ok''), (''version'', version)])"

section \<open>Probes and requests interleaved\<close>

text \<open>\<open>probed ds h0 last h\<close>: started as \<open>h0\<close>, the loop has reached \<open>h\<close>, and \<open>last\<close> is what its latest probe met.\<close>

inductive probed :: "(duration \<Rightarrow> string) \<Rightarrow> HealthServer \<Rightarrow> probe_env option \<Rightarrow> HealthServer \<Rightarrow> bool" for ds h0 where
  started: "probed ds h0 None h0"
| probe: "probed ds h0 l h \<Longrightarrow> probed ds h0 (Some p) (runProbe ds p h)"

inductive_cases probedE: "probed ds h0 l h"

section \<open>Properties\<close>

definition chainFresh :: "HealthServer \<Rightarrow> probe_env \<Rightarrow> bool" where
  "chainFresh h p \<longleftrightarrow> (case pe_Head p of Inl _ \<Rightarrow> False | Inr ts \<Rightarrow> pe_now p - ts \<le> hs_maxBlockAge h)"

definition healthy :: "HealthServer \<Rightarrow> probe_env \<Rightarrow> bool" where
  "healthy h p \<longleftrightarrow>
     (hs_checker h \<longrightarrow> pe_Ping p = None) \<and> (hs_head h \<and> 0 < hs_maxBlockAge h \<longrightarrow> chainFresh h p)"

lemma Since_less: "0 < m \<Longrightarrow> m < maxDuration \<Longrightarrow> Since now t > m \<longleftrightarrow> now - t > m"
  by (auto simp: Since_def maxDuration_def)

lemma probeChainHead_fst:
  "0 < hs_maxBlockAge h \<Longrightarrow> hs_maxBlockAge h < maxDuration \<Longrightarrow> fst (probeChainHead ds h p cs) \<longleftrightarrow> chainFresh h p"
  by (auto simp: probeChainHead_def chainFresh_def Let_def Since_less split: sum.splits)

lemma probeChainHead_other:
  "k \<noteq> ''chain_head'' \<Longrightarrow> map_of (snd (probeChainHead ds h p cs)) k = map_of cs k"
  by (auto simp: probeChainHead_def Let_def update_conv split: sum.splits)

lemma runProbe_settings:
  "hs_checker (runProbe ds p h) = hs_checker h" "hs_head (runProbe ds p h) = hs_head h"
  "hs_maxBlockAge (runProbe ds p h) = hs_maxBlockAge h" "hs_abiLoaded (runProbe ds p h) = hs_abiLoaded h"
  by (simp_all add: runProbe_def split_beta Let_def)

lemma runProbe_ready:
  "hs_maxBlockAge h < maxDuration \<Longrightarrow> hs_ready (runProbe ds p h) \<longleftrightarrow> healthy h p"
  by (auto simp: runProbe_def healthy_def split_beta Let_def probeChainHead_fst split: option.splits)

lemma runProbe_checks:
  "map_of (hs_status (runProbe ds p h)) ''abi'' = Some (if hs_abiLoaded h then ''loaded'' else ''not_configured'')"
  "map_of (hs_status (runProbe ds p h)) ''evm_rpc''
     = (if hs_checker h then Some (if pe_Ping p = None then ''ok'' else ''unreachable'') else None)"
  by (auto simp: runProbe_def split_beta Let_def update_conv probeChainHead_other split: option.splits)

lemma probed_settings:
  "probed ds h0 l h \<Longrightarrow>
     hs_checker h = hs_checker h0 \<and> hs_head h = hs_head h0 \<and> hs_maxBlockAge h = hs_maxBlockAge h0 \<and> hs_abiLoaded h = hs_abiLoaded h0"
  by (induction rule: probed.induct) (simp_all add: runProbe_settings)

lemma healthy_cong:
  "hs_checker h = hs_checker h0 \<Longrightarrow> hs_head h = hs_head h0 \<Longrightarrow> hs_maxBlockAge h = hs_maxBlockAge h0 \<Longrightarrow> healthy h p = healthy h0 p"
  by (simp add: healthy_def chainFresh_def cong: sum.case_cong)

text \<open>The head of a block of the node, seen through the client.\<close>

lemma head_of_block:
  assumes "r = Returns (Some b)" and "bl_Hash b \<noteq> zeroHash" and "BlockByNumber ul kec False r = Returns nb"
    and "0 \<le> bl_Timestamp b" and "bl_Timestamp b < 2 ^ 62"
  shows "LatestBlockTimestamp (BlockByNumber ul kec False r) = Returns ((bl_Timestamp b + unixToInternal) * Second)"
proof -
  have "normalizeBlock kec b False = Returns nb"
    using assms(1-3) block_returned [of ul kec False r nb] by auto
  then have "nb_TimestampUnix nb = word_of_int (bl_Timestamp b)"
    using assms(4) by (auto simp: normalizeBlock_def safeUnix_def elim!: bindO.elims)
  then have "uint (nb_TimestampUnix nb) = bl_Timestamp b"
    using assms(4,5) by (simp add: uint_word_of_int take_bit_int_eq_self)
  with assms(3-5) show ?thesis
    by (simp add: LatestBlockTimestamp_def withRpc_def Unix_def unixToInternal_def int64_exact)
qed


text \<open>
  Claim C25 (Readiness). Over every sequence of probes the answer of the readiness endpoint is
  that of the latest one: ready exactly if the node answered and the head of the chain, when it is
  watched, was known and not older than the limit; otherwise 503. Its checks name the state of the
  node and of the contract interface. Before the first probe it is ready, with no checks.
\<close>

theorem readiness_exact:
  assumes "probed ds (WithChainStaleness head maxAge (NewHealthServer checker abi)) l h" and "maxAge < maxDuration"
  shows "case l of
      None \<Rightarrow> hr_code (handleReady h) = 200 \<and> hr_checks (handleReady h) = []
    | Some p \<Rightarrow>
        hr_code (handleReady h)
          = (if (checker \<longrightarrow> pe_Ping p = None)
               \<and> (head \<and> 0 < maxAge \<longrightarrow> (\<exists>ts. pe_Head p = Inr ts \<and> pe_now p - ts \<le> maxAge))
             then 200 else 503)
        \<and> map_of (hr_checks (handleReady h)) ''evm_rpc''
            = (if checker then Some (if pe_Ping p = None then ''ok'' else ''unreachable'') else None)
        \<and> map_of (hr_checks (handleReady h)) ''abi'' = Some (if abi then ''loaded'' else ''not_configured'')"
  using assms(1)
proof cases
  case started
  then show ?thesis by (simp add: handleReady_def NewHealthServer_def WithChainStaleness_def)
next
  case (probe l' h' p)
  let ?h0 = "WithChainStaleness head maxAge (NewHealthServer checker abi)"
  note s = probed_settings [OF probe(3)]
  have m: "hs_maxBlockAge h' < maxDuration" using s assms(2) by (simp add: WithChainStaleness_def)
  have "hs_ready h \<longleftrightarrow> (checker \<longrightarrow> pe_Ping p = None)
      \<and> (head \<and> 0 < maxAge \<longrightarrow> (\<exists>ts. pe_Head p = Inr ts \<and> pe_now p - ts \<le> maxAge))"
    using runProbe_ready [OF m, of ds p] probe(2) s
    by (auto simp: healthy_def chainFresh_def WithChainStaleness_def NewHealthServer_def split: sum.splits)
  with probe(1,2) s runProbe_checks [of ds p h'] show ?thesis
    by (auto simp: handleReady_def WithChainStaleness_def NewHealthServer_def)
qed


theorem readiness_exact_witness:
  "hr_code (handleReady (runProbe (\<lambda>_. []) \<lparr>pe_Ping = None, pe_Head = Inr 5, pe_now = 100\<rparr>
      (WithChainStaleness True 60 (NewHealthServer True False)))) = 503"
proof -
  have "probed (\<lambda>_. []) (WithChainStaleness True 60 (NewHealthServer True False))
      (Some \<lparr>pe_Ping = None, pe_Head = Inr 5, pe_now = 100\<rparr>)
      (runProbe (\<lambda>_. []) \<lparr>pe_Ping = None, pe_Head = Inr 5, pe_now = 100\<rparr> (WithChainStaleness True 60 (NewHealthServer True False)))"
    by (rule probed.probe [OF probed.started])
  from readiness_exact [OF this] show ?thesis by (simp add: maxDuration_def)
qed

text \<open>A halted chain is seen: a probe that gets a head older than the limit leaves the server not ready.\<close>

lemma halted_chain_not_ready:
  assumes "BlockByNumber ul kec False (Returns (Some b)) = Returns nb" and "bl_Hash b \<noteq> zeroHash"
    and "0 \<le> bl_Timestamp b" and "bl_Timestamp b < 2 ^ 62"
    and "LatestBlockTimestamp (BlockByNumber ul kec False (Returns (Some b))) = Returns ts" and "pe_Head p = Inr ts"
    and "0 < hs_maxBlockAge h" and "hs_maxBlockAge h < maxDuration" and "hs_head h"
    and "(bl_Timestamp b + unixToInternal) * Second + hs_maxBlockAge h < pe_now p"
  shows "hr_code (handleReady (runProbe ds p h)) = 503"
proof -
  have "ts = (bl_Timestamp b + unixToInternal) * Second"
    using head_of_block [OF refl assms(2,1,3,4)] assms(5) by simp
  then have "\<not> healthy h p" using assms(6,7,9,10) by (auto simp: healthy_def chainFresh_def)
  with runProbe_ready [OF assms(8), of ds p] show ?thesis by (simp add: handleReady_def)
qed

text \<open>
  A head dated in the future is fresh however long the chain stands still: the age is negative.
\<close>

lemma future_head_is_fresh: "pe_Head p = Inr ts \<Longrightarrow> pe_now p \<le> ts \<Longrightarrow> 0 < hs_maxBlockAge h \<Longrightarrow> chainFresh h p"
  by (simp add: chainFresh_def)

end
