(* ===== verification/Key_Mgmt.thy ===== *)
theory Key_Mgmt
  imports Config_Types Key_Store Go_Text Go_Time
begin

text \<open>
  The command line tool for key files (\<^verbatim>\<open>cmd/key-mgmt/main.go\<close>): flags, roles and lifetimes, and
  the commands \<open>create\<close>, \<open>renew\<close>, \<open>disable\<close>, \<open>enable\<close>, \<open>set-roles\<close> and \<open>list\<close> over the key file
  that the server of theory \<open>Key_Store\<close> reads. A run yields its error or what it prints, and the
  file system it leaves. Usage texts, which go to the error stream, are left out; the column
  layout of \<^verbatim>\<open>text/tabwriter\<close> and the date formats are parameters.
\<close>

section \<open>Errors and environment\<close>

definition defaultKeysFile :: string where
  "defaultKeysFile = ''.mcp-keys.json''"

definition errClientExists :: goerr where
  "errClientExists = PkgErr ''main.errClientExists'' ''client already exists''"

definition errClientMissing :: goerr where
  "errClientMissing = PkgErr ''main.errClientMissing'' ''client not found''"

definition errInvalidRole :: goerr where
  "errInvalidRole = PkgErr ''main.errInvalidRole'' ''invalid role; must be one of: reader, writer, admin, automation''"

definition errNoRoles :: goerr where
  "errNoRoles = PkgErr ''main.errNoRoles''
     (''at least one role is required (--roles reader,writer,...); '' @
      ''a key with no roles authorizes nothing'')"

definition errRenewTTLRequired :: goerr where
  "errRenewTTLRequired = PkgErr ''main.errRenewTTLRequired'' ''--ttl is required for renew''"

definition errTTLMustBePositive :: goerr where
  "errTTLMustBePositive = PkgErr ''main.errTTLMustBePositive'' ''--ttl must be positive''"

definition errUsage :: goerr where
  "errUsage = PkgErr ''main.errUsage'' ''see usage''"

text \<open>\<open>ce_now\<close> is the clock when the deadline is computed, \<open>ce_created\<close> when the entry is built.\<close>

record 'd cli_env =
  ce_lib :: cfg_lib
  ce_date :: "time \<Rightarrow> string"
  ce_table :: "string list list \<Rightarrow> string"
  ce_vars :: environ
  ce_dg :: digests
  ce_cd :: "'d codec"
  ce_io :: "'d io"
  ce_now :: time
  ce_created :: time
  ce_rnd :: "goerr + bytes"

type_synonym 'd cli_result = "(goerr + string) \<times> 'd fsys"

section \<open>Arguments\<close>

fun parseFlag :: "string \<Rightarrow> string list \<Rightarrow> string" where
  "parseFlag flag (a # b # args) = (if a = flag then b else parseFlag flag (b # args))"
| "parseFlag flag _ = ''''"

fun collectRoles :: "(string \<Rightarrow> string) \<Rightarrow> string list \<Rightarrow> goerr + string list" where
  "collectRoles uq [] = Inr []"
| "collectRoles uq (p # ps) =
     (let r = TrimSpace p
      in if r = '''' then collectRoles uq ps
         else if \<not> IsValidRole r then
           Inl (Errorf (Quote uq r @ '': '' @ Error errInvalidRole) [errInvalidRole])
         else (case collectRoles uq ps of Inl err \<Rightarrow> Inl err | Inr rs \<Rightarrow> Inr (r # rs)))"

definition parseRoles :: "(string \<Rightarrow> string) \<Rightarrow> string \<Rightarrow> goerr + string list" where
  "parseRoles uq rolesStr = (if rolesStr = '''' then Inr [] else collectRoles uq (Split CHR '','' rolesStr))"

definition defaultKeyTTL :: "cfg_lib \<Rightarrow> environ \<Rightarrow> goerr + duration" where
  "defaultKeyTTL lib env =
     (let s = envOrDefault env ''KEY_DEFAULT_TTL'' ''8760h''
      in case lb_ParseDuration lib s of
           Inl err \<Rightarrow> Inl (invalidEnv lib ''KEY_DEFAULT_TTL'' s err)
         | Inr d \<Rightarrow> Inr d)"

definition resolveCLIExpiry :: "cfg_lib \<Rightarrow> string \<Rightarrow> duration \<Rightarrow> time \<Rightarrow> goerr + time" where
  "resolveCLIExpiry lib ttlStr defaultTTL now =
     (if ttlStr = '''' then Inr (if defaultTTL = 0 then zeroTime else now + defaultTTL)
      else if ttlStr \<in> {''0'', ''none'', ''never''} then Inr zeroTime
      else case lb_ParseDuration lib ttlStr of
             Inl err \<Rightarrow> Inl (invalidEnv lib ''--ttl'' ttlStr err)
           | Inr d \<Rightarrow>
               if d \<le> 0 then Inl (gotErr lib errTTLMustBePositive ttlStr)
               else Inr (now + d))"

section \<open>The commands\<close>

definition loadOrInit :: "'d cli_env \<Rightarrow> string \<Rightarrow> 'd fsys \<Rightarrow> goerr + KeyEntry list" where
  "loadOrInit e path fs =
     (case LoadKeysFile (lb_quote (ce_lib e)) (ce_cd e) (ce_io e) fs path of
        Inr entries \<Rightarrow> Inr entries
      | Inl err \<Rightarrow> if Is err ErrNotExist then Inr [] else Inl err)"

definition quoted :: "'d cli_env \<Rightarrow> string \<Rightarrow> string" where
  "quoted e s = Quote (lb_quote (ce_lib e)) s"

text \<open>Write the entries and, if that worked, print.\<close>

definition saveAndPrint :: "'d cli_env \<Rightarrow> string \<Rightarrow> KeyEntry list \<Rightarrow> string \<Rightarrow> 'd fsys \<Rightarrow> 'd cli_result" where
  "saveAndPrint e path entries out fs =
     (case SaveKeysFile (ce_cd e) (ce_io e) path entries fs of
        (Some err, states) \<Rightarrow> (Inl err, last states)
      | (None, states) \<Rightarrow> (Inr out, last states))"

text \<open>The shared body of the three editing commands: the first entry of the client is changed.\<close>

definition editKey ::
  "'d cli_env \<Rightarrow> string \<Rightarrow> string \<Rightarrow> (KeyEntry \<Rightarrow> KeyEntry) \<Rightarrow> string \<Rightarrow> 'd fsys \<Rightarrow> 'd cli_result" where
  "editKey e path clientID f out fs =
     (case loadOrInit e path fs of
        Inl err \<Rightarrow> (Inl err, fs)
      | Inr entries \<Rightarrow>
          (case index_of (\<lambda>x. ke_ID x = clientID) entries of
             None \<Rightarrow> (Inl (Errorf (''client '' @ quoted e clientID @ '': '' @ Error errClientMissing) [errClientMissing]), fs)
           | Some i \<Rightarrow> saveAndPrint e path (entries[i := f (entries ! i)]) out fs))"

definition nl1 :: string where
  "nl1 = [CHR 0x0A]"

definition setRoles :: "'d cli_env \<Rightarrow> string \<Rightarrow> string \<Rightarrow> string list \<Rightarrow> 'd fsys \<Rightarrow> 'd cli_result" where
  "setRoles e path clientID roles =
     editKey e path clientID (\<lambda>x. x\<lparr>ke_Roles := roles\<rparr>)
       (if length roles = 0 then ''Client '' @ quoted e clientID @ '' roles cleared (no RBAC enforcement).'' @ nl1
        else ''Client '' @ quoted e clientID @ '' roles set to: '' @ Join '', '' roles @ nl1)"

definition setEnabled :: "'d cli_env \<Rightarrow> string \<Rightarrow> string \<Rightarrow> bool \<Rightarrow> 'd fsys \<Rightarrow> 'd cli_result" where
  "setEnabled e path clientID enabled =
     editKey e path clientID (\<lambda>x. x\<lparr>ke_Enabled := enabled\<rparr>)
       (''Client '' @ quoted e clientID @ '' '' @ (if enabled then ''enabled'' else ''disabled'') @ ''.'' @ nl1)"

definition runRenew :: "'d cli_env \<Rightarrow> string \<Rightarrow> string list \<Rightarrow> 'd fsys \<Rightarrow> 'd cli_result" where
  "runRenew e path args fs =
     (case args of
        [] \<Rightarrow> (Inl errUsage, fs)
      | clientID # rest \<Rightarrow>
          (let ttlStr = parseFlag ''--ttl'' rest
           in if ttlStr = '''' then (Inl errRenewTTLRequired, fs)
              else case resolveCLIExpiry (ce_lib e) ttlStr 0 (ce_now e) of
                     Inl err \<Rightarrow> (Inl err, fs)
                   | Inr expiresAt \<Rightarrow>
                       editKey e path clientID (\<lambda>x. x\<lparr>ke_ExpiresAt := expiresAt\<rparr>)
                         (if IsZero expiresAt then ''Client '' @ quoted e clientID @ '' expiry cleared (no expiry).'' @ nl1
                          else ''Client '' @ quoted e clientID @ '' renewed; expires: '' @ FormatRFC3339 expiresAt @ nl1) fs))"

definition createdText :: "'d cli_env \<Rightarrow> string \<Rightarrow> string \<Rightarrow> string \<Rightarrow> string list \<Rightarrow> time \<Rightarrow> string" where
  "createdText e path clientID key roles expiresAt =
     ''Created key for '' @ quoted e clientID @ '':'' @ nl1 @ nl1 @
     ''  Bearer '' @ key @ nl1 @ nl1 @
     (if 0 < length roles then ''  Roles: '' @ Join '', '' roles @ nl1 else '''') @
     (if IsZero expiresAt then ''  Expires: no expiry'' @ nl1 else ''  Expires: '' @ FormatRFC3339 expiresAt @ nl1) @
     ''Store this key securely '' @ map char_of [0xE2, 0x80, 0x94 :: nat] @ '' it cannot be retrieved later.'' @ nl1 @
     ''Keys file: '' @ path @ nl1"

definition cliHasher :: "environ \<Rightarrow> KeyHasher option" where
  "cliHasher vars = Some (NewKeyHasher (Getenv vars ''KEY_HMAC_PEPPER'') (Getenv vars ''KEY_HMAC_PEPPER_PREVIOUS''))"

definition createKey :: "'d cli_env \<Rightarrow> string \<Rightarrow> string \<Rightarrow> string list \<Rightarrow> time \<Rightarrow> 'd fsys \<Rightarrow> 'd cli_result" where
  "createKey e path clientID roles expiresAt fs =
     (case loadOrInit e path fs of
        Inl err \<Rightarrow> (Inl err, fs)
      | Inr entries \<Rightarrow>
          if list_ex (\<lambda>x. ke_ID x = clientID) entries then
            (Inl (Errorf (''client '' @ quoted e clientID @
                    '' (use '' @ [CHR 0x27] @ ''enable'' @ [CHR 0x27] @ '' to re-activate a disabled key): '' @
                    Error errClientExists) [errClientExists]), fs)
          else if Getenv (ce_vars e) ''KEY_HMAC_PEPPER_PREVIOUS'' \<noteq> '''' \<and> Getenv (ce_vars e) ''KEY_HMAC_PEPPER'' = ''''
            then (Inl ErrPepperPreviousWithoutActive, fs)
          else case GenerateKey (ce_rnd e) of
                 Inl err \<Rightarrow> (Inl err, fs)
               | Inr key \<Rightarrow>
                   (let entry = (NewKeyEntryWithHasher (ce_dg e) (ce_created e) clientID key roles (cliHasher (ce_vars e)))
                                  \<lparr>ke_ExpiresAt := expiresAt\<rparr>
                    in saveAndPrint e path (entries @ [entry]) (createdText e path clientID key roles expiresAt) fs))"

definition runCreate :: "'d cli_env \<Rightarrow> string \<Rightarrow> string list \<Rightarrow> 'd fsys \<Rightarrow> 'd cli_result" where
  "runCreate e path args fs =
     (case args of
        [] \<Rightarrow> (Inl errUsage, fs)
      | clientID # rest \<Rightarrow>
          (case parseRoles (lb_quote (ce_lib e)) (parseFlag ''--roles'' rest) of
             Inl err \<Rightarrow> (Inl err, fs)
           | Inr roles \<Rightarrow>
               if length roles = 0 then (Inl errNoRoles, fs)
               else case defaultKeyTTL (ce_lib e) (ce_vars e) of
                 Inl err \<Rightarrow> (Inl err, fs)
               | Inr defaultTTL \<Rightarrow>
                   (case resolveCLIExpiry (ce_lib e) (parseFlag ''--ttl'' rest) defaultTTL (ce_now e) of
                      Inl err \<Rightarrow> (Inl err, fs)
                    | Inr expiresAt \<Rightarrow> createKey e path clientID roles expiresAt fs)))"

definition runSetEnabled :: "'d cli_env \<Rightarrow> string \<Rightarrow> string list \<Rightarrow> bool \<Rightarrow> 'd fsys \<Rightarrow> 'd cli_result" where
  "runSetEnabled e path args enabled fs =
     (case args of [] \<Rightarrow> (Inl errUsage, fs) | clientID # _ \<Rightarrow> setEnabled e path clientID enabled fs)"

definition runSetRoles :: "'d cli_env \<Rightarrow> string \<Rightarrow> string list \<Rightarrow> 'd fsys \<Rightarrow> 'd cli_result" where
  "runSetRoles e path args fs =
     (case args of
        clientID # rolesStr # _ \<Rightarrow>
          (case parseRoles (lb_quote (ce_lib e)) rolesStr of
             Inl err \<Rightarrow> (Inl err, fs)
           | Inr roles \<Rightarrow> setRoles e path clientID roles fs)
      | _ \<Rightarrow> (Inl errUsage, fs))"

definition listRow :: "'d cli_env \<Rightarrow> KeyEntry \<Rightarrow> string list" where
  "listRow e x =
     (let prefix = (if ke_KeyPrefix x = '''' \<and> ke_Key x \<noteq> '''' then
                      (if 8 < length (ke_Key x) then take 8 (ke_Key x) @ ''...'' else ke_Key x)
                    else ke_KeyPrefix x);
          roles = Join '','' (ke_Roles x)
      in [ke_ID x, if ke_Enabled x then ''enabled'' else ''disabled'',
          if roles = '''' then ''(none)'' else roles, ce_date e (ke_CreatedAt x), prefix])"

definition listKeys :: "'d cli_env \<Rightarrow> string \<Rightarrow> 'd fsys \<Rightarrow> 'd cli_result" where
  "listKeys e path fs =
     (case loadOrInit e path fs of
        Inl err \<Rightarrow> (Inl err, fs)
      | Inr entries \<Rightarrow>
          if length entries = 0 then (Inr (''No keys found in '' @ path @ nl1), fs)
          else (Inr (ce_table e
                  ([''CLIENT ID'', ''STATUS'', ''ROLES'', ''CREATED'', ''KEY PREFIX''] #
                   [''---------'', ''------'', ''-----'', ''-------'', ''----------''] # map (listRow e) entries)), fs))"

definition keysFile :: "environ \<Rightarrow> string" where
  "keysFile vars = envOrDefault vars ''MCP_API_KEYS_FILE'' defaultKeysFile"

definition cli_run :: "'d cli_env \<Rightarrow> string list \<Rightarrow> 'd fsys \<Rightarrow> 'd cli_result" where
  "cli_run e args fs =
     (case args of
        [] \<Rightarrow> (Inl errUsage, fs)
      | cmd # rest \<Rightarrow>
          (let path = keysFile (ce_vars e)
           in if cmd = ''create'' then runCreate e path rest fs
              else if cmd = ''renew'' then runRenew e path rest fs
              else if cmd = ''disable'' then runSetEnabled e path rest False fs
              else if cmd = ''enable'' then runSetEnabled e path rest True fs
              else if cmd = ''set-roles'' then runSetRoles e path rest fs
              else if cmd = ''list'' then listKeys e path fs
              else (Inl errUsage, fs)))"

section \<open>What a run does to the file\<close>

text \<open>
  \<open>one_edit es es'\<close>: one entry was added, enabled, with valid roles and under an identifier not
  in use, or the first entry of one client changed in its roles, its switch or its deadline.
\<close>

definition same_key :: "KeyEntry \<Rightarrow> KeyEntry \<Rightarrow> bool" where
  "same_key x y \<longleftrightarrow>
     (\<exists>roles enabled expt. y = x\<lparr>ke_Roles := roles, ke_Enabled := enabled, ke_ExpiresAt := expt\<rparr>)"

definition one_edit :: "KeyEntry list \<Rightarrow> KeyEntry list \<Rightarrow> bool" where
  "one_edit es es' \<longleftrightarrow>
     (\<exists>x. es' = es @ [x] \<and> ke_ID x \<notin> ke_ID ` set es \<and> ke_Enabled x \<and> ke_Key x = ''''
        \<and> ke_Roles x \<noteq> [] \<and> list_all IsValidRole (ke_Roles x))
     \<or> (\<exists>i < length es. \<exists>x. es' = es[i := x] \<and> same_key (es ! i) x \<and> ke_ID (es ! i) \<notin> ke_ID ` set (take i es))"

lemma collectRoles_valid: "collectRoles uq ps = Inr rs \<Longrightarrow> list_all IsValidRole rs"
  by (induction ps arbitrary: rs) (auto simp: Let_def split: if_splits sum.splits)

lemma parseRoles_valid: "parseRoles uq s = Inr rs \<Longrightarrow> list_all IsValidRole rs"
  by (auto simp: parseRoles_def dest: collectRoles_valid split: if_splits)

text \<open>
  \<open>file_step\<close>: an error leaves the file, success leaves it or replaces it by one edit of what
  was loaded; no file but the temporary one is touched besides.
\<close>

definition file_step :: "'d cli_env \<Rightarrow> string \<Rightarrow> 'd fsys \<Rightarrow> 'd cli_result \<Rightarrow> bool" where
  "file_step e path fs r \<longleftrightarrow>
     (\<forall>q. q \<noteq> path \<and> q \<noteq> io_tmpPath (ce_io e) \<longrightarrow> snd r q = fs q)
     \<and> (case fst r of
          Inl err \<Rightarrow> snd r path = fs path
        | Inr out \<Rightarrow> snd r = fs \<or>
            (\<exists>es es'. loadOrInit e path fs = Inr es \<and> one_edit es es' \<and> snd r path = Some (Marshal (ce_cd e) es')))"

lemma file_step_idle [simp]: "file_step e path fs (r, fs)"
  by (simp add: file_step_def split: sum.split)

lemma saveAndPrint_step:
  assumes "io_tmpPath (ce_io e) \<noteq> path" "loadOrInit e path fs = Inr es" "one_edit es es'"
  shows "file_step e path fs (saveAndPrint e path es' out fs)"
proof -
  obtain r sts where s: "SaveKeysFile (ce_cd e) (ce_io e) path es' fs = (r, sts)" by fastforce
  note spec = SaveKeysFile_spec [OF s assms(1)]
  have l: "last sts \<in> set sts" using spec(1) by simp
  show ?thesis
  proof (cases r)
    case None
    with s l spec(2,4) assms(2,3) show ?thesis by (auto simp: file_step_def saveAndPrint_def)
  next
    case (Some err)
    with s l spec(2,3) show ?thesis by (auto simp: file_step_def saveAndPrint_def)
  qed
qed

lemma index_of_first:
  "index_of P xs = Some i \<Longrightarrow> i < length xs \<and> P (xs ! i) \<and> (\<forall>x \<in> set (take i xs). \<not> P x)"
  using index_of_SomeD [of P xs i] by (auto simp: in_set_conv_nth)

lemma editKey_step:
  assumes "io_tmpPath (ce_io e) \<noteq> path" "\<And>x. same_key x (f x)"
  shows "file_step e path fs (editKey e path cid f out fs)"
proof (cases "loadOrInit e path fs")
  case (Inr es)
  show ?thesis
  proof (cases "index_of (\<lambda>x. ke_ID x = cid) es")
    case (Some i)
    from index_of_first [OF this] have "one_edit es (es[i := f (es ! i)])"
      using assms(2) unfolding one_edit_def by fastforce
    with Inr Some saveAndPrint_step [OF assms(1) Inr] show ?thesis by (simp add: editKey_def)
  qed (simp add: editKey_def Inr)
qed (simp add: editKey_def)

lemma same_key_edits:
  "same_key x (x\<lparr>ke_Roles := roles\<rparr>)" "same_key x (x\<lparr>ke_Enabled := enabled\<rparr>)" "same_key x (x\<lparr>ke_ExpiresAt := expt\<rparr>)"
proof -
  have "x\<lparr>ke_Roles := roles\<rparr> = x\<lparr>ke_Roles := roles, ke_Enabled := ke_Enabled x, ke_ExpiresAt := ke_ExpiresAt x\<rparr>"
    "x\<lparr>ke_Enabled := enabled\<rparr> = x\<lparr>ke_Roles := ke_Roles x, ke_Enabled := enabled, ke_ExpiresAt := ke_ExpiresAt x\<rparr>"
    "x\<lparr>ke_ExpiresAt := expt\<rparr> = x\<lparr>ke_Roles := ke_Roles x, ke_Enabled := ke_Enabled x, ke_ExpiresAt := expt\<rparr>" by simp_all
  then show "same_key x (x\<lparr>ke_Roles := roles\<rparr>)" "same_key x (x\<lparr>ke_Enabled := enabled\<rparr>)"
    "same_key x (x\<lparr>ke_ExpiresAt := expt\<rparr>)" unfolding same_key_def by blast+
qed

lemma new_entry:
  "ke_ID ((NewKeyEntryWithHasher dg now cid raw roles h)\<lparr>ke_ExpiresAt := t\<rparr>) = cid"
  "ke_Enabled ((NewKeyEntryWithHasher dg now cid raw roles h)\<lparr>ke_ExpiresAt := t\<rparr>)"
  "ke_Roles ((NewKeyEntryWithHasher dg now cid raw roles h)\<lparr>ke_ExpiresAt := t\<rparr>) = roles"
  "ke_Key ((NewKeyEntryWithHasher dg now cid raw roles h)\<lparr>ke_ExpiresAt := t\<rparr>) = ''''"
  "ke_ExpiresAt ((NewKeyEntryWithHasher dg now cid raw roles h)\<lparr>ke_ExpiresAt := t\<rparr>) = t"
  "ke_KeyHash ((NewKeyEntryWithHasher dg now cid raw roles h)\<lparr>ke_ExpiresAt := t\<rparr>) = fst (HashForStore dg h raw)"
  by (simp_all add: NewKeyEntryWithHasher_def split: prod.split)

lemma createKey_step:
  assumes "io_tmpPath (ce_io e) \<noteq> path" "roles \<noteq> []" "list_all IsValidRole roles"
  shows "file_step e path fs (createKey e path cid roles expt fs)"
proof (cases "loadOrInit e path fs")
  case (Inr es)
  have "one_edit es (es @ [(NewKeyEntryWithHasher (ce_dg e) (ce_created e) cid key roles h)\<lparr>ke_ExpiresAt := expt\<rparr>])"
    if "\<not> list_ex (\<lambda>x. ke_ID x = cid) es" for key h
    unfolding one_edit_def using that assms(2,3)
    by (intro disjI1 exI conjI) (rule refl, auto simp: new_entry list_ex_iff)
  then show ?thesis
    using saveAndPrint_step [OF assms(1) Inr] by (auto simp: createKey_def Inr Let_def split: sum.splits)
qed (simp add: createKey_def)




section \<open>A created key in the server\<close>

lemma createKey_ok:
  assumes "createKey e path cid roles expt fs = (Inr out, fs')" "io_tmpPath (ce_io e) \<noteq> path"
  obtains es key where "loadOrInit e path fs = Inr es" "cid \<notin> ke_ID ` set es" "GenerateKey (ce_rnd e) = Inr key"
    "out = createdText e path cid key roles expt"
    "fs' path = Some (Marshal (ce_cd e)
       (es @ [(NewKeyEntryWithHasher (ce_dg e) (ce_created e) cid key roles (cliHasher (ce_vars e)))\<lparr>ke_ExpiresAt := expt\<rparr>]))"
proof -
  from assms(1) obtain es key where c: "loadOrInit e path fs = Inr es" "\<not> list_ex (\<lambda>x. ke_ID x = cid) es"
    "GenerateKey (ce_rnd e) = Inr key"
    "saveAndPrint e path (es @ [(NewKeyEntryWithHasher (ce_dg e) (ce_created e) cid key roles (cliHasher (ce_vars e)))
       \<lparr>ke_ExpiresAt := expt\<rparr>]) (createdText e path cid key roles expt) fs = (Inr out, fs')"
    by (auto simp: createKey_def Let_def split: sum.splits if_splits)
  from c(2) have "cid \<notin> ke_ID ` set es" by (auto simp: list_ex_iff)
  with c(1,3,4) SaveKeysFile_spec(4) [OF _ assms(2)] show thesis
    by (auto simp: saveAndPrint_def intro!: that split: prod.splits option.splits)
qed

lemma runCreate_ok:
  assumes "runCreate e path (cid # rest) fs = (Inr out, fs')"
  obtains roles ttl expt where "parseRoles (lb_quote (ce_lib e)) (parseFlag ''--roles'' rest) = Inr roles" "roles \<noteq> []"
    "defaultKeyTTL (ce_lib e) (ce_vars e) = Inr ttl"
    "resolveCLIExpiry (ce_lib e) (parseFlag ''--ttl'' rest) ttl (ce_now e) = Inr expt"
    "createKey e path cid roles expt fs = (Inr out, fs')"
  using assms by (auto simp: runCreate_def intro!: that split: sum.splits if_splits)

lemma resolveCLIExpiry_future:
  "resolveCLIExpiry lib ttlStr ttl now = Inr expt \<Longrightarrow> ttlStr \<noteq> '''' \<or> 0 \<le> ttl \<Longrightarrow> expt = zeroTime \<or> now < expt"
  by (auto simp: resolveCLIExpiry_def split: if_splits sum.splits)

lemma loaded_wf:
  assumes "proper_digests dg" "\<forall>x \<in> set es. live x" "distinct (map ke_ID es)"
  shows "mk_wf dg \<lparr>mk_store = NewKeyStoreWithHasher dg es h, mk_entries = es, mk_path = path, mk_hasher = h\<rparr>"
  using assms by (simp add: mk_wf_def live_def map_idI migrateEntry_fix)

text \<open>
  A key made by the tool works in the server. Let a run of \<^verbatim>\<open>create\<close> succeed on a key
  file whose entries are in the current format and have distinct identifiers. Then a server that
  starts on the file with the same peppers loads it, and the key that was printed authenticates
  there as that client with exactly the roles given, at least one and all valid, from now until
  the deadline the flags ask for and as expired from then on; a deadline is in the future unless
  \<^verbatim>\<open>KEY_DEFAULT_TTL\<close> is negative. Every token that is not filed under the new digest is judged
  as by a server that started before.
\<close>

theorem cli_key_served:
  assumes run: "cli_run e (''create'' # cid # rest) fs = (Inr out, fs')"
    and tmp: "io_tmpPath (ce_io e) \<noteq> keysFile (ce_vars e)"
    and codec: "\<forall>es. Unmarshal (ce_cd e) (Marshal (ce_cd e) es) = Inr es"
    and old: "loadOrInit e (keysFile (ce_vars e)) fs = Inr es" "\<forall>x \<in> set es. live x" "distinct (map ke_ID es)"
    and dg: "proper_digests (ce_dg e)" and q: "quiet io'"
    and fresh: "\<forall>k. GenerateKey (ce_rnd e) = Inr k \<longrightarrow>
       (\<forall>x \<in> set es. ke_KeyHash x \<notin> set (candidate_hashes (ce_dg e) (cliHasher (ce_vars e)) k))"
  shows "\<exists>key roles ttl expt m. out = createdText e (keysFile (ce_vars e)) cid key roles expt
    \<and> roles \<noteq> [] \<and> list_all IsValidRole roles \<and> parseRoles (lb_quote (ce_lib e)) (parseFlag ''--roles'' rest) = Inr roles
    \<and> defaultKeyTTL (ce_lib e) (ce_vars e) = Inr ttl
    \<and> resolveCLIExpiry (ce_lib e) (parseFlag ''--ttl'' rest) ttl (ce_now e) = Inr expt
    \<and> (0 \<le> ttl \<longrightarrow> expt = zeroTime \<or> ce_now e < expt)
    \<and> NewManagedKeyStoreWithHasher uq (ce_dg e) (ce_cd e) io' (keysFile (ce_vars e)) (cliHasher (ce_vars e)) fs' = (Inr m, fs')
    \<and> (\<forall>t. authenticate (ce_dg e) t m key =
          Some (if expt \<noteq> zeroTime \<and> expt \<le> t then Inl ErrKeyExpired else Inr \<lparr>cl_ClientID = cid, cl_Roles = roles\<rparr>))
    \<and> (\<forall>t token. fst (HashForStore (ce_dg e) (cliHasher (ce_vars e)) key)
             \<notin> set (candidate_hashes (ce_dg e) (cliHasher (ce_vars e)) token) \<longrightarrow>
          authenticate (ce_dg e) t m token =
          authenticate (ce_dg e) t \<lparr>mk_store = NewKeyStoreWithHasher (ce_dg e) es (cliHasher (ce_vars e)), mk_entries = es,
            mk_path = keysFile (ce_vars e), mk_hasher = cliHasher (ce_vars e)\<rparr> token)"
proof -
  let ?p = "keysFile (ce_vars e)" and ?h = "cliHasher (ce_vars e)" and ?dg = "ce_dg e"
  from run have "runCreate e ?p (cid # rest) fs = (Inr out, fs')" by (simp add: cli_run_def)
  then obtain roles ttl expt where r: "parseRoles (lb_quote (ce_lib e)) (parseFlag ''--roles'' rest) = Inr roles" "roles \<noteq> []"
    "defaultKeyTTL (ce_lib e) (ce_vars e) = Inr ttl"
    "resolveCLIExpiry (ce_lib e) (parseFlag ''--ttl'' rest) ttl (ce_now e) = Inr expt"
    "createKey e ?p cid roles expt fs = (Inr out, fs')" by (rule runCreate_ok)
  from createKey_ok [OF r(5) tmp] old(1) obtain key where k: "cid \<notin> ke_ID ` set es" "GenerateKey (ce_rnd e) = Inr key"
    "out = createdText e ?p cid key roles expt"
    "fs' ?p = Some (Marshal (ce_cd e)
       (es @ [(NewKeyEntryWithHasher ?dg (ce_created e) cid key roles ?h)\<lparr>ke_ExpiresAt := expt\<rparr>]))"
    by auto
  define x where "x = (NewKeyEntryWithHasher ?dg (ce_created e) cid key roles ?h)\<lparr>ke_ExpiresAt := expt\<rparr>"
  define m where "m = \<lparr>mk_store = NewKeyStoreWithHasher ?dg (es @ [x]) ?h, mk_entries = es @ [x], mk_path = ?p, mk_hasher = ?h\<rparr>"
  have x: "live x" "ke_ID x = cid" "ke_KeyHash x = fst (HashForStore ?dg ?h key)"
    using new_entry_live [OF dg] new_entry_WriteApproval new_entry by (simp_all add: x_def live_def)
  have wf: "mk_wf ?dg m"
    unfolding m_def by (rule loaded_wf [OF dg]) (use x k(1) old(2,3) in auto)
  have "NewManagedKeyStoreWithHasher uq ?dg (ce_cd e) io' ?p ?h fs' = (Inr m, fs')"
    unfolding m_def by (rule load_saved [where fs = fs' and path = ?p, OF k(4) [folded x_def] codec _ q]) (use x(1) old(2) in \<open>auto simp: live_def\<close>)
  moreover have "authenticate ?dg t m key =
      Some (if expt \<noteq> zeroTime \<and> expt \<le> t then Inl ErrKeyExpired else Inr \<lparr>cl_ClientID = cid, cl_Roles = roles\<rparr>)" for t
  proof -
    have "authenticate ?dg t m key = Some (verdict x t)"
      by (rule authenticate_entry [OF wf])
         (use x(3) HashForStore_candidate fresh k(2) in \<open>auto simp: m_def\<close>)
    also have "verdict x t = (if expt \<noteq> zeroTime \<and> expt \<le> t then Inl ErrKeyExpired else Inr \<lparr>cl_ClientID = cid, cl_Roles = roles\<rparr>)"
      by (auto simp: verdict_def classifyEntry_def x_def new_entry IsZero_def Before_def)
    finally show ?thesis .
  qed
  moreover have "authenticate ?dg t m token = authenticate ?dg t
      \<lparr>mk_store = NewKeyStoreWithHasher ?dg es ?h, mk_entries = es, mk_path = ?p, mk_hasher = ?h\<rparr> token"
    if "fst (HashForStore ?dg ?h key) \<notin> set (candidate_hashes ?dg ?h token)" for t token
  proof (rule authenticate_cong)
    fix c assume "c \<in> set (candidate_hashes ?dg (mk_hasher
        \<lparr>mk_store = NewKeyStoreWithHasher ?dg es ?h, mk_entries = es, mk_path = ?p, mk_hasher = ?h\<rparr>) token)"
    moreover have "migrateEntry ?dg x = x" using x(1) by (simp add: live_def migrateEntry_fix)
    ultimately have "ke_KeyHash (migrateEntry ?dg x) \<noteq> c" using that x(3) by auto
    then show "byHash (mk_store m) c = byHash (mk_store
        \<lparr>mk_store = NewKeyStoreWithHasher ?dg es ?h, mk_entries = es, mk_path = ?p, mk_hasher = ?h\<rparr>) c"
      by (simp add: m_def byHash_snoc)
  qed (simp_all add: m_def)
  ultimately show ?thesis using r k(3) parseRoles_valid resolveCLIExpiry_future by blast
qed



section \<open>The tool beside a running server\<close>

text \<open>
  The server reads the key file once, when it starts, and afterwards writes the whole file from
  the entries it holds. The runbook lists \<^verbatim>\<open>key-mgmt disable\<close> as a switch that rejects at once.
\<close>

lemma disable_ok:
  assumes "cli_run e [''disable'', cid] fs = (Inr out, fs1)" "io_tmpPath (ce_io e) \<noteq> keysFile (ce_vars e)"
  obtains es x where "fs1 (keysFile (ce_vars e)) = Some (Marshal (ce_cd e) es)" "x \<in> set es" "ke_ID x = cid" "\<not> ke_Enabled x"
proof -
  let ?p = "keysFile (ce_vars e)"
  from assms(1) obtain es i where i: "index_of (\<lambda>x. ke_ID x = cid) es = Some i"
    and s: "saveAndPrint e ?p (es[i := (es ! i)\<lparr>ke_Enabled := False\<rparr>])
      (''Client '' @ quoted e cid @ '' '' @ ''disabled'' @ ''.'' @ nl1) fs = (Inr out, fs1)"
    by (simp add: cli_run_def runSetEnabled_def setEnabled_def editKey_def split: sum.splits option.splits)
  from index_of_first [OF i] have "(es ! i)\<lparr>ke_Enabled := False\<rparr> \<in> set (es[i := (es ! i)\<lparr>ke_Enabled := False\<rparr>])"
    "ke_ID (es ! i) = cid" by (simp_all add: set_update_memI)
  with s SaveKeysFile_spec(4) [OF _ assms(2)] show thesis
    by (auto simp: saveAndPrint_def intro!: that split: prod.splits option.splits)
qed

text \<open>
  Disabling a key with the tool does not reach a running server, and is undone. Let
  the tool disable a client whose key is live in a running server on the same file: the file
  then holds the entry switched off, but the server still accepts the key; and as soon as the
  server itself creates any other key, the file holds the enabled entry again, so that the key
  is accepted after a restart as well.
\<close>

theorem cli_revocation_undone:
  assumes cli: "cli_run e [''disable'', cid] fs = (Inr out, fs1)" "io_tmpPath (ce_io e) \<noteq> keysFile (ce_vars e)"
    and server: "mk_wf dg m" "mk_path m = keysFile (ce_vars e)" "x \<in> set (mk_entries m)" "verdict x t = Inr c"
    and key: "ke_KeyHash x \<in> set (candidate_hashes dg (mk_hasher m) k)"
      "\<forall>y \<in> set (mk_entries m). ke_KeyHash y \<in> set (candidate_hashes dg (mk_hasher m) k) \<longrightarrow> y = x"
    and create: "Create uq dg cd io now rnd cid' roles expt m fs1 = (Inr (su, raw), m', fs2)" "io_tmpPath io \<noteq> mk_path m"
    and other: "fst (HashForStore dg (mk_hasher m) raw) \<notin> set (candidate_hashes dg (mk_hasher m) k)"
  shows "(\<exists>es y. fs1 (mk_path m) = Some (Marshal (ce_cd e) es) \<and> y \<in> set es \<and> ke_ID y = cid \<and> \<not> ke_Enabled y)
    \<and> authenticate dg t m k = Some (Inr c)
    \<and> fs2 (mk_path m) = Some (Marshal cd (mk_entries m')) \<and> x \<in> set (mk_entries m')
    \<and> authenticate dg t m' k = Some (Inr c)"
proof -
  have 1: "\<exists>es y. fs1 (mk_path m) = Some (Marshal (ce_cd e) es) \<and> y \<in> set es \<and> ke_ID y = cid \<and> \<not> ke_Enabled y"
    by (rule disable_ok [OF cli]) (auto simp: server(2))
  have 2: "authenticate dg t m k = Some (Inr c)"
    using authenticate_entry [OF server(1,3) key] server(4) by simp
  define y where "y = (NewKeyEntryWithHasher dg now cid' raw roles (mk_hasher m))\<lparr>ke_ExpiresAt := expt\<rparr>"
  have p: "proper_digests dg" and mig: "map (migrateEntry dg) (mk_entries m) = mk_entries m"
    using server(1) by (simp_all add: mk_wf_def)
  have m': "mk_entries m' = mk_entries m @ [y]" "mk_hasher m' = mk_hasher m"
    using Create_Inr(3) [OF create(1)] mig new_entry_migrated [OF p] by (simp_all add: y_def)
  obtain sts where "SaveKeysFile cd io (mk_path m) (mk_entries m') fs1 = (None, sts)" "fs2 = last sts"
    using Create_Inr(4) [OF create(1)] m'(1) by (auto simp: y_def)
  with SaveKeysFile_spec(4) [OF _ create(2)] have 3: "fs2 (mk_path m) = Some (Marshal cd (mk_entries m'))" by simp
  have mem: "x \<in> set (mk_entries m')" using m'(1) server(3) by simp
  have cand: "ke_KeyHash x \<in> set (candidate_hashes dg (mk_hasher m') k)" using key(1) m'(2) by simp
  have hy: "ke_KeyHash y \<notin> set (candidate_hashes dg (mk_hasher m) k)" unfolding y_def new_entry by (rule other)
  have uniq: "\<forall>z \<in> set (mk_entries m'). ke_KeyHash z \<in> set (candidate_hashes dg (mk_hasher m') k) \<longrightarrow> z = x"
  proof
    fix z assume "z \<in> set (mk_entries m')"
    then have "z \<in> set (mk_entries m) \<or> z = y" by (auto simp only: m'(1) set_append list.set)
    then show "ke_KeyHash z \<in> set (candidate_hashes dg (mk_hasher m') k) \<longrightarrow> z = x"
      unfolding m'(2) using bspec [OF key(2)] hy by (elim disjE) simp_all
  qed
  have "authenticate dg t m' k = Some (Inr c)"
    using authenticate_entry [OF Create_wf [OF create(1) server(1)] mem cand uniq] server(4) by simp
  with 1 2 3 mem show ?thesis by (intro conjI)
qed



section \<open>A concrete run\<close>

definition tool_env :: "KeyEntry list cli_env" where
  "tool_env =
     \<lparr>ce_lib = \<lparr>lb_quote = id, lb_ParseDuration = (\<lambda>s. Inr 24), lb_ParseFloat = (\<lambda>s. Inr NaN)\<rparr>,
      ce_date = (\<lambda>t. ''D''), ce_table = concat \<circ> concat,
      ce_vars = [''MCP_API_KEYS_FILE'' \<mapsto> ''keys.json''], ce_dg = tag_digests, ce_cd = plain_codec, ce_io = calm_io,
      ce_now = 10, ce_created = 11, ce_rnd = Inr ''k''\<rparr>"

lemma tool_env_fields:
  "keysFile (ce_vars tool_env) = ''keys.json''" "io_tmpPath (ce_io tool_env) \<noteq> ''keys.json''" "ce_cd tool_env = plain_codec"
  "ce_dg tool_env = tag_digests" "ce_io tool_env = calm_io" "ce_now tool_env = 10"
  by (simp_all add: tool_env_def keysFile_def envOrDefault_def Getenv_def calm_io_def)

lemma tool_load: "loadOrInit tool_env ''keys.json'' [''keys.json'' \<mapsto> [bob_entry]] = Inr [bob_entry]"
  by (simp add: loadOrInit_def LoadKeysFile_def loadKeysFromPath_def tool_env_def calm_io_def plain_codec_def
      bob_entry_def NewKeyEntryWithHasher_def HashForStore_def)

lemma tool_save:
  obtains fs' where "saveAndPrint tool_env ''keys.json'' es out fs = (Inr out, fs')"
proof -
  have "fst (SaveKeysFile plain_codec calm_io ''keys.json'' es fs) = None"
    by (rule calm_SaveKeysFile) simp
  then show thesis using that by (cases "SaveKeysFile plain_codec calm_io ''keys.json'' es fs")
    (simp add: saveAndPrint_def tool_env_fields)
qed


lemma reader_role: "parseRoles uq ''reader'' = Inr [''reader'']"
  by (simp add: parseRoles_def TrimSpace_visible IsValidRole_def validRoles_def)

lemma tool_create:
  obtains out fs' where "cli_run tool_env [''create'', ''alice'', ''--roles'', ''reader''] [''keys.json'' \<mapsto> [bob_entry]] = (Inr out, fs')"
proof -
  let ?fs = "[''keys.json'' \<mapsto> [bob_entry]]"
  have key: "GenerateKey (ce_rnd tool_env) = Inr (b64enc urlDigit False ''k'')" "ke_ID bob_entry \<noteq> ''alice''"
    "Getenv (ce_vars tool_env) ''KEY_HMAC_PEPPER_PREVIOUS'' = ''''"
    by (simp_all add: GenerateKey_def tool_env_def bob_entry_def Getenv_def)
  have ttl: "defaultKeyTTL (ce_lib tool_env) (ce_vars tool_env) = Inr 24"
    by (simp add: defaultKeyTTL_def tool_env_def)
  obtain out fs' where "createKey tool_env ''keys.json'' ''alice'' [''reader''] 34 ?fs = (Inr out, fs')"
  proof (rule tool_save)
    fix fs' assume "saveAndPrint tool_env ''keys.json''
      ([bob_entry] @ [(NewKeyEntryWithHasher (ce_dg tool_env) (ce_created tool_env) ''alice'' (b64enc urlDigit False ''k'')
         [''reader''] (cliHasher (ce_vars tool_env)))\<lparr>ke_ExpiresAt := 34\<rparr>])
      (createdText tool_env ''keys.json'' ''alice'' (b64enc urlDigit False ''k'') [''reader''] 34) ?fs
      = (Inr (createdText tool_env ''keys.json'' ''alice'' (b64enc urlDigit False ''k'') [''reader''] 34), fs')"
    moreover have "\<not> list_ex (\<lambda>x. ke_ID x = ''alice'') [bob_entry]" using key(2) by simp
    ultimately show thesis
      using that unfolding createKey_def tool_load sum.case key Let_def by (simp only: if_False if_True simp_thms)
  qed
  moreover have "cli_run tool_env [''create'', ''alice'', ''--roles'', ''reader''] ?fs
      = createKey tool_env ''keys.json'' ''alice'' [''reader''] 34 ?fs"
    by (simp add: cli_run_def runCreate_def tool_env_fields reader_role ttl resolveCLIExpiry_def)
  ultimately show thesis using that by simp
qed

theorem cli_key_served_witness:
  "\<exists>key out fs' m. cli_run tool_env [''create'', ''alice'', ''--roles'', ''reader''] [''keys.json'' \<mapsto> [bob_entry]] = (Inr out, fs')
     \<and> NewManagedKeyStoreWithHasher id tag_digests plain_codec calm_io ''keys.json'' (cliHasher (ce_vars tool_env)) fs' = (Inr m, fs')
     \<and> authenticate tag_digests 20 m key = Some (Inr \<lparr>cl_ClientID = ''alice'', cl_Roles = [''reader'']\<rparr>)
     \<and> authenticate tag_digests 40 m key = Some (Inl ErrKeyExpired)"
proof (rule tool_create)
  fix out fs' assume run: "cli_run tool_env [''create'', ''alice'', ''--roles'', ''reader''] [''keys.json'' \<mapsto> [bob_entry]] = (Inr out, fs')"
  have h: "cliHasher (ce_vars tool_env) = Some \<lparr>active = None, previous = None\<rparr>"
    by (simp add: cliHasher_def NewKeyHasher_def tool_env_def Getenv_def)
  have bob: "live bob_entry" "ke_KeyHash bob_entry = EncodeToString (CHR ''s'' # ''bobkey'')"
    by (simp_all add: live_def needsMigration_def bob_entry_def NewKeyEntryWithHasher_def HashForStore_def HashKey_def tag_digests_def)
  have ttl: "parseFlag ''--ttl'' [''--roles'', ''reader''] = ''''" "parseFlag ''--roles'' [''--roles'', ''reader''] = ''reader''"
    "defaultKeyTTL (ce_lib tool_env) (ce_vars tool_env) = Inr 24"
    by (simp_all add: defaultKeyTTL_def tool_env_def)
  have fresh: "\<forall>k. GenerateKey (ce_rnd tool_env) = Inr k \<longrightarrow>
      (\<forall>x \<in> set [bob_entry]. ke_KeyHash x \<notin> set (candidate_hashes tag_digests (cliHasher (ce_vars tool_env)) k))"
    unfolding h by (simp add: bob(2)) (auto simp: tool_env_def GenerateKey_def candidate_hashes_def Candidates_def HashKey_def tag_digests_def)
  have codec: "\<forall>es. Unmarshal plain_codec (Marshal plain_codec es) = Inr es" and q: "quiet calm_io"
    and bobs: "\<forall>x \<in> set [bob_entry]. live x" "distinct (map ke_ID [bob_entry])"
    using bob(1) by (simp_all add: plain_codec_def quiet_def calm_io_def)
  obtain key roles d expt m where "parseRoles (lb_quote (ce_lib tool_env)) (parseFlag ''--roles'' [''--roles'', ''reader'']) = Inr roles"
    "defaultKeyTTL (ce_lib tool_env) (ce_vars tool_env) = Inr d"
    "resolveCLIExpiry (ce_lib tool_env) (parseFlag ''--ttl'' [''--roles'', ''reader'']) d (ce_now tool_env) = Inr expt"
    "NewManagedKeyStoreWithHasher id tag_digests plain_codec calm_io ''keys.json'' (cliHasher (ce_vars tool_env)) fs' = (Inr m, fs')"
    and auth: "\<And>t. authenticate tag_digests t m key = Some (if expt \<noteq> zeroTime \<and> expt \<le> t then Inl ErrKeyExpired
       else Inr \<lparr>cl_ClientID = ''alice'', cl_Roles = roles\<rparr>)"
    using cli_key_served [of tool_env "''alice''" "[''--roles'', ''reader'']" "[''keys.json'' \<mapsto> [bob_entry]]" out fs'
        "[bob_entry]" calm_io id, unfolded tool_env_fields(1,3-5),
        OF run tool_env_fields(2) [unfolded tool_env_fields(5)] codec tool_load bobs proper_tag q fresh]
    by (elim exE conjE) (rule that, assumption+, erule spec)
  moreover have "roles = [''reader'']" "expt = 34"
    using calculation(1-3) unfolding ttl by (simp_all add: reader_role resolveCLIExpiry_def tool_env_fields(6))
  moreover have "authenticate tag_digests 20 m key = Some (Inr \<lparr>cl_ClientID = ''alice'', cl_Roles = [''reader'']\<rparr>)"
    "authenticate tag_digests 40 m key = Some (Inl ErrKeyExpired)"
    unfolding auth using calculation by (simp_all add: zeroTime_def)
  ultimately show ?thesis using run by blast
qed



lemma tool_disable:
  obtains out fs' where "cli_run tool_env [''disable'', ''bob''] [''keys.json'' \<mapsto> [bob_entry]] = (Inr out, fs')"
proof -
  have "ke_ID bob_entry = ''bob''" by (simp add: bob_entry_def)
  then have "cli_run tool_env [''disable'', ''bob''] [''keys.json'' \<mapsto> [bob_entry]]
      = saveAndPrint tool_env ''keys.json'' [bob_entry\<lparr>ke_Enabled := False\<rparr>]
          (''Client '' @ quoted tool_env ''bob'' @ '' '' @ ''disabled'' @ ''.'' @ nl1) [''keys.json'' \<mapsto> [bob_entry]]"
    by (simp add: cli_run_def runSetEnabled_def setEnabled_def editKey_def tool_env_fields tool_load)
  then show thesis using tool_save that by metis
qed

theorem cli_revocation_undone_witness:
  "\<exists>out fs1 su raw m' fs2. cli_run tool_env [''disable'', ''bob''] [''keys.json'' \<mapsto> [bob_entry]] = (Inr out, fs1)
     \<and> Create id tag_digests plain_codec calm_io 5 (Inr ''z'') ''carol'' [''reader''] 0 bob_store fs1 = (Inr (su, raw), m', fs2)
     \<and> fs2 ''keys.json'' = Some (mk_entries m')
     \<and> authenticate tag_digests 7 m' ''bobkey'' = Some (Inr \<lparr>cl_ClientID = ''bob'', cl_Roles = [''reader'']\<rparr>)"
proof (rule tool_disable)
  fix out fs1 assume run: "cli_run tool_env [''disable'', ''bob''] [''keys.json'' \<mapsto> [bob_entry]] = (Inr out, fs1)"
  have bob: "ke_ID bob_entry = ''bob''" "ke_KeyHash bob_entry = EncodeToString (CHR ''s'' # ''bobkey'')"
    "verdict bob_entry 7 = Inr \<lparr>cl_ClientID = ''bob'', cl_Roles = [''reader'']\<rparr>"
    by (simp_all add: bob_entry_def NewKeyEntryWithHasher_def HashForStore_def HashKey_def tag_digests_def verdict_def
        classifyEntry_def IsZero_def)
  have save: "fst (SaveKeysFile plain_codec calm_io ''keys.json'' es fs1) = None" for es
    by (rule calm_SaveKeysFile) simp
  have "fst (Create id tag_digests plain_codec calm_io 5 (Inr ''z'') ''carol'' [''reader''] 0 bob_store fs1)
      = Inr (summarize ((NewKeyEntryWithHasher tag_digests 5 ''carol'' (b64enc urlDigit False ''z'') [''reader''] None)
          \<lparr>ke_ExpiresAt := 0\<rparr>), b64enc urlDigit False ''z'')"
    using bob(1) save by (simp add: Create_def GenerateKey_def Let_def split: prod.splits option.splits) (metis fst_conv option.distinct(1))
  then obtain su m' fs2 where create: "Create id tag_digests plain_codec calm_io 5 (Inr ''z'') ''carol'' [''reader''] 0 bob_store fs1
      = (Inr (su, b64enc urlDigit False ''z''), m', fs2)"
    by (metis prod.collapse)
  have cands: "candidate_hashes tag_digests (mk_hasher bob_store) ''bobkey'' = [EncodeToString (CHR ''s'' # ''bobkey'')]"
    by (simp add: candidate_hashes_def Candidates_def HashKey_def tag_digests_def)
  have other: "fst (HashForStore tag_digests (mk_hasher bob_store) (b64enc urlDigit False ''z''))
      \<notin> set (candidate_hashes tag_digests (mk_hasher bob_store) ''bobkey'')"
    unfolding cands by (simp add: HashForStore_def HashKey_def tag_digests_def)
  have key: "ke_KeyHash bob_entry \<in> set (candidate_hashes tag_digests (mk_hasher bob_store) ''bobkey'')"
    "\<forall>y \<in> set (mk_entries bob_store). ke_KeyHash y \<in> set (candidate_hashes tag_digests (mk_hasher bob_store) ''bobkey'') \<longrightarrow> y = bob_entry"
    unfolding cands bob(2) by simp_all
  have paths: "io_tmpPath (ce_io tool_env) \<noteq> keysFile (ce_vars tool_env)" "mk_path bob_store = keysFile (ce_vars tool_env)"
    "io_tmpPath calm_io \<noteq> mk_path bob_store" "bob_entry \<in> set (mk_entries bob_store)"
    using tool_env_fields(1,2) by (simp_all add: calm_io_def)
  from cli_revocation_undone [OF run paths(1) bob_store_wf paths(2,4) bob(3) key create paths(3) other]
  have "fs2 ''keys.json'' = Some (mk_entries m')"
    "authenticate tag_digests 7 m' ''bobkey'' = Some (Inr \<lparr>cl_ClientID = ''bob'', cl_Roles = [''reader'']\<rparr>)"
    by (simp_all add: plain_codec_def)
  with run create show ?thesis by blast
qed

end
