(* ===== verification/Admin_Bans.thy ===== *)
theory Admin_Bans
  imports Admin
begin

text \<open>
  The ban list end to end: what the administrator writes, how it is spelled in the table, and
  what the write path refuses from then on.
\<close>

section \<open>Spelling of addresses\<close>

lemma asciiLower_hex: "fromHexChar c = Some n \<Longrightarrow> n < 16 \<and> asciiLower c = hexDigit n"
proof -
  assume a: "fromHexChar c = Some n"
  let ?m = "of_char c :: nat"
  have c: "char_of ?m = c" by simp
  from a consider "48 \<le> ?m" "?m \<le> 57" "n = ?m - 48" | "97 \<le> ?m" "?m \<le> 102" "n = ?m - 87"
    | "65 \<le> ?m" "?m \<le> 70" "n = ?m - 55"
    by (auto simp: fromHexChar_def Let_def split: if_splits)
  then show ?thesis
  proof cases
    case 1
    then have "n < 10" "48 + n = ?m" by linarith+
    then have "hexDigit n = char_of ?m" by (simp add: hexDigit_def)
    with 1 \<open>n < 10\<close> c show ?thesis by (simp add: asciiLower_def)
  next
    case 2
    then have "\<not> n < 10" "n < 16" "87 + n = ?m" by linarith+
    then have "hexDigit n = char_of ?m" by (simp add: hexDigit_def)
    with 2 \<open>n < 16\<close> c show ?thesis by (simp add: asciiLower_def)
  next
    case 3
    then have "\<not> n < 10" "n < 16" "87 + n = ?m + 32" by linarith+
    then have "hexDigit n = char_of (?m + 32)" by (simp add: hexDigit_def)
    with 3 \<open>n < 16\<close> show ?thesis by (simp add: asciiLower_def)
  qed
qed

lemma DecodeString_lower: "DecodeString s = Inr bs \<Longrightarrow> map asciiLower s = EncodeToString bs"
proof (induction s arbitrary: bs rule: DecodeString.induct)
  case (3 p q s)
  then obtain x y cs where x: "fromHexChar p = Some x" "fromHexChar q = Some y" "DecodeString s = Inr cs"
    "bs = char_of (16 * x + y) # cs"
    by (auto split: option.splits sum.splits)
  note l = asciiLower_hex [OF x(1)] asciiLower_hex [OF x(2)]
  have "map asciiLower s = EncodeToString cs" using 3 x by auto
  moreover have "(of_char (char_of (16 * x + y) :: char) :: nat) = 16 * x + y" using l by simp
  ultimately show ?case using l x(4) by simp
qed (auto split: option.splits)

lemma AddressFromHex_lower:
  assumes "AddressFromHex s = Some a"
  shows "length a = 20
    \<and> ToLower ul s = (if Has0xPrefix s then ''0x'' @ EncodeToString a else EncodeToString a)"
proof -
  let ?d = "if Has0xPrefix s then drop 2 s else s"
  from assms have "length a = 20" "HexToBytes s = Some a"
    by (auto simp: AddressFromHex_def split: option.splits if_splits)
  then have d: "DecodeString ?d = Inr a" "length a = 20"
    by (auto simp: HexToBytes_def Let_def split: sum.splits if_splits)
  have pre: "isASCII (take 2 s) \<and> map asciiLower (take 2 s) = ''0x''" if "Has0xPrefix s"
    using that by (auto simp: Has0xPrefix_def HasPrefix_def prefix_def isASCII_def asciiLower_def char_of_def bit_0)
  show ?thesis
  proof (cases "Has0xPrefix s")
    case True
    have s: "s = take 2 s @ drop 2 s" by simp
    have "isASCII s"
      using pre [OF True] DecodeString_ASCII [of "drop 2 s"] d True
      by (subst s) (simp add: isASCII_def del: append_take_drop_id)
    moreover have "map asciiLower s = ''0x'' @ EncodeToString a"
      using pre [OF True] DecodeString_lower [of "drop 2 s"] d True
      by (subst s) (simp del: append_take_drop_id)
    ultimately show ?thesis using True d by (simp add: ToLower_def)
  next
    case False
    with d DecodeString_ASCII [of s] DecodeString_lower [of s] show ?thesis by (simp add: ToLower_def)
  qed
qed

lemma ToLower_BytesToHex:
  assumes "length a = 20"
  shows "ToLower ul (BytesToHex a) = BytesToHex a"
  using AddressFromHex_lower [OF AddressFromHex_BytesToHex [OF assms], of ul]
  by (simp add: BytesToHex_def Has0xPrefix_def HasPrefix_def)

lemma signers_map_reason:
  "bl_Signer ` set (map (\<lambda>b. if bl_Signer b = k then b\<lparr>bl_Reason := r\<rparr> else b) rows) = bl_Signer ` set rows"
  by (induction rows) auto

lemma AddBlacklist_ok:
  assumes "handleAddBlacklist cfg env actor (Some req) (s, x) = (resp, (s', x'))" "ad_status resp = 200"
  shows "ac_blacklist cfg \<and> AddressFromHex (br_Signer req) \<noteq> None
    \<and> bl_Signer ` set (db_blacklist (ax_db x'))
        = insert (ToLower (ac_ul cfg) (br_Signer req)) (bl_Signer ` set (db_blacklist (ax_db x)))"
proof -
  have ok: "ac_blacklist cfg" "AddressFromHex (br_Signer req) \<noteq> None"
    "Blacklist_Add (ac_ul cfg) (ae_blErr env) (ae_dbnow env) (br_Signer req) (br_Reason req) (ax_db x)
       = (None, ax_db x')"
    using assms by (auto simp: handleAddBlacklist_def plainError_def recordAdminAudit_def
        split: if_splits prod.splits option.splits)
  let ?k = "ToLower (ac_ul cfg) (br_Signer req)"
  have "bl_Signer ` set (db_blacklist (ax_db x')) = insert ?k (bl_Signer ` set (db_blacklist (ax_db x)))"
  proof (cases "list_ex (\<lambda>b. bl_Signer b = ?k) (db_blacklist (ax_db x))")
    case True
    then have "?k \<in> bl_Signer ` set (db_blacklist (ax_db x))"
      by (auto simp: list_ex_iff intro: rev_image_eqI)
    moreover from ok(3) True have "ax_db x' = (ax_db x)\<lparr>db_blacklist :=
        map (\<lambda>b. if bl_Signer b = ?k then b\<lparr>bl_Reason := br_Reason req\<rparr> else b) (db_blacklist (ax_db x))\<rparr>"
      by (simp add: Blacklist_Add_def Let_def split: option.splits)
    ultimately have "db_blacklist (ax_db x') =
        map (\<lambda>b. if bl_Signer b = ?k then b\<lparr>bl_Reason := br_Reason req\<rparr> else b) (db_blacklist (ax_db x))"
      by simp
    with \<open>?k \<in> _\<close> show ?thesis by (simp only: signers_map_reason insert_absorb)
  next
    case False
    with ok(3) have "ax_db x' = (ax_db x)\<lparr>db_blacklist := db_blacklist (ax_db x)
        @ [\<lparr>bl_Signer = ?k, bl_Reason = br_Reason req, bl_CreatedAt = ae_dbnow env\<rparr>]\<rparr>"
      by (simp add: Blacklist_Add_def Let_def split: option.splits)
    then show ?thesis by simp
  qed
  with ok show ?thesis by blast
qed


section \<open>Properties\<close>

text \<open>
  What a ban covers. When the administration API has accepted a ban for an address
  that was not banned before, the write path sees the address as banned exactly when the
  submitted spelling had the \<^verbatim>\<open>0x\<close> prefix: the handler accepts a bare hexadecimal address as
  well, but files it under a spelling that no recovered signer ever has.
\<close>

theorem ban_effective_iff_prefixed:
  assumes "handleAddBlacklist cfg env actor (Some req) (s, x) = (resp, (s', x'))" "ad_status resp = 200"
    and "AddressFromHex (br_Signer req) = Some a"
    and "BytesToHex a \<notin> bl_Signer ` set (db_blacklist (ax_db x))"
  shows "IsBlacklisted (ac_ul cfg) None (BytesToHex a) (ax_db x') = Inr (Has0xPrefix (br_Signer req))"
proof -
  note a = AddressFromHex_lower [OF assms(3), of "ac_ul cfg"]
  have "length (EncodeToString a) \<noteq> length (BytesToHex a)" by (simp add: BytesToHex_def)
  then have ne: "EncodeToString a \<noteq> BytesToHex a" by metis
  have "IsBlacklisted (ac_ul cfg) None (BytesToHex a) (ax_db x')
      = Inr (BytesToHex a \<in> bl_Signer ` set (db_blacklist (ax_db x')))"
    using a by (auto simp: IsBlacklisted_def list_ex_iff ToLower_BytesToHex intro: rev_image_eqI)
  also have "BytesToHex a \<in> bl_Signer ` set (db_blacklist (ax_db x')) \<longleftrightarrow>
      BytesToHex a = ToLower (ac_ul cfg) (br_Signer req)"
    using AddBlacklist_ok [OF assms(1,2)] assms(4) by simp
  also have "\<dots> \<longleftrightarrow> Has0xPrefix (br_Signer req)"
    using a ne by (auto simp: BytesToHex_def)
  finally show ?thesis .
qed


lemma handler_blacklist:
  "makeSendRawTxHandler ul wc lib env ctx sg w = (res, w') \<Longrightarrow>
     db_blacklist (w_db w') = db_blacklist (w_db w)"
proof (cases "w_sent w' = w_sent w")
  case True
  assume "makeSendRawTxHandler ul wc lib env ctx sg w = (res, w')"
  from handler_refused [OF this True] show ?thesis by simp
next
  case False
  assume "makeSendRawTxHandler ul wc lib env ctx sg w = (res, w')"
  from this False show ?thesis by (rule handler_sent) (simp add: broadcast_frame)
qed



section \<open>Witnesses\<close>

text \<open>A ban of the signer of \<open>one_tx\<close>, spelled with and without the prefix.\<close>

definition prefixed_ban :: addBlacklistRequest where
  "prefixed_ban = \<lparr>br_Signer = BytesToHex signer_addr, br_Reason = ''abuse''\<rparr>"

definition bare_ban :: addBlacklistRequest where
  "bare_ban = \<lparr>br_Signer = EncodeToString signer_addr, br_Reason = ''abuse''\<rparr>"

lemma bare_spelling: "\<not> Has0xPrefix (EncodeToString signer_addr)"
proof -
  have "replicate 20 c = c # replicate 19 c" for c :: char by (simp add: numeral_eq_Suc)
  then have "EncodeToString signer_addr
      = hexDigit 10 # hexDigit 11 # EncodeToString (replicate 19 (char_of (171 :: nat)))"
    by (simp only: signer_addr_def EncodeToString.simps of_char_of) simp
  then show ?thesis by (simp add: Has0xPrefix_def HasPrefix_def hexDigit_def char_of_def bit_0)
qed

lemma bare_parses: "AddressFromHex (EncodeToString signer_addr) = Some signer_addr"
proof -
  have len: "length (EncodeToString signer_addr) = 40"
    by (simp add: length_EncodeToString signer_addr_def)
  then have "EncodeToString signer_addr \<noteq> ''0''" "EncodeToString signer_addr \<noteq> []" by auto
  with len bare_spelling show ?thesis
    by (simp add: AddressFromHex_def HexToBytes_def go_simps) (simp add: signer_addr_def)
qed

theorem ban_effective_iff_prefixed_witness:
  "\<exists>st. handleAddBlacklist demo_admin demo_admin_env ''admin'' (Some bare_ban) ((), demo_aux)
      = (\<lparr>ad_status = 200, ad_body = B_None\<rparr>, ((), st))
    \<and> IsBlacklisted id None (BytesToHex signer_addr) (ax_db st) = Inr False"
proof -
  obtain resp s' st where r: "handleAddBlacklist demo_admin demo_admin_env ''admin'' (Some bare_ban) ((), demo_aux)
      = (resp, (s', st))" by (metis prod_cases3)
  then have ok: "resp = \<lparr>ad_status = 200, ad_body = B_None\<rparr>"
    by (auto simp: handleAddBlacklist_def demo_admin_def bare_ban_def bare_parses Blacklist_Add_def
        demo_admin_env_def Let_def)
  have p: "AddressFromHex (br_Signer bare_ban) = Some signer_addr" "\<not> Has0xPrefix (br_Signer bare_ban)"
    by (simp_all add: bare_ban_def bare_parses bare_spelling)
  have "BytesToHex signer_addr \<notin> bl_Signer ` set (db_blacklist (ax_db demo_aux))"
    by (simp add: demo_aux_def)
  from ban_effective_iff_prefixed [OF r _ p(1) this] ok p(2) r show ?thesis
    by (simp add: demo_admin_def)
qed


end
